(* ===== verification/Prelude.thy ===== *)
theory Prelude
  imports Main "HOL-Library.State_Monad" "HOL-Library.AList"
begin

text \<open>
  The vocabulary every component of the development shares: the weakest-precondition
  calculus for the state monad in which the Go functions with effects are written, the parts
  of Go's \<open>strings\<close>, \<open>strconv\<close>, \<open>fmt\<close> and \<open>time\<close> packages that the sources use, and the
  lemmas on strings from which the Redis key lemmas follow.  Strings are Go strings: lists of
  bytes.  Durations and instants are numbers of nanoseconds, as in \<open>time.Duration\<close>.
\<close>

named_theorems wp_intro "weakest-precondition rules, one per program construct"
named_theorems redis_post "the effects that the documentation of a Redis command promises"
named_theorems touches_intro "which keys a computation may write, one rule per construct"
named_theorems key_simps "equality of Redis keys"

section \<open>The state monad and its weakest preconditions\<close>

abbreviation ret :: "'a \<Rightarrow> ('s, 'a) state" where
  "ret \<equiv> State_Monad.return"

definition wp :: "('s, 'a) state \<Rightarrow> ('a \<Rightarrow> 's \<Rightarrow> bool) \<Rightarrow> 's \<Rightarrow> bool" where
  "wp m Q s = (case run_state m s of (a, s') \<Rightarrow> Q a s')"

lemma wpI: "(\<And>a s'. run_state m s = (a, s') \<Longrightarrow> Q a s') \<Longrightarrow> wp m Q s"
  by (simp add: wp_def split: prod.splits)

lemma wpD: "wp m Q s \<Longrightarrow> run_state m s = (a, s') \<Longrightarrow> Q a s'"
  by (simp add: wp_def)

lemma run_eq: "fst (run_state m s) = a \<Longrightarrow> run_state m s = (a, snd (run_state m s))"
  by (metis prod.collapse)

lemma wp_run: "run_state m s = (a, t) \<Longrightarrow> Q a t \<Longrightarrow> wp m Q s"
  by (simp add: wp_def)

lemma wp_result: "wp m (\<lambda>x _. fst (run_state m s) = x) s"
  by (rule wpI) simp

lemma wp_mono: "wp m P s \<Longrightarrow> (\<And>a s'. P a s' \<Longrightarrow> Q a s') \<Longrightarrow> wp m Q s"
  by (simp add: wp_def split: prod.splits)

lemma wp_any: "(\<And>a t. Q a t) \<Longrightarrow> wp m Q s"
  by (simp add: wp_def split: prod.splits)

lemma wp_conj: "wp m P s \<Longrightarrow> wp m Q s \<Longrightarrow> wp m (\<lambda>a s'. P a s' \<and> Q a s') s"
  by (simp add: wp_def split: prod.splits)

lemma wp_return [wp_intro]: "Q a s \<Longrightarrow> wp (State_Monad.return a) Q s"
  by (simp add: wp_def)

lemma wp_bind [wp_intro]: "wp m (\<lambda>a. wp (f a) Q) s \<Longrightarrow> wp (m \<bind> f) Q s"
  by (simp add: wp_def split: prod.splits)

lemma wp_bind_iff: "wp (m \<bind> f) Q s \<longleftrightarrow> wp m (\<lambda>a. wp (f a) Q) s"
  by (simp add: wp_def split: prod.splits)

lemma wp_if [wp_intro]:
  "(b \<Longrightarrow> wp m Q s) \<Longrightarrow> (\<not> b \<Longrightarrow> wp n Q s) \<Longrightarrow> wp (if b then m else n) Q s"
  by simp

lemma wp_Let [wp_intro]: "(\<And>x. x = t \<Longrightarrow> wp (f x) Q s) \<Longrightarrow> wp (let x = t in f x) Q s"
  by simp

lemma wp_case_sum [wp_intro]:
  "(\<And>e. x = Inl e \<Longrightarrow> wp (f e) Q s) \<Longrightarrow> (\<And>v. x = Inr v \<Longrightarrow> wp (g v) Q s) \<Longrightarrow>
   wp (case_sum f g x) Q s"
  by (cases x) simp_all

lemma wp_case_option [wp_intro]:
  "(x = None \<Longrightarrow> wp m Q s) \<Longrightarrow> (\<And>v. x = Some v \<Longrightarrow> wp (g v) Q s) \<Longrightarrow>
   wp (case_option m g x) Q s"
  by (cases x) simp_all

lemma wp_case_prod [wp_intro]:
  "(\<And>a b. x = (a, b) \<Longrightarrow> wp (f a b) Q s) \<Longrightarrow> wp (case_prod f x) Q s"
  by (cases x) simp_all

lemma wp_get [wp_intro]: "Q s s \<Longrightarrow> wp State_Monad.get Q s"
  by (simp add: wp_def)

lemma wp_set [wp_intro]: "Q () t \<Longrightarrow> wp (State_Monad.set t) Q s"
  by (simp add: wp_def)

text \<open>
  A \<open>for\<close> loop over a slice whose body returns nothing is a fold of the body; an invariant of
  the body is an invariant of the loop.
\<close>

fun for_each :: "'a list \<Rightarrow> ('a \<Rightarrow> ('s, unit) state) \<Rightarrow> ('s, unit) state" where
  "for_each [] f = ret ()"
| "for_each (x # xs) f = do { f x; for_each xs f }"

lemma wp_for_each:
  assumes "I s" and "\<And>x s. x \<in> set xs \<Longrightarrow> I s \<Longrightarrow> wp (f x) (\<lambda>_. I) s"
  shows "wp (for_each xs f) (\<lambda>_. I) s"
  using assms
proof (induction xs arbitrary: s)
  case Nil
  then show ?case by (auto intro: wp_intro)
next
  case (Cons x xs)
  have "wp (f x) (\<lambda>_. I) s" using Cons.prems by simp
  then have "wp (f x) (\<lambda>_. wp (for_each xs f) (\<lambda>_. I)) s"
    by (rule wp_mono) (use Cons in auto)
  then show ?case by (auto intro: wp_intro)
qed

text \<open>The same with an index: each step may depend on what the earlier ones established.\<close>

lemma wp_for_each_step:
  assumes "P xs s" and "\<And>x ys s. P (x # ys) s \<Longrightarrow> wp (f x) (\<lambda>_. P ys) s"
  shows "wp (for_each xs f) (\<lambda>_. P []) s"
  using assms(1)
proof (induction xs arbitrary: s)
  case Nil
  then show ?case by (auto intro: wp_intro)
next
  case (Cons x xs)
  have "wp (f x) (\<lambda>_. P xs) s" using Cons.prems by (rule assms(2))
  then have "wp (f x) (\<lambda>_. wp (for_each xs f) (\<lambda>_. P [])) s"
    by (rule wp_mono) (rule Cons.IH)
  then show ?case by (auto intro: wp_intro)
qed

section \<open>Integers at their width\<close>

text \<open>\<open>int64\<close> arithmetic wraps around: the value of a result that does not fit.\<close>

definition wrap64 :: "int \<Rightarrow> int" where
  "wrap64 x = (x + 2 ^ 63) mod 2 ^ 64 - 2 ^ 63"

lemma wrap64_id: "- (2 ^ 63) \<le> x \<Longrightarrow> x < 2 ^ 63 \<Longrightarrow> wrap64 x = x"
  by (simp add: wrap64_def)

lemma wrap64_range: "- (2 ^ 63) \<le> wrap64 x \<and> wrap64 x < 2 ^ 63"
proof -
  have "0 \<le> (x + 2 ^ 63) mod 2 ^ 64" and "(x + 2 ^ 63) mod 2 ^ 64 < (2 ^ 64 :: int)" by simp_all
  then show ?thesis by (simp add: wrap64_def)
qed

section \<open>Durations\<close>

type_synonym duration = int
type_synonym instant = int

abbreviation second :: duration where "second \<equiv> 1000000000"
abbreviation minute :: duration where "minute \<equiv> 60000000000"
abbreviation hour :: duration where "hour \<equiv> 3600000000000"

end
