(* ===== verification/GoStrings.thy ===== *)
theory GoStrings
  imports Prelude
begin

text \<open>
  The functions of Go's \<open>strings\<close>, \<open>strconv\<close> and \<open>fmt\<close> packages that the sources call, on
  byte strings, with the lemmas that relate them: joining and splitting at a separator are
  inverse, and decimal printing and parsing are.
\<close>

section \<open>Prefixes, suffixes and searching\<close>

definition HasPrefix :: "string \<Rightarrow> string \<Rightarrow> bool" where
  "HasPrefix s p = (take (length p) s = p)"

definition TrimPrefix :: "string \<Rightarrow> string \<Rightarrow> string" where
  "TrimPrefix s p = (if HasPrefix s p then drop (length p) s else s)"

definition HasSuffix :: "string \<Rightarrow> string \<Rightarrow> bool" where
  "HasSuffix s p = (length p \<le> length s \<and> drop (length s - length p) s = p)"

definition TrimSuffix :: "string \<Rightarrow> string \<Rightarrow> string" where
  "TrimSuffix s p = (if HasSuffix s p then take (length s - length p) s else s)"

fun Contains :: "string \<Rightarrow> string \<Rightarrow> bool" where
  "Contains [] p = (p = [])"
| "Contains (c # s) p = (HasPrefix (c # s) p \<or> Contains s p)"

lemma HasPrefix_append [simp]: "HasPrefix (p @ s) p"
  by (simp add: HasPrefix_def)

lemma HasPrefix_iff: "HasPrefix s p \<longleftrightarrow> (\<exists>r. s = p @ r)"
  unfolding HasPrefix_def by (metis append_eq_conv_conj append_take_drop_id)

lemma TrimPrefix_append [simp]: "TrimPrefix (p @ s) p = s"
  by (simp add: TrimPrefix_def)

lemma HasSuffix_append [simp]: "HasSuffix (s @ p) p"
  by (simp add: HasSuffix_def)

lemma HasSuffix_iff: "HasSuffix s p \<longleftrightarrow> (\<exists>r. s = r @ p)"
proof
  assume "HasSuffix s p"
  then have "s = take (length s - length p) s @ p"
    by (metis HasSuffix_def append_take_drop_id)
  then show "\<exists>r. s = r @ p" ..
qed auto

lemma TrimSuffix_append [simp]: "TrimSuffix (s @ p) p = s"
  by (simp add: TrimSuffix_def)

section \<open>Splitting at a one-byte separator\<close>

text \<open>\<open>before c s\<close> and \<open>after c s\<close> cut at the first occurrence of \<open>c\<close>.\<close>

definition before :: "char \<Rightarrow> string \<Rightarrow> string" where
  "before c s = takeWhile (\<lambda>x. x \<noteq> c) s"

definition after :: "char \<Rightarrow> string \<Rightarrow> string" where
  "after c s = tl (dropWhile (\<lambda>x. x \<noteq> c) s)"

lemma length_after: "c \<in> set s \<Longrightarrow> length (after c s) < length s"
  unfolding after_def
  by (induction s) (auto simp: length_dropWhile_le le_imp_less_Suc)

text \<open>\<open>strings.SplitN(s, sep, n)\<close> for positive \<open>n\<close>, and \<open>strings.Split(s, sep)\<close>.\<close>

fun SplitN :: "string \<Rightarrow> char \<Rightarrow> nat \<Rightarrow> string list" where
  "SplitN s c 0 = []"
| "SplitN s c (Suc 0) = [s]"
| "SplitN s c (Suc (Suc n)) =
     (if c \<in> set s then before c s # SplitN (after c s) c (Suc n) else [s])"

function Split :: "string \<Rightarrow> char \<Rightarrow> string list" where
  "Split s c = (if c \<in> set s then before c s # Split (after c s) c else [s])"
  by pat_completeness auto
termination
  by (relation "measure (\<lambda>(s, c). length s)") (auto simp: length_after)

declare Split.simps [simp del]

lemma before_append: "c \<notin> set a \<Longrightarrow> before c (a @ c # b) = a"
  by (induction a) (auto simp: before_def)

lemma after_append: "c \<notin> set a \<Longrightarrow> after c (a @ c # b) = b"
  by (induction a) (auto simp: after_def)

lemma SplitN_append:
  "c \<notin> set a \<Longrightarrow> SplitN (a @ c # b) c (Suc (Suc n)) = a # SplitN b c (Suc n)"
  by (simp add: before_append after_append)

lemma Split_append: "c \<notin> set a \<Longrightarrow> Split (a @ c # b) c = a # Split b c"
  by (subst Split.simps) (simp add: before_append after_append)

lemma Split_single: "c \<notin> set a \<Longrightarrow> Split a c = [a]"
  by (subst Split.simps) simp

fun Join :: "string list \<Rightarrow> string \<Rightarrow> string" where
  "Join [] sep = []"
| "Join [x] sep = x"
| "Join (x # y # ys) sep = x @ sep @ Join (y # ys) sep"

lemma Split_Join:
  "xs \<noteq> [] \<Longrightarrow> \<forall>x\<in>set xs. c \<notin> set x \<Longrightarrow> Split (Join xs [c]) c = xs"
  by (induction xs "[c]" rule: Join.induct) (auto simp: Split_append Split_single)

section \<open>Trimming white space\<close>

text \<open>
  \<open>strings.TrimSpace\<close> on the ASCII white space (tab, newline, vertical tab, form feed,
  carriage return, space); the two Latin-1 and the wider Unicode spaces are not considered.
\<close>

definition is_space :: "char \<Rightarrow> bool" where
  "is_space c = (of_char c = (32::nat) \<or> (9 \<le> (of_char c :: nat) \<and> (of_char c :: nat) \<le> 13))"

definition TrimSpace :: "string \<Rightarrow> string" where
  "TrimSpace s = rev (dropWhile is_space (rev (dropWhile is_space s)))"

lemma TrimSpace_id: "\<forall>c\<in>set s. \<not> is_space c \<Longrightarrow> TrimSpace s = s"
proof -
  assume a: "\<forall>c\<in>set s. \<not> is_space c"
  have keep: "dropWhile is_space t = t" if "\<forall>c\<in>set t. \<not> is_space c" for t
    using that by (cases t) auto
  from a show ?thesis by (simp add: TrimSpace_def keep)
qed

section \<open>Decimal numbers\<close>

definition digit_char :: "nat \<Rightarrow> char" where
  "digit_char d = char_of (48 + d)"

definition char_digit :: "char \<Rightarrow> nat option" where
  "char_digit c = (let n = of_char c in if 48 \<le> n \<and> n \<le> (57::nat) then Some (n - 48) else None)"

lemma char_digit_digit_char [simp]: "d < 10 \<Longrightarrow> char_digit (digit_char d) = Some d"
  by (simp add: char_digit_def digit_char_def of_char_of)

fun show_nat :: "nat \<Rightarrow> string" where
  "show_nat n = (if n < 10 then [digit_char n] else show_nat (n div 10) @ [digit_char (n mod 10)])"

declare show_nat.simps [simp del]

fun read_nat :: "nat \<Rightarrow> string \<Rightarrow> nat option" where
  "read_nat acc [] = Some acc"
| "read_nat acc (c # s) = (case char_digit c of None \<Rightarrow> None | Some d \<Rightarrow> read_nat (10 * acc + d) s)"

lemma read_nat_snoc:
  "d < 10 \<Longrightarrow> read_nat acc (s @ [digit_char d]) = map_option (\<lambda>n. 10 * n + d) (read_nat acc s)"
  by (induction s arbitrary: acc) (auto split: option.splits)

lemma read_show_nat: "read_nat 0 (show_nat n) = Some n"
proof (induction n rule: show_nat.induct)
  case (1 n)
  show ?case
  proof (cases "n < 10")
    case True
    then show ?thesis by (subst show_nat.simps) simp
  next
    case False
    with 1 show ?thesis by (subst show_nat.simps) (simp add: read_nat_snoc)
  qed
qed

lemma show_nat_nonempty [simp]: "show_nat n \<noteq> []"
  by (subst show_nat.simps) simp

lemma show_nat_hd_digit: "char_digit (hd (show_nat n)) \<noteq> None"
proof (induction n rule: show_nat.induct)
  case (1 n)
  then show ?case by (subst show_nat.simps) (auto simp: hd_append)
qed

text \<open>The \<open>%d\<close> verb and \<open>strconv.Itoa\<close>; \<open>strconv.ParseInt\<close> in base ten, on
  numbers that fit \<open>int64\<close>, as all counters do.\<close>

definition itoa :: "int \<Rightarrow> string" where
  "itoa i = (if i < 0 then CHR ''-'' # show_nat (nat (- i)) else show_nat (nat i))"

definition atoi :: "string \<Rightarrow> int option" where
  "atoi s = (case s of [] \<Rightarrow> None
     | c # t \<Rightarrow>
       if c = CHR ''-'' then (if t = [] then None else map_option (\<lambda>n. - int n) (read_nat 0 t))
       else if c = CHR ''+'' then (if t = [] then None else map_option int (read_nat 0 t))
       else map_option int (read_nat 0 s))"

lemma atoi_itoa [simp]: "atoi (itoa i) = Some i"
proof (cases "i < 0")
  case True
  then show ?thesis by (simp add: itoa_def atoi_def read_show_nat)
next
  case False
  obtain c t where ct: "show_nat (nat i) = c # t" by (cases "show_nat (nat i)") simp_all
  then have "char_digit c \<noteq> None" using show_nat_hd_digit[of "nat i"] by simp
  then have "c \<noteq> CHR ''-''" and "c \<noteq> CHR ''+''" by (auto simp: char_digit_def)
  moreover have "read_nat 0 (c # t) = Some (nat i)" using read_show_nat[of "nat i"] ct by simp
  ultimately show ?thesis using False ct by (simp add: itoa_def atoi_def del: read_nat.simps)
qed

lemma itoa_inject [simp]: "itoa i = itoa j \<longleftrightarrow> i = j"
  by (metis atoi_itoa option.inject)

lemma itoa_nonempty [simp]: "itoa i \<noteq> []"
  by (simp add: itoa_def)

text \<open>The same on integers in binary, for evaluation.\<close>

function show_int :: "int \<Rightarrow> string" where
  "show_int i = (if i < 10 then [digit_char (nat i)] else show_int (i div 10) @ [digit_char (nat (i mod 10))])"
  by auto
termination by (relation "measure nat") auto

declare show_int.simps [simp del]

lemma show_int_nat: "0 \<le> i \<Longrightarrow> show_nat (nat i) = show_int i"
proof (induction i rule: show_int.induct)
  case (1 i)
  then show ?case
    by (subst show_int.simps, subst show_nat.simps) (auto simp: nat_div_distrib nat_mod_distrib)
qed

lemma itoa_code [code]: "itoa i = (if i < 0 then CHR ''-'' # show_int (- i) else show_int i)"
  by (simp add: itoa_def show_int_nat)

fun read_int :: "int \<Rightarrow> string \<Rightarrow> int option" where
  "read_int acc [] = Some acc"
| "read_int acc (c # s) = (case char_digit c of None \<Rightarrow> None | Some d \<Rightarrow> read_int (10 * acc + int d) s)"

lemma read_int_nat: "map_option int (read_nat n s) = read_int (int n) s"
  by (induction s arbitrary: n) (auto split: option.splits)

lemma atoi_code [code]: "atoi s = (case s of [] \<Rightarrow> None
     | c # t \<Rightarrow>
       if c = CHR ''-'' then (if t = [] then None else map_option uminus (read_int 0 t))
       else if c = CHR ''+'' then (if t = [] then None else read_int 0 t)
       else read_int 0 s)"
proof -
  have r: "read_int 0 t = map_option int (read_nat 0 t)" for t
    using read_int_nat[of 0 t] by simp
  show ?thesis
    by (cases s) (simp_all add: atoi_def r option.map_comp comp_def del: read_nat.simps read_int.simps)
qed

text \<open>The \<open>%06d\<close> verb on a number that is not negative.\<close>

definition itoa06 :: "nat \<Rightarrow> string" where
  "itoa06 n = (let s = show_nat n in replicate (6 - length s) (CHR ''0'') @ s)"

section \<open>Letter case\<close>

definition lower :: "char \<Rightarrow> char" where
  "lower c = (let n = of_char c :: nat in if 65 \<le> n \<and> n \<le> 90 then char_of (n + 32) else c)"

text \<open>\<open>strings.EqualFold\<close> against an ASCII word without the letters k and s.\<close>

definition EqualFold :: "string \<Rightarrow> string \<Rightarrow> bool" where
  "EqualFold s t = (map lower s = map lower t)"

end
