(* ===== verification/RedisServer.thy ===== *)
theory RedisServer
  imports GoStrings
begin

text \<open>
  The Redis server and the go-redis client, as the code relies on them.  Neither is part of
  the repository, so every command is a field of \<open>redis_api\<close>, an argument of all the
  definitions that use it; the locale \<open>redis_server\<close> states what the documentation of the
  commands promises.  A command may fail at any time (a network error), may take time, and a
  key that has reached its expiry is invisible to every command.  \<open>ref_redis\<close> is one server
  that keeps the promises, on which witnesses are evaluated.
\<close>

section \<open>The data a server holds\<close>

datatype rval = RStr string | RHash "(string \<times> string) list" | RSet "string list"

text \<open>
  The last value written under a key with its expiry instant, if it has one.  An expired entry
  may stay in this table: what a command sees of it is decided by \<open>entry_at\<close>.
\<close>

type_synonym rentry = "rval \<times> instant option"

record redis =
  rdata :: "string \<Rightarrow> rentry option"
  rnow :: instant

datatype rerr = RNil | RFail string

definition expired :: "instant \<Rightarrow> rentry \<Rightarrow> bool" where
  "expired t e = (case snd e of None \<Rightarrow> False | Some x \<Rightarrow> x \<le> t)"

definition entry_at :: "instant \<Rightarrow> (string \<Rightarrow> rentry option) \<Rightarrow> string \<Rightarrow> rentry option" where
  "entry_at t d k = (case d k of None \<Rightarrow> None | Some e \<Rightarrow> if expired t e then None else Some e)"

abbreviation entry :: "redis \<Rightarrow> string \<Rightarrow> rentry option" where
  "entry r \<equiv> entry_at (rnow r) (rdata r)"

definition live :: "redis \<Rightarrow> string \<Rightarrow> rval option" where
  "live r k = map_option fst (entry r k)"

text \<open>\<open>SET\<close> with expiration 0 stores without expiry; every use in the sources is positive.\<close>

definition expiry_after :: "instant \<Rightarrow> duration \<Rightarrow> instant option" where
  "expiry_after t d = (if d = 0 then None else Some (t + d))"

section \<open>The commands\<close>

record redis_api =
  r_get :: "string \<Rightarrow> (redis, rerr + string) state"
  r_set :: "string \<Rightarrow> string \<Rightarrow> duration \<Rightarrow> (redis, rerr option) state"
  r_del :: "string list \<Rightarrow> (redis, rerr option) state"
  r_expire :: "string \<Rightarrow> duration \<Rightarrow> (redis, rerr option) state"
  r_exists :: "string \<Rightarrow> (redis, rerr + int) state"
  r_incr :: "string \<Rightarrow> (redis, rerr + int) state"
  r_hset :: "string \<Rightarrow> (string \<times> string) list \<Rightarrow> (redis, rerr option) state"
  r_hget :: "string \<Rightarrow> string \<Rightarrow> (redis, rerr + string) state"
  r_hgetall :: "string \<Rightarrow> (redis, rerr + (string \<times> string) list) state"
  r_sadd :: "string \<Rightarrow> string \<Rightarrow> (redis, rerr option) state"
  r_srem :: "string \<Rightarrow> string \<Rightarrow> (redis, rerr option) state"
  r_smembers :: "string \<Rightarrow> (redis, rerr + string list) state"
  r_scard :: "string \<Rightarrow> (redis, rerr + int) state"
  r_ttl :: "string \<Rightarrow> (redis, rerr + duration) state"
  r_scan :: "nat \<Rightarrow> string \<Rightarrow> nat \<Rightarrow> (redis, rerr + (string list \<times> nat)) state"

section \<open>What the documentation promises\<close>

definition reads :: "redis \<Rightarrow> redis \<Rightarrow> bool" where
  "reads r r' \<longleftrightarrow> rdata r' = rdata r \<and> rnow r \<le> rnow r'"

definition writes :: "string set \<Rightarrow> redis \<Rightarrow> redis \<Rightarrow> bool" where
  "writes K r r' \<longleftrightarrow> (\<forall>k. k \<notin> K \<longrightarrow> rdata r' k = rdata r k) \<and> rnow r \<le> rnow r'"

definition get_post :: "string \<Rightarrow> redis \<Rightarrow> rerr + string \<Rightarrow> redis \<Rightarrow> bool" where
  "get_post k r a r' \<longleftrightarrow> reads r r' \<and>
     (case a of Inr v \<Rightarrow> live r' k = Some (RStr v) | Inl RNil \<Rightarrow> live r' k = None
      | Inl (RFail _) \<Rightarrow> True)"

definition set_post :: "string \<Rightarrow> string \<Rightarrow> duration \<Rightarrow> redis \<Rightarrow> rerr option \<Rightarrow> redis \<Rightarrow> bool" where
  "set_post k v d r a r' \<longleftrightarrow> writes {k} r r' \<and>
     (rdata r' k = rdata r k \<or> rdata r' k = Some (RStr v, expiry_after (rnow r') d)) \<and>
     (a = None \<longrightarrow> rdata r' k = Some (RStr v, expiry_after (rnow r') d))"

definition del_post :: "string list \<Rightarrow> redis \<Rightarrow> rerr option \<Rightarrow> redis \<Rightarrow> bool" where
  "del_post ks r a r' \<longleftrightarrow> writes (set ks) r r' \<and>
     (\<forall>k\<in>set ks. rdata r' k = None \<or> rdata r' k = rdata r k) \<and>
     (a = None \<longrightarrow> (\<forall>k\<in>set ks. rdata r' k = None))"

definition expire_post :: "string \<Rightarrow> duration \<Rightarrow> redis \<Rightarrow> rerr option \<Rightarrow> redis \<Rightarrow> bool" where
  "expire_post k d r a r' \<longleftrightarrow> writes {k} r r' \<and>
     (rdata r' k = rdata r k \<or>
      rdata r' k = map_option (\<lambda>(v, _). (v, Some (rnow r' + d))) (entry_at (rnow r') (rdata r) k)) \<and>
     (a = None \<longrightarrow>
      rdata r' k = map_option (\<lambda>(v, _). (v, Some (rnow r' + d))) (entry_at (rnow r') (rdata r) k))"

definition exists_post :: "string \<Rightarrow> redis \<Rightarrow> rerr + int \<Rightarrow> redis \<Rightarrow> bool" where
  "exists_post k r a r' \<longleftrightarrow> reads r r' \<and>
     (case a of Inr n \<Rightarrow> n = (if live r' k = None then 0 else 1) | Inl _ \<Rightarrow> True)"

definition incr_value :: "rentry option \<Rightarrow> int \<Rightarrow> rentry option \<Rightarrow> bool" where
  "incr_value old n new = (case old of
       None \<Rightarrow> n = 1 \<and> new = Some (RStr (itoa 1), None)
     | Some (RStr s, x) \<Rightarrow> atoi s = Some (n - 1) \<and> new = Some (RStr (itoa n), x)
     | _ \<Rightarrow> False)"

definition incr_post :: "string \<Rightarrow> redis \<Rightarrow> rerr + int \<Rightarrow> redis \<Rightarrow> bool" where
  "incr_post k r a r' \<longleftrightarrow> writes {k} r r' \<and>
     (case a of Inr n \<Rightarrow> incr_value (entry_at (rnow r') (rdata r) k) n (rdata r' k)
      | Inl _ \<Rightarrow> rdata r' k = rdata r k \<or>
          (\<exists>n. incr_value (entry_at (rnow r') (rdata r) k) n (rdata r' k)))"

definition hash_of :: "rentry option \<Rightarrow> (string \<times> string) list option" where
  "hash_of e = (case e of None \<Rightarrow> Some [] | Some (RHash h, _) \<Rightarrow> Some h | _ \<Rightarrow> None)"

definition set_of :: "rentry option \<Rightarrow> string list option" where
  "set_of e = (case e of None \<Rightarrow> Some [] | Some (RSet xs, _) \<Rightarrow> Some xs | _ \<Rightarrow> None)"

definition expiry_of :: "rentry option \<Rightarrow> instant option" where
  "expiry_of e = (case e of None \<Rightarrow> None | Some (_, x) \<Rightarrow> x)"

fun updates :: "(string \<times> string) list \<Rightarrow> (string \<times> string) list \<Rightarrow> (string \<times> string) list" where
  "updates [] h = h"
| "updates ((f, v) # fs) h = updates fs (AList.update f v h)"

definition hset_post ::
    "string \<Rightarrow> (string \<times> string) list \<Rightarrow> redis \<Rightarrow> rerr option \<Rightarrow> redis \<Rightarrow> bool" where
  "hset_post k fs r a r' \<longleftrightarrow> writes {k} r r' \<and>
     (let e = entry_at (rnow r') (rdata r) k in
      let written = (\<exists>h. hash_of e = Some h \<and> rdata r' k = Some (RHash (updates fs h), expiry_of e))
      in (written \<or> rdata r' k = rdata r k) \<and> (a = None \<longrightarrow> written))"

definition hget_post :: "string \<Rightarrow> string \<Rightarrow> redis \<Rightarrow> rerr + string \<Rightarrow> redis \<Rightarrow> bool" where
  "hget_post k f r a r' \<longleftrightarrow> reads r r' \<and>
     (case a of Inr v \<Rightarrow> \<exists>h. live r' k = Some (RHash h) \<and> map_of h f = Some v
      | Inl RNil \<Rightarrow> live r' k = None \<or> (\<exists>h. live r' k = Some (RHash h) \<and> map_of h f = None)
      | Inl (RFail _) \<Rightarrow> True)"

definition hgetall_post ::
    "string \<Rightarrow> redis \<Rightarrow> rerr + (string \<times> string) list \<Rightarrow> redis \<Rightarrow> bool" where
  "hgetall_post k r a r' \<longleftrightarrow> reads r r' \<and>
     (case a of Inr m \<Rightarrow> \<exists>h. hash_of (entry r' k) = Some h \<and> map_of m = map_of h | Inl _ \<Rightarrow> True)"

text \<open>
  A set that loses its last member is a key that is gone; a set that gains its first one is a
  new key without expiry.
\<close>

definition sadd_post :: "string \<Rightarrow> string \<Rightarrow> redis \<Rightarrow> rerr option \<Rightarrow> redis \<Rightarrow> bool" where
  "sadd_post k x r a r' \<longleftrightarrow> writes {k} r r' \<and>
     (let e = entry_at (rnow r') (rdata r) k in
      let added = (\<exists>xs. set_of e = Some xs \<and> rdata r' k = Some (RSet (List.insert x xs), expiry_of e))
      in (added \<or> rdata r' k = rdata r k) \<and> (a = None \<longrightarrow> added))"

definition srem_post :: "string \<Rightarrow> string \<Rightarrow> redis \<Rightarrow> rerr option \<Rightarrow> redis \<Rightarrow> bool" where
  "srem_post k x r a r' \<longleftrightarrow> writes {k} r r' \<and>
     (let e = entry_at (rnow r') (rdata r) k in
      let gone = (\<exists>xs. set_of e = Some xs \<and>
            rdata r' k = (if removeAll x xs = [] then None
                          else Some (RSet (removeAll x xs), expiry_of e)))
      in (gone \<or> rdata r' k = rdata r k) \<and> (a = None \<longrightarrow> gone))"

definition smembers_post :: "string \<Rightarrow> redis \<Rightarrow> rerr + string list \<Rightarrow> redis \<Rightarrow> bool" where
  "smembers_post k r a r' \<longleftrightarrow> reads r r' \<and>
     (case a of Inr ys \<Rightarrow> \<exists>xs. set_of (entry r' k) = Some xs \<and> set ys = set xs | Inl _ \<Rightarrow> True)"

definition scard_post :: "string \<Rightarrow> redis \<Rightarrow> rerr + int \<Rightarrow> redis \<Rightarrow> bool" where
  "scard_post k r a r' \<longleftrightarrow> reads r r' \<and>
     (case a of Inr n \<Rightarrow> \<exists>xs. set_of (entry r' k) = Some xs \<and> n = int (card (set xs)) | Inl _ \<Rightarrow> True)"

text \<open>
  go-redis returns -2 (nanoseconds) for a missing key and -1 for a key without expiry; the
  remaining time is given in seconds, rounded, so it is positive from half a second on.
\<close>

definition ttl_post :: "string \<Rightarrow> redis \<Rightarrow> rerr + duration \<Rightarrow> redis \<Rightarrow> bool" where
  "ttl_post k r a r' \<longleftrightarrow> reads r r' \<and>
     (case a of Inl _ \<Rightarrow> True | Inr t \<Rightarrow> (case entry r' k of
         None \<Rightarrow> t = -2
       | Some (_, None) \<Rightarrow> t = -1
       | Some (_, Some x) \<Rightarrow> 0 \<le> t \<and> (second div 2 \<le> x - rnow r' \<longrightarrow> 0 < t)))"

text \<open>
  A step of \<open>SCAN\<close> with the pattern \<open>p*\<close> returns keys that begin with \<open>p\<close> and are there: keys
  that have expired are not returned.
\<close>

definition scan_post ::
    "string \<Rightarrow> redis \<Rightarrow> rerr + (string list \<times> nat) \<Rightarrow> redis \<Rightarrow> bool" where
  "scan_post p r a r' \<longleftrightarrow> reads r r' \<and>
     (case a of Inr (ks, c) \<Rightarrow> \<forall>k\<in>set ks. HasPrefix k p \<and> entry r' k \<noteq> None | Inl _ \<Rightarrow> True)"

lemmas redis_posts = get_post_def set_post_def del_post_def expire_post_def exists_post_def
  incr_post_def hset_post_def hget_post_def hgetall_post_def sadd_post_def srem_post_def
  smembers_post_def scard_post_def ttl_post_def scan_post_def

section \<open>Lemmas on entries and time\<close>

lemma entry_at_None: "d k = None \<Longrightarrow> entry_at t d k = None"
  by (simp add: entry_at_def)

lemma entry_at_cong: "d k = d' k \<Longrightarrow> entry_at t d k = entry_at t d' k"
  by (simp add: entry_at_def)

lemma entry_at_mono: "entry_at t' d k = Some e \<Longrightarrow> t \<le> t' \<Longrightarrow> entry_at t d k = Some e"
  by (auto simp: entry_at_def expired_def split: option.splits if_splits)

lemma entry_at_dead: "entry_at t d k = None \<Longrightarrow> t \<le> t' \<Longrightarrow> entry_at t' d k = None"
  by (auto simp: entry_at_def expired_def split: option.splits if_splits)

lemma entry_at_Some: "entry_at t d k = Some e \<Longrightarrow> d k = Some e"
  by (auto simp: entry_at_def split: option.splits if_splits)

lemma entry_at_fresh:
  "d k = Some (v, Some x) \<Longrightarrow> entry_at t d k = (if t < x then Some (v, Some x) else None)"
  by (auto simp: entry_at_def expired_def)

lemma entry_at_forever: "d k = Some (v, None) \<Longrightarrow> entry_at t d k = Some (v, None)"
  by (auto simp: entry_at_def expired_def)

lemma live_None: "rdata r k = None \<Longrightarrow> live r k = None"
  by (simp add: live_def entry_at_None)

lemma live_fresh: "rdata r k = Some (v, Some x) \<Longrightarrow> rnow r < x \<Longrightarrow> live r k = Some v"
  by (simp add: live_def entry_at_fresh)

lemma live_Some: "live r k = Some v \<Longrightarrow> \<exists>x. rdata r k = Some (v, x)"
  by (auto simp: live_def dest: entry_at_Some)

lemma live_mono:
  "live r' k = Some v \<Longrightarrow> rdata r' k = rdata r k \<Longrightarrow> rnow r \<le> rnow r' \<Longrightarrow> live r k = Some v"
  by (auto simp: live_def entry_at_def expired_def split: option.splits if_splits)

lemma reads_refl [simp]: "reads r r"
  by (simp add: reads_def)

lemma writes_refl [simp]: "writes K r r"
  by (simp add: writes_def)

lemma writes_trans: "writes K r r' \<Longrightarrow> writes L r' r'' \<Longrightarrow> writes (K \<union> L) r r''"
  by (auto simp: writes_def)

lemma writes_seq: "writes K r r' \<Longrightarrow> writes K r' r'' \<Longrightarrow> writes K r r''"
  by (auto simp: writes_def)

lemma writes_mono: "writes K r r' \<Longrightarrow> K \<subseteq> L \<Longrightarrow> writes L r r'"
  by (auto simp: writes_def)

lemma reads_writes: "reads r r' \<Longrightarrow> writes K r r'"
  by (simp add: reads_def writes_def)

lemma writes_keep: "writes K r r' \<Longrightarrow> k \<notin> K \<Longrightarrow> rdata r' k = rdata r k"
  by (simp add: writes_def)

lemma writes_now: "writes K r r' \<Longrightarrow> rnow r \<le> rnow r'"
  by (simp add: writes_def)

lemma writes_live_dead:
  "writes K r r' \<Longrightarrow> k \<notin> K \<Longrightarrow> live r k = None \<Longrightarrow> live r' k = None"
  by (metis live_mono not_None_eq writes_keep writes_now)

lemma reads_live_dead: "reads r r' \<Longrightarrow> live r k = None \<Longrightarrow> live r' k = None"
  by (rule writes_live_dead[of "{}"]) (auto intro: reads_writes)

lemma reads_trans: "reads r r' \<Longrightarrow> reads r' r'' \<Longrightarrow> reads r r''"
  by (auto simp: reads_def)

lemma map_of_updates_other: "f \<notin> fst ` set fs \<Longrightarrow> map_of (updates fs h) f = map_of h f"
  by (induction fs h rule: updates.induct) (auto simp: update_conv')

section \<open>Frames\<close>

text \<open>\<open>touches K m\<close>: whatever fails on the way, \<open>m\<close> writes no key outside \<open>K\<close>.\<close>

definition touches :: "string set \<Rightarrow> (redis, 'a) state \<Rightarrow> bool" where
  "touches K m \<longleftrightarrow> (\<forall>r. wp m (\<lambda>_. writes K r) r)"

lemma touchesI: "(\<And>r. wp m (\<lambda>_. writes K r) r) \<Longrightarrow> touches K m"
  by (simp add: touches_def)

lemma touchesD: "touches K m \<Longrightarrow> run_state m r = (a, r') \<Longrightarrow> writes K r r'"
  by (auto simp: touches_def wp_def split: prod.splits dest: spec[of _ r])

lemma wp_touches: "touches K m \<Longrightarrow> (\<And>a r'. writes K r r' \<Longrightarrow> Q a r') \<Longrightarrow> wp m Q r"
  by (blast intro: wpI dest: touchesD)

lemma touches_mono: "touches K m \<Longrightarrow> K \<subseteq> L \<Longrightarrow> touches L m"
  by (blast intro: touchesI wpI writes_mono dest: touchesD)

lemma touches_return [touches_intro]: "touches K (State_Monad.return a)"
  by (simp add: touches_def wp_def)

lemma touches_bind [touches_intro]:
  assumes "touches K m" and "\<And>a. touches K (f a)"
  shows "touches K (m \<bind> f)"
proof (rule touchesI, rule wpI)
  fix r b r'' assume run: "run_state (m \<bind> f) r = (b, r'')"
  obtain a r' where m: "run_state m r = (a, r')" by fastforce
  with run have "run_state (f a) r' = (b, r'')" by simp
  with assms m have "writes K r r'" and "writes K r' r''" by (blast dest: touchesD)+
  then show "writes K r r''" using writes_trans by fastforce
qed

lemma touches_if [touches_intro]:
  "touches K m \<Longrightarrow> touches K n \<Longrightarrow> touches K (if b then m else n)"
  by simp

lemma touches_Let [touches_intro]: "(\<And>x. x = t \<Longrightarrow> touches K (f x)) \<Longrightarrow> touches K (let x = t in f x)"
  by simp

lemma touches_case_sum [touches_intro]:
  "(\<And>e. touches K (f e)) \<Longrightarrow> (\<And>v. touches K (g v)) \<Longrightarrow> touches K (case_sum f g x)"
  by (cases x) simp_all

lemma touches_case_option [touches_intro]:
  "touches K m \<Longrightarrow> (\<And>v. touches K (g v)) \<Longrightarrow> touches K (case_option m g x)"
  by (cases x) simp_all

lemma touches_case_prod [touches_intro]:
  "(\<And>a b. touches K (f a b)) \<Longrightarrow> touches K (case_prod f x)"
  by (cases x) simp_all

lemma touches_for_each [touches_intro]:
  "(\<And>x. x \<in> set xs \<Longrightarrow> touches K (f x)) \<Longrightarrow> touches K (for_each xs f)"
  by (induction xs) (auto intro!: touches_intro)

text \<open>A call whose error the code ignores (\<open>best-effort cleanup\<close>).\<close>

definition ignore :: "('s, 'a) state \<Rightarrow> ('s, unit) state" where
  "ignore m = do { _ \<leftarrow> m; ret () }"

lemma wp_ignore [wp_intro]: "wp m (\<lambda>_. Q ()) s \<Longrightarrow> wp (ignore m) Q s"
  unfolding ignore_def by (intro wp_bind wp_return) (simp add: wp_def split: prod.splits)

lemma touches_ignore [touches_intro]: "touches K m \<Longrightarrow> touches K (ignore m)"
  unfolding ignore_def by (intro touches_intro)

section \<open>The interface\<close>

locale redis_server =
  fixes R :: redis_api
  assumes get: "run_state (r_get R k) r = (a, r') \<Longrightarrow> get_post k r a r'"
    and set: "run_state (r_set R k v d) r = (b, r') \<Longrightarrow> set_post k v d r b r'"
    and del: "run_state (r_del R ks) r = (b, r') \<Longrightarrow> del_post ks r b r'"
    and expire: "run_state (r_expire R k d) r = (b, r') \<Longrightarrow> expire_post k d r b r'"
    and exists: "run_state (r_exists R k) r = (n, r') \<Longrightarrow> exists_post k r n r'"
    and incr: "run_state (r_incr R k) r = (n, r') \<Longrightarrow> incr_post k r n r'"
    and hset: "run_state (r_hset R k fs) r = (b, r') \<Longrightarrow> hset_post k fs r b r'"
    and hget: "run_state (r_hget R k f) r = (a, r') \<Longrightarrow> hget_post k f r a r'"
    and hgetall: "run_state (r_hgetall R k) r = (h, r') \<Longrightarrow> hgetall_post k r h r'"
    and sadd: "run_state (r_sadd R k x) r = (b, r') \<Longrightarrow> sadd_post k x r b r'"
    and srem: "run_state (r_srem R k x) r = (b, r') \<Longrightarrow> srem_post k x r b r'"
    and smembers: "run_state (r_smembers R k) r = (xs, r') \<Longrightarrow> smembers_post k r xs r'"
    and scard: "run_state (r_scard R k) r = (n, r') \<Longrightarrow> scard_post k r n r'"
    and ttl: "run_state (r_ttl R k) r = (n, r') \<Longrightarrow> ttl_post k r n r'"
    and scan: "run_state (r_scan R c k m) r = (y, r') \<Longrightarrow> scan_post k r y r'"
begin

text \<open>Each promise as a weakest-precondition rule.\<close>

lemma wp_r_get: "(\<And>a r'. get_post k r a r' \<Longrightarrow> Q a r') \<Longrightarrow> wp (r_get R k) Q r"
  by (rule wpI) (simp add: get)

lemma wp_r_set: "(\<And>a r'. set_post k v d r a r' \<Longrightarrow> Q a r') \<Longrightarrow> wp (r_set R k v d) Q r"
  by (rule wpI) (simp add: set)

lemma wp_r_del: "(\<And>a r'. del_post ks r a r' \<Longrightarrow> Q a r') \<Longrightarrow> wp (r_del R ks) Q r"
  by (rule wpI) (simp add: del)

lemma wp_r_expire: "(\<And>a r'. expire_post k d r a r' \<Longrightarrow> Q a r') \<Longrightarrow> wp (r_expire R k d) Q r"
  by (rule wpI) (simp add: expire)

lemma wp_r_exists: "(\<And>a r'. exists_post k r a r' \<Longrightarrow> Q a r') \<Longrightarrow> wp (r_exists R k) Q r"
  by (rule wpI) (simp add: exists)

lemma wp_r_incr: "(\<And>a r'. incr_post k r a r' \<Longrightarrow> Q a r') \<Longrightarrow> wp (r_incr R k) Q r"
  by (rule wpI) (simp add: incr)

lemma wp_r_hset: "(\<And>a r'. hset_post k fs r a r' \<Longrightarrow> Q a r') \<Longrightarrow> wp (r_hset R k fs) Q r"
  by (rule wpI) (simp add: hset)

lemma wp_r_hget: "(\<And>a r'. hget_post k f r a r' \<Longrightarrow> Q a r') \<Longrightarrow> wp (r_hget R k f) Q r"
  by (rule wpI) (simp add: hget)

lemma wp_r_hgetall: "(\<And>a r'. hgetall_post k r a r' \<Longrightarrow> Q a r') \<Longrightarrow> wp (r_hgetall R k) Q r"
  by (rule wpI) (simp add: hgetall)

lemma wp_r_sadd: "(\<And>a r'. sadd_post k x r a r' \<Longrightarrow> Q a r') \<Longrightarrow> wp (r_sadd R k x) Q r"
  by (rule wpI) (simp add: sadd)

lemma wp_r_srem: "(\<And>a r'. srem_post k x r a r' \<Longrightarrow> Q a r') \<Longrightarrow> wp (r_srem R k x) Q r"
  by (rule wpI) (simp add: srem)

lemma wp_r_smembers: "(\<And>a r'. smembers_post k r a r' \<Longrightarrow> Q a r') \<Longrightarrow> wp (r_smembers R k) Q r"
  by (rule wpI) (simp add: smembers)

lemma wp_r_scard: "(\<And>a r'. scard_post k r a r' \<Longrightarrow> Q a r') \<Longrightarrow> wp (r_scard R k) Q r"
  by (rule wpI) (simp add: scard)

lemma wp_r_ttl: "(\<And>a r'. ttl_post k r a r' \<Longrightarrow> Q a r') \<Longrightarrow> wp (r_ttl R k) Q r"
  by (rule wpI) (simp add: ttl)

lemma wp_r_scan: "(\<And>a r'. scan_post k r a r' \<Longrightarrow> Q a r') \<Longrightarrow> wp (r_scan R c k m) Q r"
  by (rule wpI) (simp add: scan)

lemma touches_redis [touches_intro]:
  "touches K (r_get R k)" "k \<in> K \<Longrightarrow> touches K (r_set R k v d)"
  "set ks \<subseteq> K \<Longrightarrow> touches K (r_del R ks)" "k \<in> K \<Longrightarrow> touches K (r_expire R k d)"
  "touches K (r_exists R k)" "k \<in> K \<Longrightarrow> touches K (r_incr R k)"
  "k \<in> K \<Longrightarrow> touches K (r_hset R k fs)" "touches K (r_hget R k f)" "touches K (r_hgetall R k)"
  "k \<in> K \<Longrightarrow> touches K (r_sadd R k x)" "k \<in> K \<Longrightarrow> touches K (r_srem R k x)"
  "touches K (r_smembers R k)" "touches K (r_scard R k)" "touches K (r_ttl R k)"
  "touches K (r_scan R c p n)"
  by (rule touchesI, rule wpI,
      (drule get set del expire exists incr hset hget hgetall sadd srem smembers scard ttl scan),
      auto simp: redis_posts intro: reads_writes elim: writes_mono)+

lemmas wp_redis = wp_r_get wp_r_set wp_r_del wp_r_expire wp_r_exists wp_r_incr wp_r_hset
  wp_r_hget wp_r_hgetall wp_r_sadd wp_r_srem wp_r_smembers wp_r_scard wp_r_ttl wp_r_scan

end

text \<open>
  A server that is up: a command fails only on a value of the wrong type.  What the best-effort
  clean-up code achieves is proved under this contract; what must hold on any failure is proved
  in \<open>redis_server\<close>.
\<close>

locale reliable_redis = redis_server +
  assumes get_up: "run_state (r_get R k) r = (Inl (RFail e), r') \<Longrightarrow>
      \<exists>v. live r' k = Some v \<and> (\<forall>s. v \<noteq> RStr s)"
    and set_up: "run_state (r_set R k v d) r = (b, r') \<Longrightarrow> b = None"
    and del_up: "run_state (r_del R ks) r = (b, r') \<Longrightarrow> b = None"
    and expire_up: "run_state (r_expire R k d) r = (b, r') \<Longrightarrow> b = None"
    and exists_up: "run_state (r_exists R k) r = (res, r') \<Longrightarrow> \<exists>n. res = Inr n"
    and incr_up: "run_state (r_incr R k) r = (Inl x, r') \<Longrightarrow>
      \<not> incr_value (entry_at (rnow r') (rdata r) k) cnt ent"
    and hset_up: "run_state (r_hset R k fs) r = (Some x, r') \<Longrightarrow>
      hash_of (entry_at (rnow r') (rdata r) k) = None"
    and hget_up: "run_state (r_hget R k f) r = (Inl (RFail e), r') \<Longrightarrow> hash_of (entry r' k) = None"
    and hgetall_up: "run_state (r_hgetall R k) r = (Inl x, r') \<Longrightarrow> hash_of (entry r' k) = None"
    and sadd_up: "run_state (r_sadd R k m) r = (Some x, r') \<Longrightarrow>
      set_of (entry_at (rnow r') (rdata r) k) = None"
    and srem_up: "run_state (r_srem R k m) r = (Some x, r') \<Longrightarrow>
      set_of (entry_at (rnow r') (rdata r) k) = None"
    and smembers_up: "run_state (r_smembers R k) r = (Inl x, r') \<Longrightarrow> set_of (entry r' k) = None"
begin

lemma wp_u_get: "(\<And>a r'. get_post k r a r' \<Longrightarrow>
    (\<forall>e. a = Inl (RFail e) \<longrightarrow> (\<exists>v. live r' k = Some v \<and> (\<forall>s. v \<noteq> RStr s))) \<Longrightarrow> Q a r') \<Longrightarrow>
  wp (r_get R k) Q r"
  by (rule wpI) (blast intro: get dest: get_up)

lemma wp_u_set: "(\<And>r'. set_post k v d r None r' \<Longrightarrow> Q None r') \<Longrightarrow> wp (r_set R k v d) Q r"
  by (rule wpI) (metis set set_up)

lemma wp_u_del: "(\<And>r'. del_post ks r None r' \<Longrightarrow> Q None r') \<Longrightarrow> wp (r_del R ks) Q r"
  by (rule wpI) (metis del del_up)

lemma wp_u_expire: "(\<And>r'. expire_post k d r None r' \<Longrightarrow> Q None r') \<Longrightarrow> wp (r_expire R k d) Q r"
  by (rule wpI) (metis expire expire_up)

lemma wp_u_exists: "(\<And>n r'. exists_post k r (Inr n) r' \<Longrightarrow> Q (Inr n) r') \<Longrightarrow> wp (r_exists R k) Q r"
  by (rule wpI) (metis exists exists_up)

lemma wp_u_hset: "(\<And>a r'. hset_post k fs r a r' \<Longrightarrow>
    (a \<noteq> None \<longrightarrow> hash_of (entry_at (rnow r') (rdata r) k) = None) \<Longrightarrow> Q a r') \<Longrightarrow> wp (r_hset R k fs) Q r"
  by (rule wpI) (metis hset hset_up not_None_eq)

lemma wp_u_sadd: "(\<And>a r'. sadd_post k m r a r' \<Longrightarrow>
    (a \<noteq> None \<longrightarrow> set_of (entry_at (rnow r') (rdata r) k) = None) \<Longrightarrow> Q a r') \<Longrightarrow> wp (r_sadd R k m) Q r"
  by (rule wpI) (metis sadd sadd_up not_None_eq)

lemma wp_u_srem: "(\<And>a r'. srem_post k m r a r' \<Longrightarrow>
    (a \<noteq> None \<longrightarrow> set_of (entry_at (rnow r') (rdata r) k) = None) \<Longrightarrow> Q a r') \<Longrightarrow> wp (r_srem R k m) Q r"
  by (rule wpI) (metis srem srem_up not_None_eq)

lemma wp_u_smembers: "(\<And>a r'. smembers_post k r a r' \<Longrightarrow>
    ((\<exists>x. a = Inl x) \<longrightarrow> set_of (entry r' k) = None) \<Longrightarrow> Q a r') \<Longrightarrow> wp (r_smembers R k) Q r"
  by (rule wpI) (metis smembers smembers_up)

lemmas wp_up = wp_u_get wp_u_set wp_u_del wp_u_expire wp_u_exists wp_u_hset wp_u_sadd wp_u_srem
  wp_u_smembers

end

end
