(* ===== verification/RedisKeys.thy ===== *)
theory RedisKeys
  imports RedisServer
begin

text \<open>
  The keys of \<open>internal/redis/redis.go\<close>, as \<open>fmt.Sprintf\<close> builds them.  All keys of one
  application have the shape \<open>app:<app id>:<family>:<identifier>\<close>.  The lemmas say when two
  keys are equal: families never overlap, and two applications never share a key as long as
  the application ids contain no colon, which holds of the UUIDs the code uses.
\<close>

definition app_key :: "string \<Rightarrow> string \<Rightarrow> string \<Rightarrow> string" where
  "app_key family appID ident = ''app:'' @ appID @ '':'' @ family @ '':'' @ ident"

definition colon_free :: "string \<Rightarrow> bool" where
  "colon_free s \<longleftrightarrow> CHR '':'' \<notin> set s"

lemma colon_free_simps [simp]:
  "colon_free []" "colon_free (c # s) \<longleftrightarrow> c \<noteq> CHR '':'' \<and> colon_free s"
  by (auto simp: colon_free_def)

lemma colon_split:
  assumes "colon_free a" and "colon_free b"
  shows "a @ CHR '':'' # x = b @ CHR '':'' # y \<longleftrightarrow> a = b \<and> x = y"
  using assms
proof (induction a arbitrary: b)
  case Nil
  then show ?case by (cases b) auto
next
  case (Cons c a)
  then show ?case by (cases b) auto
qed

lemma colon_no_split: "colon_free b \<Longrightarrow> a @ CHR '':'' # x \<noteq> b"
  by (auto simp: colon_free_def)

lemma app_key_same_app:
  "colon_free f \<Longrightarrow> colon_free g \<Longrightarrow> app_key f a i = app_key g a j \<longleftrightarrow> f = g \<and> i = j"
  by (simp add: app_key_def colon_split)

lemma app_key_eq:
  "colon_free a \<Longrightarrow> colon_free b \<Longrightarrow> colon_free f \<Longrightarrow> colon_free g \<Longrightarrow>
   app_key f a i = app_key g b j \<longleftrightarrow> a = b \<and> f = g \<and> i = j"
  by (simp add: app_key_def colon_split)

definition SessionKey :: "string \<Rightarrow> string \<Rightarrow> string" where
  "SessionKey appID sessionID = app_key ''session'' appID sessionID"

definition UserSessionsKey :: "string \<Rightarrow> string \<Rightarrow> string" where
  "UserSessionsKey appID userID = app_key ''user_sessions'' appID userID"

definition AllSessionsKey :: "string \<Rightarrow> string" where
  "AllSessionsKey appID = ''app:'' @ appID @ '':all_sessions''"

definition SessionMetaKey :: "string \<Rightarrow> string \<Rightarrow> string \<Rightarrow> string" where
  "SessionMetaKey appID userID sessionID =
     ''session_meta:'' @ appID @ '':'' @ userID @ '':'' @ sessionID"

definition BlacklistTokenKey :: "string \<Rightarrow> string \<Rightarrow> string" where
  "BlacklistTokenKey appID token = app_key ''blacklist_token'' appID token"

definition BlacklistUserKey :: "string \<Rightarrow> string \<Rightarrow> string" where
  "BlacklistUserKey appID userID = app_key ''blacklist_user'' appID userID"

definition RefreshTokenKey :: "string \<Rightarrow> string \<Rightarrow> string" where
  "RefreshTokenKey appID userID = app_key ''refresh_token'' appID userID"

lemma AllSessionsKey_neq_app_key [simp]:
  "colon_free f \<Longrightarrow> AllSessionsKey a \<noteq> app_key f a i"
  "colon_free f \<Longrightarrow> app_key f a i \<noteq> AllSessionsKey a"
proof -
  assume f: "colon_free f"
  have "f @ CHR '':'' # i \<noteq> ''all_sessions''" by (rule colon_no_split) simp
  then show "AllSessionsKey a \<noteq> app_key f a i" and "app_key f a i \<noteq> AllSessionsKey a"
    by (auto simp: AllSessionsKey_def app_key_def)
qed

lemma SessionMetaKey_neq [simp]:
  "SessionMetaKey a u s \<noteq> app_key f b i" "app_key f b i \<noteq> SessionMetaKey a u s"
  "SessionMetaKey a u s \<noteq> AllSessionsKey b" "AllSessionsKey b \<noteq> SessionMetaKey a u s"
  by (simp_all add: SessionMetaKey_def app_key_def AllSessionsKey_def)

lemmas app_key_defs = SessionKey_def UserSessionsKey_def BlacklistTokenKey_def
  BlacklistUserKey_def RefreshTokenKey_def

text \<open>Inside one application the named families are told apart by computation.\<close>

lemma key_neq [key_simps]:
  "SessionKey a s \<noteq> UserSessionsKey a u" "UserSessionsKey a u \<noteq> SessionKey a s"
  "SessionKey a s \<noteq> AllSessionsKey a" "AllSessionsKey a \<noteq> SessionKey a s"
  "UserSessionsKey a u \<noteq> AllSessionsKey a" "AllSessionsKey a \<noteq> UserSessionsKey a u"
  "SessionKey a s \<noteq> BlacklistTokenKey a t" "BlacklistTokenKey a t \<noteq> SessionKey a s"
  "SessionKey a s \<noteq> BlacklistUserKey a u" "BlacklistUserKey a u \<noteq> SessionKey a s"
  "UserSessionsKey a u \<noteq> BlacklistTokenKey a t" "BlacklistTokenKey a t \<noteq> UserSessionsKey a u"
  "UserSessionsKey a u \<noteq> BlacklistUserKey a v" "BlacklistUserKey a v \<noteq> UserSessionsKey a u"
  "AllSessionsKey a \<noteq> BlacklistTokenKey a t" "BlacklistTokenKey a t \<noteq> AllSessionsKey a"
  "AllSessionsKey a \<noteq> BlacklistUserKey a u" "BlacklistUserKey a u \<noteq> AllSessionsKey a"
  "BlacklistTokenKey a t \<noteq> BlacklistUserKey a u" "BlacklistUserKey a u \<noteq> BlacklistTokenKey a t"
  by (simp_all add: app_key_defs app_key_same_app)

lemma meta_key_neq [key_simps]:
  "SessionMetaKey a u s \<noteq> SessionKey b t" "SessionKey b t \<noteq> SessionMetaKey a u s"
  "SessionMetaKey a u s \<noteq> UserSessionsKey b t" "UserSessionsKey b t \<noteq> SessionMetaKey a u s"
  "SessionMetaKey a u s \<noteq> BlacklistTokenKey b t" "BlacklistTokenKey b t \<noteq> SessionMetaKey a u s"
  "SessionMetaKey a u s \<noteq> BlacklistUserKey b t" "BlacklistUserKey b t \<noteq> SessionMetaKey a u s"
  by (simp_all add: app_key_defs)

lemma key_inject [key_simps]:
  "SessionKey a s = SessionKey a t \<longleftrightarrow> s = t"
  "UserSessionsKey a u = UserSessionsKey a v \<longleftrightarrow> u = v"
  "BlacklistTokenKey a s = BlacklistTokenKey a t \<longleftrightarrow> s = t"
  "BlacklistUserKey a u = BlacklistUserKey a v \<longleftrightarrow> u = v"
  by (simp_all add: app_key_defs app_key_same_app)

end
