(* ===== verification/TokenStore.thy ===== *)
theory TokenStore
  imports RedisKeys
begin

text \<open>
  The token, code and blacklist functions of \<open>internal/redis/redis.go\<close>: values stored under
  one key for a limited time.  Most families have the same three operations; the locale
  \<open>token_store\<close> states their contract once, and every family is an instance of it in
  \<open>redis_server\<close>.  A Go result \<open>(string, error)\<close> is a sum, an \<open>error\<close> is an option.
\<close>

section \<open>Helpers\<close>

text \<open>\<open>err == redis.Nil\<close> read as an absent flag.\<close>

definition present :: "redis_api \<Rightarrow> string \<Rightarrow> (redis, rerr + bool) state" where
  "present R key = do {
     res \<leftarrow> r_get R key;
     ret (case res of Inl RNil \<Rightarrow> Inr False | Inl e \<Rightarrow> Inl e | Inr _ \<Rightarrow> Inr True) }"

text \<open>\<open>Rdb.Get(...).Int64()\<close>, with \<open>redis.Nil\<close> read as 0.\<close>

definition get_count :: "redis_api \<Rightarrow> string \<Rightarrow> (redis, rerr + int) state" where
  "get_count R key = do {
     res \<leftarrow> r_get R key;
     ret (case res of Inl RNil \<Rightarrow> Inr 0 | Inl e \<Rightarrow> Inl e
          | Inr s \<Rightarrow> (case atoi s of None \<Rightarrow> Inl (RFail ''strconv.ParseInt'') | Some n \<Rightarrow> Inr n)) }"

section \<open>Refresh tokens of the flow without sessions\<close>

definition SetRefreshToken ::
    "redis_api \<Rightarrow> int \<Rightarrow> string \<Rightarrow> string \<Rightarrow> string \<Rightarrow> (redis, rerr option) state" where
  "SetRefreshToken R refresh_hours appID userID token =
     r_set R (RefreshTokenKey appID userID) token (wrap64 (hour * refresh_hours))"

definition GetRefreshToken :: "redis_api \<Rightarrow> string \<Rightarrow> string \<Rightarrow> (redis, rerr + string) state" where
  "GetRefreshToken R appID userID = r_get R (RefreshTokenKey appID userID)"

definition RevokeRefreshToken ::
    "redis_api \<Rightarrow> string \<Rightarrow> string \<Rightarrow> string \<Rightarrow> (redis, rerr option) state" where
  "RevokeRefreshToken R appID userID token = do {
     let key = RefreshTokenKey appID userID;
     res \<leftarrow> r_get R key;
     case res of
       Inl e \<Rightarrow> ret (if e = RNil then None else Some e)
     | Inr val \<Rightarrow> if val = token then r_del R [key] else ret None }"

definition IsRefreshTokenRevoked ::
    "redis_api \<Rightarrow> string \<Rightarrow> string \<Rightarrow> string \<Rightarrow> (redis, rerr + bool) state" where
  "IsRefreshTokenRevoked R appID userID token = do {
     res \<leftarrow> r_get R (RefreshTokenKey appID userID);
     case res of
       Inl e \<Rightarrow> ret (if e = RNil then Inr True else Inl e)
     | Inr val \<Rightarrow> ret (Inr (val \<noteq> token)) }"

section \<open>Tokens with a reverse lookup\<close>

definition SetEmailVerificationToken ::
    "redis_api \<Rightarrow> string \<Rightarrow> string \<Rightarrow> string \<Rightarrow> duration \<Rightarrow> (redis, rerr option) state" where
  "SetEmailVerificationToken R appID userID token expiration = do {
     err \<leftarrow> r_set R (app_key ''email_verify'' appID token) userID expiration;
     case err of
       Some e \<Rightarrow> ret (Some e)
     | None \<Rightarrow> r_set R (app_key ''email_verify_user'' appID userID) token expiration }"

definition GetEmailVerificationToken ::
    "redis_api \<Rightarrow> string \<Rightarrow> string \<Rightarrow> (redis, rerr + string) state" where
  "GetEmailVerificationToken R appID token = r_get R (app_key ''email_verify'' appID token)"

definition GetEmailVerificationTokenByUserID ::
    "redis_api \<Rightarrow> string \<Rightarrow> string \<Rightarrow> (redis, rerr + string) state" where
  "GetEmailVerificationTokenByUserID R appID userID =
     r_get R (app_key ''email_verify_user'' appID userID)"

definition DeleteEmailVerificationToken ::
    "redis_api \<Rightarrow> string \<Rightarrow> string \<Rightarrow> (redis, rerr option) state" where
  "DeleteEmailVerificationToken R appID token = do {
     let key = app_key ''email_verify'' appID token;
     res \<leftarrow> r_get R key;
     (case res of
        Inr userID \<Rightarrow> if userID \<noteq> [] then ignore (r_del R [app_key ''email_verify_user'' appID userID])
                      else ret ()
      | Inl _ \<Rightarrow> ret ());
     r_del R [key] }"

definition SetMagicLinkToken ::
    "redis_api \<Rightarrow> string \<Rightarrow> string \<Rightarrow> string \<Rightarrow> duration \<Rightarrow> (redis, rerr option) state" where
  "SetMagicLinkToken R appID userID token expiration = do {
     let reverseKey = app_key ''magic_link_user'' appID userID;
     old \<leftarrow> r_get R reverseKey;
     (case old of
        Inr oldToken \<Rightarrow> if oldToken \<noteq> [] then ignore (r_del R [app_key ''magic_link'' appID oldToken])
                        else ret ()
      | Inl _ \<Rightarrow> ret ());
     err \<leftarrow> r_set R (app_key ''magic_link'' appID token) userID expiration;
     case err of
       Some e \<Rightarrow> ret (Some e)
     | None \<Rightarrow> r_set R reverseKey token expiration }"

definition GetMagicLinkToken :: "redis_api \<Rightarrow> string \<Rightarrow> string \<Rightarrow> (redis, rerr + string) state" where
  "GetMagicLinkToken R appID token = r_get R (app_key ''magic_link'' appID token)"

definition DeleteMagicLinkToken :: "redis_api \<Rightarrow> string \<Rightarrow> string \<Rightarrow> (redis, rerr option) state" where
  "DeleteMagicLinkToken R appID token = do {
     let key = app_key ''magic_link'' appID token;
     res \<leftarrow> r_get R key;
     (case res of
        Inr userID \<Rightarrow> if userID \<noteq> [] then ignore (r_del R [app_key ''magic_link_user'' appID userID])
                      else ret ()
      | Inl _ \<Rightarrow> ret ());
     r_del R [key] }"

definition SetAdminMagicLinkToken ::
    "redis_api \<Rightarrow> string \<Rightarrow> string \<Rightarrow> duration \<Rightarrow> (redis, rerr option) state" where
  "SetAdminMagicLinkToken R adminID token expiration = do {
     let reverseKey = ''admin:magic_link_user:'' @ adminID;
     old \<leftarrow> r_get R reverseKey;
     (case old of
        Inr oldToken \<Rightarrow> if oldToken \<noteq> [] then ignore (r_del R [''admin:magic_link:'' @ oldToken])
                        else ret ()
      | Inl _ \<Rightarrow> ret ());
     err \<leftarrow> r_set R (''admin:magic_link:'' @ token) adminID expiration;
     case err of
       Some e \<Rightarrow> ret (Some e)
     | None \<Rightarrow> r_set R reverseKey token expiration }"

definition GetAdminMagicLinkToken :: "redis_api \<Rightarrow> string \<Rightarrow> (redis, rerr + string) state" where
  "GetAdminMagicLinkToken R token = r_get R (''admin:magic_link:'' @ token)"

definition DeleteAdminMagicLinkToken :: "redis_api \<Rightarrow> string \<Rightarrow> (redis, rerr option) state" where
  "DeleteAdminMagicLinkToken R token = do {
     let key = ''admin:magic_link:'' @ token;
     res \<leftarrow> r_get R key;
     (case res of
        Inr adminID \<Rightarrow> if adminID \<noteq> [] then ignore (r_del R [''admin:magic_link_user:'' @ adminID])
                       else ret ()
      | Inl _ \<Rightarrow> ret ());
     r_del R [key] }"

section \<open>Plain tokens and codes\<close>

definition SetPasswordResetToken ::
    "redis_api \<Rightarrow> string \<Rightarrow> string \<Rightarrow> string \<Rightarrow> duration \<Rightarrow> (redis, rerr option) state" where
  "SetPasswordResetToken R appID userID token expiration =
     r_set R (app_key ''password_reset'' appID token) userID expiration"

definition GetPasswordResetToken :: "redis_api \<Rightarrow> string \<Rightarrow> string \<Rightarrow> (redis, rerr + string) state" where
  "GetPasswordResetToken R appID token = r_get R (app_key ''password_reset'' appID token)"

definition DeletePasswordResetToken :: "redis_api \<Rightarrow> string \<Rightarrow> string \<Rightarrow> (redis, rerr option) state" where
  "DeletePasswordResetToken R appID token = r_del R [app_key ''password_reset'' appID token]"

definition SetTempTwoFASecret ::
    "redis_api \<Rightarrow> string \<Rightarrow> string \<Rightarrow> string \<Rightarrow> duration \<Rightarrow> (redis, rerr option) state" where
  "SetTempTwoFASecret R appID userID secret expiration =
     r_set R (app_key ''temp_2fa_secret'' appID userID) secret expiration"

definition GetTempTwoFASecret :: "redis_api \<Rightarrow> string \<Rightarrow> string \<Rightarrow> (redis, rerr + string) state" where
  "GetTempTwoFASecret R appID userID = r_get R (app_key ''temp_2fa_secret'' appID userID)"

definition DeleteTempTwoFASecret :: "redis_api \<Rightarrow> string \<Rightarrow> string \<Rightarrow> (redis, rerr option) state" where
  "DeleteTempTwoFASecret R appID userID = r_del R [app_key ''temp_2fa_secret'' appID userID]"

definition SetTempUserSession ::
    "redis_api \<Rightarrow> string \<Rightarrow> string \<Rightarrow> string \<Rightarrow> duration \<Rightarrow> (redis, rerr option) state" where
  "SetTempUserSession R appID tempToken userID expiration =
     r_set R (app_key ''temp_session'' appID tempToken) userID expiration"

definition GetTempUserSession :: "redis_api \<Rightarrow> string \<Rightarrow> string \<Rightarrow> (redis, rerr + string) state" where
  "GetTempUserSession R appID tempToken = r_get R (app_key ''temp_session'' appID tempToken)"

definition DeleteTempUserSession :: "redis_api \<Rightarrow> string \<Rightarrow> string \<Rightarrow> (redis, rerr option) state" where
  "DeleteTempUserSession R appID tempToken = r_del R [app_key ''temp_session'' appID tempToken]"

section \<open>Token blacklists\<close>

definition BlacklistAccessToken ::
    "redis_api \<Rightarrow> string \<Rightarrow> string \<Rightarrow> string \<Rightarrow> duration \<Rightarrow> (redis, rerr option) state" where
  "BlacklistAccessToken R appID tokenString userID expiration =
     r_set R (BlacklistTokenKey appID tokenString) userID expiration"

definition IsAccessTokenBlacklisted :: "redis_api \<Rightarrow> string \<Rightarrow> string \<Rightarrow> (redis, rerr + bool) state" where
  "IsAccessTokenBlacklisted R appID tokenString = present R (BlacklistTokenKey appID tokenString)"

definition BlacklistAllUserTokens ::
    "redis_api \<Rightarrow> string \<Rightarrow> string \<Rightarrow> duration \<Rightarrow> (redis, rerr option) state" where
  "BlacklistAllUserTokens R appID userID expiration =
     r_set R (BlacklistUserKey appID userID) ''all_tokens_revoked'' expiration"

definition IsUserTokensBlacklisted :: "redis_api \<Rightarrow> string \<Rightarrow> string \<Rightarrow> (redis, rerr + bool) state" where
  "IsUserTokensBlacklisted R appID userID = present R (BlacklistUserKey appID userID)"

definition ClearUserTokenBlacklist :: "redis_api \<Rightarrow> string \<Rightarrow> string \<Rightarrow> (redis, rerr option) state" where
  "ClearUserTokenBlacklist R appID userID = r_del R [BlacklistUserKey appID userID]"

section \<open>Admin sessions, CSRF tokens and login limits\<close>

definition SetAdminSession :: "redis_api \<Rightarrow> string \<Rightarrow> string \<Rightarrow> duration \<Rightarrow> (redis, rerr option) state" where
  "SetAdminSession R sessionID adminID expiration = r_set R (''admin:session:'' @ sessionID) adminID expiration"

definition GetAdminSession :: "redis_api \<Rightarrow> string \<Rightarrow> (redis, rerr + string) state" where
  "GetAdminSession R sessionID = r_get R (''admin:session:'' @ sessionID)"

definition DeleteAdminSession :: "redis_api \<Rightarrow> string \<Rightarrow> (redis, rerr option) state" where
  "DeleteAdminSession R sessionID = r_del R [''admin:session:'' @ sessionID]"

definition SetCSRFToken :: "redis_api \<Rightarrow> string \<Rightarrow> string \<Rightarrow> duration \<Rightarrow> (redis, rerr option) state" where
  "SetCSRFToken R sessionID token expiration = r_set R (''admin:csrf:'' @ sessionID) token expiration"

definition GetCSRFToken :: "redis_api \<Rightarrow> string \<Rightarrow> (redis, rerr + string) state" where
  "GetCSRFToken R sessionID = r_get R (''admin:csrf:'' @ sessionID)"

definition IncrLoginAttempts :: "redis_api \<Rightarrow> string \<Rightarrow> (redis, rerr + int) state" where
  "IncrLoginAttempts R ip = do {
     let key = ''admin:login_attempts:'' @ ip;
     res \<leftarrow> r_incr R key;
     case res of
       Inl e \<Rightarrow> ret (Inl e)
     | Inr count \<Rightarrow> do {
         (if count = 1 then ignore (r_expire R key (60 * second)) else ret ());
         ret (Inr count) } }"

definition GetLoginAttempts :: "redis_api \<Rightarrow> string \<Rightarrow> (redis, rerr + int) state" where
  "GetLoginAttempts R ip = get_count R (''admin:login_attempts:'' @ ip)"

definition SetLoginLockout :: "redis_api \<Rightarrow> string \<Rightarrow> duration \<Rightarrow> (redis, rerr option) state" where
  "SetLoginLockout R ip expiration = r_set R (''admin:login_lockout:'' @ ip) ''locked'' expiration"

definition IsLoginLocked :: "redis_api \<Rightarrow> string \<Rightarrow> (redis, rerr + bool) state" where
  "IsLoginLocked R ip = present R (''admin:login_lockout:'' @ ip)"

definition ClearLoginAttempts :: "redis_api \<Rightarrow> string \<Rightarrow> (redis, rerr option) state" where
  "ClearLoginAttempts R ip = r_del R [''admin:login_attempts:'' @ ip, ''admin:login_lockout:'' @ ip]"

definition ClearRateLimitKeys :: "redis_api \<Rightarrow> string \<Rightarrow> string \<Rightarrow> (redis, rerr option) state" where
  "ClearRateLimitKeys R keyPrefix identifier =
     r_del R [''rl:'' @ keyPrefix @ '':attempts:'' @ identifier,
              ''rl:'' @ keyPrefix @ '':lockout:'' @ identifier]"

section \<open>Second-factor codes\<close>

definition Set2FAEmailCode :: "redis_api \<Rightarrow> string \<Rightarrow> string \<Rightarrow> string \<Rightarrow> (redis, rerr option) state" where
  "Set2FAEmailCode R appID userID code = r_set R (app_key ''2fa_email'' appID userID) code (5 * minute)"

definition Get2FAEmailCode :: "redis_api \<Rightarrow> string \<Rightarrow> string \<Rightarrow> (redis, rerr + string) state" where
  "Get2FAEmailCode R appID userID = r_get R (app_key ''2fa_email'' appID userID)"

definition Delete2FAEmailCode :: "redis_api \<Rightarrow> string \<Rightarrow> string \<Rightarrow> (redis, rerr option) state" where
  "Delete2FAEmailCode R appID userID = r_del R [app_key ''2fa_email'' appID userID]"

definition SetWebAuthnRegistrationChallenge ::
    "redis_api \<Rightarrow> string \<Rightarrow> string \<Rightarrow> string \<Rightarrow> duration \<Rightarrow> (redis, rerr option) state" where
  "SetWebAuthnRegistrationChallenge R appID userID sessionJSON expiration =
     r_set R (app_key ''webauthn_reg'' appID userID) sessionJSON expiration"

definition GetWebAuthnRegistrationChallenge ::
    "redis_api \<Rightarrow> string \<Rightarrow> string \<Rightarrow> (redis, rerr + string) state" where
  "GetWebAuthnRegistrationChallenge R appID userID = r_get R (app_key ''webauthn_reg'' appID userID)"

definition DeleteWebAuthnRegistrationChallenge ::
    "redis_api \<Rightarrow> string \<Rightarrow> string \<Rightarrow> (redis, rerr option) state" where
  "DeleteWebAuthnRegistrationChallenge R appID userID = r_del R [app_key ''webauthn_reg'' appID userID]"

definition SetWebAuthnLoginChallenge ::
    "redis_api \<Rightarrow> string \<Rightarrow> string \<Rightarrow> string \<Rightarrow> duration \<Rightarrow> (redis, rerr option) state" where
  "SetWebAuthnLoginChallenge R appID identifier sessionJSON expiration =
     r_set R (app_key ''webauthn_login'' appID identifier) sessionJSON expiration"

definition GetWebAuthnLoginChallenge ::
    "redis_api \<Rightarrow> string \<Rightarrow> string \<Rightarrow> (redis, rerr + string) state" where
  "GetWebAuthnLoginChallenge R appID identifier = r_get R (app_key ''webauthn_login'' appID identifier)"

definition DeleteWebAuthnLoginChallenge ::
    "redis_api \<Rightarrow> string \<Rightarrow> string \<Rightarrow> (redis, rerr option) state" where
  "DeleteWebAuthnLoginChallenge R appID identifier = r_del R [app_key ''webauthn_login'' appID identifier]"

definition SetAdmin2FATempSecret :: "redis_api \<Rightarrow> string \<Rightarrow> string \<Rightarrow> (redis, rerr option) state" where
  "SetAdmin2FATempSecret R adminID secret = r_set R (''admin:2fa_temp_secret:'' @ adminID) secret (10 * minute)"

definition GetAdmin2FATempSecret :: "redis_api \<Rightarrow> string \<Rightarrow> (redis, rerr + string) state" where
  "GetAdmin2FATempSecret R adminID = r_get R (''admin:2fa_temp_secret:'' @ adminID)"

definition DeleteAdmin2FATempSecret :: "redis_api \<Rightarrow> string \<Rightarrow> (redis, rerr option) state" where
  "DeleteAdmin2FATempSecret R adminID = r_del R [''admin:2fa_temp_secret:'' @ adminID]"

definition SetAdmin2FATempSession :: "redis_api \<Rightarrow> string \<Rightarrow> string \<Rightarrow> (redis, rerr option) state" where
  "SetAdmin2FATempSession R tempToken adminID = r_set R (''admin:2fa_temp_session:'' @ tempToken) adminID (10 * minute)"

definition GetAdmin2FATempSession :: "redis_api \<Rightarrow> string \<Rightarrow> (redis, rerr + string) state" where
  "GetAdmin2FATempSession R tempToken = r_get R (''admin:2fa_temp_session:'' @ tempToken)"

definition DeleteAdmin2FATempSession :: "redis_api \<Rightarrow> string \<Rightarrow> (redis, rerr option) state" where
  "DeleteAdmin2FATempSession R tempToken = r_del R [''admin:2fa_temp_session:'' @ tempToken]"

definition SetAdmin2FAEmailCode :: "redis_api \<Rightarrow> string \<Rightarrow> string \<Rightarrow> (redis, rerr option) state" where
  "SetAdmin2FAEmailCode R adminID code = r_set R (''admin:2fa_email:'' @ adminID) code (5 * minute)"

definition GetAdmin2FAEmailCode :: "redis_api \<Rightarrow> string \<Rightarrow> (redis, rerr + string) state" where
  "GetAdmin2FAEmailCode R adminID = r_get R (''admin:2fa_email:'' @ adminID)"

definition DeleteAdmin2FAEmailCode :: "redis_api \<Rightarrow> string \<Rightarrow> (redis, rerr option) state" where
  "DeleteAdmin2FAEmailCode R adminID = r_del R [''admin:2fa_email:'' @ adminID]"


section \<open>Browser sessions, verification codes, merge and sign-on tokens\<close>

definition SetOIDCBrowserSession ::
    "redis_api \<Rightarrow> string \<Rightarrow> string \<Rightarrow> string \<Rightarrow> duration \<Rightarrow> (redis, rerr option) state" where
  "SetOIDCBrowserSession R appID sessionToken userID ttl =
     r_set R (app_key ''oidc_browser'' appID sessionToken) userID ttl"

definition GetOIDCBrowserSession :: "redis_api \<Rightarrow> string \<Rightarrow> string \<Rightarrow> (redis, rerr + string) state" where
  "GetOIDCBrowserSession R appID sessionToken = do {
     res \<leftarrow> r_get R (app_key ''oidc_browser'' appID sessionToken);
     ret (if res = Inl RNil then Inr [] else res) }"

definition DeleteOIDCBrowserSession :: "redis_api \<Rightarrow> string \<Rightarrow> string \<Rightarrow> (redis, rerr option) state" where
  "DeleteOIDCBrowserSession R appID sessionToken = r_del R [app_key ''oidc_browser'' appID sessionToken]"

definition SetBackupEmailVerificationToken ::
    "redis_api \<Rightarrow> string \<Rightarrow> string \<Rightarrow> string \<Rightarrow> string \<Rightarrow> duration \<Rightarrow> (redis, rerr option) state" where
  "SetBackupEmailVerificationToken R appID userID token pendingEmail expiration =
     r_set R (app_key ''backup_email_verify'' appID token) (userID @ ''|'' @ pendingEmail) expiration"

text \<open>The value is cut at its first bar; without one it is all user id.\<close>

definition GetBackupEmailVerificationToken ::
    "redis_api \<Rightarrow> string \<Rightarrow> string \<Rightarrow> (redis, rerr + (string \<times> string)) state" where
  "GetBackupEmailVerificationToken R appID token = do {
     res \<leftarrow> r_get R (app_key ''backup_email_verify'' appID token);
     ret (case res of Inl e \<Rightarrow> Inl e
       | Inr val \<Rightarrow> (if CHR ''|'' \<notin> set val then Inr (val, [])
                   else Inr (before (CHR ''|'') val, after (CHR ''|'') val))) }"

definition DeleteBackupEmailVerificationToken ::
    "redis_api \<Rightarrow> string \<Rightarrow> string \<Rightarrow> (redis, rerr option) state" where
  "DeleteBackupEmailVerificationToken R appID token = r_del R [app_key ''backup_email_verify'' appID token]"

definition SetPhoneVerificationCode ::
    "redis_api \<Rightarrow> string \<Rightarrow> string \<Rightarrow> string \<Rightarrow> duration \<Rightarrow> (redis, rerr option) state" where
  "SetPhoneVerificationCode R appID userID code expiration =
     r_set R (app_key ''phone_verify'' appID userID) code expiration"

definition GetPhoneVerificationCode :: "redis_api \<Rightarrow> string \<Rightarrow> string \<Rightarrow> (redis, rerr + string) state" where
  "GetPhoneVerificationCode R appID userID = r_get R (app_key ''phone_verify'' appID userID)"

definition DeletePhoneVerificationCode :: "redis_api \<Rightarrow> string \<Rightarrow> string \<Rightarrow> (redis, rerr option) state" where
  "DeletePhoneVerificationCode R appID userID = r_del R [app_key ''phone_verify'' appID userID]"

definition Set2FASMSCode :: "redis_api \<Rightarrow> string \<Rightarrow> string \<Rightarrow> string \<Rightarrow> (redis, rerr option) state" where
  "Set2FASMSCode R appID userID code = r_set R (app_key ''2fa_sms'' appID userID) code (5 * minute)"

definition Get2FASMSCode :: "redis_api \<Rightarrow> string \<Rightarrow> string \<Rightarrow> (redis, rerr + string) state" where
  "Get2FASMSCode R appID userID = r_get R (app_key ''2fa_sms'' appID userID)"

definition Delete2FASMSCode :: "redis_api \<Rightarrow> string \<Rightarrow> string \<Rightarrow> (redis, rerr option) state" where
  "Delete2FASMSCode R appID userID = r_del R [app_key ''2fa_sms'' appID userID]"

definition SetBackupEmail2FACode :: "redis_api \<Rightarrow> string \<Rightarrow> string \<Rightarrow> string \<Rightarrow> (redis, rerr option) state" where
  "SetBackupEmail2FACode R appID userID code =
     r_set R (app_key ''2fa_backup_email'' appID userID) code (5 * minute)"

definition GetBackupEmail2FACode :: "redis_api \<Rightarrow> string \<Rightarrow> string \<Rightarrow> (redis, rerr + string) state" where
  "GetBackupEmail2FACode R appID userID = r_get R (app_key ''2fa_backup_email'' appID userID)"

definition DeleteBackupEmail2FACode :: "redis_api \<Rightarrow> string \<Rightarrow> string \<Rightarrow> (redis, rerr option) state" where
  "DeleteBackupEmail2FACode R appID userID = r_del R [app_key ''2fa_backup_email'' appID userID]"

definition SetOIDCGrantedScopes ::
    "redis_api \<Rightarrow> string \<Rightarrow> string \<Rightarrow> string \<Rightarrow> duration \<Rightarrow> (redis, rerr option) state" where
  "SetOIDCGrantedScopes R appID sessionID scopes ttl =
     r_set R (app_key ''oidc_scopes'' appID sessionID) scopes ttl"

definition GetOIDCGrantedScopes :: "redis_api \<Rightarrow> string \<Rightarrow> string \<Rightarrow> (redis, rerr + string) state" where
  "GetOIDCGrantedScopes R appID sessionID = do {
     res \<leftarrow> r_get R (app_key ''oidc_scopes'' appID sessionID);
     ret (if res = Inl RNil then Inr [] else res) }"

definition SetMergeToken ::
    "redis_api \<Rightarrow> string \<Rightarrow> string \<Rightarrow> string \<Rightarrow> duration \<Rightarrow> (redis, rerr option) state" where
  "SetMergeToken R appID mergeToken payload expiration =
     r_set R (app_key ''merge_token'' appID mergeToken) payload expiration"

definition GetMergeToken :: "redis_api \<Rightarrow> string \<Rightarrow> string \<Rightarrow> (redis, rerr + string) state" where
  "GetMergeToken R appID mergeToken = r_get R (app_key ''merge_token'' appID mergeToken)"

definition DeleteMergeToken :: "redis_api \<Rightarrow> string \<Rightarrow> string \<Rightarrow> (redis, rerr option) state" where
  "DeleteMergeToken R appID mergeToken = r_del R [app_key ''merge_token'' appID mergeToken]"

definition ssoTokenTTL :: duration where
  "ssoTokenTTL = 60 * second"

definition sso_value :: "string \<Rightarrow> string \<Rightarrow> string \<Rightarrow> string" where
  "sso_value groupID sourceAppID userID = groupID @ ''|'' @ sourceAppID @ ''|'' @ userID"

definition SetSSOToken ::
    "redis_api \<Rightarrow> string \<Rightarrow> string \<Rightarrow> string \<Rightarrow> string \<Rightarrow> (redis, rerr option) state" where
  "SetSSOToken R token groupID sourceAppID userID =
     r_set R (''sso:token:'' @ token) (sso_value groupID sourceAppID userID) ssoTokenTTL"

definition parse_sso_value :: "string \<Rightarrow> rerr + (string \<times> string \<times> string)" where
  "parse_sso_value val = (case SplitN val (CHR ''|'') 3 of
       [groupID, sourceAppID, userID] \<Rightarrow> Inr (groupID, sourceAppID, userID)
     | _ \<Rightarrow> Inl (RFail ''malformed SSO token value''))"

definition GetSSOToken ::
    "redis_api \<Rightarrow> string \<Rightarrow> (redis, rerr + (string \<times> string \<times> string)) state" where
  "GetSSOToken R token = do {
     res \<leftarrow> r_get R (''sso:token:'' @ token);
     ret (case res of Inl e \<Rightarrow> Inl e | Inr val \<Rightarrow> parse_sso_value val) }"

definition DeleteSSOToken :: "redis_api \<Rightarrow> string \<Rightarrow> (redis, rerr option) state" where
  "DeleteSSOToken R token = r_del R [''sso:token:'' @ token]"

section \<open>The contract of a token family\<close>

text \<open>
  Every family stores a value under a key made of a scope (the application; nothing for the
  admin families) and an identifier, reads it back and deletes it.
\<close>

locale token_store =
  fixes key :: "string \<Rightarrow> string \<Rightarrow> string"
    and store :: "string \<Rightarrow> string \<Rightarrow> string \<Rightarrow> duration \<Rightarrow> (redis, rerr option) state"
    and lookup :: "string \<Rightarrow> string \<Rightarrow> (redis, rerr + string) state"
    and discard :: "string \<Rightarrow> string \<Rightarrow> (redis, rerr option) state"
  assumes store_post: "run_state (store a i v d) r = (e, r') \<Longrightarrow> set_post (key a i) v d r e r'"
    and lookup_post: "run_state (lookup a i) r = (x, r') \<Longrightarrow> get_post (key a i) r x r'"
    and discard_post: "run_state (discard a i) r = (e, r') \<Longrightarrow> del_post [key a i] r e r'"
begin

lemma discarded_is_gone:
  assumes "run_state (discard a i) r = (None, r1)" and "writes K r1 r2" and "key a i \<notin> K"
    and "run_state (lookup a i) r2 = (x, r3)"
  shows "x = Inl RNil \<or> (\<exists>e. x = Inl (RFail e))"
proof -
  from discard_post[OF assms(1)] have "rdata r1 (key a i) = None" by (simp add: del_post_def)
  with assms(2,3) have "rdata r2 (key a i) = None" by (simp add: writes_def)
  with lookup_post[OF assms(4)] have "live r3 (key a i) = None"
    by (simp add: get_post_def reads_def live_None)
  with lookup_post[OF assms(4)] show ?thesis
    by (auto simp: get_post_def split: sum.splits rerr.splits)
qed

lemma stored_until_expiry:
  assumes "run_state (store a i v d) r = (None, r1)" and "0 < d"
    and "writes K r1 r2" and "key a i \<notin> K" and "run_state (lookup a i) r2 = (x, r3)"
  shows "x = Inr v \<and> rnow r3 < rnow r1 + d \<or> x = Inl RNil \<and> rnow r1 + d \<le> rnow r3
         \<or> (\<exists>e. x = Inl (RFail e))"
proof -
  from store_post[OF assms(1)] assms(2)
  have "rdata r1 (key a i) = Some (RStr v, Some (rnow r1 + d))"
    by (simp add: set_post_def expiry_after_def)
  with assms(3,4) have "rdata r2 (key a i) = Some (RStr v, Some (rnow r1 + d))"
    by (simp add: writes_def)
  with lookup_post[OF assms(5)] show ?thesis
    by (auto simp: get_post_def reads_def live_def entry_at_fresh
             split: sum.splits rerr.splits if_splits)
qed

lemma lookup_reads: "run_state (lookup a i) r = (x, r') \<Longrightarrow> reads r r'"
  by (drule lookup_post) (simp add: get_post_def)

lemma discard_writes: "run_state (discard a i) r = (e, r') \<Longrightarrow> writes {key a i} r r'"
  by (drule discard_post) (simp add: del_post_def)

end

sublocale redis_server \<subseteq> password_reset: token_store "app_key ''password_reset''"
    "\<lambda>a t v d. SetPasswordResetToken R a v t d" "GetPasswordResetToken R" "DeletePasswordResetToken R"
  by unfold_locales (simp_all add: SetPasswordResetToken_def GetPasswordResetToken_def
      DeletePasswordResetToken_def get set del)

sublocale redis_server \<subseteq> temp_session: token_store "app_key ''temp_session''"
    "\<lambda>a t v d. SetTempUserSession R a t v d" "GetTempUserSession R" "DeleteTempUserSession R"
  by unfold_locales (simp_all add: SetTempUserSession_def GetTempUserSession_def
      DeleteTempUserSession_def get set del)

sublocale redis_server \<subseteq> temp_secret: token_store "app_key ''temp_2fa_secret''"
    "SetTempTwoFASecret R" "GetTempTwoFASecret R" "DeleteTempTwoFASecret R"
  by unfold_locales (simp_all add: SetTempTwoFASecret_def GetTempTwoFASecret_def
      DeleteTempTwoFASecret_def get set del)

sublocale redis_server \<subseteq> webauthn_reg: token_store "app_key ''webauthn_reg''"
    "SetWebAuthnRegistrationChallenge R" "GetWebAuthnRegistrationChallenge R"
    "DeleteWebAuthnRegistrationChallenge R"
  by unfold_locales (simp_all add: SetWebAuthnRegistrationChallenge_def
      GetWebAuthnRegistrationChallenge_def DeleteWebAuthnRegistrationChallenge_def get set del)

sublocale redis_server \<subseteq> webauthn_login: token_store "app_key ''webauthn_login''"
    "SetWebAuthnLoginChallenge R" "GetWebAuthnLoginChallenge R" "DeleteWebAuthnLoginChallenge R"
  by unfold_locales (simp_all add: SetWebAuthnLoginChallenge_def GetWebAuthnLoginChallenge_def
      DeleteWebAuthnLoginChallenge_def get set del)

sublocale redis_server \<subseteq> phone_code: token_store "app_key ''phone_verify''"
    "SetPhoneVerificationCode R" "GetPhoneVerificationCode R" "DeletePhoneVerificationCode R"
  by unfold_locales (simp_all add: SetPhoneVerificationCode_def GetPhoneVerificationCode_def
      DeletePhoneVerificationCode_def get set del)

sublocale redis_server \<subseteq> merge: token_store "app_key ''merge_token''"
    "SetMergeToken R" "GetMergeToken R" "DeleteMergeToken R"
  by unfold_locales (simp_all add: SetMergeToken_def GetMergeToken_def DeleteMergeToken_def
      get set del)

sublocale redis_server \<subseteq> admin_session: token_store "\<lambda>_ i. ''admin:session:'' @ i"
    "\<lambda>_ i v d. SetAdminSession R i v d" "\<lambda>_ i. GetAdminSession R i" "\<lambda>_ i. DeleteAdminSession R i"
  by unfold_locales (simp_all add: SetAdminSession_def GetAdminSession_def DeleteAdminSession_def
      get set del)

end
