(* ===== verification/LoginCounters.thy ===== *)
theory LoginCounters
  imports TokenStore
begin

text \<open>
  The counters of \<open>internal/redis/redis.go\<close> behind the brute-force protection: failed logins,
  lockout tiers, delay tiers and the notification cooldown.  A counter is a decimal string
  that \<open>INCR\<close> creates without expiry; the functions differ in when they set one.
\<close>

definition FailedLoginKey :: "string \<Rightarrow> string \<Rightarrow> string" where
  "FailedLoginKey appID identifier = app_key ''failed_login'' appID identifier"

definition LockoutTierKey :: "string \<Rightarrow> string \<Rightarrow> string" where
  "LockoutTierKey appID email = app_key ''lockout_tier'' appID email"

definition DelayTierKey :: "string \<Rightarrow> string \<Rightarrow> string" where
  "DelayTierKey appID identifier = app_key ''delay_tier'' appID identifier"

definition IncrFailedLogin ::
    "redis_api \<Rightarrow> string \<Rightarrow> string \<Rightarrow> duration \<Rightarrow> (redis, rerr + int) state" where
  "IncrFailedLogin R appID identifier window = do {
     let key = FailedLoginKey appID identifier;
     res \<leftarrow> r_incr R key;
     case res of
       Inl e \<Rightarrow> ret (Inl e)
     | Inr count \<Rightarrow> do {
         (if count = 1 then ignore (r_expire R key window) else ret ());
         ret (Inr count) } }"

definition GetFailedLoginCount :: "redis_api \<Rightarrow> string \<Rightarrow> string \<Rightarrow> (redis, rerr + int) state" where
  "GetFailedLoginCount R appID identifier = get_count R (FailedLoginKey appID identifier)"

definition ResetFailedLogins :: "redis_api \<Rightarrow> string \<Rightarrow> string \<Rightarrow> (redis, rerr option) state" where
  "ResetFailedLogins R appID identifier = r_del R [FailedLoginKey appID identifier]"

definition cooldown_key :: "string \<Rightarrow> string \<Rightarrow> string \<Rightarrow> string" where
  "cooldown_key appID userID notificationType =
     ''notify_cooldown:'' @ appID @ '':'' @ userID @ '':'' @ notificationType"

definition SetNotificationCooldown ::
    "redis_api \<Rightarrow> string \<Rightarrow> string \<Rightarrow> string \<Rightarrow> duration \<Rightarrow> (redis, rerr option) state" where
  "SetNotificationCooldown R appID userID notificationType cooldown =
     r_set R (cooldown_key appID userID notificationType) ''1'' cooldown"

definition IsNotificationOnCooldown ::
    "redis_api \<Rightarrow> string \<Rightarrow> string \<Rightarrow> string \<Rightarrow> (redis, rerr + bool) state" where
  "IsNotificationOnCooldown R appID userID notificationType =
     present R (cooldown_key appID userID notificationType)"

definition IncrLockoutTier ::
    "redis_api \<Rightarrow> string \<Rightarrow> string \<Rightarrow> duration \<Rightarrow> (redis, rerr + int) state" where
  "IncrLockoutTier R appID email ttl = do {
     let key = LockoutTierKey appID email;
     res \<leftarrow> r_incr R key;
     case res of
       Inl e \<Rightarrow> ret (Inl e)
     | Inr tier \<Rightarrow> do { ignore (r_expire R key ttl); ret (Inr tier) } }"

definition GetLockoutTier :: "redis_api \<Rightarrow> string \<Rightarrow> string \<Rightarrow> (redis, rerr + int) state" where
  "GetLockoutTier R appID email = get_count R (LockoutTierKey appID email)"

definition ResetLockoutTier :: "redis_api \<Rightarrow> string \<Rightarrow> string \<Rightarrow> (redis, rerr option) state" where
  "ResetLockoutTier R appID email = r_del R [LockoutTierKey appID email]"

definition IncrDelayTier ::
    "redis_api \<Rightarrow> string \<Rightarrow> string \<Rightarrow> duration \<Rightarrow> (redis, rerr + int) state" where
  "IncrDelayTier R appID identifier ttl = do {
     let key = DelayTierKey appID identifier;
     res \<leftarrow> r_incr R key;
     case res of
       Inl e \<Rightarrow> ret (Inl e)
     | Inr tier \<Rightarrow> do {
         (if tier = 1 then ignore (r_expire R key ttl) else ret ());
         ret (Inr tier) } }"

definition GetDelayTier :: "redis_api \<Rightarrow> string \<Rightarrow> string \<Rightarrow> (redis, rerr + int) state" where
  "GetDelayTier R appID identifier = get_count R (DelayTierKey appID identifier)"

definition ResetDelayTier :: "redis_api \<Rightarrow> string \<Rightarrow> string \<Rightarrow> (redis, rerr option) state" where
  "ResetDelayTier R appID identifier = r_del R [DelayTierKey appID identifier]"

section \<open>The contract of a counter\<close>

text \<open>
  A counter key is well formed when it is absent or holds a decimal number of at least 1; every
  operation keeps that, whatever fails on the way.
\<close>

definition counter_ok :: "rentry option \<Rightarrow> bool" where
  "counter_ok e \<longleftrightarrow> e = None \<or> (\<exists>n x. e = Some (RStr (itoa n), x) \<and> 1 \<le> n)"

definition count_at :: "redis \<Rightarrow> string \<Rightarrow> int" where
  "count_at r k = (case live r k of Some (RStr s) \<Rightarrow> (case atoi s of Some n \<Rightarrow> n | None \<Rightarrow> 0) | _ \<Rightarrow> 0)"

lemma counter_ok_entry_at: "counter_ok (d k) \<Longrightarrow> counter_ok (entry_at t d k)"
  by (auto simp: counter_ok_def entry_at_def split: option.splits)

lemma counter_ok_incr: "counter_ok old \<Longrightarrow> incr_value old n new \<Longrightarrow> counter_ok new"
  by (auto simp: counter_ok_def incr_value_def split: option.splits rval.splits prod.splits)

lemma counter_ok_expiry:
  "counter_ok e \<Longrightarrow> counter_ok (map_option (\<lambda>(v, _). (v, x)) e)"
  by (auto simp: counter_ok_def)

end
