(* ===== verification/LinkTokens.thy ===== *)
theory LinkTokens
  imports LoginCounters
begin

text \<open>
  Magic links of users and of admin accounts: a token key that resolves to its owner, and a
  reverse key that resolves the owner to the current token.  The invariant is that of each
  owner at most one token is live.  The user and the admin functions of
  \<open>internal/redis/redis.go\<close> are the same code on different keys, so the locale \<open>link_store\<close>
  proves the invariant once; both are interpretations of it.
\<close>

definition set_link ::
    "redis_api \<Rightarrow> (string \<Rightarrow> string) \<Rightarrow> (string \<Rightarrow> string) \<Rightarrow> string \<Rightarrow> string \<Rightarrow> duration \<Rightarrow>
     (redis, rerr option) state" where
  "set_link R tk rk owner token expiration = do {
     old \<leftarrow> r_get R (rk owner);
     (case old of
        Inr oldToken \<Rightarrow> if oldToken \<noteq> [] then ignore (r_del R [tk oldToken]) else ret ()
      | Inl _ \<Rightarrow> ret ());
     err \<leftarrow> r_set R (tk token) owner expiration;
     case err of Some e \<Rightarrow> ret (Some e) | None \<Rightarrow> r_set R (rk owner) token expiration }"

definition delete_link ::
    "redis_api \<Rightarrow> (string \<Rightarrow> string) \<Rightarrow> (string \<Rightarrow> string) \<Rightarrow> string \<Rightarrow> (redis, rerr option) state" where
  "delete_link R tk rk token = do {
     res \<leftarrow> r_get R (tk token);
     (case res of
        Inr owner \<Rightarrow> if owner \<noteq> [] then ignore (r_del R [rk owner]) else ret ()
      | Inl _ \<Rightarrow> ret ());
     r_del R [tk token] }"

abbreviation magic_tk :: "string \<Rightarrow> string \<Rightarrow> string" where
  "magic_tk appID \<equiv> app_key ''magic_link'' appID"

abbreviation magic_rk :: "string \<Rightarrow> string \<Rightarrow> string" where
  "magic_rk appID \<equiv> app_key ''magic_link_user'' appID"

abbreviation admin_tk :: "string \<Rightarrow> string" where
  "admin_tk t \<equiv> ''admin:magic_link:'' @ t"

abbreviation admin_rk :: "string \<Rightarrow> string" where
  "admin_rk u \<equiv> ''admin:magic_link_user:'' @ u"

lemma SetMagicLinkToken_link:
  "SetMagicLinkToken R a u t d = set_link R (magic_tk a) (magic_rk a) u t d"
  unfolding SetMagicLinkToken_def set_link_def Let_def by (rule refl)

lemma DeleteMagicLinkToken_link:
  "DeleteMagicLinkToken R a t = delete_link R (magic_tk a) (magic_rk a) t"
  unfolding DeleteMagicLinkToken_def delete_link_def Let_def by (rule refl)

lemma SetAdminMagicLinkToken_link:
  "SetAdminMagicLinkToken R u t d = set_link R admin_tk admin_rk u t d"
  unfolding SetAdminMagicLinkToken_def set_link_def Let_def by (rule refl)

lemma DeleteAdminMagicLinkToken_link:
  "DeleteAdminMagicLinkToken R t = delete_link R admin_tk admin_rk t"
  unfolding DeleteAdminMagicLinkToken_def delete_link_def Let_def by (rule refl)

section \<open>The invariant\<close>

definition no_later :: "instant option \<Rightarrow> instant option \<Rightarrow> bool" where
  "no_later x y \<longleftrightarrow> (case y of None \<Rightarrow> True | Some b \<Rightarrow> (case x of None \<Rightarrow> False | Some a \<Rightarrow> a \<le> b))"

lemma no_later_live: "no_later x y \<Longrightarrow> \<not> expired t (v, x) \<Longrightarrow> \<not> expired t (w, y)"
  by (auto simp: no_later_def expired_def split: option.splits)

text \<open>Token keys and reverse keys hold strings, and the current token is never empty.\<close>

definition link_typed :: "(string \<Rightarrow> string) \<Rightarrow> (string \<Rightarrow> string) \<Rightarrow> redis \<Rightarrow> bool" where
  "link_typed tk rk r \<longleftrightarrow>
     (\<forall>t v x. rdata r (tk t) = Some (v, x) \<longrightarrow> (\<exists>u. v = RStr u)) \<and>
     (\<forall>u v x. rdata r (rk u) = Some (v, x) \<longrightarrow> (\<exists>t. v = RStr t \<and> t \<noteq> []))"

text \<open>A live token of an owner is the one the owner's reverse key names, for at least as long.\<close>

definition link_inv :: "(string \<Rightarrow> string) \<Rightarrow> (string \<Rightarrow> string) \<Rightarrow> redis \<Rightarrow> bool" where
  "link_inv tk rk r \<longleftrightarrow> link_typed tk rk r \<and>
     (\<forall>t u x. rdata r (tk t) = Some (RStr u, x) \<longrightarrow> \<not> expired (rnow r) (RStr u, x) \<longrightarrow>
        (\<exists>y. rdata r (rk u) = Some (RStr t, y) \<and> no_later x y))"

definition other_keys :: "(string \<Rightarrow> string) \<Rightarrow> (string \<Rightarrow> string) \<Rightarrow> string set" where
  "other_keys tk rk = - (range tk \<union> range rk)"

lemma expired_mono: "expired t e \<Longrightarrow> t \<le> t' \<Longrightarrow> expired t' e"
  by (auto simp: expired_def split: option.splits)

lemma link_inv_writes:
  assumes "link_inv tk rk r" and "writes K r r'" and "K \<subseteq> other_keys tk rk"
  shows "link_inv tk rk r'"
proof -
  have same: "rdata r' (tk t) = rdata r (tk t)" "rdata r' (rk u) = rdata r (rk u)" for t u
    using assms(2,3) by (auto simp: writes_def other_keys_def)
  have "\<not> expired (rnow r) e" if "\<not> expired (rnow r') e" for e
    using that assms(2) expired_mono[of "rnow r" e "rnow r'"] by (auto simp: writes_def)
  then show ?thesis using assms(1) by (auto simp: link_inv_def link_typed_def same)
qed

lemma link_inv_unique:
  assumes "link_inv tk rk r" and "live r (tk s) = Some (RStr u)" and "live r (tk t) = Some (RStr u)"
  shows "s = t"
proof -
  have "\<exists>y. rdata r (rk u) = Some (RStr i, y)" if l: "live r (tk i) = Some (RStr u)" for i
  proof -
    from l obtain x where "rdata r (tk i) = Some (RStr u, x)" and "\<not> expired (rnow r) (RStr u, x)"
      by (auto simp: live_def entry_at_def split: option.splits if_splits)
    with assms(1) show ?thesis unfolding link_inv_def by blast
  qed
  from this[OF assms(2)] this[OF assms(3)] show ?thesis by auto
qed

section \<open>Preservation\<close>

text \<open>What the first half of \<open>set_link\<close> establishes: the owner has no live token left.\<close>

definition unlinked ::
    "(string \<Rightarrow> string) \<Rightarrow> (string \<Rightarrow> string) \<Rightarrow> string \<Rightarrow> redis \<Rightarrow> bool" where
  "unlinked tk rk u r \<longleftrightarrow> link_inv tk rk r \<and>
     (\<forall>t x. rdata r (tk t) = Some (RStr u, x) \<longrightarrow> expired (rnow r) (RStr u, x))"

locale link_store = reliable_redis +
  fixes tk rk :: "string \<Rightarrow> string"
  assumes tk_inj: "tk s = tk t \<longleftrightarrow> s = t" and rk_inj: "rk u = rk v \<longleftrightarrow> u = v"
    and tk_rk: "tk t \<noteq> rk u"
begin

lemmas link_simps = tk_inj rk_inj tk_rk tk_rk[symmetric]

lemma unlinkedI_dead:
  assumes inv: "link_inv tk rk r" and dead: "live r (rk u) = None"
  shows "unlinked tk rk u r"
  unfolding unlinked_def
proof (intro conjI allI impI inv)
  fix t x assume tok: "rdata r (tk t) = Some (RStr u, x)"
  show "expired (rnow r) (RStr u, x)"
  proof (rule ccontr)
    assume alive: "\<not> expired (rnow r) (RStr u, x)"
    with inv tok obtain y where y: "rdata r (rk u) = Some (RStr t, y)" and le: "no_later x y"
      unfolding link_inv_def by blast
    from le alive have "\<not> expired (rnow r) (RStr t, y)" by (rule no_later_live)
    with y dead show False by (simp add: live_def entry_at_def)
  qed
qed

lemma unlinkedI_del:
  assumes inv: "link_inv tk rk r" and cur: "live r (rk u) = Some (RStr c)"
    and del: "del_post [tk c] r None r'"
  shows "unlinked tk rk u r'"
proof -
  have w: "rdata r' k = rdata r k" if "k \<noteq> tk c" for k using del that
    by (simp add: del_post_def writes_def)
  have gone: "rdata r' (tk c) = None" and now: "rnow r \<le> rnow r'" using del
    by (simp_all add: del_post_def writes_def)
  have earlier: "\<not> expired (rnow r) e" if "\<not> expired (rnow r') e" for e
    using that now expired_mono by blast
  from cur obtain z where c: "rdata r (rk u) = Some (RStr c, z)" by (auto dest: live_Some)
  have "link_inv tk rk r'" using inv
    unfolding link_inv_def link_typed_def
    by (metis w gone earlier link_simps option.distinct(1))
  moreover have "expired (rnow r') (RStr u, x)" if tok: "rdata r' (tk t) = Some (RStr u, x)" for t x
  proof (rule ccontr)
    assume alive: "\<not> expired (rnow r') (RStr u, x)"
    from tok gone have tc: "t \<noteq> c" by auto
    with tok w have "rdata r (tk t) = Some (RStr u, x)" by (simp add: link_simps)
    with inv earlier[OF alive] c have "t = c" unfolding link_inv_def by fastforce
    with tc show False ..
  qed
  ultimately show ?thesis by (auto simp: unlinked_def)
qed

lemma unlinked_set:
  assumes un: "unlinked tk rk u r" and one: "set_post (tk t) u d r None r1"
    and two: "set_post (rk u) t d r1 None r2" and d: "0 < d" and t: "t \<noteq> []"
  shows "link_inv tk rk r2"
proof -
  have tok: "rdata r2 (tk t) = Some (RStr u, Some (rnow r1 + d))"
    and rev: "rdata r2 (rk u) = Some (RStr t, Some (rnow r2 + d))"
    and now: "rnow r \<le> rnow r1" "rnow r1 \<le> rnow r2"
    using one two d by (auto simp: set_post_def writes_def expiry_after_def link_simps)
  have w: "rdata r2 k = rdata r k" if "k \<noteq> tk t" "k \<noteq> rk u" for k
    using one two that by (simp add: set_post_def writes_def)
  have ty: "link_typed tk rk r" and
    main: "\<And>s v x. rdata r (tk s) = Some (RStr v, x) \<Longrightarrow> \<not> expired (rnow r) (RStr v, x) \<Longrightarrow>
           \<exists>y. rdata r (rk v) = Some (RStr s, y) \<and> no_later x y"
    and fresh: "\<And>s x. rdata r (tk s) = Some (RStr u, x) \<Longrightarrow> expired (rnow r) (RStr u, x)"
    using un by (auto simp: unlinked_def link_inv_def)
  have "link_typed tk rk r2"
    unfolding link_typed_def
  proof (intro conjI allI impI)
    fix s v x assume "rdata r2 (tk s) = Some (v, x)"
    then have "s = t \<and> v = RStr u \<or> rdata r (tk s) = Some (v, x)"
      using tok w[of "tk s"] by (cases "s = t") (auto simp: link_simps)
    then show "\<exists>u. v = RStr u" using ty unfolding link_typed_def by blast
  next
    fix s v x assume "rdata r2 (rk s) = Some (v, x)"
    then have "s = u \<and> v = RStr t \<or> rdata r (rk s) = Some (v, x)"
      using rev w[of "rk s"] by (cases "s = u") (auto simp: link_simps)
    then show "\<exists>t. v = RStr t \<and> t \<noteq> []" using ty t unfolding link_typed_def by blast
  qed
  moreover have "\<exists>y. rdata r2 (rk v) = Some (RStr s, y) \<and> no_later x y"
    if s: "rdata r2 (tk s) = Some (RStr v, x)" and al: "\<not> expired (rnow r2) (RStr v, x)" for s v x
  proof (cases "s = t")
    case True
    with s tok rev now show ?thesis by (auto simp: no_later_def)
  next
    case False
    with s w have s': "rdata r (tk s) = Some (RStr v, x)" by (simp add: link_simps)
    have al': "\<not> expired (rnow r) (RStr v, x)"
      using al now expired_mono[of "rnow r" _ "rnow r2"] by fastforce
    with fresh s' have "v \<noteq> u" by auto
    with main[OF s' al'] w show ?thesis by (simp add: link_simps)
  qed
  ultimately show ?thesis by (auto simp: link_inv_def)
qed

lemma set_link_inv:
  assumes inv: "link_inv tk rk r" and d: "0 < d" and t: "t \<noteq> []"
  shows "wp (set_link R tk rk u t d)
           (\<lambda>e r'. e = None \<and> link_inv tk rk r' \<and> (\<exists>x. rnow r + d \<le> x \<and> x \<le> rnow r' + d \<and>
              rdata r' (tk t) = Some (RStr u, Some x))) r"
proof -
  have inv_read: "link_inv tk rk r1" if "reads r r1" for r1
    using inv reads_writes[OF that, of "{}"] by (rule link_inv_writes) simp
  have fin: "\<exists>x. rnow r + d \<le> x \<and> x \<le> rnow r3 + d \<and> rdata r3 (tk t) = Some (RStr u, Some x)"
    if "rnow r \<le> rnow r1" "set_post (tk t) u d r1 None r2" "set_post (rk u) t d r2 None r3" for r1 r2 r3
    using that d by (auto simp: set_post_def writes_def expiry_after_def link_simps)
  show ?thesis
    unfolding set_link_def
  proof (rule wp_bind, rule wp_u_get)
    fix old r1 assume g: "get_post (rk u) r old r1" and
      up: "\<forall>e. old = Inl (RFail e) \<longrightarrow> (\<exists>v. live r1 (rk u) = Some v \<and> (\<forall>s. v \<noteq> RStr s))"
    from g have rd: "reads r r1" by (simp add: get_post_def)
    note i1 = inv_read[OF rd]
    have strs: "\<exists>s. v = RStr s \<and> s \<noteq> []" if "live r1 (rk u) = Some v" for v
      using i1 live_Some[OF that] by (auto simp: link_inv_def link_typed_def)
    have rest: "wp (do { err \<leftarrow> r_set R (tk t) u d;
         case err of Some e \<Rightarrow> ret (Some e) | None \<Rightarrow> r_set R (rk u) t d }) (\<lambda>e r'.
         e = None \<and> link_inv tk rk r' \<and> (\<exists>x. rnow r + d \<le> x \<and> x \<le> rnow r' + d \<and>
              rdata r' (tk t) = Some (RStr u, Some x))) r2"
      if "unlinked tk rk u r2" and "rnow r \<le> rnow r2" for r2
      by (rule wp_bind, rule wp_u_set, simp, rule wp_u_set)
         (use that unlinked_set[OF that(1) _ _ d t] fin in blast)
    show "wp (do { (case old of Inl _ \<Rightarrow> ret ()
             | Inr oldToken \<Rightarrow> if oldToken \<noteq> [] then ignore (r_del R [tk oldToken]) else ret ());
           err \<leftarrow> r_set R (tk t) u d;
           case err of None \<Rightarrow> r_set R (rk u) t d | Some e \<Rightarrow> ret (Some e) }) (\<lambda>e r'.
         e = None \<and> link_inv tk rk r' \<and> (\<exists>x. rnow r + d \<le> x \<and> x \<le> rnow r' + d \<and>
              rdata r' (tk t) = Some (RStr u, Some x))) r1"
    proof (cases "live r1 (rk u)")
      case None
      with g up have "\<exists>e. old = Inl e" by (cases old) (auto simp: get_post_def)
      moreover have "unlinked tk rk u r1" using i1 None by (rule unlinkedI_dead)
      ultimately show ?thesis using rest[of r1] rd
        by (auto simp: reads_def intro!: wp_bind wp_return)
    next
      case (Some v)
      with strs obtain c where c: "live r1 (rk u) = Some (RStr c)" "c \<noteq> []" by auto
      with g up have "old = Inr c"
        by (auto simp: get_post_def split: sum.splits rerr.splits)
      moreover have "rnow r \<le> rnow r2" if "del_post [tk c] r1 None r2" for r2
        using that rd by (auto simp: reads_def del_post_def writes_def)
      ultimately show ?thesis using c(2)
        by simp
           (rule wp_bind, rule wp_ignore, rule wp_u_del, rule rest, erule unlinkedI_del[OF i1 c(1)])
    qed
  qed
qed

lemma delete_link_inv:
  assumes inv: "link_inv tk rk r"
  shows "wp (delete_link R tk rk t) (\<lambda>e r'. e = None \<and> link_inv tk rk r' \<and> rdata r' (tk t) = None) r"
proof -
  text \<open>Deleting the token keeps the invariant; deleting its owner's reverse key first does too.\<close>
  have del_tok: "link_inv tk rk r2 \<and> rdata r2 (tk t) = None"
    if pre: "link_typed tk rk r1"
      "\<And>s v x. s \<noteq> t \<Longrightarrow> rdata r1 (tk s) = Some (RStr v, x) \<Longrightarrow> \<not> expired (rnow r1) (RStr v, x) \<Longrightarrow>
         \<exists>y. rdata r1 (rk v) = Some (RStr s, y) \<and> no_later x y"
      and del: "del_post [tk t] r1 None r2" for r1 r2
  proof -
    have w: "rdata r2 k = rdata r1 k" if "k \<noteq> tk t" for k
      using del that by (simp add: del_post_def writes_def)
    have gone: "rdata r2 (tk t) = None" and now: "rnow r1 \<le> rnow r2"
      using del by (simp_all add: del_post_def writes_def)
    have earlier: "\<not> expired (rnow r1) e" if "\<not> expired (rnow r2) e" for e
      using that now expired_mono by blast
    have "link_typed tk rk r2" using pre(1) unfolding link_typed_def
      by (metis w gone link_simps option.distinct(1))
    moreover have "\<exists>y. rdata r2 (rk v) = Some (RStr s, y) \<and> no_later x y"
      if "rdata r2 (tk s) = Some (RStr v, x)" "\<not> expired (rnow r2) (RStr v, x)" for s v x
      using that pre(2)[of s v x] gone earlier w by (metis link_simps option.distinct(1))
    ultimately show ?thesis using gone by (auto simp: link_inv_def)
  qed
  show ?thesis
    unfolding delete_link_def
  proof (rule wp_bind, rule wp_u_get)
    fix res r1 assume g: "get_post (tk t) r res r1" and
      up: "\<forall>e. res = Inl (RFail e) \<longrightarrow> (\<exists>v. live r1 (tk t) = Some v \<and> (\<forall>s. v \<noteq> RStr s))"
    from g have rd: "reads r r1" by (simp add: get_post_def)
    have i1: "link_inv tk rk r1"
      using inv reads_writes[OF rd, of "{}"] by (rule link_inv_writes) simp
    then have ty: "link_typed tk rk r1" and
      main: "\<And>s v x. rdata r1 (tk s) = Some (RStr v, x) \<Longrightarrow> \<not> expired (rnow r1) (RStr v, x) \<Longrightarrow>
           \<exists>y. rdata r1 (rk v) = Some (RStr s, y) \<and> no_later x y"
      by (auto simp: link_inv_def)
    have plain: "wp (r_del R [tk t]) (\<lambda>e r'. e = None \<and> link_inv tk rk r' \<and> rdata r' (tk t) = None) r1"
      by (rule wp_u_del) (use del_tok[OF ty] main in blast)
    have owned: "wp (r_del R [tk t]) (\<lambda>e r'. e = None \<and> link_inv tk rk r' \<and> rdata r' (tk t) = None) r2"
      if u: "live r1 (tk t) = Some (RStr u)" and del: "del_post [rk u] r1 None r2" for u r2
    proof (rule wp_u_del, intro conjI refl)
      fix r3 assume d3: "del_post [tk t] r2 None r3"
      have w: "rdata r2 k = rdata r1 k" if "k \<noteq> rk u" for k
        using del that by (simp add: del_post_def writes_def)
      have gone: "rdata r2 (rk u) = None" and now: "rnow r1 \<le> rnow r2"
        using del by (simp_all add: del_post_def writes_def)
      have earlier: "\<not> expired (rnow r1) e" if "\<not> expired (rnow r2) e" for e
        using that now expired_mono by blast
      have ty2: "link_typed tk rk r2" using ty unfolding link_typed_def
        by (metis w gone link_simps option.distinct(1))
      have main2: "\<exists>y. rdata r2 (rk v) = Some (RStr s, y) \<and> no_later x y"
        if st: "s \<noteq> t" and s: "rdata r2 (tk s) = Some (RStr v, x)" "\<not> expired (rnow r2) (RStr v, x)" for s v x
      proof -
        have s1: "rdata r1 (tk s) = Some (RStr v, x)" using s(1) w by (simp add: link_simps)
        from main[OF s1 earlier[OF s(2)]] obtain y
          where y: "rdata r1 (rk v) = Some (RStr s, y)" "no_later x y" by blast
        have "live r1 (tk s) = Some (RStr v)"
          using s1 earlier[OF s(2)] by (simp add: live_def entry_at_def)
        with link_inv_unique[OF i1 _ u, of s] st have "v \<noteq> u" by auto
        with y w show ?thesis by (simp add: link_simps)
      qed
      from del_tok[OF ty2 main2 d3] show "link_inv tk rk r3" and "rdata r3 (tk t) = None" by blast+
    qed
    show "wp (do { (case res of Inl _ \<Rightarrow> ret ()
             | Inr owner \<Rightarrow> if owner \<noteq> [] then ignore (r_del R [rk owner]) else ret ());
           r_del R [tk t] }) (\<lambda>e r'. e = None \<and> link_inv tk rk r' \<and> rdata r' (tk t) = None) r1"
    proof (cases res)
      case (Inl e)
      with plain show ?thesis by (auto intro!: wp_bind wp_return)
    next
      case (Inr u)
      with g have u: "live r1 (tk t) = Some (RStr u)" by (simp add: get_post_def)
      show ?thesis
      proof (cases "u = []")
        case True
        with Inr plain show ?thesis by (auto intro!: wp_bind wp_return)
      next
        case False
        with Inr show ?thesis
          by simp (rule wp_bind, rule wp_ignore, rule wp_u_del, rule owned[OF u])
      qed
    qed
  qed
qed

end


sublocale reliable_redis \<subseteq> magic: link_store R "magic_tk appID" "magic_rk appID" for appID
  by unfold_locales (simp_all add: app_key_same_app)

sublocale reliable_redis \<subseteq> admin_magic: link_store R admin_tk admin_rk
  by unfold_locales simp_all

section \<open>All states that a run of the link functions can reach\<close>

inductive magic_reach :: "redis_api \<Rightarrow> string \<Rightarrow> redis \<Rightarrow> bool" for R appID where
  no_links: "(\<And>k. k \<in> range (magic_tk appID) \<union> range (magic_rk appID) \<Longrightarrow> rdata r k = None) \<Longrightarrow>
     magic_reach R appID r"
| issue: "magic_reach R appID r \<Longrightarrow> token \<noteq> [] \<Longrightarrow> 0 < d \<Longrightarrow>
     run_state (SetMagicLinkToken R appID userID token d) r = (e, r') \<Longrightarrow> magic_reach R appID r'"
| redeem: "magic_reach R appID r \<Longrightarrow>
     run_state (DeleteMagicLinkToken R appID token) r = (e, r') \<Longrightarrow> magic_reach R appID r'"
| elsewhere: "magic_reach R appID r \<Longrightarrow> writes K r r' \<Longrightarrow>
     K \<subseteq> other_keys (magic_tk appID) (magic_rk appID) \<Longrightarrow> magic_reach R appID r'"

context reliable_redis
begin

lemma magic_reach_inv: "magic_reach R appID r \<Longrightarrow> link_inv (magic_tk appID) (magic_rk appID) r"
proof (induction rule: magic_reach.induct)
  case (no_links r)
  then show ?case by (simp add: link_inv_def link_typed_def)
next
  case (issue r token d userID e r')
  from magic.set_link_inv[OF issue.IH \<open>0 < d\<close> \<open>token \<noteq> []\<close>, of userID] issue.hyps(4)
  show ?case by (auto simp: SetMagicLinkToken_link dest: wpD)
next
  case (redeem r token e r')
  from magic.delete_link_inv[OF redeem.IH, of token] redeem.hyps(2)
  show ?case by (auto simp: DeleteMagicLinkToken_link dest: wpD)
next
  case (elsewhere r K r')
  then show ?case by (blast intro: link_inv_writes)
qed

end

end
