(* ===== verification/RefRedis.thy ===== *)
theory RefRedis
  imports RedisServer
begin

text \<open>
  A Redis server that keeps the promises of the locale \<open>redis_server\<close>: it answers at once,
  never loses a command, and fails only on a value of the wrong type.  Witnesses run on it.
  \<open>SCAN\<close> goes through a given list of candidate keys, since the key table is a function.
\<close>

abbreviation wrongtype :: rerr where
  "wrongtype \<equiv> RFail ''WRONGTYPE''"

definition put :: "string \<Rightarrow> rentry option \<Rightarrow> redis \<Rightarrow> redis" where
  "put k e r = r\<lparr>rdata := (rdata r)(k := e)\<rparr>"

lemma put_sel [simp]: "rdata (put k e r) = (rdata r)(k := e)" "rnow (put k e r) = rnow r"
  by (simp_all add: put_def)

definition ref_get :: "string \<Rightarrow> redis \<Rightarrow> (rerr + string) \<times> redis" where
  "ref_get k r = (case live r k of None \<Rightarrow> Inl RNil | Some (RStr v) \<Rightarrow> Inr v | _ \<Rightarrow> Inl wrongtype, r)"

definition ref_set :: "string \<Rightarrow> string \<Rightarrow> duration \<Rightarrow> redis \<Rightarrow> rerr option \<times> redis" where
  "ref_set k v d r = (None, put k (Some (RStr v, expiry_after (rnow r) d)) r)"

fun ref_del :: "string list \<Rightarrow> redis \<Rightarrow> redis" where
  "ref_del [] r = r"
| "ref_del (k # ks) r = ref_del ks (put k None r)"

definition ref_expire :: "string \<Rightarrow> duration \<Rightarrow> redis \<Rightarrow> rerr option \<times> redis" where
  "ref_expire k d r = (None, put k (map_option (\<lambda>(v, _). (v, Some (rnow r + d))) (entry r k)) r)"

definition ref_incr :: "string \<Rightarrow> redis \<Rightarrow> (rerr + int) \<times> redis" where
  "ref_incr k r = (case entry r k of
      None \<Rightarrow> (Inr 1, put k (Some (RStr (itoa 1), None)) r)
    | Some (RStr s, x) \<Rightarrow> (case atoi s of None \<Rightarrow> (Inl wrongtype, r)
        | Some n \<Rightarrow> (Inr (n + 1), put k (Some (RStr (itoa (n + 1)), x)) r))
    | _ \<Rightarrow> (Inl wrongtype, r))"

definition ref_hset :: "string \<Rightarrow> (string \<times> string) list \<Rightarrow> redis \<Rightarrow> rerr option \<times> redis" where
  "ref_hset k fs r = (case hash_of (entry r k) of None \<Rightarrow> (Some wrongtype, r)
    | Some h \<Rightarrow> (None, put k (Some (RHash (updates fs h), expiry_of (entry r k))) r))"

definition ref_hget :: "string \<Rightarrow> string \<Rightarrow> redis \<Rightarrow> (rerr + string) \<times> redis" where
  "ref_hget k f r = (case live r k of None \<Rightarrow> Inl RNil
    | Some (RHash h) \<Rightarrow> (case map_of h f of None \<Rightarrow> Inl RNil | Some v \<Rightarrow> Inr v)
    | _ \<Rightarrow> Inl wrongtype, r)"

definition ref_sadd :: "string \<Rightarrow> string \<Rightarrow> redis \<Rightarrow> rerr option \<times> redis" where
  "ref_sadd k x r = (case set_of (entry r k) of None \<Rightarrow> (Some wrongtype, r)
    | Some xs \<Rightarrow> (None, put k (Some (RSet (List.insert x xs), expiry_of (entry r k))) r))"

definition ref_srem :: "string \<Rightarrow> string \<Rightarrow> redis \<Rightarrow> rerr option \<times> redis" where
  "ref_srem k x r = (case set_of (entry r k) of None \<Rightarrow> (Some wrongtype, r)
    | Some xs \<Rightarrow> (None, put k (if removeAll x xs = [] then None
                         else Some (RSet (removeAll x xs), expiry_of (entry r k))) r))"

definition ref_redis :: "string list \<Rightarrow> redis_api" where
  "ref_redis ks = \<lparr>
     r_get = (\<lambda>k. State (ref_get k)),
     r_set = (\<lambda>k v d. State (ref_set k v d)),
     r_del = (\<lambda>ks. State (\<lambda>r. (None, ref_del ks r))),
     r_expire = (\<lambda>k d. State (ref_expire k d)),
     r_exists = (\<lambda>k. State (\<lambda>r. (Inr (if live r k = None then 0 else 1), r))),
     r_incr = (\<lambda>k. State (ref_incr k)),
     r_hset = (\<lambda>k fs. State (ref_hset k fs)),
     r_hget = (\<lambda>k f. State (ref_hget k f)),
     r_hgetall = (\<lambda>k. State (\<lambda>r. (case hash_of (entry r k) of None \<Rightarrow> Inl wrongtype
                                         | Some h \<Rightarrow> Inr h, r))),
     r_sadd = (\<lambda>k x. State (ref_sadd k x)),
     r_srem = (\<lambda>k x. State (ref_srem k x)),
     r_smembers = (\<lambda>k. State (\<lambda>r. (case set_of (entry r k) of None \<Rightarrow> Inl wrongtype
                                          | Some xs \<Rightarrow> Inr xs, r))),
     r_scard = (\<lambda>k. State (\<lambda>r. (case set_of (entry r k) of None \<Rightarrow> Inl wrongtype
                                       | Some xs \<Rightarrow> Inr (int (card (set xs))), r))),
     r_ttl = (\<lambda>k. State (\<lambda>r. (Inr (case entry r k of None \<Rightarrow> -2 | Some (_, None) \<Rightarrow> -1
                                     | Some (_, Some x) \<Rightarrow> x - rnow r), r))),
     r_scan = (\<lambda>c p n. State (\<lambda>r. (Inr (filter (\<lambda>k. HasPrefix k p \<and> live r k \<noteq> None) ks, 0), r))) \<rparr>"

lemma ref_redis_sel [simp]:
  "run_state (r_get (ref_redis ks) k) r = ref_get k r"
  "run_state (r_set (ref_redis ks) k v d) r = ref_set k v d r"
  "run_state (r_del (ref_redis ks) xs) r = (None, ref_del xs r)"
  "run_state (r_expire (ref_redis ks) k d) r = ref_expire k d r"
  "run_state (r_exists (ref_redis ks) k) r = (Inr (if live r k = None then 0 else 1), r)"
  "run_state (r_incr (ref_redis ks) k) r = ref_incr k r"
  "run_state (r_hset (ref_redis ks) k fs) r = ref_hset k fs r"
  "run_state (r_hget (ref_redis ks) k f) r = ref_hget k f r"
  "run_state (r_hgetall (ref_redis ks) k) r =
     (case hash_of (entry r k) of None \<Rightarrow> Inl wrongtype | Some h \<Rightarrow> Inr h, r)"
  "run_state (r_sadd (ref_redis ks) k x) r = ref_sadd k x r"
  "run_state (r_srem (ref_redis ks) k x) r = ref_srem k x r"
  "run_state (r_smembers (ref_redis ks) k) r =
     (case set_of (entry r k) of None \<Rightarrow> Inl wrongtype | Some xs \<Rightarrow> Inr xs, r)"
  "run_state (r_scard (ref_redis ks) k) r =
     (case set_of (entry r k) of None \<Rightarrow> Inl wrongtype | Some xs \<Rightarrow> Inr (int (card (set xs))), r)"
  "run_state (r_ttl (ref_redis ks) k) r =
     (Inr (case entry r k of None \<Rightarrow> -2 | Some (_, None) \<Rightarrow> -1 | Some (_, Some x) \<Rightarrow> x - rnow r), r)"
  "run_state (r_scan (ref_redis ks) c p n) r =
     (Inr (filter (\<lambda>k. HasPrefix k p \<and> live r k \<noteq> None) ks, 0), r)"
  by (simp_all add: ref_redis_def)

lemma rnow_ref_del [simp]: "rnow (ref_del ks r) = rnow r"
  by (induction ks r rule: ref_del.induct) simp_all

lemma rdata_ref_del: "rdata (ref_del ks r) k = (if k \<in> set ks then None else rdata r k)"
  by (induction ks r rule: ref_del.induct) auto

lemma live_iff_entry: "live r k = None \<longleftrightarrow> entry r k = None"
  by (simp add: live_def)

lemma entry_live_expiry: "entry r k = Some (v, Some x) \<Longrightarrow> rnow r < x"
  by (auto simp: entry_at_def expired_def split: option.splits if_splits)

interpretation ref0: redis_server "ref_redis ks" for ks
proof (unfold_locales, goal_cases)
  case 1 then show ?case
    by (auto simp: ref_get_def get_post_def split: option.splits rval.splits)
next
  case 2 then show ?case by (auto simp: ref_set_def set_post_def writes_def)
next
  case 3 then show ?case by (auto simp: del_post_def writes_def rdata_ref_del)
next
  case 4 then show ?case by (auto simp: ref_expire_def expire_post_def writes_def)
next
  case 5 then show ?case by (auto simp: exists_post_def)
next
  case (6 k r n r') then show ?case
    by (auto simp: ref_incr_def incr_post_def incr_value_def writes_def
             split: option.splits rval.splits prod.splits)
next
  case 7 then show ?case
    by (auto simp: ref_hset_def hset_post_def Let_def writes_def split: option.splits)
next
  case 8 then show ?case
    by (auto simp: ref_hget_def hget_post_def split: option.splits rval.splits)
next
  case 9 then show ?case by (auto simp: hgetall_post_def split: option.splits)
next
  case 10 then show ?case
    by (auto simp: ref_sadd_def sadd_post_def Let_def writes_def split: option.splits)
next
  case 11 then show ?case
    by (auto simp: ref_srem_def srem_post_def Let_def writes_def split: option.splits)
next
  case 12 then show ?case by (auto simp: smembers_post_def split: option.splits)
next
  case 13 then show ?case by (auto simp: scard_post_def split: option.splits)
next
  case 14 then show ?case
    by (auto simp: ttl_post_def split: option.splits dest!: entry_live_expiry)
next
  case 15 then show ?case by (auto simp: scan_post_def live_iff_entry)
qed

interpretation ref: reliable_redis "ref_redis ks" for ks
proof (unfold_locales, goal_cases)
  case 1 then show ?case by (auto simp: ref_get_def split: option.splits rval.splits)
next
  case 2 then show ?case by (auto simp: ref_set_def)
next
  case 3 then show ?case by auto
next
  case 4 then show ?case by (auto simp: ref_expire_def)
next
  case 5 then show ?case by auto
next
  case 6 then show ?case
    by (auto simp: ref_incr_def incr_value_def split: option.splits rval.splits prod.splits)
next
  case 7 then show ?case by (auto simp: ref_hset_def split: option.splits)
next
  case (8 k f r e r') then show ?case
    by (auto simp: ref_hget_def hash_of_def live_def split: option.splits rval.splits)
next
  case 9 then show ?case by (auto split: option.splits)
next
  case 10 then show ?case by (auto simp: ref_sadd_def split: option.splits)
next
  case 11 then show ?case by (auto simp: ref_srem_def split: option.splits)
next
  case 12 then show ?case by (auto split: option.splits)
qed

text \<open>An empty server at instant 0; what a closed run of the model is evaluated with.\<close>

definition empty_redis :: redis where
  "empty_redis = \<lparr>rdata = (\<lambda>_. None), rnow = 0\<rparr>"

definition tick :: "duration \<Rightarrow> redis \<Rightarrow> redis" where
  "tick d r = r\<lparr>rnow := rnow r + d\<rparr>"

lemmas ref_eval = ref_get_def ref_set_def ref_expire_def ref_incr_def ref_hset_def ref_hget_def
  ref_sadd_def ref_srem_def empty_redis_def tick_def live_def entry_at_def expired_def
  expiry_after_def hash_of_def set_of_def expiry_of_def

end
