(* ===== verification/World.thy ===== *)
theory World
  imports RefRedis
begin

text \<open>
  The state of the process that the services thread: the Redis server and how many random
  values have been drawn (\<open>uuid.New()\<close> and \<open>crypto/rand\<close> are parameters indexed by that
  number).  \<open>rds\<close> runs a computation on the server inside it.  The state is extensible:
  the theories that need the database or the outgoing messages add fields to it.
\<close>

record world =
  w_redis :: redis
  w_rand :: nat

definition rds :: "(redis, 'a) state \<Rightarrow> ('z world_scheme, 'a) state" where
  "rds m = State (\<lambda>w. case run_state m (w_redis w) of (a, r) \<Rightarrow> (a, w\<lparr>w_redis := r\<rparr>))"

definition draw :: "(nat \<Rightarrow> 'a) \<Rightarrow> ('z world_scheme, 'a) state" where
  "draw rnd = State (\<lambda>w. (rnd (w_rand w), w\<lparr>w_rand := Suc (w_rand w)\<rparr>))"

lemma run_rds [simp]:
  "run_state (rds m) w = (case run_state m (w_redis w) of (a, r) \<Rightarrow> (a, w\<lparr>w_redis := r\<rparr>))"
  by (simp add: rds_def)

lemma run_draw [simp]: "run_state (draw rnd) w = (rnd (w_rand w), w\<lparr>w_rand := Suc (w_rand w)\<rparr>)"
  by (simp add: draw_def)

lemma wp_rds [wp_intro]: "wp m (\<lambda>a r. Q a (w\<lparr>w_redis := r\<rparr>)) (w_redis w) \<Longrightarrow> wp (rds m) Q w"
  by (simp add: wp_def split: prod.splits)

lemma wp_draw [wp_intro]: "Q (rnd (w_rand w)) (w\<lparr>w_rand := Suc (w_rand w)\<rparr>) \<Longrightarrow> wp (draw rnd) Q w"
  by (simp add: wp_def)

text \<open>A handler either returns or dies of a nil dereference or a failed type assertion.\<close>

datatype 'a outcome = Returned 'a | Panicked string

section \<open>\<open>pkg/errors\<close>\<close>

datatype err_type = ErrInternal | ErrUnauthorized | ErrForbidden | ErrNotFound | ErrConflict | ErrBadRequest

record app_error =
  Code :: int
  Message :: string

fun NewAppError :: "err_type \<Rightarrow> string \<Rightarrow> app_error" where
  "NewAppError ErrInternal msg = \<lparr>Code = 500, Message = msg\<rparr>"
| "NewAppError ErrUnauthorized msg = \<lparr>Code = 401, Message = msg\<rparr>"
| "NewAppError ErrForbidden msg = \<lparr>Code = 403, Message = msg\<rparr>"
| "NewAppError ErrNotFound msg = \<lparr>Code = 404, Message = msg\<rparr>"
| "NewAppError ErrConflict msg = \<lparr>Code = 409, Message = msg\<rparr>"
| "NewAppError ErrBadRequest msg = \<lparr>Code = 400, Message = msg\<rparr>"

abbreviation internal :: "string \<Rightarrow> app_error" where "internal \<equiv> NewAppError ErrInternal"
abbreviation unauthorized :: "string \<Rightarrow> app_error" where "unauthorized \<equiv> NewAppError ErrUnauthorized"
abbreviation forbidden :: "string \<Rightarrow> app_error" where "forbidden \<equiv> NewAppError ErrForbidden"
abbreviation not_found :: "string \<Rightarrow> app_error" where "not_found \<equiv> NewAppError ErrNotFound"
abbreviation conflict :: "string \<Rightarrow> app_error" where "conflict \<equiv> NewAppError ErrConflict"
abbreviation bad_request :: "string \<Rightarrow> app_error" where "bad_request \<equiv> NewAppError ErrBadRequest"

section \<open>Requests and replies of gin\<close>

datatype ctx_val = CStr string | CStrs "string list" | CBool bool | CUuid string

text \<open>
  What the handlers read of a request.  A header that is not there reads as the empty string,
  a context key that was never set is \<open>None\<close>.
\<close>

record http_ctx =
  GetHeader :: "string \<Rightarrow> string"
  Param :: "string \<Rightarrow> string"
  Query :: "string \<Rightarrow> string"
  Cookie :: "string \<Rightarrow> string option"
  ClientIP :: string
  RemoteAddr :: string
  Method :: string
  Path :: string
  PostForm :: "string \<Rightarrow> string"
  ctx_keys :: "string \<Rightarrow> ctx_val option"

definition SetKey :: "string \<Rightarrow> ctx_val \<Rightarrow> http_ctx \<Rightarrow> http_ctx" where
  "SetKey k v c = c\<lparr>ctx_keys := (ctx_keys c)(k \<mapsto> v)\<rparr>"

lemma ctx_keys_SetKey [simp]: "ctx_keys (SetKey k v c) = (ctx_keys c)(k \<mapsto> v)"
  by (simp add: SetKey_def)

text \<open>
  A middleware passes the request on, with the context it leaves, answers it with an error, or
  redirects it; \<open>CUuid\<close> is a \<open>uuid.UUID\<close>, given by its canonical text.
\<close>

datatype mw_result = Abort int string | Next http_ctx | Redirect string

end
