(* ===== verification/GoTime.thy ===== *)
theory GoTime
  imports GoStrings
begin

text \<open>
  \<open>t.UTC().Format(time.RFC3339)\<close>: the civil date and time of an instant, counted in
  nanoseconds since the Unix epoch, in the proleptic Gregorian calendar.
\<close>

definition day_length :: int where
  "day_length = 86400 * second"

definition day_of :: "instant \<Rightarrow> int" where
  "day_of t = t div day_length"

definition civil :: "int \<Rightarrow> int \<times> int \<times> int" where
  "civil day = (let z = day + 719468; era = z div 146097; doe = z mod 146097;
      yoe = (doe - doe div 1460 + doe div 36524 - doe div 146096) div 365;
      doy = doe - (365 * yoe + yoe div 4 - yoe div 100);
      mp = (5 * doy + 2) div 153;
      d = doy - (153 * mp + 2) div 5 + 1;
      m = (if mp < 10 then mp + 3 else mp - 9)
    in (yoe + era * 400 + (if m \<le> 2 then 1 else 0), m, d))"

definition pad :: "nat \<Rightarrow> int \<Rightarrow> string" where
  "pad w i = (let s = itoa i in replicate (w - length s) (CHR ''0'') @ s)"

definition rfc3339 :: "instant \<Rightarrow> string" where
  "rfc3339 t = (let (y, m, d) = civil (day_of t); s = (t mod day_length) div second
     in pad 4 y @ ''-'' @ pad 2 m @ ''-'' @ pad 2 d @ ''T'' @
        pad 2 (s div 3600) @ '':'' @ pad 2 (s div 60 mod 60) @ '':'' @ pad 2 (s mod 60) @ ''Z'')"

lemma rfc3339_epoch: "rfc3339 0 = ''1970-01-01T00:00:00Z''"
  by code_simp

lemma rfc3339_leap_day: "rfc3339 (1709251199 * second) = ''2024-02-29T23:59:59Z''"
  by code_simp

end
