(* ===== verification/SessionStore.thy ===== *)
theory SessionStore
  imports LoginCounters GoTime
begin

text \<open>
  The session functions of \<open>internal/redis/redis.go\<close>.  A session is a hash under
  \<open>app:<app>:session:<id>\<close>; its id is in two index sets, of its user and of its application,
  and a marker key \<open>session_meta:<app>:<user>:<id>\<close> stands for it in the expiry detection.
  \<open>time.Now()\<close> reads the server's clock: one clock is assumed for the process and the server.
\<close>

definition time_now :: "(redis, instant) state" where
  "time_now = do { r \<leftarrow> State_Monad.get; ret (rnow r) }"

lemma run_time_now [simp]: "run_state time_now r = (rnow r, r)"
  by (simp add: time_now_def)

lemma wp_time_now [wp_intro]: "Q (rnow r) r \<Longrightarrow> wp time_now Q r"
  by (simp add: time_now_def wp_def)

lemma touches_time_now [touches_intro]: "touches K time_now"
  by (simp add: time_now_def touches_def wp_def)

definition session_fields ::
    "string \<Rightarrow> string \<Rightarrow> string \<Rightarrow> string \<Rightarrow> instant \<Rightarrow> instant \<Rightarrow> (string \<times> string) list" where
  "session_fields userID refreshToken ip userAgent t1 t2 =
     [(''user_id'', userID), (''refresh_token'', refreshToken), (''ip'', ip),
      (''user_agent'', userAgent), (''created_at'', rfc3339 t1), (''last_active'', rfc3339 t2)]"

definition CreateSession ::
    "redis_api \<Rightarrow> string \<Rightarrow> string \<Rightarrow> string \<Rightarrow> string \<Rightarrow> string \<Rightarrow> string \<Rightarrow> duration \<Rightarrow>
     (redis, rerr option) state" where
  "CreateSession R appID sessionID userID refreshToken ip userAgent ttl = do {
     let key = SessionKey appID sessionID;
     t1 \<leftarrow> time_now;
     t2 \<leftarrow> time_now;
     err \<leftarrow> r_hset R key (session_fields userID refreshToken ip userAgent t1 t2);
     case err of Some e \<Rightarrow> ret (Some e) | None \<Rightarrow> do {
     err \<leftarrow> r_expire R key ttl;
     case err of Some e \<Rightarrow> ret (Some e) | None \<Rightarrow> do {
     let indexKey = UserSessionsKey appID userID;
     err \<leftarrow> r_sadd R indexKey sessionID;
     case err of Some e \<Rightarrow> ret (Some e) | None \<Rightarrow> do {
     ignore (r_expire R indexKey (ttl + 24 * hour));
     let appIndexKey = AllSessionsKey appID;
     ignore (r_sadd R appIndexKey sessionID);
     ignore (r_expire R appIndexKey (ttl + 24 * hour));
     ignore (r_set R (SessionMetaKey appID userID sessionID) ''1'' ttl);
     ret None } } } }"

definition GetSession ::
    "redis_api \<Rightarrow> string \<Rightarrow> string \<Rightarrow> (redis, rerr + (string \<times> string) list) state" where
  "GetSession R appID sessionID = do {
     res \<leftarrow> r_hgetall R (SessionKey appID sessionID);
     ret (case res of Inl e \<Rightarrow> Inl e | Inr m \<Rightarrow> (if m = [] then Inl RNil else Inr m)) }"

definition GetSessionRefreshToken :: "redis_api \<Rightarrow> string \<Rightarrow> string \<Rightarrow> (redis, rerr + string) state" where
  "GetSessionRefreshToken R appID sessionID = r_hget R (SessionKey appID sessionID) ''refresh_token''"

definition UpdateSessionRefreshToken ::
    "redis_api \<Rightarrow> string \<Rightarrow> string \<Rightarrow> string \<Rightarrow> (redis, rerr option) state" where
  "UpdateSessionRefreshToken R appID sessionID newRefreshToken =
     r_hset R (SessionKey appID sessionID) [(''refresh_token'', newRefreshToken)]"

definition ResetSessionTTL :: "redis_api \<Rightarrow> string \<Rightarrow> string \<Rightarrow> duration \<Rightarrow> (redis, rerr option) state" where
  "ResetSessionTTL R appID sessionID ttl = r_expire R (SessionKey appID sessionID) ttl"

definition TouchSession :: "redis_api \<Rightarrow> string \<Rightarrow> string \<Rightarrow> (redis, rerr option) state" where
  "TouchSession R appID sessionID = do {
     t \<leftarrow> time_now;
     r_hset R (SessionKey appID sessionID) [(''last_active'', rfc3339 t)] }"

definition DeleteSession :: "redis_api \<Rightarrow> string \<Rightarrow> string \<Rightarrow> string \<Rightarrow> (redis, rerr option) state" where
  "DeleteSession R appID sessionID userID = do {
     err \<leftarrow> r_del R [SessionKey appID sessionID];
     case err of Some e \<Rightarrow> ret (Some e) | None \<Rightarrow> do {
     ignore (r_srem R (UserSessionsKey appID userID) sessionID);
     ignore (r_srem R (AllSessionsKey appID) sessionID);
     ignore (r_del R [SessionMetaKey appID userID sessionID]);
     ret None } }"

text \<open>The loop of the lazy clean-up, the same for the user and the application index.\<close>

fun prune_ids :: "redis_api \<Rightarrow> string \<Rightarrow> string \<Rightarrow> string list \<Rightarrow> (redis, string list) state" where
  "prune_ids R appID indexKey [] = ret []"
| "prune_ids R appID indexKey (sid # sids) = do {
     res \<leftarrow> r_exists R (SessionKey appID sid);
     case res of
       Inl e \<Rightarrow> prune_ids R appID indexKey sids
     | Inr n \<Rightarrow> (if n = 0 then do {
           ignore (r_srem R indexKey sid);
           prune_ids R appID indexKey sids }
         else do {
           validIDs \<leftarrow> prune_ids R appID indexKey sids;
           ret (sid # validIDs) }) }"

definition GetUserSessionIDs :: "redis_api \<Rightarrow> string \<Rightarrow> string \<Rightarrow> (redis, rerr + string list) state" where
  "GetUserSessionIDs R appID userID = do {
     let indexKey = UserSessionsKey appID userID;
     res \<leftarrow> r_smembers R indexKey;
     case res of
       Inl e \<Rightarrow> ret (Inl e)
     | Inr sessionIDs \<Rightarrow> do { validIDs \<leftarrow> prune_ids R appID indexKey sessionIDs; ret (Inr validIDs) } }"

definition DeleteAllUserSessions ::
    "redis_api \<Rightarrow> string \<Rightarrow> string \<Rightarrow> string \<Rightarrow> (redis, rerr option) state" where
  "DeleteAllUserSessions R appID userID exceptSessionID = do {
     res \<leftarrow> GetUserSessionIDs R appID userID;
     case res of
       Inl e \<Rightarrow> ret (Some e)
     | Inr sessionIDs \<Rightarrow> do {
         for_each sessionIDs (\<lambda>sid. if sid = exceptSessionID then ret () else do {
           ignore (r_del R [SessionKey appID sid]);
           ignore (r_srem R (AllSessionsKey appID) sid) });
         let indexKey = UserSessionsKey appID userID;
         (if exceptSessionID = [] then ignore (r_del R [indexKey])
          else do { ignore (r_del R [indexKey]); ignore (r_sadd R indexKey exceptSessionID) });
         ret None } }"

definition SessionExists :: "redis_api \<Rightarrow> string \<Rightarrow> string \<Rightarrow> (redis, rerr + bool) state" where
  "SessionExists R appID sessionID = do {
     res \<leftarrow> r_exists R (SessionKey appID sessionID);
     ret (case res of Inl e \<Rightarrow> Inl e | Inr n \<Rightarrow> Inr (n > 0)) }"

definition GetAppSessionIDs :: "redis_api \<Rightarrow> string \<Rightarrow> (redis, rerr + string list) state" where
  "GetAppSessionIDs R appID = do {
     let indexKey = AllSessionsKey appID;
     res \<leftarrow> r_smembers R indexKey;
     case res of
       Inl e \<Rightarrow> ret (Inl e)
     | Inr sessionIDs \<Rightarrow> do { validIDs \<leftarrow> prune_ids R appID indexKey sessionIDs; ret (Inr validIDs) } }"

definition CountAppSessions :: "redis_api \<Rightarrow> string \<Rightarrow> (redis, rerr + int) state" where
  "CountAppSessions R appID = r_scard R (AllSessionsKey appID)"

fun collect_sessions ::
    "redis_api \<Rightarrow> string \<Rightarrow> string list \<Rightarrow> (redis, (string \<times> string) list list) state" where
  "collect_sessions R appID [] = ret []"
| "collect_sessions R appID (sid # sids) = do {
     res \<leftarrow> GetSession R appID sid;
     case res of
       Inl e \<Rightarrow> collect_sessions R appID sids
     | Inr data \<Rightarrow> do {
         rest \<leftarrow> collect_sessions R appID sids;
         ret (AList.delete ''refresh_token'' (AList.update ''session_id'' sid data) # rest) } }"

definition GetAllSessionsForApp ::
    "redis_api \<Rightarrow> string \<Rightarrow> (redis, rerr + (string \<times> string) list list) state" where
  "GetAllSessionsForApp R appID = do {
     res \<leftarrow> GetAppSessionIDs R appID;
     case res of
       Inl e \<Rightarrow> ret (Inl e)
     | Inr sessionIDs \<Rightarrow> do { sessions \<leftarrow> collect_sessions R appID sessionIDs; ret (Inr sessions) } }"

section \<open>Expiry detection\<close>

definition ParseSessionMetaKey :: "string \<Rightarrow> string + (string \<times> string \<times> string)" where
  "ParseSessionMetaKey metaKey =
     (if \<not> HasPrefix metaKey ''session_meta:'' then Inl ''not a session_meta key''
      else case Split (drop (length ''session_meta:'') metaKey) (CHR '':'') of
             [appID, userID, sessionID] \<Rightarrow> Inr (appID, userID, sessionID)
           | _ \<Rightarrow> Inl ''malformed session_meta key'')"

fun expired_of :: "redis_api \<Rightarrow> string list \<Rightarrow> (redis, string list) state" where
  "expired_of R [] = ret []"
| "expired_of R (key # keys) = do {
     res \<leftarrow> r_ttl R key;
     rest \<leftarrow> expired_of R keys;
     ret (case res of Inl e \<Rightarrow> rest | Inr ttl \<Rightarrow> (if ttl \<le> 0 then key # rest else rest)) }"

text \<open>
  The \<open>SCAN\<close> loop ends when the server returns cursor 0; how often it goes round is up to the
  server, so the loop has fuel, and \<open>None\<close> is a loop that has not ended.
\<close>

fun scan_expired :: "redis_api \<Rightarrow> nat \<Rightarrow> nat \<Rightarrow> (redis, (rerr + string list) option) state" where
  "scan_expired R 0 cursor = ret None"
| "scan_expired R (Suc fuel) cursor = do {
     res \<leftarrow> r_scan R cursor ''session_meta:'' 100;
     case res of
       Inl e \<Rightarrow> ret (Some (Inl e))
     | Inr (keys, cursor') \<Rightarrow> do {
         found \<leftarrow> expired_of R keys;
         (if cursor' = 0 then ret (Some (Inr found)) else do {
            rest \<leftarrow> scan_expired R fuel cursor';
            ret (case rest of Some (Inr ks) \<Rightarrow> Some (Inr (found @ ks)) | _ \<Rightarrow> rest) }) } }"

definition GetExpiredSessionMetaKeys ::
    "redis_api \<Rightarrow> nat \<Rightarrow> (redis, (rerr + string list) option) state" where
  "GetExpiredSessionMetaKeys R fuel = scan_expired R fuel 0"

end
