(* ===== verification/Jwt.thy ===== *)
theory Jwt
  imports World SessionStore
begin

text \<open>
  \<open>pkg/jwt/jwt.go\<close>.  The library golang-jwt is a parameter: the record \<open>jwt_api\<close> has what the
  code calls, the locale \<open>jwt_lib\<close> what its documentation promises, \<open>ref_jwt\<close> is one library
  that keeps the promises.
\<close>

section \<open>Claims and the library\<close>

record claims =
  UserID :: string
  AppID :: string
  SessionID :: string
  TokenType :: string
  Roles :: "string list"
  ExpiresAt :: "instant option"
  IssuedAt :: "instant option"

text \<open>The Go type of \<open>token.Method\<close>, with its algorithm name.\<close>

datatype sign_method = HMAC string | OtherMethod string

type_synonym keyfunc = "sign_method \<Rightarrow> string + string"

record jwt_api =
  NewNumericDate :: "instant \<Rightarrow> instant"
  SignedString :: "string \<Rightarrow> claims \<Rightarrow> string + string"
  ParseWithClaims :: "keyfunc \<Rightarrow> instant \<Rightarrow> string \<Rightarrow> string + (claims \<times> bool)"

text \<open>Strings that JSON carries unchanged.\<close>

definition ascii :: "string \<Rightarrow> bool" where
  "ascii s \<longleftrightarrow> (\<forall>c\<in>set s. (of_char c :: nat) < 128)"

definition wire_safe :: "claims \<Rightarrow> bool" where
  "wire_safe c \<longleftrightarrow> ascii (UserID c) \<and> ascii (AppID c) \<and> ascii (SessionID c) \<and> ascii (TokenType c) \<and>
     (\<forall>s\<in>set (Roles c). ascii s) \<and>
     (\<forall>t. ExpiresAt c = Some t \<longrightarrow> t mod second = 0) \<and> (\<forall>t. IssuedAt c = Some t \<longrightarrow> t mod second = 0)"

definition unexpired :: "instant \<Rightarrow> claims \<Rightarrow> bool" where
  "unexpired now c = (case ExpiresAt c of None \<Rightarrow> True | Some x \<Rightarrow> now < x)"

locale jwt_lib =
  fixes J :: jwt_api
  assumes date: "NewNumericDate J t = t - t mod second"
    and signs: "\<exists>tok. SignedString J key c = Inr tok"
    and signed_nonempty: "SignedString J key c = Inr tok \<Longrightarrow> tok \<noteq> []"
    and parse_signed: "SignedString J key c = Inr tok \<Longrightarrow> wire_safe c \<Longrightarrow> kf (HMAC ''HS256'') = Inr key \<Longrightarrow>
      unexpired now c \<Longrightarrow> ParseWithClaims J kf now tok = Inr (c, True)"
    and parse_late: "SignedString J key c = Inr tok \<Longrightarrow> wire_safe c \<Longrightarrow> kf (HMAC ''HS256'') = Inr key \<Longrightarrow>
      \<not> unexpired now c \<Longrightarrow> \<exists>e. ParseWithClaims J kf now tok = Inl e"
    and parse_same: "ParseWithClaims J kf now tok = Inr (c, v) \<Longrightarrow>
      ParseWithClaims J kf now' tok = Inr (d, v') \<Longrightarrow> d = c"
    and parse_valid: "ParseWithClaims J kf now tok = Inr (c, v) \<Longrightarrow> unexpired now c"
begin

lemma sign_inject:
  assumes "SignedString J key c = Inr tok" "SignedString J key d = Inr tok"
    and "wire_safe c" "wire_safe d" "unexpired now c" "unexpired now d"
  shows "c = d"
  using parse_signed[OF assms(1,3), of "\<lambda>_. Inr key" now] parse_signed[OF assms(2,4), of "\<lambda>_. Inr key" now]
    assms(5,6) by simp

end

section \<open>The code\<close>

text \<open>
  The configuration the functions read through viper and the environment they call.  \<open>je_secret\<close>
  is \<open>jwtSecret\<close> as \<open>loadSecret\<close> leaves it; a secret that \<open>loadSecret\<close> rejects ends the process.
\<close>

record jwt_env =
  je_api :: jwt_api
  je_secret :: string
  je_access_minutes :: int
  je_refresh_hours :: int

definition minJWTSecretLength :: nat where
  "minJWTSecretLength = 32"

definition loadSecret :: "string \<Rightarrow> string + string" where
  "loadSecret s = (if length s = 0 then Inl ''FATAL: JWT_SECRET environment variable is not set.''
     else if length s < minJWTSecretLength then Inl ''FATAL: JWT_SECRET is too short'' else Inr s)"

definition TokenTypeAccess :: string where "TokenTypeAccess = ''access''"
definition TokenTypeRefresh :: string where "TokenTypeRefresh = ''refresh''"

definition DefaultAccessTokenTTL :: "jwt_env \<Rightarrow> duration" where
  "DefaultAccessTokenTTL E = wrap64 (minute * je_access_minutes E)"

definition DefaultRefreshTokenTTL :: "jwt_env \<Rightarrow> duration" where
  "DefaultRefreshTokenTTL E = wrap64 (hour * je_refresh_hours E)"

definition GenerateAccessToken ::
    "jwt_env \<Rightarrow> string \<Rightarrow> string \<Rightarrow> string \<Rightarrow> string list \<Rightarrow> duration \<Rightarrow> (redis, string + string) state" where
  "GenerateAccessToken E appID userID sessionID roles ttl0 = do {
     let ttl = (if ttl0 \<le> 0 then DefaultAccessTokenTTL E else ttl0);
     now \<leftarrow> time_now;
     let expirationTime = now + ttl;
     now2 \<leftarrow> time_now;
     let claims = \<lparr>UserID = userID, AppID = appID, SessionID = sessionID, TokenType = TokenTypeAccess,
         Roles = roles, ExpiresAt = Some (NewNumericDate (je_api E) expirationTime),
         IssuedAt = Some (NewNumericDate (je_api E) now2)\<rparr>;
     ret (SignedString (je_api E) (je_secret E) claims) }"

definition GenerateRefreshToken ::
    "jwt_env \<Rightarrow> string \<Rightarrow> string \<Rightarrow> string \<Rightarrow> string list \<Rightarrow> duration \<Rightarrow> (redis, string + string) state" where
  "GenerateRefreshToken E appID userID sessionID roles ttl0 = do {
     let ttl = (if ttl0 \<le> 0 then DefaultRefreshTokenTTL E else ttl0);
     now \<leftarrow> time_now;
     let expirationTime = now + ttl;
     now2 \<leftarrow> time_now;
     let claims = \<lparr>UserID = userID, AppID = appID, SessionID = sessionID, TokenType = TokenTypeRefresh,
         Roles = roles, ExpiresAt = Some (NewNumericDate (je_api E) expirationTime),
         IssuedAt = Some (NewNumericDate (je_api E) now2)\<rparr>;
     ret (SignedString (je_api E) (je_secret E) claims) }"

definition token_key :: "jwt_env \<Rightarrow> keyfunc" where
  "token_key E m = (case m of HMAC _ \<Rightarrow> Inr (je_secret E)
     | OtherMethod alg \<Rightarrow> Inl (''unexpected signing method: '' @ alg))"

definition ParseToken :: "jwt_env \<Rightarrow> string \<Rightarrow> (redis, string + claims) state" where
  "ParseToken E tokenString = do {
     now \<leftarrow> time_now;
     ret (case ParseWithClaims (je_api E) (token_key E) now tokenString of
            Inl e \<Rightarrow> Inl e
          | Inr (c, valid) \<Rightarrow> (if valid then Inr c else Inl ''invalid token'')) }"

section \<open>A library that keeps the promises\<close>

text \<open>A token is the list of its fields, every character preceded by a marker.\<close>

fun enc :: "string \<Rightarrow> string" where
  "enc [] = ''..''"
| "enc (c # s) = CHR ''x'' # c # enc s"

fun fields_of :: "string \<Rightarrow> string \<Rightarrow> string list" where
  "fields_of acc (k # c # r) =
     (if k = CHR ''.'' then acc # fields_of [] r else fields_of (acc @ [c]) r)"
| "fields_of acc _ = []"

lemma fields_of_enc: "fields_of acc (enc s @ r) = (acc @ s) # fields_of [] r"
  by (induction s arbitrary: acc) simp_all

lemma fields_of_concat: "fields_of [] (concat (map enc ss)) = ss"
  by (induction ss) (simp_all add: fields_of_enc)

definition enc_time :: "instant option \<Rightarrow> string" where
  "enc_time t = (case t of None \<Rightarrow> [] | Some x \<Rightarrow> itoa x)"

definition dec_time :: "string \<Rightarrow> instant option" where
  "dec_time s = (if s = [] then None else atoi s)"

definition ref_parse :: "keyfunc \<Rightarrow> instant \<Rightarrow> string \<Rightarrow> string + (claims \<times> bool)" where
  "ref_parse kf now tok = (case kf (HMAC ''HS256'') of Inl e \<Rightarrow> Inl e | Inr key \<Rightarrow>
     (case fields_of [] tok of
        (k # u # a # s # ty # x # i # rs) \<Rightarrow>
          (let c = \<lparr>UserID = u, AppID = a, SessionID = s, TokenType = ty, Roles = rs,
                    ExpiresAt = dec_time x, IssuedAt = dec_time i\<rparr>
           in if k = key \<and> unexpired now c then Inr (c, True) else Inl ''token is invalid'')
      | _ \<Rightarrow> Inl ''token is malformed''))"

definition ref_jwt :: jwt_api where
  "ref_jwt = \<lparr>
     NewNumericDate = (\<lambda>t. t - t mod second),
     SignedString = (\<lambda>key c. Inr (concat (map enc
        ([key, UserID c, AppID c, SessionID c, TokenType c, enc_time (ExpiresAt c), enc_time (IssuedAt c)]
         @ Roles c)))),
     ParseWithClaims = ref_parse \<rparr>"

lemma dec_enc_time: "dec_time (enc_time t) = t"
proof (cases t)
  case (Some x)
  have "atoi [] = None" by (simp add: atoi_def)
  then have "itoa x \<noteq> []" by (metis atoi_itoa option.distinct(1))
  with Some show ?thesis by (simp add: dec_time_def enc_time_def)
qed (simp add: dec_time_def enc_time_def)

lemma ref_parse_signed:
  "SignedString ref_jwt key c = Inr tok \<Longrightarrow> ref_parse kf now tok = (case kf (HMAC ''HS256'') of Inl e \<Rightarrow> Inl e
     | Inr k \<Rightarrow> if key = k \<and> unexpired now c then Inr (c, True) else Inl ''token is invalid'')"
  by (auto simp: ref_jwt_def ref_parse_def fields_of_enc fields_of_concat dec_enc_time Let_def unexpired_def
           split: sum.splits)

interpretation ref_jwt: jwt_lib ref_jwt
proof (unfold_locales, goal_cases)
  case 1 then show ?case by (simp add: ref_jwt_def)
next
  case 2 then show ?case by (simp add: ref_jwt_def)
next
  case (3 key c tok)
  then show ?case by (cases key) (auto simp: ref_jwt_def)
next
  case (4 key c tok kf now)
  then show ?case using ref_parse_signed[of key c tok kf now] by (simp add: ref_jwt_def)
next
  case (5 key c tok kf now)
  then show ?case using ref_parse_signed[of key c tok kf now] by (simp add: ref_jwt_def)
next
  case (6 kf now tok c v now' d v')
  then show ?case
    by (auto simp: ref_jwt_def ref_parse_def Let_def split: sum.splits list.splits if_splits)
next
  case (7 kf now tok c v)
  then show ?case
    by (auto simp: ref_jwt_def ref_parse_def Let_def split: sum.splits list.splits if_splits)
qed

end
