(* ===== verification/SessionLemmas.thy ===== *)
theory SessionLemmas
  imports SessionStore
begin

text \<open>
  What the session functions do to the server: the keys each may touch (also when commands
  fail), that a deleted session is gone, that deleting all sessions of a user ends every
  session in the user's index, and what expiry detection can return.
\<close>

section \<open>Frames: the keys an operation may touch\<close>

definition session_keys :: "string \<Rightarrow> string \<Rightarrow> string \<Rightarrow> string set" where
  "session_keys appID userID sessionID = {SessionKey appID sessionID, UserSessionsKey appID userID,
     AllSessionsKey appID, SessionMetaKey appID userID sessionID}"

context redis_server
begin

lemma touches_CreateSession:
  "touches (session_keys a u s) (CreateSession R a s u rt ip ua ttl)"
  unfolding CreateSession_def by (intro touches_intro) (auto simp: session_keys_def)

lemma touches_DeleteSession: "touches (session_keys a u s) (DeleteSession R a s u)"
  unfolding DeleteSession_def by (intro touches_intro) (auto simp: session_keys_def)

lemma touches_prune_ids: "idx \<in> K \<Longrightarrow> touches K (prune_ids R a idx sids)"
  by (induction sids) (auto intro!: touches_intro)

lemma touches_GetUserSessionIDs:
  "UserSessionsKey a u \<in> K \<Longrightarrow> touches K (GetUserSessionIDs R a u)"
  unfolding GetUserSessionIDs_def by (intro touches_intro touches_prune_ids) auto

section \<open>Deleting\<close>

lemma wp_DeleteSession_gone:
  "wp (DeleteSession R a s u) (\<lambda>e r'. e = None \<longrightarrow> rdata r' (SessionKey a s) = None) r"
proof -
  text \<open>After the first command only the index and marker keys are written.\<close>
  have rest: "touches (session_keys a u s - {SessionKey a s}) (do {
     ignore (r_srem R (UserSessionsKey a u) s);
     ignore (r_srem R (AllSessionsKey a) s);
     ignore (r_del R [SessionMetaKey a u s]);
     ret (None :: rerr option) })"
    by (intro touches_intro) (auto simp: session_keys_def key_simps)
  show ?thesis
    unfolding DeleteSession_def
  proof (rule wp_bind, rule wp_r_del, rule wp_case_option)
    fix e r1 assume d: "del_post [SessionKey a s] r e r1" and "e = None"
    then have gone: "rdata r1 (SessionKey a s) = None" by (simp add: del_post_def)
    show "wp (do {
       ignore (r_srem R (UserSessionsKey a u) s);
       ignore (r_srem R (AllSessionsKey a) s);
       ignore (r_del R [SessionMetaKey a u s]);
       ret (None :: rerr option) }) (\<lambda>e r'. e = None \<longrightarrow> rdata r' (SessionKey a s) = None) r1"
      by (rule wp_touches[OF rest]) (simp add: writes_keep gone)
  next
    fix e r1 v assume "e = Some v"
    then show "wp (ret (Some v)) (\<lambda>e r'. e = None \<longrightarrow> rdata r' (SessionKey a s) = None) r1"
      by (intro wp_return) simp
  qed
qed

lemma wp_r_exists_dead:
  "live r k = None \<Longrightarrow> wp (r_exists R k) (\<lambda>a r'. (a = Inr 0 \<or> (\<exists>e. a = Inl e)) \<and> reads r r') r"
  by (rule wp_r_exists)
     (auto simp: exists_post_def split: sum.splits if_splits dest: reads_live_dead)

lemma wp_SessionExists_dead:
  "live r (SessionKey a s) = None \<Longrightarrow>
   wp (SessionExists R a s) (\<lambda>x r'. (x = Inr False \<or> (\<exists>e. x = Inl e)) \<and> reads r r') r"
  unfolding SessionExists_def
  by (rule wp_bind, rule wp_mono, erule wp_r_exists_dead) (auto intro!: wp_return)

lemma wp_SessionExists:
  "wp (SessionExists R a s)
     (\<lambda>x r'. reads r r' \<and> (\<forall>b. x = Inr b \<longrightarrow> b = (live r' (SessionKey a s) \<noteq> None))) r"
  unfolding SessionExists_def
  by (intro wp_intro wp_redis) (auto simp: exists_post_def split: sum.splits if_splits)

lemma wp_GetSessionRefreshToken:
  "wp (GetSessionRefreshToken R a s) (\<lambda>x r'. reads r r' \<and> (\<forall>v. x = Inr v \<longrightarrow>
      (\<exists>h. live r' (SessionKey a s) = Some (RHash h) \<and> map_of h ''refresh_token'' = Some v))) r"
  unfolding GetSessionRefreshToken_def
  by (intro wp_redis) (auto simp: hget_post_def split: sum.splits)

end

section \<open>What a server that is up achieves\<close>

text \<open>Session keys hold hashes and index keys hold sets.\<close>

definition sessions_typed :: "string \<Rightarrow> redis \<Rightarrow> bool" where
  "sessions_typed appID r \<longleftrightarrow>
     (\<forall>s. hash_of (rdata r (SessionKey appID s)) \<noteq> None) \<and>
     (\<forall>u. set_of (rdata r (UserSessionsKey appID u)) \<noteq> None) \<and>
     set_of (rdata r (AllSessionsKey appID)) \<noteq> None"

lemma hash_of_entry_at: "hash_of (d k) \<noteq> None \<Longrightarrow> hash_of (entry_at t d k) \<noteq> None"
  by (auto simp: hash_of_def entry_at_def split: option.splits rval.splits prod.splits)

lemma set_of_entry_at: "set_of (d k) \<noteq> None \<Longrightarrow> set_of (entry_at t d k) \<noteq> None"
  by (auto simp: set_of_def entry_at_def split: option.splits rval.splits prod.splits)

context reliable_redis
begin

text \<open>The lazy clean-up keeps the ids of live sessions: what it drops is dead.\<close>

lemma wp_prune_ids:
  assumes "\<And>s. idx \<noteq> SessionKey a s"
  shows "wp (prune_ids R a idx sids) (\<lambda>ids r'. writes {idx} r r' \<and> set ids \<subseteq> set sids \<and>
           (\<forall>s\<in>set sids - set ids. live r' (SessionKey a s) = None)) r"
proof (induction sids arbitrary: r)
  case Nil
  show ?case by (auto intro: wp_return)
next
  case (Cons sid sids)
  have srem: "wp (ignore (r_srem R idx sid)) (\<lambda>_ r'. writes {idx} r1 r') r1" for r1
    by (rule wp_touches[where K = "{idx}"]) (auto intro!: touches_intro)
  have step: "wp (prune_ids R a idx sids) (\<lambda>ids r'. writes {idx} r1 r' \<and> set ids \<subseteq> set sids \<and>
      (\<forall>s\<in>set sids - set ids. live r' (SessionKey a s) = None)) r1" for r1
    by (rule Cons.IH)
  show ?case
    unfolding prune_ids.simps
  proof (rule wp_bind, rule wp_u_exists)
    fix n r1 assume ex: "exists_post (SessionKey a sid) r (Inr n) r1"
    then have rd: "writes {idx} r r1" by (simp add: exists_post_def reads_writes)
    have "wp (do { ignore (r_srem R idx sid); prune_ids R a idx sids })
        (\<lambda>ids r'. writes {idx} r r' \<and> set ids \<subseteq> set (sid # sids) \<and>
           (\<forall>s\<in>set (sid # sids) - set ids. live r' (SessionKey a s) = None)) r1" if "n = 0"
    proof (rule wp_bind, rule wp_mono[OF srem], rule wp_mono[OF step])
      fix r2 ids r3
      assume w2: "writes {idx} r1 r2" and w3: "writes {idx} r2 r3 \<and> set ids \<subseteq> set sids \<and>
          (\<forall>s\<in>set sids - set ids. live r3 (SessionKey a s) = None)"
      from ex that have "live r1 (SessionKey a sid) = None"
        by (auto simp: exists_post_def split: if_splits)
      moreover have w13: "writes {idx} r1 r3" using w2 conjunct1[OF w3] by (rule writes_seq)
      moreover have "SessionKey a sid \<notin> {idx}" using assms[of sid] by simp
      ultimately have "live r3 (SessionKey a sid) = None" using writes_live_dead by blast
      moreover have "writes {idx} r r3" using rd w13 by (rule writes_seq)
      ultimately show "writes {idx} r r3 \<and> set ids \<subseteq> set (sid # sids) \<and>
           (\<forall>s\<in>set (sid # sids) - set ids. live r3 (SessionKey a s) = None)" using w3 by auto
    qed
    moreover have "wp (do { validIDs \<leftarrow> prune_ids R a idx sids; ret (sid # validIDs) })
        (\<lambda>ids r'. writes {idx} r r' \<and> set ids \<subseteq> set (sid # sids) \<and>
           (\<forall>s\<in>set (sid # sids) - set ids. live r' (SessionKey a s) = None)) r1"
      by (rule wp_bind, rule wp_mono[OF step])
         (use writes_seq[OF rd] in \<open>auto intro!: wp_return\<close>)
    ultimately show "wp (case Inr n of Inl e \<Rightarrow> prune_ids R a idx sids
       | Inr n \<Rightarrow> if n = 0 then do { ignore (r_srem R idx sid); prune_ids R a idx sids }
                 else do { validIDs \<leftarrow> prune_ids R a idx sids; ret (sid # validIDs) })
        (\<lambda>ids r'. writes {idx} r r' \<and> set ids \<subseteq> set (sid # sids) \<and>
           (\<forall>s\<in>set (sid # sids) - set ids. live r' (SessionKey a s) = None)) r1"
      by simp
  qed
qed

text \<open>The members of an index as they stand at an instant.\<close>

end

definition in_index :: "instant \<Rightarrow> redis \<Rightarrow> string \<Rightarrow> string \<Rightarrow> bool" where
  "in_index t r idx sid \<longleftrightarrow> (\<exists>xs x. entry_at t (rdata r) idx = Some (RSet xs, x) \<and> sid \<in> set xs)"

lemma in_index_reads: "reads r r' \<Longrightarrow> in_index t r' idx sid = in_index t r idx sid"
  by (simp add: in_index_def reads_def)

lemma in_index_earlier: "in_index t' r idx sid \<Longrightarrow> t \<le> t' \<Longrightarrow> in_index t r idx sid"
  by (auto simp: in_index_def dest: entry_at_mono)

lemma in_index_set_of:
  "in_index (rnow r) r idx sid \<Longrightarrow> set_of (entry r idx) = Some xs \<Longrightarrow> sid \<in> set xs"
  by (auto simp: in_index_def set_of_def)

definition all_dead :: "string \<Rightarrow> string set \<Rightarrow> redis \<Rightarrow> bool" where
  "all_dead appID S r \<longleftrightarrow> (\<forall>s\<in>S. live r (SessionKey appID s) = None)"

lemma all_dead_writes:
  "all_dead a S r \<Longrightarrow> writes K r r' \<Longrightarrow> (\<And>s. s \<in> S \<Longrightarrow> SessionKey a s \<notin> K) \<Longrightarrow> all_dead a S r'"
  by (auto simp: all_dead_def intro: writes_live_dead)

lemma all_dead_un: "all_dead a (S \<union> T) r \<longleftrightarrow> all_dead a S r \<and> all_dead a T r"
  by (auto simp: all_dead_def)

context reliable_redis
begin

lemma wp_GetUserSessionIDs:
  assumes "set_of (rdata r (UserSessionsKey a u)) \<noteq> None"
  shows "wp (GetUserSessionIDs R a u) (\<lambda>x r'. \<exists>ids. x = Inr ids \<and> writes {UserSessionsKey a u} r r' \<and>
     all_dead a {s. in_index (rnow r') r (UserSessionsKey a u) s \<and> s \<notin> set ids} r') r"
proof -
  let ?idx = "UserSessionsKey a u"
  show ?thesis
    unfolding GetUserSessionIDs_def
  proof (rule wp_Let, simp, rule wp_bind, rule wp_u_smembers)
    fix x r1 assume sm: "smembers_post ?idx r x r1" and up: "(\<exists>e. x = Inl e) \<longrightarrow> set_of (entry r1 ?idx) = None"
    from sm have rd: "reads r r1" by (simp add: smembers_post_def)
    then have "set_of (entry r1 ?idx) \<noteq> None" using assms set_of_entry_at by (simp add: reads_def)
    with up obtain sids where x: "x = Inr sids" by (cases x) auto
    with sm have mem: "s \<in> set sids" if "in_index (rnow r1) r1 ?idx s" for s
      using that in_index_set_of by (fastforce simp: smembers_post_def)
    have "wp (do { validIDs \<leftarrow> prune_ids R a ?idx sids; ret (Inr validIDs :: rerr + string list) })
      (\<lambda>x r'. \<exists>ids. x = Inr ids \<and> writes {?idx} r r' \<and>
        all_dead a {s. in_index (rnow r') r ?idx s \<and> s \<notin> set ids} r') r1"
    proof (rule wp_bind, rule wp_mono[OF wp_prune_ids], simp add: key_simps, rule wp_return)
      fix ids r2
      assume p: "writes {?idx} r1 r2 \<and> set ids \<subseteq> set sids \<and>
        (\<forall>s\<in>set sids - set ids. live r2 (SessionKey a s) = None)"
      then have w: "writes {?idx} r r2" using rd reads_writes writes_seq by blast
      have "s \<in> set sids" if "in_index (rnow r2) r ?idx s" for s
        using that in_index_earlier[OF that, of "rnow r1"] mem in_index_reads[OF rd] p
        by (auto simp: writes_def)
      with p w show "\<exists>ids'. Inr ids = Inr ids' \<and> writes {?idx} r r2 \<and>
        all_dead a {s. in_index (rnow r2) r ?idx s \<and> s \<notin> set ids'} r2"
        by (auto simp: all_dead_def)
    qed
    with x show "wp (case x of Inl e \<Rightarrow> ret (Inl e)
        | Inr sessionIDs \<Rightarrow> do { validIDs \<leftarrow> prune_ids R a ?idx sessionIDs; ret (Inr validIDs) })
      (\<lambda>x r'. \<exists>ids. x = Inr ids \<and> writes {?idx} r r' \<and>
        all_dead a {s. in_index (rnow r') r ?idx s \<and> s \<notin> set ids} r') r1"
      by simp
  qed
qed

lemma wp_kill_session:
  assumes "all_dead a S r"
  shows "wp (do { ignore (r_del R [SessionKey a sid]); ignore (r_srem R (AllSessionsKey a) sid) })
           (\<lambda>_ r'. all_dead a (insert sid S) r' \<and> rnow r \<le> rnow r') r"
proof (rule wp_bind, rule wp_ignore, rule wp_u_del)
  fix r1 assume d: "del_post [SessionKey a sid] r None r1"
  then have w: "writes {SessionKey a sid} r r1" and gone: "rdata r1 (SessionKey a sid) = None"
    by (simp_all add: del_post_def)
  have "all_dead a (S - {sid}) r1"
    by (rule all_dead_writes[OF _ w]) (use assms in \<open>auto simp: all_dead_def key_simps\<close>)
  with gone have dead: "all_dead a (insert sid S) r1"
    by (auto simp: all_dead_def live_None)
  show "wp (ignore (r_srem R (AllSessionsKey a) sid))
      (\<lambda>_ r'. all_dead a (insert sid S) r' \<and> rnow r \<le> rnow r') r1"
  proof (rule wp_touches[where K = "{AllSessionsKey a}"])
    show "touches {AllSessionsKey a} (ignore (r_srem R (AllSessionsKey a) sid))"
      by (intro touches_intro) simp
  next
    fix r2 assume w2: "writes {AllSessionsKey a} r1 r2"
    have "all_dead a (insert sid S) r2"
      using dead w2 by (rule all_dead_writes) (simp add: key_simps)
    then show "all_dead a (insert sid S) r2 \<and> rnow r \<le> rnow r2"
      using w w2 by (simp add: writes_def)
  qed
qed

lemma wp_DeleteAllUserSessions:
  assumes "set_of (rdata r (UserSessionsKey a u)) \<noteq> None"
  shows "wp (DeleteAllUserSessions R a u ex) (\<lambda>e r'. e = None \<and>
     all_dead a {s. in_index (rnow r') r (UserSessionsKey a u) s \<and> s \<noteq> ex} r') r"
proof -
  let ?idx = "UserSessionsKey a u"
  show ?thesis
    unfolding DeleteAllUserSessions_def
  proof (rule wp_bind, rule wp_mono[OF wp_GetUserSessionIDs[OF assms]], elim exE conjE, simp)
    fix ids r1
    assume w1: "writes {?idx} r r1"
      and dead: "all_dead a {s. in_index (rnow r1) r ?idx s \<and> s \<notin> set ids} r1"
    define P where "P ys q \<longleftrightarrow> rnow r1 \<le> rnow q \<and>
      all_dead a {s. in_index (rnow r1) r ?idx s \<and> s \<noteq> ex \<and> s \<notin> set ys} q" for ys q
    have loop: "wp (for_each ids (\<lambda>sid. if sid = ex then ret () else do {
           ignore (r_del R [SessionKey a sid]); ignore (r_srem R (AllSessionsKey a) sid) }))
         (\<lambda>_. P []) r1"
    proof (rule wp_for_each_step)
      show "P ids r1" using dead by (auto simp: P_def all_dead_def)
    next
      fix x ys q assume p: "P (x # ys) q"
      show "wp (if x = ex then ret () else do { ignore (r_del R [SessionKey a x]);
          ignore (r_srem R (AllSessionsKey a) x) }) (\<lambda>_. P ys) q"
      proof (rule wp_if)
        assume "x = ex"
        with p show "wp (ret ()) (\<lambda>_. P ys) q" by (auto intro!: wp_return simp: P_def all_dead_def)
      next
        from p have d: "all_dead a {s. in_index (rnow r1) r ?idx s \<and> s \<noteq> ex \<and> s \<notin> set (x # ys)} q"
          and n: "rnow r1 \<le> rnow q" by (auto simp: P_def)
        show "wp (do { ignore (r_del R [SessionKey a x]); ignore (r_srem R (AllSessionsKey a) x) })
            (\<lambda>_. P ys) q"
          by (rule wp_mono[OF wp_kill_session[OF d]]) (use n in \<open>auto simp: P_def all_dead_def\<close>)
      qed
    qed
    have tail: "touches {?idx} (do {
         (if ex = [] then ignore (r_del R [?idx])
          else do { ignore (r_del R [?idx]); ignore (r_sadd R ?idx ex) });
         ret (None :: rerr option) })"
      by (intro touches_intro) auto
    show "wp (do { for_each ids (\<lambda>sid. if sid = ex then ret () else do {
             ignore (r_del R [SessionKey a sid]); ignore (r_srem R (AllSessionsKey a) sid) });
           let indexKey = ?idx;
           (if ex = [] then ignore (r_del R [indexKey])
            else do { ignore (r_del R [indexKey]); ignore (r_sadd R indexKey ex) });
           ret (None :: rerr option) }) (\<lambda>e r'. e = None \<and> all_dead a {s. in_index (rnow r') r ?idx s \<and> s \<noteq> ex} r') r1"
    proof (rule wp_bind, rule wp_mono[OF loop], rule wp_Let, simp only:)
      fix q assume pq: "P [] q"
      have res: "wp (do { (if ex = [] then ignore (r_del R [?idx])
          else do { ignore (r_del R [?idx]); ignore (r_sadd R ?idx ex) });
          ret (None :: rerr option) }) (\<lambda>e _. e = None) q"
        by (intro wp_intro wp_u_del wp_u_sadd refl)
      have fin: "wp (do { (if ex = [] then ignore (r_del R [?idx])
          else do { ignore (r_del R [?idx]); ignore (r_sadd R ?idx ex) });
          ret (None :: rerr option) })
          (\<lambda>_ r'. all_dead a {s. in_index (rnow r') r ?idx s \<and> s \<noteq> ex} r') q"
      proof (rule wp_touches[OF tail])
        fix r2 assume w2: "writes {?idx} q r2"
        from pq have "all_dead a {s. in_index (rnow r1) r ?idx s \<and> s \<noteq> ex} q" by (simp add: P_def)
        then have "all_dead a {s. in_index (rnow r1) r ?idx s \<and> s \<noteq> ex} r2"
          using w2 by (rule all_dead_writes) (simp add: key_simps)
        moreover have "rnow r1 \<le> rnow r2" using pq w2 by (simp add: P_def writes_def)
        ultimately show "all_dead a {s. in_index (rnow r2) r ?idx s \<and> s \<noteq> ex} r2"
          using in_index_earlier by (auto simp: all_dead_def)
      qed
      show "wp (do { (if ex = [] then ignore (r_del R [?idx])
          else do { ignore (r_del R [?idx]); ignore (r_sadd R ?idx ex) });
          ret (None :: rerr option) }) (\<lambda>e r'. e = None \<and>
            all_dead a {s. in_index (rnow r') r ?idx s \<and> s \<noteq> ex} r') q"
        using res fin by (rule wp_conj)
    qed
  qed
qed

end

section \<open>Creating\<close>

text \<open>
  A session as \<open>CreateSession\<close> leaves it: the hash with its tokens until \<open>x\<close>, its id in the
  user's index until at least a day after \<open>x\<close>.
\<close>

definition session_stored ::
    "redis \<Rightarrow> string \<Rightarrow> string \<Rightarrow> string \<Rightarrow> string \<Rightarrow> instant \<Rightarrow> bool" where
  "session_stored r appID userID sessionID refreshToken x \<longleftrightarrow>
     (\<exists>h. rdata r (SessionKey appID sessionID) = Some (RHash h, Some x) \<and>
        map_of h ''refresh_token'' = Some refreshToken \<and> map_of h ''user_id'' = Some userID) \<and>
     (\<exists>xs y. rdata r (UserSessionsKey appID userID) = Some (RSet xs, Some y) \<and>
        sessionID \<in> set xs \<and> x + 24 * hour \<le> y)"

lemma session_fields_lookup:
  "map_of (updates (session_fields u rt ip ua t1 t2) []) ''refresh_token'' = Some rt"
  "map_of (updates (session_fields u rt ip ua t1 t2) []) ''user_id'' = Some u"
  by (simp_all add: session_fields_def)

text \<open>The four commands that matter, in their order, followed by writes elsewhere.\<close>

lemma create_chain:
  assumes fresh: "rdata r (SessionKey a s) = None"
    and hs: "hset_post (SessionKey a s) (session_fields u rt ip ua t1 t2) r None r1"
    and ex: "expire_post (SessionKey a s) ttl r1 None r2"
    and sa: "sadd_post (UserSessionsKey a u) s r2 None r3"
    and ei: "expire_post (UserSessionsKey a u) (ttl + 24 * hour) r3 None r4"
    and w: "writes {AllSessionsKey a, SessionMetaKey a u s} r4 r5"
    and late: "\<forall>y. expiry_of (rdata r (UserSessionsKey a u)) = Some y \<longrightarrow> rnow r5 < y"
  shows "\<exists>x. rnow r + ttl \<le> x \<and> x \<le> rnow r5 + ttl \<and> session_stored r5 a u s rt x"
proof -
  let ?sk = "SessionKey a s" and ?ik = "UserSessionsKey a u"
  let ?h = "updates (session_fields u rt ip ua t1 t2) []"
  have now: "rnow r \<le> rnow r1" "rnow r1 \<le> rnow r2" "rnow r2 \<le> rnow r3" "rnow r3 \<le> rnow r4" "rnow r4 \<le> rnow r5"
    using hs ex sa ei w by (simp_all add: redis_posts Let_def writes_def)
  have s1: "rdata r1 ?sk = Some (RHash ?h, None)"
    using hs fresh by (simp add: hset_post_def Let_def entry_at_None hash_of_def expiry_of_def)
  have s2: "rdata r2 ?sk = Some (RHash ?h, Some (rnow r2 + ttl))"
    using ex s1 by (simp add: expire_post_def entry_at_forever)
  have s5: "rdata r5 ?sk = rdata r2 ?sk"
    using sa ei w by (simp add: redis_posts Let_def writes_def key_simps)
  have i2: "rdata r2 ?ik = rdata r ?ik"
    using hs ex by (simp add: redis_posts writes_def key_simps)
  from sa obtain xs where xs: "rdata r3 ?ik = Some (RSet (List.insert s xs),
      expiry_of (entry_at (rnow r3) (rdata r2) ?ik))"
    by (auto simp: sadd_post_def Let_def)
  have alive: "entry_at (rnow r4) (rdata r3) ?ik = rdata r3 ?ik"
  proof (cases "entry_at (rnow r3) (rdata r2) ?ik")
    case None
    then show ?thesis using xs by (simp add: expiry_of_def entry_at_forever)
  next
    case (Some e)
    then have "rdata r ?ik = Some e" using i2 by (auto dest: entry_at_Some)
    then show ?thesis using Some xs late now
      by (auto simp: expiry_of_def entry_at_def expired_def split: option.splits)
  qed
  have i4: "rdata r4 ?ik = Some (RSet (List.insert s xs), Some (rnow r4 + (ttl + 24 * hour)))"
    using ei alive xs by (simp add: expire_post_def)
  have i5: "rdata r5 ?ik = rdata r4 ?ik" using w by (simp add: writes_def key_simps)
  show ?thesis
    by (rule exI[of _ "rnow r2 + ttl"])
       (use now s2 s5 i4 i5 in \<open>auto simp: session_stored_def session_fields_lookup\<close>)
qed

context reliable_redis
begin

lemma wp_CreateSession:
  assumes fresh: "rdata r (SessionKey a s) = None"
    and idx: "set_of (rdata r (UserSessionsKey a u)) \<noteq> None"
  shows "wp (CreateSession R a s u rt ip ua ttl) (\<lambda>e r'.
     e = None \<and> ((\<forall>y. expiry_of (rdata r (UserSessionsKey a u)) = Some y \<longrightarrow> rnow r' < y) \<longrightarrow>
       (\<exists>x. rnow r + ttl \<le> x \<and> x \<le> rnow r' + ttl \<and> session_stored r' a u s rt x))) r"
proof -
  let ?sk = "SessionKey a s" and ?ik = "UserSessionsKey a u"
  have ok1: "hash_of (entry_at t (rdata r) ?sk) \<noteq> None" for t
    using fresh by (simp add: entry_at_None hash_of_def)
  have ok2: "set_of (entry_at t (rdata r2) ?ik) \<noteq> None"
    if "hset_post ?sk fs r e1 r1" "expire_post ?sk d r1 e2 r2" for t fs e1 r1 d e2 r2
    using that idx set_of_entry_at[of "rdata r2" ?ik t] by (simp add: redis_posts writes_def key_simps)
  show ?thesis
    unfolding CreateSession_def
  proof (intro wp_intro wp_up, goal_cases)
    case (1 key e1 r1 r2 indexKey e3 r3 r4 appIndexKey e5 r5 r6 r7)
    then have "writes {AllSessionsKey a, SessionMetaKey a u s} r4 r7"
      by (auto simp: redis_posts Let_def writes_def)
    with 1 show ?case using create_chain[OF fresh, of u rt ip ua "rnow r" "rnow r" r1 ttl r2 r3 r4 r7] by simp
  next
    case (2 key e1 r1 r2 indexKey e3 r3 v)
    then show ?case using ok2 by blast
  next
    case 3
    then show ?case by simp
  next
    case 4
    then show ?case using ok1 by blast
  qed
qed

end

section \<open>Expiry detection\<close>

lemma ParseSessionMetaKey_meta:
  assumes "colon_free a" and "colon_free u" and "colon_free s"
  shows "ParseSessionMetaKey (SessionMetaKey a u s) = Inr (a, u, s)"
proof -
  have "Split (a @ CHR '':'' # u @ CHR '':'' # s) (CHR '':'') = [a, u, s]"
    using assms by (simp add: colon_free_def Split_append Split_single)
  then show ?thesis
    by (simp add: ParseSessionMetaKey_def SessionMetaKey_def HasPrefix_def)
qed

text \<open>
  Why a key is reported: at some instant of the scan it is there without expiry, or has less
  than half a second left, or has just run out.
\<close>

definition about_to_expire :: "redis \<Rightarrow> instant \<Rightarrow> string \<Rightarrow> bool" where
  "about_to_expire r t k \<longleftrightarrow> (case rdata r k of None \<Rightarrow> True | Some (_, None) \<Rightarrow> True
     | Some (_, Some x) \<Rightarrow> x - t < second div 2)"

lemma about_to_expire_later: "about_to_expire r t k \<Longrightarrow> t \<le> t' \<Longrightarrow> about_to_expire r t' k"
  by (auto simp: about_to_expire_def split: option.splits)

lemma about_to_expire_reads: "reads r r' \<Longrightarrow> about_to_expire r' t k = about_to_expire r t k"
  by (simp add: about_to_expire_def reads_def)

lemma entry_reads_dead:
  assumes "reads r r'" and "entry r' k \<noteq> None"
  shows "entry r k \<noteq> None"
proof
  assume "entry r k = None"
  with assms(1) have "entry r' k = None"
    using entry_at_dead[of "rnow r" "rdata r" k "rnow r'"] by (simp add: reads_def)
  with assms(2) show False by simp
qed

context redis_server
begin

lemma wp_ttl_due:
  "wp (r_ttl R k) (\<lambda>a r'. reads r r' \<and> (\<forall>t. a = Inr t \<longrightarrow> t \<le> 0 \<longrightarrow> about_to_expire r (rnow r') k)) r"
proof (rule wp_r_ttl)
  fix a r' assume t: "ttl_post k r a r'"
  have "about_to_expire r (rnow r') k" if "a = Inr t" "t \<le> 0" for t
    using \<open>ttl_post k r a r'\<close> that
    by (auto simp: ttl_post_def about_to_expire_def reads_def entry_at_def expired_def
             split: option.splits if_splits)
  with t show "reads r r' \<and> (\<forall>t. a = Inr t \<longrightarrow> t \<le> 0 \<longrightarrow> about_to_expire r (rnow r') k)"
    by (auto simp: ttl_post_def)
qed

lemma wp_expired_of:
  "wp (expired_of R ks) (\<lambda>xs r'. reads r r' \<and> set xs \<subseteq> set ks \<and>
      (\<forall>k\<in>set xs. about_to_expire r (rnow r') k)) r"
proof (induction ks arbitrary: r)
  case Nil
  show ?case by (auto intro: wp_return)
next
  case (Cons key ks)
  show ?case
    unfolding expired_of.simps
  proof (rule wp_bind, rule wp_mono[OF wp_ttl_due], rule wp_bind, rule wp_mono[OF Cons.IH], rule wp_return)
    fix a r1 xs r2
    assume one: "reads r r1 \<and> (\<forall>t. a = Inr t \<longrightarrow> t \<le> 0 \<longrightarrow> about_to_expire r (rnow r1) key)"
      and two: "reads r1 r2 \<and> set xs \<subseteq> set ks \<and> (\<forall>k\<in>set xs. about_to_expire r1 (rnow r2) k)"
    from one two have r01: "reads r r1" and r12: "reads r1 r2" by simp_all
    then have rd: "reads r r2" by (rule reads_trans)
    have later: "rnow r1 \<le> rnow r2" using r12 by (simp add: reads_def)
    have "about_to_expire r (rnow r2) k" if "k \<in> set xs" for k
      using two that by (simp add: about_to_expire_reads[OF r01])
    moreover have "about_to_expire r (rnow r2) key" if "a = Inr t" "t \<le> 0" for t
      using one that later about_to_expire_later by blast
    ultimately show "reads r r2 \<and>
        set (case a of Inl e \<Rightarrow> xs | Inr t \<Rightarrow> if t \<le> 0 then key # xs else xs) \<subseteq> set (key # ks) \<and>
        (\<forall>k\<in>set (case a of Inl e \<Rightarrow> xs | Inr t \<Rightarrow> if t \<le> 0 then key # xs else xs).
           about_to_expire r (rnow r2) k)"
      using rd two by (auto split: sum.splits)
  qed
qed

lemma wp_scan_expired:
  "wp (scan_expired R fuel c) (\<lambda>x r'. reads r r' \<and> (\<forall>ks. x = Some (Inr ks) \<longrightarrow>
      (\<forall>k\<in>set ks. entry r k \<noteq> None \<and> about_to_expire r (rnow r') k))) r"
proof (induction fuel arbitrary: c r)
  case 0
  show ?case by (auto intro: wp_return)
next
  case (Suc fuel)
  show ?case
    unfolding scan_expired.simps
  proof (rule wp_bind, rule wp_r_scan, rule wp_case_sum, rule_tac [2] wp_case_prod)
    fix a r1 e assume "scan_post ''session_meta:'' r a r1" and "a = Inl e"
    then show "wp (ret (Some (Inl e))) (\<lambda>x r'. reads r r' \<and> (\<forall>ks. x = Some (Inr ks) \<longrightarrow>
        (\<forall>k\<in>set ks. entry r k \<noteq> None \<and> about_to_expire r (rnow r') k))) r1"
      by (auto intro!: wp_return simp: scan_post_def)
  next
    fix a r1 v keys c' assume s: "scan_post ''session_meta:'' r a r1" and v: "a = Inr v" "v = (keys, c')"
    then have rd1: "reads r r1" by (simp add: scan_post_def)
    have there: "entry r k \<noteq> None" if "k \<in> set keys" for k
    proof
      assume "entry r k = None"
      with rd1 have "entry_at (rnow r1) (rdata r) k = None"
        using entry_at_dead[of "rnow r" "rdata r" k "rnow r1"] by (simp add: reads_def)
      with s v that rd1 show False by (auto simp: scan_post_def reads_def)
    qed
    have good: "\<forall>k\<in>set xs. entry r k \<noteq> None \<and> about_to_expire r (rnow r3) k"
      if "reads r1 r2" "set xs \<subseteq> set keys" "\<forall>k\<in>set xs. about_to_expire r1 (rnow r2) k" "reads r2 r3" for xs r2 r3
    proof
      fix k assume k: "k \<in> set xs"
      have "rnow r2 \<le> rnow r3" using that(4) by (simp add: reads_def)
      with that(3) k have "about_to_expire r1 (rnow r3) k" using about_to_expire_later by blast
      then show "entry r k \<noteq> None \<and> about_to_expire r (rnow r3) k"
        using there that(2) k about_to_expire_reads[OF rd1] by blast
    qed
    show "wp (do { found \<leftarrow> expired_of R keys;
        (if c' = 0 then ret (Some (Inr found)) else do {
            rest \<leftarrow> scan_expired R fuel c';
            ret (case rest of Some (Inr ks) \<Rightarrow> Some (Inr (found @ ks)) | _ \<Rightarrow> rest) }) })
        (\<lambda>x r'. reads r r' \<and> (\<forall>ks. x = Some (Inr ks) \<longrightarrow>
           (\<forall>k\<in>set ks. entry r k \<noteq> None \<and> about_to_expire r (rnow r') k))) r1"
    proof (rule wp_bind, rule wp_mono[OF wp_expired_of], rule wp_if)
      fix found r2 assume f: "reads r1 r2 \<and> set found \<subseteq> set keys \<and> (\<forall>k\<in>set found. about_to_expire r1 (rnow r2) k)"
      then show "wp (ret (Some (Inr found))) (\<lambda>x r'. reads r r' \<and> (\<forall>ks. x = Some (Inr ks) \<longrightarrow>
           (\<forall>k\<in>set ks. entry r k \<noteq> None \<and> about_to_expire r (rnow r') k))) r2"
        using good[of r2 found r2] reads_trans[OF rd1] by (auto intro!: wp_return)
    next
      fix found r2 assume f: "reads r1 r2 \<and> set found \<subseteq> set keys \<and> (\<forall>k\<in>set found. about_to_expire r1 (rnow r2) k)"
      show "wp (do { rest \<leftarrow> scan_expired R fuel c';
            ret (case rest of Some (Inr ks) \<Rightarrow> Some (Inr (found @ ks)) | _ \<Rightarrow> rest) })
          (\<lambda>x r'. reads r r' \<and> (\<forall>ks. x = Some (Inr ks) \<longrightarrow>
           (\<forall>k\<in>set ks. entry r k \<noteq> None \<and> about_to_expire r (rnow r') k))) r2"
      proof (rule wp_bind, rule wp_mono[OF Suc.IH], rule wp_return)
        fix x r3 assume t: "reads r2 r3 \<and> (\<forall>ks. x = Some (Inr ks) \<longrightarrow>
            (\<forall>k\<in>set ks. entry r2 k \<noteq> None \<and> about_to_expire r2 (rnow r3) k))"
        have rd2: "reads r r2" using rd1 f reads_trans by blast
        have tail: "\<forall>k\<in>set ks. entry r k \<noteq> None \<and> about_to_expire r (rnow r3) k" if "x = Some (Inr ks)" for ks
          using t that entry_reads_dead[OF rd2] by (simp add: about_to_expire_reads[OF rd2])
        show "reads r r3 \<and> (\<forall>ks. (case x of Some (Inr ks) \<Rightarrow> Some (Inr (found @ ks)) | _ \<Rightarrow> x) = Some (Inr ks) \<longrightarrow>
           (\<forall>k\<in>set ks. entry r k \<noteq> None \<and> about_to_expire r (rnow r3) k))"
          using tail good[of r2 found r3] f t reads_trans[OF rd2] by (fastforce split: option.splits sum.splits)
      qed
    qed
  qed
qed

end

text \<open>Enough fuel: a server whose cursors run down to 0 ends the loop.\<close>

lemma scan_expired_returns:
  assumes rank: "\<And>c r ks c' r'. run_state (r_scan R c ''session_meta:'' 100) r = (Inr (ks, c'), r') \<Longrightarrow>
      c' = 0 \<or> rank c' < rank c"
    and "rank c < fuel"
  shows "fst (run_state (scan_expired R fuel c) r) \<noteq> None"
  using assms(2)
proof (induction fuel arbitrary: c r)
  case 0
  then show ?case by simp
next
  case (Suc fuel)
  obtain a r1 where s: "run_state (r_scan R c ''session_meta:'' 100) r = (a, r1)" by fastforce
  show ?case
  proof (cases a)
    case (Inl e)
    with s show ?thesis by simp
  next
    case (Inr v)
    obtain ks c' where v: "v = (ks, c')" by fastforce
    obtain xs r2 where x: "run_state (expired_of R ks) r1 = (xs, r2)" by fastforce
    show ?thesis
    proof (cases "c' = 0")
      case True
      with s Inr v x show ?thesis by simp
    next
      case False
      with rank[of c r ks c' r1] s Inr v have "rank c' < rank c" by simp
      with Suc have "fst (run_state (scan_expired R fuel c') r2) \<noteq> None" by simp
      with s Inr v x False show ?thesis by (auto split: prod.splits option.splits sum.splits)
    qed
  qed
qed

end
