(* ===== verification/SessionService.thy ===== *)
theory SessionService
  imports Jwt SessionLemmas
begin

text \<open>
  \<open>internal/session/service.go\<close> and \<open>internal/session/handler.go\<close>: the life of a session from
  login through token rotation to logout, on the functions of \<open>SessionStore\<close>.
\<close>

section \<open>The service\<close>

definition svc_CreateSession ::
    "redis_api \<Rightarrow> jwt_env \<Rightarrow> (nat \<Rightarrow> string) \<Rightarrow> string \<Rightarrow> string \<Rightarrow> string \<Rightarrow> string \<Rightarrow> string list \<Rightarrow>
     duration \<Rightarrow> duration \<Rightarrow> ('z world_scheme, app_error + (string \<times> string \<times> string)) state" where
  "svc_CreateSession R E uuid appID userID ip userAgent roles accessTTL refreshTTL = do {
     sessionID \<leftarrow> draw uuid;
     let effectiveRefreshTTL = (if refreshTTL \<le> 0 then DefaultRefreshTokenTTL E else refreshTTL);
     res \<leftarrow> rds (GenerateAccessToken E appID userID sessionID roles accessTTL);
     case res of Inl e \<Rightarrow> ret (Inl (internal ''Failed to generate access token'')) | Inr accessToken \<Rightarrow> do {
     res \<leftarrow> rds (GenerateRefreshToken E appID userID sessionID roles refreshTTL);
     case res of Inl e \<Rightarrow> ret (Inl (internal ''Failed to generate refresh token'')) | Inr refreshToken \<Rightarrow> do {
     err \<leftarrow> rds (CreateSession R appID sessionID userID refreshToken ip userAgent effectiveRefreshTTL);
     case err of Some e \<Rightarrow> ret (Inl (internal ''Failed to create session'')) | None \<Rightarrow> do {
     rds (ignore (ClearUserTokenBlacklist R appID userID));
     ret (Inr (accessToken, refreshToken, sessionID)) } } } }"

definition svc_RefreshSession ::
    "redis_api \<Rightarrow> jwt_env \<Rightarrow> string \<Rightarrow> duration \<Rightarrow> duration \<Rightarrow>
     (redis, app_error + (string \<times> string \<times> string)) state" where
  "svc_RefreshSession R E oldRefreshToken accessTTL refreshTTL = do {
     res \<leftarrow> ParseToken E oldRefreshToken;
     case res of Inl e \<Rightarrow> ret (Inl (unauthorized ''Invalid refresh token'')) | Inr c \<Rightarrow>
     if TokenType c \<noteq> [] \<and> TokenType c \<noteq> TokenTypeRefresh
     then ret (Inl (unauthorized ''Invalid token type''))
     else if SessionID c = [] then ret (Inl (unauthorized ''Session expired, please log in again''))
     else do {
     res \<leftarrow> GetSessionRefreshToken R (AppID c) (SessionID c);
     case res of Inl e \<Rightarrow> ret (Inl (unauthorized ''Session expired or revoked'')) | Inr storedToken \<Rightarrow>
     if storedToken \<noteq> oldRefreshToken then ret (Inl (unauthorized ''Refresh token revoked or invalid''))
     else do {
     res \<leftarrow> GenerateAccessToken E (AppID c) (UserID c) (SessionID c) (Roles c) accessTTL;
     case res of Inl e \<Rightarrow> ret (Inl (internal ''Failed to generate new access token'')) | Inr newAccessToken \<Rightarrow> do {
     res \<leftarrow> GenerateRefreshToken E (AppID c) (UserID c) (SessionID c) (Roles c) refreshTTL;
     case res of Inl e \<Rightarrow> ret (Inl (internal ''Failed to generate new refresh token'')) | Inr newRefreshToken \<Rightarrow> do {
     let effectiveRefreshTTL = (if refreshTTL \<le> 0 then DefaultRefreshTokenTTL E else refreshTTL);
     err \<leftarrow> UpdateSessionRefreshToken R (AppID c) (SessionID c) newRefreshToken;
     case err of Some e \<Rightarrow> ret (Inl (internal ''Failed to update session'')) | None \<Rightarrow> do {
     ignore (ResetSessionTTL R (AppID c) (SessionID c) effectiveRefreshTTL);
     ignore (TouchSession R (AppID c) (SessionID c));
     ret (Inr (newAccessToken, newRefreshToken, UserID c)) } } } } } }"

definition svc_RevokeSession ::
    "redis_api \<Rightarrow> string \<Rightarrow> string \<Rightarrow> string \<Rightarrow> (redis, app_error option) state" where
  "svc_RevokeSession R appID userID sessionID = do {
     err \<leftarrow> DeleteSession R appID sessionID userID;
     ret (case err of Some e \<Rightarrow> Some (internal ''Failed to revoke session'') | None \<Rightarrow> None) }"

definition svc_RevokeAllSessions ::
    "redis_api \<Rightarrow> string \<Rightarrow> string \<Rightarrow> string \<Rightarrow> (redis, app_error option) state" where
  "svc_RevokeAllSessions R appID userID exceptSessionID = do {
     err \<leftarrow> DeleteAllUserSessions R appID userID exceptSessionID;
     ret (case err of Some e \<Rightarrow> Some (internal ''Failed to revoke sessions'') | None \<Rightarrow> None) }"

record SessionResponse =
  sr_ID :: string
  sr_IPAddress :: string
  sr_UserAgent :: string
  sr_CreatedAt :: string
  sr_LastActive :: string
  sr_IsCurrent :: bool

text \<open>A missing key of a Go map reads as the zero value.\<close>

definition map_get :: "(string \<times> string) list \<Rightarrow> string \<Rightarrow> string" where
  "map_get m k = (case map_of m k of None \<Rightarrow> [] | Some v \<Rightarrow> v)"

fun list_sessions ::
    "redis_api \<Rightarrow> string \<Rightarrow> string \<Rightarrow> string list \<Rightarrow> (redis, SessionResponse list) state" where
  "list_sessions R appID currentSessionID [] = ret []"
| "list_sessions R appID currentSessionID (sid # sids) = do {
     res \<leftarrow> GetSession R appID sid;
     case res of
       Inl e \<Rightarrow> list_sessions R appID currentSessionID sids
     | Inr data \<Rightarrow> do {
         rest \<leftarrow> list_sessions R appID currentSessionID sids;
         ret (\<lparr>sr_ID = sid, sr_IPAddress = map_get data ''ip'', sr_UserAgent = map_get data ''user_agent'',
               sr_CreatedAt = map_get data ''created_at'', sr_LastActive = map_get data ''last_active'',
               sr_IsCurrent = (sid = currentSessionID)\<rparr> # rest) } }"

definition svc_ListSessions ::
    "redis_api \<Rightarrow> string \<Rightarrow> string \<Rightarrow> string \<Rightarrow> (redis, app_error + SessionResponse list) state" where
  "svc_ListSessions R appID userID currentSessionID = do {
     res \<leftarrow> GetUserSessionIDs R appID userID;
     case res of
       Inl e \<Rightarrow> ret (Inl (internal ''Failed to list sessions''))
     | Inr sessionIDs \<Rightarrow> do {
         sessions \<leftarrow> list_sessions R appID currentSessionID sessionIDs;
         ret (Inr sessions) } }"

text \<open>The code dereferences \<open>claims.ExpiresAt\<close>, which is nil for a token without expiry.\<close>

definition svc_LogoutSession ::
    "redis_api \<Rightarrow> jwt_env \<Rightarrow> string \<Rightarrow> string \<Rightarrow> string \<Rightarrow> string \<Rightarrow> (redis, app_error option outcome) state" where
  "svc_LogoutSession R E appID userID sessionID accessToken = do {
     err \<leftarrow> DeleteSession R appID sessionID userID;
     case err of
       Some e \<Rightarrow> ret (Returned (Some (internal ''Failed to revoke session'')))
     | None \<Rightarrow> if accessToken = [] then ret (Returned None) else do {
         res \<leftarrow> ParseToken E accessToken;
         case res of
           Inl e \<Rightarrow> ret (Returned None)
         | Inr c \<Rightarrow> (case ExpiresAt c of
             None \<Rightarrow> ret (Panicked ''nil pointer dereference'')
           | Some x \<Rightarrow> do {
               now \<leftarrow> time_now;
               let remainingTime = x - now;
               (if 0 < remainingTime then ignore (BlacklistAccessToken R appID accessToken userID remainingTime)
                else ret ());
               ret (Returned None) }) } }"

definition maxTokenLifetime :: duration where
  "maxTokenLifetime = hour * (24 * 30)"

definition svc_RevokeAllUserSessions ::
    "redis_api \<Rightarrow> string \<Rightarrow> string \<Rightarrow> (redis, app_error option) state" where
  "svc_RevokeAllUserSessions R appID userID = do {
     ignore (DeleteAllUserSessions R appID userID []);
     err \<leftarrow> BlacklistAllUserTokens R appID userID maxTokenLifetime;
     ret (case err of Some e \<Rightarrow> Some (internal ''Failed to blacklist user tokens'') | None \<Rightarrow> None) }"

section \<open>The HTTP handlers\<close>

datatype session_reply = SList "SessionResponse list" | SMessage int string | SError int string
  | SPanic string

text \<open>The string a type assertion on a context value gives; on another type it panics.\<close>

definition as_string :: "ctx_val \<Rightarrow> string option" where
  "as_string v = (case v of CStr s \<Rightarrow> Some s | _ \<Rightarrow> None)"

text \<open>
  The guards the three handlers share: the identity the middleware put in the context.  The
  type assertions happen where the code calls the service.
\<close>

definition with_identity ::
    "http_ctx \<Rightarrow> (ctx_val \<Rightarrow> ctx_val \<Rightarrow> ('s, session_reply) state) \<Rightarrow> ('s, session_reply) state" where
  "with_identity c body = (case ctx_keys c ''userID'' of
       None \<Rightarrow> ret (SError 500 ''User ID not found in context'')
     | Some u \<Rightarrow> (case ctx_keys c ''appID'' of
         None \<Rightarrow> ret (SError 500 ''App ID not found in context'')
       | Some a \<Rightarrow> body a u))"

definition assert_strings ::
    "ctx_val \<Rightarrow> ctx_val \<Rightarrow> (string \<Rightarrow> string \<Rightarrow> ('s, session_reply) state) \<Rightarrow> ('s, session_reply) state" where
  "assert_strings a u body = (case (as_string a, as_string u) of
       (Some appID, Some userID) \<Rightarrow> body appID userID
     | _ \<Rightarrow> ret (SPanic ''interface conversion''))"

definition current_session :: "http_ctx \<Rightarrow> string option" where
  "current_session c = (case ctx_keys c ''sessionID'' of None \<Rightarrow> Some [] | Some v \<Rightarrow> as_string v)"

definition HandleListSessions :: "redis_api \<Rightarrow> http_ctx \<Rightarrow> (redis, session_reply) state" where
  "HandleListSessions R c = with_identity c (\<lambda>a u. case current_session c of
       None \<Rightarrow> ret (SPanic ''interface conversion'')
     | Some currentSessionID \<Rightarrow> assert_strings a u (\<lambda>appID userID. do {
         res \<leftarrow> svc_ListSessions R appID userID currentSessionID;
         ret (case res of Inl e \<Rightarrow> SError (Code e) (Message e) | Inr l \<Rightarrow> SList l) }))"

definition app_reply :: "app_error option \<Rightarrow> string \<Rightarrow> session_reply" where
  "app_reply e msg = (case e of Some e \<Rightarrow> SError (Code e) (Message e) | None \<Rightarrow> SMessage 200 msg)"

text \<open>\<open>uuid.Parse\<close> is a parameter; only whether it accepts the id matters.\<close>

definition HandleRevokeSession ::
    "redis_api \<Rightarrow> (string \<Rightarrow> bool) \<Rightarrow> http_ctx \<Rightarrow> (redis, session_reply) state" where
  "HandleRevokeSession R is_uuid c = with_identity c (\<lambda>a u.
     let sessionID = Param c ''id'';
         revoke = assert_strings a u (\<lambda>appID userID. do {
           err \<leftarrow> svc_RevokeSession R appID userID sessionID;
           ret (app_reply err ''Session revoked successfully'') })
     in if \<not> is_uuid sessionID then ret (SError 400 ''Invalid session ID'')
     else case ctx_keys c ''sessionID'' of
       None \<Rightarrow> revoke
     | Some v \<Rightarrow> (case as_string v of
         None \<Rightarrow> ret (SPanic ''interface conversion'')
       | Some sid \<Rightarrow> (if sid = sessionID
           then ret (SError 400 ''Cannot revoke current session. Use logout instead.'') else revoke)))"

definition HandleRevokeAllSessions :: "redis_api \<Rightarrow> http_ctx \<Rightarrow> (redis, session_reply) state" where
  "HandleRevokeAllSessions R c = with_identity c (\<lambda>a u. case current_session c of
       None \<Rightarrow> ret (SPanic ''interface conversion'')
     | Some currentSessionID \<Rightarrow> assert_strings a u (\<lambda>appID userID. do {
         err \<leftarrow> svc_RevokeAllSessions R appID userID currentSessionID;
         ret (app_reply err ''All other sessions revoked successfully'') }))"

end
