(* ===== verification/AuthMiddleware.thy ===== *)
theory AuthMiddleware
  imports SessionService
begin

text \<open>
  \<open>internal/middleware/auth.go\<close> and \<open>internal/middleware/jwt.go\<close>: the decision every
  authenticated request passes through, and the role and permission checks behind it.
\<close>

section \<open>Access tokens\<close>

text \<open>\<open>tokenString\<close> is the header without the word Bearer, if it has it.\<close>

definition bearer_token :: "string \<Rightarrow> string" where
  "bearer_token authHeader =
     (if length authHeader > 7 \<and> take 7 authHeader = ''Bearer '' then drop 7 authHeader else authHeader)"

text \<open>\<open>redis.Rdb\<close> is nil until the connection is set up: \<open>None\<close>.\<close>

definition auth_checks :: "redis_api \<Rightarrow> string \<Rightarrow> claims \<Rightarrow> (redis, (int \<times> string) option) state" where
  "auth_checks R tokenString c = do {
     res \<leftarrow> IsAccessTokenBlacklisted R (AppID c) tokenString;
     case res of Inl e \<Rightarrow> ret (Some (500, ''Token validation error'')) | Inr blacklisted \<Rightarrow>
     if blacklisted then ret (Some (401, ''Token has been revoked'')) else do {
     res \<leftarrow> IsUserTokensBlacklisted R (AppID c) (UserID c);
     case res of Inl e \<Rightarrow> ret (Some (500, ''Token validation error'')) | Inr userBlacklisted \<Rightarrow>
     if userBlacklisted then ret (Some (401, ''All user tokens have been revoked'')) else
     if SessionID c = [] then ret None else do {
     res \<leftarrow> SessionExists R (AppID c) (SessionID c);
     case res of Inl e \<Rightarrow> ret (Some (500, ''Session validation error'')) | Inr sessionExists \<Rightarrow>
     ret (if sessionExists then None else Some (401, ''Session has been revoked'')) } } }"

definition set_identity :: "claims \<Rightarrow> http_ctx \<Rightarrow> http_ctx" where
  "set_identity cl c =
     (let c1 = SetKey ''roles'' (CStrs (Roles cl)) (SetKey ''appID'' (CStr (AppID cl))
                 (SetKey ''userID'' (CStr (UserID cl)) c))
      in if SessionID cl \<noteq> [] then SetKey ''sessionID'' (CStr (SessionID cl)) c1 else c1)"

definition AuthMiddleware :: "redis_api option \<Rightarrow> jwt_env \<Rightarrow> http_ctx \<Rightarrow> (redis, mw_result) state" where
  "AuthMiddleware Rdb E c = (let authHeader = GetHeader c ''Authorization'' in
     if authHeader = [] then ret (Abort 401 ''Authorization header required'') else do {
     let tokenString = bearer_token authHeader;
     res \<leftarrow> ParseToken E tokenString;
     case res of Inl e \<Rightarrow> ret (Abort 401 ''Invalid or expired token'') | Inr cl \<Rightarrow>
     if TokenType cl \<noteq> [] \<and> TokenType cl \<noteq> TokenTypeAccess then ret (Abort 401 ''Invalid token type'')
     else case Rdb of
       None \<Rightarrow> ret (Abort 500 ''Token validation service unavailable'')
     | Some R \<Rightarrow> do {
         bad \<leftarrow> auth_checks R tokenString cl;
         ret (case bad of Some (code, msg) \<Rightarrow> Abort code msg | None \<Rightarrow> Next (set_identity cl c)) } })"

section \<open>Roles and permissions\<close>

text \<open>
  The RBAC service is an argument here: \<open>has_role\<close> and \<open>has_perm\<close> are its methods, \<open>None\<close> is a
  nil service.  A context value of the wrong type panics in the type assertion.
\<close>

definition AuthorizeRole ::
    "(string \<Rightarrow> string \<Rightarrow> string list \<Rightarrow> ('s, string + bool) state) option \<Rightarrow> string list \<Rightarrow> http_ctx \<Rightarrow>
     ('s, mw_result outcome) state" where
  "AuthorizeRole rbac requiredRoles c = (case ctx_keys c ''userID'' of
       None \<Rightarrow> ret (Returned (Abort 500 ''User ID not found in context''))
     | Some userID \<Rightarrow>
       (let jwtRoles = (case ctx_keys c ''roles'' of Some (CStrs rs) \<Rightarrow> rs | _ \<Rightarrow> []);
            deny = ret (Returned (Abort 403 ''Insufficient role permissions''))
        in if \<exists>required\<in>set requiredRoles. \<exists>role\<in>set jwtRoles. role = required then ret (Returned (Next c))
        else case (rbac, ctx_keys c ''appID'') of
          (Some has_role, Some appID) \<Rightarrow> (case (as_string appID, as_string userID) of
             (Some a, Some u) \<Rightarrow> do {
               res \<leftarrow> has_role a u requiredRoles;
               (case res of Inr True \<Rightarrow> ret (Returned (Next c)) | _ \<Rightarrow> deny) }
           | _ \<Rightarrow> ret (Panicked ''interface conversion''))
        | _ \<Rightarrow> deny))"

definition AuthorizePermission ::
    "(string \<Rightarrow> string \<Rightarrow> string \<Rightarrow> string \<Rightarrow> ('s, string + bool) state) option \<Rightarrow> string \<Rightarrow> string \<Rightarrow>
     http_ctx \<Rightarrow> ('s, mw_result outcome) state" where
  "AuthorizePermission rbac resource action c = (case ctx_keys c ''userID'' of
       None \<Rightarrow> ret (Returned (Abort 500 ''User ID not found in context''))
     | Some userID \<Rightarrow> (case (rbac, ctx_keys c ''appID'') of
         (Some has_perm, Some appID) \<Rightarrow> (case (as_string appID, as_string userID) of
             (Some a, Some u) \<Rightarrow> do {
               res \<leftarrow> has_perm a u resource action;
               ret (Returned (case res of
                   Inl e \<Rightarrow> Abort 500 ''Authorization check failed''
                 | Inr True \<Rightarrow> Next c
                 | Inr False \<Rightarrow> Abort 403 ''Insufficient permissions'')) }
           | _ \<Rightarrow> ret (Panicked ''interface conversion''))
       | _ \<Rightarrow> ret (Returned (Abort 500 ''Authorization service not available''))))"

section \<open>Fleet tokens\<close>

record fleet_claims =
  fc_UserID :: string
  fc_AppID :: string
  fc_TenantID :: string
  fc_Roles :: "string list"

definition getJWTSecret :: "(string \<Rightarrow> string) \<Rightarrow> string" where
  "getJWTSecret env = (let secret = env ''FLEET_API_JWT_SECRET'' in
     if secret = [] then env ''JWT_SECRET'' else secret)"

definition fleet_key :: "string \<Rightarrow> keyfunc" where
  "fleet_key secret m = (case m of HMAC _ \<Rightarrow> Inr secret
     | OtherMethod alg \<Rightarrow> Inl (''unexpected signing method: '' @ alg))"

text \<open>
  \<open>parse\<close> is \<open>jwt.NewParser(jwt.WithValidMethods(...)).ParseWithClaims\<close>: accepted algorithms, key
  function and token; it reads the clock itself, so it is a computation.
\<close>

definition FleetAuthMiddleware ::
    "(string list \<Rightarrow> keyfunc \<Rightarrow> string \<Rightarrow> ('s, string + (fleet_claims \<times> bool)) state) \<Rightarrow> (string \<Rightarrow> string) \<Rightarrow>
     http_ctx \<Rightarrow> ('s, mw_result) state" where
  "FleetAuthMiddleware parse env c = (let authHeader = GetHeader c ''Authorization'' in
     if authHeader = [] then ret (Abort 401 ''Authorization header required'')
     else if \<not> HasPrefix authHeader ''Bearer '' then ret (Abort 401 ''Authorization header must be Bearer token'')
     else let tokenString = TrimPrefix authHeader ''Bearer '' in
     if tokenString = [] then ret (Abort 401 ''Bearer token required'')
     else let jwtSecret = getJWTSecret env in
     if jwtSecret = [] then ret (Abort 500 ''JWT secret is not configured'')
     else do {
       res \<leftarrow> parse [''HS256''] (fleet_key jwtSecret) tokenString;
       ret (case res of
           Inl e \<Rightarrow> Abort 401 ''Invalid or expired token''
         | Inr (cl, valid) \<Rightarrow>
             if \<not> valid then Abort 401 ''Invalid or expired token''
             else if fc_UserID cl = [] \<or> fc_AppID cl = [] then Abort 401 ''Token missing required claims''
             else let c1 = SetKey ''app_id'' (CStr (fc_AppID cl)) (SetKey ''user_id'' (CStr (fc_UserID cl)) c);
                      c2 = (if fc_TenantID cl \<noteq> [] then SetKey ''tenant_id'' (CStr (fc_TenantID cl)) c1 else c1)
                  in Next (SetKey ''roles'' (CStrs (fc_Roles cl)) c2)) })"

definition RequireAdminRole :: "http_ctx \<Rightarrow> mw_result" where
  "RequireAdminRole c = (case ctx_keys c ''roles'' of
       None \<Rightarrow> Abort 403 ''Required role missing in token''
     | Some (CStrs roles) \<Rightarrow> (if \<exists>role\<in>set roles. EqualFold role ''admin'' then Next c
         else Abort 403 ''Admin role required'')
     | Some _ \<Rightarrow> Abort 403 ''Invalid roles claim format'')"

end
