(* ===== verification/AuthProofs.thy ===== *)
theory AuthProofs
  imports AuthMiddleware
begin

text \<open>
  What holds of login, refresh, logout and revocation as the middleware sees them.  The
  middleware only reads, and lets a token pass exactly when the checks of \<open>admits\<close> hold; each
  operation of the session service establishes or destroys one of them.
\<close>

section \<open>The middleware\<close>

text \<open>What the three Redis checks look at.\<close>

definition admits :: "redis \<Rightarrow> string \<Rightarrow> claims \<Rightarrow> bool" where
  "admits r tok c \<longleftrightarrow> live r (BlacklistTokenKey (AppID c) tok) = None \<and>
     live r (BlacklistUserKey (AppID c) (UserID c)) = None \<and>
     (SessionID c \<noteq> [] \<longrightarrow> live r (SessionKey (AppID c) (SessionID c)) \<noteq> None)"

context redis_server
begin

lemma wp_present:
  "wp (present R k) (\<lambda>x r'. reads r r' \<and> (\<forall>b. x = Inr b \<longrightarrow> b = (live r' k \<noteq> None))) r"
  unfolding present_def
  by (intro wp_intro wp_redis) (auto simp: get_post_def split: sum.splits rerr.splits)

lemma wp_auth_checks:
  "wp (auth_checks R tok c) (\<lambda>x r'. reads r r' \<and> (x = None \<longrightarrow> admits r' tok c)) r"
  unfolding auth_checks_def IsAccessTokenBlacklisted_def IsUserTokensBlacklisted_def
proof (rule wp_bind, rule wp_mono[OF wp_present], elim conjE, rule wp_case_sum)
  fix x r1 e assume "reads r r1"
  then show "wp (ret (Some (500, ''Token validation error''))) (\<lambda>x r'. reads r r' \<and> (x = None \<longrightarrow> admits r' tok c)) r1"
    by (auto intro: wp_return)
next
  fix x r1 b assume rd: "reads r r1" and x: "x = Inr b"
    and "\<forall>b. x = Inr b \<longrightarrow> b = (live r1 (BlacklistTokenKey (AppID c) tok) \<noteq> None)"
  then have b: "b = (live r1 (BlacklistTokenKey (AppID c) tok) \<noteq> None)" by simp
  show "wp (if b then ret (Some (401, ''Token has been revoked'')) else do {
     res \<leftarrow> present R (BlacklistUserKey (AppID c) (UserID c));
     case res of Inl e \<Rightarrow> ret (Some (500, ''Token validation error'')) | Inr userBlacklisted \<Rightarrow>
     if userBlacklisted then ret (Some (401, ''All user tokens have been revoked'')) else
     if SessionID c = [] then ret None else do {
     res \<leftarrow> SessionExists R (AppID c) (SessionID c);
     case res of Inl e \<Rightarrow> ret (Some (500, ''Session validation error'')) | Inr sessionExists \<Rightarrow>
     ret (if sessionExists then None else Some (401, ''Session has been revoked'')) } })
     (\<lambda>x r'. reads r r' \<and> (x = None \<longrightarrow> admits r' tok c)) r1"
  proof (rule wp_if)
    show "wp (ret (Some (401, ''Token has been revoked''))) (\<lambda>x r'. reads r r' \<and> (x = None \<longrightarrow> admits r' tok c)) r1"
      using rd by (auto intro: wp_return)
  next
    assume "\<not> b"
    with b have dead1: "live r1 (BlacklistTokenKey (AppID c) tok) = None" by simp
    show "wp (do {
       res \<leftarrow> present R (BlacklistUserKey (AppID c) (UserID c));
       case res of Inl e \<Rightarrow> ret (Some (500, ''Token validation error'')) | Inr userBlacklisted \<Rightarrow>
       if userBlacklisted then ret (Some (401, ''All user tokens have been revoked'')) else
       if SessionID c = [] then ret None else do {
       res \<leftarrow> SessionExists R (AppID c) (SessionID c);
       case res of Inl e \<Rightarrow> ret (Some (500, ''Session validation error'')) | Inr sessionExists \<Rightarrow>
       ret (if sessionExists then None else Some (401, ''Session has been revoked'')) } })
       (\<lambda>x r'. reads r r' \<and> (x = None \<longrightarrow> admits r' tok c)) r1"
    proof (rule wp_bind, rule wp_mono[OF wp_present], elim conjE, intro wp_case_sum wp_if wp_bind,
           goal_cases)
      case 1 then show ?case using rd by (auto intro!: wp_return elim: reads_trans)
    next
      case 2 then show ?case using rd by (auto intro!: wp_return elim: reads_trans)
    next
      case (3 x r2 v)
      then show ?case using rd dead1
        by (auto intro!: wp_return simp: admits_def elim: reads_trans reads_live_dead)
    next
      case (4 x r2 v)
      then have rd2: "reads r r2" "reads r1 r2" and dead2: "live r2 (BlacklistUserKey (AppID c) (UserID c)) = None"
        and sid: "SessionID c \<noteq> []"
        using rd reads_trans by auto
      show ?case
      proof (rule wp_mono[OF wp_SessionExists], elim conjE, intro wp_case_sum wp_return, goal_cases)
        case 1 then show ?case using rd2 by (auto elim: reads_trans)
      next
        case (2 y r3 b')
        then have rd3: "reads r2 r3" by simp
        then have "live r3 (BlacklistUserKey (AppID c) (UserID c)) = None"
          using dead2 by (rule reads_live_dead)
        moreover have "live r3 (BlacklistTokenKey (AppID c) tok) = None"
          using reads_live_dead[OF reads_trans[OF rd2(2) rd3] dead1] .
        ultimately show ?case using 2 reads_trans[OF rd2(1) rd3] by (auto simp: admits_def)
      qed
    qed
  qed
qed

lemma wp_ParseToken:
  "wp (ParseToken E tok) (\<lambda>x r'. r' = r \<and> (\<forall>c. x = Inr c \<longrightarrow>
     ParseWithClaims (je_api E) (token_key E) (rnow r) tok = Inr (c, True))) r"
  unfolding ParseToken_def by (intro wp_intro) (auto split: sum.splits if_splits)

lemma wp_AuthMiddleware:
  "wp (AuthMiddleware (Some R) E c) (\<lambda>x r'. reads r r' \<and> (\<forall>c'. x = Next c' \<longrightarrow>
     (\<exists>cl. ParseWithClaims (je_api E) (token_key E) (rnow r) (bearer_token (GetHeader c ''Authorization'')) = Inr (cl, True) \<and>
        (TokenType cl = [] \<or> TokenType cl = TokenTypeAccess) \<and>
        admits r' (bearer_token (GetHeader c ''Authorization'')) cl \<and> c' = set_identity cl c))) r"
  unfolding AuthMiddleware_def
proof (rule wp_Let, rule wp_if, goal_cases)
  case 1 then show ?case by (auto intro: wp_return)
next
  case (2 h)
  show ?case
  proof (rule wp_Let, rule wp_bind, rule wp_mono[OF wp_ParseToken], elim conjE, intro wp_case_sum wp_if, goal_cases)
    case 1 then show ?case by (auto intro: wp_return)
  next
    case 2 then show ?case by (auto intro: wp_return)
  next
    case (3 tok x r1 cl)
    then show ?case
      unfolding option.case
      by (intro wp_bind wp_mono[OF wp_auth_checks] wp_return) (use 2 in \<open>auto split: option.splits\<close>)
  qed
qed

end

lemma set_identity_keys:
  "ctx_keys (set_identity cl c) ''userID'' = Some (CStr (UserID cl))"
  "ctx_keys (set_identity cl c) ''appID'' = Some (CStr (AppID cl))"
  "ctx_keys (set_identity cl c) ''roles'' = Some (CStrs (Roles cl))"
  "ctx_keys (set_identity cl c) ''sessionID'' =
     (if SessionID cl \<noteq> [] then Some (CStr (SessionID cl)) else ctx_keys c ''sessionID'')"
  by (simp_all add: set_identity_def Let_def)

text \<open>The only refresh token the session can still be refreshed with.\<close>

definition holds_token :: "redis \<Rightarrow> string \<Rightarrow> string \<Rightarrow> string \<Rightarrow> bool" where
  "holds_token r a s rt \<longleftrightarrow> (\<forall>h x. rdata r (SessionKey a s) = Some (RHash h, x) \<longrightarrow>
     map_of h ''refresh_token'' = None \<or> map_of h ''refresh_token'' = Some rt)"

lemma holds_token_keep: "holds_token r a s rt \<Longrightarrow> writes K r r' \<Longrightarrow> SessionKey a s \<notin> K \<Longrightarrow> holds_token r' a s rt"
  by (simp add: holds_token_def writes_def)

lemma holds_token_update:
  "hset_post (SessionKey a s) [(''refresh_token'', rt)] r None r' \<Longrightarrow> holds_token r' a s rt"
  by (auto simp: hset_post_def holds_token_def Let_def update_conv')

lemma holds_token_entry:
  "holds_token r a s rt \<Longrightarrow> entry_at t (rdata r) (SessionKey a s) = Some (RHash h, x) \<Longrightarrow>
   map_of h ''refresh_token'' = None \<or> map_of h ''refresh_token'' = Some rt"
  by (drule entry_at_Some) (auto simp: holds_token_def)

lemma holds_token_touch:
  assumes "hset_post (SessionKey a s) [(''last_active'', v)] r e r'" and "holds_token r a s rt"
  shows "holds_token r' a s rt"
proof -
  have step: "map_of h ''refresh_token'' = None \<or> map_of h ''refresh_token'' = Some rt"
    if "hash_of (entry_at (rnow r') (rdata r) (SessionKey a s)) = Some h" for h
    using that holds_token_entry[OF assms(2), of "rnow r'"]
    by (auto simp: hash_of_def split: option.splits rval.splits prod.splits)
  from assms(1) consider "rdata r' (SessionKey a s) = rdata r (SessionKey a s)"
    | h where "hash_of (entry_at (rnow r') (rdata r) (SessionKey a s)) = Some h"
        "\<exists>x. rdata r' (SessionKey a s) = Some (RHash (AList.update ''last_active'' v h), x)"
    by (auto simp: hset_post_def Let_def)
  then show ?thesis
  proof cases
    case 1 then show ?thesis using assms(2) by (simp add: holds_token_def)
  next
    case 2 then show ?thesis using step by (auto simp: holds_token_def update_conv')
  qed
qed

lemma holds_token_expire:
  assumes "expire_post (SessionKey a s) d r e r'" and "holds_token r a s rt"
  shows "holds_token r' a s rt"
proof -
  from assms(1) consider "rdata r' (SessionKey a s) = rdata r (SessionKey a s)"
    | "rdata r' (SessionKey a s) =
         map_option (\<lambda>(v, _). (v, Some (rnow r' + d))) (entry_at (rnow r') (rdata r) (SessionKey a s))"
    by (auto simp: expire_post_def)
  then show ?thesis
  proof cases
    case 1 then show ?thesis using assms(2) by (simp add: holds_token_def)
  next
    case 2 then show ?thesis
      using holds_token_entry[OF assms(2)] unfolding holds_token_def by (simp, blast)
  qed
qed

text \<open>The identity a request carries once the middleware has let it pass.\<close>

definition authenticated_as :: "mw_result \<Rightarrow> string \<Rightarrow> string \<Rightarrow> bool" where
  "authenticated_as x appID userID = (case x of Abort _ _ \<Rightarrow> False | Redirect _ \<Rightarrow> False
     | Next c \<Rightarrow> ctx_keys c ''appID'' = Some (CStr appID) \<and> ctx_keys c ''userID'' = Some (CStr userID))"

definition in_session :: "mw_result \<Rightarrow> string \<Rightarrow> string \<Rightarrow> bool" where
  "in_session x appID sessionID = (case x of Abort _ _ \<Rightarrow> False | Redirect _ \<Rightarrow> False
     | Next c \<Rightarrow> ctx_keys c ''appID'' = Some (CStr appID) \<and> ctx_keys c ''sessionID'' = Some (CStr sessionID))"

context redis_server
begin

lemma dead_session_rejected:
  assumes "live r (SessionKey a s) = None" and "ctx_keys c ''sessionID'' = None"
    and "run_state (AuthMiddleware (Some R) E c) r = (x, r')"
  shows "\<not> in_session x a s"
proof
  assume i: "in_session x a s"
  then obtain c' where x: "x = Next c'" by (auto simp: in_session_def split: mw_result.splits)
  from wpD[OF wp_AuthMiddleware assms(3)] x obtain cl where rd: "reads r r'"
    and ok: "admits r' (bearer_token (GetHeader c ''Authorization'')) cl" and c': "c' = set_identity cl c"
    by blast
  from i x c' assms(2) have "AppID cl = a" "SessionID cl = s" "SessionID cl \<noteq> []"
    by (auto simp: in_session_def set_identity_keys split: if_splits)
  with ok have "live r' (SessionKey a s) \<noteq> None" by (auto simp: admits_def)
  with reads_live_dead[OF rd assms(1)] show False by simp
qed

lemma blacklisted_user_rejected:
  assumes "rdata r (BlacklistUserKey a u) = Some (v, Some t)" and "rnow r' < t"
    and "run_state (AuthMiddleware (Some R) E c) r = (x, r')"
  shows "\<not> authenticated_as x a u"
proof
  assume i: "authenticated_as x a u"
  then obtain c' where x: "x = Next c'" by (auto simp: authenticated_as_def split: mw_result.splits)
  from wpD[OF wp_AuthMiddleware assms(3)] x obtain cl where rd: "reads r r'"
    and ok: "admits r' (bearer_token (GetHeader c ''Authorization'')) cl" and c': "c' = set_identity cl c"
    by blast
  from i x c' have "AppID cl = a" "UserID cl = u"
    by (auto simp: authenticated_as_def set_identity_keys)
  with ok have "live r' (BlacklistUserKey a u) = None" by (simp add: admits_def)
  moreover have "live r' (BlacklistUserKey a u) = Some v"
    using assms(1,2) rd by (intro live_fresh[of r' _ v t]) (simp_all add: reads_def)
  ultimately show False by simp
qed

section \<open>Logout and revocation\<close>

lemma wp_svc_LogoutSession:
  "wp (svc_LogoutSession R E a u s at) (\<lambda>x r'. x \<noteq> Returned (Some (internal ''Failed to revoke session'')) \<longrightarrow>
     rdata r' (SessionKey a s) = None) r"
proof -
  have rest: "touches {BlacklistTokenKey a at} (if at = [] then ret (Returned None) else do {
         res \<leftarrow> ParseToken E at;
         case res of
           Inl e \<Rightarrow> ret (Returned None)
         | Inr c \<Rightarrow> (case ExpiresAt c of
             None \<Rightarrow> ret (Panicked ''nil pointer dereference'')
           | Some x \<Rightarrow> do {
               now \<leftarrow> time_now;
               let remainingTime = x - now;
               (if 0 < remainingTime then ignore (BlacklistAccessToken R a at u remainingTime) else ret ());
               ret (Returned (None :: app_error option)) }) })"
    unfolding ParseToken_def BlacklistAccessToken_def by (intro touches_intro) auto
  show ?thesis
    unfolding svc_LogoutSession_def
    by (rule wp_bind, rule wp_mono[OF wp_DeleteSession_gone], rule wp_case_option,
        rule wp_touches[OF rest]) (auto intro!: wp_return simp: writes_keep key_simps)
qed

lemma wp_svc_RevokeSession:
  "wp (svc_RevokeSession R a u s) (\<lambda>e r'. e = None \<longrightarrow> rdata r' (SessionKey a s) = None) r"
  unfolding svc_RevokeSession_def
  by (rule wp_bind, rule wp_mono[OF wp_DeleteSession_gone]) (auto intro!: wp_return split: option.splits)

lemma wp_BlacklistAllUserTokens:
  "0 < d \<Longrightarrow> wp (BlacklistAllUserTokens R a u d) (\<lambda>e r'. e = None \<longrightarrow>
     rdata r' (BlacklistUserKey a u) = Some (RStr ''all_tokens_revoked'', Some (rnow r' + d))) r"
  unfolding BlacklistAllUserTokens_def
  by (rule wp_r_set) (simp add: set_post_def expiry_after_def)

lemma wp_svc_RevokeAllUserSessions:
  "wp (svc_RevokeAllUserSessions R a u) (\<lambda>e r'. e = None \<longrightarrow>
     rdata r' (BlacklistUserKey a u) = Some (RStr ''all_tokens_revoked'', Some (rnow r' + maxTokenLifetime))) r"
  unfolding svc_RevokeAllUserSessions_def
  by (rule wp_bind, rule wpI, rule wp_bind, rule wp_mono[OF wp_BlacklistAllUserTokens])
     (auto intro!: wp_return simp: maxTokenLifetime_def split: option.splits)

section \<open>Rotation\<close>

lemma wp_rotate_holds:
  "wp (do { err \<leftarrow> UpdateSessionRefreshToken R a s rt;
        case err of Some e \<Rightarrow> ret (Inl (internal ''Failed to update session'')) | None \<Rightarrow> do {
        ignore (ResetSessionTTL R a s ttl);
        ignore (TouchSession R a s);
        ret (Inr (at, rt, u)) } }) (\<lambda>x r'. (\<forall>y. x = Inr y \<longrightarrow> y = (at, rt, u) \<and> holds_token r' a s rt)) r"
  unfolding UpdateSessionRefreshToken_def ResetSessionTTL_def TouchSession_def
  by (intro wp_intro wp_redis)
     (auto intro: holds_token_touch holds_token_expire dest!: holds_token_update)

lemma touches_rotate:
  "touches {SessionKey a s} (do { err \<leftarrow> UpdateSessionRefreshToken R a s rt;
        case err of Some e \<Rightarrow> ret (Inl (internal ''Failed to update session'')) | None \<Rightarrow> do {
        ignore (ResetSessionTTL R a s ttl);
        ignore (TouchSession R a s);
        ret (Inr (at, rt, u)) } })"
  unfolding UpdateSessionRefreshToken_def ResetSessionTTL_def TouchSession_def
  by (intro touches_intro) simp_all

lemma wp_rotate:
  "wp (do { err \<leftarrow> UpdateSessionRefreshToken R a s rt;
        case err of Some e \<Rightarrow> ret (Inl (internal ''Failed to update session'')) | None \<Rightarrow> do {
        ignore (ResetSessionTTL R a s ttl);
        ignore (TouchSession R a s);
        ret (Inr (at, rt, u)) } }) (\<lambda>x r'. writes {SessionKey a s} r r' \<and> (\<forall>y. x = Inr y \<longrightarrow> y = (at, rt, u) \<and> holds_token r' a s rt)) r"
  by (rule wp_conj[OF wp_touches[OF touches_rotate] wp_rotate_holds]) simp

end

text \<open>The claims of an issued token, as a function of the instant of issue.\<close>

definition issue :: "jwt_env \<Rightarrow> string \<Rightarrow> duration \<Rightarrow> string \<Rightarrow> string \<Rightarrow> string \<Rightarrow> string list \<Rightarrow> instant \<Rightarrow> claims" where
  "issue E typ ttl a u s rs now = \<lparr>UserID = u, AppID = a, SessionID = s, TokenType = typ, Roles = rs,
     ExpiresAt = Some (NewNumericDate (je_api E) (now + ttl)), IssuedAt = Some (NewNumericDate (je_api E) now)\<rparr>"

lemma issue_sel [simp]:
  "UserID (issue E typ ttl a u s rs now) = u" "AppID (issue E typ ttl a u s rs now) = a"
  "SessionID (issue E typ ttl a u s rs now) = s" "TokenType (issue E typ ttl a u s rs now) = typ"
  "Roles (issue E typ ttl a u s rs now) = rs"
  by (simp_all add: issue_def)

definition access_ttl :: "jwt_env \<Rightarrow> duration \<Rightarrow> duration" where
  "access_ttl E ttl = (if ttl \<le> 0 then DefaultAccessTokenTTL E else ttl)"

definition refresh_ttl :: "jwt_env \<Rightarrow> duration \<Rightarrow> duration" where
  "refresh_ttl E ttl = (if ttl \<le> 0 then DefaultRefreshTokenTTL E else ttl)"

lemma run_GenerateAccessToken:
  "run_state (GenerateAccessToken E a u s rs ttl) r =
     (SignedString (je_api E) (je_secret E) (issue E TokenTypeAccess (access_ttl E ttl) a u s rs (rnow r)), r)"
  by (simp add: GenerateAccessToken_def issue_def access_ttl_def Let_def)

lemma run_GenerateRefreshToken:
  "run_state (GenerateRefreshToken E a u s rs ttl) r =
     (SignedString (je_api E) (je_secret E) (issue E TokenTypeRefresh (refresh_ttl E ttl) a u s rs (rnow r)), r)"
  by (simp add: GenerateRefreshToken_def issue_def refresh_ttl_def Let_def)

lemma wp_GenerateAccessToken [wp_intro]:
  "Q (SignedString (je_api E) (je_secret E) (issue E TokenTypeAccess (access_ttl E ttl) a u s rs (rnow r))) r \<Longrightarrow>
   wp (GenerateAccessToken E a u s rs ttl) Q r"
  by (simp add: wp_def run_GenerateAccessToken)

lemma wp_GenerateRefreshToken [wp_intro]:
  "Q (SignedString (je_api E) (je_secret E) (issue E TokenTypeRefresh (refresh_ttl E ttl) a u s rs (rnow r))) r \<Longrightarrow>
   wp (GenerateRefreshToken E a u s rs ttl) Q r"
  by (simp add: wp_def run_GenerateRefreshToken)

text \<open>A refresh token is accepted for its own session while that session holds it.\<close>

definition refreshable :: "redis \<Rightarrow> claims \<Rightarrow> string \<Rightarrow> bool" where
  "refreshable r c tok \<longleftrightarrow> (TokenType c = [] \<or> TokenType c = TokenTypeRefresh) \<and> SessionID c \<noteq> [] \<and>
     (\<exists>h. live r (SessionKey (AppID c) (SessionID c)) = Some (RHash h) \<and> map_of h ''refresh_token'' = Some tok)"

context redis_server
begin

lemma wp_svc_RefreshSession:
  "wp (svc_RefreshSession R E old attl rttl) (\<lambda>x r'. \<forall>at rt u. x = Inr (at, rt, u) \<longrightarrow>
     (\<exists>c t1. ParseWithClaims (je_api E) (token_key E) (rnow r) old = Inr (c, True) \<and> refreshable r c old \<and>
        u = UserID c \<and> holds_token r' (AppID c) (SessionID c) rt \<and>
        writes {SessionKey (AppID c) (SessionID c)} r r' \<and> rnow r \<le> t1 \<and> t1 \<le> rnow r' \<and>
        SignedString (je_api E) (je_secret E)
          (issue E TokenTypeAccess (access_ttl E attl) (AppID c) u (SessionID c) (Roles c) t1) = Inr at \<and>
        SignedString (je_api E) (je_secret E)
          (issue E TokenTypeRefresh (refresh_ttl E rttl) (AppID c) u (SessionID c) (Roles c) t1) = Inr rt)) r"
  unfolding svc_RefreshSession_def
proof (rule wp_bind, rule wp_mono[OF wp_ParseToken], elim conjE, intro wp_case_sum wp_if, goal_cases)
  case 1 then show ?case by (auto intro: wp_return)
next
  case 2 then show ?case by (auto intro: wp_return)
next
  case 3 then show ?case by (auto intro: wp_return)
next
  case (4 x r0 c)
  then have r0: "r0 = r" and p: "ParseWithClaims (je_api E) (token_key E) (rnow r) old = Inr (c, True)"
    and ty: "TokenType c = [] \<or> TokenType c = TokenTypeRefresh" and sid: "SessionID c \<noteq> []" by auto
  show ?case
    unfolding r0
  proof (rule wp_bind, rule wp_mono[OF wp_GetSessionRefreshToken], elim conjE, intro wp_case_sum wp_if, goal_cases)
    case 1 then show ?case by (auto intro: wp_return)
  next
    case 2 then show ?case by (auto intro: wp_return)
  next
    case (3 x r1 stored)
    then obtain h where rd: "reads r r1" and "live r1 (SessionKey (AppID c) (SessionID c)) = Some (RHash h)"
      and h: "map_of h ''refresh_token'' = Some old" by auto
    then have "live r (SessionKey (AppID c) (SessionID c)) = Some (RHash h)"
      by (auto intro: live_mono simp: reads_def)
    with h ty sid have ok: "refreshable r c old" by (auto simp: refreshable_def)
    show ?case
    proof (intro wp_bind wp_GenerateAccessToken wp_case_sum wp_GenerateRefreshToken wp_Let, goal_cases)
      case 1 then show ?case by (auto intro: wp_return)
    next
      case 2 then show ?case by (auto intro: wp_return)
    next
      case (3 at rt)
      show ?case
        unfolding 3(3) refresh_ttl_def[symmetric] wp_bind_iff[symmetric]
        by (rule wp_mono[OF wp_rotate]) (use p ok 3 rd in \<open>auto simp: reads_def writes_def\<close>)
    qed
  qed
qed

end


section \<open>The stack: a server and a token library\<close>

locale session_stack = redis_server R + jwt: jwt_lib "je_api E" for R :: redis_api and E :: jwt_env
begin

lemma stale_refresh:
  assumes "ParseWithClaims (je_api E) (token_key E) t old = Inr (c, True)"
    and "holds_token r (AppID c) (SessionID c) rt" and "old \<noteq> rt"
    and "run_state (svc_RefreshSession R E old attl rttl) r = (x, r')"
  shows "\<exists>e. x = Inl e"
proof (rule ccontr)
  assume "\<not> ?thesis"
  then obtain y where "x = Inr y" by (cases x) auto
  then obtain at rt2 u where "x = Inr (at, rt2, u)" by (cases y) auto
  with wpD[OF wp_svc_RefreshSession assms(4)] obtain d
    where d: "ParseWithClaims (je_api E) (token_key E) (rnow r) old = Inr (d, True)"
      and ok: "refreshable r d old" by blast
  have "d = c" using jwt.parse_same[OF assms(1) d] .
  with ok obtain h where "live r (SessionKey (AppID c) (SessionID c)) = Some (RHash h)"
    and "map_of h ''refresh_token'' = Some old" by (auto simp: refreshable_def)
  moreover from this(1) obtain x where "rdata r (SessionKey (AppID c) (SessionID c)) = Some (RHash h, x)"
    using live_Some by blast
  ultimately show False using assms(2,3) by (simp add: holds_token_def)
qed

lemma issue_unexpired:
  "unexpired now (issue E typ ttl a u s rs t) \<longleftrightarrow> now < (t + ttl) - (t + ttl) mod second"
  by (simp add: unexpired_def issue_def jwt.date)

lemma issue_times:
  assumes "t div second = t0 div second" and "ttl mod second = 0"
  shows "issue E typ ttl a u s rs t = issue E typ ttl a u s rs t0"
proof -
  have fl: "x - x mod second = second * (x div second)" for x :: int
    by (simp add: minus_mod_eq_mult_div)
  obtain k where k: "ttl = second * k" using assms(2) by (auto simp: dvd_eq_mod_eq_0[symmetric])
  have "(t + ttl) div second = (t0 + ttl) div second" using assms(1) by (simp add: k)
  then show ?thesis using assms(1) by (simp add: issue_def jwt.date fl)
qed

lemma issue_wire_safe:
  assumes "ascii a" "ascii u" "ascii s" "\<forall>x\<in>set rs. ascii x" "ascii typ"
  shows "wire_safe (issue E typ ttl a u s rs t)"
  using assms by (simp add: wire_safe_def issue_def jwt.date minus_mod_eq_mult_div)

lemma parse_issued:
  assumes "SignedString (je_api E) (je_secret E) (issue E typ ttl a u s rs t) = Inr tok"
    and "ascii a" "ascii u" "ascii s" "\<forall>x\<in>set rs. ascii x" "ascii typ"
    and "now < (t + ttl) - (t + ttl) mod second"
  shows "ParseWithClaims (je_api E) (token_key E) now tok = Inr (issue E typ ttl a u s rs t, True)"
  using assms by (intro jwt.parse_signed issue_wire_safe) (auto simp: token_key_def issue_unexpired)

end

lemma ascii_types [simp]: "ascii TokenTypeAccess" "ascii TokenTypeRefresh"
  by (simp_all add: ascii_def TokenTypeAccess_def TokenTypeRefresh_def)

interpretation ref_stack: session_stack "ref_redis ks" "\<lparr>je_api = ref_jwt, je_secret = k, je_access_minutes = m, je_refresh_hours = h\<rparr>"
  for ks k m h
  by (intro session_stack.intro) (simp_all add: ref0.redis_server_axioms ref_jwt.jwt_lib_axioms)

section \<open>Login\<close>

text \<open>The same on a server that is up: what a login leaves behind.\<close>

locale live_stack = reliable_redis R + jwt: jwt_lib "je_api E" for R :: redis_api and E :: jwt_env

sublocale live_stack \<subseteq> session_stack R E
  by unfold_locales

lemma session_stored_writes:
  "session_stored r a u s rt x \<Longrightarrow> writes K r r' \<Longrightarrow> SessionKey a s \<notin> K \<Longrightarrow> UserSessionsKey a u \<notin> K \<Longrightarrow>
   session_stored r' a u s rt x"
  by (simp add: session_stored_def writes_def)

context live_stack
begin

lemma wp_login:
  assumes fresh: "rdata (w_redis w) (SessionKey a (uuid (w_rand w))) = None"
    and idx: "set_of (rdata (w_redis w) (UserSessionsKey a u)) \<noteq> None"
  shows "wp (svc_CreateSession R E uuid a u ip ua rs attl rttl) (\<lambda>x w'. \<exists>at rt t.
     x = Inr (at, rt, uuid (w_rand w)) \<and> rnow (w_redis w) \<le> t \<and> t \<le> rnow (w_redis w') \<and>
     SignedString (je_api E) (je_secret E)
       (issue E TokenTypeAccess (access_ttl E attl) a u (uuid (w_rand w)) rs t) = Inr at \<and>
     rdata (w_redis w') (BlacklistUserKey a u) = None \<and>
     ((\<forall>y. expiry_of (rdata (w_redis w) (UserSessionsKey a u)) = Some y \<longrightarrow> rnow (w_redis w') < y) \<longrightarrow>
       (\<exists>x. rnow (w_redis w) + refresh_ttl E rttl \<le> x \<and> session_stored (w_redis w') a u (uuid (w_rand w)) rt x))) w"
proof -
  let ?r = "w_redis w" and ?s = "uuid (w_rand w)"
  obtain at where at: "SignedString (je_api E) (je_secret E)
      (issue E TokenTypeAccess (access_ttl E attl) a u ?s rs (rnow ?r)) = Inr at" using jwt.signs by blast
  obtain rt where rt: "SignedString (je_api E) (je_secret E)
      (issue E TokenTypeRefresh (refresh_ttl E rttl) a u ?s rs (rnow ?r)) = Inr rt" using jwt.signs by blast
  have created: "wp (CreateSession R a ?s u rt ip ua ttl) (\<lambda>_. writes (session_keys a u ?s) ?r) ?r" for ttl
    by (rule wp_touches[OF touches_CreateSession])
  have fin: "wp (rds (ignore (r_del R [BlacklistUserKey a u])) \<bind> (\<lambda>_. ret (Inr (at, rt, ?s))))
       (\<lambda>x w'. \<exists>at rt t. x = Inr (at, rt, ?s) \<and> rnow ?r \<le> t \<and> t \<le> rnow (w_redis w') \<and>
         SignedString (je_api E) (je_secret E) (issue E TokenTypeAccess (access_ttl E attl) a u ?s rs t) = Inr at \<and>
         rdata (w_redis w') (BlacklistUserKey a u) = None \<and>
         ((\<forall>y. expiry_of (rdata ?r (UserSessionsKey a u)) = Some y \<longrightarrow> rnow (w_redis w') < y) \<longrightarrow>
           (\<exists>x\<ge>rnow ?r + refresh_ttl E rttl. session_stored (w_redis w') a u ?s rt x)))
       (w\<lparr>w_rand := Suc (w_rand w), w_redis := r1\<rparr>)"
    if "writes (session_keys a u ?s) ?r r1" and stored: "(\<forall>y. expiry_of (rdata ?r (UserSessionsKey a u)) = Some y \<longrightarrow> rnow r1 < y) \<longrightarrow>
        (\<exists>x\<ge>rnow ?r + refresh_ttl E rttl. x \<le> rnow r1 + refresh_ttl E rttl \<and> session_stored r1 a u ?s rt x)" for r1
  proof (rule wp_bind, rule wp_rds, rule wp_ignore, rule wp_u_del, rule wp_return)
      have now: "rnow ?r \<le> rnow r1" using that(1) by (rule writes_now)
      fix r2 assume "del_post [BlacklistUserKey a u] (w_redis (w\<lparr>w_rand := Suc (w_rand w), w_redis := r1\<rparr>)) None r2"
      then have w: "writes {BlacklistUserKey a u} r1 r2" and gone: "rdata r2 (BlacklistUserKey a u) = None"
        by (simp_all add: del_post_def)
      have "\<exists>x\<ge>rnow ?r + refresh_ttl E rttl. session_stored r2 a u ?s rt x"
        if "\<forall>y. expiry_of (rdata ?r (UserSessionsKey a u)) = Some y \<longrightarrow> rnow r2 < y"
      proof -
        have "rnow r1 \<le> rnow r2" using w by (rule writes_now)
        with that have "\<forall>y. expiry_of (rdata ?r (UserSessionsKey a u)) = Some y \<longrightarrow> rnow r1 < y" by fastforce
        with stored obtain x where "rnow ?r + refresh_ttl E rttl \<le> x" "session_stored r1 a u ?s rt x" by blast
        then show ?thesis using session_stored_writes[OF _ w] by (auto simp: key_simps)
      qed
      with at gone now writes_now[OF w]
      show "\<exists>at' rt' t. Inr (at, rt, ?s) = Inr (at', rt', ?s) \<and> rnow ?r \<le> t \<and>
         t \<le> rnow (w_redis (w\<lparr>w_rand := Suc (w_rand w), w_redis := r1\<rparr>\<lparr>w_redis := r2\<rparr>)) \<and>
         SignedString (je_api E) (je_secret E) (issue E TokenTypeAccess (access_ttl E attl) a u ?s rs t) = Inr at' \<and>
         rdata (w_redis (w\<lparr>w_rand := Suc (w_rand w), w_redis := r1\<rparr>\<lparr>w_redis := r2\<rparr>)) (BlacklistUserKey a u) = None \<and>
         ((\<forall>y. expiry_of (rdata ?r (UserSessionsKey a u)) = Some y \<longrightarrow>
             rnow (w_redis (w\<lparr>w_rand := Suc (w_rand w), w_redis := r1\<rparr>\<lparr>w_redis := r2\<rparr>)) < y) \<longrightarrow>
           (\<exists>x\<ge>rnow ?r + refresh_ttl E rttl.
             session_stored (w_redis (w\<lparr>w_rand := Suc (w_rand w), w_redis := r1\<rparr>\<lparr>w_redis := r2\<rparr>)) a u ?s rt' x))"
        by (intro exI[of _ at] exI[of _ rt] exI[of _ "rnow ?r"]) auto
  qed
  show ?thesis
    unfolding svc_CreateSession_def ClearUserTokenBlacklist_def Let_def refresh_ttl_def[symmetric]
    by (rule wp_bind, rule wp_draw, rule wp_bind, rule wp_rds, rule wp_GenerateAccessToken,
         simp add: at, rule wp_bind, rule wp_rds, rule wp_GenerateRefreshToken, simp add: rt,
         rule wp_bind, rule wp_rds, simp, rule wp_mono[OF wp_conj[OF wp_CreateSession[OF fresh idx] created]])
       (simp, elim conjE, rule fin[simplified], simp_all)
qed

text \<open>The middleware lets a good token pass.\<close>

lemma wp_absent:
  "rdata r k = None \<Longrightarrow> wp (present R k) (\<lambda>x r'. x = Inr False \<and> reads r r') r"
  unfolding present_def
  by (rule wp_bind, rule wp_u_get, rule wp_return)
     (auto simp: get_post_def reads_def live_None split: sum.splits rerr.splits)

lemma wp_SessionExists_live:
  assumes "rdata r (SessionKey a s) = Some (v, Some x)"
  shows "wp (SessionExists R a s) (\<lambda>y r'. reads r r' \<and> (rnow r' < x \<longrightarrow> y = Inr True)) r"
  unfolding SessionExists_def
  by (rule wp_bind, rule wp_u_exists, rule wp_return)
     (use assms in \<open>auto simp: exists_post_def reads_def live_def entry_at_fresh split: if_splits\<close>)

lemma wp_auth_checks_pass:
  assumes "rdata r (BlacklistTokenKey (AppID cl) tok) = None"
    and "rdata r (BlacklistUserKey (AppID cl) (UserID cl)) = None"
    and sess: "rdata r (SessionKey (AppID cl) (SessionID cl)) = Some (v, Some x)"
  shows "wp (auth_checks R tok cl) (\<lambda>y r'. rnow r' < x \<longrightarrow> y = None) r"
  unfolding auth_checks_def IsAccessTokenBlacklisted_def IsUserTokensBlacklisted_def
proof (rule wp_bind, rule wp_mono[OF wp_absent[OF assms(1)]], elim conjE, simp only: sum.case if_False, rule wp_bind)
  fix r1 assume rd: "reads r r1"
  then have u: "rdata r1 (BlacklistUserKey (AppID cl) (UserID cl)) = None"
    and s: "rdata r1 (SessionKey (AppID cl) (SessionID cl)) = Some (v, Some x)"
    using assms by (simp_all add: reads_def)
  show "wp (present R (BlacklistUserKey (AppID cl) (UserID cl)))
     (\<lambda>res. wp (case res of Inl e \<Rightarrow> ret (Some (500, ''Token validation error'')) | Inr userBlacklisted \<Rightarrow>
        if userBlacklisted then ret (Some (401, ''All user tokens have been revoked'')) else
        if SessionID cl = [] then ret None else do {
        res \<leftarrow> SessionExists R (AppID cl) (SessionID cl);
        case res of Inl e \<Rightarrow> ret (Some (500, ''Session validation error'')) | Inr sessionExists \<Rightarrow>
        ret (if sessionExists then None else Some (401, ''Session has been revoked'')) })
      (\<lambda>y r'. rnow r' < x \<longrightarrow> y = None)) r1"
  proof (rule wp_mono[OF wp_absent[OF u]], elim conjE, simp only: sum.case if_False, intro wp_if wp_return, simp)
    fix r2 assume "reads r1 r2"
    then have s2: "rdata r2 (SessionKey (AppID cl) (SessionID cl)) = Some (v, Some x)"
      using s by (simp add: reads_def)
    show "wp (SessionExists R (AppID cl) (SessionID cl) \<bind>
        case_sum (\<lambda>e. ret (Some (500, ''Session validation error'')))
          (\<lambda>sessionExists. ret (if sessionExists then None else Some (401, ''Session has been revoked''))))
      (\<lambda>y r'. rnow r' < x \<longrightarrow> y = None) r2"
      by (rule wp_bind, rule wp_mono[OF wp_SessionExists_live[OF s2]]) (auto intro!: wp_case_sum wp_return)
  qed
qed

lemma wp_AuthMiddleware_pass:
  assumes hd: "GetHeader c ''Authorization'' = ''Bearer '' @ tok" and "tok \<noteq> []"
    and parse: "ParseWithClaims (je_api E) (token_key E) (rnow r) tok = Inr (cl, True)"
    and ty: "TokenType cl = TokenTypeAccess"
    and ok: "rdata r (BlacklistTokenKey (AppID cl) tok) = None"
      "rdata r (BlacklistUserKey (AppID cl) (UserID cl)) = None"
      "rdata r (SessionKey (AppID cl) (SessionID cl)) = Some (v, Some x)"
  shows "wp (AuthMiddleware (Some R) E c) (\<lambda>y r'. rnow r' < x \<longrightarrow> y = Next (set_identity cl c)) r"
proof -
  have b: "bearer_token (''Bearer '' @ tok) = tok" using assms(2) by (simp add: bearer_token_def)
  have p: "run_state (ParseToken E tok) r = (Inr cl, r)" using parse by (simp add: ParseToken_def)
  have "wp (auth_checks R tok cl \<bind> (\<lambda>bad. ret (case bad of Some (code, msg) \<Rightarrow> Abort code msg
        | None \<Rightarrow> Next (set_identity cl c)))) (\<lambda>y r'. rnow r' < x \<longrightarrow> y = Next (set_identity cl c)) r"
    by (rule wp_bind, rule wp_mono[OF wp_auth_checks_pass[OF ok]]) (auto intro!: wp_return)
  then show ?thesis
    unfolding AuthMiddleware_def using ty
    by (simp add: hd b[simplified] Let_def wp_def p)
qed

end

context live_stack
begin

lemma login_admits:
  assumes fresh: "rdata (w_redis w) (SessionKey a (uuid (w_rand w))) = None"
    and typed: "set_of (rdata (w_redis w) (UserSessionsKey a u)) \<noteq> None"
    and sid: "uuid (w_rand w) \<noteq> []"
    and wire: "ascii a" "ascii u" "ascii (uuid (w_rand w))" "\<forall>x\<in>set rs. ascii x"
    and run: "run_state (svc_CreateSession R E uuid a u ip ua rs attl rttl) w = (x, w1)"
    and idx: "\<forall>y. expiry_of (rdata (w_redis w) (UserSessionsKey a u)) = Some y \<longrightarrow> rnow (w_redis w1) < y"
  shows "\<exists>at rt. x = Inr (at, rt, uuid (w_rand w)) \<and>
    (\<forall>K r2 c y r3. writes K (w_redis w1) r2 \<and> SessionKey a (uuid (w_rand w)) \<notin> K \<and> BlacklistUserKey a u \<notin> K \<and>
       rdata r2 (BlacklistTokenKey a at) = None \<and> GetHeader c ''Authorization'' = ''Bearer '' @ at \<and>
       run_state (AuthMiddleware (Some R) E c) r2 = (y, r3) \<and>
       rnow r2 < rnow (w_redis w) + access_ttl E attl - second \<and> rnow r3 < rnow (w_redis w) + refresh_ttl E rttl \<longrightarrow>
       authenticated_as y a u \<and> in_session y a (uuid (w_rand w)))"
proof -
  let ?s = "uuid (w_rand w)"
  from wpD[OF wp_login[where uuid = uuid and w = w, OF fresh typed] run] idx obtain at rt t x'
    where x: "x = Inr (at, rt, ?s)" and t: "rnow (w_redis w) \<le> t"
      and at: "SignedString (je_api E) (je_secret E) (issue E TokenTypeAccess (access_ttl E attl) a u ?s rs t) = Inr at"
      and clear: "rdata (w_redis w1) (BlacklistUserKey a u) = None"
      and x': "rnow (w_redis w) + refresh_ttl E rttl \<le> x'" and st: "session_stored (w_redis w1) a u ?s rt x'"
    by blast
  let ?cl = "issue E TokenTypeAccess (access_ttl E attl) a u ?s rs t"
  have "authenticated_as y a u \<and> in_session y a ?s"
    if w: "writes K (w_redis w1) r2" "SessionKey a ?s \<notin> K" "BlacklistUserKey a u \<notin> K"
      and bl: "rdata r2 (BlacklistTokenKey a at) = None" and hd: "GetHeader c ''Authorization'' = ''Bearer '' @ at"
      and y: "run_state (AuthMiddleware (Some R) E c) r2 = (y, r3)"
      and t2: "rnow r2 < rnow (w_redis w) + access_ttl E attl - second"
      and t3: "rnow r3 < rnow (w_redis w) + refresh_ttl E rttl" for K r2 c y r3
  proof -
    from st obtain h where "rdata (w_redis w1) (SessionKey a ?s) = Some (RHash h, Some x')"
      by (auto simp: session_stored_def)
    with w have s2: "rdata r2 (SessionKey a ?s) = Some (RHash h, Some x')" by (simp add: writes_keep)
    have u2: "rdata r2 (BlacklistUserKey a u) = None" using w clear by (simp add: writes_keep)
    have "(t + access_ttl E attl) mod second < second" by simp
    with t t2 have "rnow r2 < (t + access_ttl E attl) - (t + access_ttl E attl) mod second" by linarith
    then have p: "ParseWithClaims (je_api E) (token_key E) (rnow r2) at = Inr (?cl, True)"
      by (intro parse_issued[OF at] wire ascii_types)
    have "y = Next (set_identity ?cl c)"
      using wpD[OF wp_AuthMiddleware_pass[OF hd jwt.signed_nonempty[OF at] p] y, of "RHash h" x'] bl u2 s2 t3 x'
      by simp
    then show ?thesis
      using sid by (simp add: authenticated_as_def in_session_def set_identity_keys)
  qed
  with x show ?thesis by blast
qed

end

interpretation ref_live: live_stack "ref_redis ks" "\<lparr>je_api = ref_jwt, je_secret = k, je_access_minutes = m, je_refresh_hours = h\<rparr>"
  for ks k m h
  by (intro live_stack.intro) (simp_all add: ref.reliable_redis_axioms ref_jwt.jwt_lib_axioms)

abbreviation ref_env :: jwt_env where
  "ref_env \<equiv> \<lparr>je_api = ref_jwt, je_secret = ''k'', je_access_minutes = 15, je_refresh_hours = 720\<rparr>"

end
