(* ===== verification/Demo.thy ===== *)
theory Demo
  imports AuthProofs
begin

text \<open>
  Closed runs of the model on the reference server and the reference token library, evaluated
  by the kernel; the witnesses of the properties rest on them.
\<close>

abbreviation demo_redis :: redis_api where
  "demo_redis \<equiv> ref_redis []"

definition demo_uuid :: "nat \<Rightarrow> string" where
  "demo_uuid n = ''s'' @ show_nat n"

definition demo_world :: world where
  "demo_world = \<lparr>w_redis = empty_redis, w_rand = 0\<rparr>"

definition demo_ctx :: "string \<Rightarrow> http_ctx" where
  "demo_ctx auth = \<lparr>GetHeader = (\<lambda>_. auth), Param = (\<lambda>_. []), Query = (\<lambda>_. []), Cookie = (\<lambda>_. None),
     ClientIP = ''10.0.0.1'', RemoteAddr = ''10.0.0.1:4711'', Method = ''GET'', Path = ''/profile'',
     PostForm = (\<lambda>_. []), ctx_keys = (\<lambda>_. None)\<rparr>"

section \<open>A login\<close>

definition demo_login :: "(app_error + (string \<times> string \<times> string)) \<times> world" where
  "demo_login = run_state (svc_CreateSession demo_redis ref_env demo_uuid ''a'' ''u'' ''10.0.0.1'' ''curl''
     [''user''] 0 0) demo_world"

lemma demo_login_ok: "case fst demo_login of Inr (_, _, s) \<Rightarrow> s = ''s0'' | Inl _ \<Rightarrow> False"
  by code_simp

section \<open>A server with one session\<close>

definition demo_token :: "string \<Rightarrow> string" where
  "demo_token typ = (case SignedString ref_jwt ''k'' (issue ref_env typ (720 * hour) ''a'' ''u'' ''s0'' [''user''] 0) of
     Inr t \<Rightarrow> t | Inl _ \<Rightarrow> [])"

definition demo_access :: string where "demo_access = demo_token TokenTypeAccess"
definition demo_refresh :: string where "demo_refresh = demo_token TokenTypeRefresh"

text \<open>It is an hour after the login, so that a new token differs from the old one.\<close>

definition demo_state :: redis where
  "demo_state = \<lparr>rdata = map_of
     [(SessionKey ''a'' ''s0'', (RHash [(''user_id'', ''u''), (''refresh_token'', demo_refresh)], Some (720 * hour))),
      (UserSessionsKey ''a'' ''u'', (RSet [''s0''], Some (744 * hour)))], rnow = hour\<rparr>"

definition demo_logout :: "app_error option outcome \<times> redis" where
  "demo_logout = run_state (svc_LogoutSession demo_redis ref_env ''a'' ''u'' ''s0'' demo_access) demo_state"

lemma demo_logout_ok: "fst demo_logout = Returned None"
  by code_simp

definition demo_revoke :: "app_error option \<times> redis" where
  "demo_revoke = run_state (svc_RevokeAllUserSessions demo_redis ''a'' ''u'') demo_state"

lemma demo_revoke_ok: "fst demo_revoke = None"
  by code_simp

definition demo_refreshed :: "(app_error + (string \<times> string \<times> string)) \<times> redis" where
  "demo_refreshed = run_state (svc_RefreshSession demo_redis ref_env demo_refresh 0 0) demo_state"

lemma demo_refreshed_ok: "case fst demo_refreshed of Inr (_, rt, u) \<Rightarrow> u = ''u'' \<and> rt \<noteq> demo_refresh | Inl _ \<Rightarrow> False"
  by code_simp

definition demo_auth :: "mw_result \<times> redis" where
  "demo_auth = run_state (AuthMiddleware (Some demo_redis) ref_env (demo_ctx (''Bearer '' @ demo_access))) demo_state"

lemma demo_auth_ok: "\<exists>c. fst demo_auth = Next c"
proof -
  have "case fst demo_auth of Next _ \<Rightarrow> True | _ \<Rightarrow> False" by code_simp
  then show ?thesis by (auto split: mw_result.splits)
qed

end
