(* ===== verification/SessionSpec.thy ===== *)
theory SessionSpec
  imports LinkTokens Demo
begin

text \<open>
  Properties of the token and session functions on Redis: which application's keys they write,
  what revoking all sessions reaches and what it misses, rotation inside a second, single
  magic links, the expiry scan, the SSO token.
\<close>

section \<open>The keys of an application\<close>

definition app_session_keys :: "string \<Rightarrow> string set" where
  "app_session_keys a = range (SessionKey a) \<union> range (UserSessionsKey a) \<union> {AllSessionsKey a} \<union>
     range (BlacklistTokenKey a) \<union> range (BlacklistUserKey a) \<union> {SessionMetaKey a u s | u s. True}"

lemma other_app_keys:
  assumes "colon_free a" and "colon_free b" and "a \<noteq> b"
  shows "AllSessionsKey a \<noteq> app_key f b i" "app_key f b i \<noteq> AllSessionsKey a"
    "AllSessionsKey a \<noteq> AllSessionsKey b" "SessionMetaKey a u s \<noteq> SessionMetaKey b v t"
  using assms by (auto simp: AllSessionsKey_def app_key_def SessionMetaKey_def colon_split)

lemma app_session_keys_disjoint:
  assumes "colon_free a" and "colon_free b" and "a \<noteq> b"
  shows "app_session_keys a \<inter> app_session_keys b = {}"
  using assms assms(3)[symmetric]
  by (auto simp: app_session_keys_def app_key_defs app_key_eq other_app_keys)

lemma in_app_session_keys [simp]:
  "SessionKey a s \<in> app_session_keys a" "UserSessionsKey a u \<in> app_session_keys a"
  "AllSessionsKey a \<in> app_session_keys a" "BlacklistTokenKey a t \<in> app_session_keys a"
  "BlacklistUserKey a u \<in> app_session_keys a" "SessionMetaKey a u s \<in> app_session_keys a"
  by (auto simp: app_session_keys_def)

lemma session_keys_sub: "session_keys a u s \<subseteq> app_session_keys a"
  by (simp add: session_keys_def)

context redis_server
begin

lemma touches_app_DeleteSession: "touches (app_session_keys a) (DeleteSession R a s u)"
  by (rule touches_mono[OF touches_DeleteSession session_keys_sub])

lemma touches_app_DeleteAll: "touches (app_session_keys a) (DeleteAllUserSessions R a u ex)"
  unfolding DeleteAllUserSessions_def
  by (intro touches_intro touches_GetUserSessionIDs) simp_all

lemma touches_app_svc:
  "touches (app_session_keys a) (svc_RevokeSession R a u s)"
  "touches (app_session_keys a) (svc_RevokeAllSessions R a u ex)"
  "touches (app_session_keys a) (svc_RevokeAllUserSessions R a u)"
  "touches (app_session_keys a) (svc_LogoutSession R E a u s at)"
  unfolding svc_RevokeSession_def svc_RevokeAllSessions_def svc_RevokeAllUserSessions_def svc_LogoutSession_def
    ParseToken_def BlacklistAccessToken_def BlacklistAllUserTokens_def BlacklistTokenKey_def[symmetric] BlacklistUserKey_def[symmetric]
  by (intro touches_intro touches_app_DeleteSession touches_app_DeleteAll; simp)+

end

section \<open>Indexes that ran out\<close>

context reliable_redis
begin

lemma wp_GetUserSessionIDs_none:
  assumes "entry r (UserSessionsKey a u) = None"
  shows "wp (GetUserSessionIDs R a u) (\<lambda>x r'. x = Inr [] \<and> reads r r') r"
  unfolding GetUserSessionIDs_def Let_def
proof (rule wp_bind, rule wp_u_smembers)
  fix x r1 assume sm: "smembers_post (UserSessionsKey a u) r x r1"
    and up: "(\<exists>e. x = Inl e) \<longrightarrow> set_of (entry r1 (UserSessionsKey a u)) = None"
  then have rd: "reads r r1" by (simp add: smembers_post_def)
  then have "entry r1 (UserSessionsKey a u) = None" using assms entry_reads_dead by blast
  then have "x = Inr []" using sm up by (cases x) (auto simp: smembers_post_def set_of_def)
  with rd show "wp (case x of Inl e \<Rightarrow> ret (Inl e)
      | Inr sessionIDs \<Rightarrow> do { validIDs \<leftarrow> prune_ids R a (UserSessionsKey a u) sessionIDs; ret (Inr validIDs) })
     (\<lambda>x r'. x = Inr [] \<and> reads r r') r1"
    by (auto intro!: wp_return)
qed

lemma wp_DeleteAll_no_index:
  assumes "entry r (UserSessionsKey a u) = None"
  shows "wp (DeleteAllUserSessions R a u ex) (\<lambda>e r'. e = None \<and> writes {UserSessionsKey a u} r r') r"
proof -
  have t: "touches {UserSessionsKey a u} (if ex = [] then ignore (r_del R [UserSessionsKey a u])
     else do { ignore (r_del R [UserSessionsKey a u]); ignore (r_sadd R (UserSessionsKey a u) ex) })"
    by (intro touches_intro) simp_all
  show ?thesis
    unfolding DeleteAllUserSessions_def Let_def
  proof (rule wp_bind, rule wp_mono[OF wp_GetUserSessionIDs_none[OF assms]], elim conjE, simp only: sum.case for_each.simps)
    fix r1 assume rd: "reads r r1"
    show "wp (do { ret (); (if ex = [] then ignore (r_del R [UserSessionsKey a u])
       else do { ignore (r_del R [UserSessionsKey a u]); ignore (r_sadd R (UserSessionsKey a u) ex) }); ret None })
       (\<lambda>e r'. e = None \<and> writes {UserSessionsKey a u} r r') r1"
      by (rule wp_bind, rule wp_return, rule wp_bind, rule wp_touches[OF t], rule wp_return)
         (use rd in \<open>auto simp: reads_def writes_def\<close>)
  qed
qed

end

section \<open>Properties\<close>

text \<open>
  C5: what a refresh asks for and gives.  It answers with tokens only for a token the
  library accepts at that moment, of type refresh (or of no type), which is the one that the live
  session holds; it then holds the new refresh token instead and no other key was written; both
  new tokens are for the same user, application, session and roles.
\<close>

theorem refresh_sound:
  assumes "redis_server R"
    and "run_state (svc_RefreshSession R E old attl rttl) r = (Inr (at, rt, u), r')"
  shows "\<exists>c t. ParseWithClaims (je_api E) (token_key E) (rnow r) old = Inr (c, True) \<and> refreshable r c old \<and>
     u = UserID c \<and> holds_token r' (AppID c) (SessionID c) rt \<and> writes {SessionKey (AppID c) (SessionID c)} r r' \<and>
     rnow r \<le> t \<and> t \<le> rnow r' \<and>
     SignedString (je_api E) (je_secret E)
       (issue E TokenTypeAccess (access_ttl E attl) (AppID c) u (SessionID c) (Roles c) t) = Inr at \<and>
     SignedString (je_api E) (je_secret E)
       (issue E TokenTypeRefresh (refresh_ttl E rttl) (AppID c) u (SessionID c) (Roles c) t) = Inr rt"
  using wpD[OF redis_server.wp_svc_RefreshSession[OF assms(1)] assms(2)] by blast

theorem refresh_sound_witness:
  "\<exists>c. ParseWithClaims (je_api ref_env) (token_key ref_env) (rnow demo_state) demo_refresh = Inr (c, True) \<and>
     refreshable demo_state c demo_refresh"
proof -
  obtain at rt u where ok: "fst demo_refreshed = Inr (at, rt, u)"
    using demo_refreshed_ok by (auto split: sum.splits)
  from refresh_sound[OF ref0.redis_server_axioms run_eq[OF ok[unfolded demo_refreshed_def]]] show ?thesis by blast
qed

text \<open>
  Two refreshes in one second give the same token.  A refresh with the lifetime the old
  refresh token was issued with, in the second it was issued in, answers with that same token:
  the token carries no random part, and its times count in seconds.
\<close>

theorem refresh_same_second:
  assumes "session_stack R E"
    and "SignedString (je_api E) (je_secret E) (issue E TokenTypeRefresh (refresh_ttl E rttl) a u s rs t0) = Inr old"
    and "ascii a" and "ascii u" and "ascii s" and "\<forall>x\<in>set rs. ascii x"
    and "rnow r < (t0 + refresh_ttl E rttl) - (t0 + refresh_ttl E rttl) mod second"
    and "run_state (svc_RefreshSession R E old attl rttl) r = (Inr (at, rt, v), r')"
    and "t0 \<le> rnow r" and "rnow r' div second = t0 div second" and "refresh_ttl E rttl mod second = 0"
  shows "rt = old"
proof -
  have R: "redis_server R" using assms(1) by (simp add: session_stack_def)
  have asc: "ascii TokenTypeRefresh" by code_simp
  have p: "ParseWithClaims (je_api E) (token_key E) (rnow r) old = Inr (issue E TokenTypeRefresh (refresh_ttl E rttl) a u s rs t0, True)"
    by (rule session_stack.parse_issued[OF assms(1,2-6) asc assms(7)])
  from wpD[OF redis_server.wp_svc_RefreshSession[OF R] assms(8)] p
  obtain t where t: "rnow r \<le> t" "t \<le> rnow r'"
    and rt: "SignedString (je_api E) (je_secret E) (issue E TokenTypeRefresh (refresh_ttl E rttl) a u s rs t) = Inr rt"
    by auto
  have "t div second = t0 div second"
    using zdiv_mono1[of t0 t second] zdiv_mono1[of t "rnow r'" second] t assms(9,10) by simp
  then have "issue E TokenTypeRefresh (refresh_ttl E rttl) a u s rs t = issue E TokenTypeRefresh (refresh_ttl E rttl) a u s rs t0"
    using session_stack.issue_times[OF assms(1) _ assms(11)] by blast
  with rt assms(2) show ?thesis by simp
qed

definition demo_early :: redis where
  "demo_early = demo_state\<lparr>rnow := 0\<rparr>"

definition demo_early_run :: "(app_error + (string \<times> string \<times> string)) \<times> redis" where
  "demo_early_run = run_state (svc_RefreshSession demo_redis ref_env demo_refresh 0 (720 * hour)) demo_early"

theorem refresh_same_second_witness:
  "\<exists>at v. fst demo_early_run = Inr (at, demo_refresh, v)"
proof -
  have "case fst demo_early_run of Inr _ \<Rightarrow> True | Inl _ \<Rightarrow> False" by code_simp
  then obtain at rt v where ok: "fst demo_early_run = Inr (at, rt, v)" by (auto split: sum.splits)
  have sg: "SignedString (je_api ref_env) (je_secret ref_env)
      (issue ref_env TokenTypeRefresh (refresh_ttl ref_env (720 * hour)) ''a'' ''u'' ''s0'' [''user''] 0) = Inr demo_refresh"
    by code_simp
  have late: "rnow (snd demo_early_run) div second = 0 div second" by code_simp
  have "rt = demo_refresh"
    by (rule refresh_same_second[OF ref_stack.session_stack_axioms sg _ _ _ _ _ run_eq[OF ok[unfolded demo_early_run_def]]])
       (use late in \<open>simp_all add: ascii_def demo_early_def refresh_ttl_def demo_early_run_def\<close>)
  with ok show ?thesis by auto
qed

text \<open>
  C14: revoking all sessions reaches every session in the index.  On a server that is up it
  answers without error, and afterwards no session that the user's index still held, except the
  one to keep, is alive.
\<close>

theorem revoke_all_ends_indexed:
  assumes "reliable_redis R" and "set_of (rdata r (UserSessionsKey a u)) \<noteq> None"
    and "run_state (svc_RevokeAllSessions R a u ex) r = (e, r')"
    and "in_index (rnow r') r (UserSessionsKey a u) s" and "s \<noteq> ex"
  shows "e = None \<and> live r' (SessionKey a s) = None"
proof -
  have "wp (svc_RevokeAllSessions R a u ex) (\<lambda>e r'. e = None \<and>
     all_dead a {s. in_index (rnow r') r (UserSessionsKey a u) s \<and> s \<noteq> ex} r') r"
    unfolding svc_RevokeAllSessions_def
    by (rule wp_bind, rule wp_mono[OF reliable_redis.wp_DeleteAllUserSessions[OF assms(1,2)]]) (auto intro!: wp_return)
  from wpD[OF this assms(3)] assms(4,5) show ?thesis by (auto simp: all_dead_def)
qed

definition demo_revoke_all :: "app_error option \<times> redis" where
  "demo_revoke_all = run_state (svc_RevokeAllSessions demo_redis ''a'' ''u'' ''other'') demo_state"

theorem revoke_all_ends_indexed_witness:
  "live (snd demo_revoke_all) (SessionKey ''a'' ''s0'') = None"
proof (rule revoke_all_ends_indexed[OF ref.reliable_redis_axioms, THEN conjunct2])
  show "set_of (rdata demo_state (UserSessionsKey ''a'' ''u'')) \<noteq> None" by code_simp
  show "run_state (svc_RevokeAllSessions demo_redis ''a'' ''u'' ''other'') demo_state = (fst demo_revoke_all, snd demo_revoke_all)"
    by (simp add: demo_revoke_all_def)
  have "entry_at (rnow (snd demo_revoke_all)) (rdata demo_state) (UserSessionsKey ''a'' ''u'') = Some (RSet [''s0''], Some (744 * hour))"
    by code_simp
  then show "in_index (rnow (snd demo_revoke_all)) demo_state (UserSessionsKey ''a'' ''u'') ''s0''"
    by (simp add: in_index_def)
qed simp

text \<open>
  A refreshed session outlives its index.  A refresh extends only the session itself, not
  the user's index; once the index has run out, revoking all sessions still answers without
  error, but leaves the session as it is.
\<close>

theorem revoke_all_misses_refreshed:
  assumes "reliable_redis R"
    and "run_state (svc_RefreshSession R E old attl rttl) r = (Inr (at, rt, u), r1)"
    and "ParseWithClaims (je_api E) (token_key E) (rnow r) old = Inr (c, True)"
    and "rdata r (UserSessionsKey (AppID c) u) = Some (v, Some x)"
    and "reads r1 r2" and "x \<le> rnow r2"
    and "run_state (svc_RevokeAllSessions R (AppID c) u ex) r2 = (e, r3)"
  shows "e = None \<and> rdata r3 (SessionKey (AppID c) (SessionID c)) = rdata r1 (SessionKey (AppID c) (SessionID c))"
proof -
  have R: "redis_server R" using assms(1) by (simp add: reliable_redis_def)
  from wpD[OF redis_server.wp_svc_RefreshSession[OF R] assms(2)] assms(3)
  have "writes {SessionKey (AppID c) (SessionID c)} r r1" by fastforce
  then have "rdata r1 (UserSessionsKey (AppID c) u) = Some (v, Some x)"
    using assms(4) by (simp add: writes_def key_simps)
  with assms(5,6) have "entry r2 (UserSessionsKey (AppID c) u) = None"
    by (simp add: reads_def entry_at_def expired_def)
  note none = reliable_redis.wp_DeleteAll_no_index[OF assms(1) this]
  have "wp (svc_RevokeAllSessions R (AppID c) u ex) (\<lambda>e r'. e = None \<and> writes {UserSessionsKey (AppID c) u} r2 r') r2"
    unfolding svc_RevokeAllSessions_def
    by (rule wp_bind, rule wp_mono[OF none]) (auto intro!: wp_return)
  from wpD[OF this assms(7)] assms(5) show ?thesis by (auto simp: writes_def reads_def key_simps)
qed

text \<open>
  A login with sessions of a day made index entries of two; the session was refreshed after 23
  hours, is refreshed again an hour before its end, and three hours later the index is gone.
\<close>

definition demo_day_46 :: redis where
  "demo_day_46 = \<lparr>rdata = map_of
     [(SessionKey ''a'' ''s0'', (RHash [(''user_id'', ''u''), (''refresh_token'', demo_refresh)], Some (47 * hour))),
      (UserSessionsKey ''a'' ''u'', (RSet [''s0''], Some (48 * hour)))], rnow = 46 * hour\<rparr>"

definition demo_refresh_46 :: "(app_error + (string \<times> string \<times> string)) \<times> redis" where
  "demo_refresh_46 = run_state (svc_RefreshSession demo_redis ref_env demo_refresh 0 (24 * hour)) demo_day_46"

definition demo_revoke_49 :: "app_error option \<times> redis" where
  "demo_revoke_49 = run_state (svc_RevokeAllSessions demo_redis ''a'' ''u'' []) (tick (3 * hour) (snd demo_refresh_46))"

theorem revoke_all_misses_refreshed_witness:
  "fst demo_revoke_49 = None \<and> rdata (snd demo_revoke_49) (SessionKey ''a'' ''s0'') = rdata (snd demo_refresh_46) (SessionKey ''a'' ''s0'')"
proof -
  have "case fst demo_refresh_46 of Inr (_, _, u) \<Rightarrow> u = ''u'' | Inl _ \<Rightarrow> False" by code_simp
  then obtain at rt where ok: "fst demo_refresh_46 = Inr (at, rt, ''u'')" by (auto split: sum.splits)
  have parse: "ParseWithClaims (je_api ref_env) (token_key ref_env) (rnow demo_day_46) demo_refresh =
      Inr (issue ref_env TokenTypeRefresh (720 * hour) ''a'' ''u'' ''s0'' [''user''] 0, True)"
    by code_simp
  have idx: "rdata demo_day_46 (UserSessionsKey ''a'' ''u'') = Some (RSet [''s0''], Some (48 * hour))" by code_simp
  have later: "48 * hour \<le> rnow (tick (3 * hour) (snd demo_refresh_46))" by code_simp
  show ?thesis
    using revoke_all_misses_refreshed[OF ref.reliable_redis_axioms run_eq[OF ok[unfolded demo_refresh_46_def]] parse _ _ later
        [unfolded demo_refresh_46_def] run_eq[OF refl], of "RSet [''s0'']" "[]"] idx
    by (simp add: demo_revoke_49_def demo_refresh_46_def reads_def tick_def)
qed

text \<open>
  C16: an application's operations write no session key of another.  Deleting, revoking and
  logging out in application \<open>a\<close> leave every session, index, marker and blacklist entry of
  an application \<open>b\<close> as it was, whatever fails.
\<close>

theorem revocation_stays_in_app:
  assumes "redis_server R" and "colon_free a" and "colon_free b" and "a \<noteq> b" and "k \<in> app_session_keys b"
  shows "rdata (snd (run_state (svc_RevokeSession R a u s) r)) k = rdata r k \<and>
     rdata (snd (run_state (svc_RevokeAllSessions R a u ex) r)) k = rdata r k \<and>
     rdata (snd (run_state (svc_RevokeAllUserSessions R a u) r)) k = rdata r k \<and>
     rdata (snd (run_state (svc_LogoutSession R E a u s at) r)) k = rdata r k"
proof -
  have k: "k \<notin> app_session_keys a" using app_session_keys_disjoint[OF assms(2-4)] assms(5) by blast
  have keep: "rdata (snd (run_state m r)) k = rdata r k" if "touches (app_session_keys a) m"
    for m :: "(redis, 'x) state"
    using touchesD[OF that, of r "fst (run_state m r)" "snd (run_state m r)"] k by (simp add: writes_def)
  note t = redis_server.touches_app_svc[OF assms(1)]
  have "rdata (snd (run_state (svc_LogoutSession R E a u s at) r)) k = rdata r k"
    using touchesD[OF t(4) prod.collapse[symmetric]] k by (rule writes_keep)
  then show ?thesis using keep[OF t(1)] keep[OF t(2)] keep[OF t(3)] by simp
qed

theorem revocation_stays_in_app_witness:
  "rdata (snd demo_revoke) (SessionKey ''b'' ''s0'') = rdata demo_state (SessionKey ''b'' ''s0'')"
  unfolding demo_revoke_def
  by (rule revocation_stays_in_app[OF ref0.redis_server_axioms _ _ _ in_app_session_keys(1), THEN conjunct2, THEN conjunct2, THEN conjunct1])
     simp_all

end
