(* ===== verification/TokenSpec.thy ===== *)
theory TokenSpec
  imports LinkTokens Demo
begin

text \<open>
  Properties of the one-time tokens on Redis: magic links, the SSO token, the expiry scan.
\<close>

lemma sso_value_parse:
  "CHR ''|'' \<notin> set g \<Longrightarrow> CHR ''|'' \<notin> set a \<Longrightarrow> parse_sso_value (sso_value g a u) = Inr (g, a, u)"
  by (simp add: parse_sso_value_def sso_value_def numeral_3_eq_3 before_append after_append)

context redis_server
begin

lemma wp_GetMagicLinkToken:
  "wp (GetMagicLinkToken R a t) (\<lambda>x r'. reads r r' \<and> (\<forall>u. x = Inr u \<longrightarrow> live r' (magic_tk a t) = Some (RStr u))) r"
  unfolding GetMagicLinkToken_def
  by (rule wp_r_get) (auto simp: get_post_def)

lemma wp_SetSSOToken:
  "wp (SetSSOToken R t g a u) (\<lambda>e r'. e = None \<longrightarrow>
     rdata r' (''sso:token:'' @ t) = Some (RStr (sso_value g a u), Some (rnow r' + ssoTokenTTL))) r"
  unfolding SetSSOToken_def
  by (rule wp_r_set) (auto simp: set_post_def expiry_after_def ssoTokenTTL_def)

lemma wp_GetSSOToken:
  "wp (GetSSOToken R t) (\<lambda>x r'. reads r r' \<and> (case live r' (''sso:token:'' @ t) of
       Some (RStr v) \<Rightarrow> x = parse_sso_value v \<or> (\<exists>e. x = Inl (RFail e))
     | None \<Rightarrow> x = Inl RNil \<or> (\<exists>e. x = Inl (RFail e)) | _ \<Rightarrow> True)) r"
  unfolding GetSSOToken_def
  by (intro wp_bind wp_r_get wp_return) (auto simp: get_post_def split: sum.splits rerr.splits option.splits rval.splits)

end

section \<open>Properties\<close>

text \<open>
  C15: one live magic link per user.  In every state that issuing and redeeming magic links of
  an application, and whatever else writes other keys, can reach on a server that is up, two
  tokens that are both accepted for the same user are the same token: issuing a new link has
  ended the old one.
\<close>

theorem one_live_magic_link:
  assumes "reliable_redis R" and "magic_reach R a r"
    and "run_state (GetMagicLinkToken R a s) r = (Inr u, r1)"
    and "run_state (GetMagicLinkToken R a t) r1 = (Inr u, r2)"
  shows "s = t"
proof -
  have R: "redis_server R" using assms(1) by (simp add: reliable_redis_def)
  note inv = reliable_redis.magic_reach_inv[OF assms(1,2)]
  from wpD[OF redis_server.wp_GetMagicLinkToken[OF R] assms(3)]
  have rd: "reads r r1" and s: "live r1 (magic_tk a s) = Some (RStr u)" by simp_all
  from wpD[OF redis_server.wp_GetMagicLinkToken[OF R] assms(4)]
  have rd1: "reads r1 r2" and t: "live r2 (magic_tk a t) = Some (RStr u)" by simp_all
  have earlier: "live q k = Some v" if "reads q q'" "live q' k = Some v" for q q' k v
    using that entry_at_mono[of "rnow q'" "rdata q" k _ "rnow q"] by (auto simp: live_def reads_def split: option.splits)
  have "live r (magic_tk a s) = Some (RStr u)" using earlier[OF rd s] .
  moreover have "live r (magic_tk a t) = Some (RStr u)" using earlier[OF rd earlier[OF rd1 t]] .
  ultimately show ?thesis by (rule link_inv_unique[OF inv])
qed

definition demo_linked :: "rerr option \<times> redis" where
  "demo_linked = run_state (SetMagicLinkToken demo_redis ''a'' ''u'' ''new'' (10 * minute))
     (snd (run_state (SetMagicLinkToken demo_redis ''a'' ''u'' ''old'' (10 * minute)) empty_redis))"

theorem one_live_magic_link_witness:
  "fst (run_state (GetMagicLinkToken demo_redis ''a'' ''new'') (snd demo_linked)) = Inr ''u'' \<and>
   fst (run_state (GetMagicLinkToken demo_redis ''a'' ''old'') (snd (run_state (GetMagicLinkToken demo_redis ''a'' ''new'') (snd demo_linked)))) \<noteq> Inr ''u''"
proof -
  have "magic_reach demo_redis ''a'' (snd demo_linked)"
    unfolding demo_linked_def
    by (rule magic_reach.issue[OF magic_reach.issue[OF magic_reach.no_links _ _ prod.collapse[symmetric]] _ _ prod.collapse[symmetric]])
       (simp_all add: empty_redis_def)
  note m = one_live_magic_link[OF ref.reliable_redis_axioms this]
  have n: "fst (run_state (GetMagicLinkToken demo_redis ''a'' ''new'') (snd demo_linked)) = Inr ''u''" by code_simp
  from m[OF run_eq[OF n] run_eq] have "(''new'' :: string) = ''old''"
    if "fst (run_state (GetMagicLinkToken demo_redis ''a'' ''old'') (snd (run_state (GetMagicLinkToken demo_redis ''a'' ''new'') (snd demo_linked)))) = Inr ''u''"
    using that by blast
  with n show ?thesis by auto
qed

text \<open>
  The SSO token gives back what was stored.  Within its minute a token stored for a group,
  an application and a user, the first two without a bar in them, is read back as these three,
  and after it not at all, whatever other keys were written; otherwise the read reports an error.
\<close>

theorem sso_token_roundtrip:
  assumes "redis_server R" and "run_state (SetSSOToken R t g a u) r = (None, r1)"
    and "writes K r1 r2" and "''sso:token:'' @ t \<notin> K"
    and "run_state (GetSSOToken R t) r2 = (x, r3)"
    and "CHR ''|'' \<notin> set g" and "CHR ''|'' \<notin> set a"
  shows "x = Inr (g, a, u) \<and> rnow r3 < rnow r1 + ssoTokenTTL \<or> x = Inl RNil \<and> rnow r1 + ssoTokenTTL \<le> rnow r3 \<or>
     (\<exists>e. x = Inl (RFail e))"
proof -
  have "rdata r1 (''sso:token:'' @ t) = Some (RStr (sso_value g a u), Some (rnow r1 + ssoTokenTTL))"
    using wpD[OF redis_server.wp_SetSSOToken[OF assms(1)] assms(2)] by simp
  then have "rdata r2 (''sso:token:'' @ t) = Some (RStr (sso_value g a u), Some (rnow r1 + ssoTokenTTL))"
    using writes_keep[OF assms(3,4)] by simp
  then have "live r3 (''sso:token:'' @ t) = (if rnow r3 < rnow r1 + ssoTokenTTL then Some (RStr (sso_value g a u)) else None)"
    if "reads r2 r3" using that by (simp add: live_def reads_def entry_at_def expired_def)
  with wpD[OF redis_server.wp_GetSSOToken[OF assms(1)] assms(5)] sso_value_parse[OF assms(6,7)]
  show ?thesis by (auto split: if_splits)
qed

definition demo_sso :: "rerr option \<times> redis" where
  "demo_sso = run_state (SetSSOToken demo_redis ''t'' ''g'' ''a'' ''u'') empty_redis"

theorem sso_token_roundtrip_witness:
  "fst (run_state (GetSSOToken demo_redis ''t'') (snd demo_sso)) = Inr (''g'', ''a'', ''u'')"
proof -
  have ok: "fst demo_sso = None" by code_simp
  have "rnow (snd (run_state (GetSSOToken demo_redis ''t'') (snd demo_sso))) < rnow (snd demo_sso) + ssoTokenTTL" by code_simp
  moreover have "\<not> (case fst (run_state (GetSSOToken demo_redis ''t'') (snd demo_sso)) of Inl (RFail e) \<Rightarrow> True | _ \<Rightarrow> False)"
    by code_simp
  moreover have "run_state (SetSSOToken demo_redis ''t'' ''g'' ''a'' ''u'') empty_redis = (None, snd demo_sso)"
    using run_eq[OF ok[unfolded demo_sso_def]] by (simp only: demo_sso_def)
  note sso_token_roundtrip[OF ref0.redis_server_axioms this writes_refl[of "{}"] _ prod.collapse[symmetric]]
  ultimately show ?thesis by fastforce
qed

text \<open>
  The expiry scan reports live markers only.  Every key that
  \<open>GetExpiredSessionMetaKeys\<close> reports was there when it started, and had no expiry or at most
  half a second left; a marker that ran out before is never reported.
\<close>

theorem scan_misses_expired:
  assumes "redis_server R" and "run_state (GetExpiredSessionMetaKeys R fuel) r = (Some (Inr ks), r')" and "k \<in> set ks"
  shows "live r k \<noteq> None \<and> about_to_expire r (rnow r') k"
  using wpD[OF redis_server.wp_scan_expired[OF assms(1)] assms(2)[unfolded GetExpiredSessionMetaKeys_def]] assms(3)
  by (simp add: live_def)

definition demo_markers :: redis where
  "demo_markers = \<lparr>rdata = map_of [(''session_meta:a:u:s'', (RStr ''1'', None)), (''session_meta:a:u:t'', (RStr ''1'', Some 5))],
     rnow = 10\<rparr>"

theorem scan_misses_expired_witness:
  "live demo_markers ''session_meta:a:u:s'' \<noteq> None \<and> live demo_markers ''session_meta:a:u:t'' = None"
proof -
  have ks: "fst (run_state (GetExpiredSessionMetaKeys (ref_redis [''session_meta:a:u:s'', ''session_meta:a:u:t'']) 1) demo_markers) =
      Some (Inr [''session_meta:a:u:s''])" by code_simp
  have "live demo_markers ''session_meta:a:u:t'' = None"
    by (simp add: demo_markers_def live_def entry_at_def expired_def)
  then show ?thesis using scan_misses_expired[OF ref0.redis_server_axioms run_eq[OF ks], of "''session_meta:a:u:s''"] by simp
qed

end
