(* ===== verification/RateLimit.thy ===== *)
theory RateLimit
  imports World LoginCounters SessionStore
begin

text \<open>
  \<open>internal/middleware/rate_limit.go\<close>: the fixed-window request limiter with its hard lockout,
  on Redis, and on a process-local store when Redis fails.
\<close>

section \<open>Configuration\<close>

record RateLimitConfig =
  KeyPrefix :: string
  KeyFunc :: "(http_ctx \<Rightarrow> string) option"
  MaxAttempts :: int
  Window :: duration
  LockoutThreshold :: int
  LockoutDuration :: duration
  UseContextKey :: bool

definition limit :: "string \<Rightarrow> int \<Rightarrow> duration \<Rightarrow> RateLimitConfig" where
  "limit prefix maxAttempts window = \<lparr>KeyPrefix = prefix, KeyFunc = None, MaxAttempts = maxAttempts, Window = window,
     LockoutThreshold = 0, LockoutDuration = 0, UseContextKey = False\<rparr>"

definition with_lockout :: "int \<Rightarrow> duration \<Rightarrow> RateLimitConfig \<Rightarrow> RateLimitConfig" where
  "with_lockout threshold dur cfg = cfg\<lparr>LockoutThreshold := threshold, LockoutDuration := dur\<rparr>"

definition LoginRateLimit :: RateLimitConfig where
  "LoginRateLimit = (with_lockout 10 (15 * minute) (limit ''gui:login'' 5 (60 * second)))\<lparr>UseContextKey := True\<rparr>"
definition APILoginRateLimit :: RateLimitConfig where
  "APILoginRateLimit = (with_lockout 30 (15 * minute) (limit ''api:login'' 15 (60 * second)))\<lparr>KeyFunc := Some ClientIP\<rparr>"
definition APIRegisterRateLimit :: RateLimitConfig where
  "APIRegisterRateLimit = limit ''api:register'' 3 (60 * second)"
definition APIForgotPasswordRateLimit :: RateLimitConfig where
  "APIForgotPasswordRateLimit = limit ''api:forgot-password'' 3 (60 * second)"
definition APIResendVerificationRateLimit :: RateLimitConfig where
  "APIResendVerificationRateLimit = limit ''api:resend-verification'' 3 (60 * second)"
definition APIRefreshTokenRateLimit :: RateLimitConfig where
  "APIRefreshTokenRateLimit = limit ''api:refresh-token'' 10 (60 * second)"
definition APIResetPasswordRateLimit :: RateLimitConfig where
  "APIResetPasswordRateLimit = limit ''api:reset-password'' 5 (60 * second)"
definition API2FAVerifyRateLimit :: RateLimitConfig where
  "API2FAVerifyRateLimit = with_lockout 10 (15 * minute) (limit ''api:2fa-verify'' 5 (60 * second))"
definition APIPasskeyLoginRateLimit :: RateLimitConfig where
  "APIPasskeyLoginRateLimit = with_lockout 20 (15 * minute) (limit ''api:passkey-login'' 10 (60 * second))"
definition APIPasskey2FARateLimit :: RateLimitConfig where
  "APIPasskey2FARateLimit = with_lockout 20 (15 * minute) (limit ''api:passkey-2fa'' 10 (60 * second))"
definition APIMagicLinkRateLimit :: RateLimitConfig where
  "APIMagicLinkRateLimit = limit ''api:magic-link'' 5 (15 * minute)"
definition APISSORateLimit :: RateLimitConfig where
  "APISSORateLimit = limit ''api:sso-token'' 5 (60 * second)"
definition GUIMagicLinkRateLimit :: RateLimitConfig where
  "GUIMagicLinkRateLimit = limit ''gui:magic-link'' 3 (15 * minute)"
definition GUIPasskeyLoginRateLimit :: RateLimitConfig where
  "GUIPasskeyLoginRateLimit = with_lockout 20 (15 * minute) (limit ''gui:passkey-login'' 10 (60 * second))"
definition OIDCAuthorizeRateLimit :: RateLimitConfig where
  "OIDCAuthorizeRateLimit = with_lockout 40 (15 * minute) (limit ''oidc:authorize'' 20 (60 * second))"
definition OIDCTokenRateLimit :: RateLimitConfig where
  "OIDCTokenRateLimit = with_lockout 60 (5 * minute) (limit ''oidc:token'' 30 (60 * second))"
definition OIDCUserInfoRateLimit :: RateLimitConfig where
  "OIDCUserInfoRateLimit = limit ''oidc:userinfo'' 60 (60 * second)"
definition OIDCIntrospectRateLimit :: RateLimitConfig where
  "OIDCIntrospectRateLimit = with_lockout 60 (5 * minute) (limit ''oidc:introspect'' 30 (60 * second))"
definition OIDCRevokeRateLimit :: RateLimitConfig where
  "OIDCRevokeRateLimit = with_lockout 20 (15 * minute) (limit ''oidc:revoke'' 10 (60 * second))"

definition all_limits :: "RateLimitConfig list" where
  "all_limits = [LoginRateLimit, APILoginRateLimit, APIRegisterRateLimit, APIForgotPasswordRateLimit,
     APIResendVerificationRateLimit, APIRefreshTokenRateLimit, APIResetPasswordRateLimit,
     API2FAVerifyRateLimit, APIPasskeyLoginRateLimit, APIPasskey2FARateLimit, APIMagicLinkRateLimit,
     APISSORateLimit, GUIMagicLinkRateLimit, GUIPasskeyLoginRateLimit, OIDCAuthorizeRateLimit,
     OIDCTokenRateLimit, OIDCUserInfoRateLimit, OIDCIntrospectRateLimit, OIDCRevokeRateLimit]"

section \<open>Rejection\<close>

definition RateLimitErrorKey :: string where
  "RateLimitErrorKey = ''rate_limit_error''"

definition rejectRequest :: "http_ctx \<Rightarrow> RateLimitConfig \<Rightarrow> string \<Rightarrow> mw_result" where
  "rejectRequest c cfg msg = (if UseContextKey cfg then Next (SetKey RateLimitErrorKey (CStr msg) c)
     else Abort 429 msg)"

definition msg_locked :: string where
  "msg_locked = ''Too many failed attempts. Please try again later.''"
definition msg_limited :: string where
  "msg_limited = ''Too many requests. Please wait a moment before trying again.''"
definition msg_lockout :: string where
  "msg_lockout = ''Too many failed attempts. Your access has been temporarily locked.''"

section \<open>On Redis\<close>

text \<open>\<open>fmt.Sscanf(s, "%d", &n)\<close>: the number at the front, 0 when there is none.\<close>

definition scan_int :: "string \<Rightarrow> int" where
  "scan_int s = (let t = dropWhile is_space s;
      (neg, u) = (case t of [] \<Rightarrow> (False, [])
        | c # v \<Rightarrow> if c = CHR ''-'' then (True, v) else if c = CHR ''+'' then (False, v) else (False, t));
      ds = takeWhile (\<lambda>c. char_digit c \<noteq> None) u
    in case read_int 0 ds of None \<Rightarrow> 0
       | Some n \<Rightarrow> if ds = [] \<or> (if neg then 2 ^ 63 < n else 2 ^ 63 \<le> n) then 0 else if neg then - n else n)"

text \<open>\<open>None\<close>: a Redis error, the caller falls back to the memory store.\<close>

definition tryRedis ::
    "redis_api \<Rightarrow> http_ctx \<Rightarrow> RateLimitConfig \<Rightarrow> string \<Rightarrow> string \<Rightarrow> (redis, mw_result option) state" where
  "tryRedis R c cfg attemptsKey lockoutKey = do {
     locked \<leftarrow> (if 0 < LockoutThreshold cfg then r_get R lockoutKey else ret (Inl RNil));
     case locked of
       Inl (RFail e) \<Rightarrow> ret None
     | _ \<Rightarrow> if locked = Inr ''locked'' then ret (Some (rejectRequest c cfg msg_locked)) else do {
     res \<leftarrow> r_get R attemptsKey;
     case res of
       Inl (RFail e) \<Rightarrow> ret None
     | _ \<Rightarrow> (let currentCount = (case res of Inr countStr \<Rightarrow> if countStr \<noteq> [] then scan_int countStr else 0 | Inl _ \<Rightarrow> 0)
       in if MaxAttempts cfg \<le> currentCount then ret (Some (rejectRequest c cfg msg_limited)) else do {
       res \<leftarrow> r_incr R attemptsKey;
       case res of
         Inl e \<Rightarrow> ret None
       | Inr newCount \<Rightarrow> do {
           (if newCount = 1 then ignore (r_expire R attemptsKey (Window cfg)) else ret ());
           (if 0 < LockoutThreshold cfg \<and> LockoutThreshold cfg \<le> newCount then do {
              ignore (r_set R lockoutKey ''locked'' (LockoutDuration cfg));
              ret (Some (rejectRequest c cfg msg_lockout)) }
            else ret (Some (Next c))) } }) } }"

section \<open>In memory\<close>

text \<open>The zero \<open>time.Time\<close> is \<open>None\<close>.\<close>

record memEntry =
  count :: int
  windowAt :: "instant option"
  lockedAt :: "instant option"
  lockExp :: "instant option"

definition empty_entry :: memEntry where
  "empty_entry = \<lparr>count = 0, windowAt = None, lockedAt = None, lockExp = None\<rparr>"

record rl_world = world +
  rl_mem :: "string \<Rightarrow> memEntry option"

text \<open>\<open>time.Since(t) > d\<close>; the zero time is longer ago than any window.\<close>

definition since_exceeds :: "instant \<Rightarrow> instant option \<Rightarrow> duration \<Rightarrow> bool" where
  "since_exceeds now t d = (case t of None \<Rightarrow> True | Some t \<Rightarrow> d < now - t)"

definition passed_at :: "instant \<Rightarrow> instant option \<Rightarrow> bool" where
  "passed_at now t = (case t of None \<Rightarrow> True | Some t \<Rightarrow> t < now)"

definition getOrCreate :: "string \<Rightarrow> ('z rl_world_scheme, memEntry) state" where
  "getOrCreate key = do {
     w \<leftarrow> State_Monad.get;
     (case rl_mem w key of
        Some e \<Rightarrow> ret e
      | None \<Rightarrow> do { State_Monad.set (w\<lparr>rl_mem := (rl_mem w)(key \<mapsto> empty_entry)\<rparr>); ret empty_entry }) }"

definition memIsLocked :: "instant \<Rightarrow> memEntry \<Rightarrow> bool \<times> memEntry" where
  "memIsLocked now e = (if lockedAt e = None then (False, e)
     else if passed_at now (lockExp e) then (False, e\<lparr>lockedAt := None, lockExp := None\<rparr>)
     else (True, e))"

definition memGetAttempts :: "instant \<Rightarrow> duration \<Rightarrow> memEntry \<Rightarrow> int \<times> memEntry" where
  "memGetAttempts now window e = (let e' = (if since_exceeds now (windowAt e) window
       then e\<lparr>count := 0, windowAt := Some now\<rparr> else e) in (count e', e'))"

definition memIncr :: "instant \<Rightarrow> duration \<Rightarrow> memEntry \<Rightarrow> int \<times> memEntry" where
  "memIncr now window e = (let e' = (if windowAt e = None \<or> since_exceeds now (windowAt e) window
       then e\<lparr>count := 0, windowAt := Some now\<rparr> else e);
       e'' = e'\<lparr>count := wrap64 (count e' + 1)\<rparr> in (count e'', e''))"

definition memSetLockout :: "instant \<Rightarrow> duration \<Rightarrow> memEntry \<Rightarrow> memEntry" where
  "memSetLockout now dur e = e\<lparr>lockedAt := Some now, lockExp := Some (now + dur)\<rparr>"

definition store_entry :: "string \<Rightarrow> memEntry \<Rightarrow> ('z rl_world_scheme, unit) state" where
  "store_entry key e = do {
     w \<leftarrow> State_Monad.get;
     State_Monad.set (w\<lparr>rl_mem := (rl_mem w)(key \<mapsto> e)\<rparr>) }"

text \<open>
  An entry is shared through a pointer; every method of it reads the clock once or twice and
  leaves its changes in the store.
\<close>

definition tryMemory ::
    "http_ctx \<Rightarrow> RateLimitConfig \<Rightarrow> string \<Rightarrow> ('z rl_world_scheme, mw_result) state" where
  "tryMemory c cfg fullKey = do {
     e0 \<leftarrow> getOrCreate fullKey;
     now \<leftarrow> rds time_now;
     let (locked, e1) = (if 0 < LockoutThreshold cfg then memIsLocked now e0 else (False, e0));
     store_entry fullKey e1;
     (if locked then ret (rejectRequest c cfg msg_locked) else do {
      now \<leftarrow> rds time_now;
      let (attempts, e2) = memGetAttempts now (Window cfg) e1;
      store_entry fullKey e2;
      (if MaxAttempts cfg \<le> attempts then ret (rejectRequest c cfg msg_limited) else do {
       now \<leftarrow> rds time_now;
       let (newCount, e3) = memIncr now (Window cfg) e2;
       store_entry fullKey e3;
       (if 0 < LockoutThreshold cfg \<and> LockoutThreshold cfg \<le> newCount then do {
          now \<leftarrow> rds time_now;
          store_entry fullKey (memSetLockout now (LockoutDuration cfg) e3);
          ret (rejectRequest c cfg msg_lockout) }
        else ret (Next c)) }) }) }"

definition MemClearAttempts :: "string \<Rightarrow> string \<Rightarrow> ('z rl_world_scheme, unit) state" where
  "MemClearAttempts keyPrefix identifier = do {
     w \<leftarrow> State_Monad.get;
     State_Monad.set (w\<lparr>rl_mem := (rl_mem w)(keyPrefix @ '':'' @ identifier := None)\<rparr>) }"

text \<open>One pass of the clean-up goroutine.\<close>

definition mem_cleanup :: "('z rl_world_scheme, unit) state" where
  "mem_cleanup = do {
     now \<leftarrow> rds time_now;
     w \<leftarrow> State_Monad.get;
     State_Monad.set (w\<lparr>rl_mem := (\<lambda>k. case rl_mem w k of None \<Rightarrow> None
        | Some e \<Rightarrow> if since_exceeds now (windowAt e) (5 * minute) \<and> (lockedAt e = None \<or> passed_at now (lockExp e))
                    then None else Some e)\<rparr>) }"

section \<open>The middleware\<close>

definition rate_identifier :: "RateLimitConfig \<Rightarrow> http_ctx \<Rightarrow> string" where
  "rate_identifier cfg c = (case KeyFunc cfg of Some f \<Rightarrow> f c | None \<Rightarrow> ClientIP c)"

definition attempts_key :: "RateLimitConfig \<Rightarrow> string \<Rightarrow> string" where
  "attempts_key cfg identifier = ''rl:'' @ KeyPrefix cfg @ '':attempts:'' @ identifier"

definition lockout_key :: "RateLimitConfig \<Rightarrow> string \<Rightarrow> string" where
  "lockout_key cfg identifier = ''rl:'' @ KeyPrefix cfg @ '':lockout:'' @ identifier"

definition RateLimitMiddleware ::
    "redis_api \<Rightarrow> RateLimitConfig \<Rightarrow> http_ctx \<Rightarrow> ('z rl_world_scheme, mw_result) state" where
  "RateLimitMiddleware R cfg c = do {
     let identifier = rate_identifier cfg c;
     done \<leftarrow> rds (tryRedis R c cfg (attempts_key cfg identifier) (lockout_key cfg identifier));
     (case done of
        Some x \<Rightarrow> ret x
      | None \<Rightarrow> tryMemory c cfg (KeyPrefix cfg @ '':'' @ identifier)) }"

end
