(* ===== verification/RateLimitProofs.thy ===== *)
theory RateLimitProofs
  imports RateLimit RefRedis
begin

text \<open>
  The limiter as one decision function on the number of attempts in the window and the lock;
  the Redis and the memory version both implement it.  On Redis, whatever commands fail, a
  window admits at most \<open>MaxAttempts\<close> requests, and the attempts never get past that number,
  so that a lockout threshold above it is not reached by requests served one after another.
\<close>

section \<open>The decision\<close>

datatype decision = Pass | Limited | Locked | LockOut

definition limiter :: "RateLimitConfig \<Rightarrow> int \<Rightarrow> bool \<Rightarrow> decision \<times> int \<times> bool" where
  "limiter cfg n locked =
     (if 0 < LockoutThreshold cfg \<and> locked then (Locked, n, locked)
      else if MaxAttempts cfg \<le> n then (Limited, n, locked)
      else if 0 < LockoutThreshold cfg \<and> LockoutThreshold cfg \<le> n + 1 then (LockOut, n + 1, True)
      else (Pass, n + 1, locked))"

definition reply :: "http_ctx \<Rightarrow> RateLimitConfig \<Rightarrow> decision \<Rightarrow> mw_result" where
  "reply c cfg d = (case d of Pass \<Rightarrow> Next c | Limited \<Rightarrow> rejectRequest c cfg msg_limited
     | Locked \<Rightarrow> rejectRequest c cfg msg_locked | LockOut \<Rightarrow> rejectRequest c cfg msg_lockout)"

section \<open>Reading the counter\<close>

lemma char_digit_show_int: "0 \<le> i \<Longrightarrow> \<forall>c\<in>set (show_int i). char_digit c \<noteq> None"
proof (induction i rule: show_int.induct)
  case (1 i)
  show ?case
  proof (cases "i < 10")
    case True
    with 1 show ?thesis by (subst show_int.simps) (simp add: nat_less_iff)
  next
    case False
    with 1 have "\<forall>c\<in>set (show_int (i div 10)). char_digit c \<noteq> None" by simp
    moreover have "char_digit (digit_char (nat (i mod 10))) \<noteq> None" by (simp add: nat_less_iff)
    ultimately show ?thesis using False by (subst show_int.simps) simp
  qed
qed

lemma show_int_nonempty [simp]: "show_int i \<noteq> []"
  by (subst show_int.simps) simp

lemma read_show_int:
  assumes "0 \<le> i"
  shows "read_int 0 (show_int i) = Some i"
proof -
  have "read_int 0 (show_nat (nat i)) = Some i"
    using read_int_nat[of 0 "show_nat (nat i)"] assms by (simp add: read_show_nat)
  then show ?thesis using assms by (simp add: show_int_nat)
qed

lemma scan_int_itoa:
  assumes "0 \<le> i" and "i < 2 ^ 63"
  shows "scan_int (itoa i) = i"
proof -
  obtain c s where cs: "show_int i = c # s" by (cases "show_int i") simp_all
  have dig: "\<forall>d\<in>set (c # s). char_digit d \<noteq> None" using char_digit_show_int[OF assms(1)] cs by simp
  then have c: "char_digit c \<noteq> None" by simp
  then have sgn: "c \<noteq> CHR ''-''" "c \<noteq> CHR ''+''" by (auto simp: char_digit_def)
  have sp: "\<not> is_space c" using c by (auto simp: char_digit_def is_space_def)
  have tk: "takeWhile (\<lambda>c. char_digit c \<noteq> None) (c # s) = c # s" using dig by (simp add: takeWhile_eq_all_conv)
  have rd: "read_int 0 (c # s) = Some i" using read_show_int[OF assms(1)] cs by simp
  show ?thesis
    using assms sgn sp by (simp add: scan_int_def itoa_code cs Let_def tk rd del: takeWhile.simps read_int.simps not_None_eq)
qed

section \<open>Redis: what one window admits\<close>

text \<open>
  The counter never gets past the limit: it is absent or a number between 1 and \<open>MaxAttempts\<close>.
\<close>

definition counter_le :: "int \<Rightarrow> rentry option \<Rightarrow> bool" where
  "counter_le m e \<longleftrightarrow> e = None \<or> (\<exists>n x. e = Some (RStr (itoa n), x) \<and> 1 \<le> n \<and> n \<le> m)"

lemma counter_le_entry_at: "counter_le m (d k) \<Longrightarrow> counter_le m (entry_at t d k)"
  by (auto simp: counter_le_def entry_at_def split: option.splits)

lemma counter_le_incr:
  "counter_le m old \<Longrightarrow> incr_value old n new \<Longrightarrow> (\<forall>k x. old = Some (RStr (itoa k), x) \<longrightarrow> k < m) \<Longrightarrow> 1 \<le> m \<Longrightarrow>
   counter_le m new \<and> 1 \<le> n \<and> n \<le> m"
  by (auto simp: counter_le_def incr_value_def)

lemma counter_le_expire:
  "expire_post k d r e r' \<Longrightarrow> counter_le m (rdata r k) \<Longrightarrow> counter_le m (rdata r' k)"
  using counter_le_entry_at[of m "rdata r" k "rnow r'"] by (auto simp: expire_post_def counter_le_def)

text \<open>What a successful \<open>GET\<close> of the counter tells.\<close>

lemma get_counter:
  assumes "get_post k r a r'" and "counter_le m (rdata r k)" and "m < 2 ^ 63" and "\<forall>x. a \<noteq> Inl (RFail x)"
  defines "n \<equiv> (case a of Inr s \<Rightarrow> if s \<noteq> [] then scan_int s else 0 | Inl _ \<Rightarrow> 0)"
  shows "(entry r' k = None \<and> n = 0) \<or> (\<exists>x. entry r' k = Some (RStr (itoa n), x) \<and> 1 \<le> n \<and> n \<le> m)"
proof -
  have rd: "reads r r'" using assms(1) by (simp add: get_post_def)
  then have c: "counter_le m (entry r' k)" using assms(2) counter_le_entry_at by (simp add: reads_def)
  show ?thesis
  proof (cases a)
    case (Inl e)
    with assms(1,4) have "entry r' k = None" by (cases e) (auto simp: get_post_def live_def)
    with Inl show ?thesis by (simp add: n_def)
  next
    case (Inr s)
    with assms(1) obtain x where x: "entry r' k = Some (RStr s, x)" by (auto simp: get_post_def live_def)
    with c obtain j where j: "s = itoa j" "1 \<le> j" "j \<le> m" by (auto simp: counter_le_def)
    then have "n = j" using Inr assms(3) by (simp add: n_def scan_int_itoa)
    with x j show ?thesis by auto
  qed
qed

text \<open>
  The window: \<open>p\<close> requests have passed, and the counter, if there is one, has counted them and
  lives until \<open>T\<close> at least.
\<close>

definition counts_to :: "instant \<Rightarrow> int \<Rightarrow> rentry option \<Rightarrow> bool" where
  "counts_to T p e \<longleftrightarrow> (p = 0 \<and> e = None) \<or>
     (\<exists>n x. e = Some (RStr (itoa n), x) \<and> p \<le> n \<and> (\<forall>t. x = Some t \<longrightarrow> T \<le> t))"

definition tracked :: "string \<Rightarrow> instant \<Rightarrow> int \<Rightarrow> int \<Rightarrow> redis \<Rightarrow> bool" where
  "tracked k T m p r \<longleftrightarrow> counter_le m (rdata r k) \<and> (rnow r < T \<longrightarrow> counts_to T p (entry r k))"

lemma tracked_le: "tracked k T m p r \<Longrightarrow> rnow r < T \<Longrightarrow> 0 \<le> m \<Longrightarrow> p \<le> m"
  using counter_le_entry_at[of m "rdata r" k "rnow r"]
  by (auto simp: tracked_def counts_to_def counter_le_def)

lemma counts_to_later:
  "counts_to T p (entry_at t d k) \<Longrightarrow> t \<le> t' \<Longrightarrow> t' < T \<Longrightarrow> counts_to T p (entry_at t' d k)"
  by (fastforce simp: counts_to_def entry_at_def expired_def split: option.splits if_splits)

lemma tracked_seen:
  "tracked k T m p r \<Longrightarrow> rnow r \<le> t \<Longrightarrow> t < T \<Longrightarrow> counts_to T p (entry_at t (rdata r) k)"
  by (auto simp: tracked_def intro: counts_to_later)

lemma tracked_same:
  "tracked k T m p r \<Longrightarrow> rdata r' k = rdata r k \<Longrightarrow> rnow r \<le> rnow r' \<Longrightarrow> tracked k T m p r'"
  using tracked_seen[of k T m p r "rnow r'"] by (auto simp: tracked_def entry_at_def)

lemma tracked_expire:
  assumes e: "expire_post k W r e r'" and t: "tracked k T m p r" and T: "T \<le> rnow r + W"
  shows "tracked k T m p r'"
proof -
  have now: "rnow r \<le> rnow r'" using e by (auto simp: expire_post_def writes_def)
  from e consider "rdata r' k = rdata r k"
    | "rdata r' k = map_option (\<lambda>(v, _). (v, Some (rnow r' + W))) (entry_at (rnow r') (rdata r) k)"
    by (auto simp: expire_post_def)
  then show ?thesis
  proof cases
    case 1 then show ?thesis using t now by (simp add: tracked_same)
  next
    case 2
    have "counter_le m (rdata r' k)" using counter_le_expire[OF e] t by (simp add: tracked_def)
    moreover have "counts_to T p (entry r' k)" if "rnow r' < T"
      using tracked_seen[OF t now that] 2 T now that
      by (auto simp: counts_to_def entry_at_None entry_at_fresh)
    ultimately show ?thesis by (simp add: tracked_def)
  qed
qed

lemma tracked_incr_value:
  assumes i: "incr_value (entry_at (rnow r') (rdata r) k) n (rdata r' k)" and t: "tracked k T m p r"
    and w: "rnow r \<le> rnow r'" and m: "1 \<le> m" and p: "0 \<le> p"
    and below: "\<forall>j x. entry_at (rnow r') (rdata r) k = Some (RStr (itoa j), x) \<longrightarrow> j < m"
  shows "tracked k T m (p + 1) r' \<and> tracked k T m p r' \<and> 1 \<le> n \<and> n \<le> m"
proof -
  have "counter_le m (entry_at (rnow r') (rdata r) k)"
    using t counter_le_entry_at by (simp add: tracked_def)
  from counter_le_incr[OF this i below m] have c: "counter_le m (rdata r' k)" "1 \<le> n" "n \<le> m" by simp_all
  have "\<exists>x. entry r' k = Some (RStr (itoa n), x) \<and> p + 1 \<le> n \<and> (\<forall>t. x = Some t \<longrightarrow> T \<le> t)"
    if "rnow r' < T"
    using tracked_seen[OF t w that] i that
    by (auto simp: counts_to_def incr_value_def entry_at_forever entry_at_def expired_def split: option.splits)
  with c show ?thesis by (force simp: tracked_def counts_to_def)
qed

section \<open>One request on Redis\<close>

text \<open>Whether a request was let through by the Redis limiter.\<close>

definition passed :: "http_ctx \<Rightarrow> mw_result option \<Rightarrow> int" where
  "passed c x = (if x = Some (Next c) then 1 else 0)"

lemma rejected_not_passed:
  "ctx_keys c RateLimitErrorKey = None \<Longrightarrow> passed c (Some (rejectRequest c cfg msg)) = 0"
  by (auto simp: passed_def rejectRequest_def dest!: arg_cong[of _ _ ctx_keys] fun_cong[of _ _ RateLimitErrorKey])

text \<open>What one request does to the counter, whatever fails.\<close>

definition limiter_post :: "http_ctx \<Rightarrow> RateLimitConfig \<Rightarrow> string \<Rightarrow> instant \<Rightarrow> int \<Rightarrow> redis \<Rightarrow> mw_result option \<Rightarrow> redis \<Rightarrow> bool" where
  "limiter_post c cfg ak T p r x r' \<longleftrightarrow> tracked ak T (MaxAttempts cfg) (p + passed c x) r' \<and> rnow r \<le> rnow r' \<and>
     (LockoutThreshold cfg \<le> 0 \<or> MaxAttempts cfg < LockoutThreshold cfg \<longrightarrow>
        writes {ak} r r' \<and> x \<noteq> Some (Abort 429 msg_lockout))"

lemma nil_or_value:
  "(\<And>x. a = Inl (RFail x) \<Longrightarrow> wp (f x) Q s) \<Longrightarrow> (\<forall>x. a \<noteq> Inl (RFail x) \<Longrightarrow> wp m Q s) \<Longrightarrow>
   wp (case a of Inl (RFail x) \<Rightarrow> f x | _ \<Rightarrow> m) Q s"
  by (auto split: sum.splits rerr.splits)

context redis_server
begin

lemma wp_count_request:
  assumes m: "1 \<le> MaxAttempts cfg" and c: "ctx_keys c RateLimitErrorKey = None"
    and t: "tracked ak T (MaxAttempts cfg) p r" and p: "0 \<le> p" and T: "T \<le> rnow r + Window cfg" and neq: "ak \<noteq> lk"
    and below: "\<forall>j x. entry r ak = Some (RStr (itoa j), x) \<longrightarrow> j < MaxAttempts cfg"
  shows "wp (do { res \<leftarrow> r_incr R ak;
       case res of
         Inl e \<Rightarrow> ret None
       | Inr newCount \<Rightarrow> do {
           (if newCount = 1 then ignore (r_expire R ak (Window cfg)) else ret ());
           (if 0 < LockoutThreshold cfg \<and> LockoutThreshold cfg \<le> newCount then do {
              ignore (r_set R lk ''locked'' (LockoutDuration cfg));
              ret (Some (rejectRequest c cfg msg_lockout)) }
            else ret (Some (Next c))) } }) (limiter_post c cfg ak T p r) r"
proof (rule wp_bind, rule wp_r_incr, rule wp_case_sum)
  fix a r1 e assume i: "incr_post ak r a r1" and a: "a = Inl e"
  then have w: "writes {ak} r r1" by (simp add: incr_post_def)
  have below1: "\<forall>j x. entry_at (rnow r1) (rdata r) ak = Some (RStr (itoa j), x) \<longrightarrow> j < MaxAttempts cfg"
    using below writes_now[OF w] by (auto dest: entry_at_mono)
  have "tracked ak T (MaxAttempts cfg) p r1"
    using i a tracked_same[OF t] tracked_incr_value[OF _ t writes_now[OF w] m p below1] writes_now[OF w]
    by (auto simp: incr_post_def)
  then show "wp (ret None) (limiter_post c cfg ak T p r) r1"
    using w by (intro wp_return) (simp add: limiter_post_def passed_def writes_now)
next
  fix a r1 n assume i: "incr_post ak r a r1" and a: "a = Inr n"
  then have w: "writes {ak} r r1" and v: "incr_value (entry_at (rnow r1) (rdata r) ak) n (rdata r1 ak)"
    by (simp_all add: incr_post_def)
  have now: "rnow r \<le> rnow r1" using w by (rule writes_now)
  have below1: "\<forall>j x. entry_at (rnow r1) (rdata r) ak = Some (RStr (itoa j), x) \<longrightarrow> j < MaxAttempts cfg"
    using below now by (auto dest: entry_at_mono)
  from tracked_incr_value[OF v t now m p below1]
  have t1: "tracked ak T (MaxAttempts cfg) (p + 1) r1" "tracked ak T (MaxAttempts cfg) p r1"
    and n: "n \<le> MaxAttempts cfg" by simp_all
  have expire: "wp (if n = 1 then ignore (r_expire R ak (Window cfg)) else ret ())
     (\<lambda>_ r'. writes {ak} r r' \<and> tracked ak T (MaxAttempts cfg) (p + 1) r' \<and> tracked ak T (MaxAttempts cfg) p r') r1"
  proof (intro wp_if wp_ignore wp_r_expire wp_return)
    fix e r2 assume "expire_post ak (Window cfg) r1 e r2"
    then show "writes {ak} r r2 \<and> tracked ak T (MaxAttempts cfg) (p + 1) r2 \<and> tracked ak T (MaxAttempts cfg) p r2"
      using w t1 T now tracked_expire[of ak "Window cfg" r1 e r2]
      by (auto simp: expire_post_def intro: writes_seq)
  qed (use w t1 in simp)
  show "wp (do { (if n = 1 then ignore (r_expire R ak (Window cfg)) else ret ());
           (if 0 < LockoutThreshold cfg \<and> LockoutThreshold cfg \<le> n then do {
              ignore (r_set R lk ''locked'' (LockoutDuration cfg));
              ret (Some (rejectRequest c cfg msg_lockout)) }
            else ret (Some (Next c))) }) (limiter_post c cfg ak T p r) r1"
  proof (rule wp_bind, rule wp_mono[OF expire], elim conjE, intro wp_if wp_bind wp_ignore wp_r_set wp_return)
    fix r2 e r3
    assume thr: "0 < LockoutThreshold cfg \<and> LockoutThreshold cfg \<le> n" and s: "set_post lk ''locked'' (LockoutDuration cfg) r2 e r3"
      and w2: "writes {ak} r r2" and t2: "tracked ak T (MaxAttempts cfg) p r2"
    from s have "writes {lk} r2 r3" by (simp add: set_post_def)
    then have "tracked ak T (MaxAttempts cfg) p r3" and "rnow r2 \<le> rnow r3"
      using t2 neq by (auto intro!: tracked_same[OF t2] simp: writes_def)
    then show "limiter_post c cfg ak T p r (Some (rejectRequest c cfg msg_lockout)) r3"
      using thr n w2 by (auto simp: limiter_post_def rejected_not_passed[OF c] writes_def)
  next
    fix r2 assume "writes {ak} r r2" "tracked ak T (MaxAttempts cfg) (p + 1) r2"
    then show "limiter_post c cfg ak T p r (Some (Next c)) r2"
      by (simp add: limiter_post_def passed_def writes_now)
  qed
qed

lemma wp_tryRedis:
  assumes m: "1 \<le> MaxAttempts cfg" "MaxAttempts cfg < 2 ^ 63" and c: "ctx_keys c RateLimitErrorKey = None"
    and t: "tracked ak T (MaxAttempts cfg) p r" and p: "0 \<le> p" and T: "T \<le> rnow r + Window cfg" and neq: "ak \<noteq> lk"
  shows "wp (tryRedis R c cfg ak lk) (limiter_post c cfg ak T p r) r"
proof -
  have same: "limiter_post c cfg ak T p r x r'"
    if "reads r r'" "passed c x = 0" "x \<noteq> Some (Abort 429 msg_lockout)" for x r'
    using that tracked_same[OF t] by (auto simp: limiter_post_def reads_def writes_def)
  have msgs: "Some (rejectRequest c cfg msg_locked) \<noteq> Some (Abort 429 msg_lockout)"
    "Some (rejectRequest c cfg msg_limited) \<noteq> Some (Abort 429 msg_lockout)"
    by (simp_all add: rejectRequest_def msg_locked_def msg_limited_def msg_lockout_def)
  let ?rest = "do {
     res \<leftarrow> r_get R ak;
     case res of
       Inl (RFail e) \<Rightarrow> ret None
     | _ \<Rightarrow> (let currentCount = (case res of Inr countStr \<Rightarrow> if countStr \<noteq> [] then scan_int countStr else 0 | Inl _ \<Rightarrow> 0)
       in if MaxAttempts cfg \<le> currentCount then ret (Some (rejectRequest c cfg msg_limited)) else do {
       res \<leftarrow> r_incr R ak;
       case res of
         Inl e \<Rightarrow> ret None
       | Inr newCount \<Rightarrow> do {
           (if newCount = 1 then ignore (r_expire R ak (Window cfg)) else ret ());
           (if 0 < LockoutThreshold cfg \<and> LockoutThreshold cfg \<le> newCount then do {
              ignore (r_set R lk ''locked'' (LockoutDuration cfg));
              ret (Some (rejectRequest c cfg msg_lockout)) }
            else ret (Some (Next c))) } }) }"
  have rest: "wp ?rest (limiter_post c cfg ak T p r) r1" if rd: "reads r r1" for r1
  proof (rule wp_bind, rule wp_r_get)
    fix a r2 assume g: "get_post ak r1 a r2"
    then have rd2: "reads r r2" using rd reads_trans by (auto simp: get_post_def)
    have t1: "tracked ak T (MaxAttempts cfg) p r1" using t rd tracked_same[OF t] by (simp add: reads_def)
    have t2: "tracked ak T (MaxAttempts cfg) p r2" using tracked_same[OF t] rd2 by (simp add: reads_def)
    let ?n = "case a of Inr countStr \<Rightarrow> if countStr \<noteq> [] then scan_int countStr else 0 | Inl _ \<Rightarrow> 0"
    have cont: "wp (let currentCount = ?n in if MaxAttempts cfg \<le> currentCount then ret (Some (rejectRequest c cfg msg_limited)) else do {
       res \<leftarrow> r_incr R ak;
       case res of
         Inl e \<Rightarrow> ret None
       | Inr newCount \<Rightarrow> do {
           (if newCount = 1 then ignore (r_expire R ak (Window cfg)) else ret ());
           (if 0 < LockoutThreshold cfg \<and> LockoutThreshold cfg \<le> newCount then do {
              ignore (r_set R lk ''locked'' (LockoutDuration cfg));
              ret (Some (rejectRequest c cfg msg_lockout)) }
            else ret (Some (Next c))) } }) (limiter_post c cfg ak T p r) r2" if ok: "\<forall>x. a \<noteq> Inl (RFail x)"
    proof (rule wp_Let, simp only:, rule wp_if)
      show "wp (ret (Some (rejectRequest c cfg msg_limited))) (limiter_post c cfg ak T p r) r2"
        using same[OF rd2 rejected_not_passed[OF c] msgs(2)] by (rule wp_return)
    next
      assume lt: "\<not> MaxAttempts cfg \<le> ?n"
      have "counter_le (MaxAttempts cfg) (rdata r1 ak)" using t1 by (simp add: tracked_def)
      from get_counter[OF g this m(2) ok] lt
      have below: "\<forall>j x. entry r2 ak = Some (RStr (itoa j), x) \<longrightarrow> j < MaxAttempts cfg" by auto
      have T2: "T \<le> rnow r2 + Window cfg" using T rd2 by (simp add: reads_def)
      show "wp (do { res \<leftarrow> r_incr R ak;
       case res of
         Inl e \<Rightarrow> ret None
       | Inr newCount \<Rightarrow> do {
           (if newCount = 1 then ignore (r_expire R ak (Window cfg)) else ret ());
           (if 0 < LockoutThreshold cfg \<and> LockoutThreshold cfg \<le> newCount then do {
              ignore (r_set R lk ''locked'' (LockoutDuration cfg));
              ret (Some (rejectRequest c cfg msg_lockout)) }
            else ret (Some (Next c))) } }) (limiter_post c cfg ak T p r) r2"
        by (rule wp_mono[OF wp_count_request[OF m(1) c t2 p T2 neq below]])
           (use rd2 in \<open>auto simp: limiter_post_def reads_def writes_def\<close>)
    qed
    show "wp (case a of Inl (RFail e) \<Rightarrow> ret None | _ \<Rightarrow> (let currentCount = ?n
       in if MaxAttempts cfg \<le> currentCount then ret (Some (rejectRequest c cfg msg_limited)) else do {
       res \<leftarrow> r_incr R ak;
       case res of
         Inl e \<Rightarrow> ret None
       | Inr newCount \<Rightarrow> do {
           (if newCount = 1 then ignore (r_expire R ak (Window cfg)) else ret ());
           (if 0 < LockoutThreshold cfg \<and> LockoutThreshold cfg \<le> newCount then do {
              ignore (r_set R lk ''locked'' (LockoutDuration cfg));
              ret (Some (rejectRequest c cfg msg_lockout)) }
            else ret (Some (Next c))) } })) (limiter_post c cfg ak T p r) r2"
      by (rule nil_or_value) (use cont same[OF rd2, of None] in \<open>simp_all add: passed_def wp_return\<close>)
  qed
  have first: "wp (if 0 < LockoutThreshold cfg then r_get R lk else ret (Inl RNil)) (\<lambda>_. reads r) r"
    by (intro wp_if wp_r_get wp_return) (auto simp: get_post_def)
  show ?thesis
    unfolding tryRedis_def
  proof (rule wp_bind, rule wp_mono[OF first])
    fix a :: "rerr + string" and r1 assume rd: "reads r r1"
    have "wp (if a = Inr ''locked'' then ret (Some (rejectRequest c cfg msg_locked)) else ?rest) (limiter_post c cfg ak T p r) r1"
      using rest[OF rd] same[OF rd rejected_not_passed[OF c] msgs(1)] by (intro wp_if wp_return)
    then show "wp (case a of Inl (RFail e) \<Rightarrow> ret None
       | _ \<Rightarrow> if a = Inr ''locked'' then ret (Some (rejectRequest c cfg msg_locked)) else ?rest)
      (limiter_post c cfg ak T p r) r1"
      by (intro nil_or_value) (use same[OF rd, of None] in \<open>simp_all add: passed_def wp_return\<close>)
  qed
qed

end

section \<open>A sequence of requests\<close>

text \<open>Requests of one client handled one after another.\<close>

fun serve :: "redis_api \<Rightarrow> RateLimitConfig \<Rightarrow> string \<Rightarrow> string \<Rightarrow> http_ctx list \<Rightarrow> (redis, mw_result option list) state" where
  "serve R cfg ak lk [] = ret []"
| "serve R cfg ak lk (c # cs) = do {
     x \<leftarrow> tryRedis R c cfg ak lk;
     xs \<leftarrow> serve R cfg ak lk cs;
     ret (x # xs) }"

definition admitted :: "http_ctx list \<Rightarrow> mw_result option list \<Rightarrow> int" where
  "admitted cs xs = (\<Sum>(c, x)\<leftarrow>zip cs xs. passed c x)"

lemma admitted_simps [simp]:
  "admitted [] [] = 0" "admitted (c # cs) (x # xs) = passed c x + admitted cs xs"
  by (simp_all add: admitted_def)

lemma passed_nonneg [simp]: "0 \<le> passed c x"
  by (simp add: passed_def)

context redis_server
begin

lemma wp_serve:
  assumes m: "1 \<le> MaxAttempts cfg" "MaxAttempts cfg < 2 ^ 63" and neq: "ak \<noteq> lk"
    and c: "\<forall>c\<in>set cs. ctx_keys c RateLimitErrorKey = None"
    and "tracked ak T (MaxAttempts cfg) p r" and "0 \<le> p" and "T \<le> rnow r + Window cfg"
  shows "wp (serve R cfg ak lk cs) (\<lambda>xs r'. length xs = length cs \<and> rnow r \<le> rnow r' \<and>
     tracked ak T (MaxAttempts cfg) (p + admitted cs xs) r' \<and>
     (LockoutThreshold cfg \<le> 0 \<or> MaxAttempts cfg < LockoutThreshold cfg \<longrightarrow>
        writes {ak} r r' \<and> Some (Abort 429 msg_lockout) \<notin> set xs)) r"
  using assms(4-)
proof (induction cs arbitrary: p r)
  case Nil
  then show ?case by (auto intro!: wp_return)
next
  case (Cons c cs)
  have c: "ctx_keys c RateLimitErrorKey = None" using Cons.prems(1) by simp
  show ?case
    unfolding serve.simps
  proof (rule wp_bind, rule wp_mono[OF wp_tryRedis[OF m c Cons.prems(2-4) neq]], rule wp_bind)
    fix x r1 assume post: "limiter_post c cfg ak T p r x r1"
    then have t1: "tracked ak T (MaxAttempts cfg) (p + passed c x) r1" and now: "rnow r \<le> rnow r1"
      by (simp_all add: limiter_post_def)
    have "wp (serve R cfg ak lk cs) (\<lambda>xs r'. length xs = length cs \<and> rnow r1 \<le> rnow r' \<and>
     tracked ak T (MaxAttempts cfg) (p + passed c x + admitted cs xs) r' \<and>
     (LockoutThreshold cfg \<le> 0 \<or> MaxAttempts cfg < LockoutThreshold cfg \<longrightarrow>
        writes {ak} r1 r' \<and> Some (Abort 429 msg_lockout) \<notin> set xs)) r1"
      using Cons.prems t1 now by (intro Cons.IH) auto
    then show "wp (serve R cfg ak lk cs) (\<lambda>xs. wp (ret (x # xs)) (\<lambda>xs r'. length xs = length (c # cs) \<and> rnow r \<le> rnow r' \<and>
     tracked ak T (MaxAttempts cfg) (p + admitted (c # cs) xs) r' \<and>
     (LockoutThreshold cfg \<le> 0 \<or> MaxAttempts cfg < LockoutThreshold cfg \<longrightarrow>
        writes {ak} r r' \<and> Some (Abort 429 msg_lockout) \<notin> set xs))) r1"
    proof (rule wp_mono, intro wp_return conjI impI)
      fix xs r2 assume IH: "length xs = length cs \<and> rnow r1 \<le> rnow r2 \<and>
        tracked ak T (MaxAttempts cfg) (p + passed c x + admitted cs xs) r2 \<and>
        (LockoutThreshold cfg \<le> 0 \<or> MaxAttempts cfg < LockoutThreshold cfg \<longrightarrow>
           writes {ak} r1 r2 \<and> Some (Abort 429 msg_lockout) \<notin> set xs)"
      then show "length (x # xs) = length (c # cs)" "rnow r \<le> rnow r2"
        "tracked ak T (MaxAttempts cfg) (p + admitted (c # cs) (x # xs)) r2"
        using now by (simp_all add: add.assoc)
      assume "LockoutThreshold cfg \<le> 0 \<or> MaxAttempts cfg < LockoutThreshold cfg"
      with IH post have w: "writes {ak} r r1" "writes {ak} r1 r2" and no: "Some (Abort 429 msg_lockout) \<notin> set (x # xs)"
        by (auto simp: limiter_post_def)
      show "writes {ak} r r2" using w by (rule writes_seq)
      show "Some (Abort 429 msg_lockout) \<notin> set (x # xs)" by (rule no)
    qed
  qed
qed

lemma window_bound:
  assumes "1 \<le> MaxAttempts cfg" "MaxAttempts cfg < 2 ^ 63" "ak \<noteq> lk"
    and "\<forall>c\<in>set cs. ctx_keys c RateLimitErrorKey = None" and fresh: "rdata r ak = None"
    and "run_state (serve R cfg ak lk cs) r = (xs, r')" and "rnow r' < rnow r + Window cfg"
  shows "admitted cs xs \<le> MaxAttempts cfg"
proof -
  have t: "tracked ak (rnow r + Window cfg) (MaxAttempts cfg) 0 r"
    using fresh by (simp add: tracked_def counter_le_def counts_to_def entry_at_None)
  from wpD[OF wp_serve[OF assms(1-4) t] assms(6)]
  have "tracked ak (rnow r + Window cfg) (MaxAttempts cfg) (admitted cs xs) r'" by simp
  then show ?thesis by (rule tracked_le) (use assms(1,7) in simp_all)
qed

lemma no_lockout:
  assumes "1 \<le> MaxAttempts cfg" "MaxAttempts cfg < 2 ^ 63" "ak \<noteq> lk"
    and "LockoutThreshold cfg \<le> 0 \<or> MaxAttempts cfg < LockoutThreshold cfg"
    and "\<forall>c\<in>set cs. ctx_keys c RateLimitErrorKey = None" and ok: "counter_le (MaxAttempts cfg) (rdata r ak)"
    and "run_state (serve R cfg ak lk cs) r = (xs, r')"
  shows "rdata r' lk = rdata r lk \<and> Some (Abort 429 msg_lockout) \<notin> set xs"
proof -
  have t: "tracked ak (min (rnow r) (rnow r + Window cfg)) (MaxAttempts cfg) 0 r" using ok by (simp add: tracked_def)
  from wpD[OF wp_serve[OF assms(1-3,5) t] assms(7)] assms(3,4) show ?thesis by (auto simp: writes_def)
qed

end

text \<open>Every configured limiter has its lockout threshold above its limit, or none.\<close>

lemma preset_limits:
  "\<forall>cfg\<in>set all_limits. 1 \<le> MaxAttempts cfg \<and> MaxAttempts cfg < 2 ^ 63 \<and> 0 < Window cfg \<and>
     (LockoutThreshold cfg \<le> 0 \<or> MaxAttempts cfg < LockoutThreshold cfg)"
  by code_simp

lemma limiter_keys_differ: "attempts_key cfg i \<noteq> lockout_key cfg i"
  by (simp add: attempts_key_def lockout_key_def)

section \<open>The memory store makes the same decisions\<close>

definition mem_entry :: "'z rl_world_scheme \<Rightarrow> string \<Rightarrow> memEntry" where
  "mem_entry w k = (case rl_mem w k of Some e \<Rightarrow> e | None \<Rightarrow> empty_entry)"

text \<open>The attempts that count at an instant, and whether the lock holds.\<close>

definition mem_attempts :: "instant \<Rightarrow> RateLimitConfig \<Rightarrow> memEntry \<Rightarrow> int" where
  "mem_attempts now cfg e = (if since_exceeds now (windowAt e) (Window cfg) then 0 else count e)"

definition mem_locked :: "instant \<Rightarrow> memEntry \<Rightarrow> bool" where
  "mem_locked now e \<longleftrightarrow> lockedAt e \<noteq> None \<and> \<not> passed_at now (lockExp e)"

lemma run_store_entry [simp]:
  "run_state (store_entry k e) w = ((), w\<lparr>rl_mem := (rl_mem w)(k \<mapsto> e)\<rparr>)"
  by (simp add: store_entry_def)

lemma run_getOrCreate:
  "\<exists>m. run_state (getOrCreate k) w = (mem_entry w k, w\<lparr>rl_mem := m\<rparr>) \<and> m k = Some (mem_entry w k) \<and>
     (\<forall>j. j \<noteq> k \<longrightarrow> m j = rl_mem w j)"
  by (cases "rl_mem w k")
     (auto simp: getOrCreate_def mem_entry_def intro: exI[of _ "rl_mem w"])

text \<open>The steps on the entry.\<close>

lemma memIsLocked_abs:
  "memIsLocked now e = (mem_locked now e, e1) \<Longrightarrow>
   mem_attempts now cfg e1 = mem_attempts now cfg e \<and> mem_locked now e1 = mem_locked now e \<and> count e1 = count e"
  by (auto simp: memIsLocked_def mem_locked_def mem_attempts_def split: if_splits)

lemma fst_memIsLocked: "fst (memIsLocked now e) = mem_locked now e"
  by (simp add: memIsLocked_def mem_locked_def)

lemma memGetAttempts_abs:
  "0 \<le> Window cfg \<Longrightarrow> memGetAttempts now (Window cfg) e = (n, e2) \<Longrightarrow>
   n = mem_attempts now cfg e \<and> count e2 = n \<and> \<not> since_exceeds now (windowAt e2) (Window cfg) \<and>
   mem_locked now e2 = mem_locked now e"
  by (auto simp: memGetAttempts_def mem_attempts_def mem_locked_def Let_def since_exceeds_def)

lemma memIncr_abs:
  "\<not> since_exceeds now (windowAt e) (Window cfg) \<Longrightarrow> 0 \<le> count e \<Longrightarrow> count e < 2 ^ 63 - 1 \<Longrightarrow>
   memIncr now (Window cfg) e = (n, e3) \<Longrightarrow>
   n = count e + 1 \<and> mem_attempts now cfg e3 = n \<and> mem_locked now e3 = mem_locked now e"
  by (auto simp: memIncr_def mem_attempts_def mem_locked_def Let_def since_exceeds_def wrap64_id split: option.splits)

lemma memSetLockout_abs:
  "0 \<le> d \<Longrightarrow> mem_locked now (memSetLockout now d e) \<and> mem_attempts now cfg (memSetLockout now d e) = mem_attempts now cfg e"
  by (simp add: memSetLockout_def mem_locked_def mem_attempts_def passed_at_def)

lemma mem_entry_upd [simp]: "mem_entry (w\<lparr>rl_mem := (rl_mem w')(k \<mapsto> e)\<rparr>) k = e"
  by (simp add: mem_entry_def)

lemma mem_entry_upd' [simp]: "mem_entry (w\<lparr>rl_mem := m(k \<mapsto> e)\<rparr>) k = e"
  by (simp add: mem_entry_def)

text \<open>The run, as a function of the entry.\<close>

definition mem_step :: "instant \<Rightarrow> RateLimitConfig \<Rightarrow> memEntry \<Rightarrow> decision \<times> memEntry" where
  "mem_step now cfg e0 =
     (let (locked, e1) = (if 0 < LockoutThreshold cfg then memIsLocked now e0 else (False, e0))
      in if locked then (Locked, e1)
      else let (attempts, e2) = memGetAttempts now (Window cfg) e1
      in if MaxAttempts cfg \<le> attempts then (Limited, e2)
      else let (newCount, e3) = memIncr now (Window cfg) e2
      in if 0 < LockoutThreshold cfg \<and> LockoutThreshold cfg \<le> newCount
         then (LockOut, memSetLockout now (LockoutDuration cfg) e3) else (Pass, e3))"

lemma run_tryMemory:
  assumes "mem_step (rnow (w_redis w)) cfg (mem_entry w k) = (d, e)"
  shows "\<exists>m. run_state (tryMemory c cfg k) w = (reply c cfg d, w\<lparr>rl_mem := m\<rparr>) \<and> m k = Some e \<and>
     (\<forall>j. j \<noteq> k \<longrightarrow> m j = rl_mem w j)"
proof -
  obtain m where m: "run_state (getOrCreate k) w = (mem_entry w k, w\<lparr>rl_mem := m\<rparr>)"
    and mj: "\<forall>j. j \<noteq> k \<longrightarrow> m j = rl_mem w j"
    using run_getOrCreate[of k w] by blast
  have "run_state (tryMemory c cfg k) w = (reply c cfg d, w\<lparr>rl_mem := m(k \<mapsto> e)\<rparr>)"
    using assms by (simp add: tryMemory_def mem_step_def m reply_def Let_def split: prod.splits if_splits) auto
  with mj show ?thesis by auto
qed

lemma mem_step_limiter:
  assumes W: "0 \<le> Window cfg" "0 \<le> LockoutDuration cfg" and n: "0 \<le> count e" "count e < 2 ^ 63 - 1"
    and step: "mem_step now cfg e = (d, e')"
  shows "limiter cfg (mem_attempts now cfg e) (mem_locked now e) = (d, mem_attempts now cfg e', mem_locked now e')"
proof -
  define e1 where "e1 = (if 0 < LockoutThreshold cfg then snd (memIsLocked now e) else e)"
  have e1: "(if 0 < LockoutThreshold cfg then memIsLocked now e else (False, e)) =
      (0 < LockoutThreshold cfg \<and> mem_locked now e, e1)"
    by (simp add: e1_def fst_memIsLocked prod_eq_iff)
  have a1: "mem_attempts now cfg e1 = mem_attempts now cfg e" "mem_locked now e1 = mem_locked now e" "count e1 = count e"
    using memIsLocked_abs[of now e "snd (memIsLocked now e)" cfg] fst_memIsLocked[of now e]
    by (simp_all add: e1_def prod_eq_iff)
  obtain n2 e2 where e2: "memGetAttempts now (Window cfg) e1 = (n2, e2)" by fastforce
  from memGetAttempts_abs[OF W(1) e2] a1
  have a2: "n2 = mem_attempts now cfg e" "count e2 = n2" "\<not> since_exceeds now (windowAt e2) (Window cfg)"
    "mem_locked now e2 = mem_locked now e" "mem_attempts now cfg e2 = n2"
    by (simp_all add: mem_attempts_def)
  have c2: "0 \<le> count e2" "count e2 < 2 ^ 63 - 1" using a2 n by (simp_all add: mem_attempts_def)
  obtain n3 e3 where e3: "memIncr now (Window cfg) e2 = (n3, e3)" by fastforce
  note a3 = memIncr_abs[OF a2(3) c2 e3]
  show ?thesis
    using step a1 a2 a3 memSetLockout_abs[OF W(2), of now e3 cfg]
    by (simp add: mem_step_def e1 e2 e3 limiter_def split: if_splits)
qed

lemma tryMemory_limiter:
  assumes run: "run_state (tryMemory c cfg k) w = (x, w')"
    and W: "0 \<le> Window cfg" "0 \<le> LockoutDuration cfg" and n: "0 \<le> count (mem_entry w k)" "count (mem_entry w k) < 2 ^ 63 - 1"
    and d: "limiter cfg (mem_attempts (rnow (w_redis w)) cfg (mem_entry w k)) (mem_locked (rnow (w_redis w)) (mem_entry w k)) = (d, n', l')"
  shows "x = reply c cfg d \<and> mem_attempts (rnow (w_redis w)) cfg (mem_entry w' k) = n' \<and>
     mem_locked (rnow (w_redis w)) (mem_entry w' k) = l' \<and> w_redis w' = w_redis w \<and>
     (\<forall>j. j \<noteq> k \<longrightarrow> rl_mem w' j = rl_mem w j)"
proof -
  obtain d1 e1 where step: "mem_step (rnow (w_redis w)) cfg (mem_entry w k) = (d1, e1)" by fastforce
  from run_tryMemory[OF step, of c] run obtain m where "x = reply c cfg d1" "w' = w\<lparr>rl_mem := m\<rparr>"
    "m k = Some e1" "\<forall>j. j \<noteq> k \<longrightarrow> m j = rl_mem w j" by auto
  moreover have "mem_entry (w\<lparr>rl_mem := m\<rparr>) k = e1" using \<open>m k = Some e1\<close> by (simp add: mem_entry_def)
  ultimately show ?thesis using mem_step_limiter[OF W n step] d by simp
qed

section \<open>Redis makes the same decisions\<close>

text \<open>The attempts and the lock as the server holds them, and as they stay during a request.\<close>

definition red_attempts :: "redis \<Rightarrow> string \<Rightarrow> int" where
  "red_attempts r ak = (case entry r ak of Some (RStr s, _) \<Rightarrow> scan_int s | _ \<Rightarrow> 0)"

definition red_locked :: "redis \<Rightarrow> string \<Rightarrow> bool" where
  "red_locked r lk \<longleftrightarrow> live r lk = Some (RStr ''locked'')"

definition stays :: "redis \<Rightarrow> instant \<Rightarrow> string \<Rightarrow> bool" where
  "stays r t k \<longleftrightarrow> entry_at t (rdata r) k = entry r k"

lemma stays_between:
  assumes "stays r t k" and "rnow r \<le> t'" and "t' \<le> t"
  shows "stays r t' k"
proof (cases "entry r k")
  case None
  then show ?thesis using assms(2) by (simp add: stays_def entry_at_dead)
next
  case (Some e)
  with assms show ?thesis by (auto simp: stays_def dest: entry_at_mono)
qed

definition decides :: "http_ctx \<Rightarrow> RateLimitConfig \<Rightarrow> string \<Rightarrow> string \<Rightarrow> redis \<Rightarrow> mw_result option \<Rightarrow> redis \<Rightarrow> bool" where
  "decides c cfg ak lk r x r' \<longleftrightarrow> rnow r \<le> rnow r' \<and>
     (x \<noteq> None \<longrightarrow> stays r (rnow r') ak \<longrightarrow> stays r (rnow r') lk \<longrightarrow>
      (\<exists>d n' l'. limiter cfg (red_attempts r ak) (red_locked r lk) = (d, n', l') \<and> x = Some (reply c cfg d)))"

context redis_server
begin

lemma decides_None [simp]: "rnow r \<le> rnow r' \<Longrightarrow> decides c cfg ak lk r None r'"
  by (simp add: decides_def)

lemma wp_decides_count:
  assumes k: "counter_le m (rdata r ak)" "m < 2 ^ 63 - 1" and now: "rnow r \<le> rnow r2" and same: "rdata r2 ak = rdata r ak"
    and unlocked: "stays r (rnow r2) lk \<Longrightarrow> \<not> (0 < LockoutThreshold cfg \<and> red_locked r lk)"
    and below: "stays r (rnow r2) ak \<Longrightarrow> red_attempts r ak < MaxAttempts cfg"
  shows "wp (do { res \<leftarrow> r_incr R ak;
       case res of
         Inl e \<Rightarrow> ret None
       | Inr newCount \<Rightarrow> do {
           (if newCount = 1 then ignore (r_expire R ak (Window cfg)) else ret ());
           (if 0 < LockoutThreshold cfg \<and> LockoutThreshold cfg \<le> newCount then do {
              ignore (r_set R lk ''locked'' (LockoutDuration cfg));
              ret (Some (rejectRequest c cfg msg_lockout)) }
            else ret (Some (Next c))) } }) (decides c cfg ak lk r) r2"
proof (rule wp_bind, rule wp_r_incr, rule wp_case_sum)
  fix a r3 e assume "incr_post ak r2 a r3"
  then show "wp (ret None) (decides c cfg ak lk r) r3"
    using now by (intro wp_return decides_None) (auto simp: incr_post_def writes_def)
next
  fix a r3 n assume i: "incr_post ak r2 a r3" and a: "a = Inr n"
  then have v: "incr_value (entry_at (rnow r3) (rdata r) ak) n (rdata r3 ak)"
    using same by (simp add: incr_post_def entry_at_def)
  have now3: "rnow r2 \<le> rnow r3" using i by (auto simp: incr_post_def writes_def)
  have n: "n = red_attempts r ak + 1" if st: "stays r t ak" "rnow r3 \<le> t" for t
  proof -
    have "entry_at (rnow r3) (rdata r) ak = entry r ak"
      using stays_between[OF st(1), of "rnow r3"] st(2) now now3 by (simp add: stays_def)
    moreover have "counter_le m (entry r ak)" using k(1) by (rule counter_le_entry_at)
    ultimately show ?thesis using v k(2)
      by (auto simp: incr_value_def counter_le_def red_attempts_def scan_int_itoa)
  qed
  have finished: "decides c cfg ak lk r (Some y) r'"
    if "rnow r3 \<le> rnow r'" "y = (if 0 < LockoutThreshold cfg \<and> LockoutThreshold cfg \<le> n
        then rejectRequest c cfg msg_lockout else Next c)" for y r'
  proof -
    have "limiter cfg (red_attempts r ak) (red_locked r lk) =
        (if 0 < LockoutThreshold cfg \<and> LockoutThreshold cfg \<le> n then (LockOut, n, True) else (Pass, n, red_locked r lk))"
      if st: "stays r (rnow r') ak" "stays r (rnow r') lk"
    proof -
      have "stays r (rnow r2) ak" "stays r (rnow r2) lk"
        using stays_between st now now3 that \<open>rnow r3 \<le> rnow r'\<close> by (meson order_trans)+
      then show ?thesis
        using unlocked below n[OF st(1) \<open>rnow r3 \<le> rnow r'\<close>] by (auto simp: limiter_def)
    qed
    then show ?thesis using that now now3 by (auto simp: decides_def reply_def)
  qed
  show "wp (do { (if n = 1 then ignore (r_expire R ak (Window cfg)) else ret ());
           (if 0 < LockoutThreshold cfg \<and> LockoutThreshold cfg \<le> n then do {
              ignore (r_set R lk ''locked'' (LockoutDuration cfg));
              ret (Some (rejectRequest c cfg msg_lockout)) }
            else ret (Some (Next c))) }) (decides c cfg ak lk r) r3"
    by (intro wp_intro wp_r_expire wp_r_set finished) (auto simp: expire_post_def set_post_def writes_def)
qed

lemma wp_tryRedis_decides:
  assumes k: "counter_le m (rdata r ak)" "m < 2 ^ 63 - 1"
  shows "wp (tryRedis R c cfg ak lk) (decides c cfg ak lk r) r"
  unfolding tryRedis_def
proof (rule wp_bind)
  let ?first = "if 0 < LockoutThreshold cfg then r_get R lk else ret (Inl RNil)"
  have first: "wp ?first (\<lambda>a r1. reads r r1 \<and> ((\<forall>x. a \<noteq> Inl (RFail x)) \<longrightarrow> stays r (rnow r1) lk \<longrightarrow>
      (a = Inr ''locked'') = (0 < LockoutThreshold cfg \<and> red_locked r lk))) r"
    by (intro wp_if wp_r_get wp_return)
       (auto simp: get_post_def reads_def red_locked_def live_def stays_def split: sum.splits rerr.splits)
  show "wp ?first (\<lambda>a. wp (case a of Inl (RFail e) \<Rightarrow> ret None
     | _ \<Rightarrow> if a = Inr ''locked'' then ret (Some (rejectRequest c cfg msg_locked)) else do {
     res \<leftarrow> r_get R ak;
     case res of
       Inl (RFail e) \<Rightarrow> ret None
     | _ \<Rightarrow> (let currentCount = (case res of Inr countStr \<Rightarrow> if countStr \<noteq> [] then scan_int countStr else 0 | Inl _ \<Rightarrow> 0)
       in if MaxAttempts cfg \<le> currentCount then ret (Some (rejectRequest c cfg msg_limited)) else do {
       res \<leftarrow> r_incr R ak;
       case res of
         Inl e \<Rightarrow> ret None
       | Inr newCount \<Rightarrow> do {
           (if newCount = 1 then ignore (r_expire R ak (Window cfg)) else ret ());
           (if 0 < LockoutThreshold cfg \<and> LockoutThreshold cfg \<le> newCount then do {
              ignore (r_set R lk ''locked'' (LockoutDuration cfg));
              ret (Some (rejectRequest c cfg msg_lockout)) }
            else ret (Some (Next c))) } }) }) (decides c cfg ak lk r)) r"
  proof (rule wp_mono[OF first], elim conjE, rule nil_or_value, goal_cases)
    case (1 a r1 x)
    then show ?case by (intro wp_return decides_None) (simp add: reads_def)
  next
    case (2 a r1)
    then have rd: "reads r r1" and now: "rnow r \<le> rnow r1" and lk: "stays r (rnow r1) lk \<Longrightarrow>
      (a = Inr ''locked'') = (0 < LockoutThreshold cfg \<and> red_locked r lk)" by (auto simp: reads_def)
    show ?case
    proof (rule wp_if)
      assume "a = Inr ''locked''"
      then show "wp (ret (Some (rejectRequest c cfg msg_locked))) (decides c cfg ak lk r) r1"
        using lk now by (intro wp_return) (auto simp: decides_def limiter_def reply_def)
    next
      assume unl: "a \<noteq> Inr ''locked''"
      show "wp (do { res \<leftarrow> r_get R ak;
     case res of
       Inl (RFail e) \<Rightarrow> ret None
     | _ \<Rightarrow> (let currentCount = (case res of Inr countStr \<Rightarrow> if countStr \<noteq> [] then scan_int countStr else 0 | Inl _ \<Rightarrow> 0)
       in if MaxAttempts cfg \<le> currentCount then ret (Some (rejectRequest c cfg msg_limited)) else do {
       res \<leftarrow> r_incr R ak;
       case res of
         Inl e \<Rightarrow> ret None
       | Inr newCount \<Rightarrow> do {
           (if newCount = 1 then ignore (r_expire R ak (Window cfg)) else ret ());
           (if 0 < LockoutThreshold cfg \<and> LockoutThreshold cfg \<le> newCount then do {
              ignore (r_set R lk ''locked'' (LockoutDuration cfg));
              ret (Some (rejectRequest c cfg msg_lockout)) }
            else ret (Some (Next c))) } }) }) (decides c cfg ak lk r) r1"
      proof (rule wp_bind, rule wp_r_get, rule nil_or_value, goal_cases)
        case (1 b r2 x)
        then show ?case using now by (intro wp_return decides_None) (auto simp: get_post_def reads_def)
      next
        case (2 b r2)
        let ?n = "case b of Inr countStr \<Rightarrow> if countStr \<noteq> [] then scan_int countStr else 0 | Inl _ \<Rightarrow> 0"
        have rd2: "reads r1 r2" using 2(1) by (simp add: get_post_def)
        have d2: "rdata r2 = rdata r" and now2: "rnow r1 \<le> rnow r2" using rd rd2 by (auto simp: reads_def)
        have k1: "counter_le m (rdata r1 ak)" using k rd by (simp add: reads_def)
        have n: "?n = red_attempts r ak" if "stays r (rnow r2) ak"
          using get_counter[OF 2(1) k1 _ 2(2)] k(2) that d2
          by (auto simp: stays_def red_attempts_def scan_int_itoa)
        have lk2: "\<not> (0 < LockoutThreshold cfg \<and> red_locked r lk)" if "stays r (rnow r2) lk"
          using lk unl stays_between[OF that now now2] by simp
        show ?case
        proof (rule wp_Let, simp only:, rule wp_if)
          assume "MaxAttempts cfg \<le> ?n"
          then show "wp (ret (Some (rejectRequest c cfg msg_limited))) (decides c cfg ak lk r) r2"
            using n lk2 now now2 by (intro wp_return) (auto simp: decides_def limiter_def reply_def)
        next
          assume "\<not> MaxAttempts cfg \<le> ?n"
          then have "red_attempts r ak < MaxAttempts cfg" if "stays r (rnow r2) ak" using n[OF that] by simp
          then show "wp (do { res \<leftarrow> r_incr R ak;
             case res of
               Inl e \<Rightarrow> ret None
             | Inr newCount \<Rightarrow> do {
                 (if newCount = 1 then ignore (r_expire R ak (Window cfg)) else ret ());
                 (if 0 < LockoutThreshold cfg \<and> LockoutThreshold cfg \<le> newCount then do {
                    ignore (r_set R lk ''locked'' (LockoutDuration cfg));
                    ret (Some (rejectRequest c cfg msg_lockout)) }
                  else ret (Some (Next c))) } }) (decides c cfg ak lk r) r2"
            using lk2 d2 now now2 by (intro wp_decides_count[OF k]) auto
        qed
      qed
    qed
  qed
qed

end

end
