(* ===== verification/RateLimitSpec.thy ===== *)
theory RateLimitSpec
  imports RateLimitProofs Demo
begin

text \<open>
  What the limiter promises as a whole, Redis and memory together: the number of requests one
  window lets through, the decisions, and what the hard lockout is worth.
\<close>

section \<open>The memory window\<close>

text \<open>
  The entry was not used since \<open>t0\<close>, or its window started at \<open>t0\<close> or later and has counted the
  \<open>p\<close> requests that passed.
\<close>

definition mem_tracked :: "instant \<Rightarrow> int \<Rightarrow> int \<Rightarrow> memEntry \<Rightarrow> bool" where
  "mem_tracked t0 m p e \<longleftrightarrow> (p = 0 \<and> e = empty_entry) \<or>
     (\<exists>t. windowAt e = Some t \<and> t0 \<le> t \<and> p \<le> count e \<and> 0 \<le> count e \<and> count e \<le> m)"

lemma mem_tracked_le: "mem_tracked t0 m p e \<Longrightarrow> 0 \<le> m \<Longrightarrow> p \<le> m"
  by (auto simp: mem_tracked_def)

lemma memIsLocked_tracked:
  "mem_tracked t0 m p e \<Longrightarrow> mem_tracked t0 m p (snd (memIsLocked now e))"
  by (auto simp: memIsLocked_def mem_tracked_def empty_entry_def)

lemma mem_step_tracked:
  assumes t: "mem_tracked t0 (MaxAttempts cfg) p e" and m: "1 \<le> MaxAttempts cfg" "MaxAttempts cfg < 2 ^ 63"
    and now: "t0 \<le> now" "now < t0 + Window cfg" and step: "mem_step now cfg e = (d, e')"
  shows "mem_tracked t0 (MaxAttempts cfg) (p + (if d = Pass then 1 else 0)) e'"
proof -
  define e1 where "e1 = (if 0 < LockoutThreshold cfg then snd (memIsLocked now e) else e)"
  have t1: "mem_tracked t0 (MaxAttempts cfg) p e1" using t by (simp add: e1_def memIsLocked_tracked)
  obtain n2 e2 where e2: "memGetAttempts now (Window cfg) e1 = (n2, e2)" by fastforce
  have t2: "mem_tracked t0 (MaxAttempts cfg) p e2" "n2 = count e2" "\<exists>t. windowAt e2 = Some t \<and> t0 \<le> t \<and> p \<le> count e2 \<and> 0 \<le> count e2"
    using e2 t1 m now by (auto simp: memGetAttempts_def mem_tracked_def since_exceeds_def empty_entry_def split: if_splits)
  obtain n3 e3 where e3: "memIncr now (Window cfg) e2 = (n3, e3)" by fastforce
  have t3: "windowAt e3 = windowAt e2 \<and> count e3 = count e2 + 1" if "count e2 < MaxAttempts cfg"
    using e3 t2(3) m now that
    by (auto simp: memIncr_def since_exceeds_def Let_def wrap64_id split: if_splits)
  have "(if 0 < LockoutThreshold cfg then memIsLocked now e else (False, e)) = (fst (if 0 < LockoutThreshold cfg then memIsLocked now e else (False, e)), e1)"
    by (simp add: e1_def)
  then obtain b where b: "(if 0 < LockoutThreshold cfg then memIsLocked now e else (False, e)) = (b, e1)" by blast
  show ?thesis
    using step t1 t2 t3 unfolding mem_step_def b
    by (auto simp: e2 e3 mem_tracked_def memSetLockout_def empty_entry_def split: if_splits)
qed

lemma passed_reply:
  "ctx_keys c RateLimitErrorKey = None \<Longrightarrow> passed c (Some (reply c cfg d)) = (if d = Pass then 1 else 0)"
  by (cases d) (simp_all add: reply_def rejected_not_passed passed_def[of c "Some (Next c)"])

section \<open>A client's requests, through Redis or memory\<close>

fun handle :: "redis_api \<Rightarrow> RateLimitConfig \<Rightarrow> http_ctx list \<Rightarrow> (rl_world, mw_result list) state" where
  "handle R cfg [] = ret []"
| "handle R cfg (c # cs) = do {
     x \<leftarrow> RateLimitMiddleware R cfg c;
     xs \<leftarrow> handle R cfg cs;
     ret (x # xs) }"

definition client_state :: "RateLimitConfig \<Rightarrow> string \<Rightarrow> instant \<Rightarrow> int \<Rightarrow> rl_world \<Rightarrow> bool" where
  "client_state cfg i t0 n w \<longleftrightarrow> t0 \<le> rnow (w_redis w) \<and> (\<exists>p q. n = p + q \<and> 0 \<le> p \<and>
     tracked (attempts_key cfg i) (t0 + Window cfg) (MaxAttempts cfg) p (w_redis w) \<and>
     (rnow (w_redis w) < t0 + Window cfg \<longrightarrow> mem_tracked t0 (MaxAttempts cfg) q (mem_entry w (KeyPrefix cfg @ '':'' @ i))))"

lemma client_stateI:
  "t0 \<le> rnow (w_redis w) \<Longrightarrow> n = p + q \<Longrightarrow> 0 \<le> p \<Longrightarrow>
   tracked (attempts_key cfg i) (t0 + Window cfg) (MaxAttempts cfg) p (w_redis w) \<Longrightarrow>
   (rnow (w_redis w) < t0 + Window cfg \<Longrightarrow> mem_tracked t0 (MaxAttempts cfg) q (mem_entry w (KeyPrefix cfg @ '':'' @ i))) \<Longrightarrow>
   client_state cfg i t0 n w"
  by (auto simp: client_state_def)

context redis_server
begin

lemma wp_RateLimitMiddleware:
  fixes w :: rl_world
  assumes m: "1 \<le> MaxAttempts cfg" "MaxAttempts cfg < 2 ^ 63" and c: "ctx_keys c RateLimitErrorKey = None"
    and i: "rate_identifier cfg c = i" and inv: "client_state cfg i t0 n w"
  shows "wp (RateLimitMiddleware R cfg c) (\<lambda>x. client_state cfg i t0 (n + passed c (Some x))) w"
proof -
  from inv obtain p q where n: "n = p + q" "0 \<le> p" and t0: "t0 \<le> rnow (w_redis w)"
    and p: "tracked (attempts_key cfg i) (t0 + Window cfg) (MaxAttempts cfg) p (w_redis w)"
    and q: "rnow (w_redis w) < t0 + Window cfg \<Longrightarrow> mem_tracked t0 (MaxAttempts cfg) q (mem_entry w (KeyPrefix cfg @ '':'' @ i))"
    by (auto simp: client_state_def)
  have T: "t0 + Window cfg \<le> rnow (w_redis w) + Window cfg" using t0 by simp
  show ?thesis
    unfolding RateLimitMiddleware_def i Let_def
  proof (rule wp_bind, rule wp_rds, rule wp_mono[OF wp_tryRedis[OF m c p n(2) T limiter_keys_differ]], rule wp_case_option)
    fix x r y assume "limiter_post c cfg (attempts_key cfg i) (t0 + Window cfg) p (w_redis w) x r" and "x = Some y"
    then show "wp (ret y) (\<lambda>x. client_state cfg i t0 (n + passed c (Some x))) (w\<lparr>w_redis := r\<rparr>)"
      using n t0 q by (intro wp_return client_stateI[where p = "p + passed c (Some y)" and q = q])
        (simp_all add: limiter_post_def mem_entry_def)
  next
    fix x r assume post: "limiter_post c cfg (attempts_key cfg i) (t0 + Window cfg) p (w_redis w) x r" and x: "x = None"
    let ?k = "KeyPrefix cfg @ '':'' @ i" and ?w = "w\<lparr>w_redis := r\<rparr>"
    have p': "tracked (attempts_key cfg i) (t0 + Window cfg) (MaxAttempts cfg) p r" and now: "rnow (w_redis w) \<le> rnow r"
      using post x by (simp_all add: limiter_post_def passed_def)
    obtain d e where step: "mem_step (rnow (w_redis ?w)) cfg (mem_entry ?w ?k) = (d, e)" by fastforce
    have "mem_entry ?w ?k = mem_entry w ?k" by (simp add: mem_entry_def)
    then have q': "mem_tracked t0 (MaxAttempts cfg) (q + (if d = Pass then 1 else 0)) e" if "rnow r < t0 + Window cfg"
      using mem_step_tracked[OF _ m _ _ step] q t0 now that by simp
    obtain mm where run: "run_state (tryMemory c cfg ?k) ?w = (reply c cfg d, ?w\<lparr>rl_mem := mm\<rparr>)" and mm: "mm ?k = Some e"
      using run_tryMemory[OF step] by blast
    have "client_state cfg i t0 (n + passed c (Some (reply c cfg d))) (?w\<lparr>rl_mem := mm\<rparr>)"
      unfolding passed_reply[OF c]
      by (rule client_stateI[where p = p and q = "q + (if d = Pass then 1 else 0)"])
         (use n t0 now p' q' mm in \<open>simp_all add: mem_entry_def\<close>)
    then show "wp (tryMemory c cfg ?k) (\<lambda>x. client_state cfg i t0 (n + passed c (Some x))) ?w"
      unfolding wp_def run by simp
  qed
qed

lemma wp_handle:
  fixes w :: rl_world
  assumes m: "1 \<le> MaxAttempts cfg" "MaxAttempts cfg < 2 ^ 63"
    and "\<forall>c\<in>set cs. ctx_keys c RateLimitErrorKey = None \<and> rate_identifier cfg c = i" and "client_state cfg i t0 n w"
  shows "wp (handle R cfg cs) (\<lambda>xs. client_state cfg i t0 (n + admitted cs (map Some xs))) w"
  using assms(3,4)
proof (induction cs arbitrary: n w)
  case Nil
  then show ?case by (auto intro!: wp_return)
next
  case (Cons c cs)
  then have c: "ctx_keys c RateLimitErrorKey = None" "rate_identifier cfg c = i" by simp_all
  show ?case
    unfolding handle.simps
  proof (rule wp_bind, rule wp_mono[OF wp_RateLimitMiddleware[OF m c Cons.prems(2)]], rule wp_bind)
    fix x w1 assume "client_state cfg i t0 (n + passed c (Some x)) w1"
    then have "wp (handle R cfg cs) (\<lambda>xs. client_state cfg i t0 (n + passed c (Some x) + admitted cs (map Some xs))) w1"
      using Cons by simp
    then show "wp (handle R cfg cs) (\<lambda>xs. wp (ret (x # xs)) (\<lambda>xs. client_state cfg i t0 (n + admitted (c # cs) (map Some xs)))) w1"
      by (rule wp_mono) (simp add: wp_return add.assoc)
  qed
qed

end

section \<open>Properties\<close>

definition demo_rl :: rl_world where
  "demo_rl = \<lparr>w_redis = empty_redis, w_rand = 0, rl_mem = (\<lambda>_. None)\<rparr>"

definition demo_handled :: "mw_result list \<times> rl_world" where
  "demo_handled = run_state (handle demo_redis APIRegisterRateLimit (replicate 4 (demo_ctx []))) demo_rl"

definition demo_locked :: redis where
  "demo_locked = \<lparr>rdata = map_of [(''rl:api:login:lockout:i'', (RStr ''locked'', Some hour))], rnow = 0\<rparr>"

lemma demo_stays: "t < hour \<Longrightarrow> stays demo_locked t k"
  by (simp add: stays_def demo_locked_def entry_at_def expired_def)

text \<open>
  C17: a window lets through at most twice the limit.  A client without counters sends any
  number of requests, handled one after another, within one window of a configured limiter; at
  most \<open>MaxAttempts\<close> are let through by Redis and as many by the memory store, whatever Redis
  commands fail and however often the middleware changes from one to the other.
\<close>

theorem limiter_bounds_window:
  assumes "redis_server R" and "cfg \<in> set all_limits"
    and "\<forall>c\<in>set cs. ctx_keys c RateLimitErrorKey = None \<and> rate_identifier cfg c = i"
    and "rdata (w_redis w) (attempts_key cfg i) = None" and "rl_mem w (KeyPrefix cfg @ '':'' @ i) = None"
    and "run_state (handle R cfg cs) w = (xs, w')"
    and "rnow (w_redis w') < rnow (w_redis w) + Window cfg"
  shows "admitted cs (map Some xs) \<le> 2 * MaxAttempts cfg"
proof -
  have m: "1 \<le> MaxAttempts cfg" "MaxAttempts cfg < 2 ^ 63" using assms(2) preset_limits by auto
  have "client_state cfg i (rnow (w_redis w)) 0 w"
    using assms(4,5) by (intro client_stateI[where p = 0 and q = 0])
      (simp_all add: tracked_def counter_le_def counts_to_def entry_at_None mem_tracked_def mem_entry_def)
  from wpD[OF redis_server.wp_handle[OF assms(1) m assms(3) this] assms(6)]
  obtain p q where "admitted cs (map Some xs) = p + q"
    "tracked (attempts_key cfg i) (rnow (w_redis w) + Window cfg) (MaxAttempts cfg) p (w_redis w')"
    "mem_tracked (rnow (w_redis w)) (MaxAttempts cfg) q (mem_entry w' (KeyPrefix cfg @ '':'' @ i))"
    using assms(7) by (auto simp: client_state_def)
  with tracked_le[of "attempts_key cfg i" _ "MaxAttempts cfg" p "w_redis w'"] mem_tracked_le m(1) assms(7)
  show ?thesis by fastforce
qed

theorem limiter_bounds_window_witness:
  "admitted (replicate 4 (demo_ctx [])) (map Some (fst demo_handled)) \<le> 2 * MaxAttempts APIRegisterRateLimit"
proof (rule limiter_bounds_window[OF ref0.redis_server_axioms])
  show "APIRegisterRateLimit \<in> set all_limits" by (simp add: all_limits_def)
  show "\<forall>c\<in>set (replicate 4 (demo_ctx [])). ctx_keys c RateLimitErrorKey = None \<and>
      rate_identifier APIRegisterRateLimit c = ''10.0.0.1''"
    by (simp add: demo_ctx_def rate_identifier_def APIRegisterRateLimit_def limit_def)
  show "run_state (handle demo_redis APIRegisterRateLimit (replicate 4 (demo_ctx []))) demo_rl =
      (fst demo_handled, snd demo_handled)" by (simp add: demo_handled_def)
  show "rnow (w_redis (snd demo_handled)) < rnow (w_redis demo_rl) + Window APIRegisterRateLimit" by code_simp
qed (simp_all add: demo_rl_def empty_redis_def)

text \<open>
  The hard lockout of the configured limiters is out of reach.  In every limiter the
  request that would bring the count to the lockout threshold is refused by the smaller request
  limit before it is counted: requests of one client served one after another never write the
  lockout key and are never answered with the lockout message, however many there are.
\<close>

theorem lockout_never_set:
  assumes "redis_server R" and "cfg \<in> set all_limits"
    and "\<forall>c\<in>set cs. ctx_keys c RateLimitErrorKey = None"
    and "rdata r (attempts_key cfg i) = None"
    and "run_state (serve R cfg (attempts_key cfg i) (lockout_key cfg i) cs) r = (xs, r')"
  shows "rdata r' (lockout_key cfg i) = rdata r (lockout_key cfg i) \<and> Some (Abort 429 msg_lockout) \<notin> set xs"
  using redis_server.no_lockout[OF assms(1) _ _ limiter_keys_differ _ assms(3) _ assms(5)] assms(2,4) preset_limits
  by (auto simp: counter_le_def)

theorem lockout_never_set_witness:
  "rdata (snd (run_state (serve demo_redis APILoginRateLimit (attempts_key APILoginRateLimit ''i'')
      (lockout_key APILoginRateLimit ''i'') (replicate 31 (demo_ctx []))) empty_redis)) (lockout_key APILoginRateLimit ''i'') =
    rdata empty_redis (lockout_key APILoginRateLimit ''i'')"
  by (rule lockout_never_set[OF ref0.redis_server_axioms, THEN conjunct1, OF _ _ _ prod.collapse[symmetric]])
     (simp_all add: all_limits_def demo_ctx_def empty_redis_def)

text \<open>
  The memory store implements the decision function.  On an entry whose counter has not
  overflowed, \<open>tryMemory\<close> answers as \<open>limiter\<close> decides on the attempts in the current window
  and the lock, leaves the entry as it says, and touches no other entry and not Redis.
\<close>

theorem memory_implements_limiter:
  assumes "run_state (tryMemory c cfg k) w = (x, w')"
    and "0 \<le> Window cfg" and "0 \<le> LockoutDuration cfg"
    and "0 \<le> count (mem_entry w k)" and "count (mem_entry w k) < 2 ^ 63 - 1"
    and "limiter cfg (mem_attempts (rnow (w_redis w)) cfg (mem_entry w k)) (mem_locked (rnow (w_redis w)) (mem_entry w k)) = (d, n', l')"
  shows "x = reply c cfg d \<and> mem_attempts (rnow (w_redis w)) cfg (mem_entry w' k) = n' \<and>
     mem_locked (rnow (w_redis w)) (mem_entry w' k) = l' \<and> w_redis w' = w_redis w \<and>
     (\<forall>j. j \<noteq> k \<longrightarrow> rl_mem w' j = rl_mem w j)"
  using assms by (rule tryMemory_limiter)

theorem memory_implements_limiter_witness:
  "fst (run_state (tryMemory (demo_ctx []) LoginRateLimit ''k'') demo_rl) = reply (demo_ctx []) LoginRateLimit Pass"
  by (rule memory_implements_limiter[where n' = 1 and l' = False, OF prod.collapse[symmetric], THEN conjunct1])
     (simp_all add: LoginRateLimit_def limit_def with_lockout_def demo_rl_def mem_entry_def empty_entry_def
        limiter_def mem_attempts_def mem_locked_def since_exceeds_def)

text \<open>
  C18: Redis makes the same decisions.  Whenever \<open>tryRedis\<close> answers itself instead of handing
  over to the memory store, and no counter or lock runs out while it works, its answer is the
  one \<open>limiter\<close> gives on the counter and the lock that Redis held at the start.
\<close>

theorem redis_implements_limiter:
  assumes "redis_server R" and "counter_le m (rdata r ak)" and "m < 2 ^ 63 - 1"
    and "run_state (tryRedis R c cfg ak lk) r = (Some x, r')"
    and "stays r (rnow r') ak" and "stays r (rnow r') lk"
  shows "x = reply c cfg (fst (limiter cfg (red_attempts r ak) (red_locked r lk)))"
  using wpD[OF redis_server.wp_tryRedis_decides[OF assms(1-3)] assms(4)] assms(5,6) by (auto simp: decides_def)

theorem redis_implements_limiter_witness:
  "\<exists>x. fst (run_state (tryRedis demo_redis (demo_ctx []) APILoginRateLimit (attempts_key APILoginRateLimit ''i'')
      (lockout_key APILoginRateLimit ''i'')) demo_locked) = Some x \<and> x = reply (demo_ctx []) APILoginRateLimit Locked"
proof -
  have "case fst (run_state (tryRedis demo_redis (demo_ctx []) APILoginRateLimit (attempts_key APILoginRateLimit ''i'')
      (lockout_key APILoginRateLimit ''i'')) demo_locked) of Some _ \<Rightarrow> True | None \<Rightarrow> False"
    by code_simp
  then obtain x where x: "fst (run_state (tryRedis demo_redis (demo_ctx []) APILoginRateLimit (attempts_key APILoginRateLimit ''i'')
      (lockout_key APILoginRateLimit ''i'')) demo_locked) = Some x"
    by (auto split: option.splits)
  have "x = reply (demo_ctx []) APILoginRateLimit (fst (limiter APILoginRateLimit (red_attempts demo_locked (attempts_key APILoginRateLimit ''i''))
      (red_locked demo_locked (lockout_key APILoginRateLimit ''i''))))"
  proof (rule redis_implements_limiter[OF ref0.redis_server_axioms _ _ run_eq[OF x], where m = 15])
    show "counter_le 15 (rdata demo_locked (attempts_key APILoginRateLimit ''i''))"
      by (simp add: counter_le_def demo_locked_def attempts_key_def APILoginRateLimit_def limit_def with_lockout_def)
    have t: "rnow (snd (run_state (tryRedis demo_redis (demo_ctx []) APILoginRateLimit
       (attempts_key APILoginRateLimit ''i'') (lockout_key APILoginRateLimit ''i'')) demo_locked)) < hour"
      by code_simp
    from demo_stays[OF t] demo_stays[OF t]
    show "stays demo_locked (rnow (snd (run_state (tryRedis demo_redis (demo_ctx []) APILoginRateLimit
       (attempts_key APILoginRateLimit ''i'') (lockout_key APILoginRateLimit ''i'')) demo_locked))) (attempts_key APILoginRateLimit ''i'')"
      and "stays demo_locked (rnow (snd (run_state (tryRedis demo_redis (demo_ctx []) APILoginRateLimit
       (attempts_key APILoginRateLimit ''i'') (lockout_key APILoginRateLimit ''i'')) demo_locked))) (lockout_key APILoginRateLimit ''i'')" .
  qed simp
  moreover have "fst (limiter APILoginRateLimit (red_attempts demo_locked (attempts_key APILoginRateLimit ''i''))
      (red_locked demo_locked (lockout_key APILoginRateLimit ''i''))) = Locked"
    by code_simp
  ultimately show ?thesis using x by simp
qed

end
