(* ===== verification/Guards.thy ===== *)
theory Guards
  imports AuthMiddleware
begin

text \<open>
  The other guards of \<open>internal/middleware\<close>: which application a request is for, API keys and
  their scopes, the admin interface with its session cookie and CSRF token.  UUIDs are strings
  in canonical form, \<open>parse_uuid\<close> is \<open>uuid.Parse\<close>; SHA-256 in hexadecimal is a parameter.
\<close>

section \<open>Scopes\<close>

definition ApiKeyScopesKey :: string where "ApiKeyScopesKey = ''api_key_scopes''"
definition AuthTypeKey :: string where "AuthTypeKey = ''auth_type''"
definition AppIDKey :: string where "AppIDKey = ''app_id''"

definition parseScopes :: "string \<Rightarrow> string list" where
  "parseScopes raw0 = (let raw = TrimSpace raw0 in
     if raw = [] then [] else filter (\<lambda>p. p \<noteq> []) (map TrimSpace (Split raw (CHR '',''))))"

text \<open>One granted scope against the required one, cut at its first colon.\<close>

definition scope_covers :: "string \<Rightarrow> string \<Rightarrow> bool" where
  "scope_covers required g = (let requiredParts = SplitN required (CHR '':'') 2 in
     g = ''*'' \<or> g = required \<or>
     HasSuffix g '':*'' \<and> length requiredParts = 2 \<and> TrimSuffix g '':*'' = hd requiredParts)"

definition HasScope :: "http_ctx \<Rightarrow> string \<Rightarrow> bool" where
  "HasScope c required = (case ctx_keys c ApiKeyScopesKey of
       None \<Rightarrow> True
     | Some (CStrs granted) \<Rightarrow> granted \<noteq> [] \<and> (\<exists>g\<in>set granted. scope_covers required g)
     | Some _ \<Rightarrow> False)"

section \<open>The application of a request\<close>

definition skips_app_id :: "string \<Rightarrow> bool" where
  "skips_app_id path \<longleftrightarrow> HasPrefix path ''/swagger'' \<or> HasPrefix path ''/admin'' \<or> HasPrefix path ''/gui'' \<or>
     HasPrefix path ''/oidc''"

definition AppIDMiddleware :: "(string \<Rightarrow> string option) \<Rightarrow> http_ctx \<Rightarrow> mw_result" where
  "AppIDMiddleware parse_uuid c = (let path = Path c in
     if skips_app_id path then Next c
     else let appIDStr = (if GetHeader c ''X-App-ID'' = [] then Query c ''app_id'' else GetHeader c ''X-App-ID'') in
     if appIDStr = [] \<and> HasPrefix path ''/auth'' \<and> Contains path ''/callback'' then Next c
     else if appIDStr = [] then Abort 400 ''X-App-ID header is required''
     else case parse_uuid appIDStr of
       None \<Rightarrow> Abort 400 ''Invalid App ID''
     | Some appID \<Rightarrow> Next (SetKey AppIDKey (CUuid appID) c))"

definition AppRouteGuardMiddleware :: "(string \<Rightarrow> string option) \<Rightarrow> http_ctx \<Rightarrow> mw_result" where
  "AppRouteGuardMiddleware parse_uuid c = (case ctx_keys c AppIDKey of
       None \<Rightarrow> Abort 400 ''X-App-ID header is required''
     | Some (CUuid contextAppID) \<Rightarrow> (let urlIDStr = Param c ''id'' in
         if urlIDStr = [] then Abort 400 ''App ID is required in URL''
         else case parse_uuid urlIDStr of
           None \<Rightarrow> Abort 400 ''Invalid App ID in URL''
         | Some urlAppID \<Rightarrow> (if contextAppID \<noteq> urlAppID
             then Abort 403 ''X-App-ID header does not match the application in the URL'' else Next c))
     | Some _ \<Rightarrow> Abort 400 ''Invalid App ID in context'')"

section \<open>API keys\<close>

record ApiKey =
  ak_ID :: string
  ak_KeyType :: string
  ak_Scopes :: string
  ak_AppID :: "string option"

definition KeyTypeAdmin :: string where "KeyTypeAdmin = ''admin''"
definition KeyTypeApp :: string where "KeyTypeApp = ''app''"

text \<open>
  The key validator: lookup of an active key by hash, and the two bookkeeping calls the code
  starts in goroutines, here run in place; neither reports anything back.
\<close>

record 's key_validator =
  FindActiveKeyByHash :: "string \<Rightarrow> ('s, string + ApiKey option) state"
  UpdateApiKeyLastUsed :: "string \<Rightarrow> ('s, unit) state"
  IncrementDailyUsage :: "string \<Rightarrow> ('s, unit) state"

definition AppApiKeyMiddleware ::
    "'s key_validator option \<Rightarrow> (string \<Rightarrow> string) \<Rightarrow> http_ctx \<Rightarrow> ('s, mw_result) state" where
  "AppApiKeyMiddleware keyValidator sha256hex c = (case keyValidator of
       None \<Rightarrow> ret (Abort 500 ''App API key validation not configured'')
     | Some kv \<Rightarrow> (let apiKey = GetHeader c ''X-App-API-Key'' in
         if apiKey = [] then ret (Abort 401 ''X-App-API-Key header is required'')
         else case ctx_keys c AppIDKey of
           None \<Rightarrow> ret (Abort 400 ''X-App-ID header is required'')
         | Some (CUuid appID) \<Rightarrow> do {
             res \<leftarrow> FindActiveKeyByHash kv (sha256hex apiKey);
             case res of
               Inr (Some foundKey) \<Rightarrow>
                 if ak_KeyType foundKey \<noteq> KeyTypeApp then ret (Abort 401 ''Invalid App API Key'')
                 else if ak_AppID foundKey \<noteq> Some appID then ret (Abort 401 ''API key does not match the application'')
                 else do {
                   UpdateApiKeyLastUsed kv (ak_ID foundKey);
                   IncrementDailyUsage kv (ak_ID foundKey);
                   let scopes = parseScopes (ak_Scopes foundKey);
                   ret (Next (SetKey AuthTypeKey (CStr ''app'') (SetKey ApiKeyScopesKey (CStrs scopes) c))) }
             | _ \<Rightarrow> ret (Abort 401 ''Invalid App API Key'') }
         | Some _ \<Rightarrow> ret (Abort 400 ''Invalid App ID'')))"

definition AdminAuthMiddleware ::
    "string \<Rightarrow> 's key_validator option \<Rightarrow> (string \<Rightarrow> string) \<Rightarrow> http_ctx \<Rightarrow> ('s, mw_result) state" where
  "AdminAuthMiddleware requiredKey keyValidator sha256hex c = (let apiKey = GetHeader c ''X-Admin-API-Key'';
       refuse = (if requiredKey = [] \<and> Option.is_none keyValidator then Abort 500 ''Admin API access not configured''
                 else Abort 401 ''Invalid Admin API Key'')
     in if apiKey = [] then ret (Abort 401 ''X-Admin-API-Key header is required'')
     else if requiredKey \<noteq> [] \<and> apiKey = requiredKey then ret (Next (SetKey AuthTypeKey (CStr ''admin'') c))
     else case keyValidator of
       None \<Rightarrow> ret refuse
     | Some kv \<Rightarrow> do {
         res \<leftarrow> FindActiveKeyByHash kv (sha256hex apiKey);
         case res of
           Inr (Some foundKey) \<Rightarrow> if ak_KeyType foundKey = KeyTypeAdmin then do {
               UpdateApiKeyLastUsed kv (ak_ID foundKey);
               IncrementDailyUsage kv (ak_ID foundKey);
               let scopes = parseScopes (ak_Scopes foundKey);
               ret (Next (SetKey AuthTypeKey (CStr ''admin'') (SetKey ApiKeyScopesKey (CStrs scopes) c))) }
             else ret refuse
         | _ \<Rightarrow> ret refuse })"

section \<open>The admin interface\<close>

definition GUISessionIDKey :: string where "GUISessionIDKey = ''admin_session_id''"
definition GUIAdminIDKey :: string where "GUIAdminIDKey = ''admin_id''"
definition GUIAdminUsernameKey :: string where "GUIAdminUsernameKey = ''admin_username''"
definition CSRFTokenKey :: string where "CSRFTokenKey = ''csrf_token''"
definition AdminSessionCookie :: string where "AdminSessionCookie = ''admin_session''"

definition sessionExpiration :: "int \<Rightarrow> duration" where
  "sessionExpiration hours0 = (let hours = (if hours0 \<le> 0 then 8 else hours0) in wrap64 (hours * hour))"

text \<open>\<open>hex_token n\<close> is the hexadecimal text of the \<open>n\<close>-th 32 bytes drawn from \<open>crypto/rand\<close>.\<close>

definition admin_CreateSession ::
    "redis_api \<Rightarrow> (nat \<Rightarrow> string) \<Rightarrow> int \<Rightarrow> string \<Rightarrow> ('z world_scheme, string + string) state" where
  "admin_CreateSession R hex_token hours adminID = do {
     sessionID \<leftarrow> draw hex_token;
     err \<leftarrow> rds (SetAdminSession R sessionID adminID (sessionExpiration hours));
     ret (case err of Some e \<Rightarrow> Inl ''failed to store session'' | None \<Rightarrow> Inr sessionID) }"

definition admin_Logout :: "redis_api \<Rightarrow> string \<Rightarrow> (redis, rerr option) state" where
  "admin_Logout R sessionID = DeleteAdminSession R sessionID"

text \<open>\<open>GetByID\<close> is the account repository.\<close>

definition ValidateSession ::
    "redis_api \<Rightarrow> (string \<Rightarrow> 'acc option) \<Rightarrow> string \<Rightarrow> (redis, string + 'acc) state" where
  "ValidateSession R GetByID sessionID = (if sessionID = [] then ret (Inl ''empty session ID'') else do {
     res \<leftarrow> GetAdminSession R sessionID;
     ret (case res of
         Inl e \<Rightarrow> Inl ''invalid or expired session''
       | Inr adminID \<Rightarrow> (case GetByID adminID of None \<Rightarrow> Inl ''admin account not found'' | Some a \<Rightarrow> Inr a)) })"

definition GenerateCSRFToken ::
    "redis_api \<Rightarrow> (nat \<Rightarrow> string) \<Rightarrow> int \<Rightarrow> string \<Rightarrow> ('z world_scheme, string + string) state" where
  "GenerateCSRFToken R hex_token hours sessionID = do {
     res \<leftarrow> rds (GetCSRFToken R sessionID);
     let existing = (case res of Inr t \<Rightarrow> t | Inl _ \<Rightarrow> []);
     (if existing \<noteq> [] then ret (Inr existing) else do {
        token \<leftarrow> draw hex_token;
        err \<leftarrow> rds (SetCSRFToken R sessionID token (sessionExpiration hours));
        ret (case err of Some e \<Rightarrow> Inl ''failed to store CSRF token'' | None \<Rightarrow> Inr token) }) }"

definition ValidateCSRFToken :: "redis_api \<Rightarrow> string \<Rightarrow> string \<Rightarrow> (redis, bool) state" where
  "ValidateCSRFToken R sessionID token = (if sessionID = [] \<or> token = [] then ret False else do {
     res \<leftarrow> GetCSRFToken R sessionID;
     ret (case res of Inl e \<Rightarrow> False | Inr storedToken \<Rightarrow> storedToken = token) })"

definition CSRFMiddleware ::
    "redis_api \<Rightarrow> (nat \<Rightarrow> string) \<Rightarrow> int \<Rightarrow> http_ctx \<Rightarrow> ('z world_scheme, mw_result) state" where
  "CSRFMiddleware R hex_token hours c = (case ctx_keys c GUISessionIDKey of
       Some (CStr sessionIDStr) \<Rightarrow> (if sessionIDStr = [] then ret (Next c)
         else if Method c \<in> {''GET'', ''HEAD'', ''OPTIONS''} then do {
           res \<leftarrow> GenerateCSRFToken R hex_token hours sessionIDStr;
           ret (case res of Inl e \<Rightarrow> Next c | Inr token \<Rightarrow> Next (SetKey CSRFTokenKey (CStr token) c)) }
         else let token = (if GetHeader c ''X-CSRF-Token'' = [] then PostForm c ''_csrf'' else GetHeader c ''X-CSRF-Token'')
         in if token = [] then ret (Abort 403 ''CSRF token missing'') else do {
           ok \<leftarrow> rds (ValidateCSRFToken R sessionIDStr token);
           ret (if ok then Next (SetKey CSRFTokenKey (CStr token) c) else Abort 403 ''CSRF token invalid'') })
     | _ \<Rightarrow> ret (Next c))"

record AdminAccount =
  aa_ID :: string
  aa_Username :: string

definition redirectToLogin :: "http_ctx \<Rightarrow> mw_result" where
  "redirectToLogin c = (let originalURL = Path c in
     if originalURL = ''/gui/'' \<or> originalURL = ''/gui'' then Redirect ''/gui/login''
     else Redirect (''/gui/login?redirect='' @ originalURL))"

text \<open>Clearing the cookie of an invalid session is an answer header, left out.\<close>

definition GUIAuthMiddleware ::
    "redis_api \<Rightarrow> (string \<Rightarrow> AdminAccount option) \<Rightarrow> http_ctx \<Rightarrow> (redis, mw_result) state" where
  "GUIAuthMiddleware R GetByID c = (let path = Path c in
     if path \<in> {''/gui/login'', ''/gui/2fa-verify'', ''/gui/2fa-resend-email'', ''/gui/passkey-login/begin'',
                ''/gui/passkey-login/finish''} \<or> HasPrefix path ''/gui/static/'' then ret (Next c)
     else case Cookie c AdminSessionCookie of
       None \<Rightarrow> ret (redirectToLogin c)
     | Some sessionID \<Rightarrow> if sessionID = [] then ret (redirectToLogin c) else do {
         res \<leftarrow> ValidateSession R GetByID sessionID;
         ret (case res of
             Inl e \<Rightarrow> redirectToLogin c
           | Inr account \<Rightarrow> Next (SetKey GUISessionIDKey (CStr sessionID)
               (SetKey GUIAdminUsernameKey (CStr (aa_Username account))
                 (SetKey GUIAdminIDKey (CStr (aa_ID account)) c)))) })"

end
