(* ===== verification/GuardProofs.thy ===== *)
theory GuardProofs
  imports Guards AuthProofs
begin

text \<open>
  What the guards let through: scopes, the application a key and a URL belong to, requests of
  the admin interface.
\<close>

section \<open>Scopes\<close>

lemma SplitN2_iff:
  "length (SplitN s c 2) = 2 \<and> hd (SplitN s c 2) = a \<longleftrightarrow> c \<notin> set a \<and> (\<exists>b. s = a @ c # b)"
proof
  assume h: "length (SplitN s c 2) = 2 \<and> hd (SplitN s c 2) = a"
  then have c: "c \<in> set s" and a: "a = before c s" by (auto simp: numeral_2_eq_2 split: if_splits)
  have "c \<notin> set (before c s)" by (auto simp: before_def dest: set_takeWhileD)
  moreover have "s = before c s @ c # after c s"
    using c by (induction s) (auto simp: before_def after_def)
  ultimately show "c \<notin> set a \<and> (\<exists>b. s = a @ c # b)" using a by metis
next
  assume "c \<notin> set a \<and> (\<exists>b. s = a @ c # b)"
  then show "length (SplitN s c 2) = 2 \<and> hd (SplitN s c 2) = a"
    by (auto simp: numeral_2_eq_2 before_append after_append)
qed

lemma scope_covers_iff:
  "scope_covers required g \<longleftrightarrow> g = ''*'' \<or> g = required \<or>
     (\<exists>resource act. CHR '':'' \<notin> set resource \<and> g = resource @ '':*'' \<and> required = resource @ '':'' @ act)"
proof -
  have "HasSuffix g '':*'' \<and> length (SplitN required (CHR '':'') 2) = 2 \<and>
      TrimSuffix g '':*'' = hd (SplitN required (CHR '':'') 2) \<longleftrightarrow>
    (\<exists>resource act. CHR '':'' \<notin> set resource \<and> g = resource @ '':*'' \<and> required = resource @ '':'' @ act)"
    (is "?l \<longleftrightarrow> ?r")
  proof
    assume ?l
    then obtain res where g: "g = res @ '':*''" by (auto simp: HasSuffix_iff)
    with \<open>?l\<close> have "length (SplitN required (CHR '':'') 2) = 2 \<and> hd (SplitN required (CHR '':'') 2) = res"
      by (metis TrimSuffix_append)
    then show ?r using g SplitN2_iff by (metis append_Cons append_Nil)
  next
    assume ?r
    then obtain res act where r: "CHR '':'' \<notin> set res" "g = res @ '':*''" "required = res @ '':'' @ act" by blast
    then have "length (SplitN required (CHR '':'') 2) = 2 \<and> hd (SplitN required (CHR '':'') 2) = res"
      using SplitN2_iff by (metis append_Cons append_Nil)
    with r show ?l by (metis HasSuffix_append TrimSuffix_append)
  qed
  then show ?thesis by (simp add: scope_covers_def Let_def)
qed

section \<open>Application keys\<close>

text \<open>The chain of \<open>cmd/api/main.go\<close> in front of the routes for one application.\<close>

definition app_chain ::
    "(string \<Rightarrow> string option) \<Rightarrow> 's key_validator option \<Rightarrow> (string \<Rightarrow> string) \<Rightarrow> http_ctx \<Rightarrow> ('s, mw_result) state" where
  "app_chain parse_uuid kv sha c = (case AppIDMiddleware parse_uuid c of
       Next c1 \<Rightarrow> do {
         x \<leftarrow> AppApiKeyMiddleware kv sha c1;
         ret (case x of Next c2 \<Rightarrow> AppRouteGuardMiddleware parse_uuid c2 | _ \<Rightarrow> x) }
     | y \<Rightarrow> ret y)"

lemma AppApiKeyMiddleware_next:
  assumes "run_state (AppApiKeyMiddleware kv sha c) s = (Next c', s')"
  shows "\<exists>v k a s1. kv = Some v \<and> run_state (FindActiveKeyByHash v (sha (GetHeader c ''X-App-API-Key''))) s = (Inr (Some k), s1) \<and>
     ak_KeyType k = KeyTypeApp \<and> ak_AppID k = Some a \<and> ctx_keys c AppIDKey = Some (CUuid a) \<and>
     c' = SetKey AuthTypeKey (CStr ''app'') (SetKey ApiKeyScopesKey (CStrs (parseScopes (ak_Scopes k))) c)"
  using assms
  by (auto simp: AppApiKeyMiddleware_def Let_def split: option.splits if_splits ctx_val.splits sum.splits prod.splits)

lemma AppRouteGuard_next:
  "AppRouteGuardMiddleware parse_uuid c = Next c' \<longleftrightarrow> c' = c \<and>
     (\<exists>a. ctx_keys c AppIDKey = Some (CUuid a) \<and> Param c ''id'' \<noteq> [] \<and> parse_uuid (Param c ''id'') = Some a)"
  by (auto simp: AppRouteGuardMiddleware_def Let_def split: option.splits ctx_val.splits)

lemma AppID_next:
  "AppIDMiddleware parse_uuid c = Next c' \<Longrightarrow> ctx_keys c AppIDKey = None \<Longrightarrow> ctx_keys c' AppIDKey = Some (CUuid a) \<Longrightarrow>
   parse_uuid (if GetHeader c ''X-App-ID'' = [] then Query c ''app_id'' else GetHeader c ''X-App-ID'') = Some a \<and>
   c' = SetKey AppIDKey (CUuid a) c"
  by (auto simp: AppIDMiddleware_def Let_def split: if_splits option.splits)

lemma app_chain_next:
  assumes run: "run_state (app_chain parse_uuid kv sha c) s = (Next c', s')" and "ctx_keys c AppIDKey = None"
  shows "\<exists>v k a s1. kv = Some v \<and> run_state (FindActiveKeyByHash v (sha (GetHeader c ''X-App-API-Key''))) s = (Inr (Some k), s1) \<and>
     ak_KeyType k = KeyTypeApp \<and> ak_AppID k = Some a \<and> parse_uuid (Param c ''id'') = Some a \<and>
     parse_uuid (if GetHeader c ''X-App-ID'' = [] then Query c ''app_id'' else GetHeader c ''X-App-ID'') = Some a \<and>
     ctx_keys c' ApiKeyScopesKey = Some (CStrs (parseScopes (ak_Scopes k)))"
proof -
  from run obtain c1 x c2 where c1: "AppIDMiddleware parse_uuid c = Next c1"
    and x: "run_state (AppApiKeyMiddleware kv sha c1) s = (Next c2, s')" and g: "AppRouteGuardMiddleware parse_uuid c2 = Next c'"
    by (auto simp: app_chain_def split: mw_result.splits prod.splits)
  from AppApiKeyMiddleware_next[OF x] obtain v k a s1 where kv: "kv = Some v"
    "run_state (FindActiveKeyByHash v (sha (GetHeader c1 ''X-App-API-Key''))) s = (Inr (Some k), s1)"
    "ak_KeyType k = KeyTypeApp" "ak_AppID k = Some a" and a: "ctx_keys c1 AppIDKey = Some (CUuid a)"
    and c2: "c2 = SetKey AuthTypeKey (CStr ''app'') (SetKey ApiKeyScopesKey (CStrs (parseScopes (ak_Scopes k))) c1)"
    by blast
  from AppID_next[OF c1 assms(2) a] have h: "parse_uuid (if GetHeader c ''X-App-ID'' = [] then Query c ''app_id'' else GetHeader c ''X-App-ID'') = Some a"
    and c1': "c1 = SetKey AppIDKey (CUuid a) c" by simp_all
  from g c2 c1' have "c' = c2" "parse_uuid (Param c ''id'') = Some a"
    by (auto simp: AppRouteGuard_next SetKey_def AppIDKey_def AuthTypeKey_def ApiKeyScopesKey_def)
  with kv h c1' c2 show ?thesis by (auto simp: SetKey_def AuthTypeKey_def ApiKeyScopesKey_def)
qed

section \<open>The admin interface\<close>

context redis_server
begin

lemma wp_ValidateCSRFToken:
  "wp (ValidateCSRFToken R sid tok) (\<lambda>x r'. reads r r' \<and> (x \<longrightarrow> tok \<noteq> [] \<and> live r' (''admin:csrf:'' @ sid) = Some (RStr tok))) r"
  unfolding ValidateCSRFToken_def GetCSRFToken_def
  by (intro wp_intro wp_r_get) (auto simp: get_post_def split: sum.splits)

lemma wp_ValidateSession:
  "wp (ValidateSession R GetByID sid) (\<lambda>x r'. reads r r' \<and> (\<forall>a. x = Inr a \<longrightarrow>
     (\<exists>i. live r' (''admin:session:'' @ sid) = Some (RStr i) \<and> GetByID i = Some a))) r"
  unfolding ValidateSession_def GetAdminSession_def
  by (intro wp_intro wp_r_get) (auto simp: get_post_def split: sum.splits option.splits)

lemma wp_CSRFMiddleware:
  assumes "Method c \<notin> {''GET'', ''HEAD'', ''OPTIONS''}" and "ctx_keys c GUISessionIDKey = Some (CStr sid)" and "sid \<noteq> []"
  shows "wp (CSRFMiddleware R hex_token hours c) (\<lambda>x w'. \<forall>c'. x = Next c' \<longrightarrow>
     live (w_redis w') (''admin:csrf:'' @ sid) =
       Some (RStr (if GetHeader c ''X-CSRF-Token'' = [] then PostForm c ''_csrf'' else GetHeader c ''X-CSRF-Token''))) w"
  unfolding CSRFMiddleware_def
  using assms
  by (auto simp: Let_def intro!: wp_return wp_bind wp_rds wp_mono[OF wp_ValidateCSRFToken])

lemma wp_GUIAuthMiddleware:
  "wp (GUIAuthMiddleware R GetByID c) (\<lambda>x r'. reads r r' \<and> (\<forall>c'. x = Next c' \<longrightarrow> c' = c \<and>
       (Path c \<in> {''/gui/login'', ''/gui/2fa-verify'', ''/gui/2fa-resend-email'', ''/gui/passkey-login/begin'',
          ''/gui/passkey-login/finish''} \<or> HasPrefix (Path c) ''/gui/static/'') \<or>
     (\<exists>sid i a. Cookie c AdminSessionCookie = Some sid \<and> live r' (''admin:session:'' @ sid) = Some (RStr i) \<and>
        GetByID i = Some a \<and> ctx_keys c' GUIAdminIDKey = Some (CStr (aa_ID a)) \<and>
        ctx_keys c' GUISessionIDKey = Some (CStr sid)))) r"
  unfolding GUIAuthMiddleware_def
proof (rule wp_Let, rule wp_if, goal_cases)
  case 1 then show ?case by (auto intro!: wp_return)
next
  case 2
  show ?case
  proof (intro wp_case_option wp_if wp_bind, goal_cases)
    case 1 then show ?case by (auto intro!: wp_return simp: redirectToLogin_def Let_def)
  next
    case 2 then show ?case by (auto intro!: wp_return simp: redirectToLogin_def Let_def)
  next
    case (3 sid)
    show ?case
      by (rule wp_mono[OF wp_ValidateSession], rule wp_return)
         (use 3 in \<open>auto simp: redirectToLogin_def Let_def GUIAdminIDKey_def GUISessionIDKey_def
            GUIAdminUsernameKey_def split: sum.splits\<close>)
  qed
qed

end

end
