(* ===== verification/GuardSpec.thy ===== *)
theory GuardSpec
  imports GuardProofs Demo
begin

text \<open>
  The properties of the guards: scopes, application keys, the admin key, the admin interface's
  session and CSRF token.
\<close>

section \<open>A configured deployment\<close>

definition demo_key :: "string \<Rightarrow> ApiKey" where
  "demo_key typ = \<lparr>ak_ID = ''k1'', ak_KeyType = typ, ak_Scopes = ''users:read, users:*'', ak_AppID = Some ''app1''\<rparr>"

definition demo_validator :: "string \<Rightarrow> unit key_validator" where
  "demo_validator typ = \<lparr>FindActiveKeyByHash = (\<lambda>h. ret (Inr (if h = ''#app1'' then Some (demo_key typ) else None))),
     UpdateApiKeyLastUsed = (\<lambda>_. ret ()), IncrementDailyUsage = (\<lambda>_. ret ())\<rparr>"

definition demo_app_ctx :: http_ctx where
  "demo_app_ctx = (demo_ctx ''app1'')\<lparr>Path := ''/app/app1/users'', Param := (\<lambda>_. ''app1'')\<rparr>"

definition demo_gui :: redis where
  "demo_gui = \<lparr>rdata = map_of [(''admin:session:s'', (RStr ''7'', Some hour)), (''admin:csrf:s'', (RStr ''t'', Some hour))], rnow = 0\<rparr>"

definition demo_post :: http_ctx where
  "demo_post = \<lparr>GetHeader = (\<lambda>_. ''t''), Param = (\<lambda>_. []), Query = (\<lambda>_. []), Cookie = (\<lambda>_. Some ''s''),
     ClientIP = ''10.0.0.1'', RemoteAddr = ''10.0.0.1:4711'', Method = ''POST'', Path = ''/gui/apps'',
     PostForm = (\<lambda>_. []), ctx_keys = [GUISessionIDKey \<mapsto> CStr ''s'']\<rparr>"

definition demo_account :: "string \<Rightarrow> AdminAccount option" where
  "demo_account i = (if i = ''7'' then Some \<lparr>aa_ID = i, aa_Username = ''root''\<rparr> else None)"

text \<open>The context of a request that was passed on.\<close>

fun passed_on :: "mw_result \<Rightarrow> bool" where
  "passed_on (Next _) = True" | "passed_on _ = False"

lemma passed_onE: "passed_on x \<Longrightarrow> \<exists>c. x = Next c"
  by (cases x) simp_all

section \<open>Properties\<close>

text \<open>
  What a granted scope covers.  A key with the scopes \<open>gs\<close> has the scope \<open>required\<close> when
  one of them is the star, or is \<open>required\<close> itself, or is \<open>resource:*\<close> where \<open>resource\<close> is
  what \<open>required\<close> holds before its first colon; in no other case.
\<close>

theorem scope_exact:
  "HasScope (SetKey ApiKeyScopesKey (CStrs gs) c) required \<longleftrightarrow>
     (\<exists>g\<in>set gs. g = ''*'' \<or> g = required \<or>
        (\<exists>resource act. CHR '':'' \<notin> set resource \<and> g = resource @ '':*'' \<and> required = resource @ '':'' @ act))"
proof -
  have "HasScope (SetKey ApiKeyScopesKey (CStrs gs) c) required \<longleftrightarrow> (\<exists>g\<in>set gs. scope_covers required g)"
    by (auto simp: HasScope_def)
  then show ?thesis by (simp only: scope_covers_iff)
qed

text \<open>
  C19: a key works only on its own application.  A request that gets through the chain in front
  of the application routes carried an active key of type app whose application is the one in
  the header or query and also the one in the URL, and goes on with the scopes of that key.
\<close>

theorem app_key_isolated:
  assumes "run_state (app_chain parse_uuid kv sha c) s = (Next c', s')" and "ctx_keys c AppIDKey = None"
  shows "\<exists>v k a s1. kv = Some v \<and> run_state (FindActiveKeyByHash v (sha (GetHeader c ''X-App-API-Key''))) s = (Inr (Some k), s1) \<and>
     ak_KeyType k = KeyTypeApp \<and> ak_AppID k = Some a \<and> parse_uuid (Param c ''id'') = Some a \<and>
     parse_uuid (if GetHeader c ''X-App-ID'' = [] then Query c ''app_id'' else GetHeader c ''X-App-ID'') = Some a \<and>
     ctx_keys c' ApiKeyScopesKey = Some (CStrs (parseScopes (ak_Scopes k)))"
  using assms by (rule app_chain_next)

theorem app_key_isolated_witness:
  "\<exists>k a. run_state (FindActiveKeyByHash (demo_validator KeyTypeApp) ''#app1'') () = (Inr (Some k), ()) \<and> ak_AppID k = Some a \<and>
     Some (Param demo_app_ctx ''id'') = Some a"
proof -
  have "passed_on (fst (run_state (app_chain Some (Some (demo_validator KeyTypeApp)) (\<lambda>s. CHR ''#'' # s) demo_app_ctx) ()))"
    by code_simp
  from passed_onE[OF this] obtain c' where "fst (run_state (app_chain Some (Some (demo_validator KeyTypeApp)) (\<lambda>s. CHR ''#'' # s) demo_app_ctx) ()) = Next c'" ..
  from app_key_isolated[OF run_eq[OF this]] show ?thesis
    by (auto simp: demo_app_ctx_def demo_ctx_def)
qed

text \<open>
  C20: who is an administrator.  A request passes the admin guard only with the configured
  key, when one is configured, or with an active key of type admin; the request then carries
  the scopes of that key, and only the configured key carries none.
\<close>

theorem admin_key_sound:
  assumes "run_state (AdminAuthMiddleware required kv sha c) s = (Next c', s')"
  shows "GetHeader c ''X-Admin-API-Key'' \<noteq> [] \<and>
    (GetHeader c ''X-Admin-API-Key'' = required \<and> ctx_keys c' ApiKeyScopesKey = ctx_keys c ApiKeyScopesKey \<or>
     (\<exists>v k s1. kv = Some v \<and> run_state (FindActiveKeyByHash v (sha (GetHeader c ''X-Admin-API-Key''))) s = (Inr (Some k), s1) \<and>
        ak_KeyType k = KeyTypeAdmin \<and> ctx_keys c' ApiKeyScopesKey = Some (CStrs (parseScopes (ak_Scopes k)))))"
  using assms
  by (auto simp: AdminAuthMiddleware_def Let_def AuthTypeKey_def ApiKeyScopesKey_def split: if_splits option.splits sum.splits prod.splits)

theorem admin_key_sound_witness:
  "\<exists>k. run_state (FindActiveKeyByHash (demo_validator KeyTypeAdmin) ''#app1'') () = (Inr (Some k), ()) \<and> ak_KeyType k = KeyTypeAdmin"
proof -
  have "passed_on (fst (run_state (AdminAuthMiddleware [] (Some (demo_validator KeyTypeAdmin)) (\<lambda>s. CHR ''#'' # s) demo_app_ctx) ()))"
    by code_simp
  from passed_onE[OF this] obtain c' where "fst (run_state (AdminAuthMiddleware [] (Some (demo_validator KeyTypeAdmin)) (\<lambda>s. CHR ''#'' # s) demo_app_ctx) ()) = Next c'" ..
  from admin_key_sound[OF run_eq[OF this]] show ?thesis
    by (auto simp: demo_app_ctx_def demo_ctx_def)
qed

text \<open>
  C21: no state-changing request of the admin interface without the session's token.  With a
  session in the context, a request with another method than GET, HEAD or OPTIONS passes only
  when its header or form holds the CSRF token that Redis keeps for that session.
\<close>

theorem csrf_token_required:
  assumes "redis_server R" and "Method c \<notin> {''GET'', ''HEAD'', ''OPTIONS''}"
    and "ctx_keys c GUISessionIDKey = Some (CStr sid)" and "sid \<noteq> []"
    and "run_state (CSRFMiddleware R hex_token hours c) w = (Next c', w')"
  shows "live (w_redis w') (''admin:csrf:'' @ sid) =
     Some (RStr (if GetHeader c ''X-CSRF-Token'' = [] then PostForm c ''_csrf'' else GetHeader c ''X-CSRF-Token''))"
  using wpD[OF redis_server.wp_CSRFMiddleware[OF assms(1-4)] assms(5)] by simp

theorem csrf_token_required_witness:
  "live (w_redis (snd (run_state (CSRFMiddleware demo_redis show_nat 8 demo_post) \<lparr>w_redis = demo_gui, w_rand = 0\<rparr>))) ''admin:csrf:s'' =
    Some (RStr ''t'')"
proof -
  have "passed_on (fst (run_state (CSRFMiddleware demo_redis show_nat 8 demo_post) \<lparr>w_redis = demo_gui, w_rand = 0\<rparr>))"
    by code_simp
  from passed_onE[OF this] obtain c' where c': "fst (run_state (CSRFMiddleware demo_redis show_nat 8 demo_post) \<lparr>w_redis = demo_gui, w_rand = 0\<rparr>) = Next c'" ..
  show ?thesis
    using csrf_token_required[OF ref0.redis_server_axioms _ _ _ run_eq[OF c'], of "''s''"] by (simp add: demo_post_def)
qed

text \<open>
  No page of the admin interface without a live session.  Outside the login pages and the
  static files a request passes only with the cookie of a session that Redis holds, as the
  existing account that the session belongs to, with the session in the context; Redis is left
  as it was.
\<close>

theorem gui_session_required:
  assumes "redis_server R" and "run_state (GUIAuthMiddleware R GetByID c) r = (Next c', r')"
    and "Path c \<notin> {''/gui/login'', ''/gui/2fa-verify'', ''/gui/2fa-resend-email'', ''/gui/passkey-login/begin'',
       ''/gui/passkey-login/finish''}" and "\<not> HasPrefix (Path c) ''/gui/static/''"
  shows "\<exists>sid i a. Cookie c AdminSessionCookie = Some sid \<and> live r' (''admin:session:'' @ sid) = Some (RStr i) \<and>
     GetByID i = Some a \<and> ctx_keys c' GUIAdminIDKey = Some (CStr (aa_ID a)) \<and>
     ctx_keys c' GUISessionIDKey = Some (CStr sid) \<and> reads r r'"
  using wpD[OF redis_server.wp_GUIAuthMiddleware[OF assms(1)] assms(2)] assms(3,4) by blast

theorem gui_session_required_witness:
  "\<exists>a. demo_account ''7'' = Some a \<and> live (snd (run_state (GUIAuthMiddleware demo_redis demo_account demo_post) demo_gui)) ''admin:session:s'' = Some (RStr ''7'')"
proof -
  have "passed_on (fst (run_state (GUIAuthMiddleware demo_redis demo_account demo_post) demo_gui))" by code_simp
  from passed_onE[OF this] obtain c' where c': "fst (run_state (GUIAuthMiddleware demo_redis demo_account demo_post) demo_gui) = Next c'" ..
  from gui_session_required[OF ref0.redis_server_axioms run_eq[OF c']] show ?thesis
    by (auto simp: demo_post_def demo_account_def HasPrefix_def split: if_splits)
qed

end
