(* ===== verification/Table.thy ===== *)
theory Table
  imports Prelude
begin

text \<open>
  A database table behind gorm: a list of rows that single statements read and change.  The
  driver and the server are not under \<open>src/\<close>; \<open>table_api\<close> is what the repositories call,
  the locale \<open>table_server\<close> what SQL promises: a statement that succeeds has done what it
  says, one that fails has done it or nothing, and no two rows ever clash on a unique index.
  \<open>t_find p key\<close> is a query with an order, \<open>t_purge\<close> a deletion whose row count is asked for.
\<close>

datatype dberr = NotFound | DBFail string

record 'row table_api =
  t_first :: "('row \<Rightarrow> bool) \<Rightarrow> ('row list, dberr + 'row) state"
  t_find :: "('row \<Rightarrow> bool) \<Rightarrow> ('row \<Rightarrow> int) \<Rightarrow> ('row list, dberr + 'row list) state"
  t_count :: "('row \<Rightarrow> bool) \<Rightarrow> ('row list, dberr + nat) state"
  t_create :: "'row \<Rightarrow> ('row list, dberr option) state"
  t_update :: "('row \<Rightarrow> bool) \<Rightarrow> ('row \<Rightarrow> 'row) \<Rightarrow> ('row list, dberr option) state"
  t_delete :: "('row \<Rightarrow> bool) \<Rightarrow> ('row list, dberr option) state"
  t_purge :: "('row \<Rightarrow> bool) \<Rightarrow> ('row list, dberr + nat) state"

definition first_post :: "('row \<Rightarrow> bool) \<Rightarrow> 'row list \<Rightarrow> dberr + 'row \<Rightarrow> 'row list \<Rightarrow> bool" where
  "first_post p rows a rows' \<longleftrightarrow> rows' = rows \<and>
     (case a of Inr x \<Rightarrow> x \<in> set rows \<and> p x | Inl NotFound \<Rightarrow> \<forall>x\<in>set rows. \<not> p x | Inl (DBFail _) \<Rightarrow> True)"

definition find_post :: "('row \<Rightarrow> bool) \<Rightarrow> ('row \<Rightarrow> int) \<Rightarrow> 'row list \<Rightarrow> dberr + 'row list \<Rightarrow> 'row list \<Rightarrow> bool" where
  "find_post p key rows a rows' \<longleftrightarrow> rows' = rows \<and>
     (\<forall>xs. a = Inr xs \<longrightarrow> (\<forall>x. count_list xs x = count_list (filter p rows) x) \<and> sorted (map key xs))"

definition applied_post :: "'row list \<Rightarrow> 'row list \<Rightarrow> dberr option \<Rightarrow> 'row list \<Rightarrow> bool" where
  "applied_post rows new a rows' \<longleftrightarrow> (rows' = rows \<or> rows' = new) \<and> (a = None \<longrightarrow> rows' = new)"

lemma applied_postD: "applied_post rows new None rows' \<Longrightarrow> rows' = new"
  by (simp add: applied_post_def)

definition update_rows :: "('row \<Rightarrow> bool) \<Rightarrow> ('row \<Rightarrow> 'row) \<Rightarrow> 'row list \<Rightarrow> 'row list" where
  "update_rows p f rows = map (\<lambda>x. if p x then f x else x) rows"

lemma ball_update_rows: "(\<forall>y\<in>set (update_rows p f rows). P y) \<longleftrightarrow> (\<forall>x\<in>set rows. P (if p x then f x else x))"
  by (auto simp: update_rows_def)

definition delete_rows :: "('row \<Rightarrow> bool) \<Rightarrow> 'row list \<Rightarrow> 'row list" where
  "delete_rows p rows = filter (\<lambda>x. \<not> p x) rows"

text \<open>The rows are in order of their primary key or insertion; \<open>clash\<close> is the unique index.\<close>

definition no_clash :: "('row \<Rightarrow> 'row \<Rightarrow> bool) \<Rightarrow> 'row list \<Rightarrow> bool" where
  "no_clash clash rows \<longleftrightarrow> sorted_wrt (\<lambda>x y. \<not> clash x y) rows"

lemma clash_unique:
  "no_clash clash xs \<Longrightarrow> x \<in> set xs \<Longrightarrow> y \<in> set xs \<Longrightarrow> clash x y \<Longrightarrow> clash y x \<Longrightarrow> x = y"
  unfolding no_clash_def by (induction xs) auto

locale table_server =
  fixes T :: "'row table_api" and clash :: "'row \<Rightarrow> 'row \<Rightarrow> bool"
  assumes first: "run_state (t_first T p) rows = (a, rows') \<Longrightarrow> first_post p rows a rows'"
    and find: "run_state (t_find T p key) rows = (xs, rows') \<Longrightarrow> find_post p key rows xs rows'"
    and count: "run_state (t_count T p) rows = (n, rows') \<Longrightarrow> rows' = rows \<and> (\<forall>k. n = Inr k \<longrightarrow> k = length (filter p rows))"
    and create: "run_state (t_create T x) rows = (e, rows') \<Longrightarrow> applied_post rows (rows @ [x]) e rows'"
    and update: "run_state (t_update T p f) rows = (e, rows') \<Longrightarrow> applied_post rows (update_rows p f rows) e rows'"
    and delete: "run_state (t_delete T p) rows = (e, rows') \<Longrightarrow> applied_post rows (delete_rows p rows) e rows'"
    and purge: "run_state (t_purge T p) rows = (n, rows') \<Longrightarrow>
      (rows' = rows \<or> rows' = delete_rows p rows) \<and> (\<forall>k. n = Inr k \<longrightarrow> rows' = delete_rows p rows \<and> k = length (filter p rows))"
    and create_unique: "run_state (t_create T x) rows = (e, rows') \<Longrightarrow> no_clash clash rows \<Longrightarrow> no_clash clash rows'"
    and update_unique: "run_state (t_update T p f) rows = (e, rows') \<Longrightarrow> no_clash clash rows \<Longrightarrow> no_clash clash rows'"
begin

lemma wp_t_first: "(\<And>a. first_post p rows a rows \<Longrightarrow> Q a rows) \<Longrightarrow> wp (t_first T p) Q rows"
  by (rule wpI) (metis first first_post_def)

lemma wp_t_find: "(\<And>a. find_post p key rows a rows \<Longrightarrow> Q a rows) \<Longrightarrow> wp (t_find T p key) Q rows"
  by (rule wpI) (metis find find_post_def)

lemma wp_t_create: "(\<And>e rows'. applied_post rows (rows @ [x]) e rows' \<Longrightarrow> Q e rows') \<Longrightarrow> wp (t_create T x) Q rows"
  by (rule wpI) (blast dest: create)

lemma wp_t_update:
  "(\<And>e rows'. applied_post rows (update_rows p f rows) e rows' \<Longrightarrow> Q e rows') \<Longrightarrow> wp (t_update T p f) Q rows"
  by (rule wpI) (blast dest: update)

lemma wp_t_delete:
  "(\<And>e rows'. applied_post rows (delete_rows p rows) e rows' \<Longrightarrow> Q e rows') \<Longrightarrow> wp (t_delete T p) Q rows"
  by (rule wpI) (blast dest: delete)

lemma delete_unique:
  assumes "run_state (t_delete T p) rows = (e, rows')" and "no_clash clash rows"
  shows "no_clash clash rows'"
  using delete[OF assms(1)] assms(2)
  by (auto simp: applied_post_def no_clash_def delete_rows_def sorted_wrt_filter)

end

section \<open>A database that is up\<close>

lemma set_count: "(\<And>x. count_list xs x = count_list ys x) \<Longrightarrow> set xs = set ys"
  by (metis count_list_0_iff subsetI subset_antisym)

lemma length_count: "(\<And>x. count_list xs x = count_list ys x) \<Longrightarrow> length xs = length ys"
proof -
  assume c: "\<And>x. count_list xs x = count_list ys x"
  have "length xs = sum (count_list xs) (set xs)" by (simp add: sum_count_set)
  also have "\<dots> = sum (count_list ys) (set ys)" using c set_count[OF c] by simp
  finally show ?thesis by (simp add: sum_count_set)
qed

text \<open>Reads answer, and an update fails only for an index.\<close>

locale reliable_table = table_server +
  assumes first_up: "fst (run_state (t_first T p) rows) \<noteq> Inl (DBFail e)"
    and find_up: "\<exists>xs. fst (run_state (t_find T p k) rows) = Inr xs"
    and update_up: "no_clash clash (update_rows p f rows) \<Longrightarrow> fst (run_state (t_update T p f) rows) = None"
begin

lemma wp_u_first:
  assumes "no_clash clash rows" and "x \<in> set rows" and "p x"
    and "\<And>y. y \<in> set rows \<Longrightarrow> p y \<Longrightarrow> clash x y \<and> clash y x" and "Q (Inr x) rows"
  shows "wp (t_first T p) Q rows"
proof (rule wpI)
  fix a rows' assume run: "run_state (t_first T p) rows = (a, rows')"
  with first_up have "a \<noteq> Inl (DBFail e)" for e by (metis fst_conv)
  with first[OF run] assms(2,3) obtain y where "a = Inr y" "y \<in> set rows" "p y" "rows' = rows"
    by (auto simp: first_post_def split: sum.splits dberr.splits)
  moreover from this assms(1,2,4) have "y = x" using clash_unique by metis
  ultimately show "Q a rows'" using assms(5) by simp
qed

lemma wp_u_find:
  "(\<And>xs. set xs = {x \<in> set rows. p x} \<Longrightarrow> length xs = length (filter p rows) \<Longrightarrow> Q (Inr xs) rows) \<Longrightarrow> wp (t_find T p k) Q rows"
proof (rule wpI)
  fix a rows' assume q: "\<And>xs. set xs = {x \<in> set rows. p x} \<Longrightarrow> length xs = length (filter p rows) \<Longrightarrow> Q (Inr xs) rows"
    and run: "run_state (t_find T p k) rows = (a, rows')"
  obtain xs where "a = Inr xs" using find_up[of p k rows] run by auto
  moreover from this find[OF run] have "rows' = rows" "\<forall>x. count_list xs x = count_list (filter p rows) x"
    by (auto simp: find_post_def)
  moreover from this(2) have "set xs = {x \<in> set rows. p x}" using set_count[of xs "filter p rows"] by simp
  moreover from \<open>\<forall>x. _ x\<close> have "length xs = length (filter p rows)" using length_count[of xs "filter p rows"] by simp
  ultimately show "Q a rows'" using q by simp
qed

lemma wp_u_update:
  "no_clash clash (update_rows p f rows) \<Longrightarrow> Q None (update_rows p f rows) \<Longrightarrow> wp (t_update T p f) Q rows"
  by (rule wpI) (metis update update_up applied_post_def fst_conv)

end

section \<open>A table that keeps the promises\<close>

definition ref_table :: "('row \<Rightarrow> 'row \<Rightarrow> bool) \<Rightarrow> 'row table_api" where
  "ref_table clash = \<lparr>
     t_first = (\<lambda>p. State (\<lambda>rows. (case find p rows of Some x \<Rightarrow> Inr x | None \<Rightarrow> Inl NotFound, rows))),
     t_find = (\<lambda>p key. State (\<lambda>rows. (Inr (sort_key key (filter p rows)), rows))),
     t_count = (\<lambda>p. State (\<lambda>rows. (Inr (length (filter p rows)), rows))),
     t_create = (\<lambda>x. State (\<lambda>rows. if list_ex (\<lambda>y. clash y x) rows then (Some (DBFail ''duplicate key''), rows)
                                        else (None, rows @ [x]))),
     t_update = (\<lambda>p f. State (\<lambda>rows. if sorted_wrt (\<lambda>x y. \<not> clash x y) (update_rows p f rows) \<or>
                                          \<not> sorted_wrt (\<lambda>x y. \<not> clash x y) rows
                                        then (None, update_rows p f rows) else (Some (DBFail ''duplicate key''), rows))),
     t_delete = (\<lambda>p. State (\<lambda>rows. (None, delete_rows p rows))),
     t_purge = (\<lambda>p. State (\<lambda>rows. (Inr (length (filter p rows)), delete_rows p rows))) \<rparr>"

lemma count_list_insort: "count_list (insort_key key y xs) x = count_list (y # xs) x"
  by (induction xs) auto

lemma count_list_sort: "count_list (sort_key key xs) x = count_list xs x"
  by (induction xs) (auto simp: count_list_insort)

interpretation ref_table: table_server "ref_table clash" clash for clash
proof (unfold_locales, goal_cases)
  case (1 p rows a rows')
  then show ?case
    by (auto simp: ref_table_def first_post_def find_Some_iff find_None_iff split: option.splits)
next
  case (2 p key rows xs rows')
  then show ?case by (auto simp: ref_table_def find_post_def count_list_sort)
next
  case 8 then show ?case
    by (auto simp: ref_table_def no_clash_def sorted_wrt_append list_ex_iff split: if_splits)
qed (auto simp: ref_table_def applied_post_def no_clash_def split: if_splits)

interpretation ref_up: reliable_table "ref_table clash" clash for clash
  by unfold_locales (auto simp: ref_table_def no_clash_def split: option.splits)

end
