(* ===== verification/Models.thy ===== *)
theory Models
  imports Table SessionService
begin

text \<open>
  The database rows the services work on, \<open>pkg/models/user.go\<close> and \<open>pkg/models/application.go\<close>, and
  the state of the process with the tables, the mail it has sent and the events it has raised;
  trusted devices are from \<open>pkg/models/trusted_device.go\<close>.  Ids are UUIDs in canonical text;
  timestamps the database fills in itself are left out, as are the fields of an application that
  only branding reads.
\<close>

record User =
  u_ID :: string
  u_AppID :: string
  u_Email :: string
  u_PasswordHash :: string
  u_EmailVerified :: bool
  u_IsActive :: bool
  u_Name :: string
  u_FirstName :: string
  u_LastName :: string
  u_ProfilePicture :: string
  u_Locale :: string
  u_TwoFAEnabled :: bool
  u_TwoFAMethod :: string
  u_TwoFASecret :: string
  u_TwoFARecoveryCodes :: "string option"
  u_BackupEmail :: string
  u_BackupEmailVerified :: bool
  u_TwoFAPreviousMethod :: string
  u_TwoFAPreviousSecret :: string
  u_PhoneNumber :: string
  u_PhoneVerified :: bool
  u_LockedAt :: "instant option"
  u_LockReason :: string
  u_LockExpiresAt :: "instant option"
  u_PasswordHistory :: string
  u_PasswordChangedAt :: "instant option"

record Application =
  a_ID :: string
  a_Name :: string
  a_TwoFAIssuerName :: string
  a_TwoFAMethods :: string
  a_Email2FAEnabled :: bool
  a_SMS2FAEnabled :: bool
  a_Passkey2FAEnabled :: bool
  a_PasskeyLoginEnabled :: bool
  a_TrustedDeviceEnabled :: bool
  a_TrustedDeviceMaxDays :: int
  a_TwoFAEnabled :: bool
  a_TwoFARequired :: bool
  a_MagicLinkEnabled :: bool
  a_BfLockoutEnabled :: "bool option"
  a_BfLockoutThreshold :: "int option"
  a_BfLockoutDurations :: "string option"
  a_BfLockoutWindow :: "string option"
  a_BfLockoutTierTTL :: "string option"
  a_BfDelayEnabled :: "bool option"
  a_BfDelayStartAfter :: "int option"
  a_BfDelayMaxSeconds :: "int option"
  a_BfDelayTierTTL :: "string option"
  a_BfCaptchaEnabled :: "bool option"
  a_BfCaptchaSiteKey :: "string option"
  a_BfCaptchaSecretKey :: "string option"
  a_BfCaptchaThreshold :: "int option"
  a_FrontendURL :: string
  a_ResetPasswordPath :: string
  a_MagicLinkPath :: string
  a_PwMinLength :: int
  a_PwMaxLength :: int
  a_PwRequireUpper :: bool
  a_PwRequireLower :: bool
  a_PwRequireDigit :: bool
  a_PwRequireSymbol :: bool
  a_PwHistoryCount :: int
  a_PwMaxAgeDays :: int
  a_AccessTokenTTLMinutes :: int
  a_RefreshTokenTTLHours :: int
  OIDCEnabled :: bool
  OIDCIssuerURL :: string
  OIDCRSAPrivateKey :: string
  OIDCIDTokenTTL :: int
  a_LoginTheme :: string
  a_LoginPrimaryColor :: string

text \<open>The zero value of the struct.\<close>

definition zero_app :: Application where
  "zero_app = \<lparr>a_ID = [], a_Name = [], a_TwoFAIssuerName = [], a_TwoFAMethods = [], a_Email2FAEnabled = False,
     a_SMS2FAEnabled = False, a_Passkey2FAEnabled = False, a_PasskeyLoginEnabled = False, a_TrustedDeviceEnabled = False, a_TrustedDeviceMaxDays = 0,
     a_TwoFAEnabled = False, a_TwoFARequired = False, a_MagicLinkEnabled = False,
     a_BfLockoutEnabled = None, a_BfLockoutThreshold = None, a_BfLockoutDurations = None, a_BfLockoutWindow = None,
     a_BfLockoutTierTTL = None, a_BfDelayEnabled = None, a_BfDelayStartAfter = None, a_BfDelayMaxSeconds = None,
     a_BfDelayTierTTL = None, a_BfCaptchaEnabled = None, a_BfCaptchaSiteKey = None, a_BfCaptchaSecretKey = None,
     a_BfCaptchaThreshold = None, a_FrontendURL = [], a_ResetPasswordPath = [], a_MagicLinkPath = [],
     a_PwMinLength = 0, a_PwMaxLength = 0, a_PwRequireUpper = False, a_PwRequireLower = False,
     a_PwRequireDigit = False, a_PwRequireSymbol = False, a_PwHistoryCount = 0, a_PwMaxAgeDays = 0,
     a_AccessTokenTTLMinutes = 0, a_RefreshTokenTTLHours = 0, OIDCEnabled = False, OIDCIssuerURL = [], OIDCRSAPrivateKey = [],
     OIDCIDTokenTTL = 0, a_LoginTheme = [], a_LoginPrimaryColor = []\<rparr>"

definition zero_user :: User where
  "zero_user = \<lparr>u_ID = [], u_AppID = [], u_Email = [], u_PasswordHash = [], u_EmailVerified = False, u_IsActive = False,
     u_Name = [], u_FirstName = [], u_LastName = [], u_ProfilePicture = [], u_Locale = [], u_TwoFAEnabled = False,
     u_TwoFAMethod = [], u_TwoFASecret = [], u_TwoFARecoveryCodes = None, u_BackupEmail = [], u_BackupEmailVerified = False,
     u_TwoFAPreviousMethod = [], u_TwoFAPreviousSecret = [], u_PhoneNumber = [], u_PhoneVerified = False,
     u_LockedAt = None, u_LockReason = [], u_LockExpiresAt = None, u_PasswordHistory = [], u_PasswordChangedAt = None\<rparr>"

record TrustedDevice =
  td_ID :: string
  td_UserID :: string
  td_AppID :: string
  td_TokenHash :: string
  td_Name :: string
  td_UserAgent :: string
  td_IPAddress :: string
  td_LastUsedAt :: instant
  td_ExpiresAt :: instant

text \<open>Applications that share logins (\<open>pkg/models/session_group.go\<close>): the groups, and which group an application is in.\<close>

record SessionGroup =
  sg_ID :: string
  sg_TenantID :: string
  sg_Name :: string
  GlobalLogout :: bool

record SessionGroupApp =
  sga_SessionGroupID :: string
  sga_AppID :: string

text \<open>
  Roles and permissions (\<open>pkg/models/role.go\<close>): the join table of the two is a table of pairs of ids;
  who assigned a role and when is left out.
\<close>

record Role =
  r_ID :: string
  r_AppID :: string
  r_Name :: string
  r_Description :: string
  IsSystem :: bool

record Permission =
  p_ID :: string
  p_Resource :: string
  p_Action :: string
  p_Description :: string

type_synonym RolePermission = "string \<times> string"

record UserRole =
  ur_UserID :: string
  ur_RoleID :: string
  ur_AppID :: string

text \<open>The relying parties of the OIDC provider and the codes it has issued.\<close>

record OIDCClient =
  oc_ID :: string
  oc_AppID :: string
  oc_Name :: string
  oc_Description :: string
  oc_ClientID :: string
  ClientSecretHash :: string
  RedirectURIs :: string
  AllowedGrantTypes :: string
  AllowedScopes :: string
  RequireConsent :: bool
  IsConfidential :: bool
  PKCERequired :: bool
  LogoURL :: string
  oc_LoginTheme :: string
  oc_LoginPrimaryColor :: string
  oc_IsActive :: bool

record OIDCAuthCode =
  ac_ID :: string
  ac_AppID :: string
  ac_ClientID :: string
  ac_UserID :: string
  ac_Code :: string
  ac_RedirectURI :: string
  ac_Scopes :: string
  ac_Nonce :: string
  ac_CodeChallenge :: string
  ac_CodeChallengeMethod :: string
  ac_ExpiresAt :: instant
  ac_Used :: bool

text \<open>
  Logins at other providers (\<open>pkg/models/social_account.go\<close>, \<open>oauth_provider_config.go\<close>): who is linked to
  which account there, and how an application talks to a provider; no account has an expiry.
\<close>

record SocialAccount =
  sa_ID :: string
  sa_AppID :: string
  sa_UserID :: string
  sa_Provider :: string
  sa_ProviderUserID :: string
  sa_Email :: string
  sa_Name :: string
  sa_FirstName :: string
  sa_LastName :: string
  sa_ProfilePicture :: string
  sa_Username :: string
  sa_Locale :: string
  sa_RawData :: string
  sa_AccessToken :: string
  sa_RefreshToken :: string

record OAuthProviderConfig =
  op_ID :: string
  op_AppID :: string
  op_Provider :: string
  op_ClientID :: string
  op_ClientSecret :: string
  op_RedirectURL :: string
  op_IsEnabled :: bool

text \<open>
  A passkey of a user in an application, or of an administrator (\<open>pkg/models/webauthn_credential.go\<close>);
  byte strings are strings.
\<close>

record WebAuthnCredential =
  wc_ID :: string
  wc_UserID :: "string option"
  wc_AppID :: "string option"
  wc_AdminID :: "string option"
  wc_CredentialID :: string
  wc_PublicKey :: string
  wc_AttestationType :: string
  wc_AAGUID :: string
  wc_SignCount :: nat
  wc_Name :: string
  wc_Transports :: string
  wc_BackupEligible :: bool
  wc_BackupState :: bool

text \<open>The unique indexes: the primary key, and the e-mail address within an application.\<close>

definition user_clash :: "User \<Rightarrow> User \<Rightarrow> bool" where
  "user_clash x y \<longleftrightarrow> u_ID x = u_ID y \<or> u_AppID x = u_AppID y \<and> u_Email x = u_Email y"

definition group_clash :: "SessionGroup \<Rightarrow> SessionGroup \<Rightarrow> bool" where
  "group_clash x y \<longleftrightarrow> sg_ID x = sg_ID y"

definition group_app_clash :: "SessionGroupApp \<Rightarrow> SessionGroupApp \<Rightarrow> bool" where
  "group_app_clash x y \<longleftrightarrow> sga_AppID x = sga_AppID y"

definition device_clash :: "TrustedDevice \<Rightarrow> TrustedDevice \<Rightarrow> bool" where
  "device_clash x y \<longleftrightarrow> td_ID x = td_ID y \<or> td_TokenHash x = td_TokenHash y"

definition app_clash :: "Application \<Rightarrow> Application \<Rightarrow> bool" where
  "app_clash x y \<longleftrightarrow> a_ID x = a_ID y"

definition role_clash :: "Role \<Rightarrow> Role \<Rightarrow> bool" where
  "role_clash x y \<longleftrightarrow> r_ID x = r_ID y \<or> r_AppID x = r_AppID y \<and> r_Name x = r_Name y"

definition permission_clash :: "Permission \<Rightarrow> Permission \<Rightarrow> bool" where
  "permission_clash x y \<longleftrightarrow> p_ID x = p_ID y \<or> p_Resource x = p_Resource y \<and> p_Action x = p_Action y"

definition user_role_clash :: "UserRole \<Rightarrow> UserRole \<Rightarrow> bool" where
  "user_role_clash x y \<longleftrightarrow> ur_UserID x = ur_UserID y \<and> ur_RoleID x = ur_RoleID y"

definition client_clash :: "OIDCClient \<Rightarrow> OIDCClient \<Rightarrow> bool" where
  "client_clash x y \<longleftrightarrow> oc_ID x = oc_ID y \<or> oc_ClientID x = oc_ClientID y"

definition code_clash :: "OIDCAuthCode \<Rightarrow> OIDCAuthCode \<Rightarrow> bool" where
  "code_clash x y \<longleftrightarrow> ac_ID x = ac_ID y \<or> ac_Code x = ac_Code y"

definition social_clash :: "SocialAccount \<Rightarrow> SocialAccount \<Rightarrow> bool" where
  "social_clash x y \<longleftrightarrow> sa_ID x = sa_ID y \<or> sa_AppID x = sa_AppID y \<and> sa_Provider x = sa_Provider y \<and>
     sa_ProviderUserID x = sa_ProviderUserID y"

definition provider_clash :: "OAuthProviderConfig \<Rightarrow> OAuthProviderConfig \<Rightarrow> bool" where
  "provider_clash x y \<longleftrightarrow> op_ID x = op_ID y \<or> op_AppID x = op_AppID y \<and> op_Provider x = op_Provider y"

definition passkey_clash :: "WebAuthnCredential \<Rightarrow> WebAuthnCredential \<Rightarrow> bool" where
  "passkey_clash x y \<longleftrightarrow> wc_ID x = wc_ID y \<or> wc_CredentialID x = wc_CredentialID y"

section \<open>The process with its tables\<close>

datatype outgoing =
    VerificationEmail string string string
  | PasswordResetEmail string string
  | TwoFACodeEmail string string
  | MagicLinkEmail string string
  | BackupVerificationEmail string string
  | SMS string string

text \<open>Mail and text messages sent, newest first, and webhook events raised.\<close>

record uworld = world +
  w_users :: "User list"
  w_apps :: "Application list"
  w_devices :: "TrustedDevice list"
  w_groups :: "SessionGroup list"
  w_group_apps :: "SessionGroupApp list"
  w_roles :: "Role list"
  w_permissions :: "Permission list"
  w_role_permissions :: "RolePermission list"
  w_user_roles :: "UserRole list"
  w_clients :: "OIDCClient list"
  w_codes :: "OIDCAuthCode list"
  w_social :: "SocialAccount list"
  w_providers :: "OAuthProviderConfig list"
  w_passkeys :: "WebAuthnCredential list"
  w_outbox :: "(string \<times> outgoing) list"
  w_events :: "(string \<times> string \<times> string) list"

definition usr :: "(User list, 'a) state \<Rightarrow> (uworld, 'a) state" where
  "usr m = State (\<lambda>w. case run_state m (w_users w) of (a, t) \<Rightarrow> (a, w\<lparr>w_users := t\<rparr>))"

definition apps :: "(Application list, 'a) state \<Rightarrow> (uworld, 'a) state" where
  "apps m = State (\<lambda>w. case run_state m (w_apps w) of (a, t) \<Rightarrow> (a, w\<lparr>w_apps := t\<rparr>))"

definition devs :: "(TrustedDevice list, 'a) state \<Rightarrow> (uworld, 'a) state" where
  "devs m = State (\<lambda>w. case run_state m (w_devices w) of (a, t) \<Rightarrow> (a, w\<lparr>w_devices := t\<rparr>))"

definition groups_of :: "(SessionGroup list, 'a) state \<Rightarrow> (uworld, 'a) state" where
  "groups_of m = State (\<lambda>w. case run_state m (w_groups w) of (a, t) \<Rightarrow> (a, w\<lparr>w_groups := t\<rparr>))"

definition group_apps :: "(SessionGroupApp list, 'a) state \<Rightarrow> (uworld, 'a) state" where
  "group_apps m = State (\<lambda>w. case run_state m (w_group_apps w) of (a, t) \<Rightarrow> (a, w\<lparr>w_group_apps := t\<rparr>))"

definition roles_of :: "(Role list, 'a) state \<Rightarrow> (uworld, 'a) state" where
  "roles_of m = State (\<lambda>w. case run_state m (w_roles w) of (a, t) \<Rightarrow> (a, w\<lparr>w_roles := t\<rparr>))"

definition perms_of :: "(Permission list, 'a) state \<Rightarrow> (uworld, 'a) state" where
  "perms_of m = State (\<lambda>w. case run_state m (w_permissions w) of (a, t) \<Rightarrow> (a, w\<lparr>w_permissions := t\<rparr>))"

definition role_perms_of :: "(RolePermission list, 'a) state \<Rightarrow> (uworld, 'a) state" where
  "role_perms_of m = State (\<lambda>w. case run_state m (w_role_permissions w) of (a, t) \<Rightarrow> (a, w\<lparr>w_role_permissions := t\<rparr>))"

definition user_roles_of :: "(UserRole list, 'a) state \<Rightarrow> (uworld, 'a) state" where
  "user_roles_of m = State (\<lambda>w. case run_state m (w_user_roles w) of (a, t) \<Rightarrow> (a, w\<lparr>w_user_roles := t\<rparr>))"

definition clients_of :: "(OIDCClient list, 'a) state \<Rightarrow> (uworld, 'a) state" where
  "clients_of m = State (\<lambda>w. case run_state m (w_clients w) of (a, t) \<Rightarrow> (a, w\<lparr>w_clients := t\<rparr>))"

definition codes_of :: "(OIDCAuthCode list, 'a) state \<Rightarrow> (uworld, 'a) state" where
  "codes_of m = State (\<lambda>w. case run_state m (w_codes w) of (a, t) \<Rightarrow> (a, w\<lparr>w_codes := t\<rparr>))"

definition social_of :: "(SocialAccount list, 'a) state \<Rightarrow> (uworld, 'a) state" where
  "social_of m = State (\<lambda>w. case run_state m (w_social w) of (a, t) \<Rightarrow> (a, w\<lparr>w_social := t\<rparr>))"

definition providers_of :: "(OAuthProviderConfig list, 'a) state \<Rightarrow> (uworld, 'a) state" where
  "providers_of m = State (\<lambda>w. case run_state m (w_providers w) of (a, t) \<Rightarrow> (a, w\<lparr>w_providers := t\<rparr>))"

definition passkeys_of :: "(WebAuthnCredential list, 'a) state \<Rightarrow> (uworld, 'a) state" where
  "passkeys_of m = State (\<lambda>w. case run_state m (w_passkeys w) of (a, t) \<Rightarrow> (a, w\<lparr>w_passkeys := t\<rparr>))"

lemmas lift_defs = usr_def apps_def roles_of_def devs_def groups_of_def group_apps_def perms_of_def role_perms_of_def user_roles_of_def clients_of_def codes_of_def
  social_of_def providers_of_def passkeys_of_def

lemma run_lifts [simp]:
  "run_state (usr m1) w = (case run_state m1 (w_users w) of (a, t) \<Rightarrow> (a, w\<lparr>w_users := t\<rparr>))"
  "run_state (apps m2) w = (case run_state m2 (w_apps w) of (a, t) \<Rightarrow> (a, w\<lparr>w_apps := t\<rparr>))"
  "run_state (roles_of m3) w = (case run_state m3 (w_roles w) of (a, t) \<Rightarrow> (a, w\<lparr>w_roles := t\<rparr>))"
  "run_state (devs m4) w = (case run_state m4 (w_devices w) of (a, t) \<Rightarrow> (a, w\<lparr>w_devices := t\<rparr>))"
  "run_state (groups_of m5) w = (case run_state m5 (w_groups w) of (a, t) \<Rightarrow> (a, w\<lparr>w_groups := t\<rparr>))"
  "run_state (group_apps m6) w = (case run_state m6 (w_group_apps w) of (a, t) \<Rightarrow> (a, w\<lparr>w_group_apps := t\<rparr>))"
  "run_state (perms_of m7) w = (case run_state m7 (w_permissions w) of (a, t) \<Rightarrow> (a, w\<lparr>w_permissions := t\<rparr>))"
  "run_state (role_perms_of m8) w = (case run_state m8 (w_role_permissions w) of (a, t) \<Rightarrow> (a, w\<lparr>w_role_permissions := t\<rparr>))"
  "run_state (user_roles_of m9) w = (case run_state m9 (w_user_roles w) of (a, t) \<Rightarrow> (a, w\<lparr>w_user_roles := t\<rparr>))"
  "run_state (clients_of m10) w = (case run_state m10 (w_clients w) of (a, t) \<Rightarrow> (a, w\<lparr>w_clients := t\<rparr>))"
  "run_state (codes_of m11) w = (case run_state m11 (w_codes w) of (a, t) \<Rightarrow> (a, w\<lparr>w_codes := t\<rparr>))"
  "run_state (social_of m12) w = (case run_state m12 (w_social w) of (a, t) \<Rightarrow> (a, w\<lparr>w_social := t\<rparr>))"
  "run_state (providers_of m13) w = (case run_state m13 (w_providers w) of (a, t) \<Rightarrow> (a, w\<lparr>w_providers := t\<rparr>))"
  "run_state (passkeys_of m14) w = (case run_state m14 (w_passkeys w) of (a, t) \<Rightarrow> (a, w\<lparr>w_passkeys := t\<rparr>))"
  by (simp_all add: lift_defs)

lemma wp_lifts [wp_intro]:
  "wp m1 (\<lambda>a t. Q1 a (w\<lparr>w_users := t\<rparr>)) (w_users w) \<Longrightarrow> wp (usr m1) Q1 w"
  "wp m2 (\<lambda>a t. Q2 a (w\<lparr>w_apps := t\<rparr>)) (w_apps w) \<Longrightarrow> wp (apps m2) Q2 w"
  "wp m3 (\<lambda>a t. Q3 a (w\<lparr>w_roles := t\<rparr>)) (w_roles w) \<Longrightarrow> wp (roles_of m3) Q3 w"
  "wp m4 (\<lambda>a t. Q4 a (w\<lparr>w_devices := t\<rparr>)) (w_devices w) \<Longrightarrow> wp (devs m4) Q4 w"
  "wp m5 (\<lambda>a t. Q5 a (w\<lparr>w_groups := t\<rparr>)) (w_groups w) \<Longrightarrow> wp (groups_of m5) Q5 w"
  "wp m6 (\<lambda>a t. Q6 a (w\<lparr>w_group_apps := t\<rparr>)) (w_group_apps w) \<Longrightarrow> wp (group_apps m6) Q6 w"
  "wp m7 (\<lambda>a t. Q7 a (w\<lparr>w_permissions := t\<rparr>)) (w_permissions w) \<Longrightarrow> wp (perms_of m7) Q7 w"
  "wp m8 (\<lambda>a t. Q8 a (w\<lparr>w_role_permissions := t\<rparr>)) (w_role_permissions w) \<Longrightarrow> wp (role_perms_of m8) Q8 w"
  "wp m9 (\<lambda>a t. Q9 a (w\<lparr>w_user_roles := t\<rparr>)) (w_user_roles w) \<Longrightarrow> wp (user_roles_of m9) Q9 w"
  "wp m10 (\<lambda>a t. Q10 a (w\<lparr>w_clients := t\<rparr>)) (w_clients w) \<Longrightarrow> wp (clients_of m10) Q10 w"
  "wp m11 (\<lambda>a t. Q11 a (w\<lparr>w_codes := t\<rparr>)) (w_codes w) \<Longrightarrow> wp (codes_of m11) Q11 w"
  "wp m12 (\<lambda>a t. Q12 a (w\<lparr>w_social := t\<rparr>)) (w_social w) \<Longrightarrow> wp (social_of m12) Q12 w"
  "wp m13 (\<lambda>a t. Q13 a (w\<lparr>w_providers := t\<rparr>)) (w_providers w) \<Longrightarrow> wp (providers_of m13) Q13 w"
  "wp m14 (\<lambda>a t. Q14 a (w\<lparr>w_passkeys := t\<rparr>)) (w_passkeys w) \<Longrightarrow> wp (passkeys_of m14) Q14 w"
  by (simp_all add: wp_def split: prod.splits)

end
