(* ===== verification/PasswordPolicy.thy ===== *)
theory PasswordPolicy
  imports Models
begin

text \<open>
  \<open>internal/user/password_policy.go\<close>: what a password must look like, the history of hashes, the
  age of a password, the token lifetimes of an application.  The Unicode tables, bcrypt, and
  the JSON text of a list of strings are parameters.
\<close>

text \<open>The runes of a string as \<open>range\<close> decodes them, and their classes.\<close>

record unicode_api =
  runes :: "string \<Rightarrow> nat list"
  IsUpper :: "nat \<Rightarrow> bool"
  IsLower :: "nat \<Rightarrow> bool"
  IsDigit :: "nat \<Rightarrow> bool"
  IsPunct :: "nat \<Rightarrow> bool"
  IsSymbol :: "nat \<Rightarrow> bool"

text \<open>
  \<open>Unmarshal\<close> gives the list it has filled and whether it reported no error.  \<open>GenerateHash n\<close>
  hashes with the \<open>n\<close>-th random salt; \<open>CompareHash h p\<close> is true when bcrypt reports no error.
\<close>

record hash_api =
  Unmarshal :: "string \<Rightarrow> string list \<times> bool"
  Marshal :: "string list \<Rightarrow> string"
  GenerateHash :: "nat \<Rightarrow> string \<Rightarrow> string + string"
  CompareHash :: "string \<Rightarrow> string \<Rightarrow> bool"

locale hash_lib =
  fixes H :: hash_api
  assumes json: "Unmarshal H (Marshal H xs) = (xs, True)"
    and json_text: "Marshal H xs \<noteq> []"
    and hash_compare: "GenerateHash H n p = Inr h \<Longrightarrow> CompareHash H h p"
    and hash_nonempty: "GenerateHash H n p = Inr h \<Longrightarrow> h \<noteq> []"

section \<open>Policy\<close>

text \<open>Which of the four classes occur; a rune counts for the first class it is in.\<close>

definition seen_classes :: "unicode_api \<Rightarrow> string \<Rightarrow> bool \<times> bool \<times> bool \<times> bool" where
  "seen_classes U password = fold (\<lambda>r (hasUpper, hasLower, hasDigit, hasSymbol).
       if IsUpper U r then (True, hasLower, hasDigit, hasSymbol)
       else if IsLower U r then (hasUpper, True, hasDigit, hasSymbol)
       else if IsDigit U r then (hasUpper, hasLower, True, hasSymbol)
       else if IsPunct U r \<or> IsSymbol U r then (hasUpper, hasLower, hasDigit, True)
       else (hasUpper, hasLower, hasDigit, hasSymbol)) (runes U password) (False, False, False, False)"

definition missing_classes :: "Application \<Rightarrow> bool \<times> bool \<times> bool \<times> bool \<Rightarrow> string list" where
  "missing_classes app = (\<lambda>(hasUpper, hasLower, hasDigit, hasSymbol).
     (if a_PwRequireUpper app \<and> \<not> hasUpper then [''one uppercase letter''] else []) @
     (if a_PwRequireLower app \<and> \<not> hasLower then [''one lowercase letter''] else []) @
     (if a_PwRequireDigit app \<and> \<not> hasDigit then [''one digit''] else []) @
     (if a_PwRequireSymbol app \<and> \<not> hasSymbol then [''one special character''] else []))"

definition ValidatePasswordPolicy :: "unicode_api \<Rightarrow> string \<Rightarrow> Application \<Rightarrow> string option" where
  "ValidatePasswordPolicy U password app =
     (let minLen = (if a_PwMinLength app \<le> 0 then 8 else a_PwMinLength app);
          maxLen = (if a_PwMaxLength app \<le> 0 then 128 else a_PwMaxLength app)
      in if int (length password) < minLen
         then Some (''password must be at least '' @ itoa minLen @ '' characters long'')
      else if maxLen < int (length password)
         then Some (''password must not exceed '' @ itoa maxLen @ '' characters'')
      else if a_PwRequireUpper app \<or> a_PwRequireLower app \<or> a_PwRequireDigit app \<or> a_PwRequireSymbol app
         then (let missing = missing_classes app (seen_classes U password)
           in if 0 < length missing then Some (''password must contain at least '' @ Join missing '', '') else None)
      else None)"

section \<open>History\<close>

definition CheckPasswordHistory :: "hash_api \<Rightarrow> string \<Rightarrow> User \<Rightarrow> int \<Rightarrow> string option" where
  "CheckPasswordHistory H newPassword user historyCount =
     (if historyCount \<le> 0 \<or> length (u_PasswordHistory user) = 0 then None
      else case Unmarshal H (u_PasswordHistory user) of (hashes, ok) \<Rightarrow>
        if \<not> ok then None
        else let limit = (if int (length hashes) < historyCount then int (length hashes) else historyCount)
        in if \<exists>h\<in>set (take (nat limit) hashes). CompareHash H h newPassword
           then Some ''password has been used recently; please choose a different password'' else None)"

definition AppendPasswordHistory :: "hash_api \<Rightarrow> User \<Rightarrow> string \<Rightarrow> int \<Rightarrow> User" where
  "AppendPasswordHistory H user newHash keepCount = (if keepCount \<le> 0 then user
     else let hashes0 = (if 0 < length (u_PasswordHistory user) then fst (Unmarshal H (u_PasswordHistory user)) else []);
              hashes1 = newHash # hashes0;
              hashes2 = (if keepCount < int (length hashes1) then take (nat keepCount) hashes1 else hashes1)
          in user\<lparr>u_PasswordHistory := Marshal H hashes2\<rparr>)"

section \<open>Age and lifetimes\<close>

definition IsPasswordExpired :: "instant \<Rightarrow> User \<Rightarrow> int \<Rightarrow> bool" where
  "IsPasswordExpired now user maxAgeDays = (case u_PasswordChangedAt user of
       None \<Rightarrow> False
     | Some t \<Rightarrow> (if maxAgeDays \<le> 0 then False else t + wrap64 (maxAgeDays * 24 * hour) < now))"

definition ResolveTokenTTLs :: "Application option \<Rightarrow> duration \<times> duration" where
  "ResolveTokenTTLs app = (case app of None \<Rightarrow> (0, 0) | Some a \<Rightarrow>
     ((if 0 < a_AccessTokenTTLMinutes a then wrap64 (minute * a_AccessTokenTTLMinutes a) else 0),
      (if 0 < a_RefreshTokenTTLHours a then wrap64 (hour * a_RefreshTokenTTLHours a) else 0)))"

section \<open>A hash library for closed runs\<close>

text \<open>JSON by a length-prefix encoding, hashes by a marker; only the laws of \<open>hash_lib\<close> matter.\<close>

fun enc_strings :: "string list \<Rightarrow> string" where
  "enc_strings [] = '']''"
| "enc_strings (s # ss) = concat (map (\<lambda>c. [CHR ''x'', c]) s) @ CHR '','' # enc_strings ss"

fun dec_strings :: "string \<Rightarrow> string \<Rightarrow> string list option" where
  "dec_strings acc [] = None"
| "dec_strings acc (c # s) = (if c = CHR '']'' then Some []
     else if c = CHR '','' then map_option (Cons (rev acc)) (dec_strings [] s)
     else case s of [] \<Rightarrow> None | d # t \<Rightarrow> dec_strings (d # acc) t)"

lemma dec_enc_strings: "dec_strings acc (concat (map (\<lambda>c. [CHR ''x'', c]) s) @ CHR '','' # enc_strings ss) =
    map_option (Cons (rev acc @ s)) (dec_strings [] (enc_strings ss))"
  by (induction s arbitrary: acc) simp_all

lemma dec_enc_all: "dec_strings [] (enc_strings xs) = Some xs"
  by (induction xs) (simp_all add: dec_enc_strings)

definition ref_hash :: hash_api where
  "ref_hash = \<lparr>Unmarshal = (\<lambda>s. case dec_strings [] s of Some xs \<Rightarrow> (xs, True) | None \<Rightarrow> ([], False)),
     Marshal = enc_strings, GenerateHash = (\<lambda>n p. if length p \<le> 72 then Inr (''$'' @ p) else Inl ''too long''),
     CompareHash = (\<lambda>h p. h = ''$'' @ p)\<rparr>"

interpretation ref_hash: hash_lib ref_hash
proof
  fix xs show "Marshal ref_hash xs \<noteq> []" by (cases xs) (simp_all add: ref_hash_def)
qed (auto simp: ref_hash_def dec_enc_all split: if_splits)

text \<open>The classes of ASCII, byte by byte.\<close>

definition ascii_unicode :: unicode_api where
  "ascii_unicode = \<lparr>runes = map (\<lambda>c. of_char c),
     IsUpper = (\<lambda>n. 65 \<le> n \<and> n \<le> 90), IsLower = (\<lambda>n. 97 \<le> n \<and> n \<le> 122), IsDigit = (\<lambda>n. 48 \<le> n \<and> n \<le> 57),
     IsPunct = (\<lambda>n. n \<in> {33, 34, 35, 37, 38, 39, 40, 41, 42, 44, 45, 46, 47, 58, 59, 63, 64, 91, 92, 93, 95, 123, 125}),
     IsSymbol = (\<lambda>n. n \<in> {36, 43, 60, 61, 62, 94, 96, 124, 126})\<rparr>"

end
