(* ===== verification/UserRepository.thy ===== *)
theory UserRepository
  imports PasswordPolicy
begin

text \<open>
  \<open>internal/user/repository.go\<close>: the statements on the users table.  Each is one statement with
  a \<open>WHERE\<close> on the id, or on application and e-mail address.
\<close>

definition with_id :: "string \<Rightarrow> User \<Rightarrow> bool" where
  "with_id userID x \<longleftrightarrow> u_ID x = userID"

definition with_email :: "string \<Rightarrow> string \<Rightarrow> User \<Rightarrow> bool" where
  "with_email appID email x \<longleftrightarrow> u_AppID x = appID \<and> u_Email x = email"

text \<open>
  \<open>Create\<close> leaves the columns whose value is zero to their defaults: a generated id, active, an
  empty history; the struct has them afterwards.
\<close>

definition with_defaults :: "string \<Rightarrow> User \<Rightarrow> User" where
  "with_defaults newID u = u\<lparr>u_ID := newID, u_IsActive := True,
     u_PasswordHistory := (if u_PasswordHistory u = [] then ''[]'' else u_PasswordHistory u)\<rparr>"

definition CreateUser :: "User table_api \<Rightarrow> string \<Rightarrow> User \<Rightarrow> (User list, dberr + User) state" where
  "CreateUser D newID user = do {
     let row = with_defaults newID user;
     err \<leftarrow> t_create D row;
     ret (case err of Some e \<Rightarrow> Inl e | None \<Rightarrow> Inr row) }"

definition GetUserByEmail :: "User table_api \<Rightarrow> string \<Rightarrow> string \<Rightarrow> (User list, dberr + User) state" where
  "GetUserByEmail D appID email = t_first D (with_email appID email)"

definition GetUserByID :: "User table_api \<Rightarrow> string \<Rightarrow> (User list, dberr + User) state" where
  "GetUserByID D userID = t_first D (with_id userID)"

text \<open>\<open>Save\<close> updates all columns of the row with the id, and inserts when it has changed no row.\<close>

definition UpdateUser :: "User table_api \<Rightarrow> User \<Rightarrow> (User list, dberr option) state" where
  "UpdateUser D user = do {
     rows \<leftarrow> State_Monad.get;
     (if list_ex (with_id (u_ID user)) rows then t_update D (with_id (u_ID user)) (\<lambda>_. user)
      else t_create D user) }"

definition set_password :: "string \<Rightarrow> string \<Rightarrow> instant \<Rightarrow> User \<Rightarrow> User" where
  "set_password hash history now u =
     u\<lparr>u_PasswordHash := hash, u_PasswordHistory := history, u_PasswordChangedAt := Some now\<rparr>"

definition UpdateUserPasswordOnly :: "User table_api \<Rightarrow> string \<Rightarrow> string \<Rightarrow> (User list, dberr option) state" where
  "UpdateUserPasswordOnly D userID hashedPassword =
     t_update D (with_id userID) (\<lambda>u. u\<lparr>u_PasswordHash := hashedPassword\<rparr>)"

definition UpdateUserPasswordWithHistory ::
    "User table_api \<Rightarrow> string \<Rightarrow> string \<Rightarrow> string \<Rightarrow> (uworld, dberr option) state" where
  "UpdateUserPasswordWithHistory D userID hashedPassword history = do {
     now \<leftarrow> rds time_now;
     usr (t_update D (with_id userID) (set_password hashedPassword history now)) }"

definition UpdateUserEmailVerified :: "User table_api \<Rightarrow> string \<Rightarrow> bool \<Rightarrow> (User list, dberr option) state" where
  "UpdateUserEmailVerified D userID verified = t_update D (with_id userID) (\<lambda>u. u\<lparr>u_EmailVerified := verified\<rparr>)"

definition Enable2FAWithMethod ::
    "User table_api \<Rightarrow> string \<Rightarrow> string \<Rightarrow> string \<Rightarrow> string \<Rightarrow> (User list, dberr option) state" where
  "Enable2FAWithMethod D userID secret recoveryCodes method = t_update D (with_id userID)
     (\<lambda>u. u\<lparr>u_TwoFAEnabled := True, u_TwoFASecret := secret, u_TwoFARecoveryCodes := Some recoveryCodes,
            u_TwoFAMethod := method\<rparr>)"

definition Enable2FA :: "User table_api \<Rightarrow> string \<Rightarrow> string \<Rightarrow> string \<Rightarrow> (User list, dberr option) state" where
  "Enable2FA D userID secret recoveryCodes = Enable2FAWithMethod D userID secret recoveryCodes ''totp''"

definition Disable2FA :: "User table_api \<Rightarrow> string \<Rightarrow> (User list, dberr option) state" where
  "Disable2FA D userID = t_update D (with_id userID)
     (\<lambda>u. u\<lparr>u_TwoFAEnabled := False, u_TwoFASecret := [], u_TwoFARecoveryCodes := None, u_TwoFAMethod := []\<rparr>)"

definition UpdateRecoveryCodes :: "User table_api \<Rightarrow> string \<Rightarrow> string \<Rightarrow> (User list, dberr option) state" where
  "UpdateRecoveryCodes D userID recoveryCodes =
     t_update D (with_id userID) (\<lambda>u. u\<lparr>u_TwoFARecoveryCodes := Some recoveryCodes\<rparr>)"

text \<open>
  One transaction; of the dependent tables it empties first, activity logs are not modelled.
\<close>

definition DeleteUser :: "User table_api \<Rightarrow> string \<Rightarrow> (uworld, dberr option) state" where
  "DeleteUser D userID = do {
     err \<leftarrow> usr (t_delete D (with_id userID));
     case err of Some e \<Rightarrow> ret (Some e) | None \<Rightarrow> do {
     rows \<leftarrow> user_roles_of State_Monad.get;
     user_roles_of (State_Monad.set (filter (\<lambda>r. ur_UserID r \<noteq> userID) rows));
     rows \<leftarrow> devs State_Monad.get;
     devs (State_Monad.set (filter (\<lambda>d. td_UserID d \<noteq> userID) rows));
     rows \<leftarrow> social_of State_Monad.get;
     social_of (State_Monad.set (filter (\<lambda>a. sa_UserID a \<noteq> userID) rows));
     rows \<leftarrow> passkeys_of State_Monad.get;
     passkeys_of (State_Monad.set (filter (\<lambda>p. wc_UserID p \<noteq> Some userID) rows));
     ret None } }"

record UpdateProfileRequest =
  up_Name :: string
  up_FirstName :: string
  up_LastName :: string
  up_ProfilePicture :: string
  up_Locale :: string

text \<open>The map of the fields to update, as the change it makes to a row.\<close>

definition profile_updates :: "UpdateProfileRequest \<Rightarrow> User \<Rightarrow> User" where
  "profile_updates req u = u\<lparr>
     u_Name := (if up_Name req \<noteq> [] then up_Name req else u_Name u),
     u_FirstName := (if up_FirstName req \<noteq> [] then up_FirstName req else u_FirstName u),
     u_LastName := (if up_LastName req \<noteq> [] then up_LastName req else u_LastName u),
     u_ProfilePicture := (if up_ProfilePicture req \<noteq> [] then up_ProfilePicture req else u_ProfilePicture u),
     u_Locale := (if up_Locale req \<noteq> [] then up_Locale req else u_Locale u)\<rparr>"

definition repo_UpdateUserProfile ::
    "User table_api \<Rightarrow> string \<Rightarrow> (User \<Rightarrow> User) \<Rightarrow> (User list, dberr option) state" where
  "repo_UpdateUserProfile D userID changes = t_update D (with_id userID) changes"

definition repo_UpdateUserEmail :: "User table_api \<Rightarrow> string \<Rightarrow> string \<Rightarrow> (User list, dberr option) state" where
  "repo_UpdateUserEmail D userID newEmail =
     t_update D (with_id userID) (\<lambda>u. u\<lparr>u_Email := newEmail, u_EmailVerified := False\<rparr>)"

definition ClearLockout :: "User table_api \<Rightarrow> string \<Rightarrow> (User list, dberr option) state" where
  "ClearLockout D userID =
     t_update D (with_id userID) (\<lambda>u. u\<lparr>u_LockedAt := None, u_LockReason := [], u_LockExpiresAt := None\<rparr>)"

definition SetBackupEmail :: "User table_api \<Rightarrow> string \<Rightarrow> string \<Rightarrow> (User list, dberr option) state" where
  "SetBackupEmail D userID backupEmail =
     t_update D (with_id userID) (\<lambda>u. u\<lparr>u_BackupEmail := backupEmail, u_BackupEmailVerified := False\<rparr>)"

definition VerifyBackupEmail :: "User table_api \<Rightarrow> string \<Rightarrow> (User list, dberr option) state" where
  "VerifyBackupEmail D userID = t_update D (with_id userID) (\<lambda>u. u\<lparr>u_BackupEmailVerified := True\<rparr>)"

definition ClearBackupEmail :: "User table_api \<Rightarrow> string \<Rightarrow> (User list, dberr option) state" where
  "ClearBackupEmail D userID =
     t_update D (with_id userID) (\<lambda>u. u\<lparr>u_BackupEmail := [], u_BackupEmailVerified := False\<rparr>)"

definition SaveAndSwitchToBackupEmail2FA ::
    "User table_api \<Rightarrow> string \<Rightarrow> string \<Rightarrow> string \<Rightarrow> string \<Rightarrow> (User list, dberr option) state" where
  "SaveAndSwitchToBackupEmail2FA D userID previousMethod previousSecret recoveryCodes = t_update D (with_id userID)
     (\<lambda>u. u\<lparr>u_TwoFAPreviousMethod := previousMethod, u_TwoFAPreviousSecret := previousSecret, u_TwoFAEnabled := True,
            u_TwoFAMethod := ''backup_email'', u_TwoFASecret := [], u_TwoFARecoveryCodes := Some recoveryCodes\<rparr>)"

definition RestorePreviousTwoFAMethod :: "User table_api \<Rightarrow> string \<Rightarrow> (User list, dberr option) state" where
  "RestorePreviousTwoFAMethod D userID = do {
     res \<leftarrow> t_first D (with_id userID);
     case res of Inl e \<Rightarrow> ret (Some e) | Inr user \<Rightarrow> t_update D (with_id userID)
       (\<lambda>u. u\<lparr>u_TwoFAMethod := u_TwoFAPreviousMethod user, u_TwoFASecret := u_TwoFAPreviousSecret user,
              u_TwoFAEnabled := (u_TwoFAPreviousMethod user \<noteq> []), u_TwoFAPreviousMethod := [],
              u_TwoFAPreviousSecret := []\<rparr>) }"

definition SetPhoneNumber :: "User table_api \<Rightarrow> string \<Rightarrow> string \<Rightarrow> (User list, dberr option) state" where
  "SetPhoneNumber D userID phone =
     t_update D (with_id userID) (\<lambda>u. u\<lparr>u_PhoneNumber := phone, u_PhoneVerified := False\<rparr>)"

definition VerifyPhoneNumber :: "User table_api \<Rightarrow> string \<Rightarrow> (User list, dberr option) state" where
  "VerifyPhoneNumber D userID = t_update D (with_id userID) (\<lambda>u. u\<lparr>u_PhoneVerified := True\<rparr>)"

definition ClearPhone :: "User table_api \<Rightarrow> string \<Rightarrow> (User list, dberr option) state" where
  "ClearPhone D userID = t_update D (with_id userID) (\<lambda>u. u\<lparr>u_PhoneNumber := [], u_PhoneVerified := False\<rparr>)"

end
