(* ===== verification/UserService.thy ===== *)
theory UserService
  imports UserRepository AuthMiddleware
begin

text \<open>
  \<open>internal/user/service.go\<close>: registration, login, e-mail verification, passwords, magic links and
  the end of an account, on the users table, Redis and the session service.
\<close>

section \<open>What the service is wired to\<close>

text \<open>
  The fields of \<open>Service\<close> that may be nil are options or flags.  \<open>mail_ok w a m\<close>: the mail
  service accepts message \<open>m\<close> of application \<open>a\<close> in state \<open>w\<close>; role lookup and assignment work on
  the role rows.  \<open>FRONTEND_URL\<close> is read through viper.
\<close>

record user_env =
  ue_redis :: redis_api
  ue_jwt :: jwt_env
  ue_users :: "User table_api"
  ue_apps :: "Application table_api"
  ue_hash :: hash_api
  ue_unicode :: unicode_api
  ue_uuid :: "nat \<Rightarrow> string"
  ue_code :: "nat \<Rightarrow> nat"
  parse_uuid :: "string \<Rightarrow> string option"
  mail_ok :: "uworld \<Rightarrow> string \<Rightarrow> outgoing \<Rightarrow> bool"
  has_mail :: bool
  has_sms :: bool
  has_webhooks :: bool
  has_sessions :: bool
  LookupRoles :: "(string \<Rightarrow> string \<Rightarrow> (uworld, string + string list) state) option"
  AssignDefaultRole :: "(string \<Rightarrow> string \<Rightarrow> (uworld, string option) state) option"
  GroupLogout :: "(string \<Rightarrow> string \<Rightarrow> (uworld, unit) state) option"
  FRONTEND_URL :: string

definition send :: "user_env \<Rightarrow> string \<Rightarrow> outgoing \<Rightarrow> (uworld, string option) state" where
  "send V appID m = do {
     w \<leftarrow> State_Monad.get;
     (if mail_ok V w appID m then do {
        State_Monad.set (w\<lparr>w_outbox := (appID, m) # w_outbox w\<rparr>);
        ret None }
      else ret (Some ''send failed'')) }"

definition Dispatch :: "user_env \<Rightarrow> string \<Rightarrow> string \<Rightarrow> string \<Rightarrow> (uworld, unit) state" where
  "Dispatch V appID event userID = (if has_webhooks V then do {
     w \<leftarrow> State_Monad.get;
     State_Monad.set (w\<lparr>w_events := (appID, event, userID) # w_events w\<rparr>) } else ret ())"

definition load_app :: "user_env \<Rightarrow> string \<Rightarrow> (uworld, Application option) state" where
  "load_app V appID = do {
     res \<leftarrow> apps (t_first (ue_apps V) (\<lambda>a. a_ID a = appID));
     ret (case res of Inl e \<Rightarrow> None | Inr a \<Rightarrow> Some a) }"

definition new_uuid :: "user_env \<Rightarrow> (uworld, string) state" where
  "new_uuid V = draw (ue_uuid V)"

text \<open>\<open>crypto/rand\<close> gives a number below a million, printed with six digits.\<close>

fun zero_pad :: "nat \<Rightarrow> string \<Rightarrow> string" where
  "zero_pad n s = (if length s < n then replicate (n - length s) (CHR ''0'') @ s else s)"

definition generateSecure6DigitCode :: "user_env \<Rightarrow> (uworld, string) state" where
  "generateSecure6DigitCode V = do { n \<leftarrow> draw (ue_code V); ret (zero_pad 6 (itoa (int (n mod 1000000)))) }"

section \<open>\<open>internal/util/frontend_url.go\<close>\<close>

definition TrimRightSlash :: "string \<Rightarrow> string" where
  "TrimRightSlash s = rev (dropWhile (\<lambda>c. c = CHR ''/'') (rev s))"

definition ResolveFrontendURL :: "user_env \<Rightarrow> string \<Rightarrow> string" where
  "ResolveFrontendURL V appFrontendURL =
     (if TrimRightSlash appFrontendURL \<noteq> [] then TrimRightSlash appFrontendURL
      else if TrimRightSlash (FRONTEND_URL V) \<noteq> [] then TrimRightSlash (FRONTEND_URL V)
      else ''http://localhost:8080'')"

definition ResolveLinkPath :: "string \<Rightarrow> string \<Rightarrow> string" where
  "ResolveLinkPath appPath defaultPath = (let p0 = TrimRightSlash appPath;
       p = (if p0 = [] then TrimRightSlash defaultPath else p0)
     in if HasPrefix p ''/'' then p else ''/'' @ p)"

section \<open>Roles and sessions\<close>

definition getUserRoles :: "user_env \<Rightarrow> string \<Rightarrow> string \<Rightarrow> (uworld, string list) state" where
  "getUserRoles V appID userID = (case LookupRoles V of None \<Rightarrow> ret [] | Some lookup \<Rightarrow> do {
     res \<leftarrow> lookup appID userID;
     case res of Inl e \<Rightarrow> ret [] | Inr roles \<Rightarrow>
     (case AssignDefaultRole V of
        Some assign \<Rightarrow> (if roles \<noteq> [] then ret roles else do {
          err \<leftarrow> assign appID userID;
          case err of Some e \<Rightarrow> ret [] | None \<Rightarrow> do {
          res \<leftarrow> lookup appID userID;
          ret (case res of Inl e \<Rightarrow> [] | Inr roles \<Rightarrow> roles) } })
      | None \<Rightarrow> ret roles) })"

definition createSession ::
    "user_env \<Rightarrow> string \<Rightarrow> string \<Rightarrow> string \<Rightarrow> string \<Rightarrow> Application option \<Rightarrow>
     (uworld, app_error + (string \<times> string \<times> string)) state" where
  "createSession V appID userID ip userAgent app = do {
     roles \<leftarrow> getUserRoles V appID userID;
     let (accessTTL, refreshTTL) = ResolveTokenTTLs app;
     (if has_sessions V
      then svc_CreateSession (ue_redis V) (ue_jwt V) (ue_uuid V) appID userID ip userAgent roles accessTTL refreshTTL
      else do {
        res \<leftarrow> rds (GenerateAccessToken (ue_jwt V) appID userID [] roles accessTTL);
        case res of Inl e \<Rightarrow> ret (Inl (internal ''Failed to generate access token'')) | Inr accessToken \<Rightarrow> do {
        res \<leftarrow> rds (GenerateRefreshToken (ue_jwt V) appID userID [] roles refreshTTL);
        case res of Inl e \<Rightarrow> ret (Inl (internal ''Failed to generate refresh token'')) | Inr refreshToken \<Rightarrow> do {
        err \<leftarrow> rds (SetRefreshToken (ue_redis V) (je_refresh_hours (ue_jwt V)) appID userID refreshToken);
        ret (case err of Some e \<Rightarrow> Inl (internal ''Failed to store refresh token'')
             | None \<Rightarrow> Inr (accessToken, refreshToken, [])) } } }) }"

definition CreateSessionForUser ::
    "user_env \<Rightarrow> string \<Rightarrow> string \<Rightarrow> string \<Rightarrow> string \<Rightarrow> (uworld, app_error + (string \<times> string)) state" where
  "CreateSessionForUser V appID userID ip userAgent = do {
     appPtr \<leftarrow> load_app V appID;
     res \<leftarrow> createSession V appID userID ip userAgent appPtr;
     ret (case res of Inl e \<Rightarrow> Inl e | Inr (at, rt, _) \<Rightarrow> Inr (at, rt)) }"

section \<open>Registration\<close>

definition RegisterUser ::
    "user_env \<Rightarrow> string \<Rightarrow> string \<Rightarrow> string \<Rightarrow> (uworld, app_error + string) state" where
  "RegisterUser V appID email password = do {
     res \<leftarrow> usr (GetUserByEmail (ue_users V) appID email);
     case res of Inr _ \<Rightarrow> ret (Inl (conflict ''Email already registered'')) | Inl _ \<Rightarrow> do {
     loaded \<leftarrow> load_app V appID;
     let app = (case loaded of None \<Rightarrow> zero_app | Some a \<Rightarrow> a);
     case ValidatePasswordPolicy (ue_unicode V) password app of Some msg \<Rightarrow> ret (Inl (bad_request msg)) | None \<Rightarrow> do {
     hashed \<leftarrow> draw (\<lambda>n. GenerateHash (ue_hash V) n password);
     case hashed of Inl e \<Rightarrow> ret (Inl (internal ''Failed to hash password'')) | Inr hashedPassword \<Rightarrow> do {
     now \<leftarrow> rds time_now;
     let newUser = AppendPasswordHistory (ue_hash V)
           (zero_user\<lparr>u_AppID := appID, u_Email := email, u_PasswordHash := hashedPassword, u_EmailVerified := False,
                      u_PasswordChangedAt := Some now\<rparr>) hashedPassword (a_PwHistoryCount app);
     newID \<leftarrow> new_uuid V;
     res \<leftarrow> usr (CreateUser (ue_users V) newID newUser);
     case res of Inl e \<Rightarrow> ret (Inl (internal ''Failed to create user'')) | Inr user \<Rightarrow> do {
     Dispatch V appID ''user.registered'' (u_ID user);
     (case AssignDefaultRole V of None \<Rightarrow> ret () | Some assign \<Rightarrow> do { err \<leftarrow> assign appID (u_ID user); ret () });
     verificationToken \<leftarrow> new_uuid V;
     err \<leftarrow> rds (SetEmailVerificationToken (ue_redis V) appID (u_ID user) verificationToken (24 * hour));
     case err of Some e \<Rightarrow> ret (Inl (internal ''Failed to store verification token'')) | None \<Rightarrow> do {
     err \<leftarrow> send V appID (VerificationEmail (u_Email user) verificationToken (u_ID user));
     ret (case err of Some e \<Rightarrow> Inl (internal ''Failed to send verification email'') | None \<Rightarrow> Inr (u_ID user)) } } } } } }"

section \<open>Login\<close>

record LoginResult =
  RequiresTwoFA :: bool
  RequiresTwoFASetup :: bool
  PasswordExpired :: bool
  lr_UserID :: string
  AccessToken :: string
  RefreshToken :: string
  lr_SessionID :: string
  TempToken :: string
  TwoFAMethod :: string

definition login_result :: "string \<Rightarrow> LoginResult" where
  "login_result userID = \<lparr>RequiresTwoFA = False, RequiresTwoFASetup = False, PasswordExpired = False, lr_UserID = userID,
     AccessToken = [], RefreshToken = [], lr_SessionID = [], TempToken = [], TwoFAMethod = []\<rparr>"

text \<open>
  The lock of the row that was read: still locked, or not (any more).  An expired lock is cleared
  in the table; a failure to do so is logged only.
\<close>

definition lock_holds :: "instant \<Rightarrow> User \<Rightarrow> bool" where
  "lock_holds now user \<longleftrightarrow> u_LockedAt user \<noteq> None \<and> \<not> (case u_LockExpiresAt user of Some x \<Rightarrow> x < now | None \<Rightarrow> False)"

definition pass_lock :: "user_env \<Rightarrow> User \<Rightarrow> (uworld, bool) state" where
  "pass_lock V user = (if u_LockedAt user = None then ret True else do {
     now \<leftarrow> rds time_now;
     (if lock_holds now user then ret False
      else do { err \<leftarrow> usr (ClearLockout (ue_users V) (u_ID user)); ret True }) })"

text \<open>The code of the second factor, stored and sent; an error ends the login.\<close>

definition send_second_factor :: "user_env \<Rightarrow> string \<Rightarrow> User \<Rightarrow> string \<Rightarrow> (uworld, app_error option) state" where
  "send_second_factor V appID user method = do {
     let userID = u_ID user;
     (if method = ''email'' \<and> has_mail V then do {
        code \<leftarrow> generateSecure6DigitCode V;
        err \<leftarrow> rds (Set2FAEmailCode (ue_redis V) appID userID code);
        case err of Some e \<Rightarrow> ret (Some (internal ''Failed to prepare 2FA verification'')) | None \<Rightarrow> do {
        err \<leftarrow> send V appID (TwoFACodeEmail (u_Email user) code);
        ret (case err of Some e \<Rightarrow> Some (internal ''Failed to send 2FA code email'') | None \<Rightarrow> None) } }
      else if method = ''sms'' \<and> has_sms V then
        (if u_PhoneVerified user \<and> u_PhoneNumber user \<noteq> [] then do {
           code \<leftarrow> generateSecure6DigitCode V;
           err \<leftarrow> rds (Set2FASMSCode (ue_redis V) appID userID code);
           case err of Some e \<Rightarrow> ret (Some (internal ''Failed to prepare SMS 2FA verification'')) | None \<Rightarrow> do {
           err \<leftarrow> send V appID (SMS (u_PhoneNumber user)
             (''Your verification code is: '' @ code @ ''  (expires in 5 minutes)''));
           ret (case err of Some e \<Rightarrow> Some (internal ''Failed to send SMS 2FA code'') | None \<Rightarrow> None) } }
         else ret None)
      else if method = ''backup_email'' then
        (if u_BackupEmailVerified user \<and> u_BackupEmail user \<noteq> [] then do {
           code \<leftarrow> generateSecure6DigitCode V;
           err \<leftarrow> rds (SetBackupEmail2FACode (ue_redis V) appID userID code);
           case err of Some e \<Rightarrow> ret (Some (internal ''Failed to prepare backup email 2FA verification'')) | None \<Rightarrow>
           (if has_mail V then do {
              err \<leftarrow> send V appID (TwoFACodeEmail (u_BackupEmail user) code);
              ret (case err of Some e \<Rightarrow> Some (internal ''Failed to send backup email 2FA code'') | None \<Rightarrow> None) }
            else ret None) }
         else ret None)
      else ret None) }"

definition LoginUser ::
    "user_env \<Rightarrow> string \<Rightarrow> string \<Rightarrow> string \<Rightarrow> string \<Rightarrow> string \<Rightarrow> (uworld, app_error + LoginResult) state" where
  "LoginUser V appID email password ip userAgent = do {
     res \<leftarrow> usr (GetUserByEmail (ue_users V) appID email);
     case res of Inl e \<Rightarrow> ret (Inl (unauthorized ''Invalid credentials'')) | Inr user \<Rightarrow> do {
     unlocked \<leftarrow> pass_lock V user;
     if \<not> unlocked then ret (Inl (forbidden ''Account is temporarily locked due to too many failed login attempts'')) else
     if \<not> CompareHash (ue_hash V) (u_PasswordHash user) password then ret (Inl (unauthorized ''Invalid credentials'')) else
     if \<not> u_IsActive user then ret (Inl (forbidden ''Account is deactivated. Please contact your administrator.'')) else
     if \<not> u_EmailVerified user then ret (Inl (forbidden ''Email not verified. Please check your inbox.'')) else do {
     app \<leftarrow> load_app V appID;
     now \<leftarrow> rds time_now;
     (if (case app of Some a \<Rightarrow> IsPasswordExpired now user (a_PwMaxAgeDays a) | None \<Rightarrow> False)
      then ret (Inr ((login_result (u_ID user))\<lparr>PasswordExpired := True\<rparr>))
      else if u_TwoFAEnabled user \<and> (case app of None \<Rightarrow> True | Some a \<Rightarrow> a_TwoFAEnabled a) then do {
        tempToken \<leftarrow> new_uuid V;
        err \<leftarrow> rds (SetTempUserSession (ue_redis V) appID tempToken (u_ID user) (10 * minute));
        case err of Some e \<Rightarrow> ret (Inl (internal ''Failed to create temporary session'')) | None \<Rightarrow> do {
        let method = (if u_TwoFAMethod user = [] then ''totp'' else u_TwoFAMethod user);
        err \<leftarrow> send_second_factor V appID user method;
        ret (case err of Some e \<Rightarrow> Inl e
             | None \<Rightarrow> Inr ((login_result (u_ID user))\<lparr>RequiresTwoFA := True, TempToken := tempToken, TwoFAMethod := method\<rparr>)) } }
      else do {
        res \<leftarrow> createSession V appID (u_ID user) ip userAgent app;
        case res of Inl e \<Rightarrow> ret (Inl e) | Inr (accessToken, refreshToken, sessionID) \<Rightarrow> do {
        let tokens = (login_result (u_ID user))\<lparr>AccessToken := accessToken, RefreshToken := refreshToken, lr_SessionID := sessionID\<rparr>;
        (if (case app of Some a \<Rightarrow> a_TwoFARequired a | None \<Rightarrow> False)
         then ret (Inr (tokens\<lparr>RequiresTwoFASetup := True\<rparr>))
         else do {
           Dispatch V appID ''user.login'' (u_ID user);
           ret (Inr tokens) }) } }) } } }"

definition RefreshUserToken ::
    "user_env \<Rightarrow> string \<Rightarrow> duration \<Rightarrow> duration \<Rightarrow> (uworld, app_error + (string \<times> string \<times> string)) state" where
  "RefreshUserToken V refreshToken accessTTL refreshTTL = (if has_sessions V
     then rds (svc_RefreshSession (ue_redis V) (ue_jwt V) refreshToken accessTTL refreshTTL)
     else do {
       res \<leftarrow> rds (ParseToken (ue_jwt V) refreshToken);
       case res of Inl e \<Rightarrow> ret (Inl (unauthorized ''Invalid refresh token'')) | Inr c \<Rightarrow>
       if TokenType c \<noteq> [] \<and> TokenType c \<noteq> TokenTypeRefresh then ret (Inl (unauthorized ''Invalid token type'')) else do {
       res \<leftarrow> rds (IsRefreshTokenRevoked (ue_redis V) (AppID c) (UserID c) refreshToken);
       if res \<noteq> Inr False then ret (Inl (unauthorized ''Refresh token revoked or invalid'')) else do {
       roles \<leftarrow> getUserRoles V (AppID c) (UserID c);
       res \<leftarrow> rds (GenerateAccessToken (ue_jwt V) (AppID c) (UserID c) (SessionID c) roles accessTTL);
       case res of Inl e \<Rightarrow> ret (Inl (internal ''Failed to generate new access token'')) | Inr newAccessToken \<Rightarrow> do {
       res \<leftarrow> rds (GenerateRefreshToken (ue_jwt V) (AppID c) (UserID c) (SessionID c) roles refreshTTL);
       case res of Inl e \<Rightarrow> ret (Inl (internal ''Failed to generate new refresh token'')) | Inr newRefreshToken \<Rightarrow> do {
       err \<leftarrow> rds (RevokeRefreshToken (ue_redis V) (AppID c) (UserID c) refreshToken);
       case err of Some e \<Rightarrow> ret (Inl (internal ''Failed to revoke old refresh token'')) | None \<Rightarrow> do {
       err \<leftarrow> rds (SetRefreshToken (ue_redis V) (je_refresh_hours (ue_jwt V)) (AppID c) (UserID c) newRefreshToken);
       ret (case err of Some e \<Rightarrow> Inl (internal ''Failed to store new refresh token'')
            | None \<Rightarrow> Inr (newAccessToken, newRefreshToken, UserID c)) } } } } } })"

section \<open>Logout\<close>

text \<open>The goroutine that tells the session group is run in place.\<close>

definition propagate_logout :: "user_env \<Rightarrow> string \<Rightarrow> string \<Rightarrow> (uworld, unit) state" where
  "propagate_logout V appID userID = (case GroupLogout V of None \<Rightarrow> ret () | Some logout \<Rightarrow> do {
     res \<leftarrow> usr (GetUserByID (ue_users V) userID);
     case res of Inl e \<Rightarrow> ret () | Inr u \<Rightarrow> logout appID (u_Email u) })"

definition LogoutUser ::
    "user_env \<Rightarrow> string \<Rightarrow> string \<Rightarrow> string \<Rightarrow> string \<Rightarrow> string \<Rightarrow> (uworld, app_error option outcome) state" where
  "LogoutUser V appID userID sessionID refreshToken accessToken = (if has_sessions V \<and> sessionID \<noteq> [] then do {
       res \<leftarrow> rds (svc_LogoutSession (ue_redis V) (ue_jwt V) appID userID sessionID accessToken);
       case res of Panicked m \<Rightarrow> ret (Panicked m) | Returned _ \<Rightarrow> do {
       propagate_logout V appID userID;
       ret (Returned None) } }
     else do {
       err \<leftarrow> rds (RevokeRefreshToken (ue_redis V) appID userID refreshToken);
       case err of Some e \<Rightarrow> ret (Returned (Some (internal ''Failed to revoke refresh token''))) | None \<Rightarrow> do {
       res \<leftarrow> rds (ParseToken (ue_jwt V) accessToken);
       case res of
         Inl e \<Rightarrow> do { propagate_logout V appID userID; ret (Returned None) }
       | Inr c \<Rightarrow> (case ExpiresAt c of
           None \<Rightarrow> ret (Panicked ''nil pointer dereference'')
         | Some x \<Rightarrow> do {
             now \<leftarrow> rds time_now;
             let remainingTime = x - now;
             (if 0 < remainingTime
              then rds (ignore (BlacklistAccessToken (ue_redis V) appID accessToken userID remainingTime)) else ret ());
             propagate_logout V appID userID;
             ret (Returned None) }) } })"

section \<open>E-mail verification\<close>

definition VerifyEmail :: "user_env \<Rightarrow> string \<Rightarrow> string \<Rightarrow> (uworld, app_error + string) state" where
  "VerifyEmail V appID token = do {
     res \<leftarrow> rds (GetEmailVerificationToken (ue_redis V) appID token);
     case res of Inl e \<Rightarrow> ret (Inl (unauthorized ''Invalid or expired verification token'')) | Inr userID \<Rightarrow>
     if userID = [] then ret (Inl (unauthorized ''Invalid or expired verification token'')) else do {
     err \<leftarrow> usr (UpdateUserEmailVerified (ue_users V) userID True);
     case err of Some e \<Rightarrow> ret (Inl (internal ''Failed to verify email'')) | None \<Rightarrow> do {
     rds (ignore (DeleteEmailVerificationToken (ue_redis V) appID token));
     case parse_uuid V userID of None \<Rightarrow> ret (Inl (internal ''Invalid user ID format'')) | Some userUUID \<Rightarrow> do {
     Dispatch V appID ''user.verified'' userUUID;
     ret (Inr userUUID) } } } }"

definition ResendVerificationEmail :: "user_env \<Rightarrow> string \<Rightarrow> string \<Rightarrow> (uworld, app_error option) state" where
  "ResendVerificationEmail V appID email = do {
     res \<leftarrow> usr (GetUserByEmail (ue_users V) appID email);
     case res of Inl e \<Rightarrow> ret None | Inr user \<Rightarrow>
     if u_EmailVerified user then ret None else do {
     let userID = u_ID user;
     old \<leftarrow> rds (GetEmailVerificationTokenByUserID (ue_redis V) appID userID);
     (case old of Inl e \<Rightarrow> ret ()
      | Inr oldToken \<Rightarrow> if oldToken \<noteq> [] then rds (ignore (DeleteEmailVerificationToken (ue_redis V) appID oldToken)) else ret ());
     verificationToken \<leftarrow> new_uuid V;
     err \<leftarrow> rds (SetEmailVerificationToken (ue_redis V) appID userID verificationToken (24 * hour));
     case err of Some e \<Rightarrow> ret (Some (internal ''Failed to store verification token'')) | None \<Rightarrow> do {
     err \<leftarrow> send V appID (VerificationEmail (u_Email user) verificationToken userID);
     ret (case err of Some e \<Rightarrow> Some (internal ''Failed to send verification email'') | None \<Rightarrow> None) } } }"

section \<open>Passwords\<close>

definition RevokeAllUserTokens :: "user_env \<Rightarrow> string \<Rightarrow> string \<Rightarrow> (redis, app_error option) state" where
  "RevokeAllUserTokens V appID userID = do {
     res \<leftarrow> GetRefreshToken (ue_redis V) appID userID;
     (case res of Inl e \<Rightarrow> ret ()
      | Inr current \<Rightarrow> if current \<noteq> [] then ignore (RevokeRefreshToken (ue_redis V) appID userID current) else ret ());
     err \<leftarrow> BlacklistAllUserTokens (ue_redis V) appID userID maxTokenLifetime;
     ret (case err of Some e \<Rightarrow> Some (internal ''Failed to blacklist user tokens'') | None \<Rightarrow> None) }"

definition RequestPasswordReset :: "user_env \<Rightarrow> string \<Rightarrow> string \<Rightarrow> (uworld, app_error option) state" where
  "RequestPasswordReset V appID email = do {
     res \<leftarrow> usr (GetUserByEmail (ue_users V) appID email);
     case res of Inl e \<Rightarrow> ret None | Inr user \<Rightarrow> do {
     resetToken \<leftarrow> new_uuid V;
     err \<leftarrow> rds (SetPasswordResetToken (ue_redis V) appID (u_ID user) resetToken hour);
     case err of Some e \<Rightarrow> ret (Some (internal ''Failed to generate reset token'')) | None \<Rightarrow> do {
     loaded \<leftarrow> load_app V appID;
     let app = (case loaded of None \<Rightarrow> zero_app | Some a \<Rightarrow> a);
     let resetPath = ResolveLinkPath (a_ResetPasswordPath app) ''/reset-password'';
     let resetLink = ResolveFrontendURL V (a_FrontendURL app) @ resetPath @ ''?token='' @ resetToken;
     err \<leftarrow> send V appID (PasswordResetEmail (u_Email user) resetLink);
     ret (case err of Some e \<Rightarrow> Some (internal ''Failed to send password reset email'') | None \<Rightarrow> None) } } }"

definition ConfirmPasswordReset ::
    "user_env \<Rightarrow> string \<Rightarrow> string \<Rightarrow> string \<Rightarrow> (uworld, app_error + string) state" where
  "ConfirmPasswordReset V appID token newPassword = do {
     res \<leftarrow> rds (GetPasswordResetToken (ue_redis V) appID token);
     case res of Inl e \<Rightarrow> ret (Inl (unauthorized ''Invalid or expired reset token'')) | Inr userID \<Rightarrow>
     if userID = [] then ret (Inl (unauthorized ''Invalid or expired reset token'')) else do {
     loaded \<leftarrow> load_app V appID;
     let app = (case loaded of None \<Rightarrow> zero_app | Some a \<Rightarrow> a);
     case ValidatePasswordPolicy (ue_unicode V) newPassword app of Some msg \<Rightarrow> ret (Inl (bad_request msg)) | None \<Rightarrow> do {
     res \<leftarrow> usr (GetUserByID (ue_users V) userID);
     case res of Inl e \<Rightarrow> ret (Inl (not_found ''User not found'')) | Inr resetUser \<Rightarrow>
     (case CheckPasswordHistory (ue_hash V) newPassword resetUser (a_PwHistoryCount app) of
        Some msg \<Rightarrow> ret (Inl (bad_request msg)) | None \<Rightarrow> do {
     hashed \<leftarrow> draw (\<lambda>n. GenerateHash (ue_hash V) n newPassword);
     case hashed of Inl e \<Rightarrow> ret (Inl (internal ''Failed to hash new password'')) | Inr hashedPassword \<Rightarrow> do {
     let appended = AppendPasswordHistory (ue_hash V) resetUser hashedPassword (a_PwHistoryCount app);
     err \<leftarrow> UpdateUserPasswordWithHistory (ue_users V) userID hashedPassword (u_PasswordHistory appended);
     case err of Some e \<Rightarrow> ret (Inl (internal ''Failed to update password'')) | None \<Rightarrow> do {
     rds (ignore (DeletePasswordResetToken (ue_redis V) appID token));
     rds (ignore (RevokeAllUserTokens V appID userID));
     ret (case parse_uuid V userID of None \<Rightarrow> Inl (internal ''Invalid user ID format'') | Some userUUID \<Rightarrow> Inr userUUID) } } }) } } }"

record UpdatePasswordRequest =
  CurrentPassword :: string
  NewPassword :: string

definition UpdateUserPassword ::
    "user_env \<Rightarrow> string \<Rightarrow> string \<Rightarrow> UpdatePasswordRequest \<Rightarrow> (uworld, app_error option) state" where
  "UpdateUserPassword V appID userID req = do {
     res \<leftarrow> usr (GetUserByID (ue_users V) userID);
     case res of Inl e \<Rightarrow> ret (Some (not_found ''User not found'')) | Inr user \<Rightarrow>
     if \<not> CompareHash (ue_hash V) (u_PasswordHash user) (CurrentPassword req)
     then ret (Some (unauthorized ''Invalid current password'')) else
     if CurrentPassword req = NewPassword req
     then ret (Some (bad_request ''New password must be different from current password'')) else do {
     loaded \<leftarrow> load_app V appID;
     let app = (case loaded of None \<Rightarrow> zero_app | Some a \<Rightarrow> a);
     case ValidatePasswordPolicy (ue_unicode V) (NewPassword req) app of Some msg \<Rightarrow> ret (Some (bad_request msg)) | None \<Rightarrow>
     (case CheckPasswordHistory (ue_hash V) (NewPassword req) user (a_PwHistoryCount app) of
        Some msg \<Rightarrow> ret (Some (bad_request msg)) | None \<Rightarrow> do {
     hashed \<leftarrow> draw (\<lambda>n. GenerateHash (ue_hash V) n (NewPassword req));
     case hashed of Inl e \<Rightarrow> ret (Some (internal ''Failed to hash new password'')) | Inr hashedPassword \<Rightarrow> do {
     let appended = AppendPasswordHistory (ue_hash V) user hashedPassword (a_PwHistoryCount app);
     err \<leftarrow> UpdateUserPasswordWithHistory (ue_users V) userID hashedPassword (u_PasswordHistory appended);
     case err of Some e \<Rightarrow> ret (Some (internal ''Failed to update password'')) | None \<Rightarrow> do {
     rds (ignore (RevokeAllUserTokens V appID userID));
     Dispatch V appID ''user.password_changed'' userID;
     ret None } } }) } }"

definition SetInitialPassword ::
    "user_env \<Rightarrow> string \<Rightarrow> string \<Rightarrow> string \<Rightarrow> (uworld, app_error option) state" where
  "SetInitialPassword V appID userID newPassword = do {
     res \<leftarrow> usr (GetUserByID (ue_users V) userID);
     case res of Inl e \<Rightarrow> ret (Some (not_found ''User not found'')) | Inr user \<Rightarrow>
     if u_PasswordHash user \<noteq> []
     then ret (Some (conflict ''Password already set. Use the change-password endpoint to update it.'')) else do {
     loaded \<leftarrow> load_app V appID;
     let app = (case loaded of None \<Rightarrow> zero_app | Some a \<Rightarrow> a);
     case ValidatePasswordPolicy (ue_unicode V) newPassword app of Some msg \<Rightarrow> ret (Some (bad_request msg)) | None \<Rightarrow> do {
     hashed \<leftarrow> draw (\<lambda>n. GenerateHash (ue_hash V) n newPassword);
     case hashed of Inl e \<Rightarrow> ret (Some (internal ''Failed to hash password'')) | Inr hashedPassword \<Rightarrow> do {
     err \<leftarrow> UpdateUserPasswordWithHistory (ue_users V) userID hashedPassword (u_PasswordHistory user);
     case err of Some e \<Rightarrow> ret (Some (internal ''Failed to set password'')) | None \<Rightarrow> do {
     Dispatch V appID ''user.password_set'' userID;
     ret None } } } } }"

section \<open>Profile, e-mail address and the end of an account\<close>

definition UpdateUserProfile :: "user_env \<Rightarrow> string \<Rightarrow> UpdateProfileRequest \<Rightarrow> (uworld, app_error option) state" where
  "UpdateUserProfile V userID req = (if up_Name req = [] \<and> up_FirstName req = [] \<and> up_LastName req = [] \<and>
        up_ProfilePicture req = [] \<and> up_Locale req = []
     then ret (Some (bad_request ''No fields provided for update'')) else do {
     err \<leftarrow> usr (repo_UpdateUserProfile (ue_users V) userID (profile_updates req));
     ret (case err of Some e \<Rightarrow> Some (internal ''Failed to update profile'') | None \<Rightarrow> None) })"

record UpdateEmailRequest =
  ue_Email :: string
  ue_Password :: string

definition UpdateUserEmail ::
    "user_env \<Rightarrow> string \<Rightarrow> string \<Rightarrow> UpdateEmailRequest \<Rightarrow> (uworld, app_error option) state" where
  "UpdateUserEmail V appID userID req = do {
     res \<leftarrow> usr (GetUserByID (ue_users V) userID);
     case res of Inl e \<Rightarrow> ret (Some (not_found ''User not found'')) | Inr user \<Rightarrow>
     if \<not> CompareHash (ue_hash V) (u_PasswordHash user) (ue_Password req)
     then ret (Some (unauthorized ''Invalid password'')) else do {
     res \<leftarrow> usr (GetUserByEmail (ue_users V) appID (ue_Email req));
     if (case res of Inl e \<Rightarrow> False | Inr existing \<Rightarrow> u_ID existing \<noteq> u_ID user)
     then ret (Some (conflict ''Email already in use'')) else do {
     err \<leftarrow> usr (repo_UpdateUserEmail (ue_users V) userID (ue_Email req));
     case err of Some e \<Rightarrow> ret (Some (internal ''Failed to update email'')) | None \<Rightarrow> do {
     verificationToken \<leftarrow> new_uuid V;
     err \<leftarrow> rds (SetEmailVerificationToken (ue_redis V) appID userID verificationToken (24 * hour));
     case err of Some e \<Rightarrow> ret (Some (internal ''Failed to generate verification token'')) | None \<Rightarrow> do {
     err \<leftarrow> send V appID (VerificationEmail (ue_Email req) verificationToken (u_ID user));
     ret (case err of Some e \<Rightarrow> Some (internal ''Failed to send verification email'') | None \<Rightarrow> None) } } } } }"

record DeleteAccountRequest =
  da_Password :: string
  ConfirmDeletion :: bool

definition DeleteUserAccount ::
    "user_env \<Rightarrow> string \<Rightarrow> string \<Rightarrow> DeleteAccountRequest \<Rightarrow> (uworld, app_error option) state" where
  "DeleteUserAccount V appID userID req = do {
     res \<leftarrow> usr (GetUserByID (ue_users V) userID);
     case res of Inl e \<Rightarrow> ret (Some (not_found ''User not found'')) | Inr user \<Rightarrow>
     if u_PasswordHash user \<noteq> [] \<and> \<not> CompareHash (ue_hash V) (u_PasswordHash user) (da_Password req)
     then ret (Some (unauthorized ''Invalid password'')) else
     if \<not> ConfirmDeletion req then ret (Some (bad_request ''Account deletion must be confirmed'')) else do {
     rds (if has_sessions V then ignore (svc_RevokeAllUserSessions (ue_redis V) appID userID)
          else ignore (RevokeAllUserTokens V appID userID));
     err \<leftarrow> DeleteUser (ue_users V) userID;
     ret (case err of Some e \<Rightarrow> Some (internal ''Failed to delete account'') | None \<Rightarrow> None) } }"

section \<open>Magic links\<close>

definition RequestMagicLink :: "user_env \<Rightarrow> string \<Rightarrow> string \<Rightarrow> (uworld, app_error option) state" where
  "RequestMagicLink V appID email = do {
     loaded \<leftarrow> load_app V appID;
     case loaded of None \<Rightarrow> ret (Some (internal ''Failed to load application settings'')) | Some app \<Rightarrow>
     if \<not> a_MagicLinkEnabled app then ret (Some (bad_request ''Magic link login is not enabled for this application'')) else do {
     res \<leftarrow> usr (GetUserByEmail (ue_users V) appID email);
     case res of Inl e \<Rightarrow> ret None | Inr user \<Rightarrow>
     if \<not> u_IsActive user then ret None else
     if \<not> u_EmailVerified user then ret None else do {
     magicToken \<leftarrow> new_uuid V;
     err \<leftarrow> rds (SetMagicLinkToken (ue_redis V) appID (u_ID user) magicToken (10 * minute));
     case err of Some e \<Rightarrow> ret (Some (internal ''Failed to generate magic link'')) | None \<Rightarrow> do {
     let magicPath = ResolveLinkPath (a_MagicLinkPath app) ''/magic-link'';
     let magicLink = ResolveFrontendURL V (a_FrontendURL app) @ magicPath @ ''?token='' @ magicToken @ ''&app_id='' @ appID;
     err \<leftarrow> send V appID (MagicLinkEmail (u_Email user) magicLink);
     ret (case err of Some e \<Rightarrow> Some (internal ''Failed to send magic link email'') | None \<Rightarrow> None) } } } }"

definition VerifyMagicLink ::
    "user_env \<Rightarrow> string \<Rightarrow> string \<Rightarrow> string \<Rightarrow> string \<Rightarrow> (uworld, app_error + LoginResult) state" where
  "VerifyMagicLink V appID token ip userAgent = do {
     loaded \<leftarrow> load_app V appID;
     case loaded of None \<Rightarrow> ret (Inl (internal ''Failed to load application settings'')) | Some app \<Rightarrow>
     if \<not> a_MagicLinkEnabled app then ret (Inl (bad_request ''Magic link login is not enabled for this application'')) else do {
     res \<leftarrow> rds (GetMagicLinkToken (ue_redis V) appID token);
     case res of Inl e \<Rightarrow> ret (Inl (unauthorized ''Invalid or expired magic link'')) | Inr userID \<Rightarrow>
     if userID = [] then ret (Inl (unauthorized ''Invalid or expired magic link'')) else do {
     rds (ignore (DeleteMagicLinkToken (ue_redis V) appID token));
     case parse_uuid V userID of None \<Rightarrow> ret (Inl (internal ''Invalid user ID format'')) | Some userUUID \<Rightarrow> do {
     res \<leftarrow> usr (GetUserByID (ue_users V) userUUID);
     case res of Inl e \<Rightarrow> ret (Inl (unauthorized ''User not found'')) | Inr user \<Rightarrow>
     if \<not> u_IsActive user then ret (Inl (forbidden ''Account is deactivated. Please contact your administrator.'')) else
     if \<not> u_EmailVerified user then ret (Inl (forbidden ''Email not verified.'')) else do {
     res \<leftarrow> createSession V appID (u_ID user) ip userAgent (Some app);
     ret (case res of Inl e \<Rightarrow> Inl e | Inr (accessToken, refreshToken, sessionID) \<Rightarrow>
       Inr ((login_result (u_ID user))\<lparr>AccessToken := accessToken, RefreshToken := refreshToken, lr_SessionID := sessionID\<rparr>)) } } } } }"

end
