(* ===== verification/BruteForce.thy ===== *)
theory BruteForce
  imports Models LoginCounters
begin

text \<open>
  \<open>internal/bruteforce\<close>: the per-application configuration, account lockout with escalating
  durations, progressive delays and the CAPTCHA gate.  \<open>time.ParseDuration\<close> is an argument (its
  fractions go through floating point), as are the answer of the CAPTCHA service and what the
  machine makes of a floating-point number too large for an \<open>int\<close>.
\<close>

section \<open>Configuration\<close>

record BruteForceConfig =
  LockoutEnabled :: bool
  bf_LockoutThreshold :: int
  LockoutDurations :: "duration list"
  LockoutWindow :: duration
  LockoutTierTTL :: duration
  DelayEnabled :: bool
  DelayStartAfter :: int
  DelayMaxSeconds :: int
  DelayTierTTL :: duration
  CaptchaEnabled :: bool
  CaptchaSiteKey :: string
  CaptchaSecretKey :: string
  CaptchaThreshold :: int

definition default_bf_config :: BruteForceConfig where
  "default_bf_config = \<lparr>LockoutEnabled = True, bf_LockoutThreshold = 5,
     LockoutDurations = [15 * minute, 30 * minute, 1 * hour, 24 * hour],
     LockoutWindow = 15 * minute, LockoutTierTTL = 24 * hour,
     DelayEnabled = True, DelayStartAfter = 2, DelayMaxSeconds = 16, DelayTierTTL = 30 * minute,
     CaptchaEnabled = True, CaptchaSiteKey = ''6LeIxAcTAAAAAJcZVRqyHh71UMIEGNQ_MXjiZKhI'',
     CaptchaSecretKey = ''6LeIxAcTAAAAAGG-vFI1TnRWxMZNFuojJ4WifJWe'', CaptchaThreshold = 3\<rparr>"

definition parseDurations :: "(string \<Rightarrow> duration option) \<Rightarrow> string \<Rightarrow> duration list" where
  "parseDurations ParseDuration s =
     List.map_filter (\<lambda>p. let q = TrimSpace p in if q = [] then None else ParseDuration q) (Split s (CHR '',''))"

text \<open>An override that is set and readable replaces the default.\<close>

definition override :: "'a \<Rightarrow> 'a option \<Rightarrow> 'a" where
  "override dflt x = (case x of Some v \<Rightarrow> v | None \<Rightarrow> dflt)"

definition override_text :: "string \<Rightarrow> string option \<Rightarrow> string" where
  "override_text dflt x = (case x of Some v \<Rightarrow> if v \<noteq> [] then v else dflt | None \<Rightarrow> dflt)"

definition ResolveConfig :: "(string \<Rightarrow> duration option) \<Rightarrow> Application option \<Rightarrow> BruteForceConfig" where
  "ResolveConfig ParseDuration appOpt = (let cfg = default_bf_config in case appOpt of
       None \<Rightarrow> cfg
     | Some app \<Rightarrow> \<lparr>
         LockoutEnabled = override (LockoutEnabled cfg) (a_BfLockoutEnabled app),
         bf_LockoutThreshold = override (bf_LockoutThreshold cfg) (a_BfLockoutThreshold app),
         LockoutDurations = (case a_BfLockoutDurations app of
             Some s \<Rightarrow> (let parsed = parseDurations ParseDuration s in if 0 < length parsed then parsed else LockoutDurations cfg)
           | None \<Rightarrow> LockoutDurations cfg),
         LockoutWindow = override (LockoutWindow cfg) (Option.bind (a_BfLockoutWindow app) ParseDuration),
         LockoutTierTTL = override (LockoutTierTTL cfg) (Option.bind (a_BfLockoutTierTTL app) ParseDuration),
         DelayEnabled = override (DelayEnabled cfg) (a_BfDelayEnabled app),
         DelayStartAfter = override (DelayStartAfter cfg) (a_BfDelayStartAfter app),
         DelayMaxSeconds = override (DelayMaxSeconds cfg) (a_BfDelayMaxSeconds app),
         DelayTierTTL = override (DelayTierTTL cfg) (Option.bind (a_BfDelayTierTTL app) ParseDuration),
         CaptchaEnabled = override (CaptchaEnabled cfg) (a_BfCaptchaEnabled app),
         CaptchaSiteKey = override_text (CaptchaSiteKey cfg) (a_BfCaptchaSiteKey app),
         CaptchaSecretKey = override_text (CaptchaSecretKey cfg) (a_BfCaptchaSecretKey app),
         CaptchaThreshold = override (CaptchaThreshold cfg) (a_BfCaptchaThreshold app) \<rparr>)"

section \<open>Account lockout\<close>

definition clear_lock :: "User \<Rightarrow> User" where
  "clear_lock u = u\<lparr>u_LockedAt := None, u_LockReason := [], u_LockExpiresAt := None\<rparr>"

text \<open>The user is a pointer: the second component is what it points to afterwards.\<close>

definition IsAccountLocked ::
    "User table_api \<Rightarrow> User \<Rightarrow> (uworld, (string + (bool \<times> instant option)) \<times> User) state" where
  "IsAccountLocked D user = (if u_LockedAt user = None then ret (Inr (False, None), user) else do {
     now \<leftarrow> rds time_now;
     (if (case u_LockExpiresAt user of Some x \<Rightarrow> x < now | None \<Rightarrow> False) then do {
        err \<leftarrow> usr (t_update D (\<lambda>x. u_ID x = u_ID user) clear_lock);
        ret (case err of Some e \<Rightarrow> (Inl ''failed to auto-unlock user'', user)
             | None \<Rightarrow> (Inr (False, None), clear_lock user)) }
      else ret (Inr (True, u_LockExpiresAt user), user)) })"

text \<open>
  The index into the durations: the tier counts from 1 and is capped at the last duration; a
  negative index is a run-time panic.
\<close>

definition lock_duration :: "duration list \<Rightarrow> int \<Rightarrow> duration option" where
  "lock_duration durations tier = (let tierIdx0 = tier - 1;
       tierIdx = (if int (length durations) \<le> tierIdx0 then int (length durations) - 1 else tierIdx0)
     in if tierIdx < 0 then None else Some (durations ! nat tierIdx))"

definition lock_reason :: "int \<Rightarrow> string" where
  "lock_reason tier = ''Too many failed login attempts (tier '' @ itoa tier @ '')''"

definition lockAccount ::
    "redis_api \<Rightarrow> User table_api \<Rightarrow> string \<Rightarrow> string \<Rightarrow> BruteForceConfig \<Rightarrow>
     (uworld, (string + instant) outcome) state" where
  "lockAccount R D appID email cfg = do {
     res \<leftarrow> rds (IncrLockoutTier R appID email (LockoutTierTTL cfg));
     case res of Inl e \<Rightarrow> ret (Returned (Inl ''failed to increment lockout tier'')) | Inr tier \<Rightarrow>
     (case lock_duration (LockoutDurations cfg) tier of
        None \<Rightarrow> ret (Panicked ''index out of range'')
      | Some lockDuration \<Rightarrow> do {
          now \<leftarrow> rds time_now;
          let expiresAt = now + lockDuration;
          err \<leftarrow> usr (t_update D (\<lambda>x. u_AppID x = appID \<and> u_Email x = email)
            (\<lambda>x. x\<lparr>u_LockedAt := Some now, u_LockReason := lock_reason tier, u_LockExpiresAt := Some expiresAt\<rparr>));
          case err of Some e \<Rightarrow> ret (Returned (Inl ''failed to lock user account'')) | None \<Rightarrow> do {
          rds (ignore (ResetFailedLogins R appID email));
          ret (Returned (Inr expiresAt)) } }) }"

record lock_result =
  wasLocked :: bool
  lockExpiresAt :: "instant option"
  failCount :: int
  lockErr :: "string option"

definition HandleFailedLogin ::
    "redis_api \<Rightarrow> User table_api \<Rightarrow> string \<Rightarrow> string \<Rightarrow> BruteForceConfig \<Rightarrow> (uworld, lock_result outcome) state" where
  "HandleFailedLogin R D appID email cfg = do {
     res \<leftarrow> rds (IncrFailedLogin R appID email (LockoutWindow cfg));
     case res of
       Inl e \<Rightarrow> ret (Returned \<lparr>wasLocked = False, lockExpiresAt = None, failCount = 0,
                        lockErr = Some ''failed to increment failed login count''\<rparr>)
     | Inr count \<Rightarrow> (if \<not> LockoutEnabled cfg \<or> count < bf_LockoutThreshold cfg
         then ret (Returned \<lparr>wasLocked = False, lockExpiresAt = None, failCount = count, lockErr = None\<rparr>)
         else do {
           l \<leftarrow> lockAccount R D appID email cfg;
           ret (case l of
               Panicked m \<Rightarrow> Panicked m
             | Returned (Inl e) \<Rightarrow> Returned \<lparr>wasLocked = False, lockExpiresAt = None, failCount = count, lockErr = Some e\<rparr>
             | Returned (Inr x) \<Rightarrow> Returned \<lparr>wasLocked = True, lockExpiresAt = Some x, failCount = count, lockErr = None\<rparr>) }) }"

definition UnlockAccount ::
    "redis_api \<Rightarrow> User table_api \<Rightarrow> string \<Rightarrow> string \<Rightarrow> string \<Rightarrow> (uworld, string option) state" where
  "UnlockAccount R D appID userID email = do {
     err \<leftarrow> usr (t_update D (\<lambda>x. u_ID x = userID) clear_lock);
     case err of Some e \<Rightarrow> ret (Some ''failed to unlock user account'') | None \<Rightarrow> do {
     rds (ignore (ResetLockoutTier R appID email));
     rds (ignore (ResetFailedLogins R appID email));
     rds (ignore (ResetDelayTier R appID email));
     ret None } }"

definition ResetOnSuccess :: "redis_api \<Rightarrow> string \<Rightarrow> string \<Rightarrow> string \<Rightarrow> (redis, unit) state" where
  "ResetOnSuccess R appID email ipAddress = do {
     ignore (ResetDelayTier R appID email);
     ignore (ResetDelayTier R appID ipAddress) }"

section \<open>Progressive delays\<close>

text \<open>
  \<open>int(math.Pow(2, float64(e)))\<close>: exact below \<open>2^63\<close>; what the conversion gives beyond is up to
  the machine, \<open>conv e\<close>.
\<close>

definition pow2_int :: "(int \<Rightarrow> int) \<Rightarrow> int \<Rightarrow> int" where
  "pow2_int conv e = (if e < 0 then 0 else if e < 63 then 2 ^ nat e else conv e)"

definition GetDelay ::
    "redis_api \<Rightarrow> (int \<Rightarrow> int) \<Rightarrow> string \<Rightarrow> string \<Rightarrow> string \<Rightarrow> BruteForceConfig \<Rightarrow> (redis, rerr + int) state" where
  "GetDelay R conv appID email ipAddress cfg = (if \<not> DelayEnabled cfg then ret (Inr 0) else do {
     res \<leftarrow> GetDelayTier R appID email;
     case res of Inl e \<Rightarrow> ret (Inl e) | Inr emailTier \<Rightarrow> do {
     res \<leftarrow> GetDelayTier R appID ipAddress;
     case res of Inl e \<Rightarrow> ret (Inl e) | Inr ipTier \<Rightarrow>
     let tier = (if emailTier < ipTier then ipTier else emailTier) in
     if tier < DelayStartAfter cfg then ret (Inr 0) else
     let exponent = wrap64 (tier - DelayStartAfter cfg);
         delay = pow2_int conv exponent in
     ret (Inr (if DelayMaxSeconds cfg < delay then DelayMaxSeconds cfg else delay)) } })"

definition IncrementDelayTier ::
    "redis_api \<Rightarrow> string \<Rightarrow> string \<Rightarrow> string \<Rightarrow> BruteForceConfig \<Rightarrow> (redis, unit) state" where
  "IncrementDelayTier R appID email ipAddress cfg = (if \<not> DelayEnabled cfg then ret () else do {
     ignore (IncrDelayTier R appID email (DelayTierTTL cfg));
     ignore (IncrDelayTier R appID ipAddress (DelayTierTTL cfg)) })"

section \<open>The CAPTCHA gate\<close>

definition IsCaptchaRequired ::
    "redis_api \<Rightarrow> string \<Rightarrow> string \<Rightarrow> BruteForceConfig \<Rightarrow> (redis, rerr + bool) state" where
  "IsCaptchaRequired R appID email cfg = (if \<not> CaptchaEnabled cfg then ret (Inr False) else do {
     res \<leftarrow> GetFailedLoginCount R appID email;
     ret (case res of Inl e \<Rightarrow> Inl e | Inr count \<Rightarrow> Inr (CaptchaThreshold cfg \<le> count)) })"

text \<open>
  \<open>siteverify secret token ip\<close> is the answer of the reCAPTCHA service: a transport or decoding
  error, or whether it accepts the token.
\<close>

definition VerifyCaptcha ::
    "(string \<Rightarrow> string \<Rightarrow> string \<Rightarrow> string + bool) \<Rightarrow> string \<Rightarrow> string \<Rightarrow> BruteForceConfig \<Rightarrow> string option" where
  "VerifyCaptcha siteverify token remoteIP cfg = (if \<not> CaptchaEnabled cfg then None
     else if token = [] then Some ''CAPTCHA token is required''
     else let secretKey = CaptchaSecretKey cfg in
     if secretKey = [] then Some ''CAPTCHA secret key not configured''
     else case siteverify secretKey token remoteIP of
       Inl e \<Rightarrow> Some ''failed to verify CAPTCHA''
     | Inr success \<Rightarrow> (if \<not> success then Some ''CAPTCHA verification failed'' else None))"

end
