(* ===== verification/UserProofs.thy ===== *)
theory UserProofs
  imports UserService BruteForce AuthProofs
begin

text \<open>
  The calculus for the services on the tables, frames (which computations leave the users table
  or which Redis keys alone), and the lemmas on login, passwords and lockout from which the
  properties follow.
\<close>

section \<open>Frames\<close>

text \<open>A relation between states that holds over a computation when it holds over its steps.\<close>

definition stable :: "('s \<Rightarrow> 's \<Rightarrow> bool) \<Rightarrow> ('s, 'a) state \<Rightarrow> bool" where
  "stable P m \<longleftrightarrow> (\<forall>s. wp m (\<lambda>_. P s) s)"

locale frame =
  fixes P :: "'s \<Rightarrow> 's \<Rightarrow> bool"
  assumes refl: "P s s" and trans: "P s t \<Longrightarrow> P t u \<Longrightarrow> P s u"
begin

lemma stable_return: "stable P (State_Monad.return a)"
  by (simp add: stable_def wp_return refl)

lemma stable_bind:
  assumes "stable P m" and "\<And>a. stable P (f a)"
  shows "stable P (m \<bind> f)"
  unfolding stable_def
proof (intro allI wp_bind)
  fix s
  have "wp m (\<lambda>_. P s) s" using assms(1) by (simp add: stable_def)
  then show "wp m (\<lambda>a. wp (f a) (\<lambda>_. P s)) s"
  proof (rule wp_mono)
    fix a t assume "P s t"
    moreover have "wp (f a) (\<lambda>_. P t) t" using assms(2) by (simp add: stable_def)
    ultimately show "wp (f a) (\<lambda>_. P s) t" by (auto intro: wp_mono trans)
  qed
qed

lemma stable_if: "stable P m \<Longrightarrow> stable P n \<Longrightarrow> stable P (if b then m else n)"
  by simp

lemma stable_Let: "(\<And>x. stable P (f x)) \<Longrightarrow> stable P (let x = t in f x)"
  by simp

lemma stable_case_sum: "(\<And>e. stable P (f e)) \<Longrightarrow> (\<And>v. stable P (g v)) \<Longrightarrow> stable P (case_sum f g x)"
  by (cases x) simp_all

lemma stable_case_option: "stable P m \<Longrightarrow> (\<And>v. stable P (g v)) \<Longrightarrow> stable P (case_option m g x)"
  by (cases x) simp_all

lemma stable_case_prod: "(\<And>a b. stable P (f a b)) \<Longrightarrow> stable P (case_prod f x)"
  by (cases x) simp_all

lemma stable_ignore: "stable P m \<Longrightarrow> stable P (ignore m)"
  unfolding ignore_def by (intro stable_bind stable_return)

lemmas stable_intro = stable_return stable_bind stable_if stable_Let stable_case_sum stable_case_option
  stable_case_prod stable_ignore

end

lemma stableD: "stable P m \<Longrightarrow> run_state m s = (a, s') \<Longrightarrow> P s s'"
  by (auto simp: stable_def dest: wpD)

lemma wp_stable: "stable P m \<Longrightarrow> (\<And>a s'. P s s' \<Longrightarrow> Q a s') \<Longrightarrow> wp m Q s"
  by (auto simp: stable_def intro: wp_mono)

text \<open>
  The users stay; the devices stay; and what the callbacks of the role service keep: users,
  applications and devices.  Time goes on in all three.
\<close>

definition same_users :: "uworld \<Rightarrow> uworld \<Rightarrow> bool" where
  "same_users w w' \<longleftrightarrow> w_users w' = w_users w \<and> rnow (w_redis w) \<le> rnow (w_redis w')"

definition same_devices :: "uworld \<Rightarrow> uworld \<Rightarrow> bool" where
  "same_devices w w' \<longleftrightarrow> w_devices w' = w_devices w \<and> rnow (w_redis w) \<le> rnow (w_redis w')"

definition role_frame :: "uworld \<Rightarrow> uworld \<Rightarrow> bool" where
  "role_frame w w' \<longleftrightarrow> w_users w' = w_users w \<and> w_apps w' = w_apps w \<and> w_devices w' = w_devices w \<and>
     rnow (w_redis w) \<le> rnow (w_redis w')"

interpretation same_users: frame same_users
  by unfold_locales (auto simp: same_users_def)

interpretation same_devices: frame same_devices
  by unfold_locales (auto simp: same_devices_def)

lemma stable_mono: "stable P m \<Longrightarrow> (\<And>s s'. P s s' \<Longrightarrow> Q s s') \<Longrightarrow> stable Q m"
  unfolding stable_def by (blast intro: wp_mono)

lemma stable_role_frame:
  "stable role_frame m \<Longrightarrow> stable same_users m" "stable role_frame m \<Longrightarrow> stable same_devices m"
  by (auto elim!: stable_mono simp: role_frame_def same_users_def same_devices_def)

lemma touches_UNIV: "touches K m \<Longrightarrow> touches UNIV m"
  by (rule touches_mono) simp_all

lemma stable_lifts:
  "stable same_users (apps m1)" "stable same_users (devs m2)" "stable same_users (draw f)"
  "touches UNIV m3 \<Longrightarrow> stable same_users (rds m3)"
  "stable same_devices (usr m4)" "stable same_devices (apps m1)" "stable same_devices (draw f)"
  "touches UNIV m5 \<Longrightarrow> stable same_devices (rds m5)"
  by (auto simp: stable_def wp_def same_users_def same_devices_def touches_def writes_def split: prod.splits)

lemma stable_send:
  "stable same_users (send V a m)" "stable same_devices (send V a m)"
  "stable same_users (Dispatch V a ev u)" "stable same_devices (Dispatch V a ev u)"
  by (auto simp: stable_def wp_def same_users_def same_devices_def send_def Dispatch_def)

lemma stable_load:
  "stable same_users (load_app V a)" "stable same_devices (load_app V a)"
  "stable same_users (new_uuid V)" "stable same_devices (new_uuid V)"
  "stable same_users (generateSecure6DigitCode V)" "stable same_devices (generateSecure6DigitCode V)"
  unfolding load_app_def new_uuid_def generateSecure6DigitCode_def
  by (intro same_users.stable_intro same_devices.stable_intro stable_lifts)+

text \<open>What a load of the application can have found.\<close>

definition loaded :: "uworld \<Rightarrow> string \<Rightarrow> Application option \<Rightarrow> bool" where
  "loaded w appID a \<longleftrightarrow> (\<forall>x. a = Some x \<longrightarrow> x \<in> set (w_apps w) \<and> a_ID x = appID)"

section \<open>The stack of the user service\<close>

locale user_stack =
  redis: redis_server "ue_redis V" + users: table_server "ue_users V" user_clash +
  apps: table_server "ue_apps V" app_clash + hash: hash_lib "ue_hash V" for V :: user_env +
  assumes lookup_roles: "LookupRoles V = Some l \<Longrightarrow> stable role_frame (l a u)"
    and assign_role: "AssignDefaultRole V = Some f \<Longrightarrow> stable role_frame (f a u)"
begin

lemma stable_getUserRoles: "stable same_users (getUserRoles V a u)" "stable same_devices (getUserRoles V a u)"
proof -
  show "stable same_users (getUserRoles V a u)"
  proof (cases "LookupRoles V")
    case (Some l)
    note l = stable_role_frame(1)[OF lookup_roles[OF Some]]
    show ?thesis
    proof (cases "AssignDefaultRole V")
      case None
      show ?thesis unfolding getUserRoles_def Some None option.case by (intro same_users.stable_intro l)
    next
      case (Some f)
      note f = stable_role_frame(1)[OF assign_role[OF Some]]
      show ?thesis unfolding getUserRoles_def \<open>LookupRoles V = Some l\<close> Some option.case by (intro same_users.stable_intro l f)
    qed
  qed (simp add: getUserRoles_def same_users.stable_return)
  show "stable same_devices (getUserRoles V a u)"
  proof (cases "LookupRoles V")
    case (Some l)
    note l = stable_role_frame(2)[OF lookup_roles[OF Some]]
    show ?thesis
    proof (cases "AssignDefaultRole V")
      case None
      show ?thesis unfolding getUserRoles_def Some None option.case by (intro same_devices.stable_intro l)
    next
      case (Some f)
      note f = stable_role_frame(2)[OF assign_role[OF Some]]
      show ?thesis unfolding getUserRoles_def \<open>LookupRoles V = Some l\<close> Some option.case by (intro same_devices.stable_intro l f)
    qed
  qed (simp add: getUserRoles_def same_devices.stable_return)
qed

lemma stable_svc_CreateSession:
  "stable same_users (svc_CreateSession (ue_redis V) E uuid a u ip ua rs attl rttl)"
  unfolding svc_CreateSession_def GenerateAccessToken_def GenerateRefreshToken_def ClearUserTokenBlacklist_def
  by (intro same_users.stable_intro stable_lifts redis.touches_CreateSession[THEN touches_UNIV] touches_intro redis.touches_redis) simp_all

lemma stable_createSession: "stable same_users (createSession V a u ip ua app)"
  unfolding createSession_def GenerateAccessToken_def GenerateRefreshToken_def SetRefreshToken_def
  by (intro same_users.stable_intro stable_lifts stable_getUserRoles stable_svc_CreateSession touches_intro redis.touches_redis)
     simp_all

lemma stable_send_second_factor: "stable same_users (send_second_factor V a u m)"
  unfolding send_second_factor_def Set2FAEmailCode_def Set2FASMSCode_def SetBackupEmail2FACode_def
  by (intro same_users.stable_intro stable_lifts stable_send stable_load touches_intro redis.touches_redis) simp_all

section \<open>Statements on the tables\<close>

lemma wp_GetUserByEmail:
  "(\<And>a. first_post (with_email app email) (w_users w) a (w_users w) \<Longrightarrow> Q a w) \<Longrightarrow> wp (usr (GetUserByEmail (ue_users V) app email)) Q w"
  unfolding GetUserByEmail_def by (intro wp_lifts users.wp_t_first) simp

lemma wp_GetUserByID:
  "(\<And>a. first_post (with_id i) (w_users w) a (w_users w) \<Longrightarrow> Q a w) \<Longrightarrow> wp (usr (GetUserByID (ue_users V) i)) Q w"
  unfolding GetUserByID_def by (intro wp_lifts users.wp_t_first) simp

lemma wp_load_app: "(\<And>a. loaded w app a \<Longrightarrow> Q a w) \<Longrightarrow> wp (load_app V app) Q w"
  unfolding load_app_def
  by (intro wp_bind wp_lifts apps.wp_t_first wp_return)
     (auto simp: loaded_def first_post_def split: sum.splits)

section \<open>Login\<close>

lemma wp_pass_lock:
  "wp (pass_lock V user) (\<lambda>ok w'. w_redis w' = w_redis w \<and> w_apps w' = w_apps w \<and>
     ok = (\<not> lock_holds (rnow (w_redis w)) user)) w"
proof (cases "u_LockedAt user = None")
  case True
  then show ?thesis by (auto simp: pass_lock_def lock_holds_def intro!: wp_return)
next
  case False
  have c: "wp (usr (ClearLockout (ue_users V) i)) (\<lambda>_ w'. w_redis w' = w_redis w \<and> w_apps w' = w_apps w) w" for i
    unfolding ClearLockout_def by (intro wp_lifts users.wp_t_update) simp
  show ?thesis
    using False unfolding pass_lock_def
    by (auto intro!: wp_bind wp_rds wp_time_now wp_return wp_mono[OF c])
qed

end

definition credentials_ok :: "user_env \<Rightarrow> string \<Rightarrow> string \<Rightarrow> string \<Rightarrow> instant \<Rightarrow> User \<Rightarrow> bool" where
  "credentials_ok V appID email password now user \<longleftrightarrow> with_email appID email user \<and> \<not> lock_holds now user \<and>
     CompareHash (ue_hash V) (u_PasswordHash user) password \<and> u_IsActive user \<and> u_EmailVerified user"

text \<open>Nothing stands between the password and the tokens: neither a second factor nor age.\<close>

definition single_factor :: "instant \<Rightarrow> User \<Rightarrow> Application option \<Rightarrow> bool" where
  "single_factor now user app \<longleftrightarrow> (u_TwoFAEnabled user \<longrightarrow> (\<exists>a. app = Some a \<and> \<not> a_TwoFAEnabled a)) \<and>
     (\<forall>a. app = Some a \<longrightarrow> \<not> IsPasswordExpired now user (a_PwMaxAgeDays a))"

definition login_answer :: "uworld \<Rightarrow> string \<Rightarrow> User \<Rightarrow> LoginResult \<Rightarrow> bool" where
  "login_answer w appID user res \<longleftrightarrow> lr_UserID res = u_ID user \<and>
     (if PasswordExpired res \<or> RequiresTwoFA res then AccessToken res = [] \<and> RefreshToken res = [] \<and> lr_SessionID res = []
      else \<exists>a. loaded w appID a \<and> single_factor (rnow (w_redis w)) user a)"

context user_stack
begin

lemma wp_LoginUser:
  "wp (LoginUser V appID email password ip ua) (\<lambda>x w'. \<forall>res. x = Inr res \<longrightarrow>
     (\<exists>user\<in>set (w_users w). credentials_ok V appID email password (rnow (w_redis w)) user \<and>
        login_answer w appID user res)) w"
  unfolding LoginUser_def
proof (rule wp_bind, rule wp_GetUserByEmail, rule wp_case_sum)
  fix a e assume "a = Inl e"
  show "wp (ret (Inl (unauthorized ''Invalid credentials''))) (\<lambda>x w'. \<forall>res. x = Inr res \<longrightarrow>
     (\<exists>user\<in>set (w_users w). credentials_ok V appID email password (rnow (w_redis w)) user \<and>
        login_answer w appID user res)) w" by (rule wp_return) simp
next
  fix a user assume "first_post (with_email appID email) (w_users w) a (w_users w)" and "a = Inr user"
  then have u: "user \<in> set (w_users w)" "with_email appID email user" by (simp_all add: first_post_def)
  show "wp (do { unlocked \<leftarrow> pass_lock V user;
     if \<not> unlocked then ret (Inl (forbidden ''Account is temporarily locked due to too many failed login attempts'')) else
     if \<not> CompareHash (ue_hash V) (u_PasswordHash user) password then ret (Inl (unauthorized ''Invalid credentials'')) else
     if \<not> u_IsActive user then ret (Inl (forbidden ''Account is deactivated. Please contact your administrator.'')) else
     if \<not> u_EmailVerified user then ret (Inl (forbidden ''Email not verified. Please check your inbox.'')) else do {
     app \<leftarrow> load_app V appID;
     now \<leftarrow> rds time_now;
     (if (case app of Some a \<Rightarrow> IsPasswordExpired now user (a_PwMaxAgeDays a) | None \<Rightarrow> False)
      then ret (Inr ((login_result (u_ID user))\<lparr>PasswordExpired := True\<rparr>))
      else if u_TwoFAEnabled user \<and> (case app of None \<Rightarrow> True | Some a \<Rightarrow> a_TwoFAEnabled a) then do {
        tempToken \<leftarrow> new_uuid V;
        err \<leftarrow> rds (SetTempUserSession (ue_redis V) appID tempToken (u_ID user) (10 * minute));
        case err of Some e \<Rightarrow> ret (Inl (internal ''Failed to create temporary session'')) | None \<Rightarrow> do {
        let method = (if u_TwoFAMethod user = [] then ''totp'' else u_TwoFAMethod user);
        err \<leftarrow> send_second_factor V appID user method;
        ret (case err of Some e \<Rightarrow> Inl e
             | None \<Rightarrow> Inr ((login_result (u_ID user))\<lparr>RequiresTwoFA := True, TempToken := tempToken, TwoFAMethod := method\<rparr>)) } }
      else do {
        res \<leftarrow> createSession V appID (u_ID user) ip ua app;
        case res of Inl e \<Rightarrow> ret (Inl e) | Inr (accessToken, refreshToken, sessionID) \<Rightarrow> do {
        let tokens = (login_result (u_ID user))\<lparr>AccessToken := accessToken, RefreshToken := refreshToken, lr_SessionID := sessionID\<rparr>;
        (if (case app of Some a \<Rightarrow> a_TwoFARequired a | None \<Rightarrow> False)
         then ret (Inr (tokens\<lparr>RequiresTwoFASetup := True\<rparr>))
         else do {
           Dispatch V appID ''user.login'' (u_ID user);
           ret (Inr tokens) }) } }) } }) (\<lambda>x w'. \<forall>res. x = Inr res \<longrightarrow>
     (\<exists>user\<in>set (w_users w). credentials_ok V appID email password (rnow (w_redis w)) user \<and>
        login_answer w appID user res)) w"
  proof (rule wp_bind, rule wp_mono[OF wp_pass_lock], elim conjE, goal_cases)
    case (1 ok w1)
    show ?case
    proof (intro wp_if wp_return, goal_cases)
      case 5
      then have ok: "credentials_ok V appID email password (rnow (w_redis w)) user"
        using u 1 by (simp add: credentials_ok_def)
      show ?case
      proof (rule wp_bind, rule wp_load_app, rule wp_bind, rule wp_rds, rule wp_time_now, goal_cases)
        case (1 app)
        then have l: "loaded w appID app" using \<open>w_apps w1 = w_apps w\<close> by (simp add: loaded_def)
        have post: "(\<forall>res. x = Inr res \<longrightarrow> (\<exists>user\<in>set (w_users w).
            credentials_ok V appID email password (rnow (w_redis w)) user \<and> login_answer w appID user res)) " if "\<And>res. x = Inr res \<Longrightarrow> login_answer w appID user res" for x
          using ok u(1) that by blast
        show ?case
        proof (rule wp_if, goal_cases)
          case 1
          show ?case by (rule wp_return, rule post) (auto simp: login_answer_def login_result_def)
        next
          case fresh: 2
          show ?case
          proof (rule wp_if, goal_cases)
            case 1
            show ?case
            proof (rule wp_bind, rule wp_any, rule wp_bind, rule wp_any, rule wp_case_option, goal_cases)
              case 1
              show ?case
                by (rule wp_Let, rule wp_bind, rule wp_any, rule wp_return, rule post)
                   (auto simp: login_answer_def login_result_def split: option.splits)
            next
              case 2 show ?case by (rule wp_return) simp
            qed
          next
            case 2
            then have "single_factor (rnow (w_redis w)) user app"
              using fresh \<open>w_redis w1 = w_redis w\<close> by (auto simp: single_factor_def split: option.splits)
            with l have ans: "login_answer w appID user ((login_result (u_ID user))\<lparr>AccessToken := at, RefreshToken := rt, lr_SessionID := sid\<rparr>)"
              "login_answer w appID user ((login_result (u_ID user))\<lparr>AccessToken := at, RefreshToken := rt, lr_SessionID := sid, RequiresTwoFASetup := True\<rparr>)"
              for at rt sid by (auto simp: login_answer_def login_result_def)
            show ?case
            proof (rule wp_bind, rule wp_any, rule wp_case_sum, goal_cases)
              case 1 show ?case by (rule wp_return) simp
            next
              case (2 res w2 v)
              obtain at rt sid where v: "v = (at, rt, sid)" by (cases v)
              show ?case unfolding v prod.case Let_def
              proof (rule wp_if, goal_cases)
                case 1 show ?case by (rule wp_return, rule post) (use ans(2)[of sid rt at] in \<open>simp add: login_result_def\<close>)
              next
                case 2 show ?case by (rule wp_bind, rule wp_any, rule wp_return, rule post) (use ans(1)[of sid rt at] in simp)
              qed
            qed
          qed
        qed
      qed
    qed simp_all
  qed
qed

end

end
