(* ===== verification/UserDemo.thy ===== *)
theory UserDemo
  imports UserProofs Demo
begin

text \<open>
  A user service wired to the reference server, tables, hashes and tokens, for closed runs.
\<close>

definition demo_env :: user_env where
  "demo_env = \<lparr>ue_redis = demo_redis, ue_jwt = ref_env, ue_users = ref_table user_clash, ue_apps = ref_table app_clash,
     ue_hash = ref_hash, ue_unicode = ascii_unicode, ue_uuid = demo_uuid, ue_code = (\<lambda>n. n),
     parse_uuid = Some, mail_ok = (\<lambda>_ _ _. True), has_mail = True, has_sms = False, has_webhooks = True,
     has_sessions = True, LookupRoles = None, AssignDefaultRole = None, GroupLogout = None,
     FRONTEND_URL = ''http://app/''\<rparr>"

lemma demo_env_simps [simp]:
  "ue_redis demo_env = demo_redis" "ue_jwt demo_env = ref_env" "ue_users demo_env = ref_table user_clash"
  "ue_apps demo_env = ref_table app_clash" "ue_hash demo_env = ref_hash"
  "LookupRoles demo_env = None" "AssignDefaultRole demo_env = None"
  by (simp_all add: demo_env_def)

interpretation demo_stack: user_stack demo_env
  by (simp add: user_stack_def user_stack_axioms_def ref0.redis_server_axioms ref_table.table_server_axioms ref_hash.hash_lib_axioms)

definition demo_user :: User where
  "demo_user = zero_user\<lparr>u_ID := ''u'', u_AppID := ''a'', u_Email := ''u@x'', u_PasswordHash := ''$Secret12'',
     u_EmailVerified := True, u_IsActive := True, u_PasswordHistory := ''[]''\<rparr>"

definition demo_app :: Application where
  "demo_app = zero_app\<lparr>a_ID := ''a'', a_MagicLinkEnabled := True, a_PwHistoryCount := 2, a_PwRequireDigit := True\<rparr>"

definition demo_uw :: uworld where
  "demo_uw = \<lparr>w_redis = empty_redis, w_rand = 0, w_users = [demo_user], w_apps = [demo_app], w_devices = [], w_groups = [], w_group_apps = [], w_roles = [],
     w_permissions = [], w_role_permissions = [], w_user_roles = [], w_clients = [], w_codes = [],
     w_social = [], w_providers = [], w_passkeys = [],
     w_outbox = [], w_events = []\<rparr>"

end
