(* ===== verification/PasswordSpec.thy ===== *)
theory PasswordSpec
  imports UserDemo
begin

text \<open>
  Properties of passwords: the policy, the history, the age, and the reset by e-mail.
\<close>

section \<open>The policy\<close>

text \<open>What the policy of an application asks for, in its own terms.\<close>

definition min_length :: "Application \<Rightarrow> int" where
  "min_length app = (if a_PwMinLength app \<le> 0 then 8 else a_PwMinLength app)"

definition max_length :: "Application \<Rightarrow> int" where
  "max_length app = (if a_PwMaxLength app \<le> 0 then 128 else a_PwMaxLength app)"

definition has_rune :: "unicode_api \<Rightarrow> (nat \<Rightarrow> bool) \<Rightarrow> string \<Rightarrow> bool" where
  "has_rune U p s \<longleftrightarrow> (\<exists>r\<in>set (runes U s). p r)"

definition meets_policy :: "unicode_api \<Rightarrow> string \<Rightarrow> Application \<Rightarrow> bool" where
  "meets_policy U s app \<longleftrightarrow> min_length app \<le> int (length s) \<and> int (length s) \<le> max_length app \<and>
     (a_PwRequireUpper app \<longrightarrow> has_rune U (IsUpper U) s) \<and>
     (a_PwRequireLower app \<longrightarrow> has_rune U (\<lambda>r. IsLower U r \<and> \<not> IsUpper U r) s) \<and>
     (a_PwRequireDigit app \<longrightarrow> has_rune U (\<lambda>r. IsDigit U r \<and> \<not> IsUpper U r \<and> \<not> IsLower U r) s) \<and>
     (a_PwRequireSymbol app \<longrightarrow>
        has_rune U (\<lambda>r. (IsPunct U r \<or> IsSymbol U r) \<and> \<not> IsUpper U r \<and> \<not> IsLower U r \<and> \<not> IsDigit U r) s)"

lemma seen_classes_fold:
  "fold (\<lambda>r (hasUpper, hasLower, hasDigit, hasSymbol).
       if IsUpper U r then (True, hasLower, hasDigit, hasSymbol)
       else if IsLower U r then (hasUpper, True, hasDigit, hasSymbol)
       else if IsDigit U r then (hasUpper, hasLower, True, hasSymbol)
       else if IsPunct U r \<or> IsSymbol U r then (hasUpper, hasLower, hasDigit, True)
       else (hasUpper, hasLower, hasDigit, hasSymbol)) rs (a, b, c, d) =
   (a \<or> (\<exists>r\<in>set rs. IsUpper U r), b \<or> (\<exists>r\<in>set rs. IsLower U r \<and> \<not> IsUpper U r),
    c \<or> (\<exists>r\<in>set rs. IsDigit U r \<and> \<not> IsUpper U r \<and> \<not> IsLower U r),
    d \<or> (\<exists>r\<in>set rs. (IsPunct U r \<or> IsSymbol U r) \<and> \<not> IsUpper U r \<and> \<not> IsLower U r \<and> \<not> IsDigit U r))"
  by (induction rs arbitrary: a b c d) auto

lemma seen_classes_has:
  "seen_classes U s = (has_rune U (IsUpper U) s, has_rune U (\<lambda>r. IsLower U r \<and> \<not> IsUpper U r) s,
     has_rune U (\<lambda>r. IsDigit U r \<and> \<not> IsUpper U r \<and> \<not> IsLower U r) s,
     has_rune U (\<lambda>r. (IsPunct U r \<or> IsSymbol U r) \<and> \<not> IsUpper U r \<and> \<not> IsLower U r \<and> \<not> IsDigit U r) s)"
  by (simp add: seen_classes_def seen_classes_fold has_rune_def)

lemma policy_iff: "ValidatePasswordPolicy U s app = None \<longleftrightarrow> meets_policy U s app"
  by (auto simp: ValidatePasswordPolicy_def meets_policy_def min_length_def max_length_def seen_classes_has
      missing_classes_def Let_def)

text \<open>
  C11: the policy check accepts exactly the passwords that meet the policy: their length
  in bytes is between the bounds, defaulting to 8 and 128, and each required class has a rune
  that is in no earlier class.
\<close>

theorem policy_exact: "ValidatePasswordPolicy U s app = None \<longleftrightarrow> meets_policy U s app"
  by (rule policy_iff)

section \<open>The history\<close>

definition stored_history :: "hash_api \<Rightarrow> User \<Rightarrow> string list \<Rightarrow> bool" where
  "stored_history H u hs \<longleftrightarrow> u_PasswordHistory u = Marshal H hs"

definition changes :: "hash_api \<Rightarrow> int \<Rightarrow> string list \<Rightarrow> User \<Rightarrow> User" where
  "changes H n hs u = fold (\<lambda>h u. AppendPasswordHistory H u h n) hs u"

context hash_lib
begin

lemma append_history:
  assumes "stored_history H u xs" and "0 < n"
  shows "stored_history H (AppendPasswordHistory H u h n) (take (nat n) (h # xs))"
proof -
  have "0 < length (u_PasswordHistory u)" using assms(1) json_text by (simp add: stored_history_def)
  then show ?thesis using assms
    by (auto simp: stored_history_def AppendPasswordHistory_def Let_def json)
qed

lemma changes_history:
  assumes "stored_history H u xs" and "0 < n"
  shows "\<exists>ys. stored_history H (changes H n hs u) ys \<and> take (nat n) ys = take (nat n) (rev hs @ xs)"
  using assms
proof (induction hs arbitrary: u xs)
  case (Cons h hs)
  from Cons.IH[OF append_history[OF Cons.prems] Cons.prems(2)]
  obtain ys where "stored_history H (changes H n (h # hs) u) ys"
    and ys: "take (nat n) ys = take (nat n) (rev hs @ take (nat n) (h # xs))" by (auto simp: changes_def)
  moreover have "take (nat n) ys = take (nat n) (rev (h # hs) @ xs)" unfolding ys by (simp add: min_def)
  ultimately show ?case by blast
qed (auto simp: changes_def)

lemma check_history:
  assumes "stored_history H u xs"
  shows "CheckPasswordHistory H p u n = None \<longleftrightarrow> \<not> (\<exists>h\<in>set (take (nat n) xs). CompareHash H h p)"
proof -
  have "take (nat (int (length xs))) xs = take (nat n) xs" if "int (length xs) < n" using that by simp
  moreover have "0 < length (u_PasswordHistory u)" using assms json_text by (simp add: stored_history_def)
  ultimately show ?thesis using assms
    by (auto simp: CheckPasswordHistory_def stored_history_def json Let_def split: if_splits)
qed

end

text \<open>
  C12: the last passwords cannot be used again.  After any number of changes, with \<open>hs\<close>
  the hashes from the oldest change to the newest, a new password is refused exactly if it
  matches one of the \<open>n\<close> newest hashes, those from before the changes included.
\<close>

theorem history_window:
  assumes "hash_lib H" and "stored_history H u old" and "0 < n"
  shows "CheckPasswordHistory H p (changes H n hs u) n = None \<longleftrightarrow>
    \<not> (\<exists>h\<in>set (take (nat n) (rev hs @ old)). CompareHash H h p)"
proof -
  from hash_lib.changes_history[OF assms] obtain ys
    where "stored_history H (changes H n hs u) ys" and "take (nat n) ys = take (nat n) (rev hs @ old)" by blast
  with hash_lib.check_history[OF assms(1)] show ?thesis by metis
qed

theorem history_window_witness:
  "CheckPasswordHistory ref_hash ''b'' (changes ref_hash 2 [''$a'', ''$b'', ''$c''] (zero_user\<lparr>u_PasswordHistory := enc_strings []\<rparr>)) 2 \<noteq> None \<and>
   CheckPasswordHistory ref_hash ''a'' (changes ref_hash 2 [''$a'', ''$b'', ''$c''] (zero_user\<lparr>u_PasswordHistory := enc_strings []\<rparr>)) 2 = None"
proof -
  have s: "stored_history ref_hash (zero_user\<lparr>u_PasswordHistory := enc_strings []\<rparr>) []"
    by (simp add: stored_history_def ref_hash_def)
  show ?thesis unfolding history_window[OF ref_hash.hash_lib_axioms s zero_less_numeral]
    by (simp add: ref_hash_def numeral_2_eq_2)
qed

section \<open>Reset by e-mail\<close>

definition reset_key :: "string \<Rightarrow> string \<Rightarrow> string" where
  "reset_key appID token = app_key ''password_reset'' appID token"

text \<open>What the keys of one reset are.\<close>

definition reset_writes :: "string \<Rightarrow> string \<Rightarrow> string \<Rightarrow> string set" where
  "reset_writes appID token userID = {reset_key appID token, RefreshTokenKey appID userID, BlacklistUserKey appID userID}"

lemma session_not_reset: "SessionKey appID s \<notin> reset_writes appID t u" "UserSessionsKey appID v \<notin> reset_writes appID t u"
  by (simp_all add: reset_writes_def reset_key_def app_key_defs app_key_same_app)

definition app_of :: "uworld \<Rightarrow> string \<Rightarrow> Application \<Rightarrow> bool" where
  "app_of w appID app \<longleftrightarrow> (\<exists>a. loaded w appID a \<and> app = (case a of None \<Rightarrow> zero_app | Some x \<Rightarrow> x))"

text \<open>A reset that succeeded: whose token it was, what was checked, and the new row.\<close>

definition reset_done :: "user_env \<Rightarrow> string \<Rightarrow> string \<Rightarrow> string \<Rightarrow> uworld \<Rightarrow> string \<Rightarrow> uworld \<Rightarrow> bool" where
  "reset_done V appID token password w userID w' \<longleftrightarrow> live (w_redis w) (reset_key appID token) = Some (RStr userID) \<and>
     (\<exists>app user h t. app_of w appID app \<and> meets_policy (ue_unicode V) password app \<and> user \<in> set (w_users w) \<and>
        u_ID user = userID \<and> CheckPasswordHistory (ue_hash V) password user (a_PwHistoryCount app) = None \<and>
        CompareHash (ue_hash V) h password \<and>
        w_users w' = update_rows (with_id userID) (set_password h (u_PasswordHistory
          (AppendPasswordHistory (ue_hash V) user h (a_PwHistoryCount app))) t) (w_users w))"

context redis_server
begin

lemma touches_DeletePasswordResetToken: "touches {reset_key a t} (DeletePasswordResetToken R a t)"
  unfolding DeletePasswordResetToken_def by (intro touches_intro) (simp add: reset_key_def)

end

context user_stack
begin

lemma touches_RevokeAllUserTokens: "touches {RefreshTokenKey a u, BlacklistUserKey a u} (RevokeAllUserTokens V a u)"
  unfolding RevokeAllUserTokens_def GetRefreshToken_def RevokeRefreshToken_def BlacklistAllUserTokens_def
  by (intro touches_intro redis.touches_redis; simp)

lemma wp_ConfirmPasswordReset:
  "wp (ConfirmPasswordReset V appID token password) (\<lambda>x w'. \<exists>userID. writes (reset_writes appID token userID) (w_redis w) (w_redis w') \<and>
     (\<forall>uid. x = Inr uid \<longrightarrow> reset_done V appID token password w userID w')) w"
  unfolding ConfirmPasswordReset_def
proof (rule wp_bind, rule wp_rds, subst GetPasswordResetToken_def, rule redis.wp_r_get, rule wp_case_sum, goal_cases)
  case (1 a r' e)
  then show ?case by (auto simp: get_post_def reads_writes intro!: wp_return)
next
  case (2 a r1 userID)
  then have r1: "reads (w_redis w) r1" and tok: "live (w_redis w) (reset_key appID token) = Some (RStr userID)"
    by (auto simp: get_post_def reset_key_def reads_def intro: live_mono)
  let ?w = "w\<lparr>w_redis := r1\<rparr>"
  have no: "wp (ret (Inl e)) (\<lambda>x w'. \<exists>userID. writes (reset_writes appID token userID) (w_redis w) (w_redis w') \<and>
     (\<forall>uid. x = Inr uid \<longrightarrow> reset_done V appID token password w userID w')) w'"
    if "writes (reset_writes appID token userID) (w_redis w) (w_redis w')" for e :: app_error and w'
    using that by (auto intro: wp_return)
  have keep: "writes (reset_writes appID token userID) (w_redis w) r1"
    using r1 by (simp add: reads_writes)
  show ?case
  proof (rule wp_if, goal_cases)
    case 2
    show ?case
    proof (rule wp_bind, rule wp_load_app, rule wp_Let, rule wp_case_option, goal_cases)
      case (1 loaded app)
      then have app: "app_of w appID app" and pol: "meets_policy (ue_unicode V) password app"
        by (auto simp: app_of_def loaded_def policy_iff[symmetric])
      show ?case
      proof (rule wp_bind, rule wp_GetUserByID, rule wp_case_sum, goal_cases)
        case (2 a user)
        then have user: "user \<in> set (w_users w)" "u_ID user = userID" by (simp_all add: first_post_def with_id_def)
        show ?case
        proof (rule wp_case_option, goal_cases)
          case 1
          then have hist: "CheckPasswordHistory (ue_hash V) password user (a_PwHistoryCount app) = None" .
          show ?case
          proof (rule wp_bind, rule wp_draw, rule wp_case_sum, goal_cases)
            case (2 h)
            then have h: "CompareHash (ue_hash V) h password" using hash.hash_compare by blast
            show ?case
              unfolding UpdateUserPasswordWithHistory_def
            proof (rule wp_Let, rule wp_bind, rule wp_bind, rule wp_rds, rule wp_time_now, rule wp_lifts(1),
                rule users.wp_t_update, rule wp_case_option, goal_cases)
              case (1 appended e rows)
              note eq = applied_postD[OF 1(2)[unfolded 1(3)]]
              have ok: "reset_done V appID token password w userID w'" if "w_users w' = rows" for w'
                unfolding reset_done_def using tok app pol user hist h eq that 1(1) by auto
              show ?case
              proof (rule wp_bind, rule wp_rds, rule wp_ignore, rule wp_touches[OF redis.touches_DeletePasswordResetToken],
                  rule wp_bind, rule wp_rds, rule wp_ignore, rule wp_touches[OF touches_RevokeAllUserTokens],
                  rule wp_return, goal_cases)
                case (1 _ r2 _ r3)
                then have "writes (reset_writes appID token userID) (w_redis w) r3"
                  using r1 by (auto simp: reset_writes_def writes_def reads_def)
                then show ?case by (auto intro!: exI[of _ userID] ok)
              qed
            next
              case (2 appended e rows v)
              show ?case by (rule no) (simp add: keep)
            qed
          qed (rule no, simp add: keep)+
        qed (rule no, simp add: keep)+
      qed (rule no, simp add: keep)+
    qed (rule no, simp add: keep)+
  qed (rule no, use keep in simp)+
qed

end

text \<open>
  C9: what a reset asks for and does.  A confirmed reset had a live token of that
  application; the new password meets the application's policy and is none of the user's last
  ones; the user that the token was issued for, and nobody else, has a hash that accepts the new
  password and a history that remembers it.
\<close>

theorem reset_sound:
  assumes "user_stack V"
    and "run_state (ConfirmPasswordReset V appID token password) w = (Inr uid, w')"
  shows "\<exists>userID. reset_done V appID token password w userID w'"
  using wpD[OF user_stack.wp_ConfirmPasswordReset[OF assms(1)] assms(2)] by blast

definition demo_reset_world :: uworld where
  "demo_reset_world = demo_uw\<lparr>w_redis := \<lparr>rdata = map_of
     [(reset_key ''a'' ''t'', (RStr ''u'', Some hour)),
      (SessionKey ''a'' ''s0'', (RHash [(''user_id'', ''u''), (''refresh_token'', demo_refresh)], Some (720 * hour)))],
     rnow = minute\<rparr>\<rparr>"

definition demo_reset :: "(app_error + string) \<times> uworld" where
  "demo_reset = run_state (ConfirmPasswordReset demo_env ''a'' ''t'' ''brandnew1'') demo_reset_world"

lemma demo_reset_ok: "fst demo_reset = Inr ''u''"
  by code_simp

theorem reset_sound_witness:
  "\<exists>userID. reset_done demo_env ''a'' ''t'' ''brandnew1'' demo_reset_world userID (snd demo_reset)"
  by (rule reset_sound[OF demo_stack.user_stack_axioms run_eq[OF demo_reset_ok[unfolded demo_reset_def]], folded demo_reset_def])

text \<open>
  A reset leaves the sessions alone.  Whatever it answers, \<open>ConfirmPasswordReset\<close>
  writes no session: each still holds its refresh token, and \<open>RefreshSession\<close> does not ask the
  blacklist of users that the reset writes.  Who held a refresh token of a session before the reset can
  refresh it afterwards.
\<close>

theorem reset_keeps_sessions:
  assumes "user_stack V"
    and "run_state (ConfirmPasswordReset V appID token password) w = (x, w')"
    and "refreshable (w_redis w) c old" and "AppID c = appID"
    and "\<forall>y. expiry_of (rdata (w_redis w) (SessionKey appID (SessionID c))) = Some y \<longrightarrow> rnow (w_redis w') < y"
  shows "refreshable (w_redis w') c old"
proof -
  from wpD[OF user_stack.wp_ConfirmPasswordReset[OF assms(1)] assms(2)] obtain userID
    where "writes (reset_writes appID token userID) (w_redis w) (w_redis w')" by blast
  then have "rdata (w_redis w') (SessionKey appID (SessionID c)) = rdata (w_redis w) (SessionKey appID (SessionID c))"
    using session_not_reset(1) writes_keep by blast
  with assms(3-5) show ?thesis
    by (auto simp: refreshable_def live_def entry_at_def expiry_of_def expired_def split: option.splits if_splits prod.splits)
qed

definition demo_claims :: claims where
  "demo_claims = issue ref_env TokenTypeRefresh (720 * hour) ''a'' ''u'' ''s0'' [''user''] 0"

theorem reset_keeps_sessions_witness: "refreshable (w_redis (snd demo_reset)) demo_claims demo_refresh"
proof (rule reset_keeps_sessions[OF demo_stack.user_stack_axioms run_eq[OF demo_reset_ok[unfolded demo_reset_def]], folded demo_reset_def])
  have "live (w_redis demo_reset_world) (SessionKey ''a'' ''s0'') = Some (RHash [(''user_id'', ''u''), (''refresh_token'', demo_refresh)])"
    by code_simp
  then show "refreshable (w_redis demo_reset_world) demo_claims demo_refresh"
    by (simp add: refreshable_def demo_claims_def issue_def)
  show "AppID demo_claims = ''a''" by (simp add: demo_claims_def issue_def)
  have "rnow (w_redis (snd demo_reset)) < 720 * hour" by code_simp
  moreover have "expiry_of (rdata (w_redis demo_reset_world) (SessionKey ''a'' (SessionID demo_claims))) = Some (720 * hour)" by code_simp
  ultimately show "\<forall>y. expiry_of (rdata (w_redis demo_reset_world) (SessionKey ''a'' (SessionID demo_claims))) = Some y \<longrightarrow>
     rnow (w_redis (snd demo_reset)) < y" by simp
qed

end
