(* ===== verification/UserSpec.thy ===== *)
theory UserSpec
  imports UserDemo
begin

text \<open>
  Properties of the user service: login, lockout, passwords, registration and e-mail addresses.
\<close>

section \<open>Login\<close>

text \<open>
  C7: what a login asks for.  Whatever its dependencies do, an answer without an error
  belongs to a user of that application and e-mail address whose lock, if any, has run out, whose
  password hash accepts the password, who is active and whose address is verified; it carries
  tokens only if the password is not too old and no second factor stands between.
\<close>

theorem login_sound:
  assumes "user_stack V"
    and "run_state (LoginUser V appID email password ip ua) w = (Inr res, w')"
  shows "\<exists>user\<in>set (w_users w). credentials_ok V appID email password (rnow (w_redis w)) user \<and> login_answer w appID user res"
  using wpD[OF user_stack.wp_LoginUser[OF assms(1)] assms(2)] by blast

definition demo_user_login :: "(app_error + LoginResult) \<times> uworld" where
  "demo_user_login = run_state (LoginUser demo_env ''a'' ''u@x'' ''Secret12'' ''10.0.0.1'' ''curl'') demo_uw"

lemma demo_user_login_ok: "case fst demo_user_login of Inr res \<Rightarrow> lr_UserID res = ''u'' \<and> AccessToken res \<noteq> [] | Inl _ \<Rightarrow> False"
  by code_simp

theorem login_sound_witness:
  "\<exists>user\<in>set (w_users demo_uw). credentials_ok demo_env ''a'' ''u@x'' ''Secret12'' (rnow (w_redis demo_uw)) user"
proof -
  obtain res where ok: "fst demo_user_login = Inr res"
    using demo_user_login_ok by (auto split: sum.splits)
  from login_sound[OF demo_stack.user_stack_axioms run_eq[OF ok[unfolded demo_user_login_def]]] show ?thesis by blast
qed

section \<open>Lockout\<close>

text \<open>The value of a counter at an instant.\<close>

definition count_then :: "redis \<Rightarrow> string \<Rightarrow> instant \<Rightarrow> int" where
  "count_then r k t = count_at (r\<lparr>rnow := t\<rparr>) k"

lemma incr_value_count: "incr_value (entry_at t (rdata r) k) n new \<Longrightarrow> n = count_then r k t + 1"
  by (auto simp: incr_value_def count_then_def count_at_def live_def split: option.splits rval.splits prod.splits)

context redis_server
begin

lemma touches_counters:
  "touches {FailedLoginKey a i} (IncrFailedLogin R a i d)" "touches {FailedLoginKey a i} (ResetFailedLogins R a i)"
  "touches {LockoutTierKey a i} (IncrLockoutTier R a i d)" "touches {LockoutTierKey a i} (ResetLockoutTier R a i)"
  "touches {DelayTierKey a i} (IncrDelayTier R a i d)" "touches {DelayTierKey a i} (ResetDelayTier R a i)"
  "touches {} (GetDelayTier R a i)" "touches {} (GetFailedLoginCount R a i)"
  unfolding IncrFailedLogin_def ResetFailedLogins_def IncrLockoutTier_def ResetLockoutTier_def IncrDelayTier_def
    ResetDelayTier_def GetDelayTier_def GetFailedLoginCount_def get_count_def
  by (intro touches_intro; simp)+

lemma wp_IncrFailedLogin:
  "wp (IncrFailedLogin R a i d) (\<lambda>x r'. writes {FailedLoginKey a i} r r' \<and>
     (\<forall>n. x = Inr n \<longrightarrow> (\<exists>t. rnow r \<le> t \<and> t \<le> rnow r' \<and> n = count_then r (FailedLoginKey a i) t + 1))) r"
proof (rule wp_conj)
  show "wp (IncrFailedLogin R a i d) (\<lambda>x. writes {FailedLoginKey a i} r) r"
    by (rule wp_touches[OF touches_counters(1)])
  show "wp (IncrFailedLogin R a i d) (\<lambda>x r'. \<forall>n. x = Inr n \<longrightarrow>
     (\<exists>t. rnow r \<le> t \<and> t \<le> rnow r' \<and> n = count_then r (FailedLoginKey a i) t + 1)) r"
    unfolding IncrFailedLogin_def
  proof (rule wp_Let, rule wp_bind, rule wp_r_incr, rule wp_case_sum)
    fix k x r1 n assume k: "k = FailedLoginKey a i" and "incr_post k r x r1" and "x = Inr n"
    then have n: "n = count_then r k (rnow r1) + 1" and t: "rnow r \<le> rnow r1"
      by (auto simp: incr_post_def writes_def dest: incr_value_count)
    have "touches {k} (if n = 1 then ignore (r_expire R k d) else ret ())"
      by (intro touches_intro) simp_all
    then show "wp (do { (if n = 1 then ignore (r_expire R k d) else ret ()); ret (Inr n) }) (\<lambda>x r'. \<forall>n. x = Inr n \<longrightarrow>
       (\<exists>t. rnow r \<le> t \<and> t \<le> rnow r' \<and> n = count_then r (FailedLoginKey a i) t + 1)) r1"
      by (rule wp_bind[OF wp_touches], intro wp_return) (use n t k in \<open>auto simp: writes_def\<close>)
  qed (auto intro: wp_return)
qed

lemma wp_IncrLockoutTier:
  "wp (IncrLockoutTier R a i d) (\<lambda>x r'. writes {LockoutTierKey a i} r r' \<and>
     (\<forall>n. x = Inr n \<longrightarrow> (\<exists>t. rnow r \<le> t \<and> t \<le> rnow r' \<and> n = count_then r (LockoutTierKey a i) t + 1))) r"
proof (rule wp_conj)
  show "wp (IncrLockoutTier R a i d) (\<lambda>x. writes {LockoutTierKey a i} r) r"
    by (rule wp_touches[OF touches_counters(3)])
  show "wp (IncrLockoutTier R a i d) (\<lambda>x r'. \<forall>n. x = Inr n \<longrightarrow>
     (\<exists>t. rnow r \<le> t \<and> t \<le> rnow r' \<and> n = count_then r (LockoutTierKey a i) t + 1)) r"
    unfolding IncrLockoutTier_def
  proof (rule wp_Let, rule wp_bind, rule wp_r_incr, rule wp_case_sum)
    fix k x r1 n assume k: "k = LockoutTierKey a i" and "incr_post k r x r1" and "x = Inr n"
    then have n: "n = count_then r k (rnow r1) + 1" and t: "rnow r \<le> rnow r1"
      by (auto simp: incr_post_def writes_def dest: incr_value_count)
    have "touches {k} (ignore (r_expire R k d))" by (intro touches_intro) simp_all
    then show "wp (do { ignore (r_expire R k d); ret (Inr n) }) (\<lambda>x r'. \<forall>n. x = Inr n \<longrightarrow>
       (\<exists>t. rnow r \<le> t \<and> t \<le> rnow r' \<and> n = count_then r (LockoutTierKey a i) t + 1)) r1"
      by (rule wp_bind[OF wp_touches], intro wp_return) (use n t k in \<open>auto simp: writes_def\<close>)
  qed (auto intro: wp_return)
qed

end

text \<open>
  What one more failed attempt does: the counters it reads at some moment of the run, whether it
  locks, until when, and every row of that address then.
\<close>

definition locked_rows :: "string \<Rightarrow> string \<Rightarrow> instant \<Rightarrow> User list \<Rightarrow> bool" where
  "locked_rows appID email x rows \<longleftrightarrow> (\<forall>u\<in>set rows. with_email appID email u \<longrightarrow>
     u_LockedAt u \<noteq> None \<and> u_LockExpiresAt u = Some x)"

definition locks_until :: "BruteForceConfig \<Rightarrow> string \<Rightarrow> string \<Rightarrow> uworld \<Rightarrow> uworld \<Rightarrow> instant \<Rightarrow> bool" where
  "locks_until cfg appID email w w' x \<longleftrightarrow> locked_rows appID email x (w_users w') \<and>
     (\<exists>t t' d. rnow (w_redis w) \<le> t \<and> t \<le> t' \<and> t' \<le> rnow (w_redis w') \<and> x = t' + d \<and>
        lock_duration (LockoutDurations cfg) (count_then (w_redis w) (LockoutTierKey appID email) t + 1) = Some d)"

context user_stack
begin

lemma wp_lockAccount:
  "wp (lockAccount (ue_redis V) (ue_users V) appID email cfg)
     (\<lambda>y w'. rnow (w_redis w) \<le> rnow (w_redis w') \<and> (\<forall>x. y = Returned (Inr x) \<longrightarrow> locks_until cfg appID email w w' x)) w"
  unfolding lockAccount_def
proof (rule wp_bind, rule wp_rds, rule wp_mono[OF redis.wp_IncrLockoutTier], elim conjE, rule wp_case_sum)
  fix y r1 tier assume r1: "writes {LockoutTierKey appID email} (w_redis w) r1" and "y = Inr tier" and
    "\<forall>n. y = Inr n \<longrightarrow> (\<exists>t. rnow (w_redis w) \<le> t \<and> t \<le> rnow r1 \<and> n = count_then (w_redis w) (LockoutTierKey appID email) t + 1)"
  then obtain t where t: "rnow (w_redis w) \<le> t" "t \<le> rnow r1" "tier = count_then (w_redis w) (LockoutTierKey appID email) t + 1"
    by blast
  show "wp (case lock_duration (LockoutDurations cfg) tier of
        None \<Rightarrow> ret (Panicked ''index out of range'')
      | Some lockDuration \<Rightarrow> do {
          now \<leftarrow> rds time_now;
          let expiresAt = now + lockDuration;
          err \<leftarrow> usr (t_update (ue_users V) (\<lambda>x. u_AppID x = appID \<and> u_Email x = email)
            (\<lambda>x. x\<lparr>u_LockedAt := Some now, u_LockReason := lock_reason tier, u_LockExpiresAt := Some expiresAt\<rparr>));
          case err of Some e \<Rightarrow> ret (Returned (Inl ''failed to lock user account'')) | None \<Rightarrow> do {
          rds (ignore (ResetFailedLogins (ue_redis V) appID email));
          ret (Returned (Inr expiresAt)) } })
     (\<lambda>y w'. rnow (w_redis w) \<le> rnow (w_redis w') \<and> (\<forall>x. y = Returned (Inr x) \<longrightarrow> locks_until cfg appID email w w' x)) (w\<lparr>w_redis := r1\<rparr>)"
  proof (rule wp_case_option)
    fix d assume d: "lock_duration (LockoutDurations cfg) tier = Some d"
    show "wp (do { now \<leftarrow> rds time_now;
          let expiresAt = now + d;
          err \<leftarrow> usr (t_update (ue_users V) (\<lambda>x. u_AppID x = appID \<and> u_Email x = email)
            (\<lambda>x. x\<lparr>u_LockedAt := Some now, u_LockReason := lock_reason tier, u_LockExpiresAt := Some expiresAt\<rparr>));
          case err of Some e \<Rightarrow> ret (Returned (Inl ''failed to lock user account'')) | None \<Rightarrow> do {
          rds (ignore (ResetFailedLogins (ue_redis V) appID email));
          ret (Returned (Inr expiresAt)) } })
       (\<lambda>y w'. rnow (w_redis w) \<le> rnow (w_redis w') \<and> (\<forall>x. y = Returned (Inr x) \<longrightarrow> locks_until cfg appID email w w' x)) (w\<lparr>w_redis := r1\<rparr>)"
    proof (rule wp_bind, rule wp_rds, rule wp_time_now, rule wp_Let, rule wp_bind, rule wp_lifts(1), rule users.wp_t_update,
        rule wp_case_option, goal_cases)
      case (1 x e rows)
      note eq = applied_postD[OF 1(2)[unfolded 1(3)]]
      have rows: "locked_rows appID email x rows"
        unfolding eq locked_rows_def ball_update_rows with_email_def by fastforce
      have x: "x = rnow r1 + d" using 1 by simp
      have post: "locks_until cfg appID email w w' x" if "w_users w' = rows" "rnow r1 \<le> rnow (w_redis w')" for w'
        unfolding locks_until_def using rows t d x that by blast
      show ?case
      proof (rule wp_bind, rule wp_rds, rule wp_ignore, rule wp_touches[OF redis.touches_counters(2)], rule wp_return, goal_cases)
        case (1 _ r')
        then have "rnow r1 \<le> rnow r'" by (simp add: writes_def)
        with t show ?case by (simp add: post)
      qed
    qed (use r1 in \<open>auto simp: writes_def intro: wp_return\<close>)
  qed (use r1 in \<open>auto simp: writes_def intro: wp_return\<close>)
qed (auto simp: writes_def intro: wp_return)

lemma wp_HandleFailedLogin:
  "wp (HandleFailedLogin (ue_redis V) (ue_users V) appID email cfg) (\<lambda>y w'. \<forall>res. y = Returned res \<and> lockErr res = None \<longrightarrow>
     (\<exists>t. rnow (w_redis w) \<le> t \<and> t \<le> rnow (w_redis w') \<and> failCount res = count_then (w_redis w) (FailedLoginKey appID email) t + 1) \<and>
     wasLocked res = (LockoutEnabled cfg \<and> bf_LockoutThreshold cfg \<le> failCount res) \<and>
     (wasLocked res \<longrightarrow> (\<exists>x. lockExpiresAt res = Some x \<and> locks_until cfg appID email w w' x))) w"
  unfolding HandleFailedLogin_def
proof (rule wp_bind, rule wp_rds, rule wp_mono[OF redis.wp_IncrFailedLogin], elim conjE, rule wp_case_sum)
  fix y r1 n assume r1: "writes {FailedLoginKey appID email} (w_redis w) r1" and "y = Inr n" and
    "\<forall>n. y = Inr n \<longrightarrow> (\<exists>t. rnow (w_redis w) \<le> t \<and> t \<le> rnow r1 \<and> n = count_then (w_redis w) (FailedLoginKey appID email) t + 1)"
  then obtain t where t: "rnow (w_redis w) \<le> t" "t \<le> rnow r1" "n = count_then (w_redis w) (FailedLoginKey appID email) t + 1"
    by blast
  have tier: "locks_until cfg appID email w w' x" if "locks_until cfg appID email (w\<lparr>w_redis := r1\<rparr>) w' x" for w' x
  proof -
    have "count_then r1 (LockoutTierKey appID email) s = count_then (w_redis w) (LockoutTierKey appID email) s" for s
    proof -
      have "LockoutTierKey appID email \<noteq> FailedLoginKey appID email"
        by (simp add: LockoutTierKey_def FailedLoginKey_def app_key_same_app)
      with r1 have "rdata r1 (LockoutTierKey appID email) = rdata (w_redis w) (LockoutTierKey appID email)"
        by (simp add: writes_def)
      then show ?thesis by (simp add: count_then_def count_at_def live_def entry_at_def)
    qed
    with that r1 show ?thesis unfolding locks_until_def by (auto simp: writes_def intro: order_trans)
  qed
  show "wp (if \<not> LockoutEnabled cfg \<or> n < bf_LockoutThreshold cfg
         then ret (Returned \<lparr>wasLocked = False, lockExpiresAt = None, failCount = n, lockErr = None\<rparr>)
         else do {
           l \<leftarrow> lockAccount (ue_redis V) (ue_users V) appID email cfg;
           ret (case l of
               Panicked m \<Rightarrow> Panicked m
             | Returned (Inl e) \<Rightarrow> Returned \<lparr>wasLocked = False, lockExpiresAt = None, failCount = n, lockErr = Some e\<rparr>
             | Returned (Inr x) \<Rightarrow> Returned \<lparr>wasLocked = True, lockExpiresAt = Some x, failCount = n, lockErr = None\<rparr>) })
     (\<lambda>y w'. \<forall>res. y = Returned res \<and> lockErr res = None \<longrightarrow>
     (\<exists>t. rnow (w_redis w) \<le> t \<and> t \<le> rnow (w_redis w') \<and> failCount res = count_then (w_redis w) (FailedLoginKey appID email) t + 1) \<and>
     wasLocked res = (LockoutEnabled cfg \<and> bf_LockoutThreshold cfg \<le> failCount res) \<and>
     (wasLocked res \<longrightarrow> (\<exists>x. lockExpiresAt res = Some x \<and> locks_until cfg appID email w w' x))) (w\<lparr>w_redis := r1\<rparr>)"
    by (rule wp_if, rule wp_return, (use t in auto)[1], rule wp_bind, rule wp_mono[OF wp_lockAccount], rule wp_return)
       (use t in \<open>auto split: outcome.splits sum.splits intro!: tier intro: order_trans\<close>)
qed (auto intro: wp_return)

end

text \<open>
  C8: a failed attempt counts, and locks at the threshold.  A \<open>HandleFailedLogin\<close> that reports
  no error has raised the counter of the address by one; it locks exactly if lockout is on and the
  count has reached the threshold, for the duration of the next tier; from any state with the
  users as it left them, and until the lock runs out, no password logs that address in.
\<close>

theorem lockout_enforced:
  assumes "user_stack V"
    and "run_state (HandleFailedLogin (ue_redis V) (ue_users V) appID email cfg) w = (Returned res, w1)"
    and "lockErr res = None"
  shows "(\<exists>t. rnow (w_redis w) \<le> t \<and> t \<le> rnow (w_redis w1) \<and> failCount res = count_then (w_redis w) (FailedLoginKey appID email) t + 1) \<and>
    wasLocked res = (LockoutEnabled cfg \<and> bf_LockoutThreshold cfg \<le> failCount res) \<and>
    (wasLocked res \<longrightarrow> (\<exists>x. lockExpiresAt res = Some x \<and> locks_until cfg appID email w w1 x \<and>
       (\<forall>w2 password ip ua y w3. w_users w2 = w_users w1 \<and> rnow (w_redis w2) \<le> x \<and>
          run_state (LoginUser V appID email password ip ua) w2 = (y, w3) \<longrightarrow> (\<exists>e. y = Inl e))))"
proof -
  note post = wpD[OF user_stack.wp_HandleFailedLogin[OF assms(1)] assms(2), rule_format, OF conjI[OF refl assms(3)]]
  have "\<exists>e. y = Inl e" if x: "locks_until cfg appID email w w1 x" "rnow (w_redis w2) \<le> x" "w_users w2 = w_users w1"
    and run: "run_state (LoginUser V appID email password ip ua) w2 = (y, w3)" for x w2 password ip ua y w3
  proof (cases y)
    case (Inr r)
    from wpD[OF user_stack.wp_LoginUser[OF assms(1)] run] Inr that(3)
    obtain u where "u \<in> set (w_users w1)" "with_email appID email u" "\<not> lock_holds (rnow (w_redis w2)) u"
      by (auto simp: credentials_ok_def)
    with x show ?thesis by (auto simp: locks_until_def locked_rows_def lock_holds_def)
  qed simp
  with post show ?thesis by blast
qed

definition demo_bf :: BruteForceConfig where
  "demo_bf = default_bf_config\<lparr>bf_LockoutThreshold := 1\<rparr>"

definition demo_failed :: "lock_result outcome \<times> uworld" where
  "demo_failed = run_state (HandleFailedLogin (ue_redis demo_env) (ue_users demo_env) ''a'' ''u@x'' demo_bf) demo_uw"

lemma demo_failed_ok: "case fst demo_failed of
    Returned res \<Rightarrow> lockErr res = None \<and> wasLocked res \<and> lockExpiresAt res = Some (15 * minute) | _ \<Rightarrow> False"
  by code_simp

theorem lockout_enforced_witness:
  "\<exists>e. fst (run_state (LoginUser demo_env ''a'' ''u@x'' ''Secret12'' ''10.0.0.1'' ''curl'') (snd demo_failed)) = Inl e"
proof -
  obtain res where ok: "fst demo_failed = Returned res" and r: "lockErr res = None" "wasLocked res" "lockExpiresAt res = Some (15 * minute)"
    using demo_failed_ok by (auto split: outcome.splits)
  have now: "rnow (w_redis (snd demo_failed)) \<le> 15 * minute" by code_simp
  note l = lockout_enforced[OF demo_stack.user_stack_axioms run_eq[OF ok[unfolded demo_failed_def]] r(1), folded demo_failed_def]
  show ?thesis using l r(2,3) now by (metis option.inject prod.collapse)
qed

end
