(* ===== verification/AccountSpec.thy ===== *)
theory AccountSpec
  imports PasswordSpec UserSpec
begin

text \<open>
  Properties of accounts: registration and verification of the address, and the progressive
  delay of failed logins.
\<close>

section \<open>Registration\<close>

definition verify_key :: "string \<Rightarrow> string \<Rightarrow> string" where
  "verify_key appID token = app_key ''email_verify'' appID token"

definition verify_user_key :: "string \<Rightarrow> string \<Rightarrow> string" where
  "verify_user_key appID userID = app_key ''email_verify_user'' appID userID"

lemma verify_keys_differ [simp]: "verify_user_key a u \<noteq> verify_key a t" "verify_key a t \<noteq> verify_user_key a u"
  by (simp_all add: verify_key_def verify_user_key_def app_key_same_app)

lemma verify_key_inject [simp]: "verify_key a t = verify_key a s \<longleftrightarrow> t = s"
  by (simp add: verify_key_def app_key_same_app)

context redis_server
begin

lemma wp_SetEmailVerificationToken:
  "wp (SetEmailVerificationToken R a u t d) (\<lambda>e r'. writes {verify_key a t, verify_user_key a u} r r' \<and>
     (e = None \<longrightarrow> (\<exists>n. rnow r \<le> n \<and> n \<le> rnow r' \<and> rdata r' (verify_key a t) = Some (RStr u, expiry_after n d)))) r"
  unfolding SetEmailVerificationToken_def verify_key_def[symmetric] verify_user_key_def[symmetric]
proof (rule wp_bind, rule wp_r_set, rule wp_case_option)
  fix e r1 assume "set_post (verify_key a t) u d r e r1" and "e = None"
  then have r1: "writes {verify_key a t} r r1" "rdata r1 (verify_key a t) = Some (RStr u, expiry_after (rnow r1) d)"
    by (simp_all add: set_post_def)
  show "wp (r_set R (verify_user_key a u) t d) (\<lambda>e r'. writes {verify_key a t, verify_user_key a u} r r' \<and>
     (e = None \<longrightarrow> (\<exists>n. rnow r \<le> n \<and> n \<le> rnow r' \<and> rdata r' (verify_key a t) = Some (RStr u, expiry_after n d)))) r1"
    by (rule wp_r_set) (use r1 in \<open>auto simp: set_post_def writes_def intro!: exI[of _ "rnow r1"]\<close>)
qed (auto simp: set_post_def intro!: wp_return elim: writes_mono)

lemma touches_DeleteEmailVerificationToken: "touches UNIV (DeleteEmailVerificationToken R a t)"
  unfolding DeleteEmailVerificationToken_def by (intro touches_intro) simp_all

end

text \<open>What a registration has added.\<close>

definition registered :: "user_env \<Rightarrow> string \<Rightarrow> string \<Rightarrow> string \<Rightarrow> uworld \<Rightarrow> User \<Rightarrow> uworld \<Rightarrow> bool" where
  "registered V appID email password w u w' \<longleftrightarrow> w_users w' = w_users w @ [u] \<and> with_email appID email u \<and>
     \<not> u_EmailVerified u \<and> u_IsActive u \<and> CompareHash (ue_hash V) (u_PasswordHash u) password \<and>
     (\<exists>app. app_of w appID app \<and> meets_policy (ue_unicode V) password app) \<and>
     (\<exists>token n. (appID, VerificationEmail email token (u_ID u)) \<in> set (w_outbox w') \<and> rnow (w_redis w) \<le> n \<and>
        rdata (w_redis w') (verify_key appID token) = Some (RStr (u_ID u), Some (n + 24 * hour)))"

lemma AppendPasswordHistory_sel [simp]:
  "u_Email (AppendPasswordHistory H u h n) = u_Email u" "u_AppID (AppendPasswordHistory H u h n) = u_AppID u"
  "u_EmailVerified (AppendPasswordHistory H u h n) = u_EmailVerified u"
  "u_PasswordHash (AppendPasswordHistory H u h n) = u_PasswordHash u"
  by (simp_all add: AppendPasswordHistory_def Let_def)

lemma with_defaults_sel [simp]:
  "u_ID (with_defaults i u) = i" "u_Email (with_defaults i u) = u_Email u" "u_AppID (with_defaults i u) = u_AppID u"
  "u_EmailVerified (with_defaults i u) = u_EmailVerified u" "u_PasswordHash (with_defaults i u) = u_PasswordHash u"
  "u_IsActive (with_defaults i u)"
  by (simp_all add: with_defaults_def)

context user_stack
begin

lemma wp_send:
  "wp (send V a m) (\<lambda>e w'. (e = None \<longrightarrow> (a, m) \<in> set (w_outbox w')) \<and> w_users w' = w_users w \<and> w_redis w' = w_redis w) w"
  unfolding send_def by (intro wp_intro) auto

lemma wp_CreateUser:
  "wp (CreateUser (ue_users V) i u) (\<lambda>x rows'. (no_clash user_clash rows \<longrightarrow> no_clash user_clash rows') \<and>
     (\<forall>y. x = Inr y \<longrightarrow> y = with_defaults i u \<and> rows' = rows @ [y])) rows"
  unfolding CreateUser_def
proof (rule wp_Let, rule wp_bind, rule wpI, rule wp_return)
  fix row e rows' assume row: "row = with_defaults i u" and run: "run_state (t_create (ue_users V) row) rows = (e, rows')"
  from users.create[OF run] users.create_unique[OF run] row
  show "(no_clash user_clash rows \<longrightarrow> no_clash user_clash rows') \<and>
    (\<forall>y. (case e of None \<Rightarrow> Inr row | Some e \<Rightarrow> Inl e) = Inr y \<longrightarrow> y = with_defaults i u \<and> rows' = rows @ [y])"
    by (auto simp: applied_post_def split: option.splits)
qed

lemma wp_RegisterUser:
  "wp (RegisterUser V appID email password) (\<lambda>x w'. (no_clash user_clash (w_users w) \<longrightarrow> no_clash user_clash (w_users w')) \<and>
     (\<forall>uid. x = Inr uid \<longrightarrow> (\<exists>u. uid = u_ID u \<and> registered V appID email password w u w'))) w"
  (is "wp _ ?Q w")
proof -
  have no: "wp (ret (Inl e)) ?Q w'" if "no_clash user_clash (w_users w) \<longrightarrow> no_clash user_clash (w_users w')" for e :: app_error and w'
    using that by (auto intro: wp_return)
  show ?thesis
    unfolding RegisterUser_def
  proof (rule wp_bind, rule wp_GetUserByEmail, rule wp_case_sum, goal_cases)
    case (1 a e)
    show ?case
    proof (rule wp_bind, rule wp_load_app, rule wp_Let, rule wp_case_option, goal_cases)
      case (1 a app)
      then have app: "app_of w appID app" and pol: "meets_policy (ue_unicode V) password app"
        by (auto simp: app_of_def policy_iff[symmetric])
      show ?case
      proof (rule wp_bind, rule wp_draw, rule wp_case_sum, goal_cases)
        case (2 h)
        then have h: "CompareHash (ue_hash V) h password" using hash.hash_compare by blast
        show ?case
          unfolding new_uuid_def
        proof (rule wp_bind, rule wp_rds, rule wp_time_now, rule wp_Let, rule wp_bind, rule wp_draw, rule wp_bind,
            rule wp_lifts(1), rule wp_mono[OF wp_CreateUser], elim conjE, rule wp_case_sum, goal_cases)
          case (2 now_user x rows u)
          then have u: "with_email appID email u" "\<not> u_EmailVerified u" "u_IsActive u" "CompareHash (ue_hash V) (u_PasswordHash u) password"
            and rows: "rows = w_users w @ [u]" and nc: "no_clash user_clash (w_users w) \<longrightarrow> no_clash user_clash rows"
            using h by (auto simp: with_email_def)
          let ?I = "\<lambda>w'. w_users w' = rows \<and> rnow (w_redis w) \<le> rnow (w_redis w')"
          have disp: "wp (Dispatch V appID ev (u_ID u)) (\<lambda>_. ?I) w'" if "?I w'" for w' ev
            using that unfolding Dispatch_def by (intro wp_intro) auto
          have assign: "wp (case AssignDefaultRole V of None \<Rightarrow> ret () | Some assign \<Rightarrow> do { err \<leftarrow> assign appID (u_ID u); ret () }) (\<lambda>_. ?I) w'"
            if "?I w'" for w'
          proof (cases "AssignDefaultRole V")
            case (Some f)
            show ?thesis unfolding Some option.case
              by (rule wp_bind, rule wp_stable[OF assign_role[OF Some]], rule wp_return) (use that in \<open>auto simp: role_frame_def\<close>)
          qed (use that in \<open>simp add: wp_return\<close>)
          show ?case
          proof (rule wp_bind, rule wp_mono[OF disp], simp, rule wp_bind, rule wp_mono[OF assign], assumption,
              rule wp_bind, rule wp_draw, rule wp_bind, rule wp_rds, rule wp_mono[OF redis.wp_SetEmailVerificationToken],
              rule wp_case_option, goal_cases)
            case (1 _ w1 _ w2 e r3)
            then have k: "\<exists>n. rnow (w_redis w) \<le> n \<and>
                rdata r3 (verify_key appID (ue_uuid V (w_rand w2))) = Some (RStr (u_ID u), Some (n + 24 * hour))"
              by (auto simp: expiry_after_def)
            show ?case
              by (rule wp_bind, rule wp_mono[OF wp_send], rule wp_return)
                 (use u rows nc k 1 app pol in \<open>auto simp: registered_def with_email_def split: option.splits\<close>)
          next
            case (2 _ w1 _ w2 e r3 v)
            then show ?case using nc by (intro no) simp
          qed
        qed (use h in \<open>auto intro!: no\<close>)
      qed (rule no, simp)
    qed (rule no, simp)
  qed (rule no, simp)
qed

end

text \<open>
  C10: a registration adds one user who cannot log in yet.  It leaves e-mail addresses
  unique; if it succeeds the table has one more row, for that address, whose hash accepts the
  password, which meets the policy, and a mail with a token for a day has been sent; and
  no password logs the address in while the users are as it left them, since it is not verified.
\<close>

theorem register_then_verify:
  assumes "user_stack V" and "no_clash user_clash (w_users w)"
    and "run_state (RegisterUser V appID email password) w = (Inr uid, w1)"
  shows "no_clash user_clash (w_users w1) \<and> (\<exists>u. uid = u_ID u \<and> registered V appID email password w u w1) \<and>
    (\<forall>w2 p ip ua y w3. w_users w2 = w_users w1 \<and> run_state (LoginUser V appID email p ip ua) w2 = (y, w3) \<longrightarrow> (\<exists>e. y = Inl e))"
proof -
  from wpD[OF user_stack.wp_RegisterUser[OF assms(1)] assms(3)] assms(2)
  obtain u where nc: "no_clash user_clash (w_users w1)" and uid: "uid = u_ID u" and u: "registered V appID email password w u w1"
    by blast
  have only: "x = u" if "x \<in> set (w_users w1)" "with_email appID email x" for x
  proof -
    from u have "w_users w1 = w_users w @ [u]" "with_email appID email u" by (simp_all add: registered_def)
    with nc that show ?thesis
      by (auto simp: no_clash_def sorted_wrt_append user_clash_def with_email_def)
  qed
  have "\<exists>e. y = Inl e" if "w_users w2 = w_users w1" "run_state (LoginUser V appID email p ip ua) w2 = (y, w3)" for w2 p ip ua y w3
  proof (cases y)
    case (Inr r)
    with wpD[OF user_stack.wp_LoginUser[OF assms(1)] that(2)] that(1) obtain x
      where "x \<in> set (w_users w1)" "with_email appID email x" "u_EmailVerified x" by (auto simp: credentials_ok_def)
    with only u show ?thesis by (auto simp: registered_def)
  qed simp
  with nc uid u show ?thesis by blast
qed

definition demo_register :: "(app_error + string) \<times> uworld" where
  "demo_register = run_state (RegisterUser demo_env ''a'' ''new@x'' ''Password1'') demo_uw"

lemma demo_register_ok: "fst demo_register = Inr ''s1''"
  by code_simp

theorem register_then_verify_witness:
  "\<exists>u. u_ID u = ''s1'' \<and> registered demo_env ''a'' ''new@x'' ''Password1'' demo_uw u (snd demo_register)"
proof -
  have nc: "no_clash user_clash (w_users demo_uw)" by (simp add: no_clash_def demo_uw_def)
  from register_then_verify[OF demo_stack.user_stack_axioms nc run_eq[OF demo_register_ok[unfolded demo_register_def]], folded demo_register_def]
  show ?thesis by metis
qed

section \<open>Verification of the address\<close>

context user_stack
begin

lemma wp_VerifyEmail:
  "wp (VerifyEmail V appID token) (\<lambda>x w'. \<forall>uid. x = Inr uid \<longrightarrow>
     (\<exists>userID. live (w_redis w) (verify_key appID token) = Some (RStr userID) \<and>
        w_users w' = update_rows (with_id userID) (\<lambda>u. u\<lparr>u_EmailVerified := True\<rparr>) (w_users w))) w"
  unfolding VerifyEmail_def
proof (rule wp_bind, rule wp_rds, subst GetEmailVerificationToken_def, rule redis.wp_r_get, rule wp_case_sum, goal_cases)
  case (2 a r1 userID)
  then have r1: "reads (w_redis w) r1" and tok: "live (w_redis w) (verify_key appID token) = Some (RStr userID)"
    by (auto simp: get_post_def verify_key_def reads_def intro: live_mono)
  have disp: "wp (Dispatch V appID ev i) (\<lambda>_ w''. w_users w'' = w_users w') w'" for w' ev i
    unfolding Dispatch_def by (intro wp_intro) auto
  show ?case
    unfolding UpdateUserEmailVerified_def
  proof (rule wp_if, goal_cases)
    case 2
    show ?case
    proof (rule wp_bind, rule wp_lifts(1), rule users.wp_t_update, rule wp_case_option, goal_cases)
      case (1 e rows)
      note eq = applied_postD[OF 1(1)[unfolded 1(2)]]
      show ?case
      proof (rule wp_bind, rule wp_rds, rule wp_ignore, rule wp_touches[OF redis.touches_DeleteEmailVerificationToken],
          rule wp_case_option, goal_cases)
        case (2 _ r' uid)
        show ?case
          by (rule wp_bind, rule wp_mono[OF disp], rule wp_return) (use tok eq in auto)
      qed (auto intro: wp_return)
    qed (auto intro: wp_return)
  qed (auto intro: wp_return)
qed (auto intro: wp_return)

lemma wp_UpdateUserEmail:
  "wp (UpdateUserEmail V appID userID req) (\<lambda>x w'. x = None \<longrightarrow>
     w_users w' = update_rows (with_id userID) (\<lambda>u. u\<lparr>u_Email := ue_Email req, u_EmailVerified := False\<rparr>) (w_users w) \<and>
     writes {verify_key appID (ue_uuid V (w_rand w)), verify_user_key appID userID} (w_redis w) (w_redis w')) w"
  unfolding UpdateUserEmail_def
proof (rule wp_bind, rule wp_GetUserByID, rule wp_case_sum, goal_cases)
  case (2 a user)
  show ?case
  proof (rule wp_if, goal_cases)
    case 2
    show ?case
      unfolding repo_UpdateUserEmail_def new_uuid_def
    proof (rule wp_bind, rule wp_GetUserByEmail, rule wp_if, goal_cases)
      case (2 found)
      show ?case
      proof (rule wp_bind, rule wp_lifts(1), rule users.wp_t_update, rule wp_case_option, goal_cases)
        case (1 e rows)
        note eq = applied_postD[OF 1(1)[unfolded 1(2)]]
        show ?case
        proof (rule wp_bind, rule wp_draw, rule wp_bind, rule wp_rds, rule wp_mono[OF redis.wp_SetEmailVerificationToken],
            rule wp_case_option, goal_cases)
          case (1 e r')
          show ?case
            by (rule wp_bind, rule wp_mono[OF wp_send], rule wp_return) (use eq 1 in auto)
        qed (auto intro: wp_return)
      qed (auto intro: wp_return)
    qed (auto intro: wp_return)
  qed (auto intro: wp_return)
qed (auto intro: wp_return)

end

text \<open>
  An earlier token verifies a new address.  A change of address, which needs the
  password, sends a new token but leaves earlier ones: who then redeems a token that was sent to
  the old address gets the new address marked as verified.
\<close>

theorem stale_token_verifies:
  assumes "user_stack V"
    and "run_state (UpdateUserEmail V appID userID req) w = (None, w1)"
    and "rdata (w_redis w) (verify_key appID t) = Some (RStr userID, x)" and "t \<noteq> ue_uuid V (w_rand w)"
    and "run_state (VerifyEmail V appID t) w1 = (Inr uid, w2)"
  shows "w_users w2 = update_rows (with_id userID) (\<lambda>u. u\<lparr>u_Email := ue_Email req, u_EmailVerified := True\<rparr>) (w_users w)"
proof -
  from wpD[OF user_stack.wp_UpdateUserEmail[OF assms(1)] assms(2)]
  have w1: "w_users w1 = update_rows (with_id userID) (\<lambda>u. u\<lparr>u_Email := ue_Email req, u_EmailVerified := False\<rparr>) (w_users w)"
    and "rdata (w_redis w1) (verify_key appID t) = rdata (w_redis w) (verify_key appID t)"
    using assms(4) by (auto intro: writes_keep)
  with assms(3) have "rdata (w_redis w1) (verify_key appID t) = Some (RStr userID, x)" by simp
  moreover from wpD[OF user_stack.wp_VerifyEmail[OF assms(1)] assms(5)] obtain i
    where "live (w_redis w1) (verify_key appID t) = Some (RStr i)"
      and w2: "w_users w2 = update_rows (with_id i) (\<lambda>u. u\<lparr>u_EmailVerified := True\<rparr>) (w_users w1)" by blast
  ultimately have "i = userID" by (auto dest: live_Some)
  with w1 w2 show ?thesis by (simp add: update_rows_def with_id_def)
qed

definition demo_mail_world :: uworld where
  "demo_mail_world = demo_uw\<lparr>w_redis := \<lparr>rdata = map_of [(verify_key ''a'' ''old'', (RStr ''u'', Some hour))], rnow = minute\<rparr>\<rparr>"

definition demo_mail_change :: "app_error option \<times> uworld" where
  "demo_mail_change = run_state (UpdateUserEmail demo_env ''a'' ''u'' \<lparr>ue_Email = ''other@y'', ue_Password = ''Secret12''\<rparr>) demo_mail_world"

lemma demo_mail_change_ok: "fst demo_mail_change = None"
  by code_simp

definition demo_mail_verify :: "(app_error + string) \<times> uworld" where
  "demo_mail_verify = run_state (VerifyEmail demo_env ''a'' ''old'') (snd demo_mail_change)"

lemma demo_mail_verify_ok: "fst demo_mail_verify = Inr ''u''"
  by code_simp

theorem stale_token_verifies_witness:
  "map (\<lambda>u. (u_Email u, u_EmailVerified u)) (w_users (snd demo_mail_verify)) = [(''other@y'', True)]"
proof -
  have k: "rdata (w_redis demo_mail_world) (verify_key ''a'' ''old'') = Some (RStr ''u'', Some hour)"
    by (simp add: demo_mail_world_def)
  have n: "''old'' \<noteq> ue_uuid demo_env (w_rand demo_mail_world)" by code_simp
  show ?thesis
    unfolding stale_token_verifies[OF demo_stack.user_stack_axioms run_eq[OF demo_mail_change_ok[unfolded demo_mail_change_def]] k n
        run_eq[OF demo_mail_verify_ok[unfolded demo_mail_verify_def demo_mail_change_def]], folded demo_mail_change_def, folded demo_mail_verify_def]
    by (simp add: demo_mail_world_def demo_uw_def update_rows_def with_id_def demo_user_def)
qed

section \<open>Progressive delays\<close>

context redis_server
begin

lemma wp_get_count: "wp (get_count R k) (\<lambda>x r'. reads r r' \<and> (\<forall>n. x = Inr n \<longrightarrow> n = count_at r' k)) r"
  unfolding get_count_def
  by (intro wp_bind wp_r_get wp_return)
     (auto simp: get_post_def count_at_def split: sum.splits rerr.splits option.splits)

lemma wp_GetDelay:
  "wp (GetDelay R conv appID email ip cfg) (\<lambda>x r'. reads r r' \<and> (\<forall>d. x = Inr d \<and> DelayEnabled cfg \<longrightarrow>
     (\<exists>t t'. rnow r \<le> t \<and> t \<le> t' \<and> t' \<le> rnow r' \<and>
       (let tier = max (count_then r (DelayTierKey appID email) t) (count_then r (DelayTierKey appID ip) t');
            e = wrap64 (tier - DelayStartAfter cfg)
        in d = (if tier < DelayStartAfter cfg then 0 else min (DelayMaxSeconds cfg) (pow2_int conv e)))))) r"
  unfolding GetDelay_def GetDelayTier_def
proof (rule wp_if, goal_cases)
  case 2
  show ?case
  proof (rule wp_bind, rule wp_mono[OF wp_get_count], rule wp_case_sum, goal_cases)
    case (2 a r1 n)
    show ?case
    proof (rule wp_bind, rule wp_mono[OF wp_get_count], rule wp_case_sum, goal_cases)
      case (2 b r2 m)
      have n: "n = count_then r (DelayTierKey appID email) (rnow r1)" and m: "m = count_then r (DelayTierKey appID ip) (rnow r2)"
        and t: "rnow r \<le> rnow r1" "rnow r1 \<le> rnow r2" "reads r r2"
        using \<open>reads r r1 \<and> _\<close> \<open>a = Inr n\<close> 2 by (auto simp: reads_def count_then_def count_at_def live_def entry_at_def)
      have tier: "(if n < m then m else n) = max n m" by (simp add: max_def)
      show ?case
        unfolding Let_def tier
      proof (rule wp_if, goal_cases)
        case 1
        show ?case
          by (rule wp_return, rule conjI[OF t(3)], intro allI impI, rule exI[of _ "rnow r1"], rule exI[of _ "rnow r2"])
             (use n m t(1,2) 1 in auto)
      next
        case 2
        show ?case
          by (rule wp_return, rule conjI[OF t(3)], intro allI impI, rule exI[of _ "rnow r1"], rule exI[of _ "rnow r2"])
             (use n m t(1,2) 2 in \<open>auto simp: min_def\<close>)
      qed
    qed (use \<open>reads r r1 \<and> _\<close> in \<open>auto intro!: wp_return elim: reads_trans\<close>)
  qed (auto intro!: wp_return)
qed (auto intro!: wp_return)

end

text \<open>
  C13: how long a login has to wait.  With progressive delays on, the answer is decided by
  the higher of the two counters, of the address and of the client: none below the start, then
  powers of two up to the maximum, as long as the exponent is below 63; beyond, the result of
  converting a number that does not fit an \<open>int\<close> takes the place of the power.
\<close>

theorem delay_bounds:
  assumes "redis_server R" and "DelayEnabled cfg"
    and "run_state (GetDelay R conv appID email ip cfg) r = (Inr d, r')"
  shows "\<exists>t t' tier. rnow r \<le> t \<and> t \<le> t' \<and> t' \<le> rnow r' \<and>
    tier = max (count_then r (DelayTierKey appID email) t) (count_then r (DelayTierKey appID ip) t') \<and>
    (let e = tier - DelayStartAfter cfg in
      (e < 0 \<longrightarrow> d = 0) \<and>
      (0 \<le> e \<and> e < 63 \<longrightarrow> d = min (DelayMaxSeconds cfg) (2 ^ nat e)) \<and>
      (63 \<le> e \<and> e < 2 ^ 63 \<longrightarrow> d = min (DelayMaxSeconds cfg) (conv e)))"
proof -
  from wpD[OF redis_server.wp_GetDelay[OF assms(1)] assms(3)] assms(2) obtain t t' tier
    where t: "rnow r \<le> t" "t \<le> t'" "t' \<le> rnow r'"
    and tier: "tier = max (count_then r (DelayTierKey appID email) t) (count_then r (DelayTierKey appID ip) t')"
    and d: "d = (if tier < DelayStartAfter cfg then 0 else min (DelayMaxSeconds cfg) (pow2_int conv (wrap64 (tier - DelayStartAfter cfg))))"
    by (auto simp: Let_def)
  have "wrap64 (tier - DelayStartAfter cfg) = tier - DelayStartAfter cfg"
    if "0 \<le> tier - DelayStartAfter cfg" "tier - DelayStartAfter cfg < 2 ^ 63" using that by (intro wrap64_id) simp_all
  with d have "let e = tier - DelayStartAfter cfg in
      (e < 0 \<longrightarrow> d = 0) \<and>
      (0 \<le> e \<and> e < 63 \<longrightarrow> d = min (DelayMaxSeconds cfg) (2 ^ nat e)) \<and>
      (63 \<le> e \<and> e < 2 ^ 63 \<longrightarrow> d = min (DelayMaxSeconds cfg) (conv e))"
    by (auto simp: Let_def pow2_int_def)
  with t tier show ?thesis by blast
qed

text \<open>A client with 66 failures in half an hour, on a machine whose conversion gives the least integer.\<close>

definition demo_failures :: "int \<Rightarrow> redis" where
  "demo_failures n = \<lparr>rdata = map_of [(DelayTierKey ''a'' ''10.0.0.1'', (RStr (itoa n), Some hour))], rnow = minute\<rparr>"

definition demo_delay :: "int \<Rightarrow> (rerr + int) \<times> redis" where
  "demo_delay n = run_state (GetDelay demo_redis (\<lambda>_. - (2 ^ 63)) ''a'' ''u@x'' ''10.0.0.1'' default_bf_config) (demo_failures n)"

theorem delay_bounds_witness:
  "fst (demo_delay 4) = Inr 4 \<and> (\<exists>t t'. 0 \<le> max (count_then (demo_failures 4) (DelayTierKey ''a'' ''u@x'') t)
     (count_then (demo_failures 4) (DelayTierKey ''a'' ''10.0.0.1'') t') - 2) \<and> fst (demo_delay 65) = Inr (- (2 ^ 63))"
proof -
  have ok: "fst (demo_delay 4) = Inr 4" by code_simp
  have over: "fst (demo_delay 65) = Inr (- (2 ^ 63))" by code_simp
  have e: "DelayEnabled default_bf_config" "DelayStartAfter default_bf_config = 2" "DelayMaxSeconds default_bf_config = 16"
    by (simp_all add: default_bf_config_def)
  from delay_bounds[OF ref0.redis_server_axioms e(1) run_eq[OF ok[unfolded demo_delay_def]]]
  obtain t t' tier where tier: "tier = max (count_then (demo_failures 4) (DelayTierKey ''a'' ''u@x'') t)
       (count_then (demo_failures 4) (DelayTierKey ''a'' ''10.0.0.1'') t')" and "tier - 2 < 0 \<longrightarrow> (4::int) = 0"
    unfolding Let_def e by blast
  then have "0 \<le> max (count_then (demo_failures 4) (DelayTierKey ''a'' ''u@x'') t)
       (count_then (demo_failures 4) (DelayTierKey ''a'' ''10.0.0.1'') t') - 2"
    by linarith
  with ok over show ?thesis by blast
qed

end
