(* ===== verification/TwoFAService.thy ===== *)
theory TwoFAService
  imports UserService
begin

text \<open>
  \<open>internal/twofa/service.go\<close> and \<open>trusted_device_repository.go\<close>: setting up, switching and checking the
  second factor (TOTP, codes by mail and SMS, recovery codes), the backup address and the phone
  number, and trusted devices.
\<close>

section \<open>What the service is wired to\<close>

text \<open>
  The OTP library, the QR encoder, SHA-256 and the random bytes are parameters: \<open>totp_ok t code secret\<close>
  is \<open>totp.Validate\<close> at time \<open>t\<close>; the \<open>n\<close>-th draw as a secret, a recovery code, a device token.
\<close>

record twofa_env =
  te_user :: user_env
  te_devices :: "TrustedDevice table_api"
  has_devices :: bool
  totp_ok :: "instant \<Rightarrow> string \<Rightarrow> string \<Rightarrow> bool"
  qr_encode :: "string \<Rightarrow> string option"
  te_secret :: "nat \<Rightarrow> string"
  te_recovery :: "nat \<Rightarrow> string"
  te_device_token :: "nat \<Rightarrow> string"
  sha256 :: "string \<Rightarrow> string"
  APP_NAME :: string

abbreviation te_redis :: "twofa_env \<Rightarrow> redis_api" where "te_redis T \<equiv> ue_redis (te_user T)"
abbreviation te_users :: "twofa_env \<Rightarrow> User table_api" where "te_users T \<equiv> ue_users (te_user T)"
abbreviation te_hash :: "twofa_env \<Rightarrow> hash_api" where "te_hash T \<equiv> ue_hash (te_user T)"

definition TwoFAMethodTOTP :: string where "TwoFAMethodTOTP = ''totp''"
definition TwoFAMethodEmail :: string where "TwoFAMethodEmail = ''email''"
definition TwoFAMethodPasskey :: string where "TwoFAMethodPasskey = ''passkey''"
definition TwoFAMethodSMS :: string where "TwoFAMethodSMS = ''sms''"
definition TwoFAMethodBackupEmail :: string where "TwoFAMethodBackupEmail = ''backup_email''"

section \<open>Random values\<close>

definition generateSecretKey :: "twofa_env \<Rightarrow> (uworld, string) state" where
  "generateSecretKey T = draw (te_secret T)"

definition generate6DigitCode :: "twofa_env \<Rightarrow> (uworld, string) state" where
  "generate6DigitCode T = generateSecure6DigitCode (te_user T)"

fun generateRecoveryCodes :: "twofa_env \<Rightarrow> nat \<Rightarrow> (uworld, string list) state" where
  "generateRecoveryCodes T 0 = ret []"
| "generateRecoveryCodes T (Suc n) = do {
     code \<leftarrow> draw (te_recovery T);
     codes \<leftarrow> generateRecoveryCodes T n;
     ret (code # codes) }"

section \<open>Setting up TOTP\<close>

record TwoFASetupResponse =
  Secret :: string
  QRCodeURL :: string
  QRCodeData :: string

definition checkTwoFAEnabled :: "twofa_env \<Rightarrow> string \<Rightarrow> (uworld, app_error option) state" where
  "checkTwoFAEnabled T appID = do {
     app \<leftarrow> load_app (te_user T) appID;
     ret (case app of
         Some a \<Rightarrow> if \<not> a_TwoFAEnabled a then Some (forbidden ''2FA is not available for this application'') else None
       | None \<Rightarrow> None) }"

definition resolve_issuer :: "string \<Rightarrow> Application option \<Rightarrow> string" where
  "resolve_issuer app_name app =
     (let issuer = (case app of
          Some a \<Rightarrow> if a_TwoFAIssuerName a \<noteq> [] then a_TwoFAIssuerName a else a_Name a
        | None \<Rightarrow> [])
      in if issuer \<noteq> [] then issuer else if app_name \<noteq> [] then app_name else ''Auth API'')"

definition Generate2FASecret :: "twofa_env \<Rightarrow> string \<Rightarrow> string \<Rightarrow> (uworld, app_error + TwoFASetupResponse) state" where
  "Generate2FASecret T appID userID = do {
     app \<leftarrow> load_app (te_user T) appID;
     if (case app of Some a \<Rightarrow> \<not> a_TwoFAEnabled a | None \<Rightarrow> False)
     then ret (Inl (forbidden ''2FA is not available for this application'')) else do {
     res \<leftarrow> usr (GetUserByID (te_users T) userID);
     case res of Inl e \<Rightarrow> ret (Inl (not_found ''User not found'')) | Inr user \<Rightarrow> do {
     secret \<leftarrow> generateSecretKey T;
     err \<leftarrow> rds (SetTempTwoFASecret (te_redis T) appID userID secret (10 * minute));
     case err of Some e \<Rightarrow> ret (Inl (internal ''Failed to store temporary secret'')) | None \<Rightarrow>
     let issuer = resolve_issuer (APP_NAME T) app;
         provisioningURI = ''otpauth://totp/'' @ issuer @ '':'' @ u_Email user @ ''?secret='' @ secret @ ''&issuer='' @ issuer
     in ret (case qr_encode T provisioningURI of
         None \<Rightarrow> Inl (internal ''Failed to generate QR code'')
       | Some qrCodeData \<Rightarrow> Inr \<lparr>Secret = secret, QRCodeURL = provisioningURI, QRCodeData = qrCodeData\<rparr>) } } }"

definition VerifySetup :: "twofa_env \<Rightarrow> string \<Rightarrow> string \<Rightarrow> string \<Rightarrow> (uworld, app_error option) state" where
  "VerifySetup T appID userID totpCode = do {
     appErr \<leftarrow> checkTwoFAEnabled T appID;
     case appErr of Some e \<Rightarrow> ret (Some e) | None \<Rightarrow> do {
     res \<leftarrow> rds (GetTempTwoFASecret (te_redis T) appID userID);
     case res of Inl e \<Rightarrow> ret (Some (unauthorized ''Invalid or expired setup session'')) | Inr secret \<Rightarrow> do {
     now \<leftarrow> rds time_now;
     ret (if \<not> totp_ok T now totpCode secret then Some (unauthorized ''Invalid TOTP code'') else None) } } }"

definition svc_Enable2FA :: "twofa_env \<Rightarrow> string \<Rightarrow> string \<Rightarrow> (uworld, app_error + string list) state" where
  "svc_Enable2FA T appID userID = do {
     appErr \<leftarrow> checkTwoFAEnabled T appID;
     case appErr of Some e \<Rightarrow> ret (Inl e) | None \<Rightarrow> do {
     res \<leftarrow> rds (GetTempTwoFASecret (te_redis T) appID userID);
     case res of Inl e \<Rightarrow> ret (Inl (unauthorized ''Invalid or expired setup session'')) | Inr secret \<Rightarrow> do {
     recoveryCodes \<leftarrow> generateRecoveryCodes T 8;
     err \<leftarrow> usr (Enable2FAWithMethod (te_users T) userID secret (Marshal (te_hash T) recoveryCodes) TwoFAMethodTOTP);
     case err of Some e \<Rightarrow> ret (Inl (internal ''Failed to enable 2FA'')) | None \<Rightarrow> do {
     rds (ignore (DeleteTempTwoFASecret (te_redis T) appID userID));
     Dispatch (te_user T) appID ''2fa.enabled'' userID;
     ret (Inr recoveryCodes) } } } }"

definition svc_Disable2FA :: "twofa_env \<Rightarrow> string \<Rightarrow> string \<Rightarrow> (uworld, app_error option) state" where
  "svc_Disable2FA T appID userID = do {
     err \<leftarrow> usr (Disable2FA (te_users T) userID);
     case err of Some e \<Rightarrow> ret (Some (internal ''Failed to disable 2FA'')) | None \<Rightarrow> do {
     Dispatch (te_user T) appID ''2fa.disabled'' userID;
     ret None } }"

definition DisableBackupEmail2FAMethod :: "twofa_env \<Rightarrow> string \<Rightarrow> string \<Rightarrow> (uworld, app_error option) state" where
  "DisableBackupEmail2FAMethod T appID userID = do {
     err \<leftarrow> usr (RestorePreviousTwoFAMethod (te_users T) userID);
     case err of Some e \<Rightarrow> ret (Some (internal ''Failed to disable backup email 2FA'')) | None \<Rightarrow> do {
     Dispatch (te_user T) appID ''2fa.disabled'' userID;
     ret None } }"

section \<open>Checking TOTP and recovery codes\<close>

definition VerifyTOTP :: "twofa_env \<Rightarrow> string \<Rightarrow> string \<Rightarrow> (uworld, app_error option) state" where
  "VerifyTOTP T userID totpCode = do {
     res \<leftarrow> usr (GetUserByID (te_users T) userID);
     case res of Inl e \<Rightarrow> ret (Some (not_found ''User not found'')) | Inr user \<Rightarrow>
     if \<not> u_TwoFAEnabled user \<or> u_TwoFASecret user = []
     then ret (Some (bad_request ''2FA is not enabled for this user'')) else do {
     now \<leftarrow> rds time_now;
     ret (if \<not> totp_ok T now totpCode (u_TwoFASecret user) then Some (unauthorized ''Invalid TOTP code'') else None) } }"

definition VerifyRecoveryCode :: "twofa_env \<Rightarrow> string \<Rightarrow> string \<Rightarrow> (uworld, app_error option) state" where
  "VerifyRecoveryCode T userID recoveryCode = do {
     res \<leftarrow> usr (GetUserByID (te_users T) userID);
     case res of Inl e \<Rightarrow> ret (Some (not_found ''User not found'')) | Inr user \<Rightarrow>
     if \<not> u_TwoFAEnabled user then ret (Some (bad_request ''2FA is not enabled for this user'')) else
     (case (case u_TwoFARecoveryCodes user of None \<Rightarrow> ([], False) | Some s \<Rightarrow> Unmarshal (te_hash T) s) of
        (recoveryCodes, ok) \<Rightarrow>
        if \<not> ok then ret (Some (internal ''Failed to parse recovery codes''))
        else if recoveryCode \<in> set recoveryCodes then do {
          err \<leftarrow> usr (UpdateRecoveryCodes (te_users T) userID (Marshal (te_hash T) (remove1 recoveryCode recoveryCodes)));
          ret (case err of Some e \<Rightarrow> Some (internal ''Failed to update recovery codes'') | None \<Rightarrow> None) }
        else ret (Some (unauthorized ''Invalid recovery code''))) }"

definition GenerateNewRecoveryCodes :: "twofa_env \<Rightarrow> string \<Rightarrow> (uworld, app_error + string list) state" where
  "GenerateNewRecoveryCodes T userID = do {
     res \<leftarrow> usr (GetUserByID (te_users T) userID);
     case res of Inl e \<Rightarrow> ret (Inl (not_found ''User not found'')) | Inr user \<Rightarrow>
     if \<not> u_TwoFAEnabled user then ret (Inl (bad_request ''2FA is not enabled for this user'')) else do {
     recoveryCodes \<leftarrow> generateRecoveryCodes T 8;
     err \<leftarrow> usr (UpdateRecoveryCodes (te_users T) userID (Marshal (te_hash T) recoveryCodes));
     ret (case err of Some e \<Rightarrow> Inl (internal ''Failed to update recovery codes'') | None \<Rightarrow> Inr recoveryCodes) } }"

section \<open>Codes by mail and SMS\<close>

definition has_method :: "string \<Rightarrow> Application \<Rightarrow> bool" where
  "has_method method app \<longleftrightarrow> list_ex (\<lambda>m. TrimSpace m = method) (Split (a_TwoFAMethods app) (CHR '',''))"

definition isEmail2FAAllowed :: "twofa_env \<Rightarrow> string \<Rightarrow> (uworld, bool) state" where
  "isEmail2FAAllowed T appID = do {
     app \<leftarrow> load_app (te_user T) appID;
     ret (case app of None \<Rightarrow> False
          | Some a \<Rightarrow> if \<not> a_Email2FAEnabled a then False else has_method TwoFAMethodEmail a) }"

definition isSMS2FAAllowed :: "twofa_env \<Rightarrow> string \<Rightarrow> (uworld, bool) state" where
  "isSMS2FAAllowed T appID = do {
     app \<leftarrow> load_app (te_user T) appID;
     ret (case app of None \<Rightarrow> False
          | Some a \<Rightarrow> if \<not> a_SMS2FAEnabled a then False else has_method TwoFAMethodSMS a) }"

definition GetAvailableMethods :: "twofa_env \<Rightarrow> string \<Rightarrow> (uworld, string list) state" where
  "GetAvailableMethods T appID = do {
     app \<leftarrow> load_app (te_user T) appID;
     ret (case app of None \<Rightarrow> [TwoFAMethodTOTP]
          | Some a \<Rightarrow> if \<not> a_TwoFAEnabled a then [] else
              (let result = filter (\<lambda>m. \<not> (m = TwoFAMethodEmail \<and> \<not> a_Email2FAEnabled a) \<and>
                     \<not> (m = TwoFAMethodPasskey \<and> \<not> a_Passkey2FAEnabled a) \<and> m \<noteq> [])
                   (map TrimSpace (Split (a_TwoFAMethods a) (CHR '','')))
               in if result = [] then [TwoFAMethodTOTP] else result)) }"

definition GetUserTwoFAMethod :: "twofa_env \<Rightarrow> string \<Rightarrow> (uworld, app_error + string) state" where
  "GetUserTwoFAMethod T userID = do {
     res \<leftarrow> usr (GetUserByID (te_users T) userID);
     ret (case res of Inl e \<Rightarrow> Inl (not_found ''User not found'')
          | Inr user \<Rightarrow> if \<not> u_TwoFAEnabled user then Inl (bad_request ''2FA is not enabled for this user'')
              else Inr (if u_TwoFAMethod user = [] then TwoFAMethodTOTP else u_TwoFAMethod user)) }"

definition EnableEmail2FA :: "twofa_env \<Rightarrow> string \<Rightarrow> string \<Rightarrow> (uworld, app_error + string list) state" where
  "EnableEmail2FA T appID userID = do {
     appErr \<leftarrow> checkTwoFAEnabled T appID;
     case appErr of Some e \<Rightarrow> ret (Inl e) | None \<Rightarrow> do {
     allowed \<leftarrow> isEmail2FAAllowed T appID;
     if \<not> allowed then ret (Inl (forbidden ''Email 2FA is not available for this application'')) else do {
     recoveryCodes \<leftarrow> generateRecoveryCodes T 8;
     err \<leftarrow> usr (Enable2FAWithMethod (te_users T) userID [] (Marshal (te_hash T) recoveryCodes) TwoFAMethodEmail);
     case err of Some e \<Rightarrow> ret (Inl (internal ''Failed to enable email 2FA'')) | None \<Rightarrow> do {
     Dispatch (te_user T) appID ''2fa.enabled'' userID;
     ret (Inr recoveryCodes) } } } }"

text \<open>Without a mail service the code is logged.\<close>

definition send_mail :: "twofa_env \<Rightarrow> string \<Rightarrow> outgoing \<Rightarrow> (uworld, string option) state" where
  "send_mail T appID m = (if has_mail (te_user T) then send (te_user T) appID m else ret None)"

definition GenerateEmail2FACode :: "twofa_env \<Rightarrow> string \<Rightarrow> string \<Rightarrow> (uworld, app_error option) state" where
  "GenerateEmail2FACode T appID userID = do {
     res \<leftarrow> usr (GetUserByID (te_users T) userID);
     case res of Inl e \<Rightarrow> ret (Some (not_found ''User not found'')) | Inr u \<Rightarrow>
     if \<not> u_TwoFAEnabled u \<or> u_TwoFAMethod u \<noteq> TwoFAMethodEmail
     then ret (Some (bad_request ''Email 2FA is not enabled for this user'')) else do {
     code \<leftarrow> generate6DigitCode T;
     err \<leftarrow> rds (Set2FAEmailCode (te_redis T) appID userID code);
     case err of Some e \<Rightarrow> ret (Some (internal ''Failed to store 2FA code'')) | None \<Rightarrow> do {
     err \<leftarrow> send_mail T appID (TwoFACodeEmail (u_Email u) code);
     ret (case err of Some e \<Rightarrow> Some (internal ''Failed to send 2FA code email'') | None \<Rightarrow> None) } } }"

definition ResendEmail2FACode :: "twofa_env \<Rightarrow> string \<Rightarrow> string \<Rightarrow> (uworld, app_error option) state" where
  "ResendEmail2FACode T appID userID = GenerateEmail2FACode T appID userID"

text \<open>The three verifications read the stored code, compare, and spend it; a failing delete is logged.\<close>

definition VerifyEmail2FACode :: "twofa_env \<Rightarrow> string \<Rightarrow> string \<Rightarrow> string \<Rightarrow> (redis, app_error option) state" where
  "VerifyEmail2FACode T appID userID code = do {
     res \<leftarrow> Get2FAEmailCode (te_redis T) appID userID;
     case res of Inl e \<Rightarrow> ret (Some (unauthorized ''Invalid or expired 2FA code'')) | Inr storedCode \<Rightarrow>
     if storedCode \<noteq> code then ret (Some (unauthorized ''Invalid 2FA code'')) else do {
     ignore (Delete2FAEmailCode (te_redis T) appID userID);
     ret None } }"

definition VerifySMS2FACode :: "twofa_env \<Rightarrow> string \<Rightarrow> string \<Rightarrow> string \<Rightarrow> (redis, app_error option) state" where
  "VerifySMS2FACode T appID userID code = do {
     res \<leftarrow> Get2FASMSCode (te_redis T) appID userID;
     case res of Inl e \<Rightarrow> ret (Some (unauthorized ''Invalid or expired SMS 2FA code'')) | Inr storedCode \<Rightarrow>
     if storedCode \<noteq> code then ret (Some (unauthorized ''Invalid SMS 2FA code'')) else do {
     ignore (Delete2FASMSCode (te_redis T) appID userID);
     ret None } }"

definition VerifyBackupEmail2FACode :: "twofa_env \<Rightarrow> string \<Rightarrow> string \<Rightarrow> string \<Rightarrow> (redis, app_error option) state" where
  "VerifyBackupEmail2FACode T appID userID code = do {
     res \<leftarrow> GetBackupEmail2FACode (te_redis T) appID userID;
     case res of Inl e \<Rightarrow> ret (Some (unauthorized ''Invalid or expired backup email 2FA code'')) | Inr storedCode \<Rightarrow>
     if storedCode \<noteq> code then ret (Some (unauthorized ''Invalid backup email 2FA code'')) else do {
     ignore (DeleteBackupEmail2FACode (te_redis T) appID userID);
     ret None } }"

definition EnableSMS2FA :: "twofa_env \<Rightarrow> string \<Rightarrow> string \<Rightarrow> (uworld, app_error + string list) state" where
  "EnableSMS2FA T appID userID = do {
     appErr \<leftarrow> checkTwoFAEnabled T appID;
     case appErr of Some e \<Rightarrow> ret (Inl e) | None \<Rightarrow> do {
     allowed \<leftarrow> isSMS2FAAllowed T appID;
     if \<not> allowed then ret (Inl (forbidden ''SMS 2FA is not available for this application'')) else do {
     res \<leftarrow> usr (GetUserByID (te_users T) userID);
     case res of Inl e \<Rightarrow> ret (Inl (not_found ''User not found'')) | Inr u \<Rightarrow>
     if \<not> u_PhoneVerified u then ret (Inl (bad_request ''Phone number must be verified before enabling SMS 2FA'')) else do {
     recoveryCodes \<leftarrow> generateRecoveryCodes T 8;
     err \<leftarrow> usr (Enable2FAWithMethod (te_users T) userID [] (Marshal (te_hash T) recoveryCodes) TwoFAMethodSMS);
     case err of Some e \<Rightarrow> ret (Inl (internal ''Failed to enable SMS 2FA'')) | None \<Rightarrow> do {
     Dispatch (te_user T) appID ''2fa.enabled'' userID;
     ret (Inr recoveryCodes) } } } } }"

definition GenerateSMS2FACode :: "twofa_env \<Rightarrow> string \<Rightarrow> string \<Rightarrow> (uworld, app_error option) state" where
  "GenerateSMS2FACode T appID userID = (if \<not> has_sms (te_user T)
     then ret (Some (internal ''SMS service is not configured'')) else do {
     res \<leftarrow> usr (GetUserByID (te_users T) userID);
     case res of Inl e \<Rightarrow> ret (Some (not_found ''User not found'')) | Inr u \<Rightarrow>
     if \<not> u_TwoFAEnabled u \<or> u_TwoFAMethod u \<noteq> TwoFAMethodSMS
     then ret (Some (bad_request ''SMS 2FA is not enabled for this user'')) else
     if \<not> u_PhoneVerified u \<or> u_PhoneNumber u = []
     then ret (Some (bad_request ''No verified phone number on file'')) else do {
     code \<leftarrow> generate6DigitCode T;
     err \<leftarrow> rds (Set2FASMSCode (te_redis T) appID userID code);
     case err of Some e \<Rightarrow> ret (Some (internal ''Failed to store SMS 2FA code'')) | None \<Rightarrow> do {
     err \<leftarrow> send (te_user T) appID (SMS (u_PhoneNumber u) (''Your verification code is: '' @ code @ ''  (expires in 5 minutes)''));
     ret (case err of Some e \<Rightarrow> Some (internal ''Failed to send SMS 2FA code'') | None \<Rightarrow> None) } } })"

section \<open>The backup address\<close>

definition AddBackupEmail :: "twofa_env \<Rightarrow> string \<Rightarrow> string \<Rightarrow> string \<Rightarrow> (uworld, app_error option) state" where
  "AddBackupEmail T appID userID backupEmail = do {
     res \<leftarrow> usr (GetUserByID (te_users T) userID);
     case res of Inl e \<Rightarrow> ret (Some (not_found ''User not found'')) | Inr u \<Rightarrow>
     if u_Email u = backupEmail then ret (Some (bad_request ''Backup email must differ from login email'')) else do {
     err \<leftarrow> usr (SetBackupEmail (te_users T) userID backupEmail);
     case err of Some e \<Rightarrow> ret (Some (internal ''Failed to save backup email'')) | None \<Rightarrow> do {
     token \<leftarrow> new_uuid (te_user T);
     err \<leftarrow> rds (SetBackupEmailVerificationToken (te_redis T) appID userID token backupEmail (24 * hour));
     case err of Some e \<Rightarrow> ret (Some (internal ''Failed to store verification token'')) | None \<Rightarrow> do {
     err \<leftarrow> send_mail T appID (BackupVerificationEmail backupEmail token);
     ret (case err of Some e \<Rightarrow> Some (internal ''Failed to send verification email'') | None \<Rightarrow> None) } } } }"

text \<open>The dash of one message, in UTF-8.\<close>

definition em_dash :: string where
  "em_dash = [CHR 0xE2, CHR 0x80, CHR 0x94]"

definition svc_VerifyBackupEmail :: "twofa_env \<Rightarrow> string \<Rightarrow> string \<Rightarrow> (uworld, app_error option) state" where
  "svc_VerifyBackupEmail T appID token = do {
     res \<leftarrow> rds (GetBackupEmailVerificationToken (te_redis T) appID token);
     case res of Inl e \<Rightarrow> ret (Some (unauthorized ''Invalid or expired verification token'')) | Inr (userID, pendingEmail) \<Rightarrow>
     if userID = [] then ret (Some (unauthorized ''Invalid or expired verification token'')) else do {
     res \<leftarrow> usr (GetUserByID (te_users T) userID);
     case res of Inl e \<Rightarrow> ret (Some (not_found ''User not found'')) | Inr u \<Rightarrow>
     if u_BackupEmail u \<noteq> pendingEmail
     then ret (Some (bad_request (''Token no longer valid '' @ em_dash @ '' backup email was changed''))) else do {
     err \<leftarrow> usr (VerifyBackupEmail (te_users T) userID);
     case err of Some e \<Rightarrow> ret (Some (internal ''Failed to verify backup email'')) | None \<Rightarrow> do {
     rds (ignore (DeleteBackupEmailVerificationToken (te_redis T) appID token));
     ret None } } } }"

definition RemoveBackupEmail :: "twofa_env \<Rightarrow> string \<Rightarrow> (uworld, app_error option) state" where
  "RemoveBackupEmail T userID = do {
     err \<leftarrow> usr (ClearBackupEmail (te_users T) userID);
     ret (case err of Some e \<Rightarrow> Some (internal ''Failed to remove backup email'') | None \<Rightarrow> None) }"

definition EnableBackupEmail2FA :: "twofa_env \<Rightarrow> string \<Rightarrow> string \<Rightarrow> (uworld, app_error + string list) state" where
  "EnableBackupEmail2FA T appID userID = do {
     appErr \<leftarrow> checkTwoFAEnabled T appID;
     case appErr of Some e \<Rightarrow> ret (Inl e) | None \<Rightarrow> do {
     res \<leftarrow> usr (GetUserByID (te_users T) userID);
     case res of Inl e \<Rightarrow> ret (Inl (not_found ''User not found'')) | Inr u \<Rightarrow>
     if \<not> u_BackupEmailVerified u \<or> u_BackupEmail u = []
     then ret (Inl (bad_request ''Backup email must be verified before enabling backup email 2FA'')) else do {
     recoveryCodes \<leftarrow> generateRecoveryCodes T 8;
     err \<leftarrow> usr (SaveAndSwitchToBackupEmail2FA (te_users T) userID (u_TwoFAMethod u) (u_TwoFASecret u)
             (Marshal (te_hash T) recoveryCodes));
     case err of Some e \<Rightarrow> ret (Inl (internal ''Failed to enable backup email 2FA'')) | None \<Rightarrow> do {
     Dispatch (te_user T) appID ''2fa.enabled'' userID;
     ret (Inr recoveryCodes) } } } }"

definition GenerateBackupEmail2FACode :: "twofa_env \<Rightarrow> string \<Rightarrow> string \<Rightarrow> (uworld, app_error option) state" where
  "GenerateBackupEmail2FACode T appID userID = do {
     res \<leftarrow> usr (GetUserByID (te_users T) userID);
     case res of Inl e \<Rightarrow> ret (Some (not_found ''User not found'')) | Inr u \<Rightarrow>
     if \<not> u_BackupEmailVerified u \<or> u_BackupEmail u = []
     then ret (Some (bad_request ''No verified backup email on file'')) else do {
     code \<leftarrow> generate6DigitCode T;
     err \<leftarrow> rds (SetBackupEmail2FACode (te_redis T) appID userID code);
     case err of Some e \<Rightarrow> ret (Some (internal ''Failed to store backup email 2FA code'')) | None \<Rightarrow> do {
     err \<leftarrow> send_mail T appID (TwoFACodeEmail (u_BackupEmail u) code);
     ret (case err of Some e \<Rightarrow> Some (internal ''Failed to send backup email 2FA code'') | None \<Rightarrow> None) } } }"

definition ResendBackupEmail2FACode :: "twofa_env \<Rightarrow> string \<Rightarrow> string \<Rightarrow> (uworld, app_error option) state" where
  "ResendBackupEmail2FACode T appID userID = GenerateBackupEmail2FACode T appID userID"

section \<open>The phone number\<close>

definition AddPhone :: "twofa_env \<Rightarrow> string \<Rightarrow> string \<Rightarrow> string \<Rightarrow> (uworld, app_error option) state" where
  "AddPhone T appID userID phoneNumber = (if \<not> has_sms (te_user T)
     then ret (Some (internal ''SMS service is not configured'')) else do {
     err \<leftarrow> usr (SetPhoneNumber (te_users T) userID phoneNumber);
     case err of Some e \<Rightarrow> ret (Some (internal ''Failed to save phone number'')) | None \<Rightarrow> do {
     code \<leftarrow> generate6DigitCode T;
     err \<leftarrow> rds (SetPhoneVerificationCode (te_redis T) appID userID code (10 * minute));
     case err of Some e \<Rightarrow> ret (Some (internal ''Failed to store phone verification code'')) | None \<Rightarrow> do {
     err \<leftarrow> send (te_user T) appID (SMS phoneNumber (''Your phone verification code is: '' @ code @ ''  (expires in 10 minutes)''));
     ret (case err of Some e \<Rightarrow> Some (internal ''Failed to send phone verification SMS'') | None \<Rightarrow> None) } } })"

definition VerifyPhone :: "twofa_env \<Rightarrow> string \<Rightarrow> string \<Rightarrow> string \<Rightarrow> (uworld, app_error option) state" where
  "VerifyPhone T appID userID code = do {
     res \<leftarrow> rds (GetPhoneVerificationCode (te_redis T) appID userID);
     case res of Inl e \<Rightarrow> ret (Some (unauthorized ''Invalid or expired verification code'')) | Inr stored \<Rightarrow>
     if stored = [] then ret (Some (unauthorized ''Invalid or expired verification code'')) else
     if stored \<noteq> code then ret (Some (unauthorized ''Invalid verification code'')) else do {
     err \<leftarrow> usr (VerifyPhoneNumber (te_users T) userID);
     case err of Some e \<Rightarrow> ret (Some (internal ''Failed to verify phone number'')) | None \<Rightarrow> do {
     rds (ignore (DeletePhoneVerificationCode (te_redis T) appID userID));
     ret None } } }"

definition RemovePhone :: "twofa_env \<Rightarrow> string \<Rightarrow> (uworld, app_error option) state" where
  "RemovePhone T userID = do {
     err \<leftarrow> usr (ClearPhone (te_users T) userID);
     ret (case err of Some e \<Rightarrow> Some (internal ''Failed to remove phone number'') | None \<Rightarrow> None) }"

section \<open>\<open>trusted_device_repository.go\<close>\<close>

definition hashToken :: "twofa_env \<Rightarrow> string \<Rightarrow> string" where
  "hashToken T token = sha256 T token"

definition device_Create :: "TrustedDevice table_api \<Rightarrow> TrustedDevice \<Rightarrow> (TrustedDevice list, dberr option) state" where
  "device_Create D device = t_create D device"

text \<open>Nothing found is no error: \<open>nil, nil\<close>.\<close>

definition or_nil :: "dberr + 'row \<Rightarrow> dberr + 'row option" where
  "or_nil res = (case res of Inl NotFound \<Rightarrow> Inr None | Inl e \<Rightarrow> Inl e | Inr d \<Rightarrow> Inr (Some d))"

definition FindByTokenHash ::
    "TrustedDevice table_api \<Rightarrow> string \<Rightarrow> (TrustedDevice list, dberr + TrustedDevice option) state" where
  "FindByTokenHash D tokenHash = do { res \<leftarrow> t_first D (\<lambda>d. td_TokenHash d = tokenHash); ret (or_nil res) }"

definition FindByUserAndApp ::
    "TrustedDevice table_api \<Rightarrow> string \<Rightarrow> string \<Rightarrow> (uworld, dberr + TrustedDevice list) state" where
  "FindByUserAndApp D userID appID = do {
     now \<leftarrow> rds time_now;
     devs (t_find D (\<lambda>d. td_UserID d = userID \<and> td_AppID d = appID \<and> now < td_ExpiresAt d) (\<lambda>d. - td_LastUsedAt d)) }"

definition FindByID :: "TrustedDevice table_api \<Rightarrow> string \<Rightarrow> (TrustedDevice list, dberr + TrustedDevice option) state" where
  "FindByID D i = do { res \<leftarrow> t_first D (\<lambda>d. td_ID d = i); ret (or_nil res) }"

definition TouchLastUsed :: "TrustedDevice table_api \<Rightarrow> string \<Rightarrow> (uworld, dberr option) state" where
  "TouchLastUsed D i = do {
     now \<leftarrow> rds time_now;
     devs (t_update D (\<lambda>d. td_ID d = i) (\<lambda>d. d\<lparr>td_LastUsedAt := now\<rparr>)) }"

definition DeleteByID :: "TrustedDevice table_api \<Rightarrow> string \<Rightarrow> (TrustedDevice list, dberr option) state" where
  "DeleteByID D i = t_delete D (\<lambda>d. td_ID d = i)"

definition DeleteAllForUser :: "TrustedDevice table_api \<Rightarrow> string \<Rightarrow> string \<Rightarrow> (TrustedDevice list, dberr option) state" where
  "DeleteAllForUser D userID appID = t_delete D (\<lambda>d. td_UserID d = userID \<and> td_AppID d = appID)"

definition DeleteByUserAppAndUserAgent ::
    "TrustedDevice table_api \<Rightarrow> string \<Rightarrow> string \<Rightarrow> string \<Rightarrow> (TrustedDevice list, dberr option) state" where
  "DeleteByUserAppAndUserAgent D userID appID userAgent =
     t_delete D (\<lambda>d. td_UserID d = userID \<and> td_AppID d = appID \<and> td_UserAgent d = userAgent)"

definition DeleteExpired :: "TrustedDevice table_api \<Rightarrow> (uworld, dberr + nat) state" where
  "DeleteExpired D = do { now \<leftarrow> rds time_now; devs (t_purge D (\<lambda>d. td_ExpiresAt d < now)) }"

definition CountByUserAndApp :: "TrustedDevice table_api \<Rightarrow> string \<Rightarrow> string \<Rightarrow> (uworld, dberr + nat) state" where
  "CountByUserAndApp D userID appID = do {
     now \<leftarrow> rds time_now;
     devs (t_count D (\<lambda>d. td_UserID d = userID \<and> td_AppID d = appID \<and> now < td_ExpiresAt d)) }"

definition CountAllActive :: "TrustedDevice table_api \<Rightarrow> (uworld, dberr + nat) state" where
  "CountAllActive D = do { now \<leftarrow> rds time_now; devs (t_count D (\<lambda>d. now < td_ExpiresAt d)) }"

definition FindAllForUser :: "TrustedDevice table_api \<Rightarrow> string \<Rightarrow> (uworld, dberr + TrustedDevice list) state" where
  "FindAllForUser D userID = do {
     now \<leftarrow> rds time_now;
     devs (t_find D (\<lambda>d. td_UserID d = userID \<and> now < td_ExpiresAt d) (\<lambda>d. - td_LastUsedAt d)) }"

section \<open>Trusted devices\<close>

definition unconfigured :: app_error where
  "unconfigured = internal ''Trusted device feature is not configured''"

definition CreateTrustedDevice ::
    "twofa_env \<Rightarrow> string \<Rightarrow> string \<Rightarrow> string \<Rightarrow> string \<Rightarrow> string \<Rightarrow> int \<Rightarrow> (uworld, app_error + string) state" where
  "CreateTrustedDevice T appID userID name userAgent ipAddress maxDays0 = (if \<not> has_devices T then ret (Inl unconfigured) else do {
     let maxDays = (if maxDays0 \<le> 0 then 30 else maxDays0);
     err \<leftarrow> devs (DeleteByUserAppAndUserAgent (te_devices T) userID appID userAgent);
     case err of Some e \<Rightarrow> ret (Inl (internal ''Failed to deduplicate trusted device'')) | None \<Rightarrow> do {
     plainToken \<leftarrow> draw (te_device_token T);
     now \<leftarrow> rds time_now;
     newID \<leftarrow> new_uuid (te_user T);
     let device = \<lparr>td_ID = newID, td_UserID = userID, td_AppID = appID, td_TokenHash = hashToken T plainToken, td_Name = name,
           td_UserAgent = userAgent, td_IPAddress = ipAddress, td_LastUsedAt = now, td_ExpiresAt = now + wrap64 (wrap64 (maxDays * 24) * hour)\<rparr>;
     err \<leftarrow> devs (device_Create (te_devices T) device);
     ret (case err of Some e \<Rightarrow> Inl (internal ''Failed to create trusted device'') | None \<Rightarrow> Inr plainToken) } })"

definition ValidateTrustedDevice :: "twofa_env \<Rightarrow> string \<Rightarrow> (uworld, app_error + TrustedDevice) state" where
  "ValidateTrustedDevice T plainToken = (if \<not> has_devices T then ret (Inl unconfigured) else do {
     res \<leftarrow> devs (FindByTokenHash (te_devices T) (hashToken T plainToken));
     case res of Inl e \<Rightarrow> ret (Inl (internal ''Failed to look up trusted device''))
     | Inr None \<Rightarrow> ret (Inl (unauthorized ''Trusted device not found''))
     | Inr (Some device) \<Rightarrow> do {
         now \<leftarrow> rds time_now;
         (if td_ExpiresAt device < now then ret (Inl (unauthorized ''Trusted device token has expired'')) else do {
            err \<leftarrow> TouchLastUsed (te_devices T) (td_ID device);
            ret (Inr device) }) } })"

definition ListTrustedDevices :: "twofa_env \<Rightarrow> string \<Rightarrow> string \<Rightarrow> (uworld, app_error + TrustedDevice list) state" where
  "ListTrustedDevices T userID appID = (if \<not> has_devices T then ret (Inl unconfigured) else do {
     res \<leftarrow> FindByUserAndApp (te_devices T) userID appID;
     ret (case res of Inl e \<Rightarrow> Inl (internal ''Failed to list trusted devices'') | Inr devices \<Rightarrow> Inr devices) })"

definition RevokeTrustedDevice :: "twofa_env \<Rightarrow> string \<Rightarrow> string \<Rightarrow> (uworld, app_error option) state" where
  "RevokeTrustedDevice T deviceID userID = (if \<not> has_devices T then ret (Some unconfigured) else do {
     res \<leftarrow> devs (FindByID (te_devices T) deviceID);
     case res of Inl e \<Rightarrow> ret (Some (internal ''Failed to look up trusted device''))
     | Inr None \<Rightarrow> ret (Some (not_found ''Trusted device not found''))
     | Inr (Some device) \<Rightarrow>
         if td_UserID device \<noteq> userID then ret (Some (forbidden (''Cannot revoke another user'' @ [CHR 0x27] @ ''s trusted device''))) else do {
         err \<leftarrow> devs (DeleteByID (te_devices T) deviceID);
         ret (case err of Some e \<Rightarrow> Some (internal ''Failed to revoke trusted device'') | None \<Rightarrow> None) } })"

definition RevokeAllTrustedDevices :: "twofa_env \<Rightarrow> string \<Rightarrow> string \<Rightarrow> (uworld, app_error option) state" where
  "RevokeAllTrustedDevices T userID appID = (if \<not> has_devices T then ret (Some unconfigured) else do {
     err \<leftarrow> devs (DeleteAllForUser (te_devices T) userID appID);
     ret (case err of Some e \<Rightarrow> Some (internal ''Failed to revoke all trusted devices'') | None \<Rightarrow> None) })"

definition IsTrustedDeviceEnabled :: "twofa_env \<Rightarrow> string \<Rightarrow> (uworld, bool \<times> int) state" where
  "IsTrustedDeviceEnabled T appID = do {
     app \<leftarrow> load_app (te_user T) appID;
     ret (case app of None \<Rightarrow> (False, 30)
          | Some a \<Rightarrow> (a_TrustedDeviceEnabled a, if a_TrustedDeviceMaxDays a \<le> 0 then 30 else a_TrustedDeviceMaxDays a)) }"

end
