(* ===== verification/Http.thy ===== *)
theory Http
  imports SessionService
begin

text \<open>
  What the HTTP handlers share: \<open>internal/util/client_info.go\<close>, replies, and the guards on the
  context keys that \<open>AppIDMiddleware\<close> and \<open>AuthMiddleware\<close> set.  A request body is given as what
  \<open>ShouldBindJSON\<close> and the validator make of it: an error text or the bound struct.
\<close>

section \<open>The client\<close>

text \<open>\<open>net.SplitHostPort\<close>, the host only: a port must follow the last colon, outside of brackets.\<close>

definition last_colon :: "string \<Rightarrow> nat option" where
  "last_colon s = (if CHR '':'' \<in> set s then Some (length s - 1 - length (takeWhile (\<lambda>c. c \<noteq> CHR '':'') (rev s))) else None)"

definition SplitHost :: "string \<Rightarrow> string option" where
  "SplitHost s = (case last_colon s of None \<Rightarrow> None | Some i \<Rightarrow>
     if HasPrefix s ''['' then
       (if CHR '']'' \<notin> set s then None else
        let end = length (takeWhile (\<lambda>c. c \<noteq> CHR '']'') s) in
        if end + 1 \<noteq> i then None
        else if CHR ''['' \<in> set (drop 1 s) \<or> CHR '']'' \<in> set (drop (end + 1) s) then None
        else Some (take (end - 1) (drop 1 s)))
     else let host = take i s in
       if CHR '':'' \<in> set host then None
       else if CHR ''['' \<in> set s \<or> CHR '']'' \<in> set s then None else Some host)"

definition usable_ip :: "string \<Rightarrow> bool" where
  "usable_ip ip \<longleftrightarrow> ip \<noteq> [] \<and> ip \<noteq> ''unknown''"

definition GetClientIP :: "http_ctx \<Rightarrow> string" where
  "GetClientIP c =
     (let forwarded = GetHeader c ''X-Forwarded-For'';
          ip = TrimSpace (hd (Split forwarded (CHR '','')));
          realIP = GetHeader c ''X-Real-IP'';
          cfIP = GetHeader c ''CF-Connecting-IP''
      in if forwarded \<noteq> [] \<and> usable_ip ip then ip
      else if usable_ip realIP then realIP
      else if usable_ip cfIP then cfIP
      else case SplitHost (RemoteAddr c) of None \<Rightarrow> RemoteAddr c | Some ip \<Rightarrow> ip)"

definition GetUserAgent :: "http_ctx \<Rightarrow> string" where
  "GetUserAgent c = (if GetHeader c ''User-Agent'' = [] then ''Unknown'' else GetHeader c ''User-Agent'')"

definition GetClientInfo :: "http_ctx \<Rightarrow> string \<times> string" where
  "GetClientInfo c = (GetClientIP c, GetUserAgent c)"

lemma SplitHost_examples:
  "SplitHost ''10.0.0.1:4711'' = Some ''10.0.0.1''" "SplitHost ''[::1]:80'' = Some ''::1''"
  "SplitHost ''::1'' = None" "SplitHost ''[::1]'' = None" "SplitHost ''host'' = None"
  by code_simp+

section \<open>Replies\<close>

datatype 'a reply = RError int string | RJson int 'a | RPanic string

text \<open>\<open>appIDVal.(uuid.UUID)\<close> and \<open>userID.(string)\<close>: the type assertions panic on anything else.\<close>

definition with_app_id :: "http_ctx \<Rightarrow> (string \<Rightarrow> ('s, 'a reply) state) \<Rightarrow> ('s, 'a reply) state" where
  "with_app_id c body = (case ctx_keys c ''app_id'' of
       None \<Rightarrow> ret (RError 500 ''App ID missing from context'')
     | Some v \<Rightarrow> (case v of CUuid a \<Rightarrow> body a | _ \<Rightarrow> ret (RPanic ''interface conversion'')))"

definition with_user_id :: "http_ctx \<Rightarrow> (ctx_val \<Rightarrow> ('s, 'a reply) state) \<Rightarrow> ('s, 'a reply) state" where
  "with_user_id c body = (case ctx_keys c ''userID'' of
       None \<Rightarrow> ret (RError 500 ''User ID not found in context'') | Some v \<Rightarrow> body v)"

definition assert_string :: "ctx_val \<Rightarrow> (string \<Rightarrow> ('s, 'a reply) state) \<Rightarrow> ('s, 'a reply) state" where
  "assert_string v body = (case as_string v of Some s \<Rightarrow> body s | None \<Rightarrow> ret (RPanic ''interface conversion''))"

definition with_body :: "string + 'req \<Rightarrow> ('req \<Rightarrow> ('s, 'a reply) state) \<Rightarrow> ('s, 'a reply) state" where
  "with_body body f = (case body of Inl e \<Rightarrow> ret (RError 400 e) | Inr req \<Rightarrow> f req)"

definition answer :: "app_error option \<Rightarrow> 'a reply \<Rightarrow> 'a reply" where
  "answer err ok = (case err of Some e \<Rightarrow> RError (Code e) (Message e) | None \<Rightarrow> ok)"

lemmas http_defs = with_app_id_def with_user_id_def assert_string_def with_body_def

text \<open>The four guards in the calculus: either an early reply, which leaves the state, or the body.\<close>

lemma wp_with_app_id [wp_intro]:
  "(\<And>n e. Q (RError n e) s) \<Longrightarrow> (\<And>e. Q (RPanic e) s) \<Longrightarrow>
   (\<And>a. ctx_keys c ''app_id'' = Some (CUuid a) \<Longrightarrow> wp (f a) Q s) \<Longrightarrow> wp (with_app_id c f) Q s"
  by (simp add: with_app_id_def wp_return split: option.split ctx_val.split)

lemma wp_with_user_id [wp_intro]:
  "(\<And>n e. Q (RError n e) s) \<Longrightarrow> (\<And>v. ctx_keys c ''userID'' = Some v \<Longrightarrow> wp (f v) Q s) \<Longrightarrow> wp (with_user_id c f) Q s"
  by (simp add: with_user_id_def wp_return split: option.split)

lemma wp_assert_string [wp_intro]:
  "(\<And>e. Q (RPanic e) s) \<Longrightarrow> (\<And>t. v = CStr t \<Longrightarrow> wp (f t) Q s) \<Longrightarrow> wp (assert_string v f) Q s"
  by (cases v) (simp_all add: assert_string_def as_string_def wp_return)

lemma wp_with_body [wp_intro]:
  "(\<And>n e. Q (RError n e) s) \<Longrightarrow> (\<And>req. body = Inr req \<Longrightarrow> wp (f req) Q s) \<Longrightarrow> wp (with_body body f) Q s"
  by (cases body) (simp_all add: with_body_def wp_return)

end
