(* ===== verification/UserHandler.thy ===== *)
theory UserHandler
  imports TwoFAService BruteForce Http
begin

text \<open>
  \<open>internal/user/handler.go\<close>: the handlers of registration, login, tokens, passwords and profiles
  between the middleware and the services.  Activity logs, metrics and the notification mails of
  the anomaly detector are left out; its failed-login counter is kept.
\<close>

text \<open>
  Nil fields are options or flags.  \<open>he_ip_rules w a ip\<close> is the verdict of the IP rules,
  \<open>he_siteverify\<close> the CAPTCHA service, \<open>he_conv\<close> the float conversion of the delays,
  \<open>he_brute_window\<close> the configured window of the anomaly detector, \<open>None\<close> when it is disabled.
\<close>

record handler_env =
  he_twofa :: twofa_env
  he_ip_rules :: "(uworld \<Rightarrow> string \<Rightarrow> string \<Rightarrow> bool) option"
  has_bruteforce :: bool
  has_anomaly :: bool
  he_brute_window :: "duration option"
  has_device_check :: bool
  he_parse_duration :: "string \<Rightarrow> duration option"
  he_siteverify :: "string \<Rightarrow> string \<Rightarrow> string \<Rightarrow> string + bool"
  he_conv :: "int \<Rightarrow> int"

abbreviation he_user :: "handler_env \<Rightarrow> user_env" where "he_user H \<equiv> te_user (he_twofa H)"
abbreviation he_redis :: "handler_env \<Rightarrow> redis_api" where "he_redis H \<equiv> ue_redis (he_user H)"
abbreviation he_users :: "handler_env \<Rightarrow> User table_api" where "he_users H \<equiv> ue_users (he_user H)"

definition checkIPAccess :: "handler_env \<Rightarrow> string \<Rightarrow> string \<Rightarrow> (uworld, bool) state" where
  "checkIPAccess H appID ipAddress = (case he_ip_rules H of
       None \<Rightarrow> ret True
     | Some allowed \<Rightarrow> do { w \<leftarrow> State_Monad.get; ret (allowed w appID ipAddress) })"

section \<open>Login\<close>

text \<open>Whether the account was locked and until when; a panic of the lockout passes through.\<close>

definition handler_handleFailedLogin ::
    "handler_env \<Rightarrow> string \<Rightarrow> string \<Rightarrow> string \<Rightarrow> BruteForceConfig \<Rightarrow> (uworld, (bool \<times> instant option) outcome) state" where
  "handler_handleFailedLogin H appID email ipAddress bfCfg = do {
     locked \<leftarrow> (if has_bruteforce H then do {
         res \<leftarrow> HandleFailedLogin (he_redis H) (he_users H) appID email bfCfg;
         case res of Panicked m \<Rightarrow> ret (Panicked m)
         | Returned r \<Rightarrow> do {
             rds (IncrementDelayTier (he_redis H) appID email ipAddress bfCfg);
             ret (Returned (wasLocked r, lockExpiresAt r)) } }
       else ret (Returned (False, None)));
     (case he_brute_window H of
        Some window \<Rightarrow> (if has_anomaly H \<and> \<not> has_bruteforce H
          then do { res \<leftarrow> rds (IncrFailedLogin (he_redis H) appID email window); ret () } else ret ())
      | None \<Rightarrow> ret ());
     ret locked }"

record LoginRequest =
  lq_Email :: string
  lq_Password :: string
  CaptchaToken :: string

datatype login_body =
    LTokens string string
  | LPasswordExpired
  | LTwoFA string string
  | LTwoFASetup string string
  | LCaptcha string string int
  | LLocked instant int
  | LFailed string int

text \<open>The delay reported to the client; an error reads as zero.\<close>

definition advisory_delay :: "handler_env \<Rightarrow> string \<Rightarrow> string \<Rightarrow> string \<Rightarrow> BruteForceConfig \<Rightarrow> (uworld, int) state" where
  "advisory_delay H appID email ipAddress bfCfg = do {
     res \<leftarrow> rds (GetDelay (he_redis H) (he_conv H) appID email ipAddress bfCfg);
     ret (case res of Inl e \<Rightarrow> 0 | Inr d \<Rightarrow> d) }"

definition resolve_bf :: "handler_env \<Rightarrow> string \<Rightarrow> (uworld, BruteForceConfig option) state" where
  "resolve_bf H appID = (if has_bruteforce H then do {
     app \<leftarrow> load_app (he_user H) appID;
     ret (Some (ResolveConfig (he_parse_duration H) app)) } else ret None)"

definition captcha_gate ::
    "handler_env \<Rightarrow> string \<Rightarrow> LoginRequest \<Rightarrow> string \<Rightarrow> BruteForceConfig \<Rightarrow> (uworld, login_body reply option) state" where
  "captcha_gate H appID req ipAddress bfCfg = do {
     required \<leftarrow> rds (IsCaptchaRequired (he_redis H) appID (lq_Email req) bfCfg);
     if required = Inr True then do {
       delay \<leftarrow> advisory_delay H appID (lq_Email req) ipAddress bfCfg;
       ret (if CaptchaToken req = []
            then Some (RJson 403 (LCaptcha ''CAPTCHA verification required'' (CaptchaSiteKey bfCfg) delay))
            else (case VerifyCaptcha (he_siteverify H) (CaptchaToken req) ipAddress bfCfg of
                Some e \<Rightarrow> Some (RJson 403 (LCaptcha ''CAPTCHA verification failed'' (CaptchaSiteKey bfCfg) delay))
              | None \<Rightarrow> None)) }
     else ret None }"

definition failed_login ::
    "handler_env \<Rightarrow> string \<Rightarrow> string \<Rightarrow> string \<Rightarrow> BruteForceConfig option \<Rightarrow> app_error \<Rightarrow> (uworld, login_body reply) state" where
  "failed_login H appID email ipAddress bfCfg err =
     (if Code err \<noteq> 401 then ret (RError (Code err) (Message err)) else do {
       res \<leftarrow> handler_handleFailedLogin H appID email ipAddress (case bfCfg of Some cfg \<Rightarrow> cfg | None \<Rightarrow> default_bf_config);
       case res of Panicked m \<Rightarrow> ret (RPanic m)
       | Returned (locked, expires) \<Rightarrow> (case (locked, expires) of
           (True, Some x) \<Rightarrow> do {
             now \<leftarrow> rds time_now;
             ret (RJson 423 (LLocked x (max 0 ((x - now) div second)))) }
         | _ \<Rightarrow> (case bfCfg of
             Some cfg \<Rightarrow> do {
               delay \<leftarrow> advisory_delay H appID email ipAddress cfg;
               ret (if 0 < delay then RJson (Code err) (LFailed (Message err) delay)
                    else RError (Code err) (Message err)) }
           | None \<Rightarrow> ret (RError (Code err) (Message err)))) })"

text \<open>
  The cookie of a trusted device, checked as \<open>cmd/api/main.go\<close> wires it, lets a login of that user
  in that application pass without the second factor.
\<close>

definition device_login ::
    "handler_env \<Rightarrow> http_ctx \<Rightarrow> string \<Rightarrow> LoginResult \<Rightarrow> string \<Rightarrow> string \<Rightarrow> (uworld, (string \<times> string) option) state" where
  "device_login H c appID res ip ua =
     (if RequiresTwoFA res \<and> has_device_check H then (case Cookie c ''trusted_device'' of
        Some token \<Rightarrow> (if token = [] then ret None else do {
          dev \<leftarrow> ValidateTrustedDevice (he_twofa H) token;
          case dev of Inl e \<Rightarrow> ret None
          | Inr d \<Rightarrow> (if td_UserID d = lr_UserID res \<and> td_AppID d = appID then do {
              s \<leftarrow> CreateSessionForUser (he_user H) appID (lr_UserID res) ip ua;
              ret (case s of Inl e \<Rightarrow> None | Inr tokens \<Rightarrow> Some tokens) }
            else ret None) })
      | None \<Rightarrow> ret None)
      else ret None)"

definition Login :: "handler_env \<Rightarrow> string + LoginRequest \<Rightarrow> http_ctx \<Rightarrow> (uworld, login_body reply) state" where
  "Login H body c = with_body body (\<lambda>req. with_app_id c (\<lambda>appID. do {
     let (ip, ua) = GetClientInfo c;
     allowed \<leftarrow> checkIPAccess H appID ip;
     if \<not> allowed then ret (RError 403 ''Access denied from your location'') else do {
     bfCfg \<leftarrow> resolve_bf H appID;
     gate \<leftarrow> (case bfCfg of Some cfg \<Rightarrow> captcha_gate H appID req ip cfg | None \<Rightarrow> ret None);
     case gate of Some r \<Rightarrow> ret r | None \<Rightarrow> do {
     res \<leftarrow> LoginUser (he_user H) appID (lq_Email req) (lq_Password req) ip ua;
     case res of Inl err \<Rightarrow> failed_login H appID (lq_Email req) ip bfCfg err | Inr res \<Rightarrow> do {
     (if has_anomaly H then rds (ignore (ResetFailedLogins (he_redis H) appID (lq_Email req))) else ret ());
     (if has_bruteforce H then rds (ResetOnSuccess (he_redis H) appID (lq_Email req) ip) else ret ());
     if PasswordExpired res then ret (RJson 200 LPasswordExpired) else do {
     tokens \<leftarrow> device_login H c appID res ip ua;
     ret (case tokens of Some (at, rt) \<Rightarrow> RJson 200 (LTokens at rt)
        | None \<Rightarrow> if RequiresTwoFA res then RJson 202 (LTwoFA (TempToken res) (TwoFAMethod res))
                  else if RequiresTwoFASetup res then RJson 202 (LTwoFASetup (AccessToken res) (RefreshToken res))
                  else RJson 200 (LTokens (AccessToken res) (RefreshToken res))) } } } } }))"

section \<open>Registration, tokens and links\<close>

definition Register :: "handler_env \<Rightarrow> string + (string \<times> string) \<Rightarrow> http_ctx \<Rightarrow> (uworld, string reply) state" where
  "Register H body c = with_body body (\<lambda>(email, password). with_app_id c (\<lambda>appID. do {
     res \<leftarrow> RegisterUser (he_user H) appID email password;
     ret (case res of Inl err \<Rightarrow> RError (Code err) (Message err)
        | Inr userID \<Rightarrow> RJson 201 ''User registered successfully. Please check your email for verification.'') }))"

definition RefreshTokenHandler :: "handler_env \<Rightarrow> string + string \<Rightarrow> (uworld, (string \<times> string) reply) state" where
  "RefreshTokenHandler H body = with_body body (\<lambda>refreshToken. do {
     claims \<leftarrow> rds (ParseToken (ue_jwt (he_user H)) refreshToken);
     app \<leftarrow> (case claims of Inr cl \<Rightarrow> (if AppID cl \<noteq> [] then load_app (he_user H) (AppID cl) else ret None) | Inl e \<Rightarrow> ret None);
     let (accessTTL, refreshTTL) = ResolveTokenTTLs app;
     res \<leftarrow> RefreshUserToken (he_user H) refreshToken accessTTL refreshTTL;
     ret (case res of Inl err \<Rightarrow> RError (Code err) (Message err)
        | Inr (newAccess, newRefresh, userID) \<Rightarrow> RJson 200 (newAccess, newRefresh)) })"

definition ForgotPassword :: "handler_env \<Rightarrow> string + string \<Rightarrow> http_ctx \<Rightarrow> (uworld, string reply) state" where
  "ForgotPassword H body c = with_body body (\<lambda>email. with_app_id c (\<lambda>appID. do {
     err \<leftarrow> RequestPasswordReset (he_user H) appID email;
     ret (answer err (RJson 200 ''If an account with that email exists, a password reset link has been sent.'')) }))"

definition ResetPassword :: "handler_env \<Rightarrow> string + (string \<times> string) \<Rightarrow> http_ctx \<Rightarrow> (uworld, string reply) state" where
  "ResetPassword H body c = with_body body (\<lambda>(token, newPassword). with_app_id c (\<lambda>appID. do {
     res \<leftarrow> ConfirmPasswordReset (he_user H) appID token newPassword;
     ret (case res of Inl err \<Rightarrow> RError (Code err) (Message err)
        | Inr userID \<Rightarrow> RJson 200 ''Password has been reset successfully.'') }))"

definition VerifyEmailHandler :: "handler_env \<Rightarrow> http_ctx \<Rightarrow> (uworld, string reply) state" where
  "VerifyEmailHandler H c = (let token = Query c ''token'' in
     if token = [] then ret (RError 400 ''Verification token is missing'') else with_app_id c (\<lambda>appID. do {
     res \<leftarrow> VerifyEmail (he_user H) appID token;
     ret (case res of Inl err \<Rightarrow> RError (Code err) (Message err)
        | Inr userID \<Rightarrow> RJson 200 ''Email verified successfully!'') }))"

definition ResendVerification :: "handler_env \<Rightarrow> string + string \<Rightarrow> http_ctx \<Rightarrow> (uworld, string reply) state" where
  "ResendVerification H body c = with_body body (\<lambda>email. with_app_id c (\<lambda>appID. do {
     err \<leftarrow> ResendVerificationEmail (he_user H) appID email;
     ret (answer err (RJson 200
       ''If an account with that email exists and is not yet verified, a verification email has been sent.'')) }))"

definition RequestMagicLinkHandler :: "handler_env \<Rightarrow> string + string \<Rightarrow> http_ctx \<Rightarrow> (uworld, string reply) state" where
  "RequestMagicLinkHandler H body c = with_body body (\<lambda>email. with_app_id c (\<lambda>appID. do {
     err \<leftarrow> RequestMagicLink (he_user H) appID email;
     ret (answer err (RJson 200 ''If an account exists with that email, a magic link has been sent.'')) }))"

text \<open>The application named in the body takes the place of the one of the header.\<close>

definition VerifyMagicLinkHandler ::
    "handler_env \<Rightarrow> string + (string \<times> string) \<Rightarrow> http_ctx \<Rightarrow> (uworld, (string \<times> string) reply) state" where
  "VerifyMagicLinkHandler H body c = with_body body (\<lambda>(token, reqApp). with_app_id c (\<lambda>headerApp. do {
     let appID = (if reqApp \<noteq> [] then (case parse_uuid (he_user H) reqApp of Some a \<Rightarrow> a | None \<Rightarrow> headerApp) else headerApp);
     let (ip, ua) = GetClientInfo c;
     allowed \<leftarrow> checkIPAccess H appID ip;
     if \<not> allowed then ret (RError 403 ''Access denied from your location'') else do {
     res \<leftarrow> VerifyMagicLink (he_user H) appID token ip ua;
     case res of Inl err \<Rightarrow> ret (RError (Code err) (Message err))
     | Inr r \<Rightarrow> do {
         Dispatch (he_user H) appID ''user.login'' (lr_UserID r);
         ret (RJson 200 (AccessToken r, RefreshToken r)) } } }))"

section \<open>The user that is logged in\<close>

record UserResponse =
  ur_ID :: string
  ur_Email :: string
  ur_EmailVerified :: bool
  ur_TwoFAEnabled :: bool
  ur_TwoFAMethod :: string
  HasPassword :: bool
  ur_Roles :: "string list"

definition context_roles :: "http_ctx \<Rightarrow> string list" where
  "context_roles c = (case ctx_keys c ''roles'' of Some (CStrs r) \<Rightarrow> r | _ \<Rightarrow> [])"

definition user_response :: "http_ctx \<Rightarrow> User \<Rightarrow> UserResponse" where
  "user_response c user = \<lparr>ur_ID = u_ID user, ur_Email = u_Email user, ur_EmailVerified = u_EmailVerified user,
     ur_TwoFAEnabled = u_TwoFAEnabled user, ur_TwoFAMethod = u_TwoFAMethod user,
     HasPassword = (u_PasswordHash user \<noteq> []), ur_Roles = context_roles c\<rparr>"

definition GetProfile :: "handler_env \<Rightarrow> http_ctx \<Rightarrow> (uworld, UserResponse reply) state" where
  "GetProfile H c = with_user_id c (\<lambda>u. assert_string u (\<lambda>userID. do {
     res \<leftarrow> usr (GetUserByID (he_users H) userID);
     case res of Inl e \<Rightarrow> ret (RError 404 ''User not found'')
     | Inr user \<Rightarrow> (case ctx_keys c ''app_id'' of
           Some (CUuid a) \<Rightarrow> ret (RJson 200 (user_response c user))
         | Some v \<Rightarrow> ret (RPanic ''interface conversion'')
         | None \<Rightarrow> ret (RJson 200 (user_response c user))) }))"

text \<open>The session of the context is read as a string; without one the id is empty.\<close>

definition context_session :: "http_ctx \<Rightarrow> string option" where
  "context_session c = (case ctx_keys c ''sessionID'' of None \<Rightarrow> Some [] | Some v \<Rightarrow> as_string v)"

definition Logout :: "handler_env \<Rightarrow> string + (string \<times> string) \<Rightarrow> http_ctx \<Rightarrow> (uworld, string reply) state" where
  "Logout H body c = with_user_id c (\<lambda>u. with_body body (\<lambda>(refreshToken, accessToken). with_app_id c (\<lambda>appID.
     case context_session c of None \<Rightarrow> ret (RPanic ''interface conversion'')
     | Some sessionID \<Rightarrow> assert_string u (\<lambda>userID. do {
     res \<leftarrow> LogoutUser (he_user H) appID userID sessionID refreshToken accessToken;
     ret (case res of Panicked m \<Rightarrow> RPanic m
        | Returned err \<Rightarrow> answer err (RJson 200 ''Successfully logged out'')) }))))"

definition ValidateToken :: "handler_env \<Rightarrow> http_ctx \<Rightarrow> (uworld, (string \<times> string) reply) state" where
  "ValidateToken H c = with_user_id c (\<lambda>u. assert_string u (\<lambda>userID. do {
     res \<leftarrow> usr (GetUserByID (he_users H) userID);
     ret (case res of Inl e \<Rightarrow> RError 401 ''User not found'' | Inr user \<Rightarrow> RJson 200 (u_ID user, u_Email user)) }))"

definition UpdateEmail :: "handler_env \<Rightarrow> string + UpdateEmailRequest \<Rightarrow> http_ctx \<Rightarrow> (uworld, string reply) state" where
  "UpdateEmail H body c = with_user_id c (\<lambda>u. with_body body (\<lambda>req. with_app_id c (\<lambda>appID. assert_string u (\<lambda>userID. do {
     err \<leftarrow> UpdateUserEmail (he_user H) appID userID req;
     ret (answer err (RJson 200 ''Email updated successfully. Please check your new email for verification.'')) }))))"

definition UpdatePassword :: "handler_env \<Rightarrow> string + UpdatePasswordRequest \<Rightarrow> http_ctx \<Rightarrow> (uworld, string reply) state" where
  "UpdatePassword H body c = with_user_id c (\<lambda>u. with_body body (\<lambda>req. with_app_id c (\<lambda>appID. assert_string u (\<lambda>userID. do {
     err \<leftarrow> UpdateUserPassword (he_user H) appID userID req;
     ret (answer err (RJson 200 ''Password updated successfully. All sessions have been logged out for security.'')) }))))"

definition DeleteAccount :: "handler_env \<Rightarrow> string + DeleteAccountRequest \<Rightarrow> http_ctx \<Rightarrow> (uworld, string reply) state" where
  "DeleteAccount H body c = with_user_id c (\<lambda>u. with_body body (\<lambda>req. assert_string u (\<lambda>userID. with_app_id c (\<lambda>appID. do {
     err \<leftarrow> DeleteUserAccount (he_user H) appID userID req;
     ret (answer err (RJson 200 (''Account deleted successfully. We'' @ [CHR 0x27] @ ''re sorry to see you go.''))) }))))"

definition SetPassword :: "handler_env \<Rightarrow> string + string \<Rightarrow> http_ctx \<Rightarrow> (uworld, string reply) state" where
  "SetPassword H body c = with_user_id c (\<lambda>u. with_app_id c (\<lambda>appID. with_body body (\<lambda>newPassword. assert_string u (\<lambda>userID. do {
     err \<leftarrow> SetInitialPassword (he_user H) appID userID newPassword;
     ret (answer err (RJson 200 ''Password set successfully.'')) }))))"

definition UpdateProfile :: "handler_env \<Rightarrow> string + UpdateProfileRequest \<Rightarrow> http_ctx \<Rightarrow> (uworld, UserResponse reply) state" where
  "UpdateProfile H body c = with_user_id c (\<lambda>u. with_body body (\<lambda>req. assert_string u (\<lambda>userID. do {
     err \<leftarrow> UpdateUserProfile (he_user H) userID req;
     case err of Some e \<Rightarrow> ret (RError (Code e) (Message e)) | None \<Rightarrow> do {
     res \<leftarrow> usr (GetUserByID (he_users H) userID);
     ret (case res of Inl e \<Rightarrow> RError 404 ''User not found''
        | Inr user \<Rightarrow> (case ctx_keys c ''app_id'' of
            Some (CUuid a) \<Rightarrow> RJson 200 ((user_response c user)\<lparr>ur_TwoFAMethod := []\<rparr>)
          | Some v \<Rightarrow> RPanic ''interface conversion''
          | None \<Rightarrow> RJson 200 ((user_response c user)\<lparr>ur_TwoFAMethod := []\<rparr>))) } })))"

end
