(* ===== verification/TwoFAHandler.thy ===== *)
theory TwoFAHandler
  imports UserHandler
begin

text \<open>
  \<open>internal/twofa/handler.go\<close>: the second step of a login, and the handlers that set up, switch and
  remove second factors.  Activity logs, metrics and anomaly notifications are left out.
\<close>

section \<open>The second step of a login\<close>

definition getUserIDFromTempSession :: "handler_env \<Rightarrow> string \<Rightarrow> string \<Rightarrow> (redis, rerr + string) state" where
  "getUserIDFromTempSession H appID tempToken = GetTempUserSession (he_redis H) appID tempToken"

definition clearTempSession :: "handler_env \<Rightarrow> string \<Rightarrow> string \<Rightarrow> (redis, unit) state" where
  "clearTempSession H appID tempToken = ignore (DeleteTempUserSession (he_redis H) appID tempToken)"

definition generateTokensForUser ::
    "handler_env \<Rightarrow> string \<Rightarrow> string \<Rightarrow> string list \<Rightarrow> duration \<Rightarrow> duration \<Rightarrow> (redis, (string \<times> string) option) state" where
  "generateTokensForUser H appID userID roles accessTTL refreshTTL = do {
     res \<leftarrow> GenerateAccessToken (ue_jwt (he_user H)) appID userID [] roles accessTTL;
     case res of Inl e \<Rightarrow> ret None | Inr accessToken \<Rightarrow> do {
     res \<leftarrow> GenerateRefreshToken (ue_jwt (he_user H)) appID userID [] roles refreshTTL;
     case res of Inl e \<Rightarrow> ret None | Inr refreshToken \<Rightarrow> do {
     err \<leftarrow> SetRefreshToken (he_redis H) (je_refresh_hours (ue_jwt (he_user H))) appID userID refreshToken;
     ret (case err of Some e \<Rightarrow> None | None \<Rightarrow> Some (accessToken, refreshToken)) } } }"

definition createSessionOrTokens ::
    "handler_env \<Rightarrow> string \<Rightarrow> string \<Rightarrow> string \<Rightarrow> string \<Rightarrow> string list \<Rightarrow> (uworld, (string \<times> string) option) state" where
  "createSessionOrTokens H appID userID ip userAgent roles = do {
     app \<leftarrow> load_app (he_user H) appID;
     let (accessTTL, refreshTTL) = ResolveTokenTTLs app;
     (if has_sessions (he_user H) then do {
        res \<leftarrow> svc_CreateSession (he_redis H) (ue_jwt (he_user H)) (ue_uuid (he_user H)) appID userID ip userAgent roles accessTTL refreshTTL;
        ret (case res of Inl e \<Rightarrow> None | Inr (at, rt, sid) \<Rightarrow> Some (at, rt)) }
      else rds (generateTokensForUser H appID userID roles accessTTL refreshTTL)) }"

record TwoFALoginRequest =
  tq_TempToken :: string
  tq_Code :: string
  tq_RecoveryCode :: string
  RememberDevice :: bool
  DeviceName :: string

text \<open>
  The code is checked against the method of the user; a recovery code has precedence.  Passkeys
  have their own endpoints.
\<close>

definition verify_second_factor ::
    "handler_env \<Rightarrow> string \<Rightarrow> string \<Rightarrow> TwoFALoginRequest \<Rightarrow> (uworld, app_error option) state" where
  "verify_second_factor H appID userID req =
     (let T = he_twofa H in
      if tq_RecoveryCode req \<noteq> [] then VerifyRecoveryCode T userID (tq_RecoveryCode req)
      else if tq_Code req \<noteq> [] then do {
        res \<leftarrow> GetUserTwoFAMethod T userID;
        case res of Inl e \<Rightarrow> ret (Some e) | Inr userMethod \<Rightarrow>
        if userMethod = TwoFAMethodPasskey
        then ret (Some (bad_request ''Passkey 2FA requires the /2fa/passkey/begin and /2fa/passkey/finish endpoints''))
        else if userMethod = TwoFAMethodEmail then rds (VerifyEmail2FACode T appID userID (tq_Code req))
        else if userMethod = TwoFAMethodSMS then rds (VerifySMS2FACode T appID userID (tq_Code req))
        else if userMethod = TwoFAMethodBackupEmail then rds (VerifyBackupEmail2FACode T appID userID (tq_Code req))
        else VerifyTOTP T userID (tq_Code req) }
      else ret (Some (bad_request ''Either code or recovery code is required'')))"

definition remember_device ::
    "handler_env \<Rightarrow> string \<Rightarrow> string \<Rightarrow> TwoFALoginRequest \<Rightarrow> string \<Rightarrow> string \<Rightarrow> (uworld, string option) state" where
  "remember_device H appID userID req userAgent ipAddress =
     (if RememberDevice req \<and> has_devices (he_twofa H) then do {
        (enabled, maxDays) \<leftarrow> IsTrustedDeviceEnabled (he_twofa H) appID;
        (if enabled then (case parse_uuid (he_user H) userID of
             None \<Rightarrow> ret None
           | Some userUUID \<Rightarrow> do {
               let deviceName = (if DeviceName req = [] then ''Unknown Device'' else DeviceName req);
               res \<leftarrow> CreateTrustedDevice (he_twofa H) appID userUUID deviceName userAgent ipAddress maxDays;
               ret (case res of Inl e \<Rightarrow> None | Inr plainToken \<Rightarrow> Some plainToken) })
         else ret None) }
      else ret None)"

text \<open>The reply is the token pair and the cookie of the device, if one was set.\<close>

definition VerifyLogin ::
    "handler_env \<Rightarrow> string + TwoFALoginRequest \<Rightarrow> http_ctx \<Rightarrow> (uworld, (string \<times> string \<times> string option) reply) state" where
  "VerifyLogin H body c = with_body body (\<lambda>req. with_app_id c (\<lambda>appID. do {
     let (ip, ua) = GetClientInfo c;
     allowed \<leftarrow> checkIPAccess H appID ip;
     if \<not> allowed then ret (RError 403 ''Access denied from your location'') else do {
     res \<leftarrow> rds (getUserIDFromTempSession H appID (tq_TempToken req));
     case res of Inl e \<Rightarrow> ret (RError 401 ''Invalid or expired temporary token'') | Inr userID \<Rightarrow> do {
     err \<leftarrow> verify_second_factor H appID userID req;
     case err of Some e \<Rightarrow> ret (RError (Code e) (Message e)) | None \<Rightarrow> do {
     roles \<leftarrow> getUserRoles (he_user H) appID userID;
     tokens \<leftarrow> createSessionOrTokens H appID userID ip ua roles;
     case tokens of None \<Rightarrow> ret (RError 500 ''Failed to generate tokens'') | Some (accessToken, refreshToken) \<Rightarrow> do {
     rds (clearTempSession H appID (tq_TempToken req));
     cookie \<leftarrow> remember_device H appID userID req ua ip;
     Dispatch (he_user H) appID ''user.login'' userID;
     ret (RJson 200 (accessToken, refreshToken, cookie)) } } } } }))"

section \<open>Setting up and removing\<close>

definition Generate2FA :: "handler_env \<Rightarrow> http_ctx \<Rightarrow> (uworld, TwoFASetupResponse reply) state" where
  "Generate2FA H c = with_user_id c (\<lambda>u. with_app_id c (\<lambda>appID. assert_string u (\<lambda>userID. do {
     res \<leftarrow> Generate2FASecret (he_twofa H) appID userID;
     ret (case res of Inl err \<Rightarrow> RError (Code err) (Message err) | Inr setup \<Rightarrow> RJson 200 setup) })))"

definition VerifySetupHandler :: "handler_env \<Rightarrow> string + string \<Rightarrow> http_ctx \<Rightarrow> (uworld, string reply) state" where
  "VerifySetupHandler H body c = with_user_id c (\<lambda>u. with_body body (\<lambda>code. with_app_id c (\<lambda>appID. assert_string u (\<lambda>userID. do {
     err \<leftarrow> VerifySetup (he_twofa H) appID userID code;
     ret (answer err (RJson 200 ''2FA setup verification successful'')) }))))"

text \<open>The four handlers that enable a method differ in the service function and the message.\<close>

definition enable_with ::
    "(twofa_env \<Rightarrow> string \<Rightarrow> string \<Rightarrow> (uworld, app_error + string list) state) \<Rightarrow> string \<Rightarrow>
     handler_env \<Rightarrow> http_ctx \<Rightarrow> (uworld, (string \<times> string list) reply) state" where
  "enable_with enable msg H c = with_user_id c (\<lambda>u. with_app_id c (\<lambda>appID. assert_string u (\<lambda>userID. do {
     res \<leftarrow> enable (he_twofa H) appID userID;
     ret (case res of Inl err \<Rightarrow> RError (Code err) (Message err) | Inr codes \<Rightarrow> RJson 200 (msg, codes)) })))"

definition Enable2FAHandler :: "handler_env \<Rightarrow> http_ctx \<Rightarrow> (uworld, (string \<times> string list) reply) state" where
  "Enable2FAHandler = enable_with svc_Enable2FA ''2FA enabled successfully''"

definition EnableEmail2FAHandler :: "handler_env \<Rightarrow> http_ctx \<Rightarrow> (uworld, (string \<times> string list) reply) state" where
  "EnableEmail2FAHandler = enable_with EnableEmail2FA ''Email 2FA enabled successfully''"

definition EnableSMS2FAHandler :: "handler_env \<Rightarrow> http_ctx \<Rightarrow> (uworld, (string \<times> string list) reply) state" where
  "EnableSMS2FAHandler = enable_with EnableSMS2FA ''SMS 2FA enabled successfully''"

definition EnableBackupEmail2FAHandler :: "handler_env \<Rightarrow> http_ctx \<Rightarrow> (uworld, (string \<times> string list) reply) state" where
  "EnableBackupEmail2FAHandler = enable_with EnableBackupEmail2FA ''Backup email 2FA enabled successfully''"

definition Disable2FAHandler :: "handler_env \<Rightarrow> string + string \<Rightarrow> http_ctx \<Rightarrow> (uworld, string reply) state" where
  "Disable2FAHandler H body c = with_user_id c (\<lambda>u. with_body body (\<lambda>code. with_app_id c (\<lambda>appID. assert_string u (\<lambda>userID. do {
     let T = he_twofa H;
     res \<leftarrow> GetUserTwoFAMethod T userID;
     case res of Inl err \<Rightarrow> ret (RError (Code err) (Message err)) | Inr userMethod \<Rightarrow> do {
     err \<leftarrow> (if userMethod = TwoFAMethodEmail then rds (VerifyEmail2FACode T appID userID code) else VerifyTOTP T userID code);
     case err of Some e \<Rightarrow> ret (RError (Code e) (Message e)) | None \<Rightarrow> do {
     err \<leftarrow> svc_Disable2FA T appID userID;
     ret (answer err (RJson 200 ''2FA disabled successfully'')) } } }))))"

definition DisableBackupEmail2FAHandler :: "handler_env \<Rightarrow> http_ctx \<Rightarrow> (uworld, string reply) state" where
  "DisableBackupEmail2FAHandler H c = with_user_id c (\<lambda>u. with_app_id c (\<lambda>appID. assert_string u (\<lambda>userID. do {
     res \<leftarrow> GetUserTwoFAMethod (he_twofa H) userID;
     case res of Inl err \<Rightarrow> ret (RError (Code err) (Message err)) | Inr userMethod \<Rightarrow>
     if userMethod \<noteq> TwoFAMethodBackupEmail
     then ret (RError 400 ''Backup email is not the current 2FA method'') else do {
     err \<leftarrow> DisableBackupEmail2FAMethod (he_twofa H) appID userID;
     ret (answer err (RJson 200 ''Backup email 2FA disabled successfully'')) } })))"

definition GenerateRecoveryCodesHandler ::
    "handler_env \<Rightarrow> string + string \<Rightarrow> http_ctx \<Rightarrow> (uworld, (string \<times> string list) reply) state" where
  "GenerateRecoveryCodesHandler H body c = with_user_id c (\<lambda>u. with_body body (\<lambda>code. assert_string u (\<lambda>userID. do {
     err \<leftarrow> VerifyTOTP (he_twofa H) userID code;
     case err of Some e \<Rightarrow> ret (RError (Code e) (Message e)) | None \<Rightarrow> do {
     res \<leftarrow> GenerateNewRecoveryCodes (he_twofa H) userID;
     ret (case res of Inl err \<Rightarrow> RError (Code err) (Message err)
        | Inr codes \<Rightarrow> RJson 200 (''New recovery codes generated successfully'', codes)) } })))"

section \<open>Sending codes again\<close>

text \<open>The three handlers know the user by the temporary session; \<open>uuid.MustParse\<close> panics in the first.\<close>

definition with_temp_session ::
    "handler_env \<Rightarrow> string + string \<Rightarrow> http_ctx \<Rightarrow> (string \<Rightarrow> string \<Rightarrow> (uworld, string reply) state) \<Rightarrow> (uworld, string reply) state" where
  "with_temp_session H body c f = with_body body (\<lambda>tempToken. with_app_id c (\<lambda>appID. do {
     res \<leftarrow> rds (getUserIDFromTempSession H appID tempToken);
     case res of Inl e \<Rightarrow> ret (RError 401 ''Invalid or expired temporary token'') | Inr userID \<Rightarrow> f appID userID }))"

definition ResendEmail2FACodeHandler :: "handler_env \<Rightarrow> string + string \<Rightarrow> http_ctx \<Rightarrow> (uworld, string reply) state" where
  "ResendEmail2FACodeHandler H body c = with_temp_session H body c (\<lambda>appID userID.
     case parse_uuid (he_user H) userID of None \<Rightarrow> ret (RPanic ''uuid: Parse'') | Some i \<Rightarrow> do {
     err \<leftarrow> ResendEmail2FACode (he_twofa H) appID i;
     ret (answer err (RJson 200 ''2FA code resent successfully'')) })"

definition ResendSMS2FACode :: "handler_env \<Rightarrow> string + string \<Rightarrow> http_ctx \<Rightarrow> (uworld, string reply) state" where
  "ResendSMS2FACode H body c = with_temp_session H body c (\<lambda>appID userID. do {
     err \<leftarrow> GenerateSMS2FACode (he_twofa H) appID userID;
     ret (answer err (RJson 200 ''SMS 2FA code resent successfully'')) })"

definition ResendBackupEmail2FACodeHandler :: "handler_env \<Rightarrow> string + string \<Rightarrow> http_ctx \<Rightarrow> (uworld, string reply) state" where
  "ResendBackupEmail2FACodeHandler H body c = with_temp_session H body c (\<lambda>appID userID. do {
     err \<leftarrow> ResendBackupEmail2FACode (he_twofa H) appID userID;
     ret (answer err (RJson 200 ''Backup email 2FA code resent successfully'')) })"

text \<open>The methods, and whether TOTP, mail and passkeys are among them.\<close>

definition GetAvailableMethodsHandler :: "handler_env \<Rightarrow> http_ctx \<Rightarrow> (uworld, (string list \<times> bool \<times> bool \<times> bool) reply) state" where
  "GetAvailableMethodsHandler H c = with_app_id c (\<lambda>appID. do {
     methods \<leftarrow> GetAvailableMethods (he_twofa H) appID;
     ret (RJson 200 (methods, TwoFAMethodTOTP \<in> set methods, TwoFAMethodEmail \<in> set methods, TwoFAMethodPasskey \<in> set methods)) })"

section \<open>Backup address and phone number\<close>

definition AddBackupEmailHandler :: "handler_env \<Rightarrow> string + string \<Rightarrow> http_ctx \<Rightarrow> (uworld, string reply) state" where
  "AddBackupEmailHandler H body c = with_user_id c (\<lambda>u. with_app_id c (\<lambda>appID. with_body body (\<lambda>backupEmail. assert_string u (\<lambda>userID. do {
     err \<leftarrow> AddBackupEmail (he_twofa H) appID userID backupEmail;
     ret (answer err (RJson 200 ''Verification email sent to backup address'')) }))))"

definition VerifyBackupEmailHandler :: "handler_env \<Rightarrow> http_ctx \<Rightarrow> (uworld, string reply) state" where
  "VerifyBackupEmailHandler H c = (let token = Query c ''token'' in
     if token = [] then ret (RError 400 ''token query parameter is required'') else with_app_id c (\<lambda>appID. do {
     err \<leftarrow> svc_VerifyBackupEmail (he_twofa H) appID token;
     ret (answer err (RJson 200 ''Backup email verified successfully'')) }))"

definition RemoveBackupEmailHandler :: "handler_env \<Rightarrow> http_ctx \<Rightarrow> (uworld, string reply) state" where
  "RemoveBackupEmailHandler H c = with_user_id c (\<lambda>u. assert_string u (\<lambda>userID. do {
     err \<leftarrow> RemoveBackupEmail (he_twofa H) userID;
     ret (answer err (RJson 200 ''Backup email removed successfully'')) }))"

definition BackupEmailStatus :: "handler_env \<Rightarrow> http_ctx \<Rightarrow> (uworld, (string \<times> bool) reply) state" where
  "BackupEmailStatus H c = with_user_id c (\<lambda>u. assert_string u (\<lambda>userID. do {
     res \<leftarrow> usr (GetUserByID (he_users H) userID);
     ret (case res of Inl e \<Rightarrow> RError 404 ''User not found'' | Inr x \<Rightarrow> RJson 200 (u_BackupEmail x, u_BackupEmailVerified x)) }))"

definition AddPhoneHandler :: "handler_env \<Rightarrow> string + string \<Rightarrow> http_ctx \<Rightarrow> (uworld, string reply) state" where
  "AddPhoneHandler H body c = with_user_id c (\<lambda>u. with_app_id c (\<lambda>appID. with_body body (\<lambda>phoneNumber. assert_string u (\<lambda>userID. do {
     err \<leftarrow> AddPhone (he_twofa H) appID userID phoneNumber;
     ret (answer err (RJson 200 ''Verification SMS sent to phone number'')) }))))"

definition VerifyPhoneHandler :: "handler_env \<Rightarrow> string + string \<Rightarrow> http_ctx \<Rightarrow> (uworld, string reply) state" where
  "VerifyPhoneHandler H body c = with_user_id c (\<lambda>u. with_app_id c (\<lambda>appID. with_body body (\<lambda>code. assert_string u (\<lambda>userID. do {
     err \<leftarrow> VerifyPhone (he_twofa H) appID userID code;
     ret (answer err (RJson 200 ''Phone number verified successfully'')) }))))"

definition RemovePhoneHandler :: "handler_env \<Rightarrow> http_ctx \<Rightarrow> (uworld, string reply) state" where
  "RemovePhoneHandler H c = with_user_id c (\<lambda>u. assert_string u (\<lambda>userID. do {
     err \<leftarrow> RemovePhone (he_twofa H) userID;
     ret (answer err (RJson 200 ''Phone number removed successfully'')) }))"

definition PhoneStatus :: "handler_env \<Rightarrow> http_ctx \<Rightarrow> (uworld, (string \<times> bool) reply) state" where
  "PhoneStatus H c = with_user_id c (\<lambda>u. assert_string u (\<lambda>userID. do {
     res \<leftarrow> usr (GetUserByID (he_users H) userID);
     ret (case res of Inl e \<Rightarrow> RError 404 ''User not found'' | Inr x \<Rightarrow> RJson 200 (u_PhoneNumber x, u_PhoneVerified x)) }))"

section \<open>Trusted devices\<close>

text \<open>The list carries the devices themselves; the response leaves out their token hashes.\<close>

definition ListTrustedDevicesHandler :: "handler_env \<Rightarrow> http_ctx \<Rightarrow> (uworld, TrustedDevice list reply) state" where
  "ListTrustedDevicesHandler H c = with_user_id c (\<lambda>u. with_app_id c (\<lambda>appID. assert_string u (\<lambda>userID.
     case parse_uuid (he_user H) userID of None \<Rightarrow> ret (RError 400 ''Invalid user ID'') | Some i \<Rightarrow> do {
     res \<leftarrow> ListTrustedDevices (he_twofa H) i appID;
     ret (case res of Inl err \<Rightarrow> RError (Code err) (Message err)
        | Inr devices \<Rightarrow> RJson 200 (map (\<lambda>d. d\<lparr>td_TokenHash := []\<rparr>) devices)) })))"

definition RevokeTrustedDeviceHandler :: "handler_env \<Rightarrow> http_ctx \<Rightarrow> (uworld, string reply) state" where
  "RevokeTrustedDeviceHandler H c = with_user_id c (\<lambda>u.
     case parse_uuid (he_user H) (Param c ''id'') of None \<Rightarrow> ret (RError 400 ''Invalid device ID'') | Some deviceID \<Rightarrow>
     assert_string u (\<lambda>userID.
     case parse_uuid (he_user H) userID of None \<Rightarrow> ret (RError 400 ''Invalid user ID'') | Some i \<Rightarrow> do {
     err \<leftarrow> RevokeTrustedDevice (he_twofa H) deviceID i;
     ret (answer err (RJson 200 ''Trusted device revoked successfully'')) }))"

definition RevokeAllTrustedDevicesHandler :: "handler_env \<Rightarrow> http_ctx \<Rightarrow> (uworld, string reply) state" where
  "RevokeAllTrustedDevicesHandler H c = with_user_id c (\<lambda>u. with_app_id c (\<lambda>appID. assert_string u (\<lambda>userID.
     case parse_uuid (he_user H) userID of None \<Rightarrow> ret (RError 400 ''Invalid user ID'') | Some i \<Rightarrow> do {
     err \<leftarrow> RevokeAllTrustedDevices (he_twofa H) i appID;
     ret (answer err (RJson 200 ''All trusted devices revoked successfully'')) })))"

end
