(* ===== verification/TwoFASpec.thy ===== *)
theory TwoFASpec
  imports TwoFAHandler AccountSpec
begin

text \<open>
  Properties of the second factor: what the second step of a login asks for, recovery codes,
  switching methods, and the login handler as a whole.
\<close>

section \<open>The second step of a login\<close>

locale twofa_stack = user_stack "he_user H" + devices: table_server "te_devices (he_twofa H)" device_clash
  for H :: handler_env

text \<open>The row with an id is the one when ids are unique.\<close>

lemma unique_id: "no_clash user_clash rows \<Longrightarrow> x \<in> set rows \<Longrightarrow> y \<in> set rows \<Longrightarrow> u_ID x = u_ID y \<Longrightarrow> x = y"
proof (induction rows)
  case (Cons z rows)
  then have other: "u_ID z \<noteq> u_ID v" if "v \<in> set rows" for v
    using that by (simp add: no_clash_def user_clash_def)
  from Cons.prems other[of x] other[of y] Cons.IH show ?case by (auto simp: no_clash_def)
qed simp

definition user_method :: "User \<Rightarrow> string" where
  "user_method u = (if u_TwoFAMethod u = [] then TwoFAMethodTOTP else u_TwoFAMethod u)"

text \<open>Where the code of a method that sends one is kept.\<close>

definition code_key :: "string \<Rightarrow> string \<Rightarrow> string \<Rightarrow> string option" where
  "code_key userMethod appID userID =
     (if userMethod = TwoFAMethodEmail then Some (app_key ''2fa_email'' appID userID)
      else if userMethod = TwoFAMethodSMS then Some (app_key ''2fa_sms'' appID userID)
      else if userMethod = TwoFAMethodBackupEmail then Some (app_key ''2fa_backup_email'' appID userID)
      else None)"

definition recovery_codes :: "twofa_env \<Rightarrow> User \<Rightarrow> string list \<Rightarrow> bool" where
  "recovery_codes T u cs \<longleftrightarrow> (\<exists>s. u_TwoFARecoveryCodes u = Some s \<and> Unmarshal (te_hash T) s = (cs, True))"

definition set_recovery_codes :: "twofa_env \<Rightarrow> string list \<Rightarrow> User \<Rightarrow> User" where
  "set_recovery_codes T cs u = u\<lparr>u_TwoFARecoveryCodes := Some (Marshal (te_hash T) cs)\<rparr>"

text \<open>
  What shows that it is the user, and what it leaves of the users: an unused recovery code, which is
  spent; the code that was sent; or a TOTP code for the secret at that time.
\<close>

definition proves_user :: "twofa_env \<Rightarrow> string \<Rightarrow> redis \<Rightarrow> User list \<Rightarrow> User \<Rightarrow> TwoFALoginRequest \<Rightarrow> User list \<Rightarrow> bool" where
  "proves_user T appID r rows u req rows' \<longleftrightarrow> u_TwoFAEnabled u \<and>
     (if tq_RecoveryCode req \<noteq> []
      then \<exists>cs. recovery_codes T u cs \<and> tq_RecoveryCode req \<in> set cs \<and>
        rows' = update_rows (with_id (u_ID u)) (set_recovery_codes T (remove1 (tq_RecoveryCode req) cs)) rows
      else rows' = rows \<and> tq_Code req \<noteq> [] \<and> (case code_key (user_method u) appID (u_ID u) of
          Some k \<Rightarrow> live r k = Some (RStr (tq_Code req))
        | None \<Rightarrow> user_method u \<noteq> TwoFAMethodPasskey \<and> u_TwoFASecret u \<noteq> [] \<and>
            totp_ok T (rnow r) (tq_Code req) (u_TwoFASecret u)))"

context redis_server
begin

lemma wp_spend_code:
  "wp (do { res \<leftarrow> r_get R k;
        case res of Inl e \<Rightarrow> ret (Some e1) | Inr storedCode \<Rightarrow>
        if storedCode \<noteq> code then ret (Some e2) else do {
        ignore (r_del R [k]);
        ret None } })
     (\<lambda>x r'. rnow r \<le> rnow r' \<and> (x = None \<longrightarrow> live r k = Some (RStr code))) r"
proof (rule wp_bind, rule wp_r_get, rule wp_case_sum, goal_cases)
  case (2 a r1 v)
  then have r1: "reads r r1" and k: "live r k = Some (RStr v)" by (auto simp: get_post_def reads_def intro: live_mono)
  show ?case
  proof (rule wp_if, goal_cases)
    case 2
    show ?case
      by (rule wp_bind, rule wp_ignore, rule wp_r_del, rule wp_return)
         (use 2 r1 k in \<open>auto simp: del_post_def writes_def reads_def\<close>)
  qed (use r1 in \<open>auto intro!: wp_return simp: reads_def\<close>)
qed (auto intro!: wp_return simp: get_post_def reads_def)

end

context user_stack
begin

lemma wp_GetUserTwoFAMethod:
  assumes "te_user T = V"
  shows "wp (GetUserTwoFAMethod T userID) (\<lambda>x w'. w' = w \<and> (\<forall>m. x = Inr m \<longrightarrow>
     (\<exists>u\<in>set (w_users w). u_ID u = userID \<and> u_TwoFAEnabled u \<and> m = user_method u))) w"
  unfolding GetUserTwoFAMethod_def assms
  by (rule wp_bind, rule wp_GetUserByID, rule wp_return)
     (auto simp: first_post_def with_id_def user_method_def split: sum.splits)

lemma wp_VerifyTOTP:
  assumes "te_user T = V"
  shows "wp (VerifyTOTP T userID code) (\<lambda>x w'. w' = w \<and> (x = None \<longrightarrow>
     (\<exists>u\<in>set (w_users w). u_ID u = userID \<and> u_TwoFAEnabled u \<and> u_TwoFASecret u \<noteq> [] \<and>
        totp_ok T (rnow (w_redis w)) code (u_TwoFASecret u)))) w"
  unfolding VerifyTOTP_def assms
  by (rule wp_bind, rule wp_GetUserByID, rule wp_case_sum)
     (auto simp: first_post_def with_id_def intro!: wp_return wp_if wp_bind wp_rds wp_time_now split: if_split_asm)

lemma wp_VerifyRecoveryCode:
  assumes "te_user T = V"
  shows "wp (VerifyRecoveryCode T userID code) (\<lambda>x w'. w_redis w' = w_redis w \<and> (x = None \<longrightarrow>
     (\<exists>u\<in>set (w_users w). u_ID u = userID \<and> u_TwoFAEnabled u \<and> (\<exists>cs. recovery_codes T u cs \<and> code \<in> set cs \<and>
        w_users w' = update_rows (with_id userID) (set_recovery_codes T (remove1 code cs)) (w_users w))))) w"
  unfolding VerifyRecoveryCode_def UpdateRecoveryCodes_def assms
proof (rule wp_bind, rule wp_GetUserByID, rule wp_case_sum, goal_cases)
  case (2 a u)
  then have u: "u \<in> set (w_users w)" "u_ID u = userID" by (auto simp: first_post_def with_id_def)
  show ?case
  proof (rule wp_if, goal_cases)
    case on: 2
    show ?case
    proof (rule wp_case_prod, rule wp_if, goal_cases)
      case (2 cs ok)
      then have cs: "recovery_codes T u cs" by (auto simp: recovery_codes_def assms split: option.splits)
      show ?case
      proof (rule wp_if, goal_cases)
        case 1
        show ?case
        proof (rule wp_bind, rule wp_lifts(1), rule users.wp_t_update, rule wp_return, intro conjI impI, goal_cases)
          case (2 e rows)
          then have "e = None" by (auto split: option.splits)
          with 2 have "rows = update_rows (with_id userID) (set_recovery_codes T (remove1 code cs)) (w_users w)"
            by (simp add: applied_post_def set_recovery_codes_def[abs_def] assms)
          with u on cs 1 show ?case by auto
        qed simp
      qed (auto intro: wp_return)
    qed (auto intro: wp_return)
  qed (auto intro: wp_return)
qed (auto intro: wp_return)

end

context twofa_stack
begin

lemma wp_verify_second_factor:
  assumes uniq: "no_clash user_clash (w_users w)"
  shows "wp (verify_second_factor H appID userID req) (\<lambda>x w'. rnow (w_redis w) \<le> rnow (w_redis w') \<and>
     (x = None \<longrightarrow> (\<exists>u\<in>set (w_users w). u_ID u = userID \<and>
        proves_user (he_twofa H) appID (w_redis w) (w_users w) u req (w_users w')))) w"
    (is "wp _ ?Q w")
proof -
  have no: "wp (ret (Some e)) ?Q w" for e by (simp add: wp_return)
  show ?thesis
    unfolding verify_second_factor_def
  proof (rule wp_Let, rule wp_if, goal_cases)
    case (1 T)
    show ?case
      by (rule wp_mono[OF wp_VerifyRecoveryCode]) (use 1 in \<open>auto simp: proves_user_def\<close>)
  next
    case (2 T)
    show ?case
    proof (rule wp_if, goal_cases)
      case code: 1
      show ?case
      proof (rule wp_bind, rule wp_mono[OF wp_GetUserTwoFAMethod], goal_cases)
        case (2 x w1)
        have w1: "w1 = w" using 2 by simp
        show ?case
          unfolding w1
        proof (rule wp_case_sum, goal_cases)
          case (2 m)
          then obtain u where u: "u \<in> set (w_users w)" "u_ID u = userID" "u_TwoFAEnabled u" "m = user_method u"
            using \<open>w1 = w \<and> _\<close> by blast
          have done_: "?Q e (w\<lparr>w_redis := r'\<rparr>)"
            if "rnow (w_redis w) \<le> rnow r' \<and> (e = None \<longrightarrow> live (w_redis w) k = Some (RStr (tq_Code req)))"
              and "code_key m appID userID = Some k" for e r' k
            using that u code \<open>\<not> tq_RecoveryCode req \<noteq> []\<close> \<open>T = he_twofa H\<close> by (auto simp: proves_user_def)
          show ?case
            unfolding VerifyEmail2FACode_def VerifySMS2FACode_def VerifyBackupEmail2FACode_def Get2FAEmailCode_def
              Get2FASMSCode_def GetBackupEmail2FACode_def Delete2FAEmailCode_def Delete2FASMSCode_def DeleteBackupEmail2FACode_def
              \<open>T = he_twofa H\<close>
          proof (intro wp_if, goal_cases)
            case 1 show ?case by (rule no)
          next
            case 2 show ?case
              by (rule wp_rds, rule wp_mono[OF redis.wp_spend_code], erule done_) (use 2 in \<open>simp add: code_key_def\<close>)
          next
            case 3 show ?case
              by (rule wp_rds, rule wp_mono[OF redis.wp_spend_code], erule done_) (use 3 in \<open>simp add: code_key_def\<close>)
          next
            case 4 show ?case
              by (rule wp_rds, rule wp_mono[OF redis.wp_spend_code], erule done_) (use 4 in \<open>simp add: code_key_def\<close>)
          next
            case 5
            show ?case
            proof (rule wp_mono[OF wp_VerifyTOTP[OF refl]], elim conjE, intro conjI impI, goal_cases)
              case (2 x w')
              then obtain v where v: "v \<in> set (w_users w)" "u_ID v = userID" "u_TwoFASecret v \<noteq> []"
                "totp_ok (he_twofa H) (rnow (w_redis w)) (tq_Code req) (u_TwoFASecret v)" by blast
              then have "v = u" using unique_id[OF uniq] u by simp
              with v 5 u code \<open>\<not> tq_RecoveryCode req \<noteq> []\<close> 2 show ?case
                by (intro bexI[of _ u]) (simp_all add: proves_user_def code_key_def)
            qed simp
          qed
        qed (rule no)
      qed (use 2 in simp)
    qed (rule no)
  qed
qed

lemma stable_createSessionOrTokens: "stable same_users (createSessionOrTokens H a u ip ua roles)"
  unfolding createSessionOrTokens_def generateTokensForUser_def GenerateAccessToken_def GenerateRefreshToken_def SetRefreshToken_def
  by (intro same_users.stable_intro stable_lifts stable_load stable_svc_CreateSession touches_intro redis.touches_redis) simp_all

lemma stable_remember_device: "stable same_users (remember_device H a u req ua ip)"
  unfolding remember_device_def IsTrustedDeviceEnabled_def CreateTrustedDevice_def
  by (intro same_users.stable_intro stable_lifts stable_load touches_intro redis.touches_redis)

lemma stable_clearTempSession: "touches UNIV (clearTempSession H a t)"
  unfolding clearTempSession_def DeleteTempUserSession_def by (intro touches_intro redis.touches_redis) simp_all

lemma wp_checkIPAccess:
  "wp (checkIPAccess H appID ip) (\<lambda>x w'. w' = w \<and> (x \<longrightarrow> (\<forall>allowed. he_ip_rules H = Some allowed \<longrightarrow> allowed w appID ip))) w"
  unfolding checkIPAccess_def by (auto split: option.splits intro!: wp_intro)

end

text \<open>What a token pair has been given for.\<close>

definition second_step :: "handler_env \<Rightarrow> http_ctx \<Rightarrow> TwoFALoginRequest \<Rightarrow> uworld \<Rightarrow> uworld \<Rightarrow> bool" where
  "second_step H c req w w' \<longleftrightarrow> (\<exists>appID u r1. ctx_keys c ''app_id'' = Some (CUuid appID) \<and>
     (\<forall>allowed. he_ip_rules H = Some allowed \<longrightarrow> allowed w appID (GetClientIP c)) \<and>
     u \<in> set (w_users w) \<and> live (w_redis w) (app_key ''temp_session'' appID (tq_TempToken req)) = Some (RStr (u_ID u)) \<and>
     reads (w_redis w) r1 \<and> rnow r1 \<le> rnow (w_redis w') \<and>
     proves_user (he_twofa H) appID r1 (w_users w) u req (w_users w'))"

context twofa_stack
begin

lemma wp_VerifyLogin:
  assumes uniq: "no_clash user_clash (w_users w)"
  shows "wp (VerifyLogin H (Inr req) c) (\<lambda>x w'. \<forall>s y. x = RJson s y \<longrightarrow> second_step H c req w w') w"
    (is "wp _ ?Q w")
proof -
  have no: "wp (ret (RError n e)) ?Q w'" "wp (ret (RPanic e)) ?Q w'" for n e w' by (simp_all add: wp_return)
  show ?thesis
  proof (cases "ctx_keys c ''app_id''")
    case None
    then show ?thesis by (auto simp: VerifyLogin_def http_defs intro: wp_return)
  next
    case (Some v)
    show ?thesis
    proof (cases v)
      case (CUuid appID)
      with Some have app: "ctx_keys c ''app_id'' = Some (CUuid appID)" by simp
      show ?thesis
        unfolding VerifyLogin_def http_defs sum.case app option.case ctx_val.case GetClientInfo_def Let_def prod.case
          getUserIDFromTempSession_def GetTempUserSession_def
      proof (rule wp_bind, rule wp_mono[OF wp_checkIPAccess], elim conjE, goal_cases)
        case (1 ok w0)
        show ?case
          unfolding \<open>w0 = w\<close>
        proof (rule wp_if, rule no, rule wp_bind, rule wp_rds, rule redis.wp_r_get, rule wp_case_sum, rule no, goal_cases)
          case (1 a r1 userID)
          then have r1: "reads (w_redis w) r1"
            and tmp: "live (w_redis w) (app_key ''temp_session'' appID (tq_TempToken req)) = Some (RStr userID)"
            by (auto simp: get_post_def reads_def intro: live_mono)
          note ip = \<open>ok \<longrightarrow> _\<close>
          show ?case
          proof (rule wp_bind, rule wp_mono[OF wp_verify_second_factor], goal_cases)
            case 1 show ?case using uniq by simp
          next
            case (2 err w2)
            show ?case
            proof (rule wp_case_option, goal_cases)
              case 1
              with 2 obtain u where u: "u \<in> set (w_users w)" "u_ID u = userID"
                "proves_user (he_twofa H) appID r1 (w_users w) u req (w_users w2)" "rnow r1 \<le> rnow (w_redis w2)" by auto
              have done_: "second_step H c req w w'" if "same_users w2 w'" for w'
                unfolding second_step_def
                using that app ip \<open>\<not> \<not> ok\<close> tmp r1 u by (intro exI[of _ appID] exI[of _ u] exI[of _ r1]) (simp add: same_users_def)
              show ?case
                by (rule wp_stable[where P = same_users])
                   (intro same_users.stable_intro stable_getUserRoles stable_createSessionOrTokens stable_remember_device
                      stable_send stable_lifts stable_clearTempSession, simp add: done_)
            qed (rule no)
          qed
        qed
      qed
    qed (auto simp: VerifyLogin_def http_defs Some intro: wp_return)
  qed
qed

end

text \<open>
  C22: what it takes to pass the second step.  The handler gives tokens only in an application
  and to an address the IP rules let in, for a temporary session that was live, and only when the
  request proves the user of that session, who has the second factor on: by a recovery code, which
  is then spent, by the code that was sent, or by a TOTP code.
\<close>

theorem verify_login_sound:
  assumes "twofa_stack H" and "no_clash user_clash (w_users w)"
    and "run_state (VerifyLogin H (Inr req) c) w = (RJson s tokens, w')"
  shows "second_step H c req w w'"
  using wpD[OF twofa_stack.wp_VerifyLogin[OF assms(1,2)] assms(3)] by blast

definition demo_twofa :: twofa_env where
  "demo_twofa = \<lparr>te_user = demo_env, te_devices = ref_table device_clash, has_devices = True,
     totp_ok = (\<lambda>t code secret. code = secret), qr_encode = Some, te_secret = demo_uuid,
     te_recovery = demo_uuid, te_device_token = demo_uuid, sha256 = (\<lambda>s. s), APP_NAME = ''auth''\<rparr>"

definition demo_handler :: handler_env where
  "demo_handler = \<lparr>he_twofa = demo_twofa, he_ip_rules = Some (\<lambda>w a ip. ip \<noteq> ''6.6.6.6''), has_bruteforce = True, has_anomaly = True,
     he_brute_window = None, has_device_check = True, he_parse_duration = (\<lambda>s. None),
     he_siteverify = (\<lambda>a b d. Inr True), he_conv = (\<lambda>_. 0)\<rparr>"

interpretation demo_twofa: twofa_stack demo_handler
  by (simp add: twofa_stack_def demo_handler_def demo_twofa_def demo_stack.user_stack_axioms ref_table.table_server_axioms)

text \<open>A user with an authenticator and two recovery codes, half way through a login.\<close>

definition demo_2fa_user :: User where
  "demo_2fa_user = demo_user\<lparr>u_TwoFAEnabled := True, u_TwoFAMethod := ''totp'', u_TwoFASecret := ''123456'',
     u_TwoFARecoveryCodes := Some (Marshal ref_hash [''r1'', ''r2''])\<rparr>"

definition demo_2fa_world :: uworld where
  "demo_2fa_world = demo_uw\<lparr>w_users := [demo_2fa_user],
     w_redis := \<lparr>rdata = map_of [(app_key ''temp_session'' ''a'' ''t'', (RStr ''u'', Some hour))], rnow = minute\<rparr>\<rparr>"

definition demo_2fa_ctx :: http_ctx where
  "demo_2fa_ctx = \<lparr>GetHeader = (\<lambda>h. []), Param = (\<lambda>p. []), Query = (\<lambda>p. []), Cookie = (\<lambda>n. None), ClientIP = ''10.0.0.1'',
     RemoteAddr = ''10.0.0.1:4711'', Method = ''POST'', Path = ''/2fa/login/verify'', PostForm = (\<lambda>f. []),
     ctx_keys = [''app_id'' \<mapsto> CUuid ''a'']\<rparr>"

definition demo_2fa_req :: TwoFALoginRequest where
  "demo_2fa_req = \<lparr>tq_TempToken = ''t'', tq_Code = [], tq_RecoveryCode = ''r2'', RememberDevice = False, DeviceName = []\<rparr>"

definition demo_2fa_run :: "(string \<times> string \<times> string option) reply \<times> uworld" where
  "demo_2fa_run = run_state (VerifyLogin demo_handler (Inr demo_2fa_req) demo_2fa_ctx) demo_2fa_world"

lemma demo_2fa_ok: "case fst demo_2fa_run of RJson s tokens \<Rightarrow> s = 200 | _ \<Rightarrow> False"
  by code_simp

theorem verify_login_sound_witness:
  "second_step demo_handler demo_2fa_ctx demo_2fa_req demo_2fa_world (snd demo_2fa_run)"
proof -
  obtain tokens where ok: "fst demo_2fa_run = RJson 200 tokens"
    using demo_2fa_ok by (auto split: reply.splits)
  have nc: "no_clash user_clash (w_users demo_2fa_world)" by (simp add: no_clash_def demo_2fa_world_def)
  show ?thesis
    by (rule verify_login_sound[OF demo_twofa.twofa_stack_axioms nc run_eq[OF ok[unfolded demo_2fa_run_def]], folded demo_2fa_run_def])
qed

section \<open>Recovery codes\<close>

lemma recovery_codes_unique: "recovery_codes T u cs \<Longrightarrow> recovery_codes T u ds \<Longrightarrow> cs = ds"
  by (auto simp: recovery_codes_def)

text \<open>
  C24: a recovery code works once.  After it has been accepted no check of that code for that
  user is accepted while the users are as it left them, as long as the user's codes are distinct.
\<close>

theorem recovery_code_once:
  assumes "user_stack (te_user T)" and "no_clash user_clash (w_users w)"
    and "run_state (VerifyRecoveryCode T userID code) w = (None, w1)"
    and "u \<in> set (w_users w)" and "u_ID u = userID" and "recovery_codes T u cs" and "distinct cs"
    and "w_users w2 = w_users w1" and "run_state (VerifyRecoveryCode T userID code) w2 = (x, w3)"
  shows "\<exists>e. x = Some e"
proof (rule ccontr)
  assume "\<nexists>e. x = Some e"
  then have x: "x = None" by simp
  from wpD[OF user_stack.wp_VerifyRecoveryCode[OF assms(1) refl] assms(3)] obtain v ds
    where v: "v \<in> set (w_users w)" "u_ID v = userID" "recovery_codes T v ds"
      and w1: "w_users w1 = update_rows (with_id userID) (set_recovery_codes T (remove1 code ds)) (w_users w)" by blast
  then have ds: "ds = cs" using unique_id[OF assms(2)] assms(4-6) recovery_codes_unique by metis
  from wpD[OF user_stack.wp_VerifyRecoveryCode[OF assms(1) refl] assms(9)] x obtain y es
    where y: "y \<in> set (w_users w1)" "u_ID y = userID" "recovery_codes T y es" "code \<in> set es"
    using assms(8) by auto
  have "\<forall>y\<in>set (w_users w1). u_ID y = userID \<longrightarrow> u_TwoFARecoveryCodes y = Some (Marshal (te_hash T) (remove1 code cs))"
    unfolding w1 ds ball_update_rows by (simp add: set_recovery_codes_def with_id_def)
  with y(1,2) have "u_TwoFARecoveryCodes y = Some (Marshal (te_hash T) (remove1 code cs))" by blast
  moreover have "hash_lib (te_hash T)" using assms(1) by (simp add: user_stack_def)
  ultimately have "es = remove1 code cs"
    using y(3) by (simp add: recovery_codes_def hash_lib.json)
  with y(4) assms(7) show False by (simp add: distinct_remove1)
qed

definition demo_recovery :: "uworld \<Rightarrow> app_error option \<times> uworld" where
  "demo_recovery w = run_state (VerifyRecoveryCode demo_twofa ''u'' ''r2'') w"

lemma demo_recovery_ok: "fst (demo_recovery demo_2fa_world) = None"
  by code_simp

theorem recovery_code_once_witness:
  "\<exists>e. fst (demo_recovery (snd (demo_recovery demo_2fa_world))) = Some e"
proof -
  have nc: "no_clash user_clash (w_users demo_2fa_world)" by (simp add: no_clash_def demo_2fa_world_def)
  have st: "user_stack (te_user demo_twofa)" by (simp add: demo_twofa_def demo_stack.user_stack_axioms)
  have u: "demo_2fa_user \<in> set (w_users demo_2fa_world)" "u_ID demo_2fa_user = ''u''"
    by (simp_all add: demo_2fa_world_def demo_2fa_user_def demo_user_def)
  have cs: "recovery_codes demo_twofa demo_2fa_user [''r1'', ''r2'']"
    by (simp add: recovery_codes_def demo_2fa_user_def demo_twofa_def ref_hash.json)
  have d: "distinct [''r1'', ''r2'']" by simp
  show ?thesis
    by (rule recovery_code_once[OF st nc run_eq[OF demo_recovery_ok[unfolded demo_recovery_def]] u cs d refl,
          folded demo_recovery_def]) (rule prod.collapse[symmetric])
qed

end
