(* ===== verification/LoginSpec.thy ===== *)
theory LoginSpec
  imports TwoFASpec SessionSpec
begin

text \<open>
  The login handler as a whole, what stands behind a token pair it answers with, and the logout handler.
\<close>

section \<open>Frames\<close>

text \<open>Only the server changes; the devices stay, whatever else does.\<close>

definition only_redis :: "uworld \<Rightarrow> uworld \<Rightarrow> bool" where
  "only_redis w w' \<longleftrightarrow> (\<exists>r. w' = w\<lparr>w_redis := r\<rparr> \<and> rnow (w_redis w) \<le> rnow r)"

interpretation only_redis: frame only_redis
proof
  fix s show "only_redis s s" unfolding only_redis_def by (rule exI[of _ "w_redis s"]) simp
next
  fix s t u assume "only_redis s t" "only_redis t u"
  then obtain r1 r2 where "t = s\<lparr>w_redis := r1\<rparr>" "rnow (w_redis s) \<le> rnow r1" "u = t\<lparr>w_redis := r2\<rparr>" "rnow (w_redis t) \<le> rnow r2"
    unfolding only_redis_def by blast
  then show "only_redis s u" unfolding only_redis_def by (intro exI[of _ r2]) simp
qed

lemma stable_rds: "touches UNIV m \<Longrightarrow> stable only_redis (rds m)"
  by (auto simp: stable_def wp_def only_redis_def touches_def writes_def split: prod.splits)

lemma touches_state: "touches K (State_Monad.get)" "touches K time_now"
  by (auto simp: touches_def time_now_def intro!: wp_intro)

context user_stack
begin

lemma keeps_devices_CreateSession:
  "stable same_devices (svc_CreateSession (ue_redis V) E uuid a u ip ua rs attl rttl)"
  unfolding svc_CreateSession_def GenerateAccessToken_def GenerateRefreshToken_def ClearUserTokenBlacklist_def
  by (intro same_devices.stable_intro stable_lifts stable_send stable_load redis.touches_CreateSession[THEN touches_UNIV]
        touches_intro redis.touches_redis) simp_all

lemma keeps_devices_createSession: "stable same_devices (createSession V a u ip ua app)"
  unfolding createSession_def GenerateAccessToken_def GenerateRefreshToken_def SetRefreshToken_def
  by (intro same_devices.stable_intro stable_lifts stable_send stable_load stable_getUserRoles keeps_devices_CreateSession touches_intro redis.touches_redis)
     simp_all

lemma keeps_devices_second_factor: "stable same_devices (send_second_factor V a u m)"
  unfolding send_second_factor_def Set2FAEmailCode_def Set2FASMSCode_def SetBackupEmail2FACode_def generateSecure6DigitCode_def
  by (intro same_devices.stable_intro stable_lifts stable_send stable_load touches_intro redis.touches_redis) simp_all

lemma keeps_devices_LoginUser: "stable same_devices (LoginUser V appID email password ip ua)"
  unfolding LoginUser_def pass_lock_def load_app_def new_uuid_def SetTempUserSession_def
  by (intro same_devices.stable_intro stable_lifts stable_send stable_load stable_getUserRoles keeps_devices_createSession keeps_devices_second_factor
        touches_state touches_intro redis.touches_redis) simp_all

end

section \<open>The gates before the password\<close>

context twofa_stack
begin

lemma wp_resolve_bf: "wp (resolve_bf H appID) (\<lambda>_ w'. w' = w) w"
  unfolding resolve_bf_def by (auto intro!: wp_bind wp_load_app wp_return)

lemma stable_captcha_gate: "stable only_redis (captcha_gate H appID req ip cfg)"
  unfolding captcha_gate_def IsCaptchaRequired_def advisory_delay_def GetDelay_def GetDelayTier_def GetFailedLoginCount_def get_count_def
  by (intro only_redis.stable_intro stable_rds touches_intro redis.touches_redis)

lemma wp_gate:
  "wp (case bf of Some cfg \<Rightarrow> captcha_gate H appID req ip cfg | None \<Rightarrow> ret None)
     (\<lambda>g w'. only_redis w w' \<and> (\<forall>n at rt. g \<noteq> Some (RJson n (LTokens at rt)))) w"
proof (rule wp_conj)
  show "wp (case bf of Some cfg \<Rightarrow> captcha_gate H appID req ip cfg | None \<Rightarrow> ret None) (\<lambda>_. only_redis w) w"
    by (rule wp_stable[where P = only_redis]) (intro only_redis.stable_intro stable_captcha_gate)
  show "wp (case bf of Some cfg \<Rightarrow> captcha_gate H appID req ip cfg | None \<Rightarrow> ret None)
     (\<lambda>g _. \<forall>n at rt. g \<noteq> Some (RJson n (LTokens at rt))) w"
    unfolding captcha_gate_def
    by (rule wp_case_option, rule wp_return, simp, rule wp_bind, rule wp_any, rule wp_if, rule wp_bind, rule wp_any, rule wp_return)
       (simp_all add: wp_return split: option.splits)
qed

lemma wp_failed_login: "wp (failed_login H appID email ip bf err) (\<lambda>x _. \<forall>n at rt. x \<noteq> RJson n (LTokens at rt)) w"
    (is "wp _ ?Q w")
  unfolding failed_login_def
proof (rule wp_if, rule wp_return, simp, rule wp_bind, rule wp_any, goal_cases)
  case (1 x w1)
  have r: "wp (ret (RPanic m)) ?Q w2" "wp (ret (RError n m)) ?Q w2" for m n w2 by (simp_all add: wp_return)
  have b: "wp (m \<bind> f) ?Q w2" if "\<And>a t. wp (f a) ?Q t" for m :: "(uworld, 'b) state" and f w2 by (rule wp_bind, rule wp_any, rule that)
  show ?case
    by (cases x) (auto simp: r wp_return intro!: b split: prod.split bool.split option.split)
qed

lemma wp_ValidateTrustedDevice:
  "wp (ValidateTrustedDevice (he_twofa H) token) (\<lambda>x w'. \<forall>d. x = Inr d \<longrightarrow> d \<in> set (w_devices w) \<and>
     td_TokenHash d = sha256 (he_twofa H) token \<and> rnow (w_redis w) \<le> td_ExpiresAt d) w"
  unfolding ValidateTrustedDevice_def FindByTokenHash_def hashToken_def
proof (rule wp_if, goal_cases)
  case 2
  show ?case
  proof (rule wp_bind, rule wp_lifts(4), rule wp_bind, rule devices.wp_t_first, rule wp_return, rule wp_case_sum, goal_cases)
    case (2 a x)
    show ?case
    proof (rule wp_case_option, goal_cases)
      case (2 d)
      then have d: "d \<in> set (w_devices w)" "td_TokenHash d = sha256 (he_twofa H) token"
        using \<open>first_post _ _ a _\<close> \<open>or_nil a = Inr x\<close> by (auto simp: first_post_def or_nil_def split: sum.splits dberr.splits)
      show ?case
      proof (rule wp_bind, rule wp_rds, rule wp_time_now, rule wp_if, goal_cases)
        case 2
        show ?case
          by (rule wp_bind, rule wp_any, rule wp_return) (use d 2 in simp)
      qed (auto intro: wp_return)
    qed (auto intro: wp_return)
  qed (auto intro: wp_return)
qed (auto intro: wp_return)

end

text \<open>The device that lets a login of the user pass without the second factor.\<close>

definition trusts :: "handler_env \<Rightarrow> http_ctx \<Rightarrow> uworld \<Rightarrow> instant \<Rightarrow> string \<Rightarrow> string \<Rightarrow> bool" where
  "trusts H c w t appID userID \<longleftrightarrow> (\<exists>d\<in>set (w_devices w). \<exists>token. Cookie c ''trusted_device'' = Some token \<and>
     td_TokenHash d = sha256 (he_twofa H) token \<and> td_UserID d = userID \<and> td_AppID d = appID \<and> t \<le> td_ExpiresAt d)"

definition login_earned :: "handler_env \<Rightarrow> http_ctx \<Rightarrow> LoginRequest \<Rightarrow> uworld \<Rightarrow> bool" where
  "login_earned H c req w \<longleftrightarrow> (\<exists>appID t u. ctx_keys c ''app_id'' = Some (CUuid appID) \<and>
     (\<forall>allowed. he_ip_rules H = Some allowed \<longrightarrow> allowed w appID (GetClientIP c)) \<and> rnow (w_redis w) \<le> t \<and>
     u \<in> set (w_users w) \<and> credentials_ok (he_user H) appID (lq_Email req) (lq_Password req) t u \<and>
     ((\<exists>a. loaded w appID a \<and> single_factor t u a) \<or> trusts H c w t appID (u_ID u)))"

context twofa_stack
begin

lemma stable_resets:
  "stable same_devices (if b then rds (ignore (ResetFailedLogins (he_redis H) a e)) else ret ())"
  "stable same_devices (if b then rds (ResetOnSuccess (he_redis H) a e ip) else ret ())"
  unfolding ResetFailedLogins_def ResetOnSuccess_def ResetDelayTier_def
  by (intro same_devices.stable_intro stable_lifts touches_intro redis.touches_redis; simp)+

lemma wp_device_login:
  "wp (device_login H c appID res ip ua) (\<lambda>x _. x \<noteq> None \<longrightarrow> RequiresTwoFA res \<and>
     trusts H c w (rnow (w_redis w)) appID (lr_UserID res)) w"
    (is "wp _ ?Q w")
proof -
  have no: "wp (ret None) ?Q w'" for w' by (simp add: wp_return)
  show ?thesis
    unfolding device_login_def
  proof (rule wp_if, goal_cases)
    case on: 1
    show ?case
    proof (rule wp_case_option, rule no, rule wp_if, rule no, rule wp_bind, rule wp_mono[OF wp_ValidateTrustedDevice],
        rule wp_case_sum, rule no, rule wp_if, goal_cases)
      case (1 token a w1 d)
      then have "trusts H c w (rnow (w_redis w)) appID (lr_UserID res)"
        unfolding trusts_def by (intro bexI[of _ d] exI[of _ token]) auto
      with on show ?case by (intro wp_bind wp_any wp_return) simp
    qed (rule no)
  qed (rule no)
qed

lemma wp_Login:
  "wp (Login H (Inr req) c) (\<lambda>x w'. \<forall>at rt. x = RJson 200 (LTokens at rt) \<longrightarrow> login_earned H c req w) w"
    (is "wp _ ?Q w")
proof -
  have no: "wp (ret x) ?Q w'" if "\<And>at rt. x \<noteq> RJson 200 (LTokens at rt)" for x w' using that by (simp add: wp_return)
  show ?thesis
    unfolding Login_def with_body_def sum.case GetClientInfo_def Let_def prod.case
  proof (rule wp_with_app_id, simp, simp, rule wp_bind, rule wp_mono[OF wp_checkIPAccess], elim conjE, rule wp_if, rule no, simp, goal_cases)
    case (1 appID ok w0)
    then have ip: "\<forall>allowed. he_ip_rules H = Some allowed \<longrightarrow> allowed w appID (GetClientIP c)" by simp
    show ?case
      unfolding \<open>w0 = w\<close>
    proof (rule wp_bind, rule wp_mono[OF wp_resolve_bf], rule wp_bind, goal_cases)
      case (1 bf w0)
      show ?case
        unfolding \<open>w0 = w\<close>
      proof (rule wp_mono[OF wp_gate], elim conjE, rule wp_case_option, goal_cases)
        case (1 g w1)
        then have w1: "w_users w1 = w_users w" "w_apps w1 = w_apps w" "w_devices w1 = w_devices w" "rnow (w_redis w) \<le> rnow (w_redis w1)"
          by (auto simp: only_redis_def)
        show ?case
        proof (rule wp_bind, rule wp_mono[OF wp_conj[OF wp_LoginUser wp_stable[OF keeps_devices_LoginUser]]], assumption,
            rule wp_case_sum, goal_cases)
          case (1 x w2 err)
          show ?case by (rule wp_mono[OF wp_failed_login]) simp
        next
          case (2 x w2 res)
          then obtain u where u: "u \<in> set (w_users w)" "credentials_ok (he_user H) appID (lq_Email req) (lq_Password req) (rnow (w_redis w1)) u"
            and ans: "login_answer w1 appID u res" and dev: "same_devices w1 w2" using w1(1) by auto
          show ?case
          proof (rule wp_bind, rule wp_stable[OF stable_resets(1)], rule wp_bind, rule wp_stable[OF stable_resets(2)],
              rule wp_if, rule no, simp, rule wp_bind, rule wp_mono[OF wp_device_login], rule wp_return, intro allI impI, goal_cases)
            case (1 _ w3 _ w4 tokens _ at rt)
            let ?t = "rnow (w_redis w1)"
            have w4: "w_devices w4 = w_devices w" "?t \<le> rnow (w_redis w4)"
              using dev 1(1,2) w1(3) by (auto simp: same_devices_def)
            have "(\<exists>a. loaded w appID a \<and> single_factor ?t u a) \<or> trusts H c w ?t appID (u_ID u)"
            proof (cases "RequiresTwoFA res")
              case True
              then have "tokens \<noteq> None" using 1(5) by (auto split: option.splits)
              with 1(4) ans w4 show ?thesis by (fastforce simp: trusts_def login_answer_def)
            next
              case False
              with ans 1(3) show ?thesis unfolding login_answer_def loaded_def w1(2) by auto
            qed
            with \<open>ctx_keys c ''app_id'' = _\<close> ip w1(4) u show ?case
              unfolding login_earned_def by (intro exI[of _ appID] exI[of _ ?t] exI[of _ u]) blast
          qed
        qed
      next
        case (2 g w1 r)
        then show ?case by (intro no) auto
      qed
    qed
  qed
qed

end

text \<open>
  C23: what stands behind a token pair.  When the login handler answers 200 with tokens, the
  address was let in by the IP rules, and at one moment since the request a user of that application
  with that e-mail was unlocked, active and verified with a hash that accepts the password; and either
  nothing more was required, or the cookie named an unexpired trusted device of that user in that
  application.
\<close>

theorem login_handler_sound:
  assumes "twofa_stack H"
    and "run_state (Login H (Inr req) c) w = (RJson 200 (LTokens at rt), w')"
  shows "login_earned H c req w"
  using wpD[OF twofa_stack.wp_Login[OF assms(1)] assms(2)] by blast

text \<open>The demo user without a second factor.\<close>

definition demo_login_req :: LoginRequest where
  "demo_login_req = \<lparr>lq_Email = ''u@x'', lq_Password = ''Secret12'', CaptchaToken = []\<rparr>"

definition demo_plain_handler :: handler_env where
  "demo_plain_handler = demo_handler\<lparr>has_bruteforce := False, has_anomaly := False\<rparr>"

interpretation demo_plain: twofa_stack demo_plain_handler
  using demo_twofa.twofa_stack_axioms by (simp add: demo_plain_handler_def twofa_stack_def)

definition demo_password_login :: "login_body reply \<times> uworld" where
  "demo_password_login = run_state (Login demo_plain_handler (Inr demo_login_req) demo_2fa_ctx) demo_uw"

lemma demo_password_login_ok: "case fst demo_password_login of RJson n (LTokens at rt) \<Rightarrow> n = 200 \<and> at \<noteq> [] | _ \<Rightarrow> False"
  by code_simp

theorem login_handler_sound_witness:
  "login_earned demo_plain_handler demo_2fa_ctx demo_login_req demo_uw"
proof -
  obtain at rt where ok: "fst demo_password_login = RJson 200 (LTokens at rt)"
    using demo_password_login_ok by (auto split: reply.splits login_body.splits)
  show ?thesis
    by (rule login_handler_sound[OF demo_plain.twofa_stack_axioms run_eq[OF ok[unfolded demo_password_login_def]]])
qed

section \<open>Logout\<close>

text \<open>
  A logout under another application's header.  The logout handler takes the application
  from the \<open>X-App-ID\<close> header and not from the token: a request of a session of application \<open>a\<close> that
  names application \<open>b\<close> is not told of any error, and every session, index, marker and
  blacklist entry of \<open>a\<close> is as it was.
\<close>

theorem logout_wrong_app:
  assumes "user_stack (he_user H)" and "has_sessions (he_user H)" and "GroupLogout (he_user H) = None"
    and "ctx_keys c ''app_id'' = Some (CUuid b)" and "ctx_keys c ''userID'' = Some (CStr u)"
    and "ctx_keys c ''sessionID'' = Some (CStr s)" and "s \<noteq> []"
    and "colon_free a" and "colon_free b" and "a \<noteq> b"
    and "run_state (Logout H (Inr (refreshToken, accessToken)) c) w = (x, w')"
  shows "(x = RJson 200 ''Successfully logged out'' \<or> (\<exists>m. x = RPanic m)) \<and>
    (\<forall>k\<in>app_session_keys a. rdata (w_redis w') k = rdata (w_redis w) k)"
proof -
  have R: "redis_server (he_redis H)" using assms(1) by (simp add: user_stack_def)
  have disj: "k \<notin> app_session_keys b" if "k \<in> app_session_keys a" for k
    using app_session_keys_disjoint[OF assms(8-10)] that by blast
  have "wp (Logout H (Inr (refreshToken, accessToken)) c) (\<lambda>x w'. (x = RJson 200 ''Successfully logged out'' \<or> (\<exists>m. x = RPanic m)) \<and>
     writes (app_session_keys b) (w_redis w) (w_redis w')) w"
    unfolding Logout_def http_defs assms(4-6) sum.case prod.case option.case ctx_val.case context_session_def as_string_def LogoutUser_def
  proof (rule wp_bind, rule wp_if, goal_cases)
    case 1
    show ?case
    proof (rule wp_bind, rule wp_rds, rule wp_touches[OF redis_server.touches_app_svc(4)[OF R]], goal_cases)
      case (1 res r')
      then show ?case by (cases res) (simp_all add: wp_def propagate_logout_def assms(3) answer_def)
    qed
  qed (use assms(2,7) in simp)
  from wpD[OF this assms(11)] disj show ?thesis by (auto intro: writes_keep)
qed

definition demo_logout_ctx :: http_ctx where
  "demo_logout_ctx = demo_2fa_ctx\<lparr>ctx_keys := [''app_id'' \<mapsto> CUuid ''b'', ''userID'' \<mapsto> CStr ''u'', ''sessionID'' \<mapsto> CStr ''s0'']\<rparr>"

definition demo_wrong_logout :: "string reply \<times> uworld" where
  "demo_wrong_logout = run_state (Logout demo_handler (Inr (demo_refresh, demo_access)) demo_logout_ctx)
     (demo_uw\<lparr>w_redis := demo_state\<rparr>)"

theorem logout_wrong_app_witness:
  "rdata (w_redis (snd demo_wrong_logout)) (SessionKey ''a'' ''s0'') = rdata demo_state (SessionKey ''a'' ''s0'')"
proof -
  have st: "user_stack (he_user demo_handler)" "has_sessions (he_user demo_handler)" "GroupLogout (he_user demo_handler) = None"
    using demo_stack.user_stack_axioms by (simp_all add: demo_handler_def demo_twofa_def demo_env_def)
  have c: "ctx_keys demo_logout_ctx ''app_id'' = Some (CUuid ''b'')" "ctx_keys demo_logout_ctx ''userID'' = Some (CStr ''u'')"
    "ctx_keys demo_logout_ctx ''sessionID'' = Some (CStr ''s0'')" by (simp_all add: demo_logout_ctx_def)
  have ids: "''s0'' \<noteq> []" "colon_free ''a''" "colon_free ''b''" "''a'' \<noteq> ''b''" by simp_all
  have eq: "run_state (Logout demo_handler (Inr (demo_refresh, demo_access)) demo_logout_ctx) (demo_uw\<lparr>w_redis := demo_state\<rparr>) =
      (fst demo_wrong_logout, snd demo_wrong_logout)" by (simp add: demo_wrong_logout_def)
  show ?thesis
    using bspec[OF conjunct2[OF logout_wrong_app[OF st c ids eq]] in_app_session_keys(1)] by simp
qed

end
