(* ===== verification/MethodSpec.thy ===== *)
theory MethodSpec
  imports TwoFASpec
begin

text \<open>
  Properties of switching the second factor: back from the backup address, off from SMS.
\<close>

section \<open>What enabling leaves\<close>

definition to_sms :: "twofa_env \<Rightarrow> string list \<Rightarrow> User \<Rightarrow> User" where
  "to_sms T codes u = u\<lparr>u_TwoFAEnabled := True, u_TwoFASecret := [],
     u_TwoFARecoveryCodes := Some (Marshal (te_hash T) codes), u_TwoFAMethod := TwoFAMethodSMS\<rparr>"

context user_stack
begin

lemma stable_generateRecoveryCodes: "stable same_users (generateRecoveryCodes T n)"
  by (induction n) (auto intro!: same_users.stable_intro stable_lifts)

lemma stable_checks:
  "te_user T = V \<Longrightarrow> stable same_users (checkTwoFAEnabled T a)"
  "te_user T = V \<Longrightarrow> stable same_users (isSMS2FAAllowed T a)"
  unfolding checkTwoFAEnabled_def isSMS2FAAllowed_def by (intro same_users.stable_intro stable_load)+

lemma wp_switch:
  "wp (do { err \<leftarrow> usr (t_update (ue_users V) p f);
        case err of Some e \<Rightarrow> ret (Inl (e1 :: app_error)) | None \<Rightarrow> do {
        Dispatch V appID ev userID;
        ret (Inr y) } })
     (\<lambda>x w'. \<forall>z. x = Inr z \<longrightarrow> z = y \<and> w_users w' = update_rows p f (w_users w)) w"
proof (rule wp_bind, rule wp_lifts(1), rule users.wp_t_update, rule wp_case_option, goal_cases)
  case (1 e rows)
  note eq = applied_postD[OF 1(1)[unfolded 1(2)]]
  show ?case
    by (rule wp_bind, rule wp_stable[where P = same_users], rule stable_send, rule wp_return) (simp add: same_users_def eq)
qed (auto intro: wp_return)

lemma wp_EnableSMS2FA:
  assumes "te_user T = V"
  shows "wp (EnableSMS2FA T appID userID) (\<lambda>x w'. \<forall>codes. x = Inr codes \<longrightarrow>
     w_users w' = update_rows (with_id userID) (to_sms T codes) (w_users w)) w"
  unfolding EnableSMS2FA_def Enable2FAWithMethod_def assms
proof (rule wp_bind, rule wp_stable[OF stable_checks(1)[OF assms]], rule wp_case_option, goal_cases)
  case (1 err w1)
  show ?case
  proof (rule wp_bind, rule wp_stable[OF stable_checks(2)[OF assms]], rule wp_if, goal_cases)
    case (2 ok w2)
    show ?case
    proof (rule wp_bind, rule wp_GetUserByID, rule wp_case_sum, goal_cases)
      case (2 a u)
      show ?case
      proof (rule wp_if, goal_cases)
        case 2
        show ?case
          by (rule wp_bind, rule wp_stable[OF stable_generateRecoveryCodes], rule wp_mono[OF wp_switch])
             (use \<open>same_users w w1\<close> \<open>same_users w1 w2\<close> in \<open>auto simp: same_users_def to_sms_def[abs_def] assms\<close>)
      qed (auto intro: wp_return)
    qed (auto intro: wp_return)
  qed (auto intro: wp_return)
qed (auto intro: wp_return)

end

text \<open>A user without a secret cannot prove anything to the handler that turns the second factor off.\<close>

context twofa_stack
begin

lemma wp_Disable2FAHandler_stuck:
  assumes "\<forall>u\<in>set (w_users w). u_ID u = userID \<longrightarrow> u_TwoFASecret u = [] \<and> user_method u \<noteq> TwoFAMethodEmail"
    and "ctx_keys c ''userID'' = Some (CStr userID)"
  shows "wp (Disable2FAHandler H body c) (\<lambda>x w'. (\<forall>s m. x \<noteq> RJson s m) \<and> w_users w' = w_users w) w"
    (is "wp _ ?Q w")
proof -
  have no: "wp (ret (RError n e)) ?Q w" "wp (ret (RPanic e)) ?Q w" for n e by (simp_all add: wp_return)
  have main: "wp (do { res \<leftarrow> GetUserTwoFAMethod (he_twofa H) userID;
     case res of Inl err \<Rightarrow> ret (RError (Code err) (Message err)) | Inr userMethod \<Rightarrow> do {
     err \<leftarrow> (if userMethod = TwoFAMethodEmail then rds (VerifyEmail2FACode (he_twofa H) appID userID code)
            else VerifyTOTP (he_twofa H) userID code);
     case err of Some e \<Rightarrow> ret (RError (Code e) (Message e)) | None \<Rightarrow> do {
     err \<leftarrow> svc_Disable2FA (he_twofa H) appID userID;
     ret (answer err (RJson 200 ''2FA disabled successfully'')) } } }) ?Q w" for appID code
  proof (rule wp_bind, rule wp_mono[OF wp_GetUserTwoFAMethod[OF refl]], elim conjE, goal_cases)
    case (1 res w1)
    show ?case
      unfolding \<open>w1 = w\<close>
    proof (rule wp_case_sum, rule no, rule wp_bind, rule wp_if, goal_cases)
      case (1 m)
      then obtain u where "u \<in> set (w_users w)" "u_ID u = userID" "m = user_method u"
        using \<open>\<forall>m. res = Inr m \<longrightarrow> _\<close> by blast
      with 1 assms(1) show ?case by simp
    next
      case (2 m)
      show ?case
      proof (rule wp_mono[OF wp_VerifyTOTP[OF refl]], elim conjE, goal_cases)
        case (1 err w2)
        then obtain e where "err = Some e" using assms(1) by (cases err) auto
        with \<open>w2 = w\<close> show ?case by (simp add: no)
      qed
    qed
  qed
  show ?thesis
    unfolding Disable2FAHandler_def Let_def
    by (rule wp_with_user_id, simp, rule wp_with_body, simp, rule wp_with_app_id, simp, simp, rule wp_assert_string, simp)
       (use assms(2) main in simp)
qed

end

text \<open>
  SMS as a second factor cannot be turned off.  Once \<open>EnableSMS2FA\<close> has succeeded, every
  request of that user to the handler that disables the second factor is refused, whatever code it
  carries, and changes no user: the handler asks for a TOTP code, and the secret is gone.
\<close>

theorem sms_cannot_be_disabled:
  assumes "twofa_stack H"
    and "run_state (EnableSMS2FA (he_twofa H) appID userID) w = (Inr codes, w1)"
    and "w_users w2 = w_users w1" and "ctx_keys c ''userID'' = Some (CStr userID)"
    and "run_state (Disable2FAHandler H body c) w2 = (x, w3)"
  shows "(\<forall>s m. x \<noteq> RJson s m) \<and> w_users w3 = w_users w2"
proof -
  from assms(1) have st: "user_stack (he_user H)" by (simp add: twofa_stack_def)
  have w1: "w_users w1 = update_rows (with_id userID) (to_sms (he_twofa H) codes) (w_users w)"
    using wpD[OF user_stack.wp_EnableSMS2FA[OF st refl] assms(2)] by blast
  have "\<forall>u\<in>set (w_users w2). u_ID u = userID \<longrightarrow> u_TwoFASecret u = [] \<and> user_method u \<noteq> TwoFAMethodEmail"
    unfolding assms(3) w1 ball_update_rows
    by (simp add: to_sms_def with_id_def user_method_def TwoFAMethodSMS_def TwoFAMethodEmail_def)
  from wpD[OF twofa_stack.wp_Disable2FAHandler_stuck[OF assms(1) this assms(4)] assms(5)] show ?thesis .
qed

text \<open>The demo user with a verified phone and a verified backup address, in an application that allows both.\<close>

definition demo_phone_user :: User where
  "demo_phone_user = demo_2fa_user\<lparr>u_PhoneNumber := ''+100'', u_PhoneVerified := True, u_BackupEmail := ''b@x'',
     u_BackupEmailVerified := True\<rparr>"

definition demo_phone_world :: uworld where
  "demo_phone_world = demo_2fa_world\<lparr>w_users := [demo_phone_user],
     w_apps := [demo_app\<lparr>a_TwoFAEnabled := True, a_TwoFAMethods := ''totp,sms'', a_SMS2FAEnabled := True\<rparr>]\<rparr>"

definition demo_signed_in :: http_ctx where
  "demo_signed_in = demo_2fa_ctx\<lparr>ctx_keys := [''app_id'' \<mapsto> CUuid ''a'', ''userID'' \<mapsto> CStr ''u'']\<rparr>"

definition demo_sms :: "(app_error + string list) \<times> uworld" where
  "demo_sms = run_state (EnableSMS2FA demo_twofa ''a'' ''u'') demo_phone_world"

lemma demo_sms_ok: "case fst demo_sms of Inl e \<Rightarrow> False | Inr codes \<Rightarrow> True"
  by code_simp

theorem sms_cannot_be_disabled_witness:
  "(\<forall>s m. fst (run_state (Disable2FAHandler demo_handler (Inr ''123456'') demo_signed_in) (snd demo_sms)) \<noteq> RJson s m) \<and>
   w_users (snd (run_state (Disable2FAHandler demo_handler (Inr ''123456'') demo_signed_in) (snd demo_sms))) = w_users (snd demo_sms)"
proof -
  obtain codes where ok: "fst demo_sms = Inr codes" using demo_sms_ok by (auto split: sum.splits)
  have T: "he_twofa demo_handler = demo_twofa" by (simp add: demo_handler_def)
  have c: "ctx_keys demo_signed_in ''userID'' = Some (CStr ''u'')" by (simp add: demo_signed_in_def)
  show ?thesis
    by (rule sms_cannot_be_disabled[OF demo_twofa.twofa_stack_axioms, unfolded T,
          OF run_eq[OF ok[unfolded demo_sms_def]] _ c, folded demo_sms_def])
       (simp, rule prod.collapse[symmetric])
qed

section \<open>The backup address and back\<close>

definition to_backup :: "twofa_env \<Rightarrow> string \<Rightarrow> string \<Rightarrow> string list \<Rightarrow> User \<Rightarrow> User" where
  "to_backup T method secret codes u = u\<lparr>u_TwoFAPreviousMethod := method, u_TwoFAPreviousSecret := secret,
     u_TwoFAEnabled := True, u_TwoFAMethod := ''backup_email'', u_TwoFASecret := [],
     u_TwoFARecoveryCodes := Some (Marshal (te_hash T) codes)\<rparr>"

definition from_backup :: "string \<Rightarrow> string \<Rightarrow> User \<Rightarrow> User" where
  "from_backup method secret u = u\<lparr>u_TwoFAMethod := method, u_TwoFASecret := secret, u_TwoFAEnabled := (method \<noteq> []),
     u_TwoFAPreviousMethod := [], u_TwoFAPreviousSecret := []\<rparr>"

context user_stack
begin

lemma wp_EnableBackupEmail2FA:
  assumes "te_user T = V"
  shows "wp (EnableBackupEmail2FA T appID userID) (\<lambda>x w'. \<forall>codes. x = Inr codes \<longrightarrow>
     (\<exists>u\<in>set (w_users w). u_ID u = userID \<and>
        w_users w' = update_rows (with_id userID) (to_backup T (u_TwoFAMethod u) (u_TwoFASecret u) codes) (w_users w))) w"
  unfolding EnableBackupEmail2FA_def SaveAndSwitchToBackupEmail2FA_def assms
proof (rule wp_bind, rule wp_stable[OF stable_checks(1)[OF assms]], rule wp_case_option, goal_cases)
  case (1 err w1)
  show ?case
  proof (rule wp_bind, rule wp_GetUserByID, rule wp_case_sum, goal_cases)
    case (2 a u)
    then have u: "u \<in> set (w_users w)" "u_ID u = userID"
      using 1 by (auto simp: first_post_def with_id_def same_users_def)
    show ?case
    proof (rule wp_if, goal_cases)
      case 2
      show ?case
        by (rule wp_bind, rule wp_stable[OF stable_generateRecoveryCodes], rule wp_mono[OF wp_switch])
           (use \<open>same_users w w1\<close> u in \<open>auto simp: same_users_def to_backup_def[abs_def] assms intro!: bexI[of _ u]\<close>)
    qed (auto intro: wp_return)
  qed (auto intro: wp_return)
qed (auto intro: wp_return)

lemma wp_DisableBackupEmail2FAMethod:
  assumes "te_user T = V"
  shows "wp (DisableBackupEmail2FAMethod T appID userID) (\<lambda>x w'. x = None \<longrightarrow>
     (\<exists>u\<in>set (w_users w). u_ID u = userID \<and>
        w_users w' = update_rows (with_id userID) (from_backup (u_TwoFAPreviousMethod u) (u_TwoFAPreviousSecret u)) (w_users w))) w"
  unfolding DisableBackupEmail2FAMethod_def RestorePreviousTwoFAMethod_def assms
proof (rule wp_bind, rule wp_lifts(1), rule wp_bind, rule users.wp_t_first, rule wp_case_sum, goal_cases)
  case (2 a u)
  then have u: "u \<in> set (w_users w)" "u_ID u = userID" by (auto simp: first_post_def with_id_def)
  show ?case
  proof (rule users.wp_t_update, rule wp_case_option, goal_cases)
    case (1 e rows)
    note eq = applied_postD[OF 1(1)[unfolded 1(2)]]
    show ?case
      by (rule wp_bind, rule wp_stable[where P = same_users], rule stable_send, rule wp_return)
         (use eq u in \<open>auto simp: same_users_def from_backup_def[abs_def] intro!: bexI[of _ u]\<close>)
  qed (auto intro: wp_return)
qed (rule wp_return, simp only: option.case, rule wp_return, simp)

end

text \<open>What is left of a round trip: the method and its secret are back, the recovery codes are new.\<close>

definition restored :: "twofa_env \<Rightarrow> string list \<Rightarrow> User \<Rightarrow> User" where
  "restored T codes u = u\<lparr>u_TwoFAEnabled := (u_TwoFAMethod u \<noteq> []), u_TwoFARecoveryCodes := Some (Marshal (te_hash T) codes),
     u_TwoFAPreviousMethod := [], u_TwoFAPreviousSecret := []\<rparr>"

lemma update_rows_twice:
  "(\<And>x. p x \<Longrightarrow> p (f x)) \<Longrightarrow> update_rows p g (update_rows p f rows) = update_rows p (\<lambda>x. g (f x)) rows"
  by (simp add: update_rows_def)

lemma update_rows_cong:
  "(\<And>x. x \<in> set rows \<Longrightarrow> p x \<Longrightarrow> f x = g x) \<Longrightarrow> update_rows p f rows = update_rows p g rows"
  by (simp add: update_rows_def)

lemma from_to_backup: "from_backup (u_TwoFAMethod u) (u_TwoFASecret u) (to_backup T m s codes u) = restored T codes u"
  by (simp add: from_backup_def to_backup_def restored_def)

text \<open>
  C25: switching to the backup address and back.  When a user whose ids are unique enables the backup
  address and then disables it, with no change of the users in between, the user has the former
  method and secret again, with the new recovery codes, and no other user has changed; the second
  factor is on again exactly if the method had a name, so an account from before methods were
  recorded comes out of the round trip with the second factor off.
\<close>

theorem backup_email_restores:
  assumes "user_stack (te_user T)" and "no_clash user_clash (w_users w)"
    and "run_state (EnableBackupEmail2FA T appID userID) w = (Inr codes, w1)"
    and "w_users w2 = w_users w1"
    and "run_state (DisableBackupEmail2FAMethod T appID userID) w2 = (None, w3)"
  shows "w_users w3 = update_rows (with_id userID) (restored T codes) (w_users w)"
proof -
  from wpD[OF user_stack.wp_EnableBackupEmail2FA[OF assms(1) refl] assms(3)] obtain u
    where u: "u \<in> set (w_users w)" "u_ID u = userID"
      and w1: "w_users w1 = update_rows (with_id userID) (to_backup T (u_TwoFAMethod u) (u_TwoFASecret u) codes) (w_users w)" by blast
  from wpD[OF user_stack.wp_DisableBackupEmail2FAMethod[OF assms(1) refl] assms(5)] obtain v
    where v: "v \<in> set (w_users w1)" "u_ID v = userID"
      and w3: "w_users w3 = update_rows (with_id userID) (from_backup (u_TwoFAPreviousMethod v) (u_TwoFAPreviousSecret v)) (w_users w1)"
    using assms(4) by auto
  have "\<forall>v\<in>set (w_users w1). u_ID v = userID \<longrightarrow> u_TwoFAPreviousMethod v = u_TwoFAMethod u \<and> u_TwoFAPreviousSecret v = u_TwoFASecret u"
    unfolding w1 ball_update_rows by (simp add: to_backup_def with_id_def)
  with v have prev: "u_TwoFAPreviousMethod v = u_TwoFAMethod u" "u_TwoFAPreviousSecret v = u_TwoFASecret u" by auto
  have same: "x = u" if "x \<in> set (w_users w)" "with_id userID x" for x
    using unique_id[OF assms(2) that(1) u(1)] that(2) u(2) by (simp add: with_id_def)
  show ?thesis
    unfolding w3 w1 prev
    by (subst update_rows_twice, simp add: with_id_def to_backup_def, rule update_rows_cong) (metis same from_to_backup)
qed

definition demo_backup :: "(app_error + string list) \<times> uworld" where
  "demo_backup = run_state (EnableBackupEmail2FA demo_twofa ''a'' ''u'') demo_phone_world"

definition demo_back :: "app_error option \<times> uworld" where
  "demo_back = run_state (DisableBackupEmail2FAMethod demo_twofa ''a'' ''u'') (snd demo_backup)"

lemma demo_backup_ok: "case fst demo_backup of Inl e \<Rightarrow> False | Inr codes \<Rightarrow> fst demo_back = None"
  by code_simp

theorem backup_email_restores_witness:
  "map (\<lambda>u. (u_TwoFAEnabled u, u_TwoFAMethod u, u_TwoFASecret u)) (w_users (snd demo_back)) = [(True, ''totp'', ''123456'')]"
proof -
  obtain codes where ok: "fst demo_backup = Inr codes" and off: "fst demo_back = None"
    using demo_backup_ok by (auto split: sum.splits)
  have st: "user_stack (te_user demo_twofa)" by (simp add: demo_twofa_def demo_stack.user_stack_axioms)
  have nc: "no_clash user_clash (w_users demo_phone_world)" by (simp add: no_clash_def demo_phone_world_def)
  have "w_users (snd demo_back) = update_rows (with_id ''u'') (restored demo_twofa codes) (w_users demo_phone_world)"
    by (rule backup_email_restores[OF st nc run_eq[OF ok[unfolded demo_backup_def]] refl
          run_eq[OF off[unfolded demo_back_def demo_backup_def]], folded demo_backup_def, folded demo_back_def])
  then show ?thesis
    by (simp add: demo_phone_world_def update_rows_def with_id_def demo_phone_user_def demo_2fa_user_def demo_user_def restored_def)
qed

end
