(* ===== verification/SessionGroup.thy ===== *)
theory SessionGroup
  imports UserService
begin

text \<open>
  \<open>internal/sessiongroup\<close>: logging a user out of all applications of a group, from a logout and from
  the expiry of a session's marker key.  The lookups of the group tables are those of
  \<open>internal/admin/repository.go\<close>.
\<close>

record group_env =
  ge_user :: user_env
  ge_groups :: "SessionGroup table_api"
  ge_group_apps :: "SessionGroupApp table_api"

definition GetSessionGroupForApp :: "group_env \<Rightarrow> string \<Rightarrow> (uworld, dberr + SessionGroup option) state" where
  "GetSessionGroupForApp G appID = do {
     res \<leftarrow> group_apps (t_first (ge_group_apps G) (\<lambda>x. sga_AppID x = appID));
     case res of
       Inl NotFound \<Rightarrow> ret (Inr None)
     | Inl e \<Rightarrow> ret (Inl e)
     | Inr sga \<Rightarrow> do {
         res \<leftarrow> groups_of (t_first (ge_groups G) (\<lambda>g. sg_ID g = sga_SessionGroupID sga));
         ret (case res of Inl e \<Rightarrow> Inl e | Inr sg \<Rightarrow> Inr (Some sg)) } }"

text \<open>No order is asked for: the key is constant.\<close>

definition GetAppsInSessionGroup :: "group_env \<Rightarrow> string \<Rightarrow> (uworld, dberr + string list) state" where
  "GetAppsInSessionGroup G groupID = do {
     res \<leftarrow> group_apps (t_find (ge_group_apps G) (\<lambda>x. sga_SessionGroupID x = groupID) (\<lambda>_. 0));
     ret (case res of Inl e \<Rightarrow> Inl e | Inr entries \<Rightarrow> Inr (map sga_AppID entries)) }"

section \<open>\<open>revoke.go\<close>\<close>

definition revoke_in_app :: "group_env \<Rightarrow> string \<Rightarrow> string \<Rightarrow> string \<Rightarrow> (uworld, unit) state" where
  "revoke_in_app G appID userEmail otherAppID = (if otherAppID = appID then ret () else do {
     res \<leftarrow> usr (GetUserByEmail (ue_users (ge_user G)) otherAppID userEmail);
     case res of Inl e \<Rightarrow> ret ()
     | Inr targetUser \<Rightarrow> rds (ignore (svc_RevokeAllUserSessions (ue_redis (ge_user G)) otherAppID (u_ID targetUser))) })"

definition RevokeAllUserSessionsInGroup :: "group_env \<Rightarrow> string \<Rightarrow> string \<Rightarrow> (uworld, unit) state" where
  "RevokeAllUserSessionsInGroup G appID userEmail = do {
     res \<leftarrow> GetSessionGroupForApp G appID;
     case res of
       Inr (Some grp) \<Rightarrow> (if \<not> GlobalLogout grp then ret () else do {
         res \<leftarrow> GetAppsInSessionGroup G (sg_ID grp);
         case res of Inl e \<Rightarrow> ret ()
         | Inr appIDs \<Rightarrow> for_each appIDs (revoke_in_app G appID userEmail) })
     | _ \<Rightarrow> ret () }"

definition RevokeAllUserSessionsInGroupByUserID :: "group_env \<Rightarrow> string \<Rightarrow> string \<Rightarrow> (uworld, unit) state" where
  "RevokeAllUserSessionsInGroupByUserID G appID userID = do {
     res \<leftarrow> usr (GetUserByID (ue_users (ge_user G)) userID);
     case res of Inl e \<Rightarrow> ret () | Inr u \<Rightarrow> RevokeAllUserSessionsInGroup G appID (u_Email u) }"

definition ShouldRevokeGroupSessions :: "group_env \<Rightarrow> string \<Rightarrow> (uworld, bool \<times> SessionGroup option) state" where
  "ShouldRevokeGroupSessions G appID = do {
     res \<leftarrow> GetSessionGroupForApp G appID;
     ret (case res of Inr (Some grp) \<Rightarrow> (GlobalLogout grp, Some grp) | _ \<Rightarrow> (False, None)) }"

section \<open>\<open>expiry.go\<close>\<close>

definition handleExpiredKey :: "group_env \<Rightarrow> string \<Rightarrow> (uworld, unit) state" where
  "handleExpiredKey G key = (if \<not> HasPrefix key ''session_meta:'' then ret () else
     case ParseSessionMetaKey key of Inl e \<Rightarrow> ret ()
     | Inr (appID, userID, sessionID) \<Rightarrow> do {
         (shouldRevoke, grp) \<leftarrow> ShouldRevokeGroupSessions G appID;
         if \<not> shouldRevoke \<or> grp = None then ret () else do {
         res \<leftarrow> usr (GetUserByID (ue_users (ge_user G)) userID);
         case res of Inl e \<Rightarrow> ret () | Inr u \<Rightarrow> RevokeAllUserSessionsInGroup G appID (u_Email u) } })"

text \<open>The state of the service: whether it has been started, and what it was configured with.\<close>

record expiry_service =
  isRunning :: bool
  cancelled :: bool
  useKeyspaceNotif :: bool
  scanInterval :: duration

record expiry_config =
  Enabled :: bool
  UseKeyspaceNotif :: bool
  ScanInterval :: duration
  KeyspaceNotifEnabled :: bool

definition DefaultConfig :: "string \<Rightarrow> bool \<Rightarrow> duration \<Rightarrow> bool \<Rightarrow> expiry_config" where
  "DefaultConfig redisNotify enabled interval notif =
     \<lparr>Enabled = enabled, UseKeyspaceNotif = (redisNotify \<noteq> [] \<and> Contains redisNotify ''E''),
      ScanInterval = interval, KeyspaceNotifEnabled = notif\<rparr>"

text \<open>The ticker panics on a negative interval: \<open>None\<close>.\<close>

definition NewExpiryService :: "expiry_config \<Rightarrow> expiry_service option" where
  "NewExpiryService config0 = (let config1 = (if ScanInterval config0 = 0 then config0\<lparr>ScanInterval := 5 * minute\<rparr> else config0);
       config = (if \<not> Enabled config1 then config1\<lparr>Enabled := True\<rparr> else config1)
     in if ScanInterval config \<le> 0 then None
        else Some \<lparr>isRunning = False, cancelled = False,
          useKeyspaceNotif = (UseKeyspaceNotif config \<and> KeyspaceNotifEnabled config),
          scanInterval = ScanInterval config\<rparr>)"

text \<open>
  Starting and stopping.  \<open>Stop\<close> waits until the service is no longer running, but nothing
  ever says so: it returns after its ten seconds with the flag as it was.
\<close>

definition Start :: "expiry_service \<Rightarrow> expiry_service" where
  "Start s = (if isRunning s then s else s\<lparr>isRunning := True\<rparr>)"

definition Stop :: "expiry_service \<Rightarrow> expiry_service" where
  "Stop s = (if \<not> isRunning s then s else s\<lparr>cancelled := True\<rparr>)"

definition GetConfig :: "expiry_service \<Rightarrow> expiry_config" where
  "GetConfig s = \<lparr>Enabled = isRunning s, UseKeyspaceNotif = useKeyspaceNotif s, ScanInterval = scanInterval s,
     KeyspaceNotifEnabled = useKeyspaceNotif s\<rparr>"

text \<open>
  One scan, with the fuel of the \<open>SCAN\<close> loop; a service cancelled before it processes a key stops there.
\<close>

definition scanForExpiredSessions :: "group_env \<Rightarrow> nat \<Rightarrow> expiry_service \<Rightarrow> (uworld, unit option) state" where
  "scanForExpiredSessions G fuel s = (if \<not> isRunning s then ret (Some ()) else do {
     res \<leftarrow> rds (GetExpiredSessionMetaKeys (ue_redis (ge_user G)) fuel);
     case res of None \<Rightarrow> ret None
     | Some (Inl e) \<Rightarrow> ret (Some ())
     | Some (Inr expiredKeys) \<Rightarrow> do {
         for_each expiredKeys (\<lambda>key. if cancelled s then ret () else handleExpiredKey G key);
         ret (Some ()) } })"

definition ForceScan :: "group_env \<Rightarrow> nat \<Rightarrow> expiry_service \<Rightarrow> (uworld, (string + nat) option) state" where
  "ForceScan G fuel s = (if \<not> isRunning s then ret (Some (Inl ''service not running'')) else do {
     res \<leftarrow> rds (GetExpiredSessionMetaKeys (ue_redis (ge_user G)) fuel);
     case res of None \<Rightarrow> ret None
     | Some (Inl e) \<Rightarrow> ret (Some (Inl ''redis''))
     | Some (Inr expiredKeys) \<Rightarrow> do {
         for_each expiredKeys (handleExpiredKey G);
         ret (Some (Inr (length expiredKeys))) } })"

end
