(* ===== verification/SsoHandler.thy ===== *)
theory SsoHandler
  imports SessionGroup Http
begin

text \<open>
  \<open>internal/sso/handler.go\<close>: a login in one application of a session group is exchanged, by a token
  that lives a minute, for a session in another.
\<close>

text \<open>The application of the context, a UUID or a string; anything else reads as empty.\<close>

definition ctx_app :: "http_ctx \<Rightarrow> string" where
  "ctx_app c = (case ctx_keys c ''app_id'' of Some (CUuid a) \<Rightarrow> a | Some (CStr s) \<Rightarrow> s | _ \<Rightarrow> [])"

definition ctx_user :: "http_ctx \<Rightarrow> string" where
  "ctx_user c = (case ctx_keys c ''userID'' of Some (CStr s) \<Rightarrow> s | _ \<Rightarrow> [])"

definition IssueToken :: "group_env \<Rightarrow> string + string \<Rightarrow> http_ctx \<Rightarrow> (uworld, string reply) state" where
  "IssueToken G body c = (let sourceAppID = ctx_app c; userID = ctx_user c in
     if sourceAppID = [] \<or> userID = [] then ret (RError 401 ''missing auth context'') else
     case body of Inl e \<Rightarrow> ret (RError 400 ''target_app_id is required'') | Inr targetAppID \<Rightarrow> do {
     res \<leftarrow> GetSessionGroupForApp G sourceAppID;
     case res of
       Inr (Some grp) \<Rightarrow> do {
         res \<leftarrow> GetAppsInSessionGroup G (sg_ID grp);
         case res of Inl e \<Rightarrow> ret (RError 500 ''failed to validate session group'') | Inr groupApps \<Rightarrow>
         if targetAppID \<notin> set groupApps then ret (RError 403 ''target app is not in the same session group'') else do {
         token \<leftarrow> new_uuid (ge_user G);
         err \<leftarrow> rds (SetSSOToken (ue_redis (ge_user G)) token (sg_ID grp) sourceAppID userID);
         ret (case err of Some e \<Rightarrow> RError 500 ''failed to create SSO token'' | None \<Rightarrow> RJson 200 token) } }
     | _ \<Rightarrow> ret (RError 403 ''source app is not part of any session group'') })"

record exchange_response =
  xr_access_token :: string
  xr_refresh_token :: string
  xr_session_id :: string
  xr_user_id :: string

text \<open>The lifetimes of an application, as the function of the same name here.\<close>

definition sso_resolveTokenTTLs :: "Application option \<Rightarrow> duration \<times> duration" where
  "sso_resolveTokenTTLs app =
     ((case app of Some a \<Rightarrow> if 0 < a_AccessTokenTTLMinutes a then wrap64 (a_AccessTokenTTLMinutes a * minute) else 0 | None \<Rightarrow> 0),
      (case app of Some a \<Rightarrow> if 0 < a_RefreshTokenTTLHours a then wrap64 (a_RefreshTokenTTLHours a * hour) else 0 | None \<Rightarrow> 0))"

definition lookup_roles :: "user_env \<Rightarrow> string \<Rightarrow> string \<Rightarrow> (uworld, string list) state" where
  "lookup_roles V appID userID = (case LookupRoles V of None \<Rightarrow> ret [] | Some lookup \<Rightarrow> do {
     res \<leftarrow> lookup appID userID;
     ret (case res of Inl e \<Rightarrow> [] | Inr roles \<Rightarrow> roles) })"

definition Exchange :: "group_env \<Rightarrow> string + string \<Rightarrow> http_ctx \<Rightarrow> (uworld, exchange_response reply) state" where
  "Exchange G body c = (let V = ge_user G; R = ue_redis V in case ctx_keys c ''app_id'' of
       Some (CUuid targetAppID) \<Rightarrow> (case body of Inl e \<Rightarrow> ret (RError 400 ''sso_token is required'') | Inr ssoToken \<Rightarrow> do {
         res \<leftarrow> rds (GetSSOToken R ssoToken);
         case res of Inl e \<Rightarrow> ret (RError 401 ''invalid or expired SSO token'') | Inr (groupID, sourceAppID, userID) \<Rightarrow> do {
         rds (ignore (DeleteSSOToken R ssoToken));
         res \<leftarrow> GetAppsInSessionGroup G groupID;
         case res of Inl e \<Rightarrow> ret (RError 500 ''failed to validate session group'') | Inr groupApps \<Rightarrow>
         if targetAppID \<notin> set groupApps then ret (RError 403 ''target app is not in the same session group'') else do {
         res \<leftarrow> usr (GetUserByID (ue_users V) userID);
         case res of Inl e \<Rightarrow> ret (RError 401 ''source user not found'') | Inr sourceUser \<Rightarrow> do {
         res \<leftarrow> usr (GetUserByEmail (ue_users V) targetAppID (u_Email sourceUser));
         case res of Inl e \<Rightarrow> ret (RError 404 ''user_not_found_in_target_app'') | Inr targetUser \<Rightarrow>
         if \<not> u_IsActive targetUser
         then ret (RError 403 ''user account is deactivated in the target application'') else do {
         app \<leftarrow> load_app V targetAppID;
         let (accessTTL, refreshTTL) = sso_resolveTokenTTLs app;
         roles \<leftarrow> lookup_roles V targetAppID (u_ID targetUser);
         res \<leftarrow> svc_CreateSession R (ue_jwt V) (ue_uuid V) targetAppID (u_ID targetUser) (ClientIP c)
                 (GetHeader c ''User-Agent'') roles accessTTL refreshTTL;
         ret (case res of Inl e \<Rightarrow> RError 500 ''failed to create session''
            | Inr (at, rt, sid) \<Rightarrow> RJson 200 \<lparr>xr_access_token = at, xr_refresh_token = rt, xr_session_id = sid,
                xr_user_id = u_ID targetUser\<rparr>) } } } } })
     | _ \<Rightarrow> ret (RError 400 ''X-App-ID header is required''))"

text \<open>The peers with a frontend of their own; one joined query, which fails as its first table does.\<close>

definition GetPeersForApp :: "group_env \<Rightarrow> string \<Rightarrow> (uworld, dberr + (string \<times> string) list) state" where
  "GetPeersForApp G appID = do {
     res \<leftarrow> group_apps (t_first (ge_group_apps G) (\<lambda>x. sga_AppID x = appID));
     case res of
       Inl NotFound \<Rightarrow> ret (Inr [])
     | Inl e \<Rightarrow> ret (Inl e)
     | Inr sga \<Rightarrow> do {
         res \<leftarrow> group_apps (t_find (ge_group_apps G)
           (\<lambda>x. sga_SessionGroupID x = sga_SessionGroupID sga \<and> sga_AppID x \<noteq> appID) (\<lambda>_. 0));
         rows \<leftarrow> apps State_Monad.get;
         ret (case res of Inl e \<Rightarrow> Inl e
            | Inr entries \<Rightarrow> Inr [(sga_AppID x, a_FrontendURL a). x \<leftarrow> entries, a \<leftarrow> rows, a_ID a = sga_AppID x \<and> a_FrontendURL a \<noteq> []]) } }"

definition GetPeers :: "group_env \<Rightarrow> http_ctx \<Rightarrow> (uworld, (string \<times> string) list reply) state" where
  "GetPeers G c = (case ctx_keys c ''app_id'' of
       Some (CUuid appID) \<Rightarrow> do {
         res \<leftarrow> GetPeersForApp G appID;
         ret (case res of Inl e \<Rightarrow> RError 500 ''failed to fetch peer apps'' | Inr peers \<Rightarrow> RJson 200 peers) }
     | _ \<Rightarrow> ret (RError 400 ''X-App-ID header is required''))"

end
