(* ===== verification/GoUrl.thy ===== *)
theory GoUrl
  imports GoStrings "HOL-Library.List_Lexorder" "HOL-Library.Char_ord"
begin

text \<open>
  The parts of Go's \<open>net/url\<close> the sources use on query strings: \<open>QueryEscape\<close>, \<open>QueryUnescape\<close>,
  \<open>Values.Encode\<close> and \<open>ParseQuery\<close>, with the round trips they are used for.  \<open>Values\<close> is a list of
  pairs; the sources set every key once.
\<close>

section \<open>Escaping\<close>

definition unreserved :: "char \<Rightarrow> bool" where
  "unreserved c \<longleftrightarrow> (let n = of_char c :: nat in 48 \<le> n \<and> n \<le> 57 \<or> 65 \<le> n \<and> n \<le> 90 \<or> 97 \<le> n \<and> n \<le> 122 \<or>
     n = 45 \<or> n = 46 \<or> n = 95 \<or> n = 126)"

definition hex_digit :: "nat \<Rightarrow> char" where
  "hex_digit n = ''0123456789ABCDEF'' ! n"

definition unhex :: "char \<Rightarrow> nat option" where
  "unhex c = (let n = of_char c :: nat in
     if 48 \<le> n \<and> n \<le> 57 then Some (n - 48)
     else if 65 \<le> n \<and> n \<le> 70 then Some (n - 55)
     else if 97 \<le> n \<and> n \<le> 102 then Some (n - 87) else None)"

definition escape_byte :: "char \<Rightarrow> string" where
  "escape_byte c = (if unreserved c then [c] else if c = CHR '' '' then ''+''
     else [CHR ''%'', hex_digit (of_char c div 16), hex_digit (of_char c mod 16)])"

definition QueryEscape :: "string \<Rightarrow> string" where
  "QueryEscape s = concat (map escape_byte s)"

fun QueryUnescape :: "string \<Rightarrow> string option" where
  "QueryUnescape [] = Some []"
| "QueryUnescape (c # s) =
     (if c = CHR ''%'' then (case s of
          h # l # t \<Rightarrow> (case (unhex h, unhex l) of
              (Some a, Some b) \<Rightarrow> map_option (Cons (char_of (16 * a + b))) (QueryUnescape t)
            | _ \<Rightarrow> None)
        | _ \<Rightarrow> None)
      else map_option (Cons (if c = CHR ''+'' then CHR '' '' else c)) (QueryUnescape s))"

lemma unhex_hex_digit [simp]: "n < 16 \<Longrightarrow> unhex (hex_digit n) = Some n"
proof -
  have "\<forall>n\<in>set [0..<16]. unhex (hex_digit n) = Some n" by code_simp
  then show "n < 16 \<Longrightarrow> unhex (hex_digit n) = Some n" by simp
qed

lemma hex_digit_plain: "n < 16 \<Longrightarrow> hex_digit n \<in> set ''0123456789ABCDEF''"
  unfolding hex_digit_def by (rule nth_mem) simp

lemma byte_bounds: "of_char (c :: char) div 16 < (16 :: nat)"
  by (rule less_mult_imp_div_less) simp

lemma byte_hex: "char_of (16 * (of_char (c :: char) div 16) + of_char c mod 16 :: nat) = c"
  by (simp only: mult_div_mod_eq char_of_char)

lemma unescape_byte: "QueryUnescape (escape_byte c @ s) = map_option (Cons c) (QueryUnescape s)"
proof (cases "unreserved c")
  case True
  then have "c \<noteq> CHR ''%''" "c \<noteq> CHR ''+''" by (auto simp: unreserved_def)
  with True show ?thesis by (simp add: escape_byte_def)
next
  case False
  then show ?thesis by (simp add: escape_byte_def byte_bounds byte_hex)
qed

lemma unescape_escape [simp]: "QueryUnescape (QueryEscape s) = Some s"
  by (induction s) (simp_all add: QueryEscape_def unescape_byte)

lemma escape_plain: "c \<in> set (QueryEscape s) \<Longrightarrow> unreserved c \<or> c = CHR ''+'' \<or> c = CHR ''%''"
proof -
  have hex: "unreserved (hex_digit n)" if "n < 16" for n
  proof -
    have "\<forall>c\<in>set ''0123456789ABCDEF''. unreserved c" by code_simp
    with hex_digit_plain[OF that] show ?thesis by blast
  qed
  have "c \<in> set (escape_byte d) \<Longrightarrow> unreserved c \<or> c = CHR ''+'' \<or> c = CHR ''%''" for d
    using hex[OF byte_bounds[of d]] hex[of "of_char d mod 16"] by (auto simp: escape_byte_def split: if_splits)
  then show "c \<in> set (QueryEscape s) \<Longrightarrow> unreserved c \<or> c = CHR ''+'' \<or> c = CHR ''%''"
    by (auto simp: QueryEscape_def)
qed

lemma escape_free [simp]:
  "CHR ''&'' \<notin> set (QueryEscape s)" "CHR ''='' \<notin> set (QueryEscape s)" "CHR '';'' \<notin> set (QueryEscape s)"
  using escape_plain by (fastforce simp: unreserved_def)+

section \<open>Query strings\<close>

type_synonym Values = "(string \<times> string) list"

definition Get :: "Values \<Rightarrow> string \<Rightarrow> string" where
  "Get v k = (case map_of v k of Some s \<Rightarrow> s | None \<Rightarrow> [])"

definition encode_pair :: "string \<times> string \<Rightarrow> string" where
  "encode_pair = (\<lambda>(k, v). QueryEscape k @ CHR ''='' # QueryEscape v)"

definition Encode :: "Values \<Rightarrow> string" where
  "Encode v = Join (map encode_pair (sort_key fst v)) ''&''"

definition parse_pair :: "string \<Rightarrow> (string \<times> string) option" where
  "parse_pair p = (let k = before (CHR ''='') p; v = (if CHR ''='' \<in> set p then after (CHR ''='') p else []) in
     case (QueryUnescape k, QueryUnescape v) of (Some k, Some v) \<Rightarrow> Some (k, v) | _ \<Rightarrow> None)"

fun parse_pairs :: "string list \<Rightarrow> Values option" where
  "parse_pairs [] = Some []"
| "parse_pairs (p # ps) = (if CHR '';'' \<in> set p then None else if p = [] then parse_pairs ps
     else case (parse_pair p, parse_pairs ps) of (Some kv, Some v) \<Rightarrow> Some (kv # v) | _ \<Rightarrow> None)"

text \<open>The values with the first error; the sources drop the values when there is one.\<close>

definition ParseQuery :: "string \<Rightarrow> Values option" where
  "ParseQuery q = parse_pairs (Split q (CHR ''&''))"

lemma parse_encode_pair [simp]: "parse_pair (encode_pair kv) = Some kv"
  by (cases kv) (simp add: encode_pair_def parse_pair_def before_append after_append)

lemma encode_pair_plain [simp]:
  "encode_pair kv \<noteq> []" "CHR '';'' \<notin> set (encode_pair kv)" "CHR ''&'' \<notin> set (encode_pair kv)"
  by (cases kv; simp add: encode_pair_def)+

lemma parse_pairs_encode: "parse_pairs (map encode_pair v) = Some v"
  by (induction v) simp_all

lemma ParseQuery_Encode: "ParseQuery (Encode v) = Some (sort_key fst v)"
proof (cases "v = []")
  case True
  then show ?thesis by (simp add: ParseQuery_def Encode_def Split_single)
next
  case False
  then have "sort_key fst v \<noteq> []" by (metis length_0_conv length_sort)
  then have "Split (Encode v) (CHR ''&'') = map encode_pair (sort_key fst v)"
    unfolding Encode_def by (intro Split_Join) auto
  then show ?thesis by (simp add: ParseQuery_def parse_pairs_encode)
qed

lemma Get_sort: "distinct (map fst v) \<Longrightarrow> Get (sort_key fst v) k = Get v k"
proof -
  assume d: "distinct (map fst v)"
  have "distinct (map fst (sort_key fst v))"
    using d by (metis distinct_map distinct_sort set_sort)
  then have "map_of (sort_key fst v) k = map_of v k"
    using d by (metis map_of_eq_Some_iff not_Some_eq set_sort)
  then show ?thesis by (simp add: Get_def)
qed

end
