(* ===== verification/Oidc.thy ===== *)
theory Oidc
  imports UserService GoUrl
begin

text \<open>
  The OpenID Connect provider: \<open>internal/oidc/repository.go\<close>, \<open>id_token.go\<close>, the key functions and
  the string helpers of \<open>service.go\<close>.
\<close>

section \<open>Strings\<close>

text \<open>\<open>strings.Trim\<close> of double quotes and \<open>strings.Fields\<close>, on ASCII white space.\<close>

definition TrimQuotes :: "string \<Rightarrow> string" where
  "TrimQuotes s = rev (dropWhile (\<lambda>c. c = CHR 0x22) (rev (dropWhile (\<lambda>c. c = CHR 0x22) s)))"

fun fields_acc :: "string \<Rightarrow> string \<Rightarrow> string list" where
  "fields_acc acc [] = (if acc = [] then [] else [rev acc])"
| "fields_acc acc (c # s) =
     (if is_space c then (if acc = [] then fields_acc [] s else rev acc # fields_acc [] s) else fields_acc (c # acc) s)"

definition Fields :: "string \<Rightarrow> string list" where
  "Fields s = fields_acc [] s"

definition in_csv :: "string \<Rightarrow> string \<Rightarrow> bool" where
  "in_csv csv x \<longleftrightarrow> list_ex (\<lambda>s. TrimSpace s = x) (Split csv (CHR '',''))"

definition containsScope :: "string \<Rightarrow> string \<Rightarrow> bool" where
  "containsScope allowedCSV scope = in_csv allowedCSV scope"

definition containsGrantType :: "string \<Rightarrow> string \<Rightarrow> bool" where
  "containsGrantType allowedCSV grantType = in_csv allowedCSV grantType"

definition sliceContains :: "string list \<Rightarrow> string \<Rightarrow> bool" where
  "sliceContains slice val = list_ex (\<lambda>s. TrimSpace s = val) slice"

definition isRedirectURIAllowed :: "string \<Rightarrow> string \<Rightarrow> bool" where
  "isRedirectURIAllowed allowedJSON redirectURI =
     (if allowedJSON = [] \<or> redirectURI = [] then False else
      let s = TrimSpace allowedJSON in
      if 2 \<le> length s \<and> hd s = CHR ''['' \<and> last s = CHR '']''
      then list_ex (\<lambda>part. TrimQuotes (TrimSpace part) = redirectURI) (Split (butlast (tl s)) (CHR '',''))
      else TrimSpace s = redirectURI)"

definition IsRedirectURIAllowed :: "string \<Rightarrow> string \<Rightarrow> bool" where
  "IsRedirectURIAllowed = isRedirectURIAllowed"

section \<open>What the provider is wired to\<close>

text \<open>Claims of an ID token; optional ones are left out of the token when they are empty.\<close>

record id_claims =
  id_Issuer :: string
  id_Subject :: string
  id_Audience :: string
  id_IssuedAt :: instant
  id_ExpiresAt :: instant
  id_Nonce :: string
  id_AtHash :: string
  id_Name :: string
  id_GivenName :: string
  id_FamilyName :: string
  id_Picture :: string
  id_Locale :: string
  id_Email :: string
  id_EmailVerified :: bool
  id_Roles :: "string list"

text \<open>
  Cryptography and encodings of the library are parameters: \<open>s256 v\<close> and \<open>at_hash t\<close> are base64 of
  SHA-256 and of half of it, \<open>hmac p\<close> the base64 HMAC under the JWT secret, \<open>oe_hex n\<close> the \<open>n\<close>-th
  random draw in hex, RSA keys are their PEM text, \<open>rsa_ok\<close> says which text is one, \<open>rsa_n\<close> and
  \<open>rsa_e\<close> are its public numbers in base64.
  \<open>basic_auth\<close> decodes an \<open>Authorization\<close> header, \<open>url_ok\<close> says what \<open>url.Parse\<close> takes.
\<close>

record oidc_env =
  oe_user :: user_env
  oe_clients :: "OIDCClient table_api"
  oe_codes :: "OIDCAuthCode table_api"
  roleLookup :: "string \<Rightarrow> string \<Rightarrow> (uworld, string + string list) state"
  oe_hex :: "nat \<Rightarrow> string"
  s256 :: "string \<Rightarrow> string"
  at_hash :: "string \<Rightarrow> string"
  hmac :: "string \<Rightarrow> string"
  rsa_new :: "nat \<Rightarrow> string option"
  rsa_ok :: "string \<Rightarrow> bool"
  rsa_n :: "string \<Rightarrow> string"
  rsa_e :: "string \<Rightarrow> string"
  sign_id :: "string \<Rightarrow> string \<Rightarrow> id_claims \<Rightarrow> string option"
  parse_id :: "string \<Rightarrow> instant \<Rightarrow> string \<Rightarrow> id_claims option"
  basic_auth :: "string \<Rightarrow> (string \<times> string) option"
  url_ok :: "string \<Rightarrow> bool"
  GroupLogoutFunc :: "(string \<Rightarrow> string \<Rightarrow> (uworld, unit) state) option"
  PUBLIC_URL :: string
  OIDC_AUTH_CODE_EXPIRATION_MINUTES :: int
  OIDC_ID_TOKEN_EXPIRATION_MINUTES :: int

abbreviation oe_redis :: "oidc_env \<Rightarrow> redis_api" where "oe_redis X \<equiv> ue_redis (oe_user X)"
abbreviation oe_jwt :: "oidc_env \<Rightarrow> jwt_env" where "oe_jwt X \<equiv> ue_jwt (oe_user X)"

section \<open>\<open>repository.go\<close>\<close>

definition GetApplication :: "oidc_env \<Rightarrow> string \<Rightarrow> (uworld, dberr + Application) state" where
  "GetApplication X appID = apps (t_first (ue_apps (oe_user X)) (\<lambda>a. a_ID a = appID))"

definition SaveRSAPrivateKey :: "oidc_env \<Rightarrow> string \<Rightarrow> string \<Rightarrow> (uworld, dberr option) state" where
  "SaveRSAPrivateKey X appID pemKey =
     apps (t_update (ue_apps (oe_user X)) (\<lambda>a. a_ID a = appID) (\<lambda>a. a\<lparr>OIDCRSAPrivateKey := pemKey\<rparr>))"

text \<open>
  \<open>Create\<close> gives the columns whose value is zero their defaults, and sets them in the struct too:
  the flags for consent, secrecy and activity cannot be created false.
\<close>

definition with_client_defaults :: "string \<Rightarrow> OIDCClient \<Rightarrow> OIDCClient" where
  "with_client_defaults newID c = c\<lparr>oc_ID := newID,
     RedirectURIs := (if RedirectURIs c = [] then ''[]'' else RedirectURIs c),
     AllowedGrantTypes := (if AllowedGrantTypes c = [] then ''authorization_code,refresh_token'' else AllowedGrantTypes c),
     AllowedScopes := (if AllowedScopes c = [] then ''openid profile email'' else AllowedScopes c),
     RequireConsent := True, IsConfidential := True,
     oc_LoginTheme := (if oc_LoginTheme c = [] then ''auto'' else oc_LoginTheme c), oc_IsActive := True\<rparr>"

definition repo_CreateClient :: "oidc_env \<Rightarrow> OIDCClient \<Rightarrow> (uworld, dberr + OIDCClient) state" where
  "repo_CreateClient X client = do {
     newID \<leftarrow> new_uuid (oe_user X);
     let row = with_client_defaults newID client;
     err \<leftarrow> clients_of (t_create (oe_clients X) row);
     ret (case err of Some e \<Rightarrow> Inl e | None \<Rightarrow> Inr row) }"

definition GetClientByID :: "oidc_env \<Rightarrow> string \<Rightarrow> (uworld, dberr + OIDCClient) state" where
  "GetClientByID X i = clients_of (t_first (oe_clients X) (\<lambda>c. oc_ID c = i))"

definition GetClientByClientID :: "oidc_env \<Rightarrow> string \<Rightarrow> (uworld, dberr + OIDCClient) state" where
  "GetClientByClientID X clientID = clients_of (t_first (oe_clients X) (\<lambda>c. oc_ClientID c = clientID))"

text \<open>In order of creation, which is the order of the table.\<close>

definition ListClientsByApp :: "oidc_env \<Rightarrow> string \<Rightarrow> (uworld, dberr + OIDCClient list) state" where
  "ListClientsByApp X appID = clients_of (t_find (oe_clients X) (\<lambda>c. oc_AppID c = appID) (\<lambda>_. 0))"

text \<open>\<open>Save\<close>, as for users: all columns of the row with the id, or a new row.\<close>

definition repo_UpdateClient :: "oidc_env \<Rightarrow> OIDCClient \<Rightarrow> (uworld, dberr option) state" where
  "repo_UpdateClient X client = clients_of (do {
     rows \<leftarrow> State_Monad.get;
     (if list_ex (\<lambda>c. oc_ID c = oc_ID client) rows
      then t_update (oe_clients X) (\<lambda>c. oc_ID c = oc_ID client) (\<lambda>_. client)
      else t_create (oe_clients X) client) })"

definition repo_DeleteClient :: "oidc_env \<Rightarrow> string \<Rightarrow> (uworld, dberr option) state" where
  "repo_DeleteClient X i = clients_of (t_delete (oe_clients X) (\<lambda>c. oc_ID c = i))"

definition CreateAuthCode :: "oidc_env \<Rightarrow> OIDCAuthCode \<Rightarrow> (uworld, dberr + OIDCAuthCode) state" where
  "CreateAuthCode X code = do {
     newID \<leftarrow> new_uuid (oe_user X);
     let row = code\<lparr>ac_ID := newID\<rparr>;
     err \<leftarrow> codes_of (t_create (oe_codes X) row);
     ret (case err of Some e \<Rightarrow> Inl e | None \<Rightarrow> Inr row) }"

definition GetAuthCode :: "oidc_env \<Rightarrow> string \<Rightarrow> (uworld, dberr + OIDCAuthCode) state" where
  "GetAuthCode X code = codes_of (t_first (oe_codes X) (\<lambda>a. ac_Code a = code))"

definition MarkAuthCodeUsed :: "oidc_env \<Rightarrow> string \<Rightarrow> (uworld, dberr option) state" where
  "MarkAuthCodeUsed X i = codes_of (t_update (oe_codes X) (\<lambda>a. ac_ID a = i) (\<lambda>a. a\<lparr>ac_Used := True\<rparr>))"

definition DeleteExpiredAuthCodes :: "oidc_env \<Rightarrow> (uworld, dberr option) state" where
  "DeleteExpiredAuthCodes X = do {
     now \<leftarrow> rds time_now;
     codes_of (t_delete (oe_codes X) (\<lambda>a. ac_ExpiresAt a < now)) }"

definition oidc_GetUserByID :: "oidc_env \<Rightarrow> string \<Rightarrow> (uworld, dberr + User) state" where
  "oidc_GetUserByID X i = usr (t_first (ue_users (oe_user X)) (with_id i))"

definition oidc_GetUserByEmail :: "oidc_env \<Rightarrow> string \<Rightarrow> string \<Rightarrow> (uworld, dberr + User) state" where
  "oidc_GetUserByEmail X appID email = usr (t_first (ue_users (oe_user X)) (with_email appID email))"

section \<open>Keys and ID tokens\<close>

definition stored_key :: "oidc_env \<Rightarrow> string \<Rightarrow> string + string" where
  "stored_key X pem = (if rsa_ok X pem then Inr pem else Inl ''parse stored rsa key'')"

text \<open>The second read is under a lock that other requests for a key wait for.\<close>

definition GetOrCreateRSAKey :: "oidc_env \<Rightarrow> string \<Rightarrow> (uworld, string + string) state" where
  "GetOrCreateRSAKey X appID = do {
     res \<leftarrow> GetApplication X appID;
     case res of Inl e \<Rightarrow> ret (Inl ''get application'') | Inr app \<Rightarrow>
     if OIDCRSAPrivateKey app \<noteq> [] then ret (stored_key X (OIDCRSAPrivateKey app)) else do {
     res \<leftarrow> GetApplication X appID;
     case res of Inl e \<Rightarrow> ret (Inl ''get application (locked)'') | Inr app \<Rightarrow>
     if OIDCRSAPrivateKey app \<noteq> [] then ret (stored_key X (OIDCRSAPrivateKey app)) else do {
     key \<leftarrow> draw (rsa_new X);
     case key of None \<Rightarrow> ret (Inl ''generate rsa key'') | Some pem \<Rightarrow> do {
     err \<leftarrow> SaveRSAPrivateKey X appID pem;
     ret (case err of Some e \<Rightarrow> Inl ''save rsa key'' | None \<Rightarrow> Inr pem) } } } }"

definition IssuerURL :: "oidc_env \<Rightarrow> Application \<Rightarrow> string" where
  "IssuerURL X app = (if OIDCIssuerURL app \<noteq> [] then OIDCIssuerURL app
     else TrimRightSlash (PUBLIC_URL X) @ ''/oidc/'' @ a_ID app)"

record MintIDTokenParams =
  mp_Issuer :: string
  mp_Audience :: string
  mp_User :: User
  mp_Roles :: "string list"
  mp_Scopes :: "string list"
  mp_Nonce :: string
  mp_AccessToken :: string
  mp_TTL :: duration
  mp_Kid :: string
  mp_Key :: string

definition MintIDToken :: "oidc_env \<Rightarrow> MintIDTokenParams \<Rightarrow> (redis, string + string) state" where
  "MintIDToken X p = do {
     now \<leftarrow> time_now;
     let date = NewNumericDate (je_api (oe_jwt X));
     let has = (\<lambda>s. list_ex (\<lambda>t. TrimSpace t = s) (mp_Scopes p));
     let u = mp_User p;
     let claims = \<lparr>id_Issuer = mp_Issuer p, id_Subject = u_ID u, id_Audience = mp_Audience p, id_IssuedAt = date now,
         id_ExpiresAt = date (now + mp_TTL p), id_Nonce = mp_Nonce p,
         id_AtHash = (if mp_AccessToken p \<noteq> [] then at_hash X (mp_AccessToken p) else []),
         id_Name = (if has ''profile'' then u_Name u else []), id_GivenName = (if has ''profile'' then u_FirstName u else []),
         id_FamilyName = (if has ''profile'' then u_LastName u else []),
         id_Picture = (if has ''profile'' then u_ProfilePicture u else []),
         id_Locale = (if has ''profile'' then u_Locale u else []), id_Email = (if has ''email'' then u_Email u else []),
         id_EmailVerified = (has ''email'' \<and> u_EmailVerified u), id_Roles = (if has ''roles'' then mp_Roles p else [])\<rparr>;
     ret (case sign_id X (mp_Key p) (mp_Kid p) claims of None \<Rightarrow> Inl ''sign id token'' | Some t \<Rightarrow> Inr t) }"

definition ParseIDToken :: "oidc_env \<Rightarrow> string \<Rightarrow> string \<Rightarrow> (redis, string + id_claims) state" where
  "ParseIDToken X tokenStr key = do {
     now \<leftarrow> time_now;
     ret (case parse_id X key now tokenStr of None \<Rightarrow> Inl ''invalid id token'' | Some c \<Rightarrow> Inr c) }"

end
