(* ===== verification/OidcService.thy ===== *)
theory OidcService
  imports Oidc
begin

text \<open>
  \<open>internal/oidc/service.go\<close>: relying parties, authorization codes and their exchange, tokens.  Errors
  are their texts; a quoted value in one is left out.  \<open>crypto/rand\<close> does not fail.
\<close>

definition err_text :: "dberr \<Rightarrow> string" where
  "err_text e = (case e of NotFound \<Rightarrow> ''record not found'' | DBFail s \<Rightarrow> s)"

definition quoted :: "string \<Rightarrow> string" where
  "quoted s = CHR 0x27 # s @ [CHR 0x27]"

section \<open>Relying parties\<close>

definition generateClientID :: "oidc_env \<Rightarrow> (uworld, string) state" where
  "generateClientID X = draw (oe_hex X)"

definition generateClientSecret :: "oidc_env \<Rightarrow> (uworld, string + (string \<times> string)) state" where
  "generateClientSecret X = do {
     plain \<leftarrow> draw (oe_hex X);
     hashed \<leftarrow> draw (\<lambda>n. GenerateHash (ue_hash (oe_user X)) n plain);
     ret (case hashed of Inl e \<Rightarrow> Inl e | Inr h \<Rightarrow> Inr (plain, h)) }"

text \<open>What the caller asks for, as a client without id and credentials.\<close>

definition CreateClient :: "oidc_env \<Rightarrow> OIDCClient \<Rightarrow> (uworld, string + (OIDCClient \<times> string)) state" where
  "CreateClient X req = do {
     clientID \<leftarrow> generateClientID X;
     res \<leftarrow> generateClientSecret X;
     case res of Inl e \<Rightarrow> ret (Inl ''generate client secret'') | Inr (plainSecret, hash) \<Rightarrow> do {
     let client = req\<lparr>oc_ClientID := clientID, ClientSecretHash := hash,
           oc_LoginTheme := (if oc_LoginTheme req = [] then ''auto'' else oc_LoginTheme req), oc_IsActive := True\<rparr>;
     res \<leftarrow> repo_CreateClient X client;
     ret (case res of Inl e \<Rightarrow> Inl ''create oidc client'' | Inr client \<Rightarrow> Inr (client, plainSecret)) } }"

definition GetClient :: "oidc_env \<Rightarrow> string \<Rightarrow> (uworld, dberr + OIDCClient) state" where
  "GetClient X i = GetClientByID X i"

definition ListClients :: "oidc_env \<Rightarrow> string \<Rightarrow> (uworld, dberr + OIDCClient list) state" where
  "ListClients X appID = ListClientsByApp X appID"

text \<open>A partial update: empty strings and nil pointers keep the old value, the colour is always taken.\<close>

record UpdateOIDCClientRequest =
  uc_Name :: string
  uc_Description :: string
  uc_RedirectURIs :: string
  uc_AllowedGrantTypes :: string
  uc_AllowedScopes :: string
  uc_LogoURL :: string
  uc_LoginTheme :: string
  uc_LoginPrimaryColor :: string
  uc_RequireConsent :: "bool option"
  uc_IsConfidential :: "bool option"
  uc_PKCERequired :: "bool option"
  uc_IsActive :: "bool option"

definition or_old :: "string \<Rightarrow> string \<Rightarrow> string" where
  "or_old new old = (if new \<noteq> [] then new else old)"

definition with_update :: "UpdateOIDCClientRequest \<Rightarrow> OIDCClient \<Rightarrow> OIDCClient" where
  "with_update u c = c\<lparr>oc_Name := or_old (uc_Name u) (oc_Name c),
     oc_Description := or_old (uc_Description u) (oc_Description c),
     RedirectURIs := or_old (uc_RedirectURIs u) (RedirectURIs c),
     AllowedGrantTypes := or_old (uc_AllowedGrantTypes u) (AllowedGrantTypes c),
     AllowedScopes := or_old (uc_AllowedScopes u) (AllowedScopes c),
     LogoURL := or_old (uc_LogoURL u) (LogoURL c),
     oc_LoginTheme := or_old (uc_LoginTheme u) (oc_LoginTheme c),
     oc_LoginPrimaryColor := uc_LoginPrimaryColor u,
     RequireConsent := case_option (RequireConsent c) (\<lambda>b. b) (uc_RequireConsent u),
     IsConfidential := case_option (IsConfidential c) (\<lambda>b. b) (uc_IsConfidential u),
     PKCERequired := case_option (PKCERequired c) (\<lambda>b. b) (uc_PKCERequired u),
     oc_IsActive := case_option (oc_IsActive c) (\<lambda>b. b) (uc_IsActive u)\<rparr>"

definition UpdateClient ::
    "oidc_env \<Rightarrow> string \<Rightarrow> UpdateOIDCClientRequest \<Rightarrow> (uworld, dberr + OIDCClient) state" where
  "UpdateClient X i u = do {
     res \<leftarrow> GetClientByID X i;
     case res of Inl e \<Rightarrow> ret (Inl e) | Inr c \<Rightarrow> do {
     let client = with_update u c;
     err \<leftarrow> repo_UpdateClient X client;
     ret (case err of Some e \<Rightarrow> Inl e | None \<Rightarrow> Inr client) } }"

definition DeleteClient :: "oidc_env \<Rightarrow> string \<Rightarrow> (uworld, dberr option) state" where
  "DeleteClient X i = repo_DeleteClient X i"

definition RotateClientSecret :: "oidc_env \<Rightarrow> string \<Rightarrow> (uworld, string + (OIDCClient \<times> string)) state" where
  "RotateClientSecret X i = do {
     res \<leftarrow> GetClientByID X i;
     case res of Inl e \<Rightarrow> ret (Inl (err_text e)) | Inr c \<Rightarrow> do {
     res \<leftarrow> generateClientSecret X;
     case res of Inl e \<Rightarrow> ret (Inl ''generate secret'') | Inr (plain, hash) \<Rightarrow> do {
     let client = c\<lparr>ClientSecretHash := hash\<rparr>;
     err \<leftarrow> repo_UpdateClient X client;
     ret (case err of Some e \<Rightarrow> Inl (err_text e) | None \<Rightarrow> Inr (client, plain)) } } }"

section \<open>Authorization codes\<close>

definition ValidateAuthRequest ::
    "oidc_env \<Rightarrow> string \<Rightarrow> string \<Rightarrow> string \<Rightarrow> string list \<Rightarrow> string \<Rightarrow> (uworld, string + OIDCClient) state" where
  "ValidateAuthRequest X clientID redirectURI responseType scopes codeChallenge = do {
     res \<leftarrow> GetClientByClientID X clientID;
     ret (case res of Inl e \<Rightarrow> Inl (if e = NotFound then ''unknown client_id'' else err_text e) | Inr client \<Rightarrow>
       if \<not> oc_IsActive client then Inl ''client is disabled''
       else if responseType \<noteq> ''code'' then Inl (''unsupported response_type: only '' @ quoted ''code'' @ '' is supported'')
       else if \<not> isRedirectURIAllowed (RedirectURIs client) redirectURI then Inl ''redirect_uri not allowed''
       else if \<not> containsScope (AllowedScopes client) ''openid'' \<or> \<not> sliceContains scopes ''openid''
       then Inl (''scope must include '' @ quoted ''openid'')
       else if list_ex (\<lambda>s. \<not> containsScope (AllowedScopes client) s) scopes
       then Inl ''scope is not allowed for this client''
       else if \<not> IsConfidential client \<and> codeChallenge = [] then Inl ''code_challenge required for public clients''
       else Inr client) }"

definition code_ttl :: "oidc_env \<Rightarrow> duration" where
  "code_ttl X = (let ttl = wrap64 (minute * OIDC_AUTH_CODE_EXPIRATION_MINUTES X) in if ttl = 0 then 10 * minute else ttl)"

definition IssueAuthCode ::
    "oidc_env \<Rightarrow> string \<Rightarrow> string \<Rightarrow> string \<Rightarrow> string \<Rightarrow> string \<Rightarrow> string \<Rightarrow> string \<Rightarrow> string \<Rightarrow>
     (uworld, dberr + OIDCAuthCode) state" where
  "IssueAuthCode X appID clientID userID redirectURI scopeStr nonce codeChallenge codeChallengeMethod = do {
     code \<leftarrow> draw (oe_hex X);
     now \<leftarrow> rds time_now;
     CreateAuthCode X \<lparr>ac_ID = [], ac_AppID = appID, ac_ClientID = clientID, ac_UserID = userID, ac_Code = code,
       ac_RedirectURI = redirectURI, ac_Scopes = scopeStr, ac_Nonce = nonce, ac_CodeChallenge = codeChallenge,
       ac_CodeChallengeMethod = codeChallengeMethod, ac_ExpiresAt = now + code_ttl X, ac_Used = False\<rparr> }"

text \<open>\<open>strings.ToUpper\<close> gives \<open>S256\<close> on these three strings: the long s is the letter s in upper case too.\<close>

definition is_S256 :: "string \<Rightarrow> bool" where
  "is_S256 m \<longleftrightarrow> m = ''S256'' \<or> m = ''s256'' \<or> m = CHR 0xC5 # CHR 0xBF # ''256''"

definition verifyPKCE :: "oidc_env \<Rightarrow> string \<Rightarrow> string \<Rightarrow> string \<Rightarrow> bool" where
  "verifyPKCE X challenge m verifier = (if is_S256 m then s256 X verifier = challenge else False)"

definition code_error :: "oidc_env \<Rightarrow> OIDCAuthCode \<Rightarrow> instant \<Rightarrow> string \<Rightarrow> string \<Rightarrow> string \<Rightarrow> string option" where
  "code_error X ac now clientID redirectURI codeVerifier =
     (if ac_Used ac then Some ''invalid_grant: code already used''
      else if ac_ExpiresAt ac < now then Some ''invalid_grant: code expired''
      else if ac_ClientID ac \<noteq> clientID then Some ''invalid_grant: client_id mismatch''
      else if ac_RedirectURI ac \<noteq> redirectURI then Some ''invalid_grant: redirect_uri mismatch''
      else if ac_CodeChallenge ac \<noteq> [] then
        (if codeVerifier = [] then Some ''invalid_grant: code_verifier required''
         else if \<not> verifyPKCE X (ac_CodeChallenge ac) (ac_CodeChallengeMethod ac) codeVerifier
         then Some ''invalid_grant: code_verifier mismatch'' else None)
      else None)"

definition ExchangeCode ::
    "oidc_env \<Rightarrow> string \<Rightarrow> string \<Rightarrow> string \<Rightarrow> string \<Rightarrow> (uworld, string + (OIDCAuthCode \<times> User)) state" where
  "ExchangeCode X code clientID redirectURI codeVerifier = do {
     res \<leftarrow> GetAuthCode X code;
     case res of Inl e \<Rightarrow> ret (Inl (if e = NotFound then ''invalid_grant: code not found'' else err_text e)) | Inr ac \<Rightarrow> do {
     now \<leftarrow> rds time_now;
     case code_error X ac now clientID redirectURI codeVerifier of Some e \<Rightarrow> ret (Inl e) | None \<Rightarrow> do {
     err \<leftarrow> MarkAuthCodeUsed X (ac_ID ac);
     case err of Some e \<Rightarrow> ret (Inl (''mark code used: '' @ err_text e)) | None \<Rightarrow> do {
     res \<leftarrow> oidc_GetUserByID X (ac_UserID ac);
     ret (case res of Inl e \<Rightarrow> Inl (''load user: '' @ err_text e) | Inr user \<Rightarrow> Inr (ac, user)) } } } }"

section \<open>Tokens\<close>

definition oidc_session_ttl :: "oidc_env \<Rightarrow> duration \<Rightarrow> duration" where
  "oidc_session_ttl X refreshTTL = (if 0 < refreshTTL then refreshTTL
     else if 0 < DefaultRefreshTokenTTL (oe_jwt X) then DefaultRefreshTokenTTL (oe_jwt X) else 720 * hour)"

definition expires_in :: "oidc_env \<Rightarrow> duration \<Rightarrow> int" where
  "expires_in X accessTTL = (if 0 < accessTTL div second then accessTTL div second
     else if 0 < je_access_minutes (oe_jwt X) * 60 then je_access_minutes (oe_jwt X) * 60 else 900)"

definition id_token_seconds :: "oidc_env \<Rightarrow> Application \<Rightarrow> int" where
  "id_token_seconds X app = (if 0 < OIDCIDTokenTTL app then OIDCIDTokenTTL app
     else if 0 < OIDC_ID_TOKEN_EXPIRATION_MINUTES X * 60 then OIDC_ID_TOKEN_EXPIRATION_MINUTES X * 60 else 3600)"

record minted =
  mt_access :: string
  mt_refresh :: string
  mt_id :: string
  mt_expires :: int

definition MintTokensForUser ::
    "oidc_env \<Rightarrow> Application \<Rightarrow> OIDCClient \<Rightarrow> User \<Rightarrow> string list \<Rightarrow> string \<Rightarrow> (uworld, string + minted) state" where
  "MintTokensForUser X app client user scopes nonce = do {
     res \<leftarrow> roleLookup X (a_ID app) (u_ID user);
     let roles = (case res of Inl e \<Rightarrow> [] | Inr rs \<Rightarrow> rs);
     sessionID \<leftarrow> new_uuid (oe_user X);
     let (accessTTL, refreshTTL) = ResolveTokenTTLs (Some app);
     res \<leftarrow> rds (GenerateAccessToken (oe_jwt X) (a_ID app) (u_ID user) sessionID roles accessTTL);
     case res of Inl e \<Rightarrow> ret (Inl ''generate access token'') | Inr accessToken \<Rightarrow> do {
     res \<leftarrow> rds (GenerateRefreshToken (oe_jwt X) (a_ID app) (u_ID user) sessionID roles refreshTTL);
     case res of Inl e \<Rightarrow> ret (Inl ''generate refresh token'') | Inr refreshToken \<Rightarrow> do {
     let sessionTTL = oidc_session_ttl X refreshTTL;
     err \<leftarrow> rds (CreateSession (oe_redis X) (a_ID app) sessionID (u_ID user) refreshToken [] [] sessionTTL);
     case err of Some e \<Rightarrow> ret (Inl ''create session'') | None \<Rightarrow> do {
     rds (ignore (SetOIDCGrantedScopes (oe_redis X) (a_ID app) sessionID (Join scopes '' '') sessionTTL));
     res \<leftarrow> GetOrCreateRSAKey X (a_ID app);
     case res of Inl e \<Rightarrow> ret (Inl ''get rsa key'') | Inr rsaKey \<Rightarrow> do {
     res \<leftarrow> rds (MintIDToken X \<lparr>mp_Issuer = IssuerURL X app, mp_Audience = oc_ClientID client, mp_User = user,
       mp_Roles = roles, mp_Scopes = scopes, mp_Nonce = nonce, mp_AccessToken = accessToken,
       mp_TTL = wrap64 (id_token_seconds X app * second), mp_Kid = a_ID app, mp_Key = rsaKey\<rparr>);
     ret (case res of Inl e \<Rightarrow> Inl ''mint id token'' | Inr idToken \<Rightarrow>
       Inr \<lparr>mt_access = accessToken, mt_refresh = refreshToken, mt_id = idToken,
             mt_expires = expires_in X accessTTL\<rparr>) } } } } }"

definition ClientCredentialsGrant ::
    "oidc_env \<Rightarrow> Application \<Rightarrow> string \<Rightarrow> string \<Rightarrow> string \<Rightarrow> (uworld, string + (string \<times> int)) state" where
  "ClientCredentialsGrant X app clientID clientSecret scopeStr = do {
     res \<leftarrow> GetClientByClientID X clientID;
     case res of Inl e \<Rightarrow> ret (Inl (if e = NotFound then ''invalid_client: unknown client'' else err_text e)) | Inr client \<Rightarrow>
     if \<not> oc_IsActive client then ret (Inl ''invalid_client: client disabled'')
     else if \<not> containsGrantType (AllowedGrantTypes client) ''client_credentials''
     then ret (Inl ''unauthorized_client: grant type not allowed'')
     else if \<not> CompareHash (ue_hash (oe_user X)) (ClientSecretHash client) clientSecret
     then ret (Inl ''invalid_client: bad credentials'')
     else do {
     sessionID \<leftarrow> new_uuid (oe_user X);
     let (accessTTL, refreshTTL) = ResolveTokenTTLs (Some app);
     res \<leftarrow> rds (GenerateAccessToken (oe_jwt X) (a_ID app) (oc_ID client) sessionID [] accessTTL);
     case res of Inl e \<Rightarrow> ret (Inl ''generate access token'') | Inr accessToken \<Rightarrow> do {
     rds (ignore (CreateSession (oe_redis X) (a_ID app) sessionID (oc_ID client) [] [] [] (oidc_session_ttl X refreshTTL)));
     ret (Inr (accessToken, expires_in X accessTTL)) } } }"

definition GetUserInfo :: "oidc_env \<Rightarrow> Application \<Rightarrow> string \<Rightarrow> (uworld, string + User) state" where
  "GetUserInfo X app accessToken = do {
     res \<leftarrow> rds (ParseToken (oe_jwt X) accessToken);
     case res of Inl e \<Rightarrow> ret (Inl ''invalid_token'') | Inr c \<Rightarrow> do {
     res \<leftarrow> oidc_GetUserByID X (UserID c);
     ret (case res of Inl e \<Rightarrow> Inl ''user not found''
       | Inr user \<Rightarrow> if u_AppID user \<noteq> a_ID app then Inl ''invalid_token'' else Inr user) } }"

definition GetGrantedScopes :: "oidc_env \<Rightarrow> string \<Rightarrow> string list \<Rightarrow> (redis, string + string list) state" where
  "GetGrantedScopes X bearerToken fallback = do {
     res \<leftarrow> ParseToken (oe_jwt X) bearerToken;
     case res of Inl e \<Rightarrow> ret (Inl ''invalid_token'') | Inr c \<Rightarrow>
     if SessionID c \<noteq> [] \<and> AppID c \<noteq> [] then do {
       res \<leftarrow> GetOIDCGrantedScopes (oe_redis X) (AppID c) (SessionID c);
       ret (Inr (case res of Inr scopeStr \<Rightarrow> (if scopeStr \<noteq> [] then Fields scopeStr else fallback) | Inl e \<Rightarrow> fallback)) }
     else ret (Inr fallback) }"

end
