(* ===== verification/OidcHandler.thy ===== *)
theory OidcHandler
  imports OidcService Http
begin

text \<open>
  \<open>internal/oidc/handler.go\<close>: the endpoints of the OpenID Connect provider.  Bound forms and bodies
  are given, as for the other handlers; activity logs and metrics are left out.
\<close>

section \<open>Requests and replies\<close>

record AuthorizeRequest =
  ar_ResponseType :: string
  ar_ClientID :: string
  ar_RedirectURI :: string
  ar_Scope :: string
  ar_State :: string
  ar_Nonce :: string
  ar_CodeChallenge :: string
  ar_CodeChallengeMethod :: string

record TokenRequest =
  tr_GrantType :: string
  tr_Code :: string
  tr_RedirectURI :: string
  tr_ClientID :: string
  tr_ClientSecret :: string
  tr_CodeVerifier :: string
  tr_RefreshToken :: string
  tr_Scope :: string

record TokenResponse =
  tp_AccessToken :: string
  tp_ExpiresIn :: int
  tp_IDToken :: string
  tp_RefreshToken :: string
  tp_Scope :: string

text \<open>What the pages for login and consent show.\<close>

record page =
  pg_AppID :: string
  pg_AppName :: string
  pg_ClientName :: string
  pg_ClientLogo :: string
  pg_ConsentToken :: string
  pg_Scopes :: "string list"
  pg_UserID :: string
  pg_Error :: string
  pg_Theme :: string
  pg_PrimaryColor :: string
  pg_UITheme :: string

text \<open>A cookie by name, value, maximal age and the secure flag.\<close>

type_synonym set_cookie = "string \<times> string \<times> int \<times> bool"

text \<open>A redirect goes to a URL as it is, or to a parsed one in whose query some keys are set.\<close>

datatype location = Plain string | WithQuery string Values

text \<open>Token errors have a code and a description; the error page an application, a text and its theme.\<close>

datatype 'a oidc_reply =
    OJson int 'a
  | OStatus int
  | OError int string
  | OTokenError int string string
  | OErrorPage string string "string \<times> string"
  | OLogin page
  | OConsent page
  | OLoggedOut string "string \<times> string" "set_cookie list"
  | ORedirect location "set_cookie list"
  | OPanic string

section \<open>Helpers\<close>

definition loadApp ::
    "oidc_env \<Rightarrow> http_ctx \<Rightarrow> (Application \<Rightarrow> (uworld, 'a oidc_reply) state) \<Rightarrow> (uworld, 'a oidc_reply) state" where
  "loadApp X c body = (case parse_uuid (oe_user X) (Param c ''app_id'') of
       None \<Rightarrow> ret (OError 400 ''invalid app_id'')
     | Some appID \<Rightarrow> do {
         res \<leftarrow> GetApplication X appID;
         case res of Inl e \<Rightarrow> ret (OError 404 ''application not found'') | Inr app \<Rightarrow> body app })"

definition appTheme :: "Application \<Rightarrow> string \<times> string" where
  "appTheme app = ((if a_LoginTheme app = [] then ''auto'' else a_LoginTheme app), a_LoginPrimaryColor app)"

definition clientThemeWithOverride :: "OIDCClient \<Rightarrow> Application \<Rightarrow> string \<Rightarrow> string \<times> string" where
  "clientThemeWithOverride client app uiThemeOverride =
     (let (theme0, primaryColor) = (if oc_LoginTheme client = ''app'' then appTheme app
            else (oc_LoginTheme client, oc_LoginPrimaryColor client));
          theme = (if theme0 = [] then ''auto'' else theme0)
      in (if uiThemeOverride \<in> {''light'', ''dark'', ''auto''} then uiThemeOverride else theme, primaryColor))"

definition renderError :: "Application \<Rightarrow> string \<Rightarrow> 'a oidc_reply" where
  "renderError app msg = OErrorPage (a_ID app) msg (appTheme app)"

text \<open>The authorization request travels through the form in a signed token.\<close>

definition consent_values :: "string \<Rightarrow> AuthorizeRequest \<Rightarrow> string \<Rightarrow> int \<Rightarrow> Values" where
  "consent_values appID req rnd exp = [(''app_id'', appID), (''client_id'', ar_ClientID req),
     (''redirect_uri'', ar_RedirectURI req), (''scope'', ar_Scope req), (''state'', ar_State req),
     (''nonce'', ar_Nonce req), (''code_challenge'', ar_CodeChallenge req),
     (''code_challenge_method'', ar_CodeChallengeMethod req), (''_r'', rnd), (''_exp'', itoa exp)]"

definition consent_token :: "oidc_env \<Rightarrow> Values \<Rightarrow> string" where
  "consent_token X v = Encode v @ CHR ''.'' # hmac X (Encode v)"

definition buildConsentToken :: "oidc_env \<Rightarrow> string \<Rightarrow> AuthorizeRequest \<Rightarrow> (uworld, string) state" where
  "buildConsentToken X appID req = do {
     rnd \<leftarrow> draw (oe_hex X);
     now \<leftarrow> rds time_now;
     ret (consent_token X (consent_values appID req rnd ((now + 10 * minute) div second))) }"

definition request_of :: "Values \<Rightarrow> AuthorizeRequest" where
  "request_of v = \<lparr>ar_ResponseType = [], ar_ClientID = Get v ''client_id'', ar_RedirectURI = Get v ''redirect_uri'',
     ar_Scope = Get v ''scope'', ar_State = Get v ''state'', ar_Nonce = Get v ''nonce'',
     ar_CodeChallenge = Get v ''code_challenge'', ar_CodeChallengeMethod = Get v ''code_challenge_method''\<rparr>"

text \<open>Payload and signature, cut at the last dot.\<close>

definition cut_last_dot :: "string \<Rightarrow> (string \<times> string) option" where
  "cut_last_dot t = (if CHR ''.'' \<notin> set t then None
     else Some (rev (after (CHR ''.'') (rev t)), rev (before (CHR ''.'') (rev t))))"

definition parseConsentToken :: "oidc_env \<Rightarrow> string \<Rightarrow> (redis, string + AuthorizeRequest) state" where
  "parseConsentToken X token = (case cut_last_dot token of
       None \<Rightarrow> ret (Inl ''invalid token format'')
     | Some (payload, gotSig) \<Rightarrow>
       if gotSig \<noteq> hmac X payload then ret (Inl ''invalid token signature'')
       else case ParseQuery payload of None \<Rightarrow> ret (Inl ''invalid token params'')
       | Some v \<Rightarrow> if Get v ''_exp'' = [] then ret (Inr (request_of v)) else do {
           now \<leftarrow> time_now;
           ret (case atoi (Get v ''_exp'') of None \<Rightarrow> Inl ''consent token expired''
             | Some exp \<Rightarrow> if exp < now div second then Inl ''consent token expired'' else Inr (request_of v)) })"

definition cookie_name :: "string \<Rightarrow> string" where
  "cookie_name appID = ''oidc_session_'' @ appID"

definition sessionUserID :: "oidc_env \<Rightarrow> http_ctx \<Rightarrow> string \<Rightarrow> (redis, string) state" where
  "sessionUserID X c appID = (case Cookie c (cookie_name appID) of
       None \<Rightarrow> ret []
     | Some val \<Rightarrow> if val = [] then ret [] else do {
         res \<leftarrow> GetOIDCBrowserSession (oe_redis X) appID val;
         ret (case res of Inl e \<Rightarrow> [] | Inr userID \<Rightarrow> userID) })"

definition browserSessionTTL :: duration where
  "browserSessionTTL = 3600 * second"

text \<open>The result of the second \<open>url.Parse\<close> is used without a check.\<close>

definition issueCodeAndRedirectForUser ::
    "oidc_env \<Rightarrow> Application \<Rightarrow> OIDCClient \<Rightarrow> string \<Rightarrow> AuthorizeRequest \<Rightarrow> (uworld, 'a oidc_reply) state" where
  "issueCodeAndRedirectForUser X app client userID req = (case parse_uuid (oe_user X) userID of
       None \<Rightarrow> ret (renderError app ''invalid user session'')
     | Some uid \<Rightarrow> do {
         res \<leftarrow> IssueAuthCode X (a_ID app) (oc_ClientID client) uid (ar_RedirectURI req) (ar_Scope req) (ar_Nonce req)
                 (ar_CodeChallenge req) (ar_CodeChallengeMethod req);
         case res of Inl e \<Rightarrow> ret (renderError app ''failed to issue authorization code'') | Inr ac \<Rightarrow> do {
         sessionToken \<leftarrow> new_uuid (oe_user X);
         err \<leftarrow> rds (SetOIDCBrowserSession (oe_redis X) (a_ID app) sessionToken userID browserSessionTTL);
         let cookies = (if err \<noteq> None then [] else [(cookie_name (a_ID app), sessionToken,
               browserSessionTTL div second, HasPrefix (PUBLIC_URL X) ''https://'')]);
         ret (if \<not> url_ok X (ar_RedirectURI req) then OPanic ''nil pointer dereference''
           else ORedirect (WithQuery (ar_RedirectURI req)
             ((''code'', ac_Code ac) # (if ar_State req \<noteq> [] then [(''state'', ar_State req)] else []))) cookies) } })"

definition issueCodeAndRedirect ::
    "oidc_env \<Rightarrow> Application \<Rightarrow> OIDCClient \<Rightarrow> string \<Rightarrow> AuthorizeRequest \<Rightarrow> string \<Rightarrow> (uworld, 'a oidc_reply) state" where
  "issueCodeAndRedirect X app client userID req consentToken = issueCodeAndRedirectForUser X app client userID req"

definition authenticateUser :: "oidc_env \<Rightarrow> Application \<Rightarrow> string \<Rightarrow> string \<Rightarrow> (uworld, string + User) state" where
  "authenticateUser X app email password = do {
     res \<leftarrow> oidc_GetUserByEmail X (a_ID app) email;
     ret (case res of Inl e \<Rightarrow> Inl ''invalid credentials'' | Inr user \<Rightarrow>
       if \<not> u_IsActive user then Inl ''account is inactive''
       else if \<not> CompareHash (ue_hash (oe_user X)) (u_PasswordHash user) password then Inl ''invalid credentials''
       else Inr user) }"

definition validateClientCredentials :: "oidc_env \<Rightarrow> string \<Rightarrow> string \<Rightarrow> (uworld, string + OIDCClient) state" where
  "validateClientCredentials X clientID clientSecret = (if clientID = [] then ret (Inl ''client_id required'') else do {
     res \<leftarrow> GetClientByClientID X clientID;
     ret (case res of Inl e \<Rightarrow> Inl ''unknown client'' | Inr client \<Rightarrow>
       if \<not> oc_IsActive client then Inl ''client is disabled''
       else if IsConfidential client \<and> clientSecret = [] then Inl ''client_secret required''
       else if IsConfidential client \<and> \<not> CompareHash (ue_hash (oe_user X)) (ClientSecretHash client) clientSecret
       then Inl ''invalid client_secret'' else Inr client) })"

definition redirectWithError :: "oidc_env \<Rightarrow> string \<Rightarrow> string \<Rightarrow> string \<Rightarrow> string \<Rightarrow> 'a oidc_reply" where
  "redirectWithError X redirectURI st errCode errDesc = (if \<not> url_ok X redirectURI then OError 400 errDesc
     else ORedirect (WithQuery redirectURI ([(''error'', errCode), (''error_description'', errDesc)] @
       (if st \<noteq> [] then [(''state'', st)] else []))) [])"

text \<open>Second factor: the browser is sent on with a token for a pending login; used at three places.\<close>

definition redirect_2fa :: "oidc_env \<Rightarrow> Application \<Rightarrow> string \<Rightarrow> string \<Rightarrow> (uworld, 'a oidc_reply) state" where
  "redirect_2fa X app userID redirectURI = do {
     tempToken \<leftarrow> new_uuid (oe_user X);
     err \<leftarrow> rds (SetTempUserSession (oe_redis X) (a_ID app) tempToken userID (10 * minute));
     ret (case err of Some e \<Rightarrow> renderError app ''Failed to create 2FA session''
       | None \<Rightarrow> ORedirect (Plain (redirectURI @ ''?temp_token='' @ QueryEscape tempToken @ ''&requires_2fa=true'')) []) }"

definition page_for :: "Application \<Rightarrow> OIDCClient \<Rightarrow> string \<Rightarrow> string \<Rightarrow> string \<Rightarrow> string list \<Rightarrow> string \<Rightarrow> string \<Rightarrow> page" where
  "page_for app client uiOverride uiShown consentToken scopes userID err =
     (let (theme, primaryColor) = clientThemeWithOverride client app uiOverride in
      \<lparr>pg_AppID = a_ID app, pg_AppName = a_Name app, pg_ClientName = oc_Name client, pg_ClientLogo = LogoURL client,
       pg_ConsentToken = consentToken, pg_Scopes = scopes, pg_UserID = userID, pg_Error = err, pg_Theme = theme,
       pg_PrimaryColor = primaryColor, pg_UITheme = uiShown\<rparr>)"

section \<open>Authorization\<close>

definition Authorize ::
    "oidc_env \<Rightarrow> string + AuthorizeRequest \<Rightarrow> http_ctx \<Rightarrow> (uworld, unit oidc_reply) state" where
  "Authorize X body c = loadApp X c (\<lambda>app.
     if \<not> OIDCEnabled app then ret (renderError app ''OIDC is not enabled for this application'') else
     case body of Inl e \<Rightarrow> ret (renderError app ''invalid request parameters'') | Inr req \<Rightarrow> do {
     let scopes = Fields (ar_Scope req);
     res \<leftarrow> ValidateAuthRequest X (ar_ClientID req) (ar_RedirectURI req) (ar_ResponseType req) scopes (ar_CodeChallenge req);
     case res of Inl e \<Rightarrow> ret (renderError app e) | Inr client \<Rightarrow> do {
     consentToken \<leftarrow> buildConsentToken X (a_ID app) req;
     userID \<leftarrow> rds (sessionUserID X c (a_ID app));
     let page = page_for app client (Query c ''ui_theme'') [] consentToken scopes;
     if userID = [] then ret (OLogin (page [] []))
     else if \<not> RequireConsent client then do {
       res \<leftarrow> oidc_GetUserByID X userID;
       (if (case res of Inr user \<Rightarrow> u_TwoFAEnabled user | Inl e \<Rightarrow> False)
        then redirect_2fa X app userID (ar_RedirectURI req)
        else issueCodeAndRedirect X app client userID req consentToken) }
     else ret (OConsent (page userID [])) } })"

text \<open>The form has the token, and the fields of the login or of the consent page.\<close>

definition AuthorizeSubmit :: "oidc_env \<Rightarrow> string + string \<Rightarrow> http_ctx \<Rightarrow> (uworld, unit oidc_reply) state" where
  "AuthorizeSubmit X body c = loadApp X c (\<lambda>app.
     if \<not> OIDCEnabled app then ret (renderError app ''OIDC is not enabled for this application'') else
     case body of Inl e \<Rightarrow> ret (renderError app ''missing form data'') | Inr consentToken \<Rightarrow> do {
     res \<leftarrow> rds (parseConsentToken X consentToken);
     case res of Inl e \<Rightarrow> ret (renderError app ''invalid or expired session token'') | Inr origReq \<Rightarrow> do {
     res \<leftarrow> GetClientByClientID X (ar_ClientID origReq);
     case res of Inl e \<Rightarrow> ret (renderError app ''unknown client'') | Inr client \<Rightarrow> do {
     let email = PostForm c ''email'';
     let password = PostForm c ''password'';
     let postUITheme = PostForm c ''ui_theme'';
     let page = page_for app client postUITheme postUITheme consentToken (Fields (ar_Scope origReq));
     if email \<noteq> [] \<and> password \<noteq> [] then do {
       res \<leftarrow> authenticateUser X app email password;
       case res of Inl e \<Rightarrow> ret (OLogin (page [] ''Invalid email or password'')) | Inr user \<Rightarrow>
       if u_TwoFAEnabled user then redirect_2fa X app (u_ID user) (ar_RedirectURI origReq)
       else if \<not> RequireConsent client then issueCodeAndRedirectForUser X app client (u_ID user) origReq
       else ret (OConsent (page (u_ID user) [])) }
     else do {
     let userID = PostForm c ''user_id'';
     if PostForm c ''action'' = ''deny''
     then ret (redirectWithError X (ar_RedirectURI origReq) (ar_State origReq) ''access_denied'' ''User denied access'')
     else do {
     res \<leftarrow> oidc_GetUserByID X userID;
     (if (case res of Inr user \<Rightarrow> u_TwoFAEnabled user | Inl e \<Rightarrow> False)
      then redirect_2fa X app userID (ar_RedirectURI origReq)
      else issueCodeAndRedirectForUser X app client userID origReq) } } } } })"

section \<open>Tokens\<close>

definition handleAuthCodeGrant ::
    "oidc_env \<Rightarrow> Application \<Rightarrow> TokenRequest \<Rightarrow> (uworld, TokenResponse oidc_reply) state" where
  "handleAuthCodeGrant X app req = do {
     res \<leftarrow> validateClientCredentials X (tr_ClientID req) (tr_ClientSecret req);
     case res of Inl e \<Rightarrow> ret (OTokenError 401 ''invalid_client'' e) | Inr client \<Rightarrow> do {
     res \<leftarrow> ExchangeCode X (tr_Code req) (tr_ClientID req) (tr_RedirectURI req) (tr_CodeVerifier req);
     case res of Inl e \<Rightarrow> ret (OTokenError 400 ''invalid_grant'' e) | Inr (ac, user) \<Rightarrow> do {
     res \<leftarrow> MintTokensForUser X app client user (Fields (ac_Scopes ac)) (ac_Nonce ac);
     ret (case res of Inl e \<Rightarrow> OTokenError 500 ''server_error'' ''failed to mint tokens''
       | Inr t \<Rightarrow> OJson 200 \<lparr>tp_AccessToken = mt_access t, tp_ExpiresIn = mt_expires t, tp_IDToken = mt_id t,
           tp_RefreshToken = (if containsScope (ac_Scopes ac) ''offline_access'' then mt_refresh t else []),
           tp_Scope = ac_Scopes ac\<rparr>) } } }"

definition handleClientCredentialsGrant ::
    "oidc_env \<Rightarrow> Application \<Rightarrow> TokenRequest \<Rightarrow> (uworld, TokenResponse oidc_reply) state" where
  "handleClientCredentialsGrant X app req = do {
     res \<leftarrow> ClientCredentialsGrant X app (tr_ClientID req) (tr_ClientSecret req) (tr_Scope req);
     ret (case res of
         Inl e \<Rightarrow> OTokenError 401 (if HasPrefix e ''unauthorized_client'' then ''unauthorized_client'' else ''invalid_client'') e
       | Inr (at, n) \<Rightarrow> OJson 200 \<lparr>tp_AccessToken = at, tp_ExpiresIn = n, tp_IDToken = [], tp_RefreshToken = [],
           tp_Scope = tr_Scope req\<rparr>) }"

text \<open>\<open>None\<close>: a requested scope was not granted originally.\<close>

definition refreshed_scopes :: "string list \<Rightarrow> string list \<Rightarrow> string list option" where
  "refreshed_scopes originalScopes requestedScopes =
     (if requestedScopes = [] then
        Some (if originalScopes = [] then [''openid'', ''profile'', ''email''] else originalScopes)
      else if originalScopes \<noteq> [] \<and> list_ex (\<lambda>s. \<not> sliceContains originalScopes s) requestedScopes then None
      else Some requestedScopes)"

definition handleRefreshTokenGrant ::
    "oidc_env \<Rightarrow> Application \<Rightarrow> TokenRequest \<Rightarrow> (uworld, TokenResponse oidc_reply) state" where
  "handleRefreshTokenGrant X app req = do {
     res \<leftarrow> validateClientCredentials X (tr_ClientID req) (tr_ClientSecret req);
     case res of Inl e \<Rightarrow> ret (OTokenError 401 ''invalid_client'' e) | Inr client \<Rightarrow> do {
     res \<leftarrow> rds (ParseToken (oe_jwt X) (tr_RefreshToken req));
     case res of Inl e \<Rightarrow> ret (OTokenError 400 ''invalid_grant'' ''invalid refresh_token'') | Inr c \<Rightarrow>
     if TokenType c \<noteq> TokenTypeRefresh then ret (OTokenError 400 ''invalid_grant'' ''token is not a refresh token'')
     else do {
     (case ExpiresAt c of None \<Rightarrow> ret () | Some x \<Rightarrow> do {
        now \<leftarrow> rds time_now;
        (if 0 < x - now
         then rds (ignore (BlacklistAccessToken (oe_redis X) (a_ID app) (tr_RefreshToken req) (UserID c) (x - now)))
         else ret ()) });
     res \<leftarrow> oidc_GetUserByID X (UserID c);
     case res of Inl e \<Rightarrow> ret (OTokenError 400 ''invalid_grant'' ''user not found'') | Inr user \<Rightarrow> do {
     res \<leftarrow> rds (GetOIDCGrantedScopes (oe_redis X) (a_ID app) (SessionID c));
     let originalScopes = Fields (case res of Inl e \<Rightarrow> [] | Inr s \<Rightarrow> s);
     case refreshed_scopes originalScopes (Fields (tr_Scope req)) of
       None \<Rightarrow> ret (OTokenError 400 ''invalid_scope'' ''scope was not granted in the original authorization'')
     | Some scopes \<Rightarrow> do {
         res \<leftarrow> MintTokensForUser X app client user scopes [];
         ret (case res of Inl e \<Rightarrow> OTokenError 500 ''server_error'' ''failed to mint tokens''
           | Inr t \<Rightarrow> OJson 200 \<lparr>tp_AccessToken = mt_access t, tp_ExpiresIn = mt_expires t, tp_IDToken = mt_id t,
               tp_RefreshToken = mt_refresh t, tp_Scope = Join scopes '' ''\<rparr>) } } } } }"

text \<open>Credentials in the \<open>Authorization\<close> header replace those of the form.\<close>

definition with_basic_auth :: "oidc_env \<Rightarrow> http_ctx \<Rightarrow> TokenRequest \<Rightarrow> TokenRequest" where
  "with_basic_auth X c req = (case basic_auth X (GetHeader c ''Authorization'') of
       Some (clientID, clientSecret) \<Rightarrow> req\<lparr>tr_ClientID := clientID, tr_ClientSecret := clientSecret\<rparr>
     | None \<Rightarrow> req)"

definition Token ::
    "oidc_env \<Rightarrow> string + TokenRequest \<Rightarrow> http_ctx \<Rightarrow> (uworld, TokenResponse oidc_reply) state" where
  "Token X body c = loadApp X c (\<lambda>app.
     if \<not> OIDCEnabled app then ret (OTokenError 400 ''invalid_request'' ''OIDC is not enabled'') else
     case body of Inl e \<Rightarrow> ret (OTokenError 400 ''invalid_request'' e) | Inr form \<Rightarrow>
     let req = with_basic_auth X c form in
     if tr_GrantType req = ''authorization_code'' then handleAuthCodeGrant X app req
     else if tr_GrantType req = ''client_credentials'' then handleClientCredentialsGrant X app req
     else if tr_GrantType req = ''refresh_token'' then handleRefreshTokenGrant X app req
     else ret (OTokenError 400 ''unsupported_grant_type'' ''grant type is not supported''))"

section \<open>User information, introspection, revocation\<close>

record UserInfoResponse =
  ui_Sub :: string
  ui_Name :: string
  ui_GivenName :: string
  ui_FamilyName :: string
  ui_Picture :: string
  ui_Email :: string
  ui_EmailVerified :: bool
  ui_Locale :: string
  ui_Roles :: "string list"

definition UserInfo :: "oidc_env \<Rightarrow> http_ctx \<Rightarrow> (uworld, UserInfoResponse oidc_reply) state" where
  "UserInfo X c = loadApp X c (\<lambda>app.
     if \<not> OIDCEnabled app then ret (OError 400 ''OIDC not enabled'') else do {
     let bearer = TrimPrefix (GetHeader c ''Authorization'') ''Bearer '';
     if bearer = [] then ret (OError 401 ''missing bearer token'') else do {
     res \<leftarrow> rds (GetGrantedScopes X bearer [''openid'', ''profile'', ''email'', ''roles'']);
     case res of Inl e \<Rightarrow> ret (OError 401 e) | Inr scopes \<Rightarrow> do {
     res \<leftarrow> GetUserInfo X app bearer;
     case res of Inl e \<Rightarrow> ret (OError 401 e) | Inr user \<Rightarrow> do {
     roleNames \<leftarrow> (if sliceContains scopes ''roles'' then do {
         res \<leftarrow> roleLookup X (a_ID app) (u_ID user);
         ret (case res of Inl e \<Rightarrow> [] | Inr rs \<Rightarrow> rs) } else ret []);
     ret (OJson 200 \<lparr>ui_Sub = u_ID user, ui_Name = u_Name user, ui_GivenName = u_FirstName user,
       ui_FamilyName = u_LastName user, ui_Picture = u_ProfilePicture user, ui_Email = u_Email user,
       ui_EmailVerified = u_EmailVerified user, ui_Locale = u_Locale user, ui_Roles = roleNames\<rparr>) } } } })"

record IntrospectResponse =
  is_Active :: bool
  is_Sub :: string
  is_Exp :: int
  is_Iat :: int
  is_Iss :: string
  is_TokenType :: string

definition inactive :: IntrospectResponse where
  "inactive = \<lparr>is_Active = False, is_Sub = [], is_Exp = 0, is_Iat = 0, is_Iss = [], is_TokenType = []\<rparr>"

definition Introspect :: "oidc_env \<Rightarrow> string + string \<Rightarrow> http_ctx \<Rightarrow> (uworld, IntrospectResponse oidc_reply) state" where
  "Introspect X body c = loadApp X c (\<lambda>app.
     case body of Inl e \<Rightarrow> ret (OError 400 e) | Inr token \<Rightarrow> do {
     let (clientID, clientSecret) = (case basic_auth X (GetHeader c ''Authorization'') of
           Some (i, s) \<Rightarrow> (if i = [] then (PostForm c ''client_id'', PostForm c ''client_secret'') else (i, s))
         | None \<Rightarrow> (PostForm c ''client_id'', PostForm c ''client_secret''));
     res \<leftarrow> validateClientCredentials X clientID clientSecret;
     case res of Inl e \<Rightarrow> ret (OError 401 ''invalid_client'') | Inr _ \<Rightarrow> do {
     res \<leftarrow> rds (ParseToken (oe_jwt X) token);
     ret (case res of Inl e \<Rightarrow> OJson 200 inactive | Inr cl \<Rightarrow>
       if AppID cl \<noteq> a_ID app then OJson 200 inactive
       else OJson 200 \<lparr>is_Active = True, is_Sub = UserID cl,
         is_Exp = (case ExpiresAt cl of None \<Rightarrow> 0 | Some x \<Rightarrow> x div second),
         is_Iat = (case IssuedAt cl of None \<Rightarrow> 0 | Some x \<Rightarrow> x div second), is_Iss = IssuerURL X app,
         is_TokenType = (if TokenType cl = [] then ''Bearer'' else TokenType cl)\<rparr>) } })"

record RevokeRequest =
  rv_Token :: string
  rv_ClientID :: string
  rv_ClientSecret :: string

definition Revoke :: "oidc_env \<Rightarrow> string + RevokeRequest \<Rightarrow> http_ctx \<Rightarrow> (uworld, unit oidc_reply) state" where
  "Revoke X body c = loadApp X c (\<lambda>app.
     case body of Inl e \<Rightarrow> ret (OStatus 200) | Inr form \<Rightarrow> do {
     let (clientID, clientSecret) = (case basic_auth X (GetHeader c ''Authorization'') of
           Some (i, s) \<Rightarrow> (i, s) | None \<Rightarrow> (rv_ClientID form, rv_ClientSecret form));
     res \<leftarrow> (if clientID = [] then ret None else do {
         res \<leftarrow> validateClientCredentials X clientID clientSecret;
         ret (case res of Inl e \<Rightarrow> Some e | Inr _ \<Rightarrow> None) });
     case res of Some e \<Rightarrow> ret (OTokenError 401 ''invalid_client'' e) | None \<Rightarrow> do {
     res \<leftarrow> rds (ParseToken (oe_jwt X) (rv_Token form));
     (case res of Inl e \<Rightarrow> ret () | Inr cl \<Rightarrow> if AppID cl \<noteq> a_ID app then ret () else do {
        ttl \<leftarrow> (case ExpiresAt cl of None \<Rightarrow> ret 0 | Some x \<Rightarrow> do {
          now \<leftarrow> rds time_now;
          ret (if 0 < x - now then x - now else 0) });
        rds (ignore (BlacklistAccessToken (oe_redis X) (a_ID app) (rv_Token form) (UserID cl) ttl)) });
     ret (OStatus 200) } })"

end
