(* ===== verification/OidcAdmin.thy ===== *)
theory OidcAdmin
  imports OidcHandler
begin

text \<open>
  The rest of \<open>internal/oidc/handler.go\<close> and \<open>keys.go\<close>: discovery, keys, logout started by a relying
  party, and the administration of relying parties.
\<close>

section \<open>Discovery\<close>

record DiscoveryDocument =
  dd_Issuer :: string
  dd_AuthorizationEndpoint :: string
  dd_TokenEndpoint :: string
  dd_UserinfoEndpoint :: string
  dd_JwksURI :: string
  dd_IntrospectionEndpoint :: string
  dd_RevocationEndpoint :: string
  dd_EndSessionEndpoint :: string
  dd_ResponseTypesSupported :: "string list"
  dd_SubjectTypesSupported :: "string list"
  dd_IDTokenSigningAlgValuesSupported :: "string list"
  dd_ScopesSupported :: "string list"
  dd_TokenEndpointAuthMethodsSupported :: "string list"
  dd_GrantTypesSupported :: "string list"
  dd_ClaimsSupported :: "string list"
  dd_CodeChallengeMethodsSupported :: "string list"

definition discovery :: "oidc_env \<Rightarrow> Application \<Rightarrow> DiscoveryDocument" where
  "discovery X app = (let prefix = TrimRightSlash (PUBLIC_URL X) @ ''/oidc/'' @ a_ID app in
     \<lparr>dd_Issuer = IssuerURL X app, dd_AuthorizationEndpoint = prefix @ ''/authorize'',
      dd_TokenEndpoint = prefix @ ''/token'', dd_UserinfoEndpoint = prefix @ ''/userinfo'',
      dd_JwksURI = prefix @ ''/.well-known/jwks.json'', dd_IntrospectionEndpoint = prefix @ ''/introspect'',
      dd_RevocationEndpoint = prefix @ ''/revoke'', dd_EndSessionEndpoint = prefix @ ''/end_session'',
      dd_ResponseTypesSupported = [''code''], dd_SubjectTypesSupported = [''public''],
      dd_IDTokenSigningAlgValuesSupported = [''RS256''],
      dd_ScopesSupported = [''openid'', ''profile'', ''email'', ''roles'', ''offline_access''],
      dd_TokenEndpointAuthMethodsSupported = [''client_secret_basic'', ''client_secret_post'', ''none''],
      dd_GrantTypesSupported = [''authorization_code'', ''client_credentials'', ''refresh_token''],
      dd_ClaimsSupported = [''sub'', ''iss'', ''aud'', ''exp'', ''iat'', ''nonce'', ''name'', ''given_name'',
        ''family_name'', ''email'', ''email_verified'', ''picture'', ''locale'', ''roles''],
      dd_CodeChallengeMethodsSupported = [''S256'']\<rparr>)"

definition WellKnownConfiguration :: "oidc_env \<Rightarrow> http_ctx \<Rightarrow> (uworld, DiscoveryDocument oidc_reply) state" where
  "WellKnownConfiguration X c = loadApp X c (\<lambda>app. ret (OJson 200 (discovery X app)))"

record JWK =
  Kty :: string
  Use :: string
  Alg :: string
  Kid :: string
  jwk_N :: string
  jwk_E :: string

definition PublicKeyToJWK :: "oidc_env \<Rightarrow> string \<Rightarrow> string \<Rightarrow> JWK" where
  "PublicKeyToJWK X pub kid = \<lparr>Kty = ''RSA'', Use = ''sig'', Alg = ''RS256'', Kid = kid,
     jwk_N = rsa_n X pub, jwk_E = rsa_e X pub\<rparr>"

definition JWKS :: "oidc_env \<Rightarrow> http_ctx \<Rightarrow> (uworld, JWK list oidc_reply) state" where
  "JWKS X c = loadApp X c (\<lambda>app. do {
     res \<leftarrow> GetOrCreateRSAKey X (a_ID app);
     ret (case res of Inl e \<Rightarrow> OError 500 ''key unavailable''
       | Inr key \<Rightarrow> OJson 200 [PublicKeyToJWK X key (a_ID app)]) })"

section \<open>Logout started by a relying party\<close>

definition query_or_form :: "http_ctx \<Rightarrow> string \<Rightarrow> string" where
  "query_or_form c k = (if Query c k \<noteq> [] then Query c k else PostForm c k)"

text \<open>Whom the hint names, with the address; an error is a text for the error page.\<close>

definition hinted_user :: "oidc_env \<Rightarrow> Application \<Rightarrow> string \<Rightarrow> (uworld, string + (string \<times> string)) state" where
  "hinted_user X app idTokenHint = (if idTokenHint = [] then ret (Inr ([], [])) else do {
     res \<leftarrow> GetOrCreateRSAKey X (a_ID app);
     case res of Inl e \<Rightarrow> ret (Inr ([], [])) | Inr rsaKey \<Rightarrow> do {
     res \<leftarrow> rds (ParseIDToken X idTokenHint rsaKey);
     case res of Inl e \<Rightarrow> ret (Inl ''invalid id_token_hint'') | Inr cl \<Rightarrow> do {
     res \<leftarrow> oidc_GetUserByID X (id_Subject cl);
     ret (case res of Inl e \<Rightarrow> Inl ''id_token_hint refers to an unknown user''
       | Inr user \<Rightarrow> Inr (id_Subject cl, u_Email user)) } } })"

text \<open>The cookie names the user when the hint did not; its session ends in any case.\<close>

definition end_browser_session ::
    "oidc_env \<Rightarrow> Application \<Rightarrow> http_ctx \<Rightarrow> string \<times> string \<Rightarrow> (uworld, string \<times> string) state" where
  "end_browser_session X app c named = (case Cookie c (cookie_name (a_ID app)) of
       None \<Rightarrow> ret named
     | Some sessionToken \<Rightarrow> if sessionToken = [] then ret named else do {
         found \<leftarrow> (if fst named \<noteq> [] then ret named else do {
           res \<leftarrow> rds (GetOIDCBrowserSession (oe_redis X) (a_ID app) sessionToken);
           case res of Inl e \<Rightarrow> ret named | Inr uid \<Rightarrow> if uid = [] then ret named else do {
           res \<leftarrow> oidc_GetUserByID X uid;
           ret (uid, case res of Inl e \<Rightarrow> snd named | Inr user \<Rightarrow> u_Email user) } });
         rds (ignore (DeleteOIDCBrowserSession (oe_redis X) (a_ID app) sessionToken));
         ret found })"

definition revoke_logged_out :: "oidc_env \<Rightarrow> Application \<Rightarrow> string \<times> string \<Rightarrow> (uworld, unit) state" where
  "revoke_logged_out X app = (\<lambda>(logoutUserID, logoutUserEmail). if logoutUserID = [] then ret () else do {
     let accessTokenTTL = wrap64 (je_access_minutes (oe_jwt X) * minute);
     rds (ignore (DeleteAllUserSessions (oe_redis X) (a_ID app) logoutUserID []));
     rds (ignore (BlacklistAllUserTokens (oe_redis X) (a_ID app) logoutUserID accessTokenTTL));
     (case GroupLogoutFunc X of
        Some logout \<Rightarrow> (if logoutUserEmail \<noteq> [] then logout (a_ID app) logoutUserEmail else ret ())
      | None \<Rightarrow> ret ()) })"

definition EndSession :: "oidc_env \<Rightarrow> http_ctx \<Rightarrow> (uworld, unit oidc_reply) state" where
  "EndSession X c = loadApp X c (\<lambda>app. do {
     let postLogoutRedirectURI = query_or_form c ''post_logout_redirect_uri'';
     let st = query_or_form c ''state'';
     res \<leftarrow> hinted_user X app (query_or_form c ''id_token_hint'');
     case res of Inl e \<Rightarrow> ret (renderError app e) | Inr named \<Rightarrow> do {
     let cookies = [(cookie_name (a_ID app), [], -1, False)];
     found \<leftarrow> end_browser_session X app c named;
     revoke_logged_out X app found;
     let page = OLoggedOut (a_ID app) (appTheme app) cookies;
     if postLogoutRedirectURI = [] then ret page else do {
     res \<leftarrow> ListClientsByApp X (a_ID app);
     let allowed = (case res of Inl e \<Rightarrow> False
           | Inr clients \<Rightarrow> list_ex (\<lambda>cl. IsRedirectURIAllowed (RedirectURIs cl) postLogoutRedirectURI) clients);
     ret (if \<not> allowed \<or> \<not> url_ok X postLogoutRedirectURI then page
       else ORedirect (WithQuery postLogoutRedirectURI (if st \<noteq> [] then [(''state'', st)] else [])) cookies) } } })"

section \<open>Administration of relying parties\<close>

record OIDCClientResponse =
  cr_ID :: string
  cr_AppID :: string
  cr_Name :: string
  cr_Description :: string
  cr_ClientID :: string
  cr_ClientSecret :: string
  cr_RedirectURIs :: string
  cr_AllowedGrantTypes :: string
  cr_AllowedScopes :: string
  cr_RequireConsent :: bool
  cr_IsConfidential :: bool
  cr_PKCERequired :: bool
  cr_LogoURL :: string
  cr_LoginTheme :: string
  cr_LoginPrimaryColor :: string
  cr_IsActive :: bool

text \<open>The two timestamps are left out.\<close>

definition clientToResponse :: "OIDCClient \<Rightarrow> OIDCClientResponse" where
  "clientToResponse c = \<lparr>cr_ID = oc_ID c, cr_AppID = oc_AppID c, cr_Name = oc_Name c,
     cr_Description = oc_Description c, cr_ClientID = oc_ClientID c, cr_ClientSecret = [], cr_RedirectURIs = RedirectURIs c,
     cr_AllowedGrantTypes = AllowedGrantTypes c, cr_AllowedScopes = AllowedScopes c, cr_RequireConsent = RequireConsent c,
     cr_IsConfidential = IsConfidential c, cr_PKCERequired = PKCERequired c, cr_LogoURL = LogoURL c,
     cr_LoginTheme = oc_LoginTheme c, cr_LoginPrimaryColor = oc_LoginPrimaryColor c, cr_IsActive = oc_IsActive c\<rparr>"

record CreateOIDCClientRequest =
  cc_Name :: string
  cc_Description :: string
  cc_RedirectURIs :: string
  cc_AllowedGrantTypes :: string
  cc_AllowedScopes :: string
  cc_RequireConsent :: bool
  cc_IsConfidential :: bool
  cc_PKCERequired :: bool
  cc_LogoURL :: string
  cc_LoginTheme :: string
  cc_LoginPrimaryColor :: string

definition client_of :: "string \<Rightarrow> CreateOIDCClientRequest \<Rightarrow> OIDCClient" where
  "client_of appID r = \<lparr>oc_ID = [], oc_AppID = appID, oc_Name = cc_Name r, oc_Description = cc_Description r,
     oc_ClientID = [], ClientSecretHash = [], RedirectURIs = cc_RedirectURIs r, AllowedGrantTypes = cc_AllowedGrantTypes r,
     AllowedScopes = cc_AllowedScopes r, RequireConsent = cc_RequireConsent r, IsConfidential = cc_IsConfidential r,
     PKCERequired = cc_PKCERequired r, LogoURL = cc_LogoURL r, oc_LoginTheme = cc_LoginTheme r,
     oc_LoginPrimaryColor = cc_LoginPrimaryColor r, oc_IsActive = False\<rparr>"

definition with_param_id ::
    "oidc_env \<Rightarrow> http_ctx \<Rightarrow> string \<Rightarrow> string \<Rightarrow> (string \<Rightarrow> (uworld, 'a oidc_reply) state) \<Rightarrow> (uworld, 'a oidc_reply) state" where
  "with_param_id X c name err body = (case parse_uuid (oe_user X) (Param c name) of
       None \<Rightarrow> ret (OError 400 err) | Some i \<Rightarrow> body i)"

definition AdminCreateClient ::
    "oidc_env \<Rightarrow> string + CreateOIDCClientRequest \<Rightarrow> http_ctx \<Rightarrow> (uworld, OIDCClientResponse oidc_reply) state" where
  "AdminCreateClient X body c = with_param_id X c ''id'' ''invalid app id'' (\<lambda>appID.
     case body of Inl e \<Rightarrow> ret (OError 400 e) | Inr req \<Rightarrow> do {
     res \<leftarrow> CreateClient X (client_of appID req);
     ret (case res of Inl e \<Rightarrow> OError 500 ''failed to create client''
       | Inr (client, plainSecret) \<Rightarrow> OJson 201 (clientToResponse client\<lparr>cr_ClientSecret := plainSecret\<rparr>)) })"

definition AdminListClients :: "oidc_env \<Rightarrow> http_ctx \<Rightarrow> (uworld, OIDCClientResponse list oidc_reply) state" where
  "AdminListClients X c = with_param_id X c ''id'' ''invalid app id'' (\<lambda>appID. do {
     res \<leftarrow> ListClients X appID;
     ret (case res of Inl e \<Rightarrow> OError 500 ''failed to list clients''
       | Inr clients \<Rightarrow> OJson 200 (map clientToResponse clients)) })"

definition AdminGetClient :: "oidc_env \<Rightarrow> http_ctx \<Rightarrow> (uworld, OIDCClientResponse oidc_reply) state" where
  "AdminGetClient X c = with_param_id X c ''cid'' ''invalid client id'' (\<lambda>cid. do {
     res \<leftarrow> GetClient X cid;
     ret (case res of Inl e \<Rightarrow> OError 404 ''client not found'' | Inr client \<Rightarrow> OJson 200 (clientToResponse client)) })"

definition AdminUpdateClient ::
    "oidc_env \<Rightarrow> string + UpdateOIDCClientRequest \<Rightarrow> http_ctx \<Rightarrow> (uworld, OIDCClientResponse oidc_reply) state" where
  "AdminUpdateClient X body c = with_param_id X c ''cid'' ''invalid client id'' (\<lambda>cid.
     case body of Inl e \<Rightarrow> ret (OError 400 e) | Inr req \<Rightarrow> do {
     res \<leftarrow> UpdateClient X cid req;
     ret (case res of Inl e \<Rightarrow> OError 500 ''failed to update client'' | Inr client \<Rightarrow> OJson 200 (clientToResponse client)) })"

definition AdminDeleteClient :: "oidc_env \<Rightarrow> http_ctx \<Rightarrow> (uworld, unit oidc_reply) state" where
  "AdminDeleteClient X c = with_param_id X c ''cid'' ''invalid client id'' (\<lambda>cid. do {
     err \<leftarrow> DeleteClient X cid;
     ret (case err of Some e \<Rightarrow> OError 500 ''failed to delete client'' | None \<Rightarrow> OStatus 204) })"

definition AdminRotateClientSecret :: "oidc_env \<Rightarrow> http_ctx \<Rightarrow> (uworld, OIDCClientResponse oidc_reply) state" where
  "AdminRotateClientSecret X c = with_param_id X c ''cid'' ''invalid client id'' (\<lambda>cid. do {
     res \<leftarrow> RotateClientSecret X cid;
     ret (case res of Inl e \<Rightarrow> OError 500 ''failed to rotate secret''
       | Inr (client, plain) \<Rightarrow> OJson 200 (clientToResponse client\<lparr>cr_ClientSecret := plain\<rparr>)) })"

end
