(* ===== verification/OidcProofs.thy ===== *)
theory OidcProofs
  imports OidcAdmin UserProofs
begin

text \<open>
  Lemmas on the OpenID Connect provider: scopes and redirect addresses as strings, the consent
  token, the exchange of a code, and what the steps leave alone.
\<close>

section \<open>Trimming, splitting, fields\<close>

lemma set_dropWhile_cases: "c \<in> set s \<Longrightarrow> c \<in> set (dropWhile P s) \<or> P c"
  by (induction s) auto

lemma TrimSpace_chars: "c \<in> set s \<Longrightarrow> \<not> is_space c \<Longrightarrow> c \<in> set (TrimSpace s)"
  unfolding TrimSpace_def by (metis set_dropWhile_cases set_rev)

lemma TrimSpace_subset: "set (TrimSpace s) \<subseteq> set s"
  unfolding TrimSpace_def by (auto dest!: set_dropWhileD)

lemma dropWhile_stays: "s \<noteq> [] \<Longrightarrow> \<not> P (hd s) \<Longrightarrow> dropWhile P s = s"
  by (cases s) simp_all

lemma TrimSpace_ends: "s \<noteq> [] \<Longrightarrow> \<not> is_space (hd s) \<Longrightarrow> \<not> is_space (last s) \<Longrightarrow> TrimSpace s = s"
  unfolding TrimSpace_def by (simp add: dropWhile_stays hd_rev)

lemma Split_parts: "x \<in> set (Split s c) \<Longrightarrow> c \<notin> set x"
proof (induction s c rule: Split.induct)
  case (1 s c)
  show ?case
  proof (cases "c \<in> set s")
    case True
    then have "Split s c = before c s # Split (after c s) c" by (subst Split.simps) simp
    with 1 True show ?thesis by (auto simp: before_def dest: set_takeWhileD)
  next
    case False
    with 1(2) show ?thesis by (simp add: Split_single)
  qed
qed

lemma fields_chars:
  "c \<in> set acc \<or> c \<in> set s \<and> \<not> is_space c \<Longrightarrow> \<exists>f\<in>set (fields_acc acc s). c \<in> set f"
  by (induction acc s rule: fields_acc.induct) (auto split: if_splits)

lemma Fields_chars: "c \<in> set s \<Longrightarrow> \<not> is_space c \<Longrightarrow> \<exists>f\<in>set (Fields s). c \<in> set f"
  unfolding Fields_def by (rule fields_chars) simp

lemma fields_subset: "f \<in> set (fields_acc acc s) \<Longrightarrow> set f \<subseteq> set acc \<union> set s"
  by (induction acc s rule: fields_acc.induct) (auto split: if_splits)

lemma Fields_subset: "f \<in> set (Fields s) \<Longrightarrow> set f \<subseteq> set s"
  unfolding Fields_def using fields_subset[of f "[]" s] by simp

lemma containsScope_plain: "containsScope allowed s \<Longrightarrow> CHR '','' \<notin> set s"
  unfolding containsScope_def in_csv_def using TrimSpace_subset by (fastforce simp: list_ex_iff dest: Split_parts)

text \<open>Scopes that all are on the client's list make up a string without a comma.\<close>

lemma allowed_scopes_plain:
  "\<not> list_ex (\<lambda>s. \<not> containsScope allowed s) (Fields scope) \<Longrightarrow> CHR '','' \<notin> set scope"
proof
  assume a: "\<not> list_ex (\<lambda>s. \<not> containsScope allowed s) (Fields scope)" and "CHR '','' \<in> set scope"
  moreover have "\<not> is_space (CHR '','')" by code_simp
  ultimately obtain f where "f \<in> set (Fields scope)" "CHR '','' \<in> set f" by (blast dest: Fields_chars)
  with a containsScope_plain show False by (auto simp: list_ex_iff)
qed

lemma openid_not_offline:
  assumes "CHR '','' \<notin> set scope" and "sliceContains (Fields scope) ''openid''"
  shows "\<not> containsScope scope ''offline_access''"
proof
  assume "containsScope scope ''offline_access''"
  then have o: "TrimSpace scope = ''offline_access''"
    using assms(1) by (simp add: containsScope_def in_csv_def Split_single)
  obtain f where f: "f \<in> set (Fields scope)" "TrimSpace f = ''openid''"
    using assms(2) by (auto simp: sliceContains_def list_ex_iff)
  then have "CHR ''p'' \<in> set scope" using TrimSpace_subset[of f] Fields_subset by fastforce
  moreover have "\<not> is_space (CHR ''p'')" by code_simp
  ultimately have "CHR ''p'' \<in> set (TrimSpace scope)" by (rule TrimSpace_chars)
  then show False by (simp add: o)
qed

section \<open>Registered redirect addresses\<close>

definition quote :: "string \<Rightarrow> string" where
  "quote u = CHR 0x22 # u @ [CHR 0x22]"

text \<open>The JSON text of a list of strings that need no escapes.\<close>

definition json_array :: "string list \<Rightarrow> string" where
  "json_array us = CHR ''['' # Join (map quote us) '','' @ '']''"

lemma TrimQuotes_quote: "CHR 0x22 \<notin> set u \<Longrightarrow> TrimQuotes (quote u) = u"
proof -
  assume u: "CHR 0x22 \<notin> set u"
  have stop: "dropWhile (\<lambda>c. c = CHR 0x22) s = s" if "CHR 0x22 \<notin> set s" for s
    using that by (cases s) auto
  show ?thesis
  proof (cases "u = []")
    case False
    then have "dropWhile (\<lambda>c. c = CHR 0x22) (u @ [CHR 0x22]) = u @ [CHR 0x22]" using u by (cases u) auto
    with u stop[of "rev u"] show ?thesis by (simp add: TrimQuotes_def quote_def)
  qed (simp add: TrimQuotes_def quote_def)
qed

lemma TrimSpace_quote: "TrimSpace (quote u) = quote u"
  by (rule TrimSpace_ends) (simp_all add: quote_def is_space_def)

lemma redirect_parts:
  assumes "\<forall>u\<in>set us. CHR '','' \<notin> set u \<and> CHR 0x22 \<notin> set u" and "uri \<noteq> []"
  shows "isRedirectURIAllowed (json_array us) uri \<longleftrightarrow> uri \<in> set us"
proof -
  have trim: "TrimSpace (json_array us) = json_array us"
    by (rule TrimSpace_ends) (simp_all add: json_array_def is_space_def)
  have inner: "butlast (tl (json_array us)) = Join (map quote us) '',''" by (simp add: json_array_def)
  have "isRedirectURIAllowed (json_array us) uri \<longleftrightarrow>
      (\<exists>part\<in>set (Split (Join (map quote us) '','') (CHR '','')). TrimQuotes (TrimSpace part) = uri)"
    unfolding isRedirectURIAllowed_def Let_def trim inner
    using assms(2) by (simp add: json_array_def list_ex_iff)
  also have "\<dots> \<longleftrightarrow> uri \<in> set us"
  proof (cases "us = []")
    case True
    then show ?thesis using assms(2) by (simp add: Split_single TrimQuotes_def TrimSpace_def)
  next
    case False
    have "\<forall>x\<in>set (map quote us). CHR '','' \<notin> set x" using assms(1) by (auto simp: quote_def)
    with False have "Split (Join (map quote us) '','') (CHR '','') = map quote us" by (intro Split_Join) auto
    then show ?thesis using assms(1) by (auto simp: TrimSpace_quote TrimQuotes_quote)
  qed
  finally show ?thesis .
qed

section \<open>The consent token\<close>

lemma cut_last_dot_append: "CHR ''.'' \<notin> set s \<Longrightarrow> cut_last_dot (p @ CHR ''.'' # s) = Some (p, s)"
  by (simp add: cut_last_dot_def before_append after_append)

lemma distinct_consent: "distinct (map fst (consent_values appID req rnd exp))"
  by (simp add: consent_values_def)

lemma before_after: "c \<in> set s \<Longrightarrow> before c s @ c # after c s = s"
  by (induction s) (auto simp: before_def after_def)

lemma cut_last_dot_Some: "cut_last_dot t = Some (p, s) \<Longrightarrow> t = p @ CHR ''.'' # s"
proof -
  assume "cut_last_dot t = Some (p, s)"
  then have "CHR ''.'' \<in> set (rev t)" "p = rev (after (CHR ''.'') (rev t))" "s = rev (before (CHR ''.'') (rev t))"
    by (auto simp: cut_last_dot_def split: if_splits)
  then have "rev s @ CHR ''.'' # rev p = rev t" by (simp add: before_after)
  then have "rev (rev s @ CHR ''.'' # rev p) = t" by simp
  then show ?thesis by simp
qed

section \<open>What the steps keep\<close>

definition same_codes :: "uworld \<Rightarrow> uworld \<Rightarrow> bool" where
  "same_codes w w' \<longleftrightarrow> w_codes w' = w_codes w \<and> rnow (w_redis w) \<le> rnow (w_redis w')"

interpretation same_codes: frame same_codes
  by unfold_locales (auto simp: same_codes_def)

lemma keeps_codes:
  "stable same_codes (usr m1)" "stable same_codes (apps m2)" "stable same_codes (clients_of m3)"
  "stable same_codes (draw f)" "touches UNIV m4 \<Longrightarrow> stable same_codes (rds m4)" "stable same_codes (new_uuid V)"
  by (auto simp: stable_def wp_def same_codes_def touches_def writes_def new_uuid_def split: prod.splits)

text \<open>What a client has shown, and what a code that is exchanged was.\<close>

definition client_ok :: "oidc_env \<Rightarrow> uworld \<Rightarrow> string \<Rightarrow> string \<Rightarrow> OIDCClient \<Rightarrow> bool" where
  "client_ok X w clientID secret c \<longleftrightarrow> c \<in> set (w_clients w) \<and> oc_ClientID c = clientID \<and> oc_IsActive c \<and>
     (IsConfidential c \<longrightarrow> CompareHash (ue_hash (oe_user X)) (ClientSecretHash c) secret)"

definition code_ok :: "oidc_env \<Rightarrow> uworld \<Rightarrow> string \<Rightarrow> string \<Rightarrow> string \<Rightarrow> string \<Rightarrow> OIDCAuthCode \<Rightarrow> bool" where
  "code_ok X w code clientID redirectURI verifier ac \<longleftrightarrow> ac \<in> set (w_codes w) \<and> ac_Code ac = code \<and> \<not> ac_Used ac \<and>
     rnow (w_redis w) \<le> ac_ExpiresAt ac \<and> ac_ClientID ac = clientID \<and> ac_RedirectURI ac = redirectURI \<and>
     (ac_CodeChallenge ac \<noteq> [] \<longrightarrow> is_S256 (ac_CodeChallengeMethod ac) \<and> s256 X verifier = ac_CodeChallenge ac)"

definition spent :: "string \<Rightarrow> uworld \<Rightarrow> bool" where
  "spent code w \<longleftrightarrow> (\<forall>a\<in>set (w_codes w). ac_Code a = code \<longrightarrow> ac_Used a)"

text \<open>A code that a form has brought about: its row, and for whom it is.\<close>

definition code_for ::
    "oidc_env \<Rightarrow> string \<Rightarrow> Application \<Rightarrow> OIDCClient \<Rightarrow> string \<Rightarrow> AuthorizeRequest \<Rightarrow> uworld \<Rightarrow> string \<Rightarrow> bool" where
  "code_for X uri app client userID req w k \<longleftrightarrow> uri = ar_RedirectURI req \<and> (\<exists>ac\<in>set (w_codes w). ac_Code ac = k \<and>
     ac_AppID ac = a_ID app \<and> ac_ClientID ac = oc_ClientID client \<and> parse_uuid (oe_user X) userID = Some (ac_UserID ac) \<and>
     ac_RedirectURI ac = ar_RedirectURI req \<and> ac_Scopes ac = ar_Scope req \<and> \<not> ac_Used ac)"

text \<open>
  What the form has to carry for it: a token of the provider, and either a password that is right, of an
  active user without a second factor, or just a user id.
\<close>

definition form_ok :: "oidc_env \<Rightarrow> http_ctx \<Rightarrow> uworld \<Rightarrow> string \<Rightarrow> Application \<Rightarrow> OIDCClient \<Rightarrow> string \<Rightarrow> AuthorizeRequest \<Rightarrow> bool" where
  "form_ok X c w token app client userID req \<longleftrightarrow> app \<in> set (w_apps w) \<and> OIDCEnabled app \<and>
     (\<exists>payload. token = payload @ CHR ''.'' # hmac X payload) \<and>
     fst (run_state (parseConsentToken X token) (w_redis w)) = Inr req \<and>
     client \<in> set (w_clients w) \<and> oc_ClientID client = ar_ClientID req \<and>
     (if PostForm c ''email'' \<noteq> [] \<and> PostForm c ''password'' \<noteq> []
      then \<not> RequireConsent client \<and> (\<exists>user\<in>set (w_users w). with_email (a_ID app) (PostForm c ''email'') user \<and> u_ID user = userID \<and>
        u_IsActive user \<and> \<not> u_TwoFAEnabled user \<and>
        CompareHash (ue_hash (oe_user X)) (u_PasswordHash user) (PostForm c ''password''))
      else userID = PostForm c ''user_id'')"

text \<open>What the grant asks of the client, the token and its user.\<close>

definition grant_refreshable :: "oidc_env \<Rightarrow> uworld \<Rightarrow> TokenRequest \<Rightarrow> bool" where
  "grant_refreshable X w req \<longleftrightarrow> (\<exists>client cl user.
     fst (run_state (validateClientCredentials X (tr_ClientID req) (tr_ClientSecret req)) w) = Inr client \<and>
     fst (run_state (ParseToken (oe_jwt X) (tr_RefreshToken req)) (w_redis w)) = Inr cl \<and> TokenType cl = TokenTypeRefresh \<and>
     fst (run_state (t_first (ue_users (oe_user X)) (with_id (UserID cl))) (w_users w)) = Inr user)"

text \<open>
  Everything the endpoints rest on; base64 has no dot, and the role service leaves the codes alone.
\<close>

locale oidc_stack =
  base: user_stack "oe_user X" + clients: table_server "oe_clients X" client_clash +
  codes: table_server "oe_codes X" code_clash for X :: oidc_env +
  assumes role_lookup: "stable same_codes (roleLookup X a u)"
    and base64: "CHR ''.'' \<notin> set (hmac X p)"
begin

lemma wp_validateClientCredentials:
  "wp (validateClientCredentials X clientID secret) (\<lambda>x w'. w' = w \<and> (\<forall>c. x = Inr c \<longrightarrow> client_ok X w clientID secret c)) w"
  unfolding validateClientCredentials_def GetClientByClientID_def
  by (intro wp_if wp_bind wp_lifts clients.wp_t_first wp_return)
     (auto simp: client_ok_def first_post_def split: sum.splits if_splits)

lemma code_error_None:
  "code_error X ac now clientID redirectURI verifier = None \<longleftrightarrow> \<not> ac_Used ac \<and> now \<le> ac_ExpiresAt ac \<and>
     ac_ClientID ac = clientID \<and> ac_RedirectURI ac = redirectURI \<and>
     (ac_CodeChallenge ac \<noteq> [] \<longrightarrow> verifier \<noteq> [] \<and> is_S256 (ac_CodeChallengeMethod ac) \<and> s256 X verifier = ac_CodeChallenge ac)"
  by (auto simp: code_error_def verifyPKCE_def)

lemma spent_update:
  assumes "no_clash code_clash (w_codes w)" and "ac \<in> set (w_codes w)"
    and "w_codes w' = update_rows (\<lambda>a. ac_ID a = ac_ID ac) (\<lambda>a. a\<lparr>ac_Used := True\<rparr>) (w_codes w)"
  shows "spent (ac_Code ac) w'"
proof -
  have "a = ac" if "a \<in> set (w_codes w)" "ac_Code a = ac_Code ac" for a
    by (rule clash_unique[OF assms(1) that(1) assms(2)]) (use that in \<open>auto simp: code_clash_def\<close>)
  then show ?thesis unfolding spent_def assms(3) ball_update_rows by auto
qed

lemma wp_ExchangeCode:
  "wp (ExchangeCode X code clientID redirectURI verifier) (\<lambda>x w'. \<forall>ac user. x = Inr (ac, user) \<longrightarrow>
     code_ok X w code clientID redirectURI verifier ac \<and> user \<in> set (w_users w) \<and> u_ID user = ac_UserID ac \<and>
     (no_clash code_clash (w_codes w) \<longrightarrow> spent code w')) w"
  (is "wp _ ?Q w")
  unfolding ExchangeCode_def GetAuthCode_def
proof (rule wp_bind, rule wp_lifts, rule codes.wp_t_first, rule wp_case_sum, goal_cases)
  case (2 res ac)
  then have ac: "ac \<in> set (w_codes w)" "ac_Code ac = code" by (auto simp: first_post_def)
  show ?case
  proof (rule wp_bind, rule wp_rds, rule wp_time_now, rule wp_case_option, goal_cases)
    case 1
    have ok: "code_ok X w code clientID redirectURI verifier ac"
      using ac 1 by (auto simp: code_ok_def code_error_None)
    show ?case unfolding MarkAuthCodeUsed_def oidc_GetUserByID_def
    proof (rule wp_bind, rule wp_lifts, rule codes.wp_t_update, rule wp_case_option, goal_cases)
      case (1 err rows)
      have "spent code (w\<lparr>w_codes := rows\<rparr>)" if "no_clash code_clash (w_codes w)"
        using spent_update[OF that ac(1)] applied_postD[OF 1(1)[unfolded 1(2)]] ac(2) by simp
      with ok show ?case
        by (intro wp_bind wp_lifts base.users.wp_t_first wp_return) (auto simp: first_post_def with_id_def split: sum.splits)
    qed (auto intro: wp_return)
  qed (auto intro: wp_return)
qed (auto intro: wp_return)

lemma spent_refused:
  "spent code w \<Longrightarrow> wp (ExchangeCode X code clientID redirectURI verifier) (\<lambda>x _. \<exists>e. x = Inl e) w"
  by (rule wp_mono[OF wp_ExchangeCode]) (metis code_ok_def spent_def old.sum.exhaust old.prod.exhaust)

lemma wp_loadApp:
  "(\<And>n e. Q (OError n e) w) \<Longrightarrow> (\<And>app. app \<in> set (w_apps w) \<Longrightarrow> parse_uuid (oe_user X) (Param c ''app_id'') = Some (a_ID app) \<Longrightarrow>
     wp (body app) Q w) \<Longrightarrow> wp (loadApp X c body) Q w"
  unfolding loadApp_def GetApplication_def
  by (intro wp_case_option wp_return wp_bind wp_lifts base.apps.wp_t_first wp_case_sum) (auto simp: first_post_def)

lemma keeps_codes_key: "stable same_codes (GetOrCreateRSAKey X a)"
  unfolding GetOrCreateRSAKey_def GetApplication_def SaveRSAPrivateKey_def
  by (intro same_codes.stable_intro keeps_codes)

lemma touches_MintIDToken: "touches K (MintIDToken X p)"
  unfolding MintIDToken_def by (intro touches_intro)

lemma keeps_codes_mint: "stable same_codes (MintTokensForUser X app client user scopes nonce)"
  unfolding MintTokensForUser_def GenerateAccessToken_def GenerateRefreshToken_def SetOIDCGrantedScopes_def
  by (intro same_codes.stable_intro keeps_codes role_lookup keeps_codes_key touches_MintIDToken
        base.redis.touches_CreateSession[THEN touches_UNIV] touches_intro base.redis.touches_redis) simp_all

section \<open>The token endpoint\<close>

lemma wp_handleAuthCodeGrant:
  assumes "no_clash code_clash (w_codes w)"
  shows "wp (handleAuthCodeGrant X app req) (\<lambda>x w'. \<forall>n resp. x = OJson n resp \<longrightarrow> (\<exists>client ac user.
     client_ok X w (tr_ClientID req) (tr_ClientSecret req) client \<and>
     code_ok X w (tr_Code req) (tr_ClientID req) (tr_RedirectURI req) (tr_CodeVerifier req) ac \<and>
     user \<in> set (w_users w) \<and> u_ID user = ac_UserID ac \<and> tp_Scope resp = ac_Scopes ac \<and>
     spent (tr_Code req) w')) w"
  unfolding handleAuthCodeGrant_def
proof (rule wp_bind, rule wp_mono[OF wp_validateClientCredentials], elim conjE, hypsubst, rule wp_case_sum, goal_cases)
  case (2 res _ client)
  show ?case
  proof (rule wp_bind, rule wp_mono[OF wp_ExchangeCode], rule wp_case_sum, goal_cases)
    case (2 x w1 v)
    obtain ac user where v: "v = (ac, user)" by (cases v)
    have ok: "client_ok X w (tr_ClientID req) (tr_ClientSecret req) client"
      "code_ok X w (tr_Code req) (tr_ClientID req) (tr_RedirectURI req) (tr_CodeVerifier req) ac"
      "user \<in> set (w_users w) \<and> u_ID user = ac_UserID ac" "spent (tr_Code req) w1"
      using 2 \<open>\<forall>c. res = Inr c \<longrightarrow> _\<close> \<open>res = Inr client\<close> assms v by simp_all
    show ?case unfolding v prod.case
    proof (rule wp_bind, rule wp_stable[OF keeps_codes_mint], rule wp_return, goal_cases)
      case (1 t w2)
      then have "spent (tr_Code req) w2" using ok(4) by (simp add: spent_def same_codes_def)
      with ok(1-3) show ?case by (auto split: sum.splits)
    qed
  qed (auto intro: wp_return)
qed (auto intro: wp_return)

lemma wp_Token_code:
  assumes "no_clash code_clash (w_codes w)" and "tr_GrantType form = ''authorization_code''"
  shows "wp (Token X (Inr form) c) (\<lambda>x w'. \<forall>n resp. x = OJson n resp \<longrightarrow> (\<exists>client ac user. let req = with_basic_auth X c form in
     client_ok X w (tr_ClientID req) (tr_ClientSecret req) client \<and>
     code_ok X w (tr_Code form) (tr_ClientID req) (tr_RedirectURI form) (tr_CodeVerifier form) ac \<and>
     user \<in> set (w_users w) \<and> u_ID user = ac_UserID ac \<and> tp_Scope resp = ac_Scopes ac \<and>
     spent (tr_Code form) w')) w"
proof -
  have same: "tr_GrantType (with_basic_auth X c form) = tr_GrantType form" "tr_Code (with_basic_auth X c form) = tr_Code form"
    "tr_RedirectURI (with_basic_auth X c form) = tr_RedirectURI form" "tr_CodeVerifier (with_basic_auth X c form) = tr_CodeVerifier form"
    by (simp_all add: with_basic_auth_def split: option.split)
  show ?thesis
    unfolding Token_def sum.case Let_def same assms(2)
    by (rule wp_loadApp, simp, rule wp_if, simp add: wp_return, simp)
       (rule wp_mono[OF wp_handleAuthCodeGrant[OF assms(1)]], simp add: same)
qed

section \<open>The login and consent forms\<close>

lemma parse_build:
  assumes "run_state (buildConsentToken X appID req) w = (tok, w1)" and "rnow r \<le> rnow (w_redis w) + 10 * minute"
  shows "run_state (parseConsentToken X tok) r = (Inr (req\<lparr>ar_ResponseType := []\<rparr>), r)"
proof -
  define exp where "exp = (rnow (w_redis w) + 10 * minute) div second"
  have le: "rnow r div second \<le> exp" unfolding exp_def by (rule zdiv_mono1[OF assms(2)]) simp
  have "wp (buildConsentToken X appID req) (\<lambda>t _. \<exists>rnd. t = consent_token X (consent_values appID req rnd exp)) w"
    unfolding buildConsentToken_def exp_def by (intro wp_bind wp_draw wp_rds wp_time_now wp_return exI) simp
  with assms(1) obtain rnd where tok: "tok = consent_token X (consent_values appID req rnd exp)" by (blast dest: wpD)
  define v where "v = sort_key fst (consent_values appID req rnd exp)"
  have get: "Get v k = Get (consent_values appID req rnd exp) k" for k
    unfolding v_def by (rule Get_sort[OF distinct_consent])
  have req: "request_of v = req\<lparr>ar_ResponseType := []\<rparr>"
    unfolding request_of_def get by (cases req) (simp add: consent_values_def Get_def)
  have exp: "Get v ''_exp'' = itoa exp" unfolding get by (simp add: consent_values_def Get_def)
  have "\<not> exp < rnow r div second" using le by simp
  then show ?thesis
    unfolding parseConsentToken_def tok consent_token_def cut_last_dot_append[OF base64]
    by (simp add: ParseQuery_Encode v_def[symmetric] exp req time_now_def)
qed

lemma wp_parseConsentToken:
  "wp (parseConsentToken X token) (\<lambda>x r'. r' = r \<and>
     (\<forall>req. x = Inr req \<longrightarrow> (\<exists>payload. token = payload @ CHR ''.'' # hmac X payload))) r"
  unfolding parseConsentToken_def
  by (auto intro!: wp_intro wp_time_now dest: cut_last_dot_Some split: option.splits)

lemma wp_issue:
  "wp (issueCodeAndRedirectForUser X app client userID req) (\<lambda>x w'. \<forall>uri k q cookies.
     x = ORedirect (WithQuery uri ((''code'', k) # q)) cookies \<longrightarrow> code_for X uri app client userID req w' k) w"
  unfolding issueCodeAndRedirectForUser_def
proof (rule wp_case_option, goal_cases)
  case (2 uid)
  show ?case unfolding IssueAuthCode_def CreateAuthCode_def new_uuid_def
  proof (rule wp_bind, rule wp_bind, rule wp_draw, rule wp_bind, rule wp_rds, rule wp_time_now, rule wp_bind, rule wp_draw,
      rule wp_Let, rule wp_bind, rule wp_lifts(11), rule codes.wp_t_create, rule wp_return, rule wp_case_sum, goal_cases)
    case (2 row err rows ac)
    then have ac: "ac = row" "rows = w_codes w @ [row]"
      by (auto split: option.splits dest: applied_postD)
    show ?case
    proof (rule wp_bind, rule wp_draw, rule wp_bind, rule wp_stable[OF keeps_codes(5)], goal_cases)
      case (2 e w2)
      then show ?case using \<open>parse_uuid _ _ = _\<close> ac \<open>row = _\<close>
        by (auto simp: same_codes_def code_for_def Let_def split: if_splits intro!: wp_return)
    qed (simp add: SetOIDCBrowserSession_def base.redis.touches_redis)
  qed (auto intro: wp_return simp: renderError_def)
qed (auto intro: wp_return simp: renderError_def)

lemma wp_authenticateUser:
  "wp (authenticateUser X app email password) (\<lambda>x w'. w' = w \<and> (\<forall>user. x = Inr user \<longrightarrow> user \<in> set (w_users w) \<and>
     with_email (a_ID app) email user \<and> u_IsActive user \<and> CompareHash (ue_hash (oe_user X)) (u_PasswordHash user) password)) w"
  unfolding authenticateUser_def oidc_GetUserByEmail_def
  by (intro wp_bind wp_lifts base.users.wp_t_first wp_return) (auto simp: first_post_def split: sum.splits if_splits)

abbreviation "not_coded x \<equiv> \<forall>uri k q cookies. x \<noteq> ORedirect (WithQuery uri ((''code'', k) # q)) cookies"

lemma wp_redirect_2fa: "wp (redirect_2fa X app userID uri) (\<lambda>x _. not_coded x) w"
  unfolding redirect_2fa_def
  by (rule wp_bind, rule wp_any, rule wp_bind, rule wp_any, rule wp_return) (simp add: renderError_def split: option.split)

lemma wp_AuthorizeSubmit:
  "wp (AuthorizeSubmit X (Inr token) c) (\<lambda>x w'. \<forall>uri k q cookies. x = ORedirect (WithQuery uri ((''code'', k) # q)) cookies \<longrightarrow>
     (\<exists>app client userID req. form_ok X c w token app client userID req \<and> code_for X uri app client userID req w' k)) w"
  (is "wp _ ?Q w")
proof -
  have no: "wp (ret x) ?Q v" if "not_coded x" for x v using that by (simp add: wp_return)
  have two: "wp (redirect_2fa X app userID uri) ?Q v" for app userID uri v
    by (rule wp_mono[OF wp_redirect_2fa]) simp
  show ?thesis unfolding AuthorizeSubmit_def sum.case
  proof (rule wp_loadApp, simp, rule wp_if, rule no, simp add: renderError_def, rule wp_bind, rule wp_rds,
      rule wp_mono[OF wp_conj[OF wp_parseConsentToken wp_result]], goal_cases)
    case (1 app x r)
    have w: "w\<lparr>w_redis := r\<rparr> = w" and app: "app \<in> set (w_apps w)" and
      tok: "\<forall>req. x = Inr req \<longrightarrow> (\<exists>payload. token = payload @ CHR ''.'' # hmac X payload)"
        "fst (run_state (parseConsentToken X token) (w_redis w)) = x"
      using 1 by simp_all
    show ?case unfolding w GetClientByClientID_def
    proof (rule wp_case_sum, rule no, simp add: renderError_def, rule wp_bind, rule wp_lifts(10), rule clients.wp_t_first,
        rule wp_case_sum, rule no, simp add: renderError_def, goal_cases)
      case (1 req res client)
      then have cl: "client \<in> set (w_clients w)" "oc_ClientID client = ar_ClientID req" by (auto simp: first_post_def)
      have form: "form_ok X c w token app client userID req"
        if "if PostForm c ''email'' \<noteq> [] \<and> PostForm c ''password'' \<noteq> []
          then \<not> RequireConsent client \<and> (\<exists>user\<in>set (w_users w). with_email (a_ID app) (PostForm c ''email'') user \<and> u_ID user = userID \<and>
            u_IsActive user \<and> \<not> u_TwoFAEnabled user \<and>
            CompareHash (ue_hash (oe_user X)) (u_PasswordHash user) (PostForm c ''password''))
          else userID = PostForm c ''user_id''" for userID
        using that cl app \<open>\<not> \<not> OIDCEnabled app\<close> tok \<open>x = Inr req\<close> unfolding form_ok_def by simp
      have issue: "wp (issueCodeAndRedirectForUser X app client userID req) ?Q w" if "form_ok X c w token app client userID req" for userID
        by (rule wp_mono[OF wp_issue]) (use that in blast)
      have cw: "w\<lparr>w_clients := w_clients w\<rparr> = w" and uw: "w\<lparr>w_users := w_users w\<rparr> = w" by simp_all
      show ?case unfolding Let_def cw
      proof (rule wp_if, goal_cases)
        case 1
        show ?case
        proof (rule wp_bind, rule wp_mono[OF wp_authenticateUser], elim conjE, hypsubst, rule wp_case_sum, rule no, simp,
            rule wp_if, rule two, rule wp_if, rule issue, goal_cases)
          case (1 a w' user)
          with \<open>PostForm c ''email'' \<noteq> [] \<and> _\<close> show ?case by (intro form) auto
        qed (simp add: wp_return)
      next
        case 2
        show ?case unfolding oidc_GetUserByID_def
          by (rule wp_if, rule no, simp add: redirectWithError_def, rule wp_bind, rule wp_lifts(1), rule base.users.wp_t_first,
              unfold uw, rule wp_if, rule two, rule issue, rule form) (use 2 in auto)
      qed
    qed
  qed
qed

lemma wp_ValidateAuthRequest:
  "wp (ValidateAuthRequest X clientID uri responseType scopes challenge) (\<lambda>x w'. w' = w \<and> (\<forall>client. x = Inr client \<longrightarrow>
     client \<in> set (w_clients w) \<and> oc_ClientID client = clientID \<and> oc_IsActive client \<and>
     isRedirectURIAllowed (RedirectURIs client) uri \<and> sliceContains scopes ''openid'' \<and>
     \<not> list_ex (\<lambda>s. \<not> containsScope (AllowedScopes client) s) scopes)) w"
  unfolding ValidateAuthRequest_def GetClientByClientID_def
  by (intro wp_bind wp_lifts clients.wp_t_first wp_return) (auto simp: first_post_def split: sum.splits if_splits)

lemma wp_CreateClient:
  "wp (CreateClient X req) (\<lambda>x w'. \<forall>client secret. x = Inr (client, secret) \<longrightarrow> client \<in> set (w_clients w') \<and>
     RequireConsent client \<and> IsConfidential client \<and> oc_IsActive client \<and>
     CompareHash (ue_hash (oe_user X)) (ClientSecretHash client) secret) w"
  unfolding CreateClient_def generateClientID_def generateClientSecret_def repo_CreateClient_def new_uuid_def
proof (rule wp_bind, rule wp_draw, rule wp_bind, rule wp_bind, rule wp_draw, rule wp_bind, rule wp_draw, rule wp_return,
    rule wp_case_sum, goal_cases)
  case (2 v)
  obtain plain hash where v: "v = (plain, hash)" by (cases v)
  have h: "CompareHash (ue_hash (oe_user X)) hash plain"
    using 2 base.hash.hash_compare unfolding v by (auto split: sum.splits)
  show ?case unfolding v prod.case
  proof (rule wp_Let, rule wp_bind, rule wp_bind, rule wp_draw, rule wp_Let, rule wp_bind, rule wp_lifts(10),
      rule clients.wp_t_create, rule wp_return, rule wp_return, goal_cases)
    case (1 client row e rows)
    then show ?case using h by (auto simp: with_client_defaults_def dest: applied_postD split: option.splits)
  qed
qed (auto intro: wp_return)

section \<open>The refresh token grant\<close>

lemma run_validate:
  "w_clients w2 = w_clients w \<Longrightarrow>
   run_state (validateClientCredentials X i secret) w2 = (fst (run_state (validateClientCredentials X i secret) w), w2)"
proof -
  assume eq: "w_clients w2 = w_clients w"
  have "snd (run_state (validateClientCredentials X i secret) w2) = w2"
    using wpD[OF wp_validateClientCredentials surjective_pairing] by blast
  moreover have "fst (run_state (validateClientCredentials X i secret) w2) = fst (run_state (validateClientCredentials X i secret) w)"
    by (simp add: validateClientCredentials_def GetClientByClientID_def eq split: prod.split)
  ultimately show ?thesis by (simp add: prod_eq_iff)
qed

lemma wp_user_lookup:
  "Q (fst (run_state (t_first (ue_users (oe_user X)) (with_id i)) (w_users w))) w \<Longrightarrow> wp (oidc_GetUserByID X i) Q w"
proof -
  assume q: "Q (fst (run_state (t_first (ue_users (oe_user X)) (with_id i)) (w_users w))) w"
  obtain a rows where a: "run_state (t_first (ue_users (oe_user X)) (with_id i)) (w_users w) = (a, rows)"
    by (cases "run_state (t_first (ue_users (oe_user X)) (with_id i)) (w_users w)")
  then have "rows = w_users w" using base.users.first by (auto simp: first_post_def)
  with q a show ?thesis by (simp add: oidc_GetUserByID_def wp_def)
qed

lemma wp_ParseToken_result: "wp (ParseToken E t) (\<lambda>x r'. r' = r \<and> fst (run_state (ParseToken E t) r) = x) r"
  by (rule wp_conj[OF _ wp_result]) (auto simp: ParseToken_def intro!: wp_bind wp_time_now wp_return)

lemma wp_blacklist_old:
  "wp (case x of None \<Rightarrow> ret () | Some x \<Rightarrow> do {
        now \<leftarrow> rds time_now;
        (if 0 < x - now then rds (ignore (BlacklistAccessToken (oe_redis X) a t u (x - now))) else ret ()) })
     (\<lambda>_ w'. w_users w' = w_users w) w"
  by (cases x) (auto simp: wp_def split: prod.splits)

lemma wp_refresh_grant:
  "wp (handleRefreshTokenGrant X app req) (\<lambda>x _.
     (\<forall>n resp. x = OJson n resp \<longrightarrow> grant_refreshable X w req) \<and>
     (grant_refreshable X w req \<longrightarrow> (\<forall>n d. x \<noteq> OTokenError n ''invalid_grant'' d \<and> x \<noteq> OTokenError n ''invalid_client'' d))) w"
  (is "wp _ ?Q w")
  unfolding handleRefreshTokenGrant_def
proof (rule wp_bind, rule wp_mono[OF wp_conj[OF wp_validateClientCredentials wp_result]], elim conjE, hypsubst, rule wp_case_sum, goal_cases)
  case (1 x _ e)
  then show ?case by (auto simp: grant_refreshable_def intro: wp_return)
next
  case (2 x _ client)
  then have client: "fst (run_state (validateClientCredentials X (tr_ClientID req) (tr_ClientSecret req)) w) = Inr client" by simp
  show ?case
  proof (rule wp_bind, rule wp_rds, rule wp_mono[OF wp_ParseToken_result], elim conjE, hypsubst, rule wp_case_sum, goal_cases)
    case (1 y _ e)
    then show ?case by (auto simp: grant_refreshable_def intro!: wp_return)
  next
    case (2 y _ cl)
    then have cl: "fst (run_state (ParseToken (oe_jwt X) (tr_RefreshToken req)) (w_redis w)) = Inr cl" by simp
    show ?case
    proof (rule wp_if, goal_cases)
      case 1
      with cl show ?case by (auto simp: grant_refreshable_def intro!: wp_return)
    next
      case type: 2
      show ?case
      proof (rule wp_bind, rule wp_mono[OF wp_blacklist_old], rule wp_bind, rule wp_user_lookup, rule wp_case_sum, goal_cases)
        case (1 u w1 e)
        with cl show ?case by (auto simp: grant_refreshable_def intro!: wp_return)
      next
        case (2 u w1 user)
        with client cl type have ok: "grant_refreshable X w req" by (auto simp: grant_refreshable_def)
        show ?case
          by (rule wp_bind, rule wp_any, rule wp_Let, rule wp_case_option, rule wp_return, simp add: ok,
              rule wp_bind, rule wp_any, rule wp_return) (simp add: ok split: sum.split)
      qed
    qed
  qed
qed

end

end
