(* ===== verification/OidcSpec.thy ===== *)
theory OidcSpec
  imports OidcProofs UserDemo
begin

text \<open>
  Properties of the OpenID Connect provider, with closed runs on a provider wired to the reference
  server and tables.
\<close>

section \<open>A provider for closed runs\<close>

definition demo_oidc :: oidc_env where
  "demo_oidc = \<lparr>oe_user = demo_env, oe_clients = ref_table client_clash, oe_codes = ref_table code_clash,
     roleLookup = (\<lambda>_ _. ret (Inr [])), oe_hex = demo_uuid, s256 = rev, at_hash = rev,
     hmac = filter (\<lambda>c. c \<noteq> CHR ''.''), rsa_new = (\<lambda>_. Some ''K''), rsa_ok = (\<lambda>_. True), rsa_n = (\<lambda>k. k), rsa_e = (\<lambda>_. ''AQAB''),
     sign_id = (\<lambda>_ _ c. Some (id_Subject c)), parse_id = (\<lambda>_ _ _. None), basic_auth = (\<lambda>_. None), url_ok = (\<lambda>_. True),
     GroupLogoutFunc = None, PUBLIC_URL = ''https://auth'', OIDC_AUTH_CODE_EXPIRATION_MINUTES = 0,
     OIDC_ID_TOKEN_EXPIRATION_MINUTES = 0\<rparr>"

interpretation demo_oidc: oidc_stack demo_oidc
  by (simp add: oidc_stack_def oidc_stack_axioms_def demo_oidc_def demo_stack.user_stack_axioms ref_table.table_server_axioms
        same_codes.stable_return)

definition demo_client :: OIDCClient where
  "demo_client = \<lparr>oc_ID = ''c'', oc_AppID = ''a'', oc_Name = ''shop'', oc_Description = [], oc_ClientID = ''shop'',
     ClientSecretHash = ''$pw'', RedirectURIs = json_array [''https://shop/cb''], AllowedGrantTypes = ''authorization_code'',
     AllowedScopes = ''openid,email'', RequireConsent = True, IsConfidential = True, PKCERequired = True, LogoURL = [],
     oc_LoginTheme = ''auto'', oc_LoginPrimaryColor = [], oc_IsActive = True\<rparr>"

definition demo_code :: OIDCAuthCode where
  "demo_code = \<lparr>ac_ID = ''1'', ac_AppID = ''a'', ac_ClientID = ''shop'', ac_UserID = ''u'', ac_Code = ''k'',
     ac_RedirectURI = ''https://shop/cb'', ac_Scopes = ''openid email'', ac_Nonce = [], ac_CodeChallenge = ''yx'',
     ac_CodeChallengeMethod = ''S256'', ac_ExpiresAt = 10 * minute, ac_Used = False\<rparr>"

definition demo_ow :: uworld where
  "demo_ow = demo_uw\<lparr>w_apps := [demo_app\<lparr>OIDCEnabled := True\<rparr>], w_clients := [demo_client], w_codes := [demo_code]\<rparr>"

definition oidc_ctx :: "(string \<times> string) list \<Rightarrow> http_ctx" where
  "oidc_ctx form = (demo_ctx [])\<lparr>Param := (\<lambda>_. ''a''), PostForm := (\<lambda>k. map_get form k)\<rparr>"

definition demo_form :: TokenRequest where
  "demo_form = \<lparr>tr_GrantType = ''authorization_code'', tr_Code = ''k'', tr_RedirectURI = ''https://shop/cb'',
     tr_ClientID = ''shop'', tr_ClientSecret = ''pw'', tr_CodeVerifier = ''xy'', tr_RefreshToken = [], tr_Scope = []\<rparr>"

definition demo_exchange :: "TokenResponse oidc_reply \<times> uworld" where
  "demo_exchange = run_state (Token demo_oidc (Inr demo_form) (oidc_ctx [])) demo_ow"

lemma demo_exchange_ok: "case fst demo_exchange of OJson _ _ \<Rightarrow> True | _ \<Rightarrow> False"
  by code_simp

section \<open>Codes\<close>

text \<open>
  C26: what a code is worth.  The token endpoint answers an authorization code grant with tokens only
  for an active client that has shown its secret, for a code that is in the table, not used, not
  expired, issued to this client for this redirect address, with the verifier its challenge was made
  from, and for the user of the code; the code is spent afterwards.
\<close>

theorem code_exchange_sound:
  assumes "oidc_stack X" and "no_clash code_clash (w_codes w)"
    and "tr_GrantType form = ''authorization_code''"
    and "run_state (Token X (Inr form) c) w = (OJson n resp, w')"
  shows "\<exists>client ac user. let req = with_basic_auth X c form in
     client_ok X w (tr_ClientID req) (tr_ClientSecret req) client \<and>
     code_ok X w (tr_Code form) (tr_ClientID req) (tr_RedirectURI form) (tr_CodeVerifier form) ac \<and>
     user \<in> set (w_users w) \<and> u_ID user = ac_UserID ac \<and> tp_Scope resp = ac_Scopes ac \<and>
     spent (tr_Code form) w'"
  using wpD[OF oidc_stack.wp_Token_code[OF assms(1-3)] assms(4)] by simp

theorem code_exchange_sound_witness:
  "\<exists>client ac. client_ok demo_oidc demo_ow ''shop'' ''pw'' client \<and>
     code_ok demo_oidc demo_ow ''k'' ''shop'' ''https://shop/cb'' ''xy'' ac \<and> spent ''k'' (snd demo_exchange)"
proof -
  obtain n resp where ok: "fst demo_exchange = OJson n resp"
    using demo_exchange_ok by (auto split: oidc_reply.splits)
  have "no_clash code_clash (w_codes demo_ow)" by (simp add: demo_ow_def no_clash_def)
  from code_exchange_sound[OF demo_oidc.oidc_stack_axioms this _ run_eq[OF ok[unfolded demo_exchange_def]]]
  show ?thesis by (auto simp: demo_form_def with_basic_auth_def demo_oidc_def demo_exchange_def)
qed

text \<open>
  C27: a code buys tokens once.  After a code grant was answered with tokens, no grant for the same code
  is, by any client and at any application, as long as the table has got no new row with that code.
\<close>

theorem code_once:
  assumes "oidc_stack X" and "no_clash code_clash (w_codes w)"
    and "run_state (Token X (Inr form) c) w = (OJson n resp, w1)" and "tr_GrantType form = ''authorization_code''"
    and "{a \<in> set (w_codes w2). ac_Code a = tr_Code form} \<subseteq> set (w_codes w1)" and "no_clash code_clash (w_codes w2)"
    and "tr_GrantType form2 = ''authorization_code''" and "tr_Code form2 = tr_Code form"
  shows "fst (run_state (Token X (Inr form2) c2) w2) \<noteq> OJson m resp2"
proof
  assume a: "fst (run_state (Token X (Inr form2) c2) w2) = OJson m resp2"
  have "spent (tr_Code form) w1" using wpD[OF oidc_stack.wp_Token_code[OF assms(1,2,4)] assms(3)] by (auto simp: Let_def)
  moreover obtain ac where "ac \<in> set (w_codes w2)" "ac_Code ac = tr_Code form" "\<not> ac_Used ac"
    using wpD[OF oidc_stack.wp_Token_code[OF assms(1,6,7)] run_eq[OF a]] assms(8) by (auto simp: Let_def code_ok_def)
  ultimately show False using assms(5) by (auto simp: spent_def)
qed

theorem code_once_witness:
  "\<forall>m resp2. fst (run_state (Token demo_oidc (Inr demo_form) (oidc_ctx [])) (snd demo_exchange)) \<noteq> OJson m resp2"
proof (intro allI)
  fix m resp2
  obtain n resp where ok: "fst demo_exchange = OJson n resp"
    using demo_exchange_ok by (auto split: oidc_reply.splits)
  have u: "no_clash code_clash (w_codes demo_ow)" by (simp add: demo_ow_def no_clash_def)
  have "map ac_Code (w_codes (snd demo_exchange)) = [''k'']" by code_simp
  then have u2: "no_clash code_clash (w_codes (snd demo_exchange))" by (auto simp: no_clash_def map_eq_Cons_conv)
  show "fst (run_state (Token demo_oidc (Inr demo_form) (oidc_ctx [])) (snd demo_exchange)) \<noteq> OJson m resp2"
    by (rule code_once[OF demo_oidc.oidc_stack_axioms u run_eq[OF ok[unfolded demo_exchange_def]] _ _ u2])
       (auto simp: demo_form_def demo_exchange_def)
qed

text \<open>
  Using a refresh token at the token endpoint does not spend it.  Once the refresh token grant has
  answered with tokens, the same request is not refused for its client or its token as long as both tables
  and the token's claims are as they were, whatever Redis holds meanwhile: neither the blacklist
  entry the first use has written nor a revocation of the session is looked at.
\<close>

theorem refresh_replay:
  assumes "oidc_stack X" and "run_state (handleRefreshTokenGrant X app req) w = (OJson n resp, w1)"
    and "w_users w2 = w_users w" and "w_clients w2 = w_clients w"
    and "fst (run_state (ParseToken (oe_jwt X) (tr_RefreshToken req)) (w_redis w2)) =
         fst (run_state (ParseToken (oe_jwt X) (tr_RefreshToken req)) (w_redis w))"
    and "run_state (handleRefreshTokenGrant X app2 req) w2 = (x, w3)"
  shows "x \<noteq> OTokenError m ''invalid_grant'' d \<and> x \<noteq> OTokenError m ''invalid_client'' d"
proof -
  have "grant_refreshable X w req" using wpD[OF oidc_stack.wp_refresh_grant[OF assms(1)] assms(2)] by blast
  then have "grant_refreshable X w2 req"
    by (simp add: grant_refreshable_def assms(3,5) oidc_stack.run_validate[OF assms(1,4)])
  then show ?thesis using wpD[OF oidc_stack.wp_refresh_grant[OF assms(1)] assms(6)] by blast
qed

text \<open>A run in steps, with a refresh token that does not expire.\<close>

definition demo_lasting :: claims where
  "demo_lasting = \<lparr>UserID = ''u'', AppID = ''a'', SessionID = ''s'', TokenType = TokenTypeRefresh, Roles = [],
     ExpiresAt = None, IssuedAt = None\<rparr>"

definition demo_refresh_form :: TokenRequest where
  "demo_refresh_form = demo_form\<lparr>tr_GrantType := ''refresh_token'',
     tr_RefreshToken := (case SignedString ref_jwt ''k'' demo_lasting of Inr t \<Rightarrow> t | Inl _ \<Rightarrow> [])\<rparr>"

definition demo_mint :: "(string + minted) \<times> uworld" where
  "demo_mint = run_state (MintTokensForUser demo_oidc demo_app demo_client demo_user [''openid'', ''profile'', ''email''] []) demo_ow"

lemma demo_grant_steps:
  "run_state (validateClientCredentials demo_oidc ''shop'' ''pw'') demo_ow = (Inr demo_client, demo_ow)"
  "run_state (ParseToken ref_env (tr_RefreshToken demo_refresh_form)) r = (Inr demo_lasting, r)"
  "run_state (oidc_GetUserByID demo_oidc ''u'') demo_ow = (Inr demo_user, demo_ow)"
  "run_state (rds (GetOIDCGrantedScopes demo_redis ''a'' ''s'')) demo_ow = (Inr [], demo_ow)"
proof -
  show "run_state (validateClientCredentials demo_oidc ''shop'' ''pw'') demo_ow = (Inr demo_client, demo_ow)"
    by (simp add: validateClientCredentials_def GetClientByClientID_def demo_oidc_def ref_table_def demo_ow_def demo_client_def
          demo_env_def ref_hash_def)
  have "ParseWithClaims ref_jwt (token_key ref_env) (rnow r) (tr_RefreshToken demo_refresh_form) = Inr (demo_lasting, True)"
    by (rule ref_jwt.parse_signed[where key = "''k''"])
       (simp_all add: demo_refresh_form_def demo_lasting_def wire_safe_def ascii_def unexpired_def token_key_def
          TokenTypeRefresh_def ref_jwt_def)
  then show "run_state (ParseToken ref_env (tr_RefreshToken demo_refresh_form)) r = (Inr demo_lasting, r)"
    by (simp add: ParseToken_def time_now_def)
  show "run_state (oidc_GetUserByID demo_oidc ''u'') demo_ow = (Inr demo_user, demo_ow)"
    by (simp add: oidc_GetUserByID_def demo_oidc_def demo_env_def ref_table_def demo_ow_def demo_uw_def demo_user_def with_id_def)
  show "run_state (rds (GetOIDCGrantedScopes demo_redis ''a'' ''s'')) demo_ow = (Inr [], demo_ow)"
    by (simp add: GetOIDCGrantedScopes_def demo_ow_def demo_uw_def ref_redis_def ref_get_def empty_redis_def live_def entry_at_def)
qed

lemma demo_mint_ok: "case fst demo_mint of Inr _ \<Rightarrow> True | Inl _ \<Rightarrow> False"
  by code_simp

lemma demo_first_ok: "\<exists>n resp. fst (run_state (handleRefreshTokenGrant demo_oidc demo_app demo_refresh_form) demo_ow) = OJson n resp"
proof -
  obtain t where t: "fst (run_state (MintTokensForUser demo_oidc demo_app demo_client demo_user [''openid'', ''profile'', ''email''] []) demo_ow) = Inr t"
    using demo_mint_ok unfolding demo_mint_def by (auto split: sum.splits)
  have env: "oe_jwt demo_oidc = ref_env" "oe_redis demo_oidc = demo_redis" "a_ID demo_app = ''a''"
    "tr_ClientID demo_refresh_form = ''shop''" "tr_ClientSecret demo_refresh_form = ''pw''" "Fields (tr_Scope demo_refresh_form) = []"
    by (simp_all add: demo_oidc_def demo_env_def demo_app_def demo_refresh_form_def demo_form_def Fields_def)
  have no_scopes: "refreshed_scopes (Fields []) [] = Some [''openid'', ''profile'', ''email'']"
    by (simp add: Fields_def refreshed_scopes_def)
  have claims: "TokenType demo_lasting = TokenTypeRefresh" "ExpiresAt demo_lasting = None" "UserID demo_lasting = ''u''"
    "SessionID demo_lasting = ''s''" by (simp_all add: demo_lasting_def)
  have parse: "run_state (rds (ParseToken ref_env (tr_RefreshToken demo_refresh_form))) demo_ow = (Inr demo_lasting, demo_ow)"
    by (simp add: demo_grant_steps)
  have "wp (handleRefreshTokenGrant demo_oidc demo_app demo_refresh_form) (\<lambda>x _. \<exists>n resp. x = OJson n resp) demo_ow"
    unfolding handleRefreshTokenGrant_def env
    by (rule wp_bind, rule wp_run[OF demo_grant_steps(1)], unfold sum.case, rule wp_bind, rule wp_run[OF parse],
        unfold sum.case claims, rule wp_if, erule notE, rule refl, unfold option.case, rule wp_bind, rule wp_return,
        rule wp_bind, rule wp_run[OF demo_grant_steps(3)], unfold sum.case, rule wp_bind, rule wp_run[OF demo_grant_steps(4)],
        unfold Let_def sum.case no_scopes option.case, rule wp_bind, rule wp_run[OF run_eq[OF t]], rule wp_return)
       (simp only: sum.case, blast)
  then show ?thesis by (rule wpD[OF _ surjective_pairing])
qed

text \<open>Redis as the revocation of the session and of the token would leave it.\<close>

definition demo_revoked :: uworld where
  "demo_revoked = demo_ow\<lparr>w_redis := \<lparr>rdata = [BlacklistTokenKey ''a'' (tr_RefreshToken demo_refresh_form) \<mapsto> (RStr ''u'', None)], rnow = 0\<rparr>\<rparr>"

theorem refresh_replay_witness:
  "\<forall>d. fst (run_state (handleRefreshTokenGrant demo_oidc demo_app demo_refresh_form) demo_revoked) \<noteq> OTokenError 400 ''invalid_grant'' d"
proof -
  obtain n resp where ok: "fst (run_state (handleRefreshTokenGrant demo_oidc demo_app demo_refresh_form) demo_ow) = OJson n resp"
    using demo_first_ok by blast
  have same: "w_users demo_revoked = w_users demo_ow" "w_clients demo_revoked = w_clients demo_ow" by (simp_all add: demo_revoked_def)
  have parse: "fst (run_state (ParseToken (oe_jwt demo_oidc) (tr_RefreshToken demo_refresh_form)) (w_redis demo_revoked)) =
      fst (run_state (ParseToken (oe_jwt demo_oidc) (tr_RefreshToken demo_refresh_form)) (w_redis demo_ow))"
    by (simp add: demo_oidc_def demo_env_def demo_grant_steps)
  show ?thesis
    using refresh_replay[OF demo_oidc.oidc_stack_axioms run_eq[OF ok] same parse run_eq[OF refl]] by blast
qed

section \<open>The forms\<close>

text \<open>
  C28: the consent token carries the request.  What the login page got as a token reads back, for
  ten minutes, as the authorization request it was made from, but for the response type.
\<close>

theorem consent_roundtrip:
  assumes "oidc_stack X" and "run_state (buildConsentToken X appID req) w = (tok, w1)"
    and "rnow r \<le> rnow (w_redis w) + 10 * minute"
  shows "run_state (parseConsentToken X tok) r = (Inr (req\<lparr>ar_ResponseType := []\<rparr>), r)"
  using oidc_stack.parse_build[OF assms] .

definition demo_request :: AuthorizeRequest where
  "demo_request = \<lparr>ar_ResponseType = ''code'', ar_ClientID = ''shop'', ar_RedirectURI = ''https://shop/cb'',
     ar_Scope = ''openid email'', ar_State = ''a=b&c'', ar_Nonce = [], ar_CodeChallenge = ''yx'', ar_CodeChallengeMethod = ''S256''\<rparr>"

definition demo_token_text :: string where
  "demo_token_text = fst (run_state (buildConsentToken demo_oidc ''a'' demo_request) demo_ow)"

theorem consent_roundtrip_witness:
  "fst (run_state (parseConsentToken demo_oidc demo_token_text) (empty_redis\<lparr>rnow := 9 * minute\<rparr>)) =
     Inr (demo_request\<lparr>ar_ResponseType := []\<rparr>)"
  using consent_roundtrip[OF demo_oidc.oidc_stack_axioms run_eq[OF demo_token_text_def[symmetric]],
      of "empty_redis\<lparr>rnow := 9 * minute\<rparr>"]
  by (simp add: demo_ow_def demo_uw_def empty_redis_def)

text \<open>
  What stands behind a code the form has brought.  When the form is answered with a redirect that
  carries a code, its token was signed by the provider, the code is for the client and the redirect
  address in it, and either the form had the password of an active user without a second factor and the
  code is for this user, or it had no password at all and the code is for the user id in the form.
\<close>

theorem form_code_sound:
  assumes "oidc_stack X"
    and "run_state (AuthorizeSubmit X (Inr token) c) w = (ORedirect (WithQuery uri ((''code'', k) # q)) cookies, w')"
  shows "\<exists>app client userID req. form_ok X c w token app client userID req \<and> code_for X uri app client userID req w' k"
  using wpD[OF oidc_stack.wp_AuthorizeSubmit[OF assms(1)] assms(2)] by blast

text \<open>A form with a user id and no password.\<close>

definition demo_forged :: "unit oidc_reply \<times> uworld" where
  "demo_forged = run_state (AuthorizeSubmit demo_oidc (Inr demo_token_text) (oidc_ctx [(''user_id'', ''u''), (''action'', ''approve'')])) demo_ow"

lemma demo_forged_ok: "case fst demo_forged of ORedirect (WithQuery _ ((k, _) # _)) _ \<Rightarrow> k = ''code'' | _ \<Rightarrow> False"
  by code_simp

theorem form_code_sound_witness:
  "\<exists>uri k q cookies app client req. fst demo_forged = ORedirect (WithQuery uri ((''code'', k) # q)) cookies \<and>
     code_for demo_oidc uri app client ''u'' req (snd demo_forged) k"
proof -
  obtain uri k q cookies where ok: "fst demo_forged = ORedirect (WithQuery uri ((''code'', k) # q)) cookies"
    using demo_forged_ok by (auto split: oidc_reply.splits location.splits list.splits prod.splits)
  have "PostForm (oidc_ctx [(''user_id'', ''u''), (''action'', ''approve'')]) ''email'' = []"
    "PostForm (oidc_ctx [(''user_id'', ''u''), (''action'', ''approve'')]) ''user_id'' = ''u''"
    by (simp_all add: oidc_ctx_def map_get_def)
  with form_code_sound[OF demo_oidc.oidc_stack_axioms run_eq[OF ok[unfolded demo_forged_def]]] ok
  show ?thesis by (auto simp: form_ok_def demo_forged_def)
qed

section \<open>Clients, addresses and scopes\<close>

text \<open>
  C29: only registered redirect addresses.  On a list of addresses in JSON, without commas or quotes
  inside, an address is allowed exactly when it is one of the list.
\<close>

theorem redirect_exact:
  assumes "\<forall>u\<in>set us. CHR '','' \<notin> set u \<and> CHR 0x22 \<notin> set u" and "uri \<noteq> []"
  shows "isRedirectURIAllowed (json_array us) uri \<longleftrightarrow> uri \<in> set us"
  using redirect_parts[OF assms] .

theorem redirect_exact_witness:
  "isRedirectURIAllowed (json_array [''https://a/cb'', ''https://b/cb'']) ''https://b/cb'' \<and>
   \<not> isRedirectURIAllowed (json_array [''https://a/cb'', ''https://b/cb'']) ''https://evil/?https://b/cb''"
  using redirect_exact[of "[''https://a/cb'', ''https://b/cb'']" "''https://b/cb''"]
    redirect_exact[of "[''https://a/cb'', ''https://b/cb'']" "''https://evil/?https://b/cb''"] by simp

text \<open>
  No code buys a refresh token.  A scope that the authorization endpoint accepts has no comma in it,
  and so the test for the scope of offline access, made for lists with commas, fails on it.
\<close>

theorem never_offline:
  assumes "oidc_stack X"
    and "run_state (ValidateAuthRequest X clientID uri responseType (Fields scope) challenge) w = (Inr client, w')"
  shows "\<not> containsScope scope ''offline_access''"
proof -
  have "sliceContains (Fields scope) ''openid'' \<and> \<not> list_ex (\<lambda>s. \<not> containsScope (AllowedScopes client) s) (Fields scope)"
    using wpD[OF oidc_stack.wp_ValidateAuthRequest[OF assms(1)] assms(2)] by simp
  then show ?thesis using allowed_scopes_plain openid_not_offline by blast
qed

theorem never_offline_witness:
  "\<not> containsScope ''openid offline_access'' ''offline_access''"
proof -
  define w where "w = demo_ow\<lparr>w_clients := [demo_client\<lparr>AllowedScopes := ''openid,offline_access''\<rparr>]\<rparr>"
  define m where "m = ValidateAuthRequest demo_oidc ''shop'' ''https://shop/cb'' ''code'' (Fields ''openid offline_access'') ''yx''"
  have "case fst (run_state m w) of Inr _ \<Rightarrow> True | Inl _ \<Rightarrow> False" unfolding m_def w_def by code_simp
  then obtain client where "fst (run_state m w) = Inr client" by (auto split: sum.splits)
  from never_offline[OF demo_oidc.oidc_stack_axioms run_eq[OF this, unfolded m_def]] show ?thesis .
qed

text \<open>
  Every new client has a secret and asks for consent.  Whatever the administrator asked for, the
  client that \<open>CreateClient\<close> stores is confidential, asks for consent and is active, and the secret it hands out
  is the one of the stored hash.
\<close>

theorem create_client_confidential:
  assumes "oidc_stack X" and "run_state (CreateClient X req) w = (Inr (client, secret), w')"
  shows "client \<in> set (w_clients w') \<and> RequireConsent client \<and> IsConfidential client \<and> oc_IsActive client \<and>
     CompareHash (ue_hash (oe_user X)) (ClientSecretHash client) secret"
  using wpD[OF oidc_stack.wp_CreateClient[OF assms(1)] assms(2)] by simp

definition demo_create :: "(string + (OIDCClient \<times> string)) \<times> uworld" where
  "demo_create = run_state (CreateClient demo_oidc (demo_client\<lparr>RequireConsent := False, IsConfidential := False\<rparr>)) demo_uw"

lemma demo_create_ok: "case fst demo_create of Inr (_, _) \<Rightarrow> True | Inl _ \<Rightarrow> False"
  by code_simp

theorem create_client_confidential_witness:
  "\<exists>client\<in>set (w_clients (snd demo_create)). RequireConsent client \<and> IsConfidential client"
proof -
  obtain client secret where ok: "fst demo_create = Inr (client, secret)"
    using demo_create_ok by (auto split: sum.splits)
  from create_client_confidential[OF demo_oidc.oidc_stack_axioms run_eq[OF ok[unfolded demo_create_def]]]
  show ?thesis by (auto simp: demo_create_def)
qed

end
