(* ===== verification/Rbac.thy ===== *)
theory Rbac
  imports UserService Http
begin

text \<open>
  Roles and permissions: \<open>internal/rbac/repository.go\<close>, \<open>service.go\<close> and \<open>handler.go\<close>.  A query over several
  tables fails as its first table does.  Foreign keys delete the rows that point to a deleted role.
\<close>

record CachedAccess =
  ca_Roles :: "string list"
  ca_Permissions :: "string list"

text \<open>
  The orders of the lists are those of the database's collation; \<open>access_json\<close> and \<open>access_parse\<close> are
  the JSON text of the cached struct.
\<close>

record rbac_env =
  re_redis :: redis_api
  re_roles :: "Role table_api"
  re_perms :: "Permission table_api"
  re_role_perms :: "RolePermission table_api"
  re_user_roles :: "UserRole table_api"
  re_uuid :: "nat \<Rightarrow> string"
  re_parse_uuid :: "string \<Rightarrow> string option"
  role_order :: "Role \<Rightarrow> int"
  permission_order :: "Permission \<Rightarrow> int"
  assignment_order :: "UserRole \<times> User \<times> Role \<Rightarrow> int"
  access_json :: "CachedAccess \<Rightarrow> string"
  access_parse :: "string \<Rightarrow> CachedAccess option"
  re_access_minutes :: int

section \<open>\<open>repository.go\<close>\<close>

definition perms_in :: "RolePermission list \<Rightarrow> Permission list \<Rightarrow> string \<Rightarrow> Permission list" where
  "perms_in rps ps roleID = [p. (r, i) \<leftarrow> rps, r = roleID, p \<leftarrow> ps, p_ID p = i]"

text \<open>A role with its permissions preloaded.\<close>

definition preload :: "Role \<Rightarrow> (uworld, Role \<times> Permission list) state" where
  "preload role = do {
     rps \<leftarrow> role_perms_of State_Monad.get;
     ps \<leftarrow> perms_of State_Monad.get;
     ret (role, perms_in rps ps (r_ID role)) }"

fun preload_all :: "Role list \<Rightarrow> (uworld, (Role \<times> Permission list) list) state" where
  "preload_all [] = ret []"
| "preload_all (r # rs) = do { x \<leftarrow> preload r; xs \<leftarrow> preload_all rs; ret (x # xs) }"

definition repo_GetRolesByAppID ::
    "rbac_env \<Rightarrow> string \<Rightarrow> (uworld, dberr + (Role \<times> Permission list) list) state" where
  "repo_GetRolesByAppID B appID = do {
     res \<leftarrow> roles_of (t_find (re_roles B) (\<lambda>r. r_AppID r = appID) (role_order B));
     case res of Inl e \<Rightarrow> ret (Inl e) | Inr rs \<Rightarrow> do { xs \<leftarrow> preload_all rs; ret (Inr xs) } }"

definition repo_GetRoleByID :: "rbac_env \<Rightarrow> string \<Rightarrow> (uworld, dberr + (Role \<times> Permission list)) state" where
  "repo_GetRoleByID B i = do {
     res \<leftarrow> roles_of (t_first (re_roles B) (\<lambda>r. r_ID r = i));
     case res of Inl e \<Rightarrow> ret (Inl e) | Inr r \<Rightarrow> do { x \<leftarrow> preload r; ret (Inr x) } }"

definition GetRoleByName :: "rbac_env \<Rightarrow> string \<Rightarrow> string \<Rightarrow> (uworld, dberr + Role) state" where
  "GetRoleByName B appID name = roles_of (t_first (re_roles B) (\<lambda>r. r_AppID r = appID \<and> r_Name r = name))"

definition repo_CreateRole :: "rbac_env \<Rightarrow> Role \<Rightarrow> (uworld, dberr + Role) state" where
  "repo_CreateRole B role = do {
     newID \<leftarrow> draw (re_uuid B);
     err \<leftarrow> roles_of (t_create (re_roles B) (role\<lparr>r_ID := newID\<rparr>));
     ret (case err of Some e \<Rightarrow> Inl e | None \<Rightarrow> Inr (role\<lparr>r_ID := newID\<rparr>)) }"

definition repo_UpdateRole :: "rbac_env \<Rightarrow> string \<Rightarrow> string \<Rightarrow> string \<Rightarrow> (uworld, dberr option) state" where
  "repo_UpdateRole B i name description =
     roles_of (t_update (re_roles B) (\<lambda>r. r_ID r = i) (\<lambda>r. r\<lparr>r_Name := name, r_Description := description\<rparr>))"

definition repo_DeleteRole :: "rbac_env \<Rightarrow> string \<Rightarrow> (uworld, dberr option) state" where
  "repo_DeleteRole B i = do {
     res \<leftarrow> roles_of (t_first (re_roles B) (\<lambda>r. r_ID r = i));
     case res of Inl e \<Rightarrow> ret (Some e) | Inr role \<Rightarrow>
     if IsSystem role then ret (Some (DBFail ''invalid data'')) else do {
     err \<leftarrow> roles_of (t_delete (re_roles B) (\<lambda>r. r_ID r = r_ID role));
     case err of Some e \<Rightarrow> ret (Some e) | None \<Rightarrow> do {
     rows \<leftarrow> role_perms_of State_Monad.get;
     role_perms_of (State_Monad.set (filter (\<lambda>(r, p). r \<noteq> r_ID role) rows));
     rows \<leftarrow> user_roles_of State_Monad.get;
     user_roles_of (State_Monad.set (filter (\<lambda>x. ur_RoleID x \<noteq> r_ID role) rows));
     ret None } } }"

definition repo_GetAllPermissions :: "rbac_env \<Rightarrow> (uworld, dberr + Permission list) state" where
  "repo_GetAllPermissions B = perms_of (t_find (re_perms B) (\<lambda>_. True) (permission_order B))"

definition GetPermissionByID :: "rbac_env \<Rightarrow> string \<Rightarrow> (uworld, dberr + Permission) state" where
  "GetPermissionByID B i = perms_of (t_first (re_perms B) (\<lambda>p. p_ID p = i))"

definition repo_CreatePermission :: "rbac_env \<Rightarrow> Permission \<Rightarrow> (uworld, dberr + Permission) state" where
  "repo_CreatePermission B perm = do {
     newID \<leftarrow> draw (re_uuid B);
     err \<leftarrow> perms_of (t_create (re_perms B) (perm\<lparr>p_ID := newID\<rparr>));
     ret (case err of Some e \<Rightarrow> Inl e | None \<Rightarrow> Inr (perm\<lparr>p_ID := newID\<rparr>)) }"

definition GetPermissionsByRoleID :: "rbac_env \<Rightarrow> string \<Rightarrow> (uworld, dberr + Permission list) state" where
  "GetPermissionsByRoleID B roleID = do {
     res \<leftarrow> repo_GetRoleByID B roleID;
     ret (case res of Inl e \<Rightarrow> Inl e | Inr (_, ps) \<Rightarrow> Inr ps) }"

text \<open>\<open>Replace\<close> adds the pairs that are not there yet, then deletes the others of the role.\<close>

fun add_pairs :: "rbac_env \<Rightarrow> string \<Rightarrow> string list \<Rightarrow> (uworld, dberr option) state" where
  "add_pairs B roleID [] = ret None"
| "add_pairs B roleID (p # ps) = do {
     rows \<leftarrow> role_perms_of State_Monad.get;
     err \<leftarrow> (if (roleID, p) \<in> set rows then ret None else role_perms_of (t_create (re_role_perms B) (roleID, p)));
     case err of Some e \<Rightarrow> ret (Some e) | None \<Rightarrow> add_pairs B roleID ps }"

definition repo_SetRolePermissions :: "rbac_env \<Rightarrow> string \<Rightarrow> string list \<Rightarrow> (uworld, dberr option) state" where
  "repo_SetRolePermissions B roleID permissionIDs = do {
     res \<leftarrow> roles_of (t_first (re_roles B) (\<lambda>r. r_ID r = roleID));
     case res of Inl e \<Rightarrow> ret (Some e) | Inr role \<Rightarrow> do {
     res \<leftarrow> (if permissionIDs = [] then ret (Inr [])
       else perms_of (t_find (re_perms B) (\<lambda>p. p_ID p \<in> set permissionIDs) (\<lambda>_. 0)));
     case res of Inl e \<Rightarrow> ret (Some e) | Inr permissions \<Rightarrow> do {
     err \<leftarrow> add_pairs B (r_ID role) (map p_ID permissions);
     case err of Some e \<Rightarrow> ret (Some e) | None \<Rightarrow>
       role_perms_of (t_delete (re_role_perms B) (\<lambda>(r, p). r = r_ID role \<and> p \<notin> set (map p_ID permissions))) } } }"

definition assigned_in :: "string \<Rightarrow> string \<Rightarrow> UserRole \<Rightarrow> bool" where
  "assigned_in appID userID x \<longleftrightarrow> ur_AppID x = appID \<and> ur_UserID x = userID"

text \<open>An assignment whose role is gone preloads the zero role; foreign keys keep that from happening.\<close>

definition repo_GetUserRoles ::
    "rbac_env \<Rightarrow> string \<Rightarrow> string \<Rightarrow> (uworld, dberr + (Role \<times> Permission list) list) state" where
  "repo_GetUserRoles B appID userID = do {
     res \<leftarrow> user_roles_of (t_find (re_user_roles B) (assigned_in appID userID) (\<lambda>_. 0));
     case res of Inl e \<Rightarrow> ret (Inl e) | Inr xs \<Rightarrow> do {
     rs \<leftarrow> roles_of State_Monad.get;
     ys \<leftarrow> preload_all [r. x \<leftarrow> xs, r \<leftarrow> rs, r_ID r = ur_RoleID x];
     ret (Inr ys) } }"

definition repo_GetUserRoleNames :: "rbac_env \<Rightarrow> string \<Rightarrow> string \<Rightarrow> (uworld, dberr + string list) state" where
  "repo_GetUserRoleNames B appID userID = do {
     res \<leftarrow> user_roles_of (t_find (re_user_roles B) (assigned_in appID userID) (\<lambda>_. 0));
     rs \<leftarrow> roles_of State_Monad.get;
     ret (case res of Inl e \<Rightarrow> Inl e
       | Inr xs \<Rightarrow> Inr [r_Name r. x \<leftarrow> xs, r \<leftarrow> rs, r_ID r = ur_RoleID x]) }"

definition permission_name :: "Permission \<Rightarrow> string" where
  "permission_name p = p_Resource p @ '':'' @ p_Action p"

definition GetUserPermissions :: "rbac_env \<Rightarrow> string \<Rightarrow> string \<Rightarrow> (uworld, dberr + string list) state" where
  "GetUserPermissions B appID userID = do {
     res \<leftarrow> user_roles_of (t_find (re_user_roles B) (assigned_in appID userID) (\<lambda>_. 0));
     rps \<leftarrow> role_perms_of State_Monad.get;
     ps \<leftarrow> perms_of State_Monad.get;
     ret (case res of Inl e \<Rightarrow> Inl e
       | Inr xs \<Rightarrow> Inr (map (\<lambda>(r, a). r @ '':'' @ a)
           (remdups [(p_Resource p, p_Action p). x \<leftarrow> xs, p \<leftarrow> perms_in rps ps (ur_RoleID x)]))) }"

definition repo_AssignRoleToUser :: "rbac_env \<Rightarrow> string \<Rightarrow> string \<Rightarrow> string \<Rightarrow> (uworld, dberr option) state" where
  "repo_AssignRoleToUser B userID roleID appID =
     (case (re_parse_uuid B userID, re_parse_uuid B roleID, re_parse_uuid B appID) of
        (Some u, Some r, Some a) \<Rightarrow>
          user_roles_of (t_create (re_user_roles B) \<lparr>ur_UserID = u, ur_RoleID = r, ur_AppID = a\<rparr>)
      | _ \<Rightarrow> ret (Some (DBFail ''invalid UUID'')))"

definition repo_RevokeRoleFromUser :: "rbac_env \<Rightarrow> string \<Rightarrow> string \<Rightarrow> (uworld, dberr option) state" where
  "repo_RevokeRoleFromUser B userID roleID =
     user_roles_of (t_delete (re_user_roles B) (\<lambda>x. ur_UserID x = userID \<and> ur_RoleID x = roleID))"

text \<open>Assignments of an application with user and role, one page of them, and how many there are without the joins.\<close>

definition GetUsersWithRoleInApp ::
    "rbac_env \<Rightarrow> string \<Rightarrow> nat \<Rightarrow> nat \<Rightarrow> (uworld, dberr + ((UserRole \<times> User \<times> Role) list \<times> nat)) state" where
  "GetUsersWithRoleInApp B appID page pageSize = do {
     res \<leftarrow> user_roles_of (t_count (re_user_roles B) (\<lambda>x. ur_AppID x = appID));
     case res of Inl e \<Rightarrow> ret (Inl e) | Inr n \<Rightarrow> do {
     res \<leftarrow> user_roles_of (t_find (re_user_roles B) (\<lambda>x. ur_AppID x = appID) (\<lambda>_. 0));
     us \<leftarrow> usr State_Monad.get;
     rs \<leftarrow> roles_of State_Monad.get;
     ret (case res of Inl e \<Rightarrow> Inl e
       | Inr xs \<Rightarrow> Inr (take pageSize (drop ((page - 1) * pageSize) (sort_key (assignment_order B)
           [(x, u, r). x \<leftarrow> xs, u \<leftarrow> us, u_ID u = ur_UserID x, r \<leftarrow> rs, r_ID r = ur_RoleID x])), n)) } }"

definition GetUserRolesForUserInApp ::
    "rbac_env \<Rightarrow> string \<Rightarrow> string \<Rightarrow> (uworld, dberr + (UserRole \<times> Role option) list) state" where
  "GetUserRolesForUserInApp B appID userID = do {
     res \<leftarrow> user_roles_of (t_find (re_user_roles B) (assigned_in appID userID) (\<lambda>_. 0));
     rs \<leftarrow> roles_of State_Monad.get;
     ret (case res of Inl e \<Rightarrow> Inl e | Inr xs \<Rightarrow> Inr (map (\<lambda>x. (x, find (\<lambda>r. r_ID r = ur_RoleID x) rs)) xs)) }"

section \<open>The cache\<close>

definition rbacKey :: "string \<Rightarrow> string \<Rightarrow> string" where
  "rbacKey appID userID = ''rbac:'' @ appID @ '':'' @ userID"

definition cacheTTL :: "rbac_env \<Rightarrow> duration" where
  "cacheTTL B = wrap64 (minute * (if re_access_minutes B \<le> 0 then 15 else re_access_minutes B))"

definition getFromCache :: "rbac_env \<Rightarrow> string \<Rightarrow> string \<Rightarrow> (redis, string + CachedAccess option) state" where
  "getFromCache B appID userID = do {
     res \<leftarrow> r_get (re_redis B) (rbacKey appID userID);
     ret (case res of Inl RNil \<Rightarrow> Inr None | Inl (RFail e) \<Rightarrow> Inl e
       | Inr data \<Rightarrow> (case access_parse B data of None \<Rightarrow> Inl ''json'' | Some access \<Rightarrow> Inr (Some access))) }"

definition setCache :: "rbac_env \<Rightarrow> string \<Rightarrow> string \<Rightarrow> CachedAccess \<Rightarrow> (redis, rerr option) state" where
  "setCache B appID userID access = r_set (re_redis B) (rbacKey appID userID) (access_json B access) (cacheTTL B)"

definition InvalidateCache :: "rbac_env \<Rightarrow> string \<Rightarrow> string \<Rightarrow> (redis, unit) state" where
  "InvalidateCache B appID userID = ignore (r_del (re_redis B) [rbacKey appID userID])"

definition invalidateCacheForRole :: "rbac_env \<Rightarrow> string \<Rightarrow> string \<Rightarrow> (uworld, unit) state" where
  "invalidateCacheForRole B appID roleID = do {
     res \<leftarrow> GetUsersWithRoleInApp B appID 1 10000;
     case res of Inl e \<Rightarrow> ret () | Inr (userRoles, _) \<Rightarrow>
       for_each userRoles (\<lambda>(x, _, _). if ur_RoleID x = roleID then rds (InvalidateCache B appID (ur_UserID x)) else ret ()) }"

section \<open>\<open>service.go\<close>\<close>

definition ResolveUserAccess :: "rbac_env \<Rightarrow> string \<Rightarrow> string \<Rightarrow> (uworld, string + CachedAccess) state" where
  "ResolveUserAccess B appID userID = do {
     cached \<leftarrow> rds (getFromCache B appID userID);
     case cached of Inr (Some access) \<Rightarrow> ret (Inr access)
     | _ \<Rightarrow> do {
     res \<leftarrow> repo_GetUserRoleNames B appID userID;
     case res of Inl e \<Rightarrow> ret (Inl ''failed to fetch user roles'') | Inr roles \<Rightarrow> do {
     res \<leftarrow> GetUserPermissions B appID userID;
     case res of Inl e \<Rightarrow> ret (Inl ''failed to fetch user permissions'') | Inr permissions \<Rightarrow> do {
     let access = \<lparr>ca_Roles = roles, ca_Permissions = permissions\<rparr>;
     rds (ignore (setCache B appID userID access));
     ret (Inr access) } } } }"

definition HasRole :: "rbac_env \<Rightarrow> string \<Rightarrow> string \<Rightarrow> string list \<Rightarrow> (uworld, string + bool) state" where
  "HasRole B appID userID requiredRoles = do {
     res \<leftarrow> ResolveUserAccess B appID userID;
     ret (case res of Inl e \<Rightarrow> Inl e | Inr access \<Rightarrow> Inr (list_ex (\<lambda>r. r \<in> set requiredRoles) (ca_Roles access))) }"

definition HasPermission :: "rbac_env \<Rightarrow> string \<Rightarrow> string \<Rightarrow> string \<Rightarrow> string \<Rightarrow> (uworld, string + bool) state" where
  "HasPermission B appID userID resource action = do {
     res \<leftarrow> ResolveUserAccess B appID userID;
     ret (case res of Inl e \<Rightarrow> Inl e
       | Inr access \<Rightarrow> Inr (list_ex (\<lambda>p. p = resource @ '':'' @ action) (ca_Permissions access))) }"

definition rbac_CreateRole :: "rbac_env \<Rightarrow> string \<Rightarrow> string \<Rightarrow> string \<Rightarrow> (uworld, dberr + Role) state" where
  "rbac_CreateRole B appID name description = (case re_parse_uuid B appID of
       None \<Rightarrow> ret (Inl (DBFail ''invalid app ID''))
     | Some a \<Rightarrow> repo_CreateRole B \<lparr>r_ID = [], r_AppID = a, r_Name = name, r_Description = description, IsSystem = False\<rparr>)"

definition rbac_UpdateRole :: "rbac_env \<Rightarrow> string \<Rightarrow> string \<Rightarrow> string \<Rightarrow> (uworld, dberr option) state" where
  "rbac_UpdateRole B i name description = do {
     res \<leftarrow> repo_GetRoleByID B i;
     case res of Inl e \<Rightarrow> ret (Some e) | Inr (role, _) \<Rightarrow>
     if IsSystem role \<and> name \<noteq> r_Name role then ret (Some (DBFail ''cannot rename system role''))
     else repo_UpdateRole B i name description }"

definition rbac_DeleteRole :: "rbac_env \<Rightarrow> string \<Rightarrow> (uworld, dberr option) state" where
  "rbac_DeleteRole B i = do {
     res \<leftarrow> repo_GetRoleByID B i;
     case res of Inl e \<Rightarrow> ret (Some e) | Inr (role, _) \<Rightarrow>
     if IsSystem role then ret (Some (DBFail ''cannot delete system role'')) else do {
     res \<leftarrow> GetUsersWithRoleInApp B (r_AppID role) 1 10000;
     case res of Inl e \<Rightarrow> ret (Some e) | Inr (userRoles, _) \<Rightarrow> do {
     err \<leftarrow> repo_DeleteRole B i;
     case err of Some e \<Rightarrow> ret (Some e) | None \<Rightarrow> do {
     for_each userRoles (\<lambda>(x, _, _). if ur_RoleID x = i then rds (InvalidateCache B (r_AppID role) (ur_UserID x)) else ret ());
     ret None } } } }"

definition rbac_CreatePermission :: "rbac_env \<Rightarrow> string \<Rightarrow> string \<Rightarrow> string \<Rightarrow> (uworld, dberr + Permission) state" where
  "rbac_CreatePermission B resource action description =
     repo_CreatePermission B \<lparr>p_ID = [], p_Resource = resource, p_Action = action, p_Description = description\<rparr>"

definition rbac_SetRolePermissions :: "rbac_env \<Rightarrow> string \<Rightarrow> string list \<Rightarrow> (uworld, dberr option) state" where
  "rbac_SetRolePermissions B roleID permissionIDs = do {
     res \<leftarrow> repo_GetRoleByID B roleID;
     case res of Inl e \<Rightarrow> ret (Some e) | Inr (role, _) \<Rightarrow> do {
     err \<leftarrow> repo_SetRolePermissions B roleID permissionIDs;
     case err of Some e \<Rightarrow> ret (Some e) | None \<Rightarrow> do {
     invalidateCacheForRole B (r_AppID role) roleID;
     ret None } } }"

text \<open>Who assigns is not modelled.\<close>

definition rbac_AssignRoleToUser :: "rbac_env \<Rightarrow> string \<Rightarrow> string \<Rightarrow> string \<Rightarrow> (uworld, dberr option) state" where
  "rbac_AssignRoleToUser B userID roleID appID = do {
     err \<leftarrow> repo_AssignRoleToUser B userID roleID appID;
     case err of Some e \<Rightarrow> ret (Some e) | None \<Rightarrow> do { rds (InvalidateCache B appID userID); ret None } }"

definition rbac_AssignDefaultRole :: "rbac_env \<Rightarrow> string \<Rightarrow> string \<Rightarrow> (uworld, string option) state" where
  "rbac_AssignDefaultRole B appID userID = do {
     res \<leftarrow> GetRoleByName B appID ''member'';
     case res of Inl e \<Rightarrow> ret None | Inr role \<Rightarrow> do {
     err \<leftarrow> repo_AssignRoleToUser B userID (r_ID role) appID;
     case err of Some e \<Rightarrow> ret None | None \<Rightarrow> do { rds (InvalidateCache B appID userID); ret None } } }"

definition rbac_RevokeRoleFromUser :: "rbac_env \<Rightarrow> string \<Rightarrow> string \<Rightarrow> string \<Rightarrow> (uworld, dberr option) state" where
  "rbac_RevokeRoleFromUser B userID roleID appID = do {
     err \<leftarrow> repo_RevokeRoleFromUser B userID roleID;
     case err of Some e \<Rightarrow> ret (Some e) | None \<Rightarrow> do { rds (InvalidateCache B appID userID); ret None } }"

end
