(* ===== verification/RbacHandler.thy ===== *)
theory RbacHandler
  imports Rbac AuthMiddleware
begin

text \<open>
  \<open>internal/rbac/handler.go\<close>: the administration of roles.  A role is answered with its permissions;
  timestamps are left out.  The middleware of \<open>AuthMiddleware\<close> is wired to the service here.
\<close>

definition with_query ::
    "string list \<Rightarrow> string \<Rightarrow> http_ctx \<Rightarrow> (uworld, 'a reply) state \<Rightarrow> (uworld, 'a reply) state" where
  "with_query ks err c body = (if list_ex (\<lambda>k. Query c k = []) ks then ret (RError 400 err) else body)"

definition db_reply :: "int \<Rightarrow> string \<Rightarrow> string \<Rightarrow> dberr option \<Rightarrow> string reply" where
  "db_reply n prefix ok err = (case err of None \<Rightarrow> RJson 200 ok
     | Some NotFound \<Rightarrow> RError n (prefix @ ''record not found'') | Some (DBFail e) \<Rightarrow> RError n (prefix @ e))"

definition ListRoles :: "rbac_env \<Rightarrow> http_ctx \<Rightarrow> (uworld, (Role \<times> Permission list) list reply) state" where
  "ListRoles B c = with_query [''app_id''] ''app_id query parameter is required'' c (do {
     res \<leftarrow> repo_GetRolesByAppID B (Query c ''app_id'');
     ret (case res of Inl e \<Rightarrow> RError 500 ''Failed to list roles'' | Inr rs \<Rightarrow> RJson 200 rs) })"

definition GetRole :: "rbac_env \<Rightarrow> http_ctx \<Rightarrow> (uworld, (Role \<times> Permission list) reply) state" where
  "GetRole B c = do {
     res \<leftarrow> repo_GetRoleByID B (Param c ''id'');
     ret (case res of Inl e \<Rightarrow> RError 404 ''Role not found'' | Inr r \<Rightarrow> RJson 200 r) }"

record CreateRoleRequest =
  cq_AppID :: string
  cq_Name :: string
  cq_Description :: string

definition h_CreateRole :: "rbac_env \<Rightarrow> string + CreateRoleRequest \<Rightarrow> (uworld, Role reply) state" where
  "h_CreateRole B body = with_body body (\<lambda>req. do {
     res \<leftarrow> rbac_CreateRole B (cq_AppID req) (cq_Name req) (cq_Description req);
     ret (case res of Inl e \<Rightarrow> RError 500 (''Failed to create role: '' @ (case e of NotFound \<Rightarrow> ''record not found'' | DBFail t \<Rightarrow> t))
       | Inr role \<Rightarrow> RJson 201 role) })"

definition h_UpdateRole :: "rbac_env \<Rightarrow> string + (string \<times> string) \<Rightarrow> http_ctx \<Rightarrow> (uworld, string reply) state" where
  "h_UpdateRole B body c = with_body body (\<lambda>(name, description). do {
     err \<leftarrow> rbac_UpdateRole B (Param c ''id'') name description;
     ret (db_reply 500 ''Failed to update role: '' ''Role updated successfully'' err) })"

definition h_DeleteRole :: "rbac_env \<Rightarrow> http_ctx \<Rightarrow> (uworld, string reply) state" where
  "h_DeleteRole B c = do {
     err \<leftarrow> rbac_DeleteRole B (Param c ''id'');
     ret (db_reply 400 ''Failed to delete role: '' ''Role deleted successfully'' err) }"

definition h_SetRolePermissions :: "rbac_env \<Rightarrow> string + string list \<Rightarrow> http_ctx \<Rightarrow> (uworld, string reply) state" where
  "h_SetRolePermissions B body c = with_body body (\<lambda>permissionIDs. do {
     err \<leftarrow> rbac_SetRolePermissions B (Param c ''id'') permissionIDs;
     ret (db_reply 500 ''Failed to set permissions: '' ''Role permissions updated successfully'' err) })"

definition ListPermissions :: "rbac_env \<Rightarrow> (uworld, Permission list reply) state" where
  "ListPermissions B = do {
     res \<leftarrow> repo_GetAllPermissions B;
     ret (case res of Inl e \<Rightarrow> RError 500 ''Failed to list permissions'' | Inr ps \<Rightarrow> RJson 200 ps) }"

definition h_CreatePermission :: "rbac_env \<Rightarrow> string + (string \<times> string \<times> string) \<Rightarrow> (uworld, Permission reply) state" where
  "h_CreatePermission B body = with_body body (\<lambda>(resource, action, description). do {
     res \<leftarrow> rbac_CreatePermission B resource action description;
     ret (case res of Inl e \<Rightarrow> RError 500 (''Failed to create permission: '' @ (case e of NotFound \<Rightarrow> ''record not found'' | DBFail t \<Rightarrow> t))
       | Inr p \<Rightarrow> RJson 201 p) })"

text \<open>The page and its size as they are read from the query, with their defaults and limits.\<close>

definition page_params :: "http_ctx \<Rightarrow> nat \<times> nat" where
  "page_params c = (let page = case_option 0 (\<lambda>i. i) (atoi (Query c ''page''));
       size = case_option 0 (\<lambda>i. i) (atoi (Query c ''page_size''))
     in (if page < 1 then 1 else nat page, if size < 1 \<or> 100 < size then 20 else nat size))"

record UserRolePage =
  pg_data :: "(UserRole \<times> User \<times> Role) list"
  pg_total :: nat
  pg_page :: nat
  pg_page_size :: nat
  pg_total_pages :: nat

definition ListUserRoles :: "rbac_env \<Rightarrow> http_ctx \<Rightarrow> (uworld, UserRolePage reply) state" where
  "ListUserRoles B c = with_query [''app_id''] ''app_id query parameter is required'' c (do {
     let (page, pageSize) = page_params c;
     res \<leftarrow> GetUsersWithRoleInApp B (Query c ''app_id'') page pageSize;
     ret (case res of Inl e \<Rightarrow> RError 500 ''Failed to list user-role assignments''
       | Inr (items, n) \<Rightarrow> RJson 200 \<lparr>pg_data = items, pg_total = n, pg_page = page, pg_page_size = pageSize,
           pg_total_pages = (n + pageSize - 1) div pageSize\<rparr>) })"

definition AssignRole :: "rbac_env \<Rightarrow> string + (string \<times> string) \<Rightarrow> http_ctx \<Rightarrow> (uworld, string reply) state" where
  "AssignRole B body c = with_query [''app_id''] ''app_id query parameter is required'' c
     (with_body body (\<lambda>(userID, roleID). do {
       err \<leftarrow> rbac_AssignRoleToUser B userID roleID (Query c ''app_id'');
       ret (db_reply 500 ''Failed to assign role: '' ''Role assigned successfully'' err) }))"

definition RevokeRole :: "rbac_env \<Rightarrow> http_ctx \<Rightarrow> (uworld, string reply) state" where
  "RevokeRole B c = with_query [''app_id'', ''user_id'', ''role_id'']
     ''app_id, user_id, and role_id query parameters are required'' c (do {
     err \<leftarrow> rbac_RevokeRoleFromUser B (Query c ''user_id'') (Query c ''role_id'') (Query c ''app_id'');
     ret (db_reply 500 ''Failed to revoke role: '' ''Role revoked successfully'' err) })"

text \<open>An id that is no UUID is answered as the zero UUID.\<close>

definition h_GetUserRoles ::
    "rbac_env \<Rightarrow> http_ctx \<Rightarrow> (uworld, (string option \<times> string option \<times> (Role \<times> Permission list) list) reply) state" where
  "h_GetUserRoles B c = with_query [''app_id'', ''user_id''] ''app_id and user_id query parameters are required'' c (do {
     res \<leftarrow> repo_GetUserRoles B (Query c ''app_id'') (Query c ''user_id'');
     ret (case res of Inl e \<Rightarrow> RError 500 ''Failed to get user roles''
       | Inr roles \<Rightarrow> RJson 200 (re_parse_uuid B (Query c ''user_id''), re_parse_uuid B (Query c ''app_id''), roles)) })"

section \<open>The middleware on this service\<close>

definition require_permission :: "rbac_env \<Rightarrow> string \<Rightarrow> string \<Rightarrow> http_ctx \<Rightarrow> (uworld, mw_result outcome) state" where
  "require_permission B resource action c = AuthorizePermission (Some (HasPermission B)) resource action c"

definition require_role :: "rbac_env \<Rightarrow> string list \<Rightarrow> http_ctx \<Rightarrow> (uworld, mw_result outcome) state" where
  "require_role B requiredRoles c = AuthorizeRole (Some (HasRole B)) requiredRoles c"

end
