(* ===== verification/RbacSpec.thy ===== *)
theory RbacSpec
  imports RbacHandler UserDemo
begin

text \<open>
  The cache of roles and permissions agrees with the tables: what the cached answers are compared
  with, the operations that keep the agreement, and the one that does not.
\<close>

section \<open>What the tables grant\<close>

definition granted_roles :: "uworld \<Rightarrow> string \<Rightarrow> string \<Rightarrow> string set" where
  "granted_roles w a u = {r_Name r | x r. x \<in> set (w_user_roles w) \<and> assigned_in a u x \<and> r \<in> set (w_roles w) \<and> r_ID r = ur_RoleID x}"

definition granted_perms :: "uworld \<Rightarrow> string \<Rightarrow> string \<Rightarrow> string set" where
  "granted_perms w a u = {permission_name p | x p. x \<in> set (w_user_roles w) \<and> assigned_in a u x \<and> p \<in> set (w_permissions w) \<and>
     (ur_RoleID x, p_ID p) \<in> set (w_role_permissions w)}"

definition exact :: "uworld \<Rightarrow> string \<Rightarrow> string \<Rightarrow> CachedAccess \<Rightarrow> bool" where
  "exact w a u acc \<longleftrightarrow> set (ca_Roles acc) = granted_roles w a u \<and> set (ca_Permissions acc) = granted_perms w a u"

text \<open>
  Every answer in the cache is what the tables grant.  Ids of applications have no colon, so that the keys tell application and user apart.\<close>

definition coherent :: "rbac_env \<Rightarrow> uworld \<Rightarrow> bool" where
  "coherent B w \<longleftrightarrow> (\<forall>a u s acc. CHR '':'' \<notin> set a \<and> live (w_redis w) (rbacKey a u) = Some (RStr s) \<and>
     access_parse B s = Some acc \<longrightarrow> exact w a u acc)"

lemma rbacKey_inject: "CHR '':'' \<notin> set a \<Longrightarrow> CHR '':'' \<notin> set a' \<Longrightarrow> rbacKey a u = rbacKey a' u' \<longleftrightarrow> a = a' \<and> u = u'"
proof
  assume a: "CHR '':'' \<notin> set a" "CHR '':'' \<notin> set a'" and "rbacKey a u = rbacKey a' u'"
  then have eq: "a @ CHR '':'' # u = a' @ CHR '':'' # u'" by (simp add: rbacKey_def)
  have "a = a'" using arg_cong[OF eq, of "before (CHR '':'')"] unfolding before_append[OF a(1)] before_append[OF a(2)] .
  moreover have "u = u'" using arg_cong[OF eq, of "after (CHR '':'')"] unfolding after_append[OF a(1)] after_append[OF a(2)] .
  ultimately show "a = a' \<and> u = u'" ..
qed simp

lemma grants_redis [simp]:
  "granted_roles (w\<lparr>w_redis := r\<rparr>) a u = granted_roles w a u" "granted_perms (w\<lparr>w_redis := r\<rparr>) a u = granted_perms w a u"
  by (simp_all add: granted_roles_def granted_perms_def)

definition same_grants :: "uworld \<Rightarrow> uworld \<Rightarrow> string \<Rightarrow> string \<Rightarrow> bool" where
  "same_grants w w' a u \<longleftrightarrow> granted_roles w' a u = granted_roles w a u \<and> granted_perms w' a u = granted_perms w a u"

lemma coherent_step:
  assumes "coherent B w" and "rnow (w_redis w) \<le> rnow (w_redis w')"
    and "\<And>a u. CHR '':'' \<notin> set a \<Longrightarrow> rdata (w_redis w') (rbacKey a u) = None \<or>
      same_grants w w' a u \<and> rdata (w_redis w') (rbacKey a u) = rdata (w_redis w) (rbacKey a u)"
  shows "coherent B w'"
  unfolding coherent_def
proof (intro allI impI, elim conjE)
  fix a u s acc
  assume a: "CHR '':'' \<notin> set a" and l: "live (w_redis w') (rbacKey a u) = Some (RStr s)" and p: "access_parse B s = Some acc"
  from assms(3)[OF a, of u] l have g: "same_grants w w' a u"
    and d: "rdata (w_redis w') (rbacKey a u) = rdata (w_redis w) (rbacKey a u)" by (auto simp: live_None)
  from live_mono[OF l d assms(2)] a p assms(1) have "exact w a u acc" unfolding coherent_def by blast
  with g show "exact w' a u acc" by (simp add: exact_def same_grants_def)
qed

section \<open>The operations\<close>

lemma perms_in_set: "p \<in> set (perms_in rps ps i) \<longleftrightarrow> p \<in> set ps \<and> (i, p_ID p) \<in> set rps"
  by (auto simp: perms_in_def)

lemma granted_lists:
  assumes "set xs = {x \<in> set (w_user_roles w). assigned_in a u x}"
  shows "set [r_Name r. x \<leftarrow> xs, r \<leftarrow> w_roles w, r_ID r = ur_RoleID x] = granted_roles w a u"
    and "set (map (\<lambda>(r, a). r @ '':'' @ a) (remdups [(p_Resource p, p_Action p).
      x \<leftarrow> xs, p \<leftarrow> perms_in (w_role_permissions w) (w_permissions w) (ur_RoleID x)])) = granted_perms w a u"
proof -
  show "set [r_Name r. x \<leftarrow> xs, r \<leftarrow> w_roles w, r_ID r = ur_RoleID x] = granted_roles w a u"
    unfolding granted_roles_def by (simp add: assms) blast
  have "set (map (\<lambda>(r, a). r @ '':'' @ a) (remdups [(p_Resource p, p_Action p).
      x \<leftarrow> xs, p \<leftarrow> perms_in (w_role_permissions w) (w_permissions w) (ur_RoleID x)])) =
     {permission_name p | x p. x \<in> set xs \<and> p \<in> set (perms_in (w_role_permissions w) (w_permissions w) (ur_RoleID x))}"
    unfolding permission_name_def by force
  then show "set (map (\<lambda>(r, a). r @ '':'' @ a) (remdups [(p_Resource p, p_Action p).
      x \<leftarrow> xs, p \<leftarrow> perms_in (w_role_permissions w) (w_permissions w) (ur_RoleID x)])) = granted_perms w a u"
    unfolding granted_perms_def perms_in_set assms by blast
qed

locale rbac_stack =
  redis: reliable_redis "re_redis B" + roles: table_server "re_roles B" role_clash +
  perms: table_server "re_perms B" permission_clash + role_perms: table_server "re_role_perms B" "(=)" +
  user_roles: table_server "re_user_roles B" user_role_clash for B :: rbac_env +
  assumes json: "access_parse B (access_json B acc) = Some acc"
    and count_up: "run_state (t_count (re_user_roles B) p) rows \<noteq> (Inl e, rows')"
    and find_up: "run_state (t_find (re_user_roles B) p key) rows \<noteq> (Inl e, rows')"
begin

lemma wp_assignments:
  "(\<And>res. (\<forall>xs. res = Inr xs \<longrightarrow> set xs = {x \<in> set (w_user_roles w). assigned_in a u x}) \<Longrightarrow> Q res w) \<Longrightarrow>
   wp (user_roles_of (t_find (re_user_roles B) (assigned_in a u) (\<lambda>_. 0))) Q w"
proof (intro wp_lifts(9) user_roles.wp_t_find)
  fix res
  assume q: "\<And>res. (\<forall>xs. res = Inr xs \<longrightarrow> set xs = {x \<in> set (w_user_roles w). assigned_in a u x}) \<Longrightarrow> Q res w"
    and f: "find_post (assigned_in a u) (\<lambda>_. 0) (w_user_roles w) res (w_user_roles w)"
  have "set xs = {x \<in> set (w_user_roles w). assigned_in a u x}" if "res = Inr xs" for xs
    using f that set_count[of xs "filter (assigned_in a u) (w_user_roles w)"] by (simp add: find_post_def)
  then have "Q res w" by (intro q) simp
  then show "Q res (w\<lparr>w_user_roles := w_user_roles w\<rparr>)" by simp
qed

lemma wp_role_names:
  "wp (repo_GetUserRoleNames B a u) (\<lambda>res w'. w' = w \<and> (\<forall>ns. res = Inr ns \<longrightarrow> set ns = granted_roles w a u)) w"
  unfolding repo_GetUserRoleNames_def
proof (rule wp_bind, rule wp_assignments, rule wp_bind, rule wp_lifts, rule wp_get, rule wp_return, goal_cases)
  case (1 res)
  then show ?case using granted_lists(1) by (cases res) simp_all
qed

lemma wp_permissions:
  "wp (GetUserPermissions B a u) (\<lambda>res w'. w' = w \<and> (\<forall>ns. res = Inr ns \<longrightarrow> set ns = granted_perms w a u)) w"
  unfolding GetUserPermissions_def
proof (rule wp_bind, rule wp_assignments, rule wp_bind, rule wp_lifts(8), rule wp_get, rule wp_bind, rule wp_lifts(7), rule wp_get,
    rule wp_return, goal_cases)
  case (1 res)
  then show ?case using granted_lists(2) by (cases res) simp_all
qed

lemma coherent_redis:
  assumes "coherent B w" and "rnow (w_redis w) \<le> rnow r"
    and "\<And>a u. CHR '':'' \<notin> set a \<Longrightarrow> rdata r (rbacKey a u) = None \<or> rdata r (rbacKey a u) = rdata (w_redis w) (rbacKey a u)"
  shows "coherent B (w\<lparr>w_redis := r\<rparr>)"
  by (rule coherent_step[OF assms(1)]) (use assms(2,3) in \<open>auto simp: same_grants_def\<close>)

lemma wp_setCache:
  assumes "coherent B w" and "CHR '':'' \<notin> set a" and "exact w a u acc"
  shows "wp (rds (ignore (setCache B a u acc))) (\<lambda>_. coherent B) w"
  unfolding ignore_def setCache_def
proof (rule wp_rds, rule wp_bind, rule redis.wp_u_set, rule wp_return, goal_cases)
  case (1 r)
  show ?case unfolding coherent_def
  proof (intro allI impI, elim conjE)
    fix a' u' s acc'
    assume a': "CHR '':'' \<notin> set a'" and l: "live (w_redis (w\<lparr>w_redis := r\<rparr>)) (rbacKey a' u') = Some (RStr s)"
      and p: "access_parse B s = Some acc'"
    show "exact (w\<lparr>w_redis := r\<rparr>) a' u' acc'"
    proof (cases "a' = a \<and> u' = u")
      case True
      with 1 l have "s = access_json B acc" by (auto simp: set_post_def live_def dest!: entry_at_Some)
      with p json assms(3) True show ?thesis by (simp add: exact_def)
    next
      case False
      then have "rbacKey a' u' \<noteq> rbacKey a u" using a' assms(2) by (simp add: rbacKey_inject)
      with 1 l have "live (w_redis w) (rbacKey a' u') = Some (RStr s)"
        by (auto simp: set_post_def writes_def intro: live_mono)
      with a' p assms(1) have "exact w a' u' acc'" unfolding coherent_def by blast
      then show ?thesis by (simp add: exact_def)
    qed
  qed
qed

lemma wp_InvalidateCache:
  assumes "\<And>a' u'. CHR '':'' \<notin> set a' \<Longrightarrow> (a', u') \<noteq> (a, u) \<Longrightarrow> same_grants w0 w a' u'"
    and "coherent B w0" and "w_redis w = w_redis w0" and "CHR '':'' \<notin> set a"
  shows "wp (rds (InvalidateCache B a u)) (\<lambda>_. coherent B) w"
  unfolding ignore_def InvalidateCache_def
proof (rule wp_rds, rule wp_bind, rule redis.wp_u_del, rule wp_return, rule coherent_step[OF assms(2)], goal_cases)
  case (1 r)
  then show ?case using assms(3) by (simp add: del_post_def writes_def)
next
  case (2 r a' u')
  show ?case
  proof (cases "(a', u') = (a, u)")
    case True
    with 2 show ?thesis by (simp add: del_post_def)
  next
    case False
    then have "rbacKey a' u' \<noteq> rbacKey a u" using 2 assms(4) by (simp add: rbacKey_inject)
    with 2 have "rdata r (rbacKey a' u') = rdata (w_redis w) (rbacKey a' u')" by (simp add: del_post_def writes_def)
    with assms(1)[OF 2(2) False] assms(3) show ?thesis by (simp add: same_grants_def)
  qed
qed

lemma wp_ResolveUserAccess:
  assumes "coherent B w" and "CHR '':'' \<notin> set a"
  shows "wp (ResolveUserAccess B a u) (\<lambda>x w'. coherent B w' \<and> (\<forall>acc. x = Inr acc \<longrightarrow> exact w a u acc)) w"
  unfolding ResolveUserAccess_def getFromCache_def
proof (rule wp_bind, rule wp_rds, rule wp_bind, rule redis.wp_u_get, rule wp_return, goal_cases)
  case (1 res r)
  let ?w = "w\<lparr>w_redis := r\<rparr>"
  have c: "coherent B ?w" using 1 by (intro coherent_redis[OF assms(1)]) (auto simp: get_post_def reads_def)
  have same: "exact ?w a u acc = exact w a u acc" for acc by (simp add: exact_def)
  have miss: "wp (do {
     res \<leftarrow> repo_GetUserRoleNames B a u;
     case res of Inl e \<Rightarrow> ret (Inl ''failed to fetch user roles'') | Inr roles \<Rightarrow> do {
     res \<leftarrow> GetUserPermissions B a u;
     case res of Inl e \<Rightarrow> ret (Inl ''failed to fetch user permissions'') | Inr permissions \<Rightarrow> do {
     let access = \<lparr>ca_Roles = roles, ca_Permissions = permissions\<rparr>;
     rds (ignore (setCache B a u access));
     ret (Inr access) } } }) (\<lambda>x w'. coherent B w' \<and> (\<forall>acc. x = Inr acc \<longrightarrow> exact w a u acc)) ?w"
  proof (rule wp_bind, rule wp_mono[OF wp_role_names], elim conjE, hypsubst, rule wp_case_sum, goal_cases)
    case (2 rs _ roles)
    show ?case
    proof (rule wp_bind, rule wp_mono[OF wp_permissions], elim conjE, hypsubst, rule wp_case_sum, goal_cases)
      case (2 ps _ permissions)
      let ?acc = "\<lparr>ca_Roles = roles, ca_Permissions = permissions\<rparr>"
      have e: "exact ?w a u ?acc" using 2 \<open>\<forall>ns. rs = Inr ns \<longrightarrow> _\<close> \<open>rs = Inr roles\<close> by (simp add: exact_def)
      show ?case
        by (rule wp_Let, rule wp_bind, hypsubst, rule wp_mono[OF wp_setCache[OF c assms(2) e]], rule wp_return)
           (use e same in simp)
    qed (simp add: wp_return c)
  qed (simp add: wp_return c)
  have hit: "exact w a u acc" if "res = Inr data" "access_parse B data = Some acc" for data acc
    using c 1 that assms(2) unfolding coherent_def same[symmetric] by (simp add: get_post_def)
  show ?case
    using miss hit c by (auto simp: wp_return split: sum.split option.split rerr.split)
qed

section \<open>Assigning and revoking\<close>

lemma wp_AssignRole:
  assumes "coherent B w" and "CHR '':'' \<notin> set a" and "re_parse_uuid B a = Some a" and "re_parse_uuid B u = Some u"
  shows "wp (rbac_AssignRoleToUser B u roleID a) (\<lambda>e w'. e = None \<longrightarrow> coherent B w') w"
  unfolding rbac_AssignRoleToUser_def repo_AssignRoleToUser_def assms(3,4) prod.case option.case
proof (rule wp_bind, rule wp_case_option, goal_cases)
  case 1
  show ?case by (simp add: wp_return)
next
  case (2 rid)
  show ?case
  proof (rule wp_lifts, rule user_roles.wp_t_create, rule wp_case_option, goal_cases)
    case (1 e rows)
    then have rows: "rows = w_user_roles w @ [\<lparr>ur_UserID = u, ur_RoleID = rid, ur_AppID = a\<rparr>]" by (simp add: applied_post_def)
    show ?case
      by (rule wp_bind, rule wp_mono[OF wp_InvalidateCache[OF _ assms(1) _ assms(2)]])
         (auto simp: rows same_grants_def granted_roles_def granted_perms_def assigned_in_def wp_return)
  qed (simp add: wp_return)
qed

lemma wp_RevokeRole:
  assumes "coherent B w" and "CHR '':'' \<notin> set a"
    and "\<And>x. x \<in> set (w_user_roles w) \<Longrightarrow> ur_UserID x = u \<Longrightarrow> ur_RoleID x = roleID \<Longrightarrow> ur_AppID x = a"
  shows "wp (rbac_RevokeRoleFromUser B u roleID a) (\<lambda>e w'. e = None \<longrightarrow> coherent B w' \<and>
     (\<forall>x\<in>set (w_user_roles w'). \<not> (ur_UserID x = u \<and> ur_RoleID x = roleID))) w"
  unfolding rbac_RevokeRoleFromUser_def repo_RevokeRoleFromUser_def
proof (rule wp_bind, rule wp_lifts, rule user_roles.wp_t_delete, rule wp_case_option, goal_cases)
  case (1 e rows)
  let ?w = "w\<lparr>w_user_roles := rows\<rparr>"
  have rows: "rows = filter (\<lambda>x. \<not> (ur_UserID x = u \<and> ur_RoleID x = roleID)) (w_user_roles w)"
    using 1 by (simp add: applied_post_def delete_rows_def)
  have same: "same_grants w ?w a' u'" if "(a', u') \<noteq> (a, u)" for a' u'
  proof -
    have "x \<in> set rows \<longleftrightarrow> x \<in> set (w_user_roles w)" if "assigned_in a' u' x" for x
      using that \<open>(a', u') \<noteq> (a, u)\<close> assms(3) by (auto simp: rows assigned_in_def)
    then show ?thesis unfolding same_grants_def granted_roles_def granted_perms_def
      by (simp, intro conjI Collect_cong) blast+
  qed
  have "wp (rds (InvalidateCache B a u)) (\<lambda>_. coherent B) ?w"
    by (rule wp_InvalidateCache[OF _ assms(1) _ assms(2)]) (use same in auto)
  moreover have "wp (rds (InvalidateCache B a u)) (\<lambda>_ w'. w_user_roles w' = rows) ?w"
    by (simp add: wp_def split: prod.split)
  ultimately show ?case
    by (rule wp_bind[OF wp_mono[OF wp_conj]]) (auto simp: rows wp_return)
qed (simp add: wp_return)

end

section \<open>Changing a role\<close>

text \<open>What the join of assignments, users and roles lists, and when one page has all of it.\<close>

definition joined :: "uworld \<Rightarrow> UserRole list \<Rightarrow> (UserRole \<times> User \<times> Role) list" where
  "joined w xs = [(x, u, r). x \<leftarrow> xs, u \<leftarrow> w_users w, u_ID u = ur_UserID x, r \<leftarrow> w_roles w, r_ID r = ur_RoleID x]"

lemma length_at_most_one:
  "sorted_wrt (\<lambda>x y. \<not> (P x \<and> P y)) xs \<Longrightarrow> (\<And>x. length (f x) \<le> 1) \<Longrightarrow>
   length (concat (map (\<lambda>x. if P x then f x else []) xs)) \<le> 1"
proof (induction xs)
  case (Cons x xs)
  show ?case
  proof (cases "P x")
    case True
    then have "\<forall>y\<in>set xs. \<not> P y" using Cons.prems(1) by auto
    then have "concat (map (\<lambda>x. if P x then f x else []) xs) = []" by simp
    then have "concat (map (\<lambda>x. if P x then f x else []) (x # xs)) = f x" using True by (simp del: concat_eq_Nil_conv)
    then show ?thesis using Cons.prems(2) by simp
  next
    case False
    with Cons show ?thesis by simp
  qed
qed simp

lemma joined_length:
  assumes "no_clash user_clash (w_users w)" and "no_clash role_clash (w_roles w)"
  shows "length (joined w xs) \<le> length xs"
proof (induction xs)
  case (Cons x xs)
  have roles: "length (concat (map (\<lambda>r. if r_ID r = ur_RoleID x then [(x, u, r)] else []) (w_roles w))) \<le> 1" for u
    by (rule length_at_most_one[OF sorted_wrt_mono_rel[OF _ assms(2)[unfolded no_clash_def]]]) (auto simp: role_clash_def)
  have "length (concat (map (\<lambda>u. if u_ID u = ur_UserID x
      then concat (map (\<lambda>r. if r_ID r = ur_RoleID x then [(x, u, r)] else []) (w_roles w)) else []) (w_users w))) \<le> 1"
    by (rule length_at_most_one[OF sorted_wrt_mono_rel[OF _ assms(1)[unfolded no_clash_def]] roles]) (auto simp: user_clash_def)
  with Cons show ?case by (simp add: joined_def)
qed (simp add: joined_def)

text \<open>
  The tables are in order: ids are unique, an application has at most ten thousand assignments, and
  every assignment of the role is in the application of the role, for a user that is there.
\<close>

definition in_order :: "uworld \<Rightarrow> Role \<Rightarrow> bool" where
  "in_order w role \<longleftrightarrow> no_clash user_clash (w_users w) \<and> no_clash role_clash (w_roles w) \<and>
     length (filter (\<lambda>x. ur_AppID x = r_AppID role) (w_user_roles w)) \<le> 10000 \<and>
     (\<forall>x\<in>set (w_user_roles w). ur_RoleID x = r_ID role \<longrightarrow> ur_AppID x = r_AppID role \<and> (\<exists>u\<in>set (w_users w). u_ID u = ur_UserID x))"

definition lists_all :: "uworld \<Rightarrow> Role \<Rightarrow> (UserRole \<times> User \<times> Role) list \<Rightarrow> bool" where
  "lists_all w role items \<longleftrightarrow> (\<forall>x\<in>set (w_user_roles w). ur_RoleID x = r_ID role \<longrightarrow> ur_AppID x = r_AppID role \<and>
     (\<exists>u r. (x, u, r) \<in> set items))"

text \<open>Only the pairs of one role change.\<close>

definition only_pairs :: "string \<Rightarrow> uworld \<Rightarrow> uworld \<Rightarrow> bool" where
  "only_pairs i w w' \<longleftrightarrow> (\<exists>rows. w' = w\<lparr>w_role_permissions := rows\<rparr> \<and>
     (\<forall>j p. j \<noteq> i \<longrightarrow> (j, p) \<in> set rows \<longleftrightarrow> (j, p) \<in> set (w_role_permissions w)))"

lemma only_pairsI:
  "(\<And>j p. j \<noteq> i \<Longrightarrow> (j, p) \<in> set rows \<longleftrightarrow> (j, p) \<in> set (w_role_permissions w)) \<Longrightarrow> only_pairs i w (w\<lparr>w_role_permissions := rows\<rparr>)"
  unfolding only_pairs_def by (rule exI[of _ rows]) blast

interpretation only_pairs: frame "only_pairs i" for i
proof
  fix s show "only_pairs i s s" using only_pairsI[of i "w_role_permissions s" s] by simp
next
  fix s t u assume "only_pairs i s t" "only_pairs i t u"
  then obtain r1 r2 where "t = s\<lparr>w_role_permissions := r1\<rparr>" "u = t\<lparr>w_role_permissions := r2\<rparr>"
    "\<forall>j p. j \<noteq> i \<longrightarrow> (j, p) \<in> set r1 \<longleftrightarrow> (j, p) \<in> set (w_role_permissions s)"
    "\<forall>j p. j \<noteq> i \<longrightarrow> (j, p) \<in> set r2 \<longleftrightarrow> (j, p) \<in> set (w_role_permissions t)"
    unfolding only_pairs_def by blast
  then show "only_pairs i s u" using only_pairsI[of i r2 s] by simp
qed

lemma only_pairs_same_grants:
  "only_pairs i w w' \<Longrightarrow> \<forall>x\<in>set (w_user_roles w). assigned_in a u x \<longrightarrow> ur_RoleID x \<noteq> i \<Longrightarrow> same_grants w w' a u"
  unfolding only_pairs_def same_grants_def granted_roles_def granted_perms_def
  by (elim exE conjE, hypsubst, simp) (rule Collect_cong, blast)

text \<open>The tables are in order for every role.\<close>

definition orderly :: "uworld \<Rightarrow> bool" where
  "orderly w \<longleftrightarrow> (\<forall>role\<in>set (w_roles w). in_order w role)"

context rbac_stack
begin

lemma wp_u_count: "(\<And>n. Q (Inr n) rows) \<Longrightarrow> wp (t_count (re_user_roles B) p) Q rows"
  by (rule wpI) (metis count_up user_roles.count sum.exhaust)

lemma wp_u_find: "(\<And>xs. find_post p key rows (Inr xs) rows \<Longrightarrow> Q (Inr xs) rows) \<Longrightarrow> wp (t_find (re_user_roles B) p key) Q rows"
  by (rule wpI) (metis find_up user_roles.find find_post_def sum.exhaust)

lemma wp_GetUsersWithRoleInApp:
  assumes "in_order w role" and "role \<in> set (w_roles w)"
  shows "wp (GetUsersWithRoleInApp B (r_AppID role) 1 10000) (\<lambda>x w'. w' = w \<and> (\<exists>items n. x = Inr (items, n) \<and> lists_all w role items)) w"
  unfolding GetUsersWithRoleInApp_def
proof (rule wp_bind, rule wp_lifts(9), rule wp_u_count, rule wp_case_sum, simp, goal_cases)
  case (1 _ n)
  have w: "w\<lparr>w_user_roles := w_user_roles w\<rparr> = w" by simp
  show ?case unfolding w
  proof (rule wp_bind, rule wp_lifts(9), rule wp_u_find, unfold w, rule wp_bind, rule wp_lifts(1), rule wp_get, rule wp_bind,
      rule wp_lifts(3), rule wp_get, rule wp_return, goal_cases)
    case (1 xs)
    have "lists_all w role (take 10000 (sort_key (assignment_order B) (joined w xs)))" (is "lists_all w role ?items")
    proof -
      have c: "count_list xs x = count_list (filter (\<lambda>x. ur_AppID x = r_AppID role) (w_user_roles w)) x" for x
        using 1 by (simp add: find_post_def)
      have "length (joined w xs) \<le> 10000"
        using joined_length[of w xs] length_count[OF c] assms(1) by (simp add: in_order_def)
      then have "?items = sort_key (assignment_order B) (joined w xs)" by simp
      then have "set ?items = set (joined w xs)" by (simp only: set_sort)
      moreover have "\<exists>u r. (x, u, r) \<in> set (joined w xs)" if "x \<in> set (w_user_roles w)" "ur_RoleID x = r_ID role" for x
      proof -
        from that assms(1) obtain u where "ur_AppID x = r_AppID role" "u \<in> set (w_users w)" "u_ID u = ur_UserID x" by (auto simp: in_order_def)
        moreover have "x \<in> set xs" using set_count[OF c] that calculation by simp
        ultimately have "(x, u, role) \<in> set (joined w xs)" using that assms(2) by (auto simp: joined_def)
        then show ?thesis by blast
      qed
      ultimately show ?thesis using assms(1) unfolding lists_all_def in_order_def by simp
    qed
    moreover have "w\<lparr>w_users := w_users w\<rparr> = w" "w\<lparr>w_roles := w_roles w\<rparr> = w" by simp_all
    ultimately show ?case by (simp only: joined_def) simp
  qed
qed

text \<open>The loop that drops the cached entries, and nothing else.\<close>

definition dropped :: "uworld \<Rightarrow> string \<Rightarrow> string \<Rightarrow> (UserRole \<times> User \<times> Role) list \<Rightarrow> uworld \<Rightarrow> bool" where
  "dropped w a roleID items w' \<longleftrightarrow> (\<exists>r. w' = w\<lparr>w_redis := r\<rparr> \<and> rnow (w_redis w) \<le> rnow r \<and>
     (\<forall>k. rdata r k = None \<or> rdata r k = rdata (w_redis w) k) \<and>
     (\<forall>x u q. (x, u, q) \<in> set items \<longrightarrow> ur_RoleID x = roleID \<longrightarrow> rdata r (rbacKey a (ur_UserID x)) = None))"

lemma wp_drop_all:
  "wp (for_each items (\<lambda>(x, _, _). if ur_RoleID x = roleID then rds (InvalidateCache B a (ur_UserID x)) else ret ()))
     (\<lambda>_. dropped w a roleID items) w"
proof -
  define P where "P rest v \<longleftrightarrow> (\<exists>r. v = w\<lparr>w_redis := r\<rparr> \<and> rnow (w_redis w) \<le> rnow r \<and>
     (\<forall>k. rdata r k = None \<or> rdata r k = rdata (w_redis w) k) \<and>
     (\<forall>x u q. (x, u, q) \<in> set items - set rest \<longrightarrow> ur_RoleID x = roleID \<longrightarrow> rdata r (rbacKey a (ur_UserID x)) = None))" for rest v
  have "wp (for_each items (\<lambda>(x, _, _). if ur_RoleID x = roleID then rds (InvalidateCache B a (ur_UserID x)) else ret ())) (\<lambda>_. P []) w"
  proof (rule wp_for_each_step)
    show "P items w" unfolding P_def by (rule exI[of _ "w_redis w"]) simp
    fix y ys v assume "P (y # ys) v"
    then obtain r where r: "v = w\<lparr>w_redis := r\<rparr>" "rnow (w_redis w) \<le> rnow r" "\<forall>k. rdata r k = None \<or> rdata r k = rdata (w_redis w) k"
      "\<forall>x u q. (x, u, q) \<in> set items - set (y # ys) \<longrightarrow> ur_RoleID x = roleID \<longrightarrow> rdata r (rbacKey a (ur_UserID x)) = None"
      unfolding P_def by blast
    obtain x u q where y: "y = (x, u, q)" by (cases y)
    show "wp (case y of (x, _, _) \<Rightarrow> if ur_RoleID x = roleID then rds (InvalidateCache B a (ur_UserID x)) else ret ()) (\<lambda>_. P ys) v"
    proof (cases "ur_RoleID x = roleID")
      case True
      have "wp (rds (InvalidateCache B a (ur_UserID x))) (\<lambda>_. P ys) v" unfolding InvalidateCache_def ignore_def
      proof (rule wp_rds, rule wp_bind, rule redis.wp_u_del, rule wp_return, goal_cases)
        case (1 r')
        then have d: "rdata r' (rbacKey a (ur_UserID x)) = None" "\<forall>k. rdata r' k = None \<or> rdata r' k = rdata r k" "rnow r \<le> rnow r'"
          using r(1) unfolding del_post_def writes_def by (simp_all, metis)
        show ?case unfolding P_def
        proof (rule exI[of _ r'], intro conjI allI impI)
          show "v\<lparr>w_redis := r'\<rparr> = w\<lparr>w_redis := r'\<rparr>" using r(1) by simp
          show "rnow (w_redis w) \<le> rnow r'" using r(2) d(3) by simp
          show "rdata r' k = None \<or> rdata r' k = rdata (w_redis w) k" for k using r(3) d(2) by metis
          show "rdata r' (rbacKey a (ur_UserID x')) = None" if "(x', u', q') \<in> set items - set ys" "ur_RoleID x' = roleID" for x' u' q'
          proof (cases "(x', u', q') = y")
            case True
            with d(1) y show ?thesis by simp
          next
            case False
            with that(1) have "(x', u', q') \<in> set items - set (y # ys)" by simp
            with r(4) that(2) have "rdata r (rbacKey a (ur_UserID x')) = None" by blast
            with d(2) show ?thesis by metis
          qed
        qed
      qed
      with True y show ?thesis by simp
    next
      case False
      have "P ys v" unfolding P_def using r False y by (intro exI[of _ r]) auto
      with False y show ?thesis by (simp add: wp_return)
    qed
  qed
  then show ?thesis unfolding P_def dropped_def by simp
qed

lemma dropped_coherent:
  assumes "coherent B w0" and "dropped w (r_AppID role) (r_ID role) items w'" and "w_redis w = w_redis w0" and "lists_all w0 role items"
    and "\<And>a u. \<forall>x\<in>set (w_user_roles w0). assigned_in a u x \<longrightarrow> ur_RoleID x \<noteq> r_ID role \<Longrightarrow> same_grants w0 w a u"
  shows "coherent B w'"
proof -
  from assms(2) obtain r where r: "w' = w\<lparr>w_redis := r\<rparr>" "rnow (w_redis w) \<le> rnow r" "\<forall>k. rdata r k = None \<or> rdata r k = rdata (w_redis w) k"
    "\<forall>x u q. (x, u, q) \<in> set items \<longrightarrow> ur_RoleID x = r_ID role \<longrightarrow> rdata r (rbacKey (r_AppID role) (ur_UserID x)) = None"
    unfolding dropped_def by blast
  show ?thesis
  proof (rule coherent_step[OF assms(1)], goal_cases)
    case 1
    then show ?case using r(1,2) assms(3) by simp
  next
    case (2 a u)
    show ?case
    proof (cases "\<exists>x\<in>set (w_user_roles w0). assigned_in a u x \<and> ur_RoleID x = r_ID role")
      case True
      then obtain x where x: "x \<in> set (w_user_roles w0)" "assigned_in a u x" "ur_RoleID x = r_ID role" by blast
      with assms(4) obtain v q where "ur_AppID x = r_AppID role" "(x, v, q) \<in> set items" unfolding lists_all_def by blast
      with r(4) x have "rdata r (rbacKey a u) = None" by (auto simp: assigned_in_def)
      then show ?thesis using r(1) by simp
    next
      case False
      then have "same_grants w0 w a u" by (intro assms(5)) blast
      then show ?thesis using r(1,3) assms(3) by (auto simp: same_grants_def)
    qed
  qed
qed

lemma wp_role_lookup:
  "(\<And>role ps. role \<in> set (w_roles w) \<Longrightarrow> r_ID role = i \<Longrightarrow> Q (Inr (role, ps)) w) \<Longrightarrow> (\<And>e. Q (Inl e) w) \<Longrightarrow> wp (repo_GetRoleByID B i) Q w"
  unfolding repo_GetRoleByID_def preload_def
proof (rule wp_bind, rule wp_lifts(3), rule roles.wp_t_first, rule wp_case_sum, goal_cases)
  case (2 res role)
  have same: "w\<lparr>w_roles := w_roles w\<rparr> = w" "w\<lparr>w_role_permissions := w_role_permissions w\<rparr> = w" "w\<lparr>w_permissions := w_permissions w\<rparr> = w"
    by simp_all
  show ?case unfolding same
    by (rule wp_bind, rule wp_bind, rule wp_lifts(8), rule wp_get, unfold same, rule wp_bind, rule wp_lifts(7), rule wp_get, unfold same,
        rule wp_return, rule wp_return, rule 2) (use 2 in \<open>auto simp: first_post_def\<close>)
qed (simp add: wp_return)

lemma stable_pairs:
  "stable (only_pairs i) (role_perms_of (t_create (re_role_perms B) (i, p)))"
  "stable (only_pairs i) (role_perms_of (t_delete (re_role_perms B) (\<lambda>(r, p). r = i \<and> Q p)))"
  "stable (only_pairs i) (role_perms_of State_Monad.get)"
  unfolding stable_def
  by (intro allI wp_lifts role_perms.wp_t_create role_perms.wp_t_delete wp_get only_pairsI; auto simp: applied_post_def delete_rows_def)+

lemma stable_add_pairs: "stable (only_pairs i) (add_pairs B i ps)"
  by (induction ps) (simp_all only: add_pairs.simps, (intro only_pairs.stable_intro stable_pairs | assumption)+)

lemma stable_reads:
  "stable (only_pairs i) (perms_of (t_find (re_perms B) q key))"
  unfolding stable_def by (intro allI wp_lifts perms.wp_t_find) (simp add: only_pairs.refl)

lemma wp_repo_SetRolePermissions: "wp (repo_SetRolePermissions B i ids) (\<lambda>_. only_pairs i w) w"
  unfolding repo_SetRolePermissions_def
proof (rule wp_bind, rule wp_lifts(3), rule roles.wp_t_first, rule wp_case_sum, goal_cases)
  case (1 res e)
  then show ?case by (simp add: wp_return only_pairs.refl)
next
  case (2 res role)
  then have i: "r_ID role = i" by (simp add: first_post_def)
  have w: "w\<lparr>w_roles := w_roles w\<rparr> = w" by simp
  show ?case unfolding w i
    by (rule wp_stable[where P = "only_pairs i"])
       (intro only_pairs.stable_intro stable_pairs stable_add_pairs stable_reads)+
qed

lemma wp_SetRolePermissions:
  assumes "coherent B w" and "orderly w"
  shows "wp (rbac_SetRolePermissions B i ids) (\<lambda>e w'. e = None \<longrightarrow> coherent B w') w"
  unfolding rbac_SetRolePermissions_def invalidateCacheForRole_def
proof (rule wp_bind, rule wp_role_lookup, goal_cases)
  case (1 role ps)
  show ?case unfolding sum.case prod.case
  proof (rule wp_bind, rule wp_mono[OF wp_repo_SetRolePermissions], rule wp_case_option, goal_cases)
    case (1 e w1)
    then obtain rows where rows: "w1 = w\<lparr>w_role_permissions := rows\<rparr>" unfolding only_pairs_def by blast
    have order: "in_order w1 role" and mem: "role \<in> set (w_roles w1)"
      using assms(2) \<open>role \<in> set (w_roles w)\<close> by (simp_all add: rows orderly_def in_order_def)
    show ?case
    proof (rule wp_bind, rule wp_bind, rule wp_mono[OF wp_GetUsersWithRoleInApp[OF order mem]], elim conjE exE, hypsubst,
        unfold sum.case prod.case, rule wp_mono[OF wp_drop_all], rule wp_return, goal_cases)
      case (1 _ _ items n _ w2)
      have "coherent B w2"
        by (rule dropped_coherent[OF assms(1), where w = w1 and role = role and items = items])
           (use 1 rows \<open>r_ID role = i\<close> \<open>only_pairs i w w1\<close> in \<open>auto simp: lists_all_def intro: only_pairs_same_grants\<close>)
      then show ?case by simp
    qed
  qed (simp add: wp_return)
qed (simp add: wp_return)

lemma wp_repo_DeleteRole:
  "wp (repo_DeleteRole B i) (\<lambda>e w'. e = None \<longrightarrow> w_redis w' = w_redis w \<and> w_permissions w' = w_permissions w \<and>
     w_roles w' = filter (\<lambda>r. r_ID r \<noteq> i) (w_roles w) \<and> w_role_permissions w' = filter (\<lambda>(r, p). r \<noteq> i) (w_role_permissions w) \<and>
     w_user_roles w' = filter (\<lambda>x. ur_RoleID x \<noteq> i) (w_user_roles w)) w"
  unfolding repo_DeleteRole_def
proof (rule wp_bind, rule wp_lifts(3), rule roles.wp_t_first, rule wp_case_sum, simp add: wp_return, rule wp_if, simp add: wp_return, goal_cases)
  case (1 res role)
  then have i: "r_ID role = i" by (simp add: first_post_def)
  show ?case unfolding i
  proof (rule wp_bind, rule wp_lifts(3), rule roles.wp_t_delete, rule wp_case_option, goal_cases)
    case (1 e rows)
    then show ?case
      by (intro wp_bind wp_lifts(8,9) wp_get wp_set wp_return) (simp add: applied_post_def delete_rows_def)
  qed (simp add: wp_return)
qed

lemma wp_DeleteRole:
  assumes "coherent B w" and "orderly w"
  shows "wp (rbac_DeleteRole B i) (\<lambda>e w'. e = None \<longrightarrow> coherent B w') w"
  unfolding rbac_DeleteRole_def
proof (rule wp_bind, rule wp_role_lookup, goal_cases)
  case (1 role ps)
  have order: "in_order w role" using assms(2) 1 by (simp add: orderly_def)
  show ?case unfolding sum.case prod.case
  proof (rule wp_if, simp add: wp_return, rule wp_bind, rule wp_mono[OF wp_GetUsersWithRoleInApp[OF order 1(1)]], elim conjE exE, hypsubst,
      unfold sum.case prod.case, rule wp_bind, rule wp_mono[OF wp_repo_DeleteRole], rule wp_case_option, goal_cases)
    case (1 _ _ items n e w1)
    then have w1: "w_redis w1 = w_redis w" "w_permissions w1 = w_permissions w" "w_roles w1 = filter (\<lambda>r. r_ID r \<noteq> i) (w_roles w)"
      "w_role_permissions w1 = filter (\<lambda>(r, p). r \<noteq> i) (w_role_permissions w)"
      "w_user_roles w1 = filter (\<lambda>x. ur_RoleID x \<noteq> i) (w_user_roles w)" by simp_all
    have same: "same_grants w w1 a u" if "\<forall>x\<in>set (w_user_roles w). assigned_in a u x \<longrightarrow> ur_RoleID x \<noteq> i" for a u
      unfolding same_grants_def granted_roles_def granted_perms_def w1 using that by (intro conjI Collect_cong; simp; metis)
    show ?case
    proof (rule wp_bind, rule wp_mono[OF wp_drop_all], rule wp_return, goal_cases)
      case (1 _ w2)
      have "coherent B w2"
        by (rule dropped_coherent[OF assms(1), where w = w1 and role = role and items = items])
           (use 1 w1 same \<open>r_ID role = i\<close> \<open>lists_all w role items\<close> in auto)
      then show ?case by simp
    qed
  qed (simp add: wp_return)
qed (simp add: wp_return)

end

section \<open>Every state the service can reach\<close>

text \<open>
  Runs of the service, interleaved with anything that leaves the tables and the keys of the cache alone.
  Assignments are revoked under the application they were made for, ids are canonical, and
  the tables are in order when a role changes; a rename is not among the steps.
\<close>

inductive rbac_reach :: "rbac_env \<Rightarrow> uworld \<Rightarrow> bool" for B where
  start: "(\<And>a u. rdata (w_redis w) (rbacKey a u) = None) \<Longrightarrow> rbac_reach B w"
| resolve: "rbac_reach B w \<Longrightarrow> CHR '':'' \<notin> set a \<Longrightarrow> run_state (ResolveUserAccess B a u) w = (x, w') \<Longrightarrow> rbac_reach B w'"
| assign: "rbac_reach B w \<Longrightarrow> CHR '':'' \<notin> set a \<Longrightarrow> re_parse_uuid B a = Some a \<Longrightarrow> re_parse_uuid B u = Some u \<Longrightarrow>
    run_state (rbac_AssignRoleToUser B u i a) w = (None, w') \<Longrightarrow> rbac_reach B w'"
| revoke: "rbac_reach B w \<Longrightarrow> CHR '':'' \<notin> set a \<Longrightarrow>
    (\<And>x. x \<in> set (w_user_roles w) \<Longrightarrow> ur_UserID x = u \<Longrightarrow> ur_RoleID x = i \<Longrightarrow> ur_AppID x = a) \<Longrightarrow>
    run_state (rbac_RevokeRoleFromUser B u i a) w = (None, w') \<Longrightarrow> rbac_reach B w'"
| set_permissions: "rbac_reach B w \<Longrightarrow> orderly w \<Longrightarrow>
    run_state (rbac_SetRolePermissions B i ids) w = (None, w') \<Longrightarrow> rbac_reach B w'"
| delete_role: "rbac_reach B w \<Longrightarrow> orderly w \<Longrightarrow> run_state (rbac_DeleteRole B i) w = (None, w') \<Longrightarrow> rbac_reach B w'"
| elsewhere: "rbac_reach B w \<Longrightarrow> rnow (w_redis w) \<le> rnow (w_redis w') \<Longrightarrow>
    (\<And>a u. rdata (w_redis w') (rbacKey a u) = rdata (w_redis w) (rbacKey a u)) \<Longrightarrow> w_user_roles w' = w_user_roles w \<Longrightarrow>
    w_roles w' = w_roles w \<Longrightarrow> w_permissions w' = w_permissions w \<Longrightarrow> w_role_permissions w' = w_role_permissions w \<Longrightarrow> rbac_reach B w'"

context rbac_stack
begin

lemma reach_coherent: "rbac_reach B w \<Longrightarrow> coherent B w"
proof (induction rule: rbac_reach.induct)
  case (start w)
  then show ?case by (simp add: coherent_def live_None)
next
  case (resolve w a u x w')
  from wpD[OF wp_ResolveUserAccess[OF resolve.IH resolve.hyps(2)] resolve.hyps(3)] show ?case by simp
next
  case (assign w a u i w')
  from wpD[OF wp_AssignRole[OF assign.IH assign.hyps(2-4)] assign.hyps(5)] show ?case by simp
next
  case (revoke w a u i w')
  have "wp (rbac_RevokeRoleFromUser B u i a) (\<lambda>e w'. e = None \<longrightarrow> coherent B w') w"
    by (rule wp_mono[OF wp_RevokeRole[OF revoke.IH revoke.hyps(2)]], rule revoke.hyps(3)) simp_all
  from wpD[OF this revoke.hyps(4)] show ?case by simp
next
  case (set_permissions w i ids w')
  from wpD[OF wp_SetRolePermissions[OF set_permissions.IH set_permissions.hyps(2)] set_permissions.hyps(3)] show ?case by simp
next
  case (delete_role w i w')
  from wpD[OF wp_DeleteRole[OF delete_role.IH delete_role.hyps(2)] delete_role.hyps(3)] show ?case by simp
next
  case (elsewhere w w')
  show ?case
    by (rule coherent_step[OF elsewhere.IH elsewhere.hyps(2)])
       (simp add: same_grants_def granted_roles_def granted_perms_def elsewhere.hyps(3-7))
qed

lemma wp_HasPermission:
  assumes "coherent B w" and "CHR '':'' \<notin> set a"
  shows "wp (HasPermission B a u resource action) (\<lambda>x _. \<forall>b. x = Inr b \<longrightarrow> b = (resource @ '':'' @ action \<in> granted_perms w a u)) w"
  unfolding HasPermission_def
  by (rule wp_bind, rule wp_mono[OF wp_ResolveUserAccess[OF assms]], rule wp_return)
     (auto simp: exact_def list_ex_iff split: sum.splits)

text \<open>The entry of the cache decides until it expires.\<close>

lemma wp_miss_time:
  assumes "rnow r0 \<le> rnow (w_redis w)"
  shows "wp (repo_GetUserRoleNames B a u \<bind> (\<lambda>res. case res of Inl e \<Rightarrow> ret (Inl ''failed to fetch user roles'') | Inr roles \<Rightarrow>
     GetUserPermissions B a u \<bind> (\<lambda>res. case res of Inl e \<Rightarrow> ret (Inl ''failed to fetch user permissions'') | Inr permissions \<Rightarrow>
     let access = \<lparr>ca_Roles = roles, ca_Permissions = permissions\<rparr> in
     rds (ignore (setCache B a u access)) \<bind> (\<lambda>_. ret (Inr access))))) (\<lambda>_ w'. rnow r0 \<le> rnow (w_redis w')) w"
proof (rule wp_bind, rule wp_mono[OF wp_role_names], elim conjE, hypsubst, rule wp_case_sum, goal_cases)
  case (2 rs _ roles)
  show ?case
  proof (rule wp_bind, rule wp_mono[OF wp_permissions], elim conjE, hypsubst, rule wp_case_sum, goal_cases)
    case (2 ps _ permissions)
    show ?case unfolding ignore_def setCache_def
      by (rule wp_Let, rule wp_bind, rule wp_rds, rule wp_bind, rule redis.wp_u_set, rule wp_return, rule wp_return)
         (use assms in \<open>auto simp: set_post_def writes_def\<close>)
  qed (simp add: wp_return assms)
qed (simp add: wp_return assms)

lemma wp_HasRole_cached:
  assumes "rdata (w_redis w) (rbacKey a u) = Some (RStr (access_json B acc), Some e)"
  shows "wp (HasRole B a u required) (\<lambda>x w'. rnow (w_redis w') < e \<longrightarrow> x = Inr (list_ex (\<lambda>r. r \<in> set required) (ca_Roles acc))) w"
  unfolding HasRole_def ResolveUserAccess_def getFromCache_def
proof (rule wp_bind, rule wp_bind, rule wp_rds, rule wp_bind, rule redis.wp_u_get, rule wp_return, goal_cases)
  case (1 res r)
  then have d: "rdata r (rbacKey a u) = Some (RStr (access_json B acc), Some e)" using assms by (simp add: get_post_def reads_def)
  show ?case
  proof (cases "rnow r < e")
    case True
    with d have "live r (rbacKey a u) = Some (RStr (access_json B acc))" by (rule live_fresh)
    with 1 have "res = Inr (access_json B acc)" by (auto simp: get_post_def split: sum.splits rerr.splits)
    then show ?thesis by (simp add: json wp_return)
  next
    case False
    have late: "wp m (\<lambda>x w'. wp (ret (f x)) (\<lambda>x w'. rnow (w_redis w') < e \<longrightarrow> Q x) w') v"
      if "wp m (\<lambda>_ w'. rnow r \<le> rnow (w_redis w')) v" for m :: "(uworld, 'x) state" and f :: "'x \<Rightarrow> 'y" and Q v
      by (rule wp_mono[OF that]) (use False in \<open>simp add: wp_return\<close>)
    show ?thesis
      by (rule late) (auto simp: wp_return wp_miss_time split: sum.split option.split rerr.split)
  qed
qed

lemma wp_UpdateRole_redis: "wp (rbac_UpdateRole B i name description) (\<lambda>_ w'. w_redis w' = w_redis w) w"
  unfolding rbac_UpdateRole_def repo_UpdateRole_def
  by (rule wp_bind, rule wp_role_lookup)
     (auto simp: wp_return intro!: wp_if wp_lifts roles.wp_t_update)

lemma wp_RevokeRole_redis:
  assumes "CHR '':'' \<notin> set a" and "CHR '':'' \<notin> set a2" and "a2 \<noteq> a"
  shows "wp (rbac_RevokeRoleFromUser B u i a2) (\<lambda>_ w'. rdata (w_redis w') (rbacKey a u) = rdata (w_redis w) (rbacKey a u)) w"
proof -
  have k: "rbacKey a u \<noteq> rbacKey a2 u" using assms by (simp add: rbacKey_inject)
  show ?thesis unfolding rbac_RevokeRoleFromUser_def repo_RevokeRoleFromUser_def InvalidateCache_def ignore_def
    by (rule wp_bind, rule wp_lifts, rule user_roles.wp_t_delete, rule wp_case_option, rule wp_bind, rule wp_rds, rule wp_bind,
        rule redis.wp_u_del, rule wp_return, rule wp_return) (use k in \<open>auto simp: del_post_def writes_def wp_return\<close>)
qed

end

section \<open>Properties\<close>


text \<open>
  Two changes leave the cache.  After a role was renamed, or an assignment was revoked under
  another application than it was made for, the role check goes on answering from the cached entry until
  the entry expires.
\<close>

theorem stale_roles:
  assumes "rbac_stack B" and "rdata (w_redis w) (rbacKey a u) = Some (RStr (access_json B acc), Some e)"
    and "CHR '':'' \<notin> set a" and "CHR '':'' \<notin> set a2" and "a2 \<noteq> a"
    and "run_state (rbac_UpdateRole B i name description) w = (err, w1) \<or> run_state (rbac_RevokeRoleFromUser B u i a2) w = (err, w1)"
    and "run_state (HasRole B a u [role]) w1 = (x, w2)" and "rnow (w_redis w2) < e"
  shows "x = Inr (role \<in> set (ca_Roles acc))"
proof -
  have "rdata (w_redis w1) (rbacKey a u) = Some (RStr (access_json B acc), Some e)"
    using assms(2,6) wpD[OF rbac_stack.wp_UpdateRole_redis[OF assms(1)], of i name description w err w1]
      wpD[OF rbac_stack.wp_RevokeRole_redis[OF assms(1,3,4,5)], of u i w err w1] by auto
  from wpD[OF rbac_stack.wp_HasRole_cached[OF assms(1) this] assms(7)] assms(8)
  show ?thesis by (auto simp: list_ex_iff)
qed

section \<open>Closed runs\<close>

definition demo_rbac :: rbac_env where
  "demo_rbac = \<lparr>re_redis = demo_redis, re_roles = ref_table role_clash, re_perms = ref_table permission_clash,
     re_role_perms = ref_table (=), re_user_roles = ref_table user_role_clash, re_uuid = demo_uuid, re_parse_uuid = Some,
     role_order = (\<lambda>_. 0), permission_order = (\<lambda>_. 0), assignment_order = (\<lambda>_. 0),
     access_json = (\<lambda>acc. Marshal ref_hash [Marshal ref_hash (ca_Roles acc), Marshal ref_hash (ca_Permissions acc)]),
     access_parse = (\<lambda>s. case fst (Unmarshal ref_hash s) of [r, p] \<Rightarrow>
        Some \<lparr>ca_Roles = fst (Unmarshal ref_hash r), ca_Permissions = fst (Unmarshal ref_hash p)\<rparr> | _ \<Rightarrow> None),
     re_access_minutes = 15\<rparr>"

interpretation demo_rbac: rbac_stack demo_rbac
  by (simp add: rbac_stack_def rbac_stack_axioms_def demo_rbac_def ref.reliable_redis_axioms ref_table.table_server_axioms ref_hash.json)
     (simp add: ref_table_def)

definition demo_rw :: uworld where
  "demo_rw = demo_uw\<lparr>w_roles := [\<lparr>r_ID = ''r'', r_AppID = ''a'', r_Name = ''editor'', r_Description = [], IsSystem = False\<rparr>],
     w_permissions := [\<lparr>p_ID = ''p'', p_Resource = ''page'', p_Action = ''edit'', p_Description = []\<rparr>],
     w_role_permissions := [(''r'', ''p'')]\<rparr>"







definition demo_cached :: uworld where
  "demo_cached = demo_rw\<lparr>w_redis := \<lparr>rdata = [rbacKey ''a'' ''u'' \<mapsto>
     (RStr (access_json demo_rbac \<lparr>ca_Roles = [''editor''], ca_Permissions = []\<rparr>), Some (15 * minute))], rnow = 0\<rparr>\<rparr>"

theorem stale_roles_witness:
  "fst (run_state (HasRole demo_rbac ''a'' ''u'' [''editor''])
     (snd (run_state (rbac_UpdateRole demo_rbac ''r'' ''reader'' []) demo_cached))) = Inr True"
proof -
  let ?w1 = "snd (run_state (rbac_UpdateRole demo_rbac ''r'' ''reader'' []) demo_cached)"
  have t: "rnow (w_redis (snd (run_state (HasRole demo_rbac ''a'' ''u'' [''editor'']) ?w1))) < 15 * minute" by code_simp
  have "fst (run_state (HasRole demo_rbac ''a'' ''u'' [''editor'']) ?w1) =
      Inr (''editor'' \<in> set (ca_Roles \<lparr>ca_Roles = [''editor''], ca_Permissions = []\<rparr>))"
    by (rule stale_roles[where ?a2.0 = "''b''", OF demo_rbac.rbac_stack_axioms _ _ _ _ disjI1[OF surjective_pairing] surjective_pairing t])
       (simp_all add: demo_cached_def)
  then show ?thesis by simp
qed

end
