(* ===== verification/Social.thy ===== *)
theory Social
  imports TwoFAHandler GoUrl
begin

text \<open>
  Login through other providers: \<open>internal/social/repository.go\<close>, \<open>oauth_state.go\<close> and \<open>service.go\<close>.
  The providers, JSON and base64 are parameters.
\<close>

section \<open>What the service is wired to\<close>

text \<open>
  What is read of the answers of the providers; the further fields of GitHub, which only the raw data
  keeps, are left out.
\<close>

record GoogleUser =
  gu_ID :: string
  gu_Email :: string
  VerifiedEmail :: bool
  gu_Name :: string
  GivenName :: string
  FamilyName :: string
  gu_Picture :: string
  gu_Locale :: string

record FacebookUser =
  fu_ID :: string
  fu_Email :: string
  fu_Name :: string
  fu_FirstName :: string
  fu_LastName :: string
  fu_PictureURL :: string
  fu_Locale :: string

record GithubUser =
  hu_ID :: int
  hu_Login :: string
  hu_Email :: string
  hu_Name :: string
  AvatarURL :: string

record OAuthState =
  st_RedirectURI :: string
  st_AppID :: string
  st_Nonce :: string
  st_Timestamp :: instant
  st_UserID :: string
  st_Flow :: string

record mergeTokenPayload =
  mp_UserID :: string
  mp_Provider :: string
  mp_ProviderUserID :: string
  mp_Email :: string
  mp_Name :: string
  mp_FirstName :: string
  mp_LastName :: string
  mp_ProfilePicture :: string
  mp_Username :: string
  mp_Locale :: string
  mp_RawData :: string
  mp_AccessToken :: string

text \<open>A request either gets no answer, or one that cannot be read to its end, or a body, whatever its status.\<close>

datatype fetched = NoAnswer | BrokenAnswer | Body string

text \<open>
  The \<open>n\<close>-th request to a URL with an \<open>Authorization\<close> header; decoders and encoders of JSON; the codec
  of the \<open>state\<close> parameter, where \<open>Inl False\<close> is broken base64 and \<open>Inl True\<close> broken JSON; the host of
  a URL, if it parses; base64 of random bytes; \<open>oauth_exchange\<close> and \<open>auth_code_url\<close> are the OAuth library.
\<close>

record social_env =
  so_handler :: handler_env
  so_accounts :: "SocialAccount table_api"
  so_providers :: "OAuthProviderConfig table_api"
  http_get :: "nat \<Rightarrow> string \<Rightarrow> string \<Rightarrow> fetched"
  google_user :: "string \<Rightarrow> GoogleUser option"
  facebook_user :: "string \<Rightarrow> FacebookUser option"
  github_user :: "string \<Rightarrow> GithubUser option"
  github_emails :: "string \<Rightarrow> (string \<times> bool \<times> bool) list option"
  google_json :: "GoogleUser \<Rightarrow> string"
  facebook_json :: "FacebookUser \<Rightarrow> string"
  github_json :: "GithubUser \<Rightarrow> string"
  payload_json :: "mergeTokenPayload \<Rightarrow> string"
  payload_of :: "string \<Rightarrow> mergeTokenPayload option"
  encode_state :: "OAuthState \<Rightarrow> string"
  decode_state :: "string \<Rightarrow> bool + OAuthState"
  url_host :: "string \<Rightarrow> string option"
  random_string :: "nat \<Rightarrow> nat \<Rightarrow> string"
  oauth_exchange :: "nat \<Rightarrow> OAuthProviderConfig \<Rightarrow> string \<Rightarrow> string + string"
  auth_code_url :: "OAuthProviderConfig \<Rightarrow> string \<Rightarrow> string"
  ALLOWED_REDIRECT_DOMAINS :: "string list"
  DEFAULT_REDIRECT_URI :: string
  so_twofa :: bool

abbreviation so_user :: "social_env \<Rightarrow> user_env" where "so_user S \<equiv> he_user (so_handler S)"
abbreviation so_redis :: "social_env \<Rightarrow> redis_api" where "so_redis S \<equiv> ue_redis (so_user S)"
abbreviation so_users :: "social_env \<Rightarrow> User table_api" where "so_users S \<equiv> ue_users (so_user S)"

section \<open>\<open>repository.go\<close>\<close>

definition CreateSocialAccount :: "social_env \<Rightarrow> SocialAccount \<Rightarrow> (uworld, dberr + SocialAccount) state" where
  "CreateSocialAccount S account = do {
     newID \<leftarrow> new_uuid (so_user S);
     let row = account\<lparr>sa_ID := newID\<rparr>;
     err \<leftarrow> social_of (t_create (so_accounts S) row);
     ret (case err of Some e \<Rightarrow> Inl e | None \<Rightarrow> Inr row) }"

definition GetOAuthProviderConfig :: "social_env \<Rightarrow> string \<Rightarrow> string \<Rightarrow> (uworld, dberr + OAuthProviderConfig) state" where
  "GetOAuthProviderConfig S appID provider =
     providers_of (t_first (so_providers S) (\<lambda>p. op_AppID p = appID \<and> op_Provider p = provider))"

definition GetSocialAccountByProviderAndUserID ::
    "social_env \<Rightarrow> string \<Rightarrow> string \<Rightarrow> string \<Rightarrow> (uworld, dberr + SocialAccount) state" where
  "GetSocialAccountByProviderAndUserID S appID provider providerUserID = social_of (t_first (so_accounts S)
     (\<lambda>a. sa_AppID a = appID \<and> sa_Provider a = provider \<and> sa_ProviderUserID a = providerUserID))"

definition GetSocialAccountsByUserID :: "social_env \<Rightarrow> string \<Rightarrow> (uworld, dberr + SocialAccount list) state" where
  "GetSocialAccountsByUserID S userID = social_of (t_find (so_accounts S) (\<lambda>a. sa_UserID a = userID) (\<lambda>_. 0))"

text \<open>\<open>Save\<close>, as for users.\<close>

definition UpdateSocialAccount :: "social_env \<Rightarrow> SocialAccount \<Rightarrow> (uworld, dberr option) state" where
  "UpdateSocialAccount S account = social_of (do {
     rows \<leftarrow> State_Monad.get;
     (if list_ex (\<lambda>a. sa_ID a = sa_ID account) rows
      then t_update (so_accounts S) (\<lambda>a. sa_ID a = sa_ID account) (\<lambda>_. account)
      else t_create (so_accounts S) account) })"

definition UpdateSocialAccountTokens :: "social_env \<Rightarrow> string \<Rightarrow> string \<Rightarrow> string \<Rightarrow> (uworld, dberr option) state" where
  "UpdateSocialAccountTokens S i accessToken refreshToken = social_of (t_update (so_accounts S) (\<lambda>a. sa_ID a = i)
     (\<lambda>a. a\<lparr>sa_AccessToken := accessToken, sa_RefreshToken := refreshToken\<rparr>))"

definition DeleteSocialAccount :: "social_env \<Rightarrow> string \<Rightarrow> (uworld, dberr option) state" where
  "DeleteSocialAccount S i = social_of (t_delete (so_accounts S) (\<lambda>a. sa_ID a = i))"

definition GetSocialAccountByID :: "social_env \<Rightarrow> string \<Rightarrow> (uworld, dberr + SocialAccount) state" where
  "GetSocialAccountByID S i = social_of (t_first (so_accounts S) (\<lambda>a. sa_ID a = i))"

definition CountSocialAccountsByUserID :: "social_env \<Rightarrow> string \<Rightarrow> (uworld, dberr + nat) state" where
  "CountSocialAccountsByUserID S userID = social_of (t_count (so_accounts S) (\<lambda>a. sa_UserID a = userID))"

section \<open>\<open>oauth_state.go\<close>\<close>

definition generateRandomString :: "social_env \<Rightarrow> nat \<Rightarrow> (uworld, string) state" where
  "generateRandomString S n = draw (random_string S n)"

definition allowed_domains :: "social_env \<Rightarrow> string list" where
  "allowed_domains S = (if ALLOWED_REDIRECT_DOMAINS S \<noteq> [] then ALLOWED_REDIRECT_DOMAINS S
     else [''localhost:3000'', ''localhost:5173'', ''localhost:5174'', ''localhost:5175'', ''localhost:8080'',
           ''127.0.0.1:3000'', ''127.0.0.1:5173'', ''127.0.0.1:8080''])"

definition IsAllowedRedirectURI :: "social_env \<Rightarrow> string \<Rightarrow> bool" where
  "IsAllowedRedirectURI S redirectURI = (if redirectURI = [] then False else
     case url_host S redirectURI of None \<Rightarrow> False
     | Some host \<Rightarrow> list_ex (\<lambda>allowed. host = allowed \<or> HasPrefix allowed ''.'' \<and> HasSuffix host allowed) (allowed_domains S))"

definition GetDefaultRedirectURI :: "social_env \<Rightarrow> string" where
  "GetDefaultRedirectURI S =
     (if DEFAULT_REDIRECT_URI S = [] then ''http://localhost:5173/auth/callback'' else DEFAULT_REDIRECT_URI S)"

definition CreateOAuthState :: "social_env \<Rightarrow> string \<Rightarrow> string \<Rightarrow> (uworld, string option) state" where
  "CreateOAuthState S redirectURI appID = (if \<not> IsAllowedRedirectURI S redirectURI then ret None else do {
     nonce \<leftarrow> generateRandomString S 16;
     now \<leftarrow> rds time_now;
     ret (Some (encode_state S \<lparr>st_RedirectURI = redirectURI, st_AppID = appID, st_Nonce = nonce, st_Timestamp = now,
       st_UserID = [], st_Flow = []\<rparr>)) })"

definition CreateOAuthLinkState :: "social_env \<Rightarrow> string \<Rightarrow> string \<Rightarrow> string \<Rightarrow> (uworld, string option) state" where
  "CreateOAuthLinkState S redirectURI appID userID = (if \<not> IsAllowedRedirectURI S redirectURI then ret None else do {
     nonce \<leftarrow> generateRandomString S 16;
     now \<leftarrow> rds time_now;
     ret (Some (encode_state S \<lparr>st_RedirectURI = redirectURI, st_AppID = appID, st_Nonce = nonce, st_Timestamp = now,
       st_UserID = userID, st_Flow = ''link''\<rparr>)) })"

text \<open>\<open>time.Since\<close> saturates; the difference of two instants here does not reach its bounds.\<close>

definition ParseOAuthState :: "social_env \<Rightarrow> string \<Rightarrow> (redis, string + OAuthState) state" where
  "ParseOAuthState S encodedState = (case decode_state S encodedState of
       Inl json \<Rightarrow> ret (Inl (if json then ''invalid state format'' else ''invalid state encoding''))
     | Inr st \<Rightarrow> do {
         now \<leftarrow> time_now;
         ret (if hour < now - st_Timestamp st then Inl ''state has expired''
           else if \<not> IsAllowedRedirectURI S (st_RedirectURI st) then Inl ''redirect URI not allowed''
           else Inr st) })"

section \<open>Tokens\<close>

definition social_assignDefaultRole :: "social_env \<Rightarrow> string \<Rightarrow> string \<Rightarrow> (uworld, unit) state" where
  "social_assignDefaultRole S appID userID = (case AssignDefaultRole (so_user S) of
       None \<Rightarrow> ret () | Some assign \<Rightarrow> do { err \<leftarrow> assign appID userID; ret () })"

text \<open>\<open>getUserRoles\<close> of this package is the one of the user service, line by line.\<close>

definition CreateSessionOrTokens ::
    "social_env \<Rightarrow> string \<Rightarrow> string \<Rightarrow> string \<Rightarrow> string \<Rightarrow> (uworld, app_error + (string \<times> string)) state" where
  "CreateSessionOrTokens S appID userID ip userAgent = do {
     let V = so_user S;
     roles \<leftarrow> getUserRoles V appID userID;
     appPtr \<leftarrow> load_app V appID;
     let (accessTTL, refreshTTL) = ResolveTokenTTLs appPtr;
     (if has_sessions V then do {
        res \<leftarrow> svc_CreateSession (ue_redis V) (ue_jwt V) (ue_uuid V) appID userID ip userAgent roles accessTTL refreshTTL;
        ret (case res of Inl e \<Rightarrow> Inl e | Inr (at, rt, _) \<Rightarrow> Inr (at, rt)) }
      else do {
        res \<leftarrow> rds (GenerateAccessToken (ue_jwt V) appID userID [] roles accessTTL);
        case res of Inl e \<Rightarrow> ret (Inl (internal ''Failed to generate access token'')) | Inr accessToken \<Rightarrow> do {
        res \<leftarrow> rds (GenerateRefreshToken (ue_jwt V) appID userID [] roles refreshTTL);
        case res of Inl e \<Rightarrow> ret (Inl (internal ''Failed to generate refresh token'')) | Inr refreshToken \<Rightarrow> do {
        err \<leftarrow> rds (SetRefreshToken (ue_redis V) (je_refresh_hours (ue_jwt V)) appID userID refreshToken);
        ret (case err of Some e \<Rightarrow> Inl (internal ''Failed to store refresh token'')
          | None \<Rightarrow> Inr (accessToken, refreshToken)) } } }) }"

definition IsAppTwoFAEnabled :: "social_env \<Rightarrow> string \<Rightarrow> (uworld, bool) state" where
  "IsAppTwoFAEnabled S appID = do {
     app \<leftarrow> load_app (so_user S) appID;
     ret (case app of None \<Rightarrow> True | Some a \<Rightarrow> a_TwoFAEnabled a) }"

end
