(* ===== verification/SocialService.thy ===== *)
theory SocialService
  imports Social
begin

text \<open>
  The logins and links of \<open>internal/social/service.go\<close>.  The three providers share their steps; what
  differs is a \<open>profile\<close>: a field the code does not set for a provider is empty in it, and the two that
  do not say whether the address is verified count as if it were.
\<close>

section \<open>Profiles\<close>

record profile =
  pf_ID :: string
  pf_Email :: string
  pf_Verified :: bool
  pf_Name :: string
  pf_FirstName :: string
  pf_LastName :: string
  pf_Picture :: string
  pf_Username :: string
  pf_Locale :: string
  pf_Raw :: string

definition google_profile :: "social_env \<Rightarrow> string \<Rightarrow> (uworld, app_error + profile) state" where
  "google_profile S token = do {
     answer \<leftarrow> draw (\<lambda>n. http_get S n (''https://www.googleapis.com/oauth2/v2/userinfo?access_token='' @ token) []);
     ret (case answer of
         NoAnswer \<Rightarrow> Inl (internal ''Failed to get user info from Google'')
       | BrokenAnswer \<Rightarrow> Inl (internal ''Failed to read Google user info response'')
       | Body b \<Rightarrow> (case google_user S b of None \<Rightarrow> Inl (internal ''Failed to parse Google user info'')
           | Some g \<Rightarrow> Inr \<lparr>pf_ID = gu_ID g, pf_Email = gu_Email g, pf_Verified = VerifiedEmail g, pf_Name = gu_Name g,
               pf_FirstName = GivenName g, pf_LastName = FamilyName g, pf_Picture = gu_Picture g, pf_Username = [],
               pf_Locale = gu_Locale g, pf_Raw = google_json S g\<rparr>)) }"

definition facebook_profile :: "social_env \<Rightarrow> string \<Rightarrow> (uworld, app_error + profile) state" where
  "facebook_profile S token = do {
     answer \<leftarrow> draw (\<lambda>n. http_get S n (''https://graph.facebook.com/v18.0/me?fields=id,name,email,first_name,last_name,'' @
       ''picture.type(large),locale&access_token='' @ token) []);
     ret (case answer of
         NoAnswer \<Rightarrow> Inl (internal ''Failed to get user info from Facebook'')
       | BrokenAnswer \<Rightarrow> Inl (internal ''Failed to read Facebook user info response'')
       | Body b \<Rightarrow> (case facebook_user S b of None \<Rightarrow> Inl (internal ''Failed to parse Facebook user info'')
           | Some f \<Rightarrow> Inr \<lparr>pf_ID = fu_ID f, pf_Email = fu_Email f, pf_Verified = True, pf_Name = fu_Name f,
               pf_FirstName = fu_FirstName f, pf_LastName = fu_LastName f, pf_Picture = fu_PictureURL f, pf_Username = [],
               pf_Locale = fu_Locale f, pf_Raw = facebook_json S f\<rparr>)) }"

text \<open>\<open>strconv.FormatInt\<close> of the id.  The second request is for the addresses when the first names none.\<close>

definition github_address :: "social_env \<Rightarrow> string \<Rightarrow> (uworld, app_error + string) state" where
  "github_address S token = do {
     answer \<leftarrow> draw (\<lambda>n. http_get S n ''https://api.github.com/user/emails'' (''token '' @ token));
     ret (case answer of
         NoAnswer \<Rightarrow> Inl (internal ''Failed to get user emails from GitHub'')
       | BrokenAnswer \<Rightarrow> Inl (internal ''Failed to read GitHub emails response'')
       | Body b \<Rightarrow> (case github_emails S b of None \<Rightarrow> Inl (internal ''Failed to parse GitHub emails'')
           | Some es \<Rightarrow> Inr (case find (\<lambda>(_, primary, verified). primary \<and> verified) es of
               None \<Rightarrow> [] | Some (email, _) \<Rightarrow> email))) }"

definition github_profile :: "social_env \<Rightarrow> string \<Rightarrow> (uworld, app_error + profile) state" where
  "github_profile S token = do {
     answer \<leftarrow> draw (\<lambda>n. http_get S n ''https://api.github.com/user'' (''token '' @ token));
     case answer of
         NoAnswer \<Rightarrow> ret (Inl (internal ''Failed to get user info from GitHub''))
       | BrokenAnswer \<Rightarrow> ret (Inl (internal ''Failed to read GitHub user info response''))
       | Body b \<Rightarrow> (case github_user S b of None \<Rightarrow> ret (Inl (internal ''Failed to parse GitHub user info''))
           | Some h \<Rightarrow> do {
     res \<leftarrow> (if hu_Email h = [] then github_address S token else ret (Inr (hu_Email h)));
     ret (case res of Inl e \<Rightarrow> Inl e | Inr email \<Rightarrow>
       Inr \<lparr>pf_ID = itoa (hu_ID h), pf_Email = email, pf_Verified = True, pf_Name = hu_Name h, pf_FirstName = [],
            pf_LastName = [], pf_Picture = AvatarURL h, pf_Username = hu_Login h, pf_Locale = [],
            pf_Raw = github_json S (h\<lparr>hu_Email := email\<rparr>)\<rparr>) }) }"

definition social_account :: "string \<Rightarrow> string \<Rightarrow> string \<Rightarrow> profile \<Rightarrow> string \<Rightarrow> SocialAccount" where
  "social_account appID userID provider p token = \<lparr>sa_ID = [], sa_AppID = appID, sa_UserID = userID, sa_Provider = provider,
     sa_ProviderUserID = pf_ID p, sa_Email = pf_Email p, sa_Name = pf_Name p, sa_FirstName = pf_FirstName p,
     sa_LastName = pf_LastName p, sa_ProfilePicture = pf_Picture p, sa_Username = pf_Username p, sa_Locale = pf_Locale p,
     sa_RawData = pf_Raw p, sa_AccessToken = token, sa_RefreshToken = []\<rparr>"

section \<open>Login\<close>

record SocialLoginResult =
  sl_UserID :: string
  RequiresMerge :: bool
  MergeToken :: string
  MergeEmail :: string

definition MergeTokenTTL :: duration where
  "MergeTokenTTL = 15 * minute"

definition createMergeToken ::
    "social_env \<Rightarrow> string \<Rightarrow> string \<Rightarrow> string \<Rightarrow> profile \<Rightarrow> string \<Rightarrow> (uworld, app_error + string) state" where
  "createMergeToken S appID userID provider p accessToken = do {
     let payload = \<lparr>mp_UserID = userID, mp_Provider = provider, mp_ProviderUserID = pf_ID p, mp_Email = pf_Email p,
       mp_Name = pf_Name p, mp_FirstName = pf_FirstName p, mp_LastName = pf_LastName p, mp_ProfilePicture = pf_Picture p,
       mp_Username = pf_Username p, mp_Locale = pf_Locale p, mp_RawData = pf_Raw p, mp_AccessToken = accessToken\<rparr>;
     token \<leftarrow> new_uuid (so_user S);
     err \<leftarrow> rds (SetMergeToken (so_redis S) appID token (payload_json S payload) MergeTokenTTL);
     ret (case err of Some e \<Rightarrow> Inl (internal ''Failed to store merge token'') | None \<Rightarrow> Inr token) }"

text \<open>What a login leaves in the row of the user: fields the provider has take its values.\<close>

definition synced_user :: "profile \<Rightarrow> User \<Rightarrow> User" where
  "synced_user p u = u\<lparr>
     u_Name := (if pf_Name p \<noteq> [] then pf_Name p else u_Name u),
     u_FirstName := (if pf_FirstName p \<noteq> [] then pf_FirstName p else u_FirstName u),
     u_LastName := (if pf_LastName p \<noteq> [] then pf_LastName p else u_LastName u),
     u_ProfilePicture := (if pf_Picture p \<noteq> [] then pf_Picture p else u_ProfilePicture u),
     u_Locale := (if pf_Locale p \<noteq> [] then pf_Locale p else u_Locale u),
     u_EmailVerified := pf_Verified p\<rparr>"

definition deactivated :: app_error where
  "deactivated = forbidden ''Account is deactivated. Please contact your administrator.''"

text \<open>A linked account; a failure to update the user is logged only.\<close>

definition known_account ::
    "social_env \<Rightarrow> profile \<Rightarrow> SocialAccount \<Rightarrow> (uworld, app_error + SocialLoginResult) state" where
  "known_account S p account = do {
     err \<leftarrow> UpdateSocialAccount S account;
     case err of Some e \<Rightarrow> ret (Inl (internal ''Failed to update social account'')) | None \<Rightarrow> do {
     let done = Inr \<lparr>sl_UserID = sa_UserID account, RequiresMerge = False, MergeToken = [], MergeEmail = []\<rparr>;
     res \<leftarrow> usr (GetUserByID (so_users S) (sa_UserID account));
     case res of Inl e \<Rightarrow> ret done | Inr foundUser \<Rightarrow>
     if \<not> u_IsActive foundUser then ret (Inl deactivated)
     else if synced_user p foundUser = foundUser then ret done
     else do { err \<leftarrow> usr (UpdateUser (so_users S) (synced_user p foundUser)); ret done } } }"

definition social_new_user :: "string \<Rightarrow> profile \<Rightarrow> User" where
  "social_new_user appID p = zero_user\<lparr>u_AppID := appID, u_Email := pf_Email p, u_EmailVerified := pf_Verified p,
     u_Name := pf_Name p, u_FirstName := pf_FirstName p, u_LastName := pf_LastName p,
     u_ProfilePicture := pf_Picture p, u_Locale := pf_Locale p\<rparr>"

text \<open>
  \<open>refresh\<close> is what the provider changes in a linked account.  Any error of the two lookups reads as
  "not found"; \<open>Create\<close> puts the id of the new row into the struct.
\<close>

definition social_login ::
    "social_env \<Rightarrow> string \<Rightarrow> string \<Rightarrow> (profile \<Rightarrow> string \<Rightarrow> SocialAccount \<Rightarrow> SocialAccount) \<Rightarrow> profile \<Rightarrow> string \<Rightarrow>
     (uworld, app_error + SocialLoginResult) state" where
  "social_login S appID provider refresh p token = do {
     res \<leftarrow> GetSocialAccountByProviderAndUserID S appID provider (pf_ID p);
     case res of Inr account \<Rightarrow> known_account S p (refresh p token account) | Inl e \<Rightarrow> do {
     res \<leftarrow> usr (GetUserByEmail (so_users S) appID (pf_Email p));
     case res of
       Inr existingUser \<Rightarrow> (if \<not> u_IsActive existingUser then ret (Inl deactivated) else do {
         res \<leftarrow> createMergeToken S appID (u_ID existingUser) provider p token;
         ret (case res of Inl e \<Rightarrow> Inl e | Inr mergeToken \<Rightarrow>
           Inr \<lparr>sl_UserID = [], RequiresMerge = True, MergeToken = mergeToken, MergeEmail = pf_Email p\<rparr>) })
     | Inl e \<Rightarrow> do {
         newID \<leftarrow> new_uuid (so_user S);
         res \<leftarrow> usr (CreateUser (so_users S) newID (social_new_user appID p));
         case res of Inl e \<Rightarrow> ret (Inl (internal ''Failed to create new user'')) | Inr newUser \<Rightarrow> do {
         social_assignDefaultRole S appID (u_ID newUser);
         res \<leftarrow> CreateSocialAccount S (social_account appID (u_ID newUser) provider p token);
         ret (case res of Inl e \<Rightarrow> Inl (internal ''Failed to create social account'')
           | Inr a \<Rightarrow> Inr \<lparr>sl_UserID = u_ID newUser, RequiresMerge = False, MergeToken = [], MergeEmail = []\<rparr>) } } } }"

definition refreshed_account :: "profile \<Rightarrow> string \<Rightarrow> SocialAccount \<Rightarrow> SocialAccount" where
  "refreshed_account p token a = a\<lparr>sa_Email := pf_Email p, sa_Name := pf_Name p, sa_FirstName := pf_FirstName p,
     sa_LastName := pf_LastName p, sa_ProfilePicture := pf_Picture p, sa_Locale := pf_Locale p, sa_RawData := pf_Raw p,
     sa_AccessToken := token\<rparr>"

definition refreshed_github_account :: "profile \<Rightarrow> string \<Rightarrow> SocialAccount \<Rightarrow> SocialAccount" where
  "refreshed_github_account p token a = a\<lparr>sa_Email := pf_Email p, sa_Name := pf_Name p, sa_ProfilePicture := pf_Picture p,
     sa_Username := pf_Username p, sa_RawData := pf_Raw p, sa_AccessToken := token\<rparr>"

definition HandleGoogleCallback :: "social_env \<Rightarrow> string \<Rightarrow> string \<Rightarrow> (uworld, app_error + SocialLoginResult) state" where
  "HandleGoogleCallback S appID googleAccessToken = do {
     res \<leftarrow> google_profile S googleAccessToken;
     case res of Inl e \<Rightarrow> ret (Inl e)
     | Inr p \<Rightarrow> social_login S appID ''google'' refreshed_account p googleAccessToken }"

definition HandleFacebookCallback :: "social_env \<Rightarrow> string \<Rightarrow> string \<Rightarrow> (uworld, app_error + SocialLoginResult) state" where
  "HandleFacebookCallback S appID facebookAccessToken = do {
     res \<leftarrow> facebook_profile S facebookAccessToken;
     case res of Inl e \<Rightarrow> ret (Inl e)
     | Inr p \<Rightarrow> social_login S appID ''facebook'' refreshed_account p facebookAccessToken }"

definition HandleGithubCallback :: "social_env \<Rightarrow> string \<Rightarrow> string \<Rightarrow> (uworld, app_error + SocialLoginResult) state" where
  "HandleGithubCallback S appID githubAccessToken = do {
     res \<leftarrow> github_profile S githubAccessToken;
     case res of Inl e \<Rightarrow> ret (Inl e)
     | Inr p \<Rightarrow> if pf_Email p = [] then ret (Inl (bad_request (''No public or primary verified email found for GitHub account. '' @
           ''Please ensure your primary email is public and verified on GitHub.'')))
         else social_login S appID ''github'' refreshed_github_account p githubAccessToken }"

section \<open>Linked accounts\<close>

definition GetLinkedAccounts :: "social_env \<Rightarrow> string \<Rightarrow> (uworld, app_error + SocialAccount list) state" where
  "GetLinkedAccounts S userID = do {
     res \<leftarrow> GetSocialAccountsByUserID S userID;
     ret (case res of Inl e \<Rightarrow> Inl (internal ''Failed to retrieve linked social accounts'') | Inr accounts \<Rightarrow> Inr accounts) }"

definition svc_UnlinkSocialAccount :: "social_env \<Rightarrow> string \<Rightarrow> string \<Rightarrow> string \<Rightarrow> (uworld, app_error option) state" where
  "svc_UnlinkSocialAccount S appID userID socialAccountID = do {
     res \<leftarrow> GetSocialAccountByID S socialAccountID;
     case res of
       Inl e \<Rightarrow> ret (Some (if e = NotFound then not_found ''Social account not found''
                            else internal ''Failed to retrieve social account''))
     | Inr account \<Rightarrow>
     if sa_UserID account \<noteq> userID \<or> sa_AppID account \<noteq> appID then ret (Some (not_found ''Social account not found'')) else do {
     res \<leftarrow> usr (GetUserByID (so_users S) userID);
     case res of Inl e \<Rightarrow> ret (Some (internal ''Failed to retrieve user'')) | Inr foundUser \<Rightarrow> do {
     refused \<leftarrow> (if u_PasswordHash foundUser \<noteq> [] then ret None else do {
         res \<leftarrow> CountSocialAccountsByUserID S userID;
         ret (case res of Inl e \<Rightarrow> Some (internal ''Failed to count linked accounts'')
           | Inr count \<Rightarrow> if count \<le> 1 then Some (bad_request (''Cannot unlink the only social account. '' @
               ''Please set a password first to maintain account access.'')) else None) });
     case refused of Some e \<Rightarrow> ret (Some e) | None \<Rightarrow> do {
     err \<leftarrow> DeleteSocialAccount S socialAccountID;
     case err of Some e \<Rightarrow> ret (Some (internal ''Failed to unlink social account'')) | None \<Rightarrow> do {
     Dispatch (so_user S) appID ''social.unlinked'' userID;
     ret None } } } } }"

text \<open>\<open>uuid.Parse\<close> of the user id, its error dropped, gives the nil UUID for what is none.\<close>

definition parsed_or_nil :: "social_env \<Rightarrow> string \<Rightarrow> string" where
  "parsed_or_nil S userID = (case parse_uuid (so_user S) userID of Some u \<Rightarrow> u
     | None \<Rightarrow> ''00000000-0000-0000-0000-000000000000'')"

definition link_account ::
    "social_env \<Rightarrow> string \<Rightarrow> string \<Rightarrow> string \<Rightarrow> string \<Rightarrow> profile \<Rightarrow> string \<Rightarrow> (uworld, app_error + SocialAccount) state" where
  "link_account S appID userID provider title p token = do {
     res \<leftarrow> GetSocialAccountByProviderAndUserID S appID provider (pf_ID p);
     case res of
       Inr existing \<Rightarrow> ret (Inl (conflict (''This '' @ title @ '' account is already linked to '' @
         (if sa_UserID existing = userID then ''your profile'' else ''another user''))))
     | Inl e \<Rightarrow> do {
         res \<leftarrow> CreateSocialAccount S (social_account appID (parsed_or_nil S userID) provider p token);
         case res of Inl e \<Rightarrow> ret (Inl (internal (''Failed to link '' @ title @ '' account'')))
         | Inr account \<Rightarrow> do {
             Dispatch (so_user S) appID ''social.linked'' userID;
             ret (Inr account) } } }"

definition HandleGoogleLinkCallback ::
    "social_env \<Rightarrow> string \<Rightarrow> string \<Rightarrow> string \<Rightarrow> (uworld, app_error + SocialAccount) state" where
  "HandleGoogleLinkCallback S appID userID googleAccessToken = do {
     res \<leftarrow> google_profile S googleAccessToken;
     case res of Inl e \<Rightarrow> ret (Inl e) | Inr p \<Rightarrow> link_account S appID userID ''google'' ''Google'' p googleAccessToken }"

definition HandleFacebookLinkCallback ::
    "social_env \<Rightarrow> string \<Rightarrow> string \<Rightarrow> string \<Rightarrow> (uworld, app_error + SocialAccount) state" where
  "HandleFacebookLinkCallback S appID userID facebookAccessToken = do {
     res \<leftarrow> facebook_profile S facebookAccessToken;
     case res of Inl e \<Rightarrow> ret (Inl e) | Inr p \<Rightarrow> link_account S appID userID ''facebook'' ''Facebook'' p facebookAccessToken }"

definition HandleGithubLinkCallback ::
    "social_env \<Rightarrow> string \<Rightarrow> string \<Rightarrow> string \<Rightarrow> (uworld, app_error + SocialAccount) state" where
  "HandleGithubLinkCallback S appID userID githubAccessToken = do {
     res \<leftarrow> github_profile S githubAccessToken;
     case res of Inl e \<Rightarrow> ret (Inl e) | Inr p \<Rightarrow> link_account S appID userID ''github'' ''GitHub'' p githubAccessToken }"

section \<open>Merging\<close>

definition merged_account :: "string \<Rightarrow> string \<Rightarrow> mergeTokenPayload \<Rightarrow> SocialAccount" where
  "merged_account appID userID m = \<lparr>sa_ID = [], sa_AppID = appID, sa_UserID = userID, sa_Provider = mp_Provider m,
     sa_ProviderUserID = mp_ProviderUserID m, sa_Email = mp_Email m, sa_Name = mp_Name m, sa_FirstName = mp_FirstName m,
     sa_LastName = mp_LastName m, sa_ProfilePicture = mp_ProfilePicture m, sa_Username = mp_Username m,
     sa_Locale = mp_Locale m, sa_RawData = mp_RawData m, sa_AccessToken = mp_AccessToken m, sa_RefreshToken = []\<rparr>"

definition ConfirmMerge ::
    "social_env \<Rightarrow> string \<Rightarrow> string \<Rightarrow> string \<Rightarrow> string \<Rightarrow> string \<Rightarrow> (uworld, app_error + (string \<times> string)) state" where
  "ConfirmMerge S appID mergeToken password ip userAgent = do {
     res \<leftarrow> rds (GetMergeToken (so_redis S) appID mergeToken);
     case res of Inl e \<Rightarrow> ret (Inl (unauthorized ''Invalid or expired merge token'')) | Inr payloadStr \<Rightarrow>
     (case payload_of S payloadStr of None \<Rightarrow> ret (Inl (internal ''Failed to decode merge token payload'')) | Some payload \<Rightarrow> do {
     res \<leftarrow> usr (GetUserByID (so_users S) (mp_UserID payload));
     case res of Inl e \<Rightarrow> ret (Inl (not_found ''User not found'')) | Inr existingUser \<Rightarrow>
     if \<not> u_IsActive existingUser then ret (Inl deactivated) else
     if u_PasswordHash existingUser = []
     then ret (Inl (bad_request ''This account has no password set. Please use a social login provider.'')) else
     if \<not> CompareHash (ue_hash (so_user S)) (u_PasswordHash existingUser) password
     then ret (Inl (unauthorized ''Invalid password'')) else do {
     res \<leftarrow> CreateSocialAccount S (merged_account appID (u_ID existingUser) payload);
     case res of Inl e \<Rightarrow> ret (Inl (internal ''Failed to link social account'')) | Inr account \<Rightarrow> do {
     rds (ignore (DeleteMergeToken (so_redis S) appID mergeToken));
     Dispatch (so_user S) appID ''social.linked'' (mp_UserID payload);
     CreateSessionOrTokens S appID (mp_UserID payload) ip userAgent } } }) }"

end
