(* ===== verification/SocialHandler.thy ===== *)
theory SocialHandler
  imports SocialService
begin

text \<open>
  \<open>internal/social/handler.go\<close>: the browser's way to a provider and back.  Logs, metrics and anomaly
  detection are left out; the three providers share their steps.
\<close>

text \<open>
  A redirect goes to the provider, or back to the frontend: to an address with a query whose values
  are as they are printed.
\<close>

datatype 'a social_reply = SReply "'a reply" | SProvider string | SBack string "(string \<times> string) list"

abbreviation back_error :: "string \<Rightarrow> string \<Rightarrow> 'a social_reply" where
  "back_error uri e \<equiv> SBack uri [(''error'', e)]"

definition trySendSMSCode :: "social_env \<Rightarrow> string \<Rightarrow> string \<Rightarrow> (uworld, unit) state" where
  "trySendSMSCode S appID userID =
     (if so_twofa S then do { err \<leftarrow> GenerateSMS2FACode (he_twofa (so_handler S)) appID userID; ret () } else ret ())"

definition trySendBackupEmailCode :: "social_env \<Rightarrow> string \<Rightarrow> string \<Rightarrow> (uworld, unit) state" where
  "trySendBackupEmailCode S appID userID =
     (if so_twofa S then do { err \<leftarrow> GenerateBackupEmail2FACode (he_twofa (so_handler S)) appID userID; ret () } else ret ())"

definition checkIPAccessRedirect :: "social_env \<Rightarrow> string \<Rightarrow> string \<Rightarrow> (uworld, bool) state" where
  "checkIPAccessRedirect S appID ipAddress = checkIPAccess (so_handler S) appID ipAddress"

text \<open>The three configurations differ in scopes and endpoints, which the OAuth library knows by the provider.\<close>

definition get_config :: "social_env \<Rightarrow> string \<Rightarrow> string \<Rightarrow> (uworld, OAuthProviderConfig option) state" where
  "get_config S provider appID = do {
     res \<leftarrow> GetOAuthProviderConfig S appID provider;
     ret (case res of Inl e \<Rightarrow> None | Inr config \<Rightarrow> if op_IsEnabled config then Some config else None) }"

definition getGoogleConfig :: "social_env \<Rightarrow> string \<Rightarrow> (uworld, OAuthProviderConfig option) state" where
  "getGoogleConfig S appID = get_config S ''google'' appID"

definition getFacebookConfig :: "social_env \<Rightarrow> string \<Rightarrow> (uworld, OAuthProviderConfig option) state" where
  "getFacebookConfig S appID = get_config S ''facebook'' appID"

definition getGithubConfig :: "social_env \<Rightarrow> string \<Rightarrow> (uworld, OAuthProviderConfig option) state" where
  "getGithubConfig S appID = get_config S ''github'' appID"

section \<open>To the provider\<close>

definition wanted_redirect :: "social_env \<Rightarrow> http_ctx \<Rightarrow> string" where
  "wanted_redirect S c = (if Query c ''redirect_uri'' = [] then GetDefaultRedirectURI S else Query c ''redirect_uri'')"

definition with_social_app ::
    "http_ctx \<Rightarrow> (string \<Rightarrow> (uworld, 'a social_reply) state) \<Rightarrow> (uworld, 'a social_reply) state" where
  "with_social_app c body = (case ctx_keys c ''app_id'' of
       None \<Rightarrow> ret (SReply (RError 500 ''App ID missing from context''))
     | Some v \<Rightarrow> (case v of CUuid a \<Rightarrow> body a | _ \<Rightarrow> ret (SReply (RPanic ''interface conversion''))))"

definition social_Login ::
    "social_env \<Rightarrow> (social_env \<Rightarrow> string \<Rightarrow> (uworld, OAuthProviderConfig option) state) \<Rightarrow> http_ctx \<Rightarrow> (uworld, unit social_reply) state" where
  "social_Login S getConfig c = with_social_app c (\<lambda>appID. do {
     config \<leftarrow> getConfig S appID;
     case config of None \<Rightarrow> ret (SReply (RError 500 ''OAuth configuration error'')) | Some cfg \<Rightarrow> do {
     st \<leftarrow> CreateOAuthState S (wanted_redirect S c) appID;
     ret (case st of None \<Rightarrow> SReply (RError 400 ''Invalid redirect URI'') | Some t \<Rightarrow> SProvider (auth_code_url S cfg t)) } })"

definition GoogleLogin :: "social_env \<Rightarrow> http_ctx \<Rightarrow> (uworld, unit social_reply) state" where
  "GoogleLogin S c = social_Login S getGoogleConfig c"

definition FacebookLogin :: "social_env \<Rightarrow> http_ctx \<Rightarrow> (uworld, unit social_reply) state" where
  "FacebookLogin S c = social_Login S getFacebookConfig c"

definition GithubLogin :: "social_env \<Rightarrow> http_ctx \<Rightarrow> (uworld, unit social_reply) state" where
  "GithubLogin S c = social_Login S getGithubConfig c"

text \<open>The user id of the context is asserted to be a string when the state is made.\<close>

definition social_Link ::
    "social_env \<Rightarrow> (social_env \<Rightarrow> string \<Rightarrow> (uworld, OAuthProviderConfig option) state) \<Rightarrow> http_ctx \<Rightarrow> (uworld, unit social_reply) state" where
  "social_Link S getConfig c = with_social_app c (\<lambda>appID.
     case ctx_keys c ''userID'' of None \<Rightarrow> ret (SReply (RError 401 ''Authentication required'')) | Some u \<Rightarrow> do {
     config \<leftarrow> getConfig S appID;
     case config of None \<Rightarrow> ret (SReply (RError 500 ''OAuth configuration error'')) | Some cfg \<Rightarrow>
     (case as_string u of None \<Rightarrow> ret (SReply (RPanic ''interface conversion'')) | Some userID \<Rightarrow> do {
     st \<leftarrow> CreateOAuthLinkState S (wanted_redirect S c) appID userID;
     ret (case st of None \<Rightarrow> SReply (RError 400 ''Invalid redirect URI'') | Some t \<Rightarrow> SProvider (auth_code_url S cfg t)) }) })"

definition GoogleLink :: "social_env \<Rightarrow> http_ctx \<Rightarrow> (uworld, unit social_reply) state" where
  "GoogleLink S c = social_Link S getGoogleConfig c"

definition FacebookLink :: "social_env \<Rightarrow> http_ctx \<Rightarrow> (uworld, unit social_reply) state" where
  "FacebookLink S c = social_Link S getFacebookConfig c"

definition GithubLink :: "social_env \<Rightarrow> http_ctx \<Rightarrow> (uworld, unit social_reply) state" where
  "GithubLink S c = social_Link S getGithubConfig c"

section \<open>Back from the provider\<close>

definition with_state ::
    "social_env \<Rightarrow> http_ctx \<Rightarrow> (OAuthState \<Rightarrow> (uworld, 'a social_reply) state) \<Rightarrow> (uworld, 'a social_reply) state" where
  "with_state S c body = (if Query c ''state'' = [] then ret (back_error (GetDefaultRedirectURI S) ''missing_state'') else do {
     res \<leftarrow> rds (ParseOAuthState S (Query c ''state''));
     case res of Inl e \<Rightarrow> ret (back_error (GetDefaultRedirectURI S) (QueryEscape (''Invalid state: '' @ e)))
     | Inr st \<Rightarrow> body st })"

definition with_code ::
    "http_ctx \<Rightarrow> OAuthState \<Rightarrow> (string \<Rightarrow> (uworld, 'a social_reply) state) \<Rightarrow> (uworld, 'a social_reply) state" where
  "with_code c st body = (if Query c ''code'' = [] then ret (back_error (st_RedirectURI st) ''authorization_code_missing'')
     else body (Query c ''code''))"

text \<open>The application: of the context, where there is one, else of the state.\<close>

definition state_app ::
    "social_env \<Rightarrow> OAuthState \<Rightarrow> (string \<Rightarrow> (uworld, 'a social_reply) state) \<Rightarrow> (uworld, 'a social_reply) state" where
  "state_app S st body = (if st_AppID st = [] then ret (back_error (st_RedirectURI st) ''app_id_missing'')
     else case parse_uuid (so_user S) (st_AppID st) of
       None \<Rightarrow> ret (back_error (st_RedirectURI st) ''invalid_app_id_state'') | Some appID \<Rightarrow> body appID)"

definition callback_app ::
    "social_env \<Rightarrow> http_ctx \<Rightarrow> OAuthState \<Rightarrow> (string \<Rightarrow> (uworld, 'a social_reply) state) \<Rightarrow> (uworld, 'a social_reply) state" where
  "callback_app S c st body = (case ctx_keys c ''app_id'' of
       Some (CUuid a) \<Rightarrow> body a
     | Some _ \<Rightarrow> ret (SReply (RPanic ''interface conversion''))
     | None \<Rightarrow> state_app S st body)"

definition with_token ::
    "social_env \<Rightarrow> (social_env \<Rightarrow> string \<Rightarrow> (uworld, OAuthProviderConfig option) state) \<Rightarrow> OAuthState \<Rightarrow> string \<Rightarrow> string \<Rightarrow>
     (string \<Rightarrow> (uworld, 'a social_reply) state) \<Rightarrow> (uworld, 'a social_reply) state" where
  "with_token S getConfig st appID code body = do {
     config \<leftarrow> getConfig S appID;
     case config of None \<Rightarrow> ret (back_error (st_RedirectURI st) ''config_error'') | Some cfg \<Rightarrow> do {
     res \<leftarrow> draw (\<lambda>n. oauth_exchange S n cfg code);
     case res of Inl e \<Rightarrow> ret (back_error (st_RedirectURI st) (QueryEscape (''Could not retrieve token: '' @ e)))
     | Inr token \<Rightarrow> body token } }"

text \<open>Tokens for a user who has passed; the addresses the code is printed into are not escaped.\<close>

definition finish_login ::
    "social_env \<Rightarrow> string \<Rightarrow> string \<Rightarrow> string \<Rightarrow> string \<Rightarrow> string \<Rightarrow> string \<Rightarrow> (uworld, unit social_reply) state" where
  "finish_login S provider redirectURI appID userID ip ua = do {
     allowed \<leftarrow> checkIPAccessRedirect S appID ip;
     if \<not> allowed then ret (back_error redirectURI ''ip_blocked'') else do {
     res \<leftarrow> CreateSessionOrTokens S appID userID ip ua;
     ret (case res of Inl e \<Rightarrow> back_error redirectURI (QueryEscape (Message e))
       | Inr (accessToken, refreshToken) \<Rightarrow> SBack redirectURI [(''access_token'', QueryEscape accessToken),
           (''refresh_token'', QueryEscape refreshToken), (''provider'', provider)]) } }"

text \<open>The cookie of a trusted device, as for the login with a password.\<close>

definition trusted_here :: "social_env \<Rightarrow> http_ctx \<Rightarrow> string \<Rightarrow> User \<Rightarrow> (uworld, bool) state" where
  "trusted_here S c appID user = (if \<not> has_device_check (so_handler S) then ret False else
     case Cookie c ''trusted_device'' of None \<Rightarrow> ret False | Some token \<Rightarrow>
     if token = [] then ret False else do {
       res \<leftarrow> ValidateTrustedDevice (he_twofa (so_handler S)) token;
       ret (case res of Inl e \<Rightarrow> False | Inr d \<Rightarrow> td_UserID d = u_ID user \<and> td_AppID d = appID) })"

definition social_second_step ::
    "social_env \<Rightarrow> string \<Rightarrow> string \<Rightarrow> string \<Rightarrow> User \<Rightarrow> (uworld, unit social_reply) state" where
  "social_second_step S provider redirectURI appID user = do {
     tempToken \<leftarrow> new_uuid (so_user S);
     err \<leftarrow> rds (SetTempUserSession (so_redis S) appID tempToken (u_ID user) (10 * minute));
     case err of Some e \<Rightarrow> ret (back_error redirectURI (QueryEscape ''Failed to create temporary session for 2FA''))
     | None \<Rightarrow> do {
     let twoFAMethod = (if u_TwoFAMethod user = [] then ''totp'' else u_TwoFAMethod user);
     (if twoFAMethod = ''sms'' then trySendSMSCode S appID (u_ID user) else ret ());
     (if twoFAMethod = ''backup_email'' then trySendBackupEmailCode S appID (u_ID user) else ret ());
     ret (SBack redirectURI [(''temp_token'', tempToken), (''requires_2fa'', ''true''), (''provider'', provider),
       (''method'', twoFAMethod)]) } }"

definition social_callback ::
    "social_env \<Rightarrow> (social_env \<Rightarrow> string \<Rightarrow> (uworld, OAuthProviderConfig option) state) \<Rightarrow> string \<Rightarrow>
     (social_env \<Rightarrow> string \<Rightarrow> string \<Rightarrow> (uworld, app_error + SocialLoginResult) state) \<Rightarrow> http_ctx \<Rightarrow> (uworld, unit social_reply) state" where
  "social_callback S getConfig provider handle c = with_state S c (\<lambda>st. with_code c st (\<lambda>code. callback_app S c st (\<lambda>appID.
     with_token S getConfig st appID code (\<lambda>token. do {
     let redirectURI = st_RedirectURI st;
     res \<leftarrow> handle S appID token;
     case res of Inl e \<Rightarrow> ret (back_error redirectURI (QueryEscape (Message e))) | Inr result \<Rightarrow>
     if RequiresMerge result then ret (SBack redirectURI [(''requires_merge'', ''true''),
       (''merge_token'', QueryEscape (MergeToken result)), (''provider'', provider), (''email'', QueryEscape (MergeEmail result))])
     else do {
     res \<leftarrow> usr (GetUserByID (so_users S) (sl_UserID result));
     case res of Inl e \<Rightarrow> ret (back_error redirectURI (QueryEscape ''Failed to fetch user for 2FA check'')) | Inr user \<Rightarrow> do {
     let (ip, ua) = GetClientInfo c;
     needed \<leftarrow> (if u_TwoFAEnabled user then IsAppTwoFAEnabled S appID else ret False);
     trusted \<leftarrow> (if needed then trusted_here S c appID user else ret False);
     (if needed \<and> \<not> trusted then social_second_step S provider redirectURI appID user
      else finish_login S provider redirectURI appID (sl_UserID result) ip ua) } } }))))"

definition GoogleCallback :: "social_env \<Rightarrow> http_ctx \<Rightarrow> (uworld, unit social_reply) state" where
  "GoogleCallback S c = social_callback S getGoogleConfig ''google'' HandleGoogleCallback c"

definition FacebookCallback :: "social_env \<Rightarrow> http_ctx \<Rightarrow> (uworld, unit social_reply) state" where
  "FacebookCallback S c = social_callback S getFacebookConfig ''facebook'' HandleFacebookCallback c"

definition GithubCallback :: "social_env \<Rightarrow> http_ctx \<Rightarrow> (uworld, unit social_reply) state" where
  "GithubCallback S c = social_callback S getGithubConfig ''github'' HandleGithubCallback c"

definition social_link_callback ::
    "social_env \<Rightarrow> (social_env \<Rightarrow> string \<Rightarrow> (uworld, OAuthProviderConfig option) state) \<Rightarrow> string \<Rightarrow>
     (social_env \<Rightarrow> string \<Rightarrow> string \<Rightarrow> string \<Rightarrow> (uworld, app_error + SocialAccount) state) \<Rightarrow> http_ctx \<Rightarrow> (uworld, unit social_reply) state" where
  "social_link_callback S getConfig provider handle c = with_state S c (\<lambda>st.
     if st_Flow st \<noteq> ''link'' \<or> st_UserID st = [] then ret (back_error (st_RedirectURI st) ''invalid_link_state'') else
     with_code c st (\<lambda>code. state_app S st (\<lambda>appID. with_token S getConfig st appID code (\<lambda>token. do {
     res \<leftarrow> handle S appID (st_UserID st) token;
     ret (case res of Inl e \<Rightarrow> back_error (st_RedirectURI st) (QueryEscape (Message e))
       | Inr a \<Rightarrow> SBack (st_RedirectURI st) [(''linked'', ''true''), (''provider'', provider)]) }))))"

definition GoogleLinkCallback :: "social_env \<Rightarrow> http_ctx \<Rightarrow> (uworld, unit social_reply) state" where
  "GoogleLinkCallback S c = social_link_callback S getGoogleConfig ''google'' HandleGoogleLinkCallback c"

definition FacebookLinkCallback :: "social_env \<Rightarrow> http_ctx \<Rightarrow> (uworld, unit social_reply) state" where
  "FacebookLinkCallback S c = social_link_callback S getFacebookConfig ''facebook'' HandleFacebookLinkCallback c"

definition GithubLinkCallback :: "social_env \<Rightarrow> http_ctx \<Rightarrow> (uworld, unit social_reply) state" where
  "GithubLinkCallback S c = social_link_callback S getGithubConfig ''github'' HandleGithubLinkCallback c"

section \<open>Accounts of the user that is logged in\<close>

definition ListSocialAccounts :: "social_env \<Rightarrow> http_ctx \<Rightarrow> (uworld, SocialAccount list reply) state" where
  "ListSocialAccounts S c = with_user_id c (\<lambda>u. assert_string u (\<lambda>userID. do {
     res \<leftarrow> GetLinkedAccounts S userID;
     ret (case res of Inl e \<Rightarrow> RError (Code e) (Message e) | Inr accounts \<Rightarrow> RJson 200
       (map (\<lambda>a. a\<lparr>sa_AppID := [], sa_UserID := [], sa_RawData := [], sa_AccessToken := [], sa_RefreshToken := []\<rparr>) accounts)) }))"

definition UnlinkSocialAccount :: "social_env \<Rightarrow> http_ctx \<Rightarrow> (uworld, string reply) state" where
  "UnlinkSocialAccount S c = with_user_id c (\<lambda>u. with_app_id c (\<lambda>appID. if Param c ''id'' = []
     then ret (RError 400 ''Social account ID is required'') else assert_string u (\<lambda>userID. do {
     err \<leftarrow> svc_UnlinkSocialAccount S appID userID (Param c ''id'');
     ret (answer err (RJson 200 ''Social account unlinked successfully'')) })))"

text \<open>The body has the token and the password of the account.\<close>

definition MergeConfirm :: "social_env \<Rightarrow> string + (string \<times> string) \<Rightarrow> http_ctx \<Rightarrow> (uworld, (string \<times> string) reply) state" where
  "MergeConfirm S body c = with_app_id c (\<lambda>appID. with_body body (\<lambda>(mergeToken, password). do {
     let (ip, ua) = GetClientInfo c;
     res \<leftarrow> ConfirmMerge S appID mergeToken password ip ua;
     ret (case res of Inl e \<Rightarrow> RError (Code e) (Message e) | Inr tokens \<Rightarrow> RJson 200 tokens) }))"

end
