(* ===== verification/SocialProofs.thy ===== *)
theory SocialProofs
  imports SocialHandler LoginSpec
begin

text \<open>
  Lemmas on logins through other providers: what they leave alone, what the statements on the linked
  accounts do, and the logins, links and merges.
\<close>

section \<open>Frames\<close>

definition same_social :: "uworld \<Rightarrow> uworld \<Rightarrow> bool" where
  "same_social w w' \<longleftrightarrow> w_social w' = w_social w \<and> w_users w' = w_users w \<and> rnow (w_redis w) \<le> rnow (w_redis w')"

interpretation same_social: frame same_social
  by unfold_locales (auto simp: same_social_def)

lemma keeps_social:
  "stable same_social (apps m2)" "stable same_social (devs m3)" "stable same_social (draw f)"
  "touches UNIV m4 \<Longrightarrow> stable same_social (rds m4)" "stable same_social (new_uuid V)"
  "stable same_social (Dispatch V a ev u)" "stable same_social (load_app V a)"
  by (auto simp: stable_def wp_def same_social_def touches_def writes_def new_uuid_def Dispatch_def load_app_def
      split: prod.splits sum.splits)

text \<open>Which account at which provider a row is about, and the row a creation adds.\<close>

definition same_identity :: "string \<Rightarrow> string \<Rightarrow> string \<Rightarrow> SocialAccount \<Rightarrow> bool" where
  "same_identity appID provider i a \<longleftrightarrow> sa_AppID a = appID \<and> sa_Provider a = provider \<and> sa_ProviderUserID a = i"

definition linked :: "string \<Rightarrow> string \<Rightarrow> string \<Rightarrow> uworld \<Rightarrow> bool" where
  "linked appID provider i w \<longleftrightarrow> (\<exists>a\<in>set (w_social w). same_identity appID provider i a)"

definition adds_account :: "SocialAccount \<Rightarrow> uworld \<Rightarrow> uworld \<Rightarrow> bool" where
  "adds_account a w w' \<longleftrightarrow> (\<exists>i. w_social w' = w_social w @ [a\<lparr>sa_ID := i\<rparr>] \<and> no_clash social_clash (w_social w'))"

lemma adds_account_new: "adds_account a w w' \<Longrightarrow> \<not> linked (sa_AppID a) (sa_Provider a) (sa_ProviderUserID a) w"
  by (auto simp: adds_account_def linked_def same_identity_def no_clash_def sorted_wrt_append social_clash_def)

locale social_stack =
  base: twofa_stack "so_handler S" + accounts: table_server "so_accounts S" social_clash +
  provider_rows: table_server "so_providers S" provider_clash for S :: social_env +
  assumes lookup_social: "LookupRoles (so_user S) = Some l \<Longrightarrow> stable same_social (l a u)"
    and assign_social: "AssignDefaultRole (so_user S) = Some f \<Longrightarrow> stable same_social (f a u)"
begin

lemma wp_first_account:
  "(\<And>x. first_post (same_identity a p i) (w_social w) x (w_social w) \<Longrightarrow> Q x w) \<Longrightarrow>
   wp (GetSocialAccountByProviderAndUserID S a p i) Q w"
  unfolding GetSocialAccountByProviderAndUserID_def same_identity_def by (intro wp_lifts accounts.wp_t_first) simp

lemma wp_account_by_id:
  "(\<And>x. first_post (\<lambda>a. sa_ID a = i) (w_social w) x (w_social w) \<Longrightarrow> Q x w) \<Longrightarrow> wp (GetSocialAccountByID S i) Q w"
  unfolding GetSocialAccountByID_def by (intro wp_lifts accounts.wp_t_first) simp

text \<open>A creation that fails has added nothing, or a row all the same.\<close>

lemma wp_CreateSocialAccount:
  assumes "no_clash social_clash (w_social w)"
    and "\<And>r w'. same_social (w\<lparr>w_social := w_social w'\<rparr>) w' \<Longrightarrow> adds_account account w w' \<Longrightarrow> Q (Inr r) w'"
    and "\<And>e w'. Q (Inl e) w'"
  shows "wp (CreateSocialAccount S account) Q w"
  unfolding CreateSocialAccount_def new_uuid_def Let_def
proof (rule wp_bind, rule wp_draw, rule wp_bind, rule wp_lifts(12), rule wpI, rule wp_return, goal_cases)
  case (1 e rows)
  show ?case
  proof (cases e)
    case None
    have "adds_account account w (w\<lparr>w_rand := Suc (w_rand w), w_social := rows\<rparr>)"
      using accounts.create[OF 1] accounts.create_unique[OF 1] assms(1) None
      by (auto simp: adds_account_def dest: applied_postD)
    with None show ?thesis by (auto intro!: assms(2) simp: same_social_def)
  qed (simp add: assms(3))
qed

lemma keeps_roles: "stable same_social (getUserRoles (so_user S) a u)"
proof (cases "LookupRoles (so_user S)")
  case (Some l)
  note l = lookup_social[OF Some]
  show ?thesis
  proof (cases "AssignDefaultRole (so_user S)")
    case None
    show ?thesis unfolding getUserRoles_def Some None option.case by (intro same_social.stable_intro l)
  next
    case (Some f)
    note f = assign_social[OF Some]
    show ?thesis unfolding getUserRoles_def \<open>LookupRoles (so_user S) = Some l\<close> Some option.case
      by (intro same_social.stable_intro l f)
  qed
qed (simp add: getUserRoles_def same_social.stable_return)

lemma keeps_session: "stable same_social (CreateSessionOrTokens S a u ip ua)"
  unfolding CreateSessionOrTokens_def svc_CreateSession_def GenerateAccessToken_def GenerateRefreshToken_def
    ClearUserTokenBlacklist_def SetRefreshToken_def Let_def
  by (intro same_social.stable_intro keeps_social keeps_roles base.redis.touches_CreateSession[THEN touches_UNIV]
      touches_intro base.redis.touches_redis) simp_all

end

section \<open>Merging\<close>

text \<open>What the request to merge has to name: a token that is stored, and the password of the user it is about.\<close>

definition merge_for :: "social_env \<Rightarrow> uworld \<Rightarrow> string \<Rightarrow> string \<Rightarrow> string \<Rightarrow> mergeTokenPayload \<Rightarrow> User \<Rightarrow> bool" where
  "merge_for S w appID token password payload user \<longleftrightarrow>
     (\<exists>json. live (w_redis w) (app_key ''merge_token'' appID token) = Some (RStr json) \<and> payload_of S json = Some payload) \<and>
     user \<in> set (w_users w) \<and> u_ID user = mp_UserID payload \<and> u_IsActive user \<and> u_PasswordHash user \<noteq> [] \<and>
     CompareHash (ue_hash (so_user S)) (u_PasswordHash user) password"

context social_stack
begin

lemma wp_ConfirmMerge:
  assumes "no_clash social_clash (w_social w)"
  shows "wp (ConfirmMerge S appID token password ip ua) (\<lambda>x w'. \<forall>t. x = Inr t \<longrightarrow> w_users w' = w_users w \<and>
     (\<exists>payload user. merge_for S w appID token password payload user \<and>
       adds_account (merged_account appID (u_ID user) payload) w w')) w"
  unfolding ConfirmMerge_def GetMergeToken_def
proof (rule wp_bind, rule wp_rds, rule base.redis.wp_r_get, rule wp_case_sum, goal_cases)
  case (2 a r json)
  then have live: "live (w_redis w) (app_key ''merge_token'' appID token) = Some (RStr json)"
    by (auto simp: get_post_def reads_def intro: live_mono)
  show ?case
  proof (rule wp_case_option, goal_cases)
    case 1 show ?case by (rule wp_return) simp
  next
    case (2 payload)
    show ?case
    proof (rule wp_bind, rule base.wp_GetUserByID, rule wp_case_sum, goal_cases)
      case (2 a user)
      show ?case
      proof (rule wp_if, goal_cases)
        case 2
        show ?case
        proof (rule wp_if, goal_cases)
          case 2
          show ?case
          proof (rule wp_if, goal_cases)
            case 2
            have m: "merge_for S w appID token password payload user"
              using live \<open>payload_of S json = Some payload\<close> \<open>first_post _ _ a _\<close> \<open>a = Inr user\<close>
                \<open>\<not> \<not> u_IsActive user\<close> \<open>u_PasswordHash user \<noteq> []\<close> 2
              by (auto simp: merge_for_def first_post_def with_id_def)
            show ?case
            proof (rule wp_bind, rule wp_CreateSocialAccount, goal_cases)
              case (2 x w2)
              show ?case unfolding sum.case
              proof (rule wp_bind, rule wp_stable[OF keeps_social(4)], goal_cases)
                case (2 u w3)
                show ?case
                proof (rule wp_bind, rule wp_stable[OF keeps_social(6)], rule wp_stable[OF keeps_session], goal_cases)
                  case (1 _ w4 _ w5)
                  with 2 \<open>same_social _ w2\<close> \<open>adds_account _ _ w2\<close> m show ?case
                    by (force simp: same_social_def adds_account_def)
                qed
              qed (auto simp: DeleteMergeToken_def intro!: touches_ignore base.redis.touches_redis)
            qed (use assms in \<open>auto intro: wp_return\<close>)
          qed (auto intro: wp_return)
        qed (auto intro: wp_return)
      qed (auto intro: wp_return)
    qed (auto intro: wp_return)
  qed
qed (auto intro: wp_return)

end

section \<open>Unlinking\<close>

definition unlinked_one :: "string \<Rightarrow> string \<Rightarrow> string \<Rightarrow> uworld \<Rightarrow> uworld \<Rightarrow> bool" where
  "unlinked_one appID userID i w w' \<longleftrightarrow> w_social w' = delete_rows (\<lambda>a. sa_ID a = i) (w_social w) \<and>
     (\<exists>a\<in>set (w_social w). sa_ID a = i \<and> sa_UserID a = userID \<and> sa_AppID a = appID) \<and>
     (\<exists>user\<in>set (w_users w). u_ID user = userID \<and>
        (u_PasswordHash user \<noteq> [] \<or> (\<exists>a\<in>set (w_social w'). sa_UserID a = userID)))"

lemma second_account:
  assumes "no_clash social_clash rows" and "\<not> length (filter (\<lambda>a. sa_UserID a = u) rows) \<le> 1"
  shows "\<exists>a\<in>set (delete_rows (\<lambda>a. sa_ID a = i) rows). sa_UserID a = u"
proof -
  obtain x y zs where f: "filter (\<lambda>a. sa_UserID a = u) rows = x # y # zs"
    using assms(2) by (cases "filter (\<lambda>a. sa_UserID a = u) rows" rule: remdups_adj.cases) auto
  have "no_clash social_clash (x # y # zs)"
    using assms(1) sorted_wrt_filter[of _ rows "\<lambda>a. sa_UserID a = u"] by (simp add: no_clash_def f[symmetric])
  then have "sa_ID x \<noteq> sa_ID y" by (simp add: no_clash_def social_clash_def)
  moreover have "{x, y} \<subseteq> set (filter (\<lambda>a. sa_UserID a = u) rows)" by (simp add: f)
  ultimately show ?thesis by (auto simp: delete_rows_def)
qed

context social_stack
begin

lemma wp_unlink:
  assumes "no_clash social_clash (w_social w)"
  shows "wp (svc_UnlinkSocialAccount S appID userID i) (\<lambda>x w'. w_users w' = w_users w \<and>
     (w_social w' = w_social w \<and> x \<noteq> None \<or> unlinked_one appID userID i w w')) w"
  unfolding svc_UnlinkSocialAccount_def
proof (rule wp_bind, rule wp_account_by_id, rule wp_case_sum, goal_cases)
  case (2 x account)
  show ?case
  proof (rule wp_if, goal_cases)
    case 2
    then have row: "\<exists>a\<in>set (w_social w). sa_ID a = i \<and> sa_UserID a = userID \<and> sa_AppID a = appID"
      using \<open>first_post _ _ x _\<close> \<open>x = Inr account\<close> by (auto simp: first_post_def)
    show ?case
    proof (rule wp_bind, rule base.wp_GetUserByID, rule wp_case_sum, goal_cases)
      case (2 y user)
      then have user: "user \<in> set (w_users w)" "u_ID user = userID" by (auto simp: first_post_def with_id_def)
      have count: "wp (if u_PasswordHash user \<noteq> [] then ret None else do {
         res \<leftarrow> CountSocialAccountsByUserID S userID;
         ret (case res of Inl e \<Rightarrow> Some (internal ''Failed to count linked accounts'')
           | Inr count \<Rightarrow> if count \<le> 1 then Some (bad_request (''Cannot unlink the only social account. '' @
               ''Please set a password first to maintain account access.'')) else None) })
        (\<lambda>x w'. w' = w \<and> (x = None \<longrightarrow> u_PasswordHash user \<noteq> [] \<or> \<not> length (filter (\<lambda>a. sa_UserID a = userID) (w_social w)) \<le> 1)) w"
        unfolding CountSocialAccountsByUserID_def
        by (rule wp_if, rule wp_return, simp, rule wp_bind, rule wp_lifts(12), rule wpI, drule accounts.count, rule wp_return)
           (auto split: sum.splits if_splits)
      show ?case
      proof (rule wp_bind, rule wp_mono[OF count], elim conjE, hypsubst, rule wp_case_option, goal_cases)
        case (1 z)
        then have stays: "u_PasswordHash user \<noteq> [] \<or>
            (\<exists>a\<in>set (delete_rows (\<lambda>a. sa_ID a = i) (w_social w)). sa_UserID a = userID)"
          using second_account[OF assms] by blast
        show ?case unfolding DeleteSocialAccount_def
        proof (rule wp_bind, rule wp_lifts(12), rule accounts.wp_t_delete, rule wp_case_option, goal_cases)
          case (1 e rows)
          have "unlinked_one appID userID i w (w\<lparr>w_social := rows\<rparr>)"
            using row user stays applied_postD[OF 1(1)[unfolded 1(2)]] by (auto simp: unlinked_one_def)
          then show ?case
            by (intro wp_bind wp_stable[OF keeps_social(6)] wp_return) (auto simp: same_social_def unlinked_one_def)
        next
          case (2 e rows v)
          show ?case
          proof (rule wp_return, cases "rows = w_social w")
            case False
            with 2 have "rows = delete_rows (\<lambda>a. sa_ID a = i) (w_social w)" by (simp add: applied_post_def)
            with row user stays show "w_users (w\<lparr>w_social := rows\<rparr>) = w_users w \<and> (w_social (w\<lparr>w_social := rows\<rparr>) = w_social w \<and>
              Some (internal ''Failed to unlink social account'') \<noteq> None \<or> unlinked_one appID userID i w (w\<lparr>w_social := rows\<rparr>))"
              by (auto simp: unlinked_one_def)
          qed simp
        qed
      qed (auto intro: wp_return)
    qed (auto intro: wp_return)
  qed (auto intro: wp_return)
qed (auto intro: wp_return)

end

section \<open>Login\<close>

text \<open>
  What a login must not touch: who a row of the users is, the password and the second factor; and whom an
  account is linked to.
\<close>

definition credentials :: "User \<Rightarrow> User" where
  "credentials u = u\<lparr>u_Name := [], u_FirstName := [], u_LastName := [], u_ProfilePicture := [], u_Locale := [], u_EmailVerified := False\<rparr>"

definition link_of :: "SocialAccount \<Rightarrow> string \<times> string \<times> string \<times> string \<times> string" where
  "link_of a = (sa_ID a, sa_AppID a, sa_UserID a, sa_Provider a, sa_ProviderUserID a)"

definition keeps_credentials :: "uworld \<Rightarrow> uworld \<Rightarrow> bool" where
  "keeps_credentials w w' \<longleftrightarrow> map credentials (w_users w') = map credentials (w_users w) \<and>
     map link_of (w_social w') = map link_of (w_social w)"

definition logs_in_linked :: "string \<Rightarrow> string \<Rightarrow> profile \<Rightarrow> uworld \<Rightarrow> SocialLoginResult \<Rightarrow> uworld \<Rightarrow> bool" where
  "logs_in_linked appID provider p w r w' \<longleftrightarrow> keeps_credentials w w' \<and>
     (\<exists>a\<in>set (w_social w). same_identity appID provider (pf_ID p) a \<and> sl_UserID r = sa_UserID a)"

definition logs_in_new :: "string \<Rightarrow> string \<Rightarrow> profile \<Rightarrow> string \<Rightarrow> uworld \<Rightarrow> SocialLoginResult \<Rightarrow> uworld \<Rightarrow> bool" where
  "logs_in_new appID provider p token w r w' \<longleftrightarrow> \<not> (\<exists>u\<in>set (w_users w). with_email appID (pf_Email p) u) \<and>
     w_users w' = w_users w @ [with_defaults (sl_UserID r) (social_new_user appID p)] \<and>
     adds_account (social_account appID (sl_UserID r) provider p token) w w'"

definition offers_merge :: "social_env \<Rightarrow> string \<Rightarrow> string \<Rightarrow> profile \<Rightarrow> uworld \<Rightarrow> SocialLoginResult \<Rightarrow> uworld \<Rightarrow> bool" where
  "offers_merge S appID provider p w r w' \<longleftrightarrow> w_users w' = w_users w \<and> w_social w' = w_social w \<and>
     (\<exists>user\<in>set (w_users w). with_email appID (pf_Email p) user \<and> u_IsActive user \<and>
        (\<exists>payload. mp_UserID payload = u_ID user \<and> mp_Provider payload = provider \<and> mp_ProviderUserID payload = pf_ID p \<and>
           rdata (w_redis w') (app_key ''merge_token'' appID (MergeToken r)) =
             Some (RStr (payload_json S payload), Some (rnow (w_redis w') + MergeTokenTTL))))"

definition social_login_done :: "social_env \<Rightarrow> string \<Rightarrow> string \<Rightarrow> profile \<Rightarrow> string \<Rightarrow> uworld \<Rightarrow> SocialLoginResult \<Rightarrow> uworld \<Rightarrow> bool" where
  "social_login_done S appID provider p token w r w' \<longleftrightarrow>
     (if RequiresMerge r then sl_UserID r = [] \<and> offers_merge S appID provider p w r w'
      else logs_in_linked appID provider p w r w' \<or> logs_in_new appID provider p token w r w')"

lemma credentials_synced: "credentials (synced_user p u) = credentials u"
  by (simp add: credentials_def synced_user_def)

lemma map_update_rows: "(\<And>x. x \<in> set rows \<Longrightarrow> q x \<Longrightarrow> g (f x) = g x) \<Longrightarrow> map g (update_rows q f rows) = map g rows"
  by (auto simp: update_rows_def)

context social_stack
begin

lemma wp_UpdateSocialAccount:
  assumes "no_clash social_clash (w_social w)" and "a \<in> set (w_social w)" and "link_of a' = link_of a"
    and "\<And>x w'. w_users w' = w_users w \<Longrightarrow> map link_of (w_social w') = map link_of (w_social w) \<Longrightarrow> Q x w'"
  shows "wp (UpdateSocialAccount S a') Q w"
proof -
  have "x = a" if "x \<in> set (w_social w)" "sa_ID x = sa_ID a" for x
    by (rule clash_unique[OF assms(1) that(1) assms(2)]) (use that in \<open>auto simp: social_clash_def\<close>)
  then have u: "map link_of (update_rows (\<lambda>x. sa_ID x = sa_ID a') (\<lambda>_. a') (w_social w)) = map link_of (w_social w)"
    using assms(3) by (intro map_update_rows) (auto simp: link_of_def)
  have "list_ex (\<lambda>x. sa_ID x = sa_ID a') (w_social w)" using assms(2,3) by (auto simp: list_ex_iff link_of_def)
  then show ?thesis unfolding UpdateSocialAccount_def
    by (auto intro!: wp_lifts wp_bind wp_get accounts.wp_t_update assms(4) simp: applied_post_def u)
qed

lemma wp_UpdateUser_synced:
  assumes "no_clash user_clash (w_users w)" and "u \<in> set (w_users w)"
    and "\<And>x w'. w_social w' = w_social w \<Longrightarrow> map credentials (w_users w') = map credentials (w_users w) \<Longrightarrow> Q x w'"
  shows "wp (usr (UpdateUser (so_users S) (synced_user p u))) Q w"
proof -
  have i: "u_ID (synced_user p u) = u_ID u" by (simp add: synced_user_def)
  have "x = u" if "x \<in> set (w_users w)" "u_ID x = u_ID u" for x
    using unique_id[OF assms(1) that(1) assms(2) that(2)] .
  then have m: "map credentials (update_rows (with_id (u_ID u)) (\<lambda>_. synced_user p u) (w_users w)) = map credentials (w_users w)"
    by (intro map_update_rows) (auto simp: with_id_def credentials_synced)
  have "list_ex (with_id (u_ID u)) (w_users w)" using assms(2) by (auto simp: list_ex_iff with_id_def)
  then show ?thesis unfolding UpdateUser_def i
    by (auto intro!: wp_lifts wp_bind wp_get base.users.wp_t_update assms(3) simp: applied_post_def m)
qed

lemma wp_known_account:
  assumes "no_clash social_clash (w_social w)" and "no_clash user_clash (w_users w)" and "a \<in> set (w_social w)" and "link_of a' = link_of a"
  shows "wp (known_account S p a') (\<lambda>x w'. \<forall>r. x = Inr r \<longrightarrow> \<not> RequiresMerge r \<and> sl_UserID r = sa_UserID a \<and> keeps_credentials w w') w"
  unfolding known_account_def
proof (rule wp_bind, rule wp_UpdateSocialAccount[OF assms(1,3,4)], rule wp_case_option, goal_cases)
  case (1 x w1)
  have u: "sa_UserID a' = sa_UserID a" using assms(4) by (simp add: link_of_def)
  show ?case unfolding Let_def
  proof (rule wp_bind, rule base.wp_GetUserByID, rule wp_case_sum, goal_cases)
    case (2 y user)
    then have user: "user \<in> set (w_users w1)" by (simp add: first_post_def)
    have unique: "no_clash user_clash (w_users w1)" using assms(2) 1 by simp
    show ?case
      by (intro wp_if wp_return wp_bind wp_UpdateUser_synced[OF unique user]) (use 1 u in \<open>auto simp: keeps_credentials_def\<close>)
  qed (use 1 u in \<open>auto simp: keeps_credentials_def intro: wp_return\<close>)
qed (auto intro: wp_return)

lemma wp_createMergeToken:
  "wp (createMergeToken S appID userID provider p token) (\<lambda>x w'. \<forall>t. x = Inr t \<longrightarrow> w_users w' = w_users w \<and> w_social w' = w_social w \<and>
     (\<exists>payload. mp_UserID payload = userID \<and> mp_Provider payload = provider \<and> mp_ProviderUserID payload = pf_ID p \<and>
        rdata (w_redis w') (app_key ''merge_token'' appID t) =
          Some (RStr (payload_json S payload), Some (rnow (w_redis w') + MergeTokenTTL)))) w"
  unfolding createMergeToken_def new_uuid_def SetMergeToken_def Let_def
  by (rule wp_bind, rule wp_draw, rule wp_bind, rule wp_rds, rule base.redis.wp_r_set, rule wp_return)
     (auto simp: set_post_def expiry_after_def MergeTokenTTL_def split: option.splits
      intro!: exI[where x = "\<lparr>mp_UserID = userID, mp_Provider = provider, mp_ProviderUserID = pf_ID p, mp_Email = pf_Email p,
       mp_Name = pf_Name p, mp_FirstName = pf_FirstName p, mp_LastName = pf_LastName p, mp_ProfilePicture = pf_Picture p,
       mp_Username = pf_Username p, mp_Locale = pf_Locale p, mp_RawData = pf_Raw p, mp_AccessToken = token\<rparr>"])

lemma wp_social_login:
  assumes "no_clash social_clash (w_social w)" and "no_clash user_clash (w_users w)"
    and "\<And>a. link_of (refresh p token a) = link_of a"
  shows "wp (social_login S appID provider refresh p token) (\<lambda>x w'. \<forall>r. x = Inr r \<longrightarrow> social_login_done S appID provider p token w r w') w"
  unfolding social_login_def
proof (rule wp_bind, rule wp_first_account, rule wp_case_sum, goal_cases)
  case (2 x a)
  then have a: "a \<in> set (w_social w)" "same_identity appID provider (pf_ID p) a" by (auto simp: first_post_def)
  show ?case
    by (rule wp_mono[OF wp_known_account[OF assms(1,2) a(1) assms(3)]])
       (use a in \<open>auto simp: social_login_done_def logs_in_linked_def\<close>)
next
  case 1
  show ?case
  proof (rule wp_bind, rule base.wp_GetUserByEmail, rule wp_case_sum, goal_cases)
    case (2 x user)
    then have user: "user \<in> set (w_users w)" "with_email appID (pf_Email p) user" by (auto simp: first_post_def)
    show ?case
    proof (rule wp_if, rule wp_return, simp, rule wp_bind, rule wp_mono[OF wp_createMergeToken], rule wp_return, goal_cases)
      case (1 y w1)
      then show ?case
        using user by (cases y) (auto simp: social_login_done_def offers_merge_def)
    qed
  next
    case 1
    show ?case unfolding new_uuid_def CreateUser_def Let_def
    proof (rule wp_bind, rule wp_draw, rule wp_bind, rule wp_lifts(1), rule wp_bind, rule wpI, rule wp_return, rule wp_case_sum, goal_cases)
      case (2 e rows newUser)
      let ?u = "with_defaults (ue_uuid (so_user S) (w_rand w)) (social_new_user appID p)"
      let ?w1 = "w\<lparr>w_rand := Suc (w_rand w), w_users := rows\<rparr>"
      have new: "e = None" "newUser = ?u" using 2(2) by (auto split: option.splits)
      have rows: "rows = w_users w @ [?u]" "no_clash user_clash rows"
        using base.users.create[OF 2(1)] base.users.create_unique[OF 2(1)] assms(2) new(1) by (auto dest: applied_postD)
      then have none: "\<not> (\<exists>u\<in>set (w_users w). with_email appID (pf_Email p) u)"
        by (auto simp: no_clash_def sorted_wrt_append user_clash_def with_email_def social_new_user_def with_defaults_def)
      show ?case
      proof (rule wp_bind, rule wp_stable[where P = same_social], goal_cases)
        case 1 show ?case unfolding social_assignDefaultRole_def
          by (cases "AssignDefaultRole (so_user S)") (auto intro!: same_social.stable_intro assign_social)
      next
        case (2 _ w2)
        then have w2: "w_social w2 = w_social w" "w_users w2 = rows" by (simp_all add: same_social_def)
        show ?case
        proof (rule wp_bind, rule wp_CreateSocialAccount, goal_cases)
          case (2 r w3)
          then show ?case
            using none rows(1) new w2
            by (intro wp_return) (auto simp: social_login_done_def logs_in_new_def same_social_def adds_account_def with_defaults_def)
        qed (use assms w2 in \<open>auto intro: wp_return\<close>)
      qed
    qed (auto intro: wp_return)
  qed
qed

end

section \<open>The three providers\<close>

text \<open>Who is asked, and the service method that its login calls.\<close>

definition providers :: "social_env \<Rightarrow> (string \<times> (string \<Rightarrow> (uworld, app_error + profile) state) \<times>
    (string \<Rightarrow> string \<Rightarrow> (uworld, app_error + SocialLoginResult) state)) list" where
  "providers S = [(''google'', google_profile S, HandleGoogleCallback S),
     (''facebook'', facebook_profile S, HandleFacebookCallback S), (''github'', github_profile S, HandleGithubCallback S)]"

text \<open>Steps that only draw, or read the clock; and those that leave applications and devices alone.\<close>

definition quiet :: "uworld \<Rightarrow> uworld \<Rightarrow> bool" where
  "quiet w w' \<longleftrightarrow> (\<exists>r n. w' = w\<lparr>w_redis := r, w_rand := n\<rparr> \<and> rnow (w_redis w) \<le> rnow r)"

interpretation quiet: frame quiet
proof
  fix s show "quiet s s" unfolding quiet_def by (intro exI[of _ "w_redis s"] exI[of _ "w_rand s"]) simp
next
  fix s t u assume "quiet s t" "quiet t u"
  then obtain r n r' n' where "t = s\<lparr>w_redis := r, w_rand := n\<rparr>" "rnow (w_redis s) \<le> rnow r"
    "u = t\<lparr>w_redis := r', w_rand := n'\<rparr>" "rnow (w_redis t) \<le> rnow r'" unfolding quiet_def by blast
  then show "quiet s u" unfolding quiet_def by (intro exI[of _ r'] exI[of _ n']) simp
qed

definition same_config :: "uworld \<Rightarrow> uworld \<Rightarrow> bool" where
  "same_config w w' \<longleftrightarrow> w_apps w' = w_apps w \<and> w_devices w' = w_devices w \<and> rnow (w_redis w) \<le> rnow (w_redis w')"

interpretation same_config: frame same_config
  by unfold_locales (auto simp: same_config_def)

lemma quiet_draw: "stable quiet (draw f)"
  unfolding stable_def wp_def quiet_def by (auto intro!: exI[of _ "w_redis _"])

lemma keeps_config:
  "stable same_config (usr m1)" "stable same_config (social_of m2)" "stable same_config (draw f)" "stable same_config (new_uuid V)"
  "touches UNIV m3 \<Longrightarrow> stable same_config (rds m3)" "stable role_frame m4 \<Longrightarrow> stable same_config m4"
  by (auto simp: stable_def wp_def same_config_def role_frame_def touches_def writes_def new_uuid_def split: prod.splits)

lemma quiet_profiles: "(pr, profile_of, handle) \<in> set (providers S) \<Longrightarrow> stable quiet (profile_of token)"
proof -
  have "stable quiet (google_profile S token)" "stable quiet (facebook_profile S token)" "stable quiet (github_address S token)"
    unfolding google_profile_def facebook_profile_def github_address_def by (intro quiet.stable_intro quiet_draw)+
  moreover have "stable quiet (github_profile S token)"
    unfolding github_profile_def
    by (intro quiet.stable_bind quiet_draw) (auto intro!: quiet.stable_intro calculation split: fetched.split option.split)
  moreover assume "(pr, profile_of, handle) \<in> set (providers S)"
  ultimately show ?thesis by (auto simp: providers_def)
qed

lemma social_login_done_quiet:
  "quiet w w1 \<Longrightarrow> social_login_done S appID provider p token w1 r w' = social_login_done S appID provider p token w r w'"
  unfolding quiet_def
  by (elim exE conjE) (simp add: social_login_done_def offers_merge_def logs_in_linked_def logs_in_new_def keeps_credentials_def adds_account_def)

lemma link_of_refreshed: "link_of (refreshed_account p t a) = link_of a" "link_of (refreshed_github_account p t a) = link_of a"
  by (simp_all add: link_of_def refreshed_account_def refreshed_github_account_def)

context social_stack
begin

lemma wp_profile_login:
  assumes "(provider, profile_of, handle) \<in> set (providers S)"
    and "no_clash social_clash (w_social w)" and "no_clash user_clash (w_users w)"
    and "\<And>p a. link_of (refresh p token a) = link_of a"
  shows "wp (profile_of token \<bind> (\<lambda>res. case res of Inl e \<Rightarrow> ret (Inl e)
       | Inr p \<Rightarrow> if bad p then ret (Inl err) else social_login S appID provider refresh p token))
     (\<lambda>x w'. \<forall>r. x = Inr r \<longrightarrow> (\<exists>p. fst (run_state (profile_of token) w) = Inr p \<and>
        social_login_done S appID provider p token w r w')) w"
proof (rule wp_bind, rule wp_mono[OF wp_conj[OF wp_result wp_stable[OF quiet_profiles[OF assms(1)]]]], assumption, elim conjE, rule wp_case_sum, goal_cases)
  case (2 x w1 p)
  have "no_clash social_clash (w_social w1)" "no_clash user_clash (w_users w1)" using 2 assms(2,3) by (auto simp: quiet_def)
  from wp_social_login[where refresh = refresh, OF this assms(4)] 2 show ?case
    by (auto intro!: wp_if wp_return elim!: wp_mono simp: social_login_done_quiet)
qed (auto intro: wp_return)

lemma wp_provider_login:
  assumes "(provider, profile_of, handle) \<in> set (providers S)"
    and "no_clash social_clash (w_social w)" and "no_clash user_clash (w_users w)"
  shows "wp (handle appID token) (\<lambda>x w'. \<forall>r. x = Inr r \<longrightarrow> (\<exists>p. fst (run_state (profile_of token) w) = Inr p \<and>
     social_login_done S appID provider p token w r w')) w"
proof -
  consider "provider = ''google''" "profile_of = google_profile S" "handle = HandleGoogleCallback S"
    | "provider = ''facebook''" "profile_of = facebook_profile S" "handle = HandleFacebookCallback S"
    | "provider = ''github''" "profile_of = github_profile S" "handle = HandleGithubCallback S"
    using assms(1) by (auto simp: providers_def)
  then show ?thesis
  proof cases
    case 1
    show ?thesis
      using wp_profile_login[where refresh = refreshed_account and token = token and appID = appID and bad = "\<lambda>_. False", OF assms link_of_refreshed(1)]
      unfolding 1 HandleGoogleCallback_def if_False .
  next
    case 2
    show ?thesis
      using wp_profile_login[where refresh = refreshed_account and token = token and appID = appID and bad = "\<lambda>_. False", OF assms link_of_refreshed(1)]
      unfolding 2 HandleFacebookCallback_def if_False .
  next
    case 3
    show ?thesis
      using wp_profile_login[where refresh = refreshed_github_account and token = token and appID = appID and bad = "\<lambda>p. pf_Email p = []", OF assms link_of_refreshed(2)]
      unfolding 3 HandleGithubCallback_def .
  qed
qed

lemma config_login: "stable same_config (social_login S appID provider refresh p token)"
proof -
  have r: "stable same_config (social_assignDefaultRole S a u)" for a u
    unfolding social_assignDefaultRole_def
    by (cases "AssignDefaultRole (so_user S)")
       (auto intro!: same_config.stable_bind same_config.stable_return keeps_config(6)[OF base.assign_role])
  have k: "stable same_config (known_account S p a)" for a
    unfolding known_account_def UpdateSocialAccount_def by (intro same_config.stable_intro keeps_config(1-5))
  show ?thesis
    unfolding social_login_def GetSocialAccountByProviderAndUserID_def createMergeToken_def SetMergeToken_def CreateSocialAccount_def
    by (intro same_config.stable_intro keeps_config(1-5) r k touches_intro base.redis.touches_redis) simp_all
qed

lemma config_handle:
  assumes "(provider, profile_of, handle) \<in> set (providers S)"
  shows "stable same_config (handle appID token)"
proof -
  have "stable same_config (profile_of token)"
    by (rule stable_mono[OF quiet_profiles[OF assms]]) (auto simp: quiet_def same_config_def)
  with assms show ?thesis
    by (auto simp: providers_def HandleGoogleCallback_def HandleFacebookCallback_def HandleGithubCallback_def
        intro!: same_config.stable_intro config_login)
qed

end

section \<open>Back at the frontend\<close>

definition back_to :: "social_env \<Rightarrow> http_ctx \<Rightarrow> uworld \<Rightarrow> string \<Rightarrow> bool" where
  "back_to S c w uri \<longleftrightarrow> IsAllowedRedirectURI S uri \<and>
     (\<exists>st. decode_state S (Query c ''state'') = Inr st \<and> st_RedirectURI st = uri \<and> rnow (w_redis w) - st_Timestamp st \<le> hour)"

text \<open>A redirect goes where the state says, as long as that is allowed; an error without a state goes to the default.\<close>

definition redirects_well :: "social_env \<Rightarrow> http_ctx \<Rightarrow> uworld \<Rightarrow> 'a social_reply \<Rightarrow> bool" where
  "redirects_well S c w x \<longleftrightarrow> (\<forall>uri q. x = SBack uri q \<longrightarrow>
     back_to S c w uri \<or> uri = GetDefaultRedirectURI S \<and> (\<exists>e. q = [(''error'', e)]))"

lemma wp_with_state:
  assumes "\<And>x. (\<forall>uri q. x = SBack uri q \<longrightarrow> uri = GetDefaultRedirectURI S \<and> (\<exists>e. q = [(''error'', e)])) \<Longrightarrow> \<forall>w'. Q x w'"
    and "\<And>st w'. back_to S c w (st_RedirectURI st) \<Longrightarrow> quiet w w' \<Longrightarrow> wp (body st) Q w'"
  shows "wp (with_state S c body) Q w"
  unfolding with_state_def ParseOAuthState_def
proof (rule wp_if, goal_cases)
  case 2
  show ?case
  proof (rule wp_bind, rule wp_rds, cases "decode_state S (Query c ''state'')", goal_cases)
    case (2 st)
    show ?case unfolding 2 sum.case
    proof (rule wp_bind, rule wp_time_now, rule wp_return, goal_cases)
      case 1
      show ?case
      proof (rule wp_case_sum, goal_cases)
        case (2 st')
        then show ?case
          using \<open>decode_state S _ = Inr st\<close>
          by (intro assms(2)) (auto simp: back_to_def quiet.refl split: if_splits)
      qed (auto intro!: wp_return assms(1)[rule_format])
    qed
  qed (auto intro!: wp_return assms(1)[rule_format])
qed (auto intro!: wp_return assms(1)[rule_format])

text \<open>What stands behind tokens that a callback hands to the frontend.\<close>

definition factor_met :: "social_env \<Rightarrow> http_ctx \<Rightarrow> uworld \<Rightarrow> string \<Rightarrow> User \<Rightarrow> bool" where
  "factor_met S c w appID user \<longleftrightarrow> (u_TwoFAEnabled user \<longrightarrow> (\<exists>a\<in>set (w_apps w). a_ID a = appID \<and> \<not> a_TwoFAEnabled a) \<or>
     (\<exists>t. rnow (w_redis w) \<le> t \<and> trusts (so_handler S) c w t appID (u_ID user)))"

definition tokens_earned :: "social_env \<Rightarrow> http_ctx \<Rightarrow> string \<Rightarrow> uworld \<Rightarrow> uworld \<Rightarrow> bool" where
  "tokens_earned S c provider w w' \<longleftrightarrow> (\<exists>appID token p r w1. \<exists>user\<in>set (w_users w'). social_login_done S appID provider p token w r w1 \<and>
     \<not> RequiresMerge r \<and> u_ID user = sl_UserID r \<and> factor_met S c w appID user)"

definition callback_post :: "social_env \<Rightarrow> http_ctx \<Rightarrow> string \<Rightarrow> uworld \<Rightarrow> unit social_reply \<Rightarrow> uworld \<Rightarrow> bool" where
  "callback_post S c provider w x w' \<longleftrightarrow> redirects_well S c w x \<and>
     (\<forall>uri q. x = SBack uri q \<and> ''access_token'' \<in> fst ` set q \<longrightarrow> tokens_earned S c provider w w')"

lemma callback_post_error:
  "back_to S c w uri \<Longrightarrow> callback_post S c provider w (back_error uri e) w'" "callback_post S c provider w (SReply y) w'"
  by (simp_all add: callback_post_def redirects_well_def)

context social_stack
begin

lemma wp_second_step:
  "back_to S c w uri \<Longrightarrow> wp (social_second_step S provider uri appID user) (callback_post S c provider w) w1"
  unfolding social_second_step_def
  by (rule wp_bind, rule wp_any, rule wp_bind, rule wp_any, rule wp_case_option, rule wp_Let, rule wp_bind, rule wp_any, rule wp_bind,
      rule wp_any, rule wp_return, simp add: callback_post_def redirects_well_def, rule wp_return, rule callback_post_error)

lemma wp_finish_login:
  assumes "back_to S c w uri"
    and "\<And>w'. same_social w1 w' \<Longrightarrow> tokens_earned S c provider w w'"
  shows "wp (finish_login S provider uri appID userID ip ua) (callback_post S c provider w) w1"
  unfolding finish_login_def
proof (rule wp_bind, goal_cases)
  case 1
  have ip: "stable same_social (checkIPAccessRedirect S appID ip)"
    unfolding checkIPAccessRedirect_def checkIPAccess_def
    by (cases "he_ip_rules (so_handler S)") (auto simp: stable_def same_social.refl intro!: wp_bind wp_get wp_return)
  show ?case
  proof (rule wp_stable[OF ip], rule wp_if, goal_cases)
    case (2 x w2)
    show ?case
    proof (rule wp_bind, rule wp_stable[OF keeps_session], rule wp_return, goal_cases)
      case (1 y w3)
      have "tokens_earned S c provider w w3" using assms(2) same_social.trans[OF 2(1) 1] .
      then show ?case using assms(1) by (cases y) (auto simp: callback_post_error callback_post_def redirects_well_def)
    qed
  qed (use assms(1) in \<open>auto intro!: wp_return callback_post_error\<close>)
qed

lemma wp_trusted_here:
  "wp (trusted_here S c appID user) (\<lambda>ok w'. w_users w' = w_users w \<and>
     (ok \<longrightarrow> trusts (so_handler S) c w (rnow (w_redis w)) appID (u_ID user))) w"
proof -
  have v: "wp (ValidateTrustedDevice (he_twofa (so_handler S)) token) (\<lambda>_ w'. w_users w' = w_users w) w" for token w
  proof -
    have "stable same_users (ValidateTrustedDevice (he_twofa (so_handler S)) token)"
      unfolding ValidateTrustedDevice_def TouchLastUsed_def
      by (intro same_users.stable_intro stable_lifts touches_state)
    then show ?thesis by (rule wp_stable) (simp add: same_users_def)
  qed
  show ?thesis unfolding trusted_here_def
    by (intro wp_if wp_case_option wp_return wp_bind wp_mono[OF wp_conj[OF v base.wp_ValidateTrustedDevice]])
       (auto simp: trusts_def split: sum.splits)
qed

lemma wp_with_code:
  "back_to S c w (st_RedirectURI st) \<Longrightarrow> (\<And>k. wp (body k) (callback_post S c provider w) w1) \<Longrightarrow>
   wp (with_code c st body) (callback_post S c provider w) w1"
  unfolding with_code_def by (auto intro!: wp_return callback_post_error)

lemma wp_callback_app:
  assumes "back_to S c w (st_RedirectURI st)" and "\<And>a. wp (body a) (callback_post S c provider w) w1"
  shows "wp (callback_app S c st body) (callback_post S c provider w) w1" "wp (state_app S st body) (callback_post S c provider w) w1"
proof -
  show s: "wp (state_app S st body) (callback_post S c provider w) w1"
    unfolding state_app_def using assms by (auto intro!: wp_if wp_return wp_case_option callback_post_error)
  show "wp (callback_app S c st body) (callback_post S c provider w) w1"
    unfolding callback_app_def using s assms by (auto intro!: wp_return callback_post_error split: option.split ctx_val.split)
qed

lemma wp_with_token:
  assumes "back_to S c w (st_RedirectURI st)" and "\<And>a. stable quiet (getConfig S a)"
    and "\<And>t w2. quiet w1 w2 \<Longrightarrow> wp (body t) (callback_post S c provider w) w2"
  shows "wp (with_token S getConfig st appID code body) (callback_post S c provider w) w1"
  unfolding with_token_def
proof (rule wp_bind, rule wp_stable[OF assms(2)], rule wp_case_option, goal_cases)
  case (2 a w2)
  show ?case
    by (rule wp_bind, rule wp_stable[OF quiet_draw], rule wp_case_sum)
       (use assms(1) in \<open>auto intro!: wp_return callback_post_error assms(3) quiet.trans[OF 2(1)]\<close>)
qed (use assms(1) in \<open>auto intro!: wp_return callback_post_error\<close>)

lemma wp_social_callback:
  assumes "(provider, profile_of, handle) \<in> set (providers S)" and "\<And>a. stable quiet (getConfig S a)"
    and "no_clash social_clash (w_social w)" and "no_clash user_clash (w_users w)"
  shows "wp (social_callback S getConfig provider (\<lambda>_. handle) c) (callback_post S c provider w) w"
  unfolding social_callback_def
proof (rule wp_with_state, goal_cases)
  case (2 st w1)
  note b = 2(1)
  show ?case
  proof (rule wp_with_code[OF b], rule wp_callback_app(1)[OF b], rule wp_with_token[where getConfig = getConfig, OF b assms(2)], goal_cases)
    case (1 code appID token w2)
    have q: "quiet w w2" by (rule quiet.trans[OF 2(2) 1])
    then have "no_clash social_clash (w_social w2)" "no_clash user_clash (w_users w2)" using assms(3,4) by (auto simp: quiet_def)
    note handle = wp_conj[OF wp_provider_login[OF assms(1) this] wp_stable[OF config_handle[OF assms(1)]]]
    show ?case unfolding Let_def
    proof (rule wp_bind, rule wp_mono[OF handle], assumption, elim conjE, rule wp_case_sum, goal_cases)
      case (2 x w3 r)
      show ?case
      proof (rule wp_if, goal_cases)
        case 1 show ?case
          by (rule wp_return) (use b in \<open>simp add: callback_post_def redirects_well_def\<close>)
      next
        case 2
        obtain p where p: "social_login_done S appID provider p token w r w3"
          using \<open>\<forall>r. x = Inr r \<longrightarrow> _ r\<close> \<open>x = Inr r\<close> q by (auto simp: social_login_done_quiet)
        have config: "w_apps w3 = w_apps w" "w_devices w3 = w_devices w" "rnow (w_redis w) \<le> rnow (w_redis w3)"
          using q \<open>same_config w2 w3\<close> by (auto simp: quiet_def same_config_def)
        show ?case
        proof (rule wp_bind, rule base.wp_GetUserByID, rule wp_case_sum, goal_cases)
          case (2 y user)
          then have user: "user \<in> set (w_users w3)" "u_ID user = sl_UserID r" by (auto simp: first_post_def with_id_def)
          have needed: "wp (if u_TwoFAEnabled user then IsAppTwoFAEnabled S appID else ret False)
            (\<lambda>n w'. w' = w3 \<and> (\<not> n \<longrightarrow> u_TwoFAEnabled user \<longrightarrow> (\<exists>a\<in>set (w_apps w3). a_ID a = appID \<and> \<not> a_TwoFAEnabled a))) w3"
            unfolding IsAppTwoFAEnabled_def
            by (intro wp_if wp_return wp_bind base.wp_load_app) (auto simp: loaded_def split: option.splits)
          obtain ip ua where info: "GetClientInfo c = (ip, ua)" by (cases "GetClientInfo c")
          show ?case unfolding info prod.case
          proof (rule wp_bind, rule wp_mono[OF needed], elim conjE, hypsubst, goal_cases)
            case (1 n)
            have trusted: "wp (if n then trusted_here S c appID user else ret False) (\<lambda>t w'. w_users w' = w_users w3 \<and>
                (t \<longrightarrow> trusts (so_handler S) c w3 (rnow (w_redis w3)) appID (u_ID user))) w3"
              by (intro wp_if wp_return wp_trusted_here) simp
            show ?case
            proof (rule wp_bind, rule wp_mono[OF trusted], elim conjE, rule wp_if, goal_cases)
              case (2 t w4)
              then have "factor_met S c w appID user"
                using 1 config by (fastforce simp: factor_met_def trusts_def)
              with p user 2 \<open>\<not> RequiresMerge r\<close> show ?case
                by (intro wp_finish_login[OF b]) (fastforce simp: tokens_earned_def same_social_def)
            qed (rule wp_second_step[OF b])
          qed
        qed (use b in \<open>auto intro!: wp_return callback_post_error\<close>)
      qed
    qed (use b in \<open>auto intro!: wp_return callback_post_error\<close>)
  qed
qed (auto simp: callback_post_def redirects_well_def)

lemma quiet_config: "stable quiet (get_config S pr a)"
proof -
  have "stable quiet (GetOAuthProviderConfig S a pr)"
    unfolding GetOAuthProviderConfig_def stable_def by (intro allI wp_lifts provider_rows.wp_t_first) (simp add: quiet.refl)
  then show ?thesis unfolding get_config_def by (intro quiet.stable_intro)
qed

end

text \<open>The callbacks of the three providers.\<close>

definition callbacks :: "social_env \<Rightarrow> (string \<times> (http_ctx \<Rightarrow> (uworld, unit social_reply) state)) list" where
  "callbacks S = [(''google'', GoogleCallback S), (''facebook'', FacebookCallback S), (''github'', GithubCallback S)]"

context social_stack
begin

lemma wp_callback:
  assumes "(provider, callback) \<in> set (callbacks S)" and "no_clash social_clash (w_social w)" and "no_clash user_clash (w_users w)"
  shows "wp (callback c) (callback_post S c provider w) w"
proof -
  have q: "stable quiet (getGoogleConfig S a)" "stable quiet (getFacebookConfig S a)" "stable quiet (getGithubConfig S a)" for a
    unfolding getGoogleConfig_def getFacebookConfig_def getGithubConfig_def by (rule quiet_config)+
  have p: "(''google'', google_profile S, HandleGoogleCallback S) \<in> set (providers S)"
    "(''facebook'', facebook_profile S, HandleFacebookCallback S) \<in> set (providers S)"
    "(''github'', github_profile S, HandleGithubCallback S) \<in> set (providers S)" by (simp_all add: providers_def)
  show ?thesis
    using assms(1) wp_social_callback[where c = c and getConfig = getGoogleConfig, OF p(1) q(1) assms(2,3)]
      wp_social_callback[where c = c and getConfig = getFacebookConfig, OF p(2) q(2) assms(2,3)]
      wp_social_callback[where c = c and getConfig = getGithubConfig, OF p(3) q(3) assms(2,3)]
    by (auto simp: callbacks_def GoogleCallback_def FacebookCallback_def GithubCallback_def social_callback_def)
qed

end

end
