(* ===== verification/SocialSpec.thy ===== *)
theory SocialSpec
  imports SocialProofs
begin

text \<open>
  Properties of logins through other providers, of the tokens a callback hands to the frontend, of
  merging and of unlinking, on a demonstration stack with a Google account.
\<close>

section \<open>A demonstration\<close>

definition demo_google :: GoogleUser where
  "demo_google = \<lparr>gu_ID = ''g1'', gu_Email = ''u@x'', VerifiedEmail = True, gu_Name = ''U'', GivenName = [], FamilyName = [],
     gu_Picture = [], gu_Locale = []\<rparr>"

definition demo_payload :: mergeTokenPayload where
  "demo_payload = \<lparr>mp_UserID = ''u'', mp_Provider = ''google'', mp_ProviderUserID = ''g1'', mp_Email = ''u@x'', mp_Name = ''U'',
     mp_FirstName = [], mp_LastName = [], mp_ProfilePicture = [], mp_Username = [], mp_Locale = [], mp_RawData = [], mp_AccessToken = ''t''\<rparr>"

definition demo_social_state :: OAuthState where
  "demo_social_state = \<lparr>st_RedirectURI = ''https://app/cb'', st_AppID = ''a'', st_Nonce = [], st_Timestamp = 0, st_UserID = [], st_Flow = []\<rparr>"

text \<open>The answer of Google is a user with the address the answer starts with.\<close>

definition demo_social :: "string \<Rightarrow> social_env" where
  "demo_social email = \<lparr>so_handler = demo_handler, so_accounts = ref_table social_clash, so_providers = ref_table provider_clash,
     http_get = (\<lambda>n url auth. Body ''{}''), google_user = (\<lambda>b. Some (demo_google\<lparr>gu_Email := email\<rparr>)), facebook_user = (\<lambda>b. None),
     github_user = (\<lambda>b. None), github_emails = (\<lambda>b. None), google_json = (\<lambda>g. []), facebook_json = (\<lambda>f. []), github_json = (\<lambda>h. []),
     payload_json = (\<lambda>m. ''{}''), payload_of = (\<lambda>s. Some demo_payload), encode_state = (\<lambda>st. ''s''),
     decode_state = (\<lambda>s. Inr demo_social_state), url_host = (\<lambda>u. Some ''app''), random_string = (\<lambda>n k. show_nat n),
     oauth_exchange = (\<lambda>n cfg code. Inr ''t''), auth_code_url = (\<lambda>cfg s. s), ALLOWED_REDIRECT_DOMAINS = [''app''],
     DEFAULT_REDIRECT_URI = [], so_twofa = True\<rparr>"

lemma demo_social_simps:
  "so_handler (demo_social email) = demo_handler" "so_accounts (demo_social email) = ref_table social_clash"
  "so_providers (demo_social email) = ref_table provider_clash"
  by (simp_all add: demo_social_def)

lemma demo_roles: "LookupRoles (he_user demo_handler) = None" "AssignDefaultRole (he_user demo_handler) = None"
  by (simp_all add: demo_handler_def demo_twofa_def demo_env_def)

interpretation demo_social: social_stack "demo_social email" for email
  by (simp add: social_stack_def social_stack_axioms_def demo_social_simps demo_roles demo_twofa.twofa_stack_axioms
      ref_table.table_server_axioms)

definition demo_provider :: OAuthProviderConfig where
  "demo_provider = \<lparr>op_ID = ''p'', op_AppID = ''a'', op_Provider = ''google'', op_ClientID = [], op_ClientSecret = [],
     op_RedirectURL = [], op_IsEnabled = True\<rparr>"

definition demo_social_world :: uworld where
  "demo_social_world = demo_uw\<lparr>w_providers := [demo_provider]\<rparr>"

lemma demo_social_clashes:
  "no_clash social_clash (w_social demo_social_world)" "no_clash user_clash (w_users demo_social_world)"
  by (simp_all add: demo_social_world_def demo_uw_def no_clash_def)

definition demo_offer :: "(app_error + SocialLoginResult) \<times> uworld" where
  "demo_offer = run_state (HandleGoogleCallback (demo_social ''u@x'') ''a'' ''t'') demo_social_world"

lemma demo_offer_ok: "case fst demo_offer of Inr r \<Rightarrow> RequiresMerge r \<and> MergeToken r = ''s1'' | Inl e \<Rightarrow> False"
  by code_simp

definition demo_merge_world :: uworld where
  "demo_merge_world = demo_social_world\<lparr>w_redis := \<lparr>rdata = [app_key ''merge_token'' ''a'' ''s1'' \<mapsto> (RStr ''{}'', Some MergeTokenTTL)], rnow = 0\<rparr>\<rparr>"

definition demo_merge :: "(app_error + (string \<times> string)) \<times> uworld" where
  "demo_merge = run_state (ConfirmMerge (demo_social ''u@x'') ''a'' ''s1'' ''Secret12'' ''10.0.0.1'' ''curl'') demo_merge_world"

lemma demo_merge_ok: "case fst demo_merge of Inr t \<Rightarrow> True | Inl e \<Rightarrow> False"
  by code_simp

lemma demo_merge_clash: "no_clash social_clash (w_social demo_merge_world)"
  by (simp add: demo_merge_world_def demo_social_world_def demo_uw_def no_clash_def)




definition demo_unlink :: "app_error option \<times> uworld" where
  "demo_unlink = run_state (svc_UnlinkSocialAccount (demo_social ''u@x'') ''a'' ''u'' ''g'')
     (demo_social_world\<lparr>w_social := [(social_account ''a'' ''u'' ''google'' (\<lparr>pf_ID = ''g1'', pf_Email = ''u@x'', pf_Verified = True,
        pf_Name = [], pf_FirstName = [], pf_LastName = [], pf_Picture = [], pf_Username = [], pf_Locale = [], pf_Raw = []\<rparr>) ''t'')\<lparr>sa_ID := ''g''\<rparr>]\<rparr>)"

lemma demo_unlink_ok: "fst demo_unlink = None"
  by code_simp

section \<open>Login\<close>

text \<open>
  C31: what a login through a provider does, whatever the database answers in between.  Asked for a
  merge, the frontend gets a token that the server keeps for the fifteen minutes, for an active user of the application
  with that address, and nothing in the tables has changed.  Otherwise the user is the one the account is
  linked to, and no row's identity, password or second factor has changed, nor any link; or the address
  was no user's, and the user and the link are new.
\<close>

theorem social_login_sound:
  assumes "social_stack S" and "(provider, profile_of, handle) \<in> set (providers S)"
    and "no_clash social_clash (w_social w)" and "no_clash user_clash (w_users w)"
    and "run_state (handle appID token) w = (Inr r, w')"
  shows "\<exists>p. fst (run_state (profile_of token) w) = Inr p \<and> social_login_done S appID provider p token w r w'"
  using wpD[OF social_stack.wp_provider_login[OF assms(1-4)] assms(5)] by simp

theorem social_login_sound_witness:
  "\<exists>p r. offers_merge (demo_social ''u@x'') ''a'' ''google'' p demo_social_world r (snd demo_offer)"
proof -
  obtain r where r: "fst demo_offer = Inr r" "RequiresMerge r"
    using demo_offer_ok by (auto split: sum.splits)
  have "(''google'', google_profile (demo_social ''u@x''), HandleGoogleCallback (demo_social ''u@x'')) \<in> set (providers (demo_social ''u@x''))"
    by (simp add: providers_def)
  from social_login_sound[OF demo_social.social_stack_axioms this demo_social_clashes run_eq[OF r(1)[unfolded demo_offer_def]]] r(2)
  show ?thesis by (auto simp: social_login_done_def demo_offer_def)
qed



section \<open>Merging and unlinking\<close>

text \<open>
  C33: a merge that is answered with tokens had a stored token and the password of the active user
  the token names; it adds one link, of an account that was linked to nobody in that application, and changes no user.
\<close>

theorem merge_sound:
  assumes "social_stack S" and "no_clash social_clash (w_social w)"
    and "run_state (ConfirmMerge S appID token password ip ua) w = (Inr t, w')"
  shows "w_users w' = w_users w \<and> (\<exists>payload user. merge_for S w appID token password payload user \<and>
     adds_account (merged_account appID (u_ID user) payload) w w' \<and>
     \<not> linked appID (mp_Provider payload) (mp_ProviderUserID payload) w)"
  using wpD[OF social_stack.wp_ConfirmMerge[OF assms(1,2)] assms(3)]
  by (fastforce dest: adds_account_new simp: merged_account_def)

theorem merge_sound_witness:
  "merge_for (demo_social ''u@x'') demo_merge_world ''a'' ''s1'' ''Secret12'' demo_payload demo_user"
proof -
  obtain t where t: "fst demo_merge = Inr t" using demo_merge_ok by (auto split: sum.splits)
  from merge_sound[OF demo_social.social_stack_axioms demo_merge_clash run_eq[OF t[unfolded demo_merge_def]]]
  show ?thesis by (auto simp: merge_for_def demo_social_def demo_merge_world_def demo_social_world_def demo_uw_def)
qed

text \<open>
  C34: a merge token is used once, even if its deletion fails: as long as the link stands, the same token
  is refused.
\<close>

theorem merge_once:
  assumes "social_stack S" and "no_clash social_clash (w_social w)" and "no_clash social_clash (w_social w2)"
    and "run_state (ConfirmMerge S appID token password ip ua) w = (Inr t, w1)"
    and "set (w_social w1) \<subseteq> set (w_social w2)"
    and "live (w_redis w2) (app_key ''merge_token'' appID token) \<in> {None, live (w_redis w) (app_key ''merge_token'' appID token)}"
  shows "\<exists>e. fst (run_state (ConfirmMerge S appID token password' ip' ua') w2) = Inl e"
proof (rule ccontr)
  assume "\<not> ?thesis"
  then obtain t2 where t2: "fst (run_state (ConfirmMerge S appID token password' ip' ua') w2) = Inr t2"
    by (cases "fst (run_state (ConfirmMerge S appID token password' ip' ua') w2)") auto
  obtain p u where p: "merge_for S w appID token password p u" "adds_account (merged_account appID (u_ID u) p) w w1"
    using wpD[OF social_stack.wp_ConfirmMerge[OF assms(1,2)] assms(4)] by blast
  obtain p2 u2 where p2: "merge_for S w2 appID token password' p2 u2"
    "\<not> linked appID (mp_Provider p2) (mp_ProviderUserID p2) w2"
    using wpD[OF social_stack.wp_ConfirmMerge[OF assms(1,3)] run_eq[OF t2]] adds_account_new
    by (fastforce simp: merged_account_def)
  have "p2 = p" using p(1) p2(1) assms(6) by (auto simp: merge_for_def)
  moreover have "linked appID (mp_Provider p) (mp_ProviderUserID p) w2"
    using p(2) assms(5) by (force simp: adds_account_def linked_def same_identity_def merged_account_def)
  ultimately show False using p2(2) by simp
qed

theorem merge_once_witness:
  "\<forall>ip ua pw. \<exists>e. fst (run_state (ConfirmMerge (demo_social ''u@x'') ''a'' ''s1'' pw ip ua)
     ((snd demo_merge)\<lparr>w_redis := w_redis demo_merge_world\<rparr>)) = Inl e"
proof (intro allI)
  fix ip ua pw
  obtain t where t: "fst demo_merge = Inr t" using demo_merge_ok by (auto split: sum.splits)
  note run = run_eq[OF t[unfolded demo_merge_def]]
  have "no_clash social_clash (w_social (snd demo_merge))"
    using wpD[OF demo_social.wp_ConfirmMerge[OF demo_merge_clash] run] by (auto simp: adds_account_def demo_merge_def)
  then show "\<exists>e. fst (run_state (ConfirmMerge (demo_social ''u@x'') ''a'' ''s1'' pw ip ua)
     ((snd demo_merge)\<lparr>w_redis := w_redis demo_merge_world\<rparr>)) = Inl e"
    by (intro merge_once[OF demo_social.social_stack_axioms demo_merge_clash _ run]) (simp_all add: demo_merge_def)
qed

text \<open>
  C35: unlinking deletes an account of that user and application only, and only when the user has a
  password or another account to log in with; refused, it deletes nothing, and the users stay as they are.
\<close>

theorem unlink_keeps_login:
  assumes "social_stack S" and "no_clash social_clash (w_social w)"
    and "run_state (svc_UnlinkSocialAccount S appID userID i) w = (x, w')"
  shows "w_users w' = w_users w \<and> (w_social w' = w_social w \<and> x \<noteq> None \<or> unlinked_one appID userID i w w')"
  using wpD[OF social_stack.wp_unlink[OF assms(1,2)] assms(3)] .

theorem unlink_keeps_login_witness:
  "\<exists>w. unlinked_one ''a'' ''u'' ''g'' w (snd demo_unlink)"
proof -
  from unlink_keeps_login[OF demo_social.social_stack_axioms _ run_eq[OF demo_unlink_ok[unfolded demo_unlink_def]]]
  show ?thesis by (auto simp: demo_unlink_def no_clash_def)
qed

end
