(* ===== verification/GroupSpec.thy ===== *)
theory GroupSpec
  imports SsoHandler SessionSpec UserDemo
begin

text \<open>
  Properties of session groups: what a group logout achieves on a database and a server that are up,
  that the expiry scan returns, and what an exchange of an SSO token rests on.
\<close>

lemma reads_live: "reads r r' \<Longrightarrow> live r' k = Some v \<Longrightarrow> live r k = Some v"
  by (auto simp: reads_def intro: live_mono)

locale exchange_stack =
  redis: redis_server "ue_redis (ge_user G)" + users: table_server "ue_users (ge_user G)" user_clash +
  members: table_server "ge_group_apps G" group_app_clash for G :: group_env

locale group_stack =
  up: reliable_redis "ue_redis (ge_user G)" + users: reliable_table "ue_users (ge_user G)" user_clash +
  grps: reliable_table "ge_groups G" group_clash + members: reliable_table "ge_group_apps G" group_app_clash for G :: group_env

section \<open>Group logout\<close>

text \<open>The two applications are in one group, which logs out globally, and the user is known by the address in the other one.\<close>

definition peers :: "uworld \<Rightarrow> string \<Rightarrow> string \<Rightarrow> bool" where
  "peers w a b \<longleftrightarrow> a \<noteq> b \<and> (\<exists>g\<in>set (w_groups w). GlobalLogout g \<and>
     (\<forall>c\<in>{a, b}. \<exists>x\<in>set (w_group_apps w). sga_AppID x = c \<and> sga_SessionGroupID x = sg_ID g))"

definition group_tables :: "uworld \<Rightarrow> bool" where
  "group_tables w \<longleftrightarrow> no_clash user_clash (w_users w) \<and> no_clash group_clash (w_groups w) \<and>
     no_clash group_app_clash (w_group_apps w) \<and> (\<forall>x\<in>set (w_group_apps w). colon_free (sga_AppID x))"

text \<open>Every token of the user is refused until then.\<close>

definition shut_out :: "string \<Rightarrow> string \<Rightarrow> instant \<Rightarrow> redis \<Rightarrow> bool" where
  "shut_out a u t r \<longleftrightarrow> (\<exists>x\<ge>t. rdata r (BlacklistUserKey a u) = Some (RStr ''all_tokens_revoked'', Some x))"

context group_stack
begin

lemma wp_GetSessionGroupForApp:
  assumes "group_tables w" and "x \<in> set (w_group_apps w)" and "g \<in> set (w_groups w)" and "sga_SessionGroupID x = sg_ID g"
    and "Q (Inr (Some g)) w"
  shows "wp (GetSessionGroupForApp G (sga_AppID x)) Q w"
  unfolding GetSessionGroupForApp_def
proof (rule wp_bind, rule wp_lifts(6), rule members.wp_u_first[OF _ assms(2)], goal_cases)
  case 4
  show ?case unfolding sum.case
    by (simp, rule wp_bind, rule wp_lifts(5), rule grps.wp_u_first[OF _ assms(3)])
       (use assms in \<open>auto simp: group_tables_def group_clash_def intro: wp_return\<close>)
qed (use assms in \<open>auto simp: group_tables_def group_app_clash_def\<close>)

lemma wp_GetAppsInSessionGroup:
  "(\<And>ids. set ids = sga_AppID ` {x \<in> set (w_group_apps w). sga_SessionGroupID x = gid} \<Longrightarrow> Q (Inr ids) w) \<Longrightarrow>
   wp (GetAppsInSessionGroup G gid) Q w"
  unfolding GetAppsInSessionGroup_def
  by (rule wp_bind, rule wp_lifts(6), rule members.wp_u_find, rule wp_return) simp

lemma wp_up_revoke:
  "wp (svc_RevokeAllUserSessions (ue_redis (ge_user G)) a u) (\<lambda>_ r'. shut_out a u (rnow r + maxTokenLifetime) r') r"
  unfolding svc_RevokeAllUserSessions_def BlacklistAllUserTokens_def
proof (rule wp_bind, rule wp_touches[OF touches_ignore[OF up.touches_app_DeleteAll]], rule wp_bind, rule up.wp_u_set, rule wp_return, goal_cases)
  case (1 x r1 r2)
  then have "rnow r \<le> rnow r2" by (auto simp: set_post_def writes_def)
  with 1 show ?case
    by (auto simp: shut_out_def set_post_def expiry_after_def BlacklistUserKey_def maxTokenLifetime_def split: if_splits)
qed

lemma wp_find_user:
  assumes "group_tables w" and "u \<in> set (w_users w)" and "with_email b email u" and "Q (Inr u) w"
  shows "wp (usr (GetUserByEmail (ue_users (ge_user G)) b email)) Q w"
  unfolding GetUserByEmail_def
  by (rule wp_lifts(1), rule users.wp_u_first[where p = "with_email b email", OF _ assms(2,3)])
     (use assms in \<open>auto simp: group_tables_def user_clash_def with_email_def\<close>)

lemma wp_some_user: "(\<And>a. Q a w) \<Longrightarrow> wp (usr (GetUserByEmail (ue_users (ge_user G)) c email)) Q w"
  unfolding GetUserByEmail_def by (rule wp_lifts(1), rule users.wp_t_first) simp

lemma shut_out_other:
  assumes "shut_out b u t r" and "writes (app_session_keys c) r r'" and "colon_free b" and "colon_free c" and "c \<noteq> b"
  shows "shut_out b u t r'"
proof -
  have "BlacklistUserKey b u \<notin> app_session_keys c"
    using app_session_keys_disjoint[of b c] in_app_session_keys(5)[of b u] assms(3-5) by blast
  with assms(1,2) show ?thesis by (simp add: shut_out_def writes_def)
qed

lemma wp_revoke_all:
  assumes "group_tables w0" and "u \<in> set (w_users w0)" and "with_email b email u" and "colon_free b" and "b \<noteq> a"
    and "\<forall>c\<in>set ids. colon_free c" and "b \<in> set ids"
  shows "wp (for_each ids (revoke_in_app G a email)) (\<lambda>_ w'. shut_out b (u_ID u) (rnow (w_redis w0) + maxTokenLifetime) (w_redis w')) w0"
proof -
  let ?out = "shut_out b (u_ID u) (rnow (w_redis w0) + maxTokenLifetime)"
  let ?P = "\<lambda>ys (w :: uworld). w_users w = w_users w0 \<and> w_groups w = w_groups w0 \<and> w_group_apps w = w_group_apps w0 \<and>
    rnow (w_redis w0) \<le> rnow (w_redis w) \<and> (\<forall>c\<in>set ys. colon_free c) \<and> (b \<in> set ys \<or> ?out (w_redis w))"
  have "wp (for_each ids (revoke_in_app G a email)) (\<lambda>_. ?P []) w0"
  proof (rule wp_for_each_step[where P = ?P])
    fix c ys w assume P: "?P (c # ys) w"
    then have "group_tables w" using assms(1) by (simp add: group_tables_def)
    have revoke: "wp (rds (ignore (svc_RevokeAllUserSessions (ue_redis (ge_user G)) c i))) (\<lambda>_. ?P ys) w"
      if "c = b \<Longrightarrow> i = u_ID u" for i
    proof (rule wp_rds, unfold ignore_def, rule wp_bind, rule wp_mono[OF wp_conj[OF wp_touches[OF up.touches_app_svc(3)] wp_up_revoke]], assumption, rule wp_return, goal_cases)
      case (1 x r)
      have "?out r" if "b \<notin> set ys"
      proof (cases "c = b")
        case True
        with 1 P \<open>c = b \<Longrightarrow> i = u_ID u\<close> show ?thesis by (force simp: shut_out_def)
      next
        case False
        with 1 P that assms(4) show ?thesis by (auto intro: shut_out_other)
      qed
      with 1 P show ?case by (auto simp: writes_def)
    qed
    show "wp (revoke_in_app G a email c) (\<lambda>_. ?P ys) w"
      unfolding revoke_in_app_def
    proof (rule wp_if, goal_cases)
      case 1
      then show ?case using P assms(5) by (auto intro: wp_return)
    next
      case 2
      show ?case
      proof (cases "c = b")
        case True
        have "u \<in> set (w_users w)" using P assms(2) by simp
        then show ?thesis
          unfolding True
          by (intro wp_bind wp_find_user[OF \<open>group_tables w\<close> _ assms(3)]) (simp_all add: revoke[unfolded True])
      next
        case False
        then show ?thesis
          by (intro wp_bind wp_some_user wp_case_sum wp_return revoke) (use P in simp_all)
      qed
    qed
  qed (use assms in auto)
  then show ?thesis by (rule wp_mono) simp
qed

lemma wp_group_logout:
  assumes "group_tables w" and "peers w a b" and "u \<in> set (w_users w)" and "with_email b email u"
  shows "wp (RevokeAllUserSessionsInGroup G a email) (\<lambda>_ w'. shut_out b (u_ID u) (rnow (w_redis w) + maxTokenLifetime) (w_redis w')) w"
proof -
  obtain g x y where g: "g \<in> set (w_groups w)" "GlobalLogout g" and x: "x \<in> set (w_group_apps w)" "sga_AppID x = a" "sga_SessionGroupID x = sg_ID g"
    and y: "y \<in> set (w_group_apps w)" "sga_AppID y = b" "sga_SessionGroupID y = sg_ID g" and ne: "a \<noteq> b"
    using assms(2) by (auto simp: peers_def)
  have free: "\<forall>x\<in>set (w_group_apps w). colon_free (sga_AppID x)" using assms(1) by (simp add: group_tables_def)
  show ?thesis
    unfolding RevokeAllUserSessionsInGroup_def x(2)[symmetric]
  proof (rule wp_bind, rule wp_GetSessionGroupForApp[OF assms(1) x(1) g(1) x(3)], goal_cases)
    case 1
    have "wp (for_each ids (revoke_in_app G (sga_AppID x) email))
        (\<lambda>_ w'. shut_out b (u_ID u) (rnow (w_redis w) + maxTokenLifetime) (w_redis w')) w"
      if "set ids = sga_AppID ` {x \<in> set (w_group_apps w). sga_SessionGroupID x = sg_ID g}" for ids
      using wp_revoke_all[OF assms(1,3,4), of "sga_AppID x" ids] that free x y ne by auto
    with g(2) show ?case by (auto intro!: wp_bind wp_GetAppsInSessionGroup)
  qed
qed

end

sublocale group_stack \<subseteq> exchange_stack
  by (simp add: exchange_stack_def up.redis_server_axioms users.table_server_axioms members.table_server_axioms)

section \<open>Exchange\<close>

text \<open>What an SSO token that is exchanged for a session of the user in the target application stands for.\<close>

definition exchanged :: "uworld \<Rightarrow> string \<Rightarrow> string \<Rightarrow> User \<Rightarrow> bool" where
  "exchanged w token target user \<longleftrightarrow> (\<exists>v groupID source userID. \<exists>su\<in>set (w_users w). \<exists>x\<in>set (w_group_apps w).
     live (w_redis w) (''sso:token:'' @ token) = Some (RStr v) \<and> parse_sso_value v = Inr (groupID, source, userID) \<and>
     sga_SessionGroupID x = groupID \<and> sga_AppID x = target \<and> u_ID su = userID \<and>
     user \<in> set (w_users w) \<and> with_email target (u_Email su) user \<and> u_IsActive user)"

context exchange_stack
begin

lemma wp_GetSSOToken:
  "wp (GetSSOToken (ue_redis (ge_user G)) t) (\<lambda>x r'. reads r r' \<and> (\<forall>y. x = Inr y \<longrightarrow>
     (\<exists>v. live r (''sso:token:'' @ t) = Some (RStr v) \<and> parse_sso_value v = Inr y))) r"
  unfolding GetSSOToken_def
  by (rule wp_bind, rule redis.wp_r_get, rule wp_return)
     (auto simp: get_post_def dest: reads_live split: sum.splits rerr.splits)

lemma wp_members: "wp (GetAppsInSessionGroup G gid) (\<lambda>x w'. w' = w \<and> (\<forall>ids. x = Inr ids \<longrightarrow>
    set ids \<subseteq> sga_AppID ` {x \<in> set (w_group_apps w). sga_SessionGroupID x = gid})) w"
  unfolding GetAppsInSessionGroup_def
proof (rule wp_bind, rule wp_lifts(6), rule members.wp_t_find, rule wp_return, goal_cases)
  case (1 a)
  have "set xs = {x \<in> set (w_group_apps w). sga_SessionGroupID x = gid}" if "a = Inr xs" for xs
    using 1 that set_count[of xs "filter (\<lambda>x. sga_SessionGroupID x = gid) (w_group_apps w)"] by (simp add: find_post_def)
  then show ?case by (cases a) auto
qed

lemma wp_Exchange:
  "wp (Exchange G (Inr token) c) (\<lambda>x _. \<forall>n resp. x = RJson n resp \<longrightarrow>
     (\<exists>target user. ctx_keys c ''app_id'' = Some (CUuid target) \<and> exchanged w token target user \<and> xr_user_id resp = u_ID user)) w"
proof (cases "\<exists>target. ctx_keys c ''app_id'' = Some (CUuid target)")
  case False
  then show ?thesis
    unfolding Exchange_def Let_def by (auto intro!: wp_return split: option.split ctx_val.split)
next
  case True
  then obtain target where target: "ctx_keys c ''app_id'' = Some (CUuid target)" by blast
  show ?thesis
    unfolding Exchange_def Let_def target option.case ctx_val.case sum.case
  proof (rule wp_bind, rule wp_rds, rule wp_mono[OF wp_GetSSOToken], elim conjE, rule wp_case_sum, goal_cases)
    case (2 x r v)
    obtain gid src uid where v: "v = (gid, src, uid)" by (cases v)
    show ?case unfolding v prod.case
    proof (rule wp_bind, rule wp_rds, rule wp_any, rule wp_bind, rule wp_mono[OF wp_members], elim conjE, hypsubst, rule wp_case_sum, goal_cases)
      case (2 y r2 z w2 ids)
      show ?case
      proof (rule wp_if, rule wp_return, simp, rule wp_bind, unfold GetUserByID_def GetUserByEmail_def, rule wp_lifts(1), rule users.wp_t_first, rule wp_case_sum, goal_cases)
        case (2 y1 su)
        show ?case
        proof (rule wp_bind, rule wp_lifts(1), rule users.wp_t_first, rule wp_case_sum, goal_cases)
          case (2 y2 user)
          have e: "exchanged w token target user" if "u_IsActive user"
            using \<open>\<forall>y. x = Inr y \<longrightarrow> _ y\<close> \<open>x = Inr v\<close> v \<open>\<forall>ids. z = Inr ids \<longrightarrow> _ ids\<close> \<open>z = Inr ids\<close> \<open>\<not> target \<notin> set ids\<close>
              \<open>first_post _ _ y1 _\<close> \<open>y1 = Inr su\<close> \<open>first_post _ _ y2 _\<close> \<open>y2 = Inr user\<close> that
            by (fastforce simp: exchanged_def first_post_def with_id_def)
          show ?case
            by (rule wp_if, rule wp_return, simp, rule wp_bind, rule wp_any, rule wp_case_prod, rule wp_bind, rule wp_any,
                rule wp_bind, rule wp_any, rule wp_return) (use e in \<open>auto simp: target split: sum.splits\<close>)
        qed (auto intro: wp_return)
      qed (auto intro: wp_return)
    qed (auto intro: wp_return)
  qed (auto intro: wp_return)
qed

end

section \<open>A demonstration\<close>

text \<open>Two applications in a group, and one address known in both.\<close>

definition demo_groups :: group_env where
  "demo_groups = \<lparr>ge_user = demo_env, ge_groups = ref_table group_clash, ge_group_apps = ref_table group_app_clash\<rparr>"

lemma demo_group_env: "ge_user demo_groups = demo_env"
  by (simp add: demo_groups_def)

interpretation demo_groups: group_stack demo_groups
  by (simp add: group_stack_def demo_groups_def ref.reliable_redis_axioms ref_up.reliable_table_axioms)

definition demo_peer :: User where
  "demo_peer = demo_user\<lparr>u_ID := ''v'', u_AppID := ''b''\<rparr>"

definition demo_group_world :: uworld where
  "demo_group_world = demo_uw\<lparr>w_users := [demo_user, demo_peer],
     w_groups := [\<lparr>sg_ID = ''g'', sg_TenantID = ''t'', sg_Name = ''G'', GlobalLogout = True\<rparr>],
     w_group_apps := [\<lparr>sga_SessionGroupID = ''g'', sga_AppID = ''a''\<rparr>, \<lparr>sga_SessionGroupID = ''g'', sga_AppID = ''b''\<rparr>]\<rparr>"

lemma demo_group_tables: "group_tables demo_group_world"
  by (simp add: group_tables_def demo_group_world_def demo_uw_def no_clash_def user_clash_def group_app_clash_def demo_peer_def demo_user_def)

definition demo_group_logout :: "unit \<times> uworld" where
  "demo_group_logout = run_state (RevokeAllUserSessionsInGroup demo_groups ''a'' ''u@x'') demo_group_world"

definition demo_peer_auth :: "mw_result \<times> redis" where
  "demo_peer_auth = run_state (AuthMiddleware (Some demo_redis) ref_env (demo_ctx (''Bearer '' @ demo_access))) (w_redis (snd demo_group_logout))"

definition demo_sso_body :: "rerr option \<times> redis" where
  "demo_sso_body = run_state (SetSSOToken demo_redis ''t'' ''g'' ''a'' ''u'') empty_redis"

definition demo_exchanged :: "exchange_response reply \<times> uworld" where
  "demo_exchanged = run_state (Exchange demo_groups (Inr ''t'') (SetKey ''app_id'' (CUuid ''b'') (demo_ctx [])))
     (demo_group_world\<lparr>w_redis := snd demo_sso_body\<rparr>)"

section \<open>Properties\<close>

text \<open>
  C36: a group logout reaches every application of the group.  With the database and the server up, after
  \<open>RevokeAllUserSessionsInGroup\<close> for an application of a group that logs out globally, no request of the user
  of the same address in another application of the group is authenticated there for thirty days, whatever else is
  written, as long as the entry of the blacklist stays.
\<close>

theorem group_logout:
  assumes "group_stack G" and "group_tables w" and "peers w a b" and "u \<in> set (w_users w)" and "with_email b email u"
    and "run_state (RevokeAllUserSessionsInGroup G a email) w = ((), w1)"
    and "writes K (w_redis w1) r2" and "BlacklistUserKey b (u_ID u) \<notin> K"
    and "run_state (AuthMiddleware (Some (ue_redis (ge_user G))) E c) r2 = (x, r3)"
    and "rnow r3 < rnow (w_redis w) + maxTokenLifetime"
  shows "\<not> authenticated_as x b (u_ID u)"
proof -
  obtain t where t: "rnow (w_redis w) + maxTokenLifetime \<le> t"
    "rdata (w_redis w1) (BlacklistUserKey b (u_ID u)) = Some (RStr ''all_tokens_revoked'', Some t)"
    using wpD[OF group_stack.wp_group_logout[OF assms(1-5)] assms(6)] by (auto simp: shut_out_def)
  with assms(7,8) have "rdata r2 (BlacklistUserKey b (u_ID u)) = Some (RStr ''all_tokens_revoked'', Some t)"
    by (simp add: writes_keep)
  moreover have "redis_server (ue_redis (ge_user G))"
    using assms(1) by (simp add: group_stack_def reliable_redis_def)
  ultimately show ?thesis using redis_server.blacklisted_user_rejected[OF _ _ _ assms(9)] t(1) assms(10) by fastforce
qed

theorem group_logout_witness:
  "\<not> authenticated_as (fst demo_peer_auth) ''b'' ''v''"
proof -
  have p: "peers demo_group_world ''a'' ''b''" by (simp add: peers_def demo_group_world_def demo_uw_def)
  have u: "demo_peer \<in> set (w_users demo_group_world)" "with_email ''b'' ''u@x'' demo_peer"
    by (simp_all add: demo_group_world_def demo_peer_def demo_user_def with_email_def)
  have run: "run_state (RevokeAllUserSessionsInGroup demo_groups ''a'' ''u@x'') demo_group_world = ((), snd demo_group_logout)"
    by (simp add: demo_group_logout_def prod_eq_iff)
  have "rnow (snd demo_peer_auth) < rnow (w_redis demo_group_world) + maxTokenLifetime" by code_simp
  with group_logout[OF demo_groups.group_stack_axioms demo_group_tables p u run writes_refl[of "{}"], where c = "demo_ctx (''Bearer '' @ demo_access)"
      and E = ref_env and x = "fst demo_peer_auth" and ?r3.0 = "snd demo_peer_auth"]
  show ?thesis by (simp add: demo_group_env demo_peer_auth_def demo_peer_def)
qed

text \<open>
  C37: an exchange that is answered with a session had a stored SSO token; the target application is in
  the group the token names; the session is of an active user of that application, with the address
  of the user the token names.
\<close>

theorem sso_exchange_sound:
  assumes "exchange_stack G" and "run_state (Exchange G (Inr token) c) w = (RJson n resp, w')"
  shows "\<exists>target user. ctx_keys c ''app_id'' = Some (CUuid target) \<and> exchanged w token target user \<and> xr_user_id resp = u_ID user"
  using wpD[OF exchange_stack.wp_Exchange[OF assms(1)] assms(2)] by simp

lemma demo_exchanged_ok: "case fst demo_exchanged of RJson n resp \<Rightarrow> xr_user_id resp = ''v'' | _ \<Rightarrow> False"
  by code_simp

theorem sso_exchange_sound_witness:
  "\<exists>user. exchanged (demo_group_world\<lparr>w_redis := snd demo_sso_body\<rparr>) ''t'' ''b'' user \<and> u_ID user = ''v''"
proof -
  obtain n resp where r: "fst demo_exchanged = RJson n resp" "xr_user_id resp = ''v''"
    using demo_exchanged_ok by (auto split: reply.splits)
  from sso_exchange_sound[OF demo_groups.exchange_stack_axioms run_eq[OF r(1)[unfolded demo_exchanged_def]]] r(2)
  show ?thesis by auto
qed

text \<open>
  The expiry scan returns.  The loop over \<open>SCAN\<close> goes round as often as the server hands out cursors; on
  a server whose cursors run down, whatever keys it reports and whatever handling them does, a scan of the service with
  more fuel than the rank of the first cursor comes to its end.
\<close>

theorem scan_returns:
  assumes "\<And>c r ks c' r'. run_state (r_scan (ue_redis (ge_user G)) c ''session_meta:'' 100) r = (Inr (ks, c'), r') \<Longrightarrow>
      c' = 0 \<or> rank c' < rank c"
    and "rank 0 < fuel"
  shows "fst (run_state (scanForExpiredSessions G fuel s) w) \<noteq> None"
proof -
  obtain x r where x: "run_state (scan_expired (ue_redis (ge_user G)) fuel 0) (w_redis w) = (x, r)" by fastforce
  have "fst (run_state (scan_expired (ue_redis (ge_user G)) fuel 0) (w_redis w)) \<noteq> None"
    by (rule scan_expired_returns[where rank = rank]) (fact assms)+
  with x have "x \<noteq> None" by simp
  with x show ?thesis
    by (auto simp: scanForExpiredSessions_def GetExpiredSessionMetaKeys_def split: sum.split prod.split)
qed

theorem scan_returns_witness:
  "\<forall>s w. fst (run_state (scanForExpiredSessions demo_groups 1 s) w) \<noteq> None"
proof (intro allI)
  fix s w
  show "fst (run_state (scanForExpiredSessions demo_groups 1 s) w) \<noteq> None"
    by (rule scan_returns[where rank = "\<lambda>c. 0"]) (auto simp: demo_group_env)
qed

end
