(* ===== verification/StoreTypes.thy ===== *)
theory StoreTypes
  imports SessionSpec Demo UserProofs
begin

text \<open>
  The types of the keys of the session store.  Redis answers a command on a value of another type with an error,
  and much of the store's code drops errors: here it is shown that no operation of the store ever meets one.
\<close>

lemma wp_fst: "wp m (\<lambda>x _. P x) s \<Longrightarrow> P (fst (run_state m s))"
  by (simp add: wp_def split: prod.splits)

section \<open>Well-typed stores\<close>

text \<open>
  Sessions are hashes, the two indexes are sets; other keys may hold anything.  Application ids have no colon, as UUIDs.
\<close>

definition sort_ok :: "string \<Rightarrow> rval \<Rightarrow> bool" where
  "sort_ok k v \<longleftrightarrow> (\<forall>a i. colon_free a \<longrightarrow> (k = SessionKey a i \<longrightarrow> (\<exists>h. v = RHash h)) \<and>
     (k = UserSessionsKey a i \<or> k = AllSessionsKey a \<longrightarrow> (\<exists>xs. v = RSet xs)))"

definition well_typed :: "redis \<Rightarrow> bool" where
  "well_typed r \<longleftrightarrow> (\<forall>k v x. rdata r k = Some (v, x) \<longrightarrow> sort_ok k v)"

lemma all_sessions_differ:
  assumes "colon_free a" and "colon_free b"
  shows "app_key f a i \<noteq> AllSessionsKey b"
proof -
  have "f @ CHR '':'' # i \<noteq> ''all_sessions''" by (rule colon_no_split) simp
  then show ?thesis using assms(1,2) by (simp add: app_key_def AllSessionsKey_def colon_split)
qed

lemma session_keys_differ:
  assumes "colon_free a" and "colon_free b"
  shows "SessionKey a i \<noteq> UserSessionsKey b j" "SessionKey a i \<noteq> AllSessionsKey b" "UserSessionsKey a i \<noteq> AllSessionsKey b"
  using assms by (simp_all add: app_key_defs app_key_eq all_sessions_differ)

lemma sort_okD:
  "sort_ok (SessionKey a i) v \<Longrightarrow> colon_free a \<Longrightarrow> \<exists>h. v = RHash h"
  "sort_ok (UserSessionsKey a i) v \<Longrightarrow> colon_free a \<Longrightarrow> \<exists>xs. v = RSet xs"
  "sort_ok (AllSessionsKey a) v \<Longrightarrow> colon_free a \<Longrightarrow> \<exists>xs. v = RSet xs"
  unfolding sort_ok_def by blast+

lemma sort_ok_session:
  assumes "colon_free a"
  shows "sort_ok (SessionKey a i) (RHash h)" "sort_ok (UserSessionsKey a i) (RSet xs)" "sort_ok (AllSessionsKey a) (RSet xs)"
  using session_keys_differ[OF assms] session_keys_differ[OF _ assms] unfolding sort_ok_def by metis+

lemma sort_ok_other:
  "sort_ok (SessionMetaKey a u s) v"
  "colon_free a \<Longrightarrow> colon_free f \<Longrightarrow> f \<notin> {''session'', ''user_sessions''} \<Longrightarrow> sort_ok (app_key f a i) v"
  by (auto simp: sort_ok_def app_key_defs app_key_eq all_sessions_differ)

lemma well_typed_entry:
  assumes "well_typed r" and "colon_free a"
  shows "hash_of (entry_at t (rdata r) (SessionKey a i)) \<noteq> None" "set_of (entry_at t (rdata r) (UserSessionsKey a i)) \<noteq> None"
    "set_of (entry_at t (rdata r) (AllSessionsKey a)) \<noteq> None"
proof -
  have s: "sort_ok k v" if "entry_at t (rdata r) k = Some (v, x)" for k v x
    using entry_at_Some[OF that] assms(1) by (simp add: well_typed_def)
  show "hash_of (entry_at t (rdata r) (SessionKey a i)) \<noteq> None"
    by (cases "entry_at t (rdata r) (SessionKey a i)") (auto simp: hash_of_def dest!: s sort_okD(1)[OF _ assms(2)])
  show "set_of (entry_at t (rdata r) (UserSessionsKey a i)) \<noteq> None"
    by (cases "entry_at t (rdata r) (UserSessionsKey a i)") (auto simp: set_of_def dest!: s sort_okD(2)[OF _ assms(2)])
  show "set_of (entry_at t (rdata r) (AllSessionsKey a)) \<noteq> None"
    by (cases "entry_at t (rdata r) (AllSessionsKey a)") (auto simp: set_of_def dest!: s sort_okD(3)[OF _ assms(2)])
qed

text \<open>A step that keeps a store well typed.\<close>

definition typed_step :: "redis \<Rightarrow> redis \<Rightarrow> bool" where
  "typed_step r r' \<longleftrightarrow> (well_typed r \<longrightarrow> well_typed r')"

interpretation typed_step: frame typed_step
  by unfold_locales (auto simp: typed_step_def)

lemma typed_write:
  assumes "writes {k} r r'"
    and "rdata r' k = None \<or> rdata r' k = rdata r k \<or> (\<exists>v x. rdata r' k = Some (v, x) \<and> (sort_ok k v \<or> (\<exists>y. rdata r k = Some (v, y))))"
  shows "typed_step r r'"
  unfolding typed_step_def well_typed_def
proof (intro impI allI)
  fix k' v x assume w: "\<forall>k v x. rdata r k = Some (v, x) \<longrightarrow> sort_ok k v" and e: "rdata r' k' = Some (v, x)"
  show "sort_ok k' v"
  proof (cases "k' = k")
    case True
    show ?thesis using assms(2) w e unfolding True by (elim disjE exE conjE) auto
  next
    case False
    then show ?thesis using writes_keep[OF assms(1)] w e by simp
  qed
qed

lemma typed_reads: "reads r r' \<Longrightarrow> typed_step r r'"
  by (simp add: typed_step_def well_typed_def reads_def)

context redis_server
begin

lemma typed_commands:
  "stable typed_step (r_get R k)" "stable typed_step (r_hgetall R k)" "stable typed_step (r_hget R k f)"
  "stable typed_step (r_smembers R k)" "stable typed_step (r_exists R k)" "stable typed_step (r_scard R k)" "stable typed_step time_now"
  unfolding stable_def
  by (auto intro!: wp_redis wp_time_now typed_reads simp: get_post_def hgetall_post_def hget_post_def smembers_post_def exists_post_def scard_post_def)

lemma typed_hset: "(\<And>h. sort_ok k (RHash h)) \<Longrightarrow> stable typed_step (r_hset R k fs)"
  unfolding stable_def by (intro allI wp_redis typed_write) (auto simp: hset_post_def Let_def)

lemma typed_sets:
  "(\<And>xs. sort_ok k (RSet xs)) \<Longrightarrow> stable typed_step (r_sadd R k x)"
  "(\<And>xs. sort_ok k (RSet xs)) \<Longrightarrow> stable typed_step (r_srem R k x)"
  unfolding stable_def by (intro allI wp_redis typed_write; auto simp: sadd_post_def srem_post_def Let_def split: if_splits)+

lemma typed_set: "sort_ok k (RStr v) \<Longrightarrow> stable typed_step (r_set R k v d)"
  unfolding stable_def by (intro allI wp_redis typed_write) (auto simp: set_post_def)

lemma typed_expire: "stable typed_step (r_expire R k d)"
  unfolding stable_def by (intro allI wp_redis typed_write) (auto simp: expire_post_def dest!: entry_at_Some split: option.splits)

lemma typed_del: "stable typed_step (r_del R [k])"
  unfolding stable_def by (intro allI wp_redis typed_write) (auto simp: del_post_def)

lemmas typed_intro = typed_step.stable_intro typed_commands typed_hset typed_sets typed_set typed_expire typed_del
  sort_ok_session sort_ok_other

lemma typed_prune: "(\<And>xs. sort_ok k (RSet xs)) \<Longrightarrow> stable typed_step (prune_ids R a k ids)"
  by (induction ids) (auto intro!: typed_intro)

lemma typed_for_each: "(\<And>x. stable typed_step (f x)) \<Longrightarrow> stable typed_step (for_each xs f)"
  by (induction xs) (auto intro!: typed_intro)

lemma typed_ids:
  "colon_free a \<Longrightarrow> stable typed_step (GetUserSessionIDs R a u)" "colon_free a \<Longrightarrow> stable typed_step (GetAppSessionIDs R a)"
  unfolding GetUserSessionIDs_def GetAppSessionIDs_def Let_def by (intro typed_intro typed_prune; assumption)+

text \<open>Every operation of the store.\<close>

lemma typed_operations:
  assumes "colon_free a"
  shows "stable typed_step (CreateSession R a s u rt ip ua ttl)" "stable typed_step (UpdateSessionRefreshToken R a s rt)"
    "stable typed_step (ResetSessionTTL R a s ttl)" "stable typed_step (TouchSession R a s)"
    "stable typed_step (DeleteSession R a s u)" "stable typed_step (DeleteAllUserSessions R a u ex)"
    "stable typed_step (BlacklistAccessToken R a t u ttl)" "stable typed_step (BlacklistAllUserTokens R a u ttl)"
    "stable typed_step (ClearUserTokenBlacklist R a u)"
  unfolding CreateSession_def UpdateSessionRefreshToken_def ResetSessionTTL_def TouchSession_def DeleteSession_def DeleteAllUserSessions_def
    BlacklistAccessToken_def BlacklistAllUserTokens_def ClearUserTokenBlacklist_def BlacklistTokenKey_def BlacklistUserKey_def Let_def
  by (intro typed_intro typed_ids typed_for_each assms; simp)+

end

section \<open>Reachable stores\<close>

text \<open>
  A step is an operation of the store in some application, whatever it answers; the storing of a string under another key
  of an application, as the token and blacklist functions do; or time going on.
\<close>

inductive store_step :: "redis_api \<Rightarrow> redis \<Rightarrow> redis \<Rightarrow> bool" for R where
  create: "colon_free a \<Longrightarrow> run_state (CreateSession R a s u rt ip ua ttl) r = (x, r') \<Longrightarrow> store_step R r r'"
| rotate: "colon_free a \<Longrightarrow> run_state (UpdateSessionRefreshToken R a s rt) r = (x, r') \<Longrightarrow> store_step R r r'"
| prolong: "colon_free a \<Longrightarrow> run_state (ResetSessionTTL R a s ttl) r = (x, r') \<Longrightarrow> store_step R r r'"
| touch: "colon_free a \<Longrightarrow> run_state (TouchSession R a s) r = (x, r') \<Longrightarrow> store_step R r r'"
| delete: "colon_free a \<Longrightarrow> run_state (DeleteSession R a s u) r = (x, r') \<Longrightarrow> store_step R r r'"
| delete_all: "colon_free a \<Longrightarrow> run_state (DeleteAllUserSessions R a u ex) r = (x, r') \<Longrightarrow> store_step R r r'"
| user_ids: "colon_free a \<Longrightarrow> run_state (GetUserSessionIDs R a u) r = (ids, r') \<Longrightarrow> store_step R r r'"
| app_ids: "colon_free a \<Longrightarrow> run_state (GetAppSessionIDs R a) r = (ids, r') \<Longrightarrow> store_step R r r'"
| token: "colon_free a \<Longrightarrow> colon_free f \<Longrightarrow> f \<notin> {''session'', ''user_sessions''} \<Longrightarrow>
    run_state (r_set R (app_key f a i) v d) r = (x, r') \<Longrightarrow> store_step R r r'"
| time: "rnow r \<le> t \<Longrightarrow> store_step R r (r\<lparr>rnow := t\<rparr>)"

inductive store_reach :: "redis_api \<Rightarrow> redis \<Rightarrow> bool" for R where
  empty: "store_reach R \<lparr>rdata = (\<lambda>k. None), rnow = t\<rparr>"
| step: "store_reach R r \<Longrightarrow> store_step R r r' \<Longrightarrow> store_reach R r'"

context redis_server
begin

lemma store_step_typed: "store_step R r r' \<Longrightarrow> typed_step r r'"
proof (induction rule: store_step.induct)
  case (time r t)
  then show ?case by (simp add: typed_step_def well_typed_def)
qed (auto dest: stableD[OF typed_operations(1)] stableD[OF typed_operations(2)] stableD[OF typed_operations(3)] stableD[OF typed_operations(4)]
      stableD[OF typed_operations(5)] stableD[OF typed_operations(6)] stableD[OF typed_ids(1)] stableD[OF typed_ids(2)]
      stableD[OF typed_set[OF sort_ok_other(2)]])

lemma store_reach_typed: "store_reach R r \<Longrightarrow> well_typed r"
proof (induction rule: store_reach.induct)
  case (step r r')
  then show ?case using store_step_typed[of r r'] by (simp add: typed_step_def)
qed (simp add: well_typed_def)

end

section \<open>No error\<close>

context reliable_redis
begin

lemma no_error_ids:
  assumes "well_typed r" and "colon_free a"
  shows "wp (GetUserSessionIDs R a u) (\<lambda>x _. \<exists>ids. x = Inr ids) r" "wp (GetAppSessionIDs R a) (\<lambda>x _. \<exists>ids. x = Inr ids) r"
proof -
  have g: "wp (r_smembers R k \<bind> (\<lambda>res. case res of Inl e \<Rightarrow> ret (Inl e) | Inr ids \<Rightarrow> f ids \<bind> (\<lambda>v. ret (Inr v)))) (\<lambda>x _. \<exists>ids. x = Inr ids) r"
    if up: "\<forall>t. set_of (entry_at t (rdata r) k) \<noteq> None" for k and f :: "string list \<Rightarrow> (redis, string list) state"
  proof (rule wp_bind, rule wp_u_smembers, goal_cases)
    case (1 x r')
    then have "rdata r' = rdata r" by (simp add: smembers_post_def reads_def)
    then obtain ids where x: "x = Inr ids" using 1(2) up by (cases x) auto
    show ?case unfolding x sum.case by (rule wp_bind, rule wp_any, rule wp_return) simp
  qed
  show "wp (GetUserSessionIDs R a u) (\<lambda>x _. \<exists>ids. x = Inr ids) r"
    unfolding GetUserSessionIDs_def Let_def by (intro g allI well_typed_entry(2)[OF assms])
  show "wp (GetAppSessionIDs R a) (\<lambda>x _. \<exists>ids. x = Inr ids) r"
    unfolding GetAppSessionIDs_def Let_def by (intro g allI well_typed_entry(3)[OF assms])
qed

lemma no_error_delete:
  assumes "well_typed r" and "colon_free a"
  shows "wp (DeleteSession R a s u) (\<lambda>x _. x = None) r" "wp (DeleteAllUserSessions R a u ex) (\<lambda>x _. x = None) r"
proof -
  show "wp (DeleteSession R a s u) (\<lambda>x _. x = None) r"
    unfolding DeleteSession_def
    by (rule wp_bind, rule wp_u_del, unfold option.case, rule wp_bind, rule wp_any, rule wp_bind, rule wp_any, rule wp_bind, rule wp_any)
       (rule wp_return, simp)
  show "wp (DeleteAllUserSessions R a u ex) (\<lambda>x _. x = None) r"
    unfolding DeleteAllUserSessions_def
  proof (rule wp_bind, rule wp_mono[OF no_error_ids(1)[OF assms]], elim exE, hypsubst, unfold sum.case, goal_cases)
    case 1
    show ?case by (rule wp_bind, rule wp_any, rule wp_Let, rule wp_bind, rule wp_any, rule wp_return) simp
  qed
qed

lemma wp_expire_up: "wp (r_expire R k d) (\<lambda>e _. e = None) r"
  by (rule wp_u_expire) simp

lemma no_error_create:
  assumes "well_typed r" and "colon_free a"
  shows "wp (CreateSession R a s u rt ip ua ttl) (\<lambda>x _. x = None) r"
  unfolding CreateSession_def Let_def
proof (rule wp_bind, rule wp_time_now, rule wp_bind, rule wp_time_now, rule wp_bind, rule wp_u_hset, goal_cases)
  case (1 x r1)
  then have x: "x = None" using well_typed_entry(1)[OF assms] by blast
  have "typed_step r r1" using 1 by (intro typed_write[where k = "SessionKey a s"]) (auto simp: hset_post_def Let_def sort_ok_session assms)
  then have "well_typed r1" using assms(1) by (simp add: typed_step_def)
  show ?case unfolding x option.case
  proof (rule wp_bind, rule wp_mono[OF wp_conj[OF wp_stable[OF typed_expire[of "SessionKey a s" ttl]] wp_expire_up]], assumption, elim conjE, hypsubst, unfold option.case, goal_cases)
    case (1 y r2)
    with \<open>well_typed r1\<close> have "well_typed r2" by (simp add: typed_step_def)
    show ?case
    proof (rule wp_bind, rule wp_u_sadd, goal_cases)
      case (1 y r3)
      then have y: "y = None" using well_typed_entry(2)[OF \<open>well_typed r2\<close> assms(2)] by blast
      show ?case unfolding y option.case
        by (rule wp_bind, rule wp_any, rule wp_bind, rule wp_any, rule wp_bind, rule wp_any, rule wp_bind, rule wp_any) (rule wp_return, simp)
    qed
  qed
qed

end

section \<open>The property\<close>

text \<open>
  C40: the session store never meets a value of the wrong type.  In every store reached from the empty one by its
  operations and by tokens stored under other keys, sessions are hashes and indexes are sets; so, as long as the server is up, a session
  is created, deleted, listed and revoked without error.
\<close>

theorem store_well_typed:
  assumes "reliable_redis R" and "store_reach R r" and "colon_free a"
  shows "well_typed r \<and> fst (run_state (CreateSession R a s u rt ip ua ttl) r) = None \<and>
    fst (run_state (DeleteSession R a s u) r) = None \<and> fst (run_state (DeleteAllUserSessions R a u ex) r) = None \<and>
    (\<exists>ids. fst (run_state (GetUserSessionIDs R a u) r) = Inr ids) \<and> (\<exists>ids. fst (run_state (GetAppSessionIDs R a) r) = Inr ids)"
proof -
  have "redis_server R" using assms(1) by (simp add: reliable_redis_def)
  then have t: "well_typed r" using redis_server.store_reach_typed assms(2) by blast
  then show ?thesis
    using reliable_redis.no_error_create[OF assms(1) t assms(3), THEN wp_fst] reliable_redis.no_error_delete[OF assms(1) t assms(3), THEN wp_fst]
      reliable_redis.no_error_ids[OF assms(1) t assms(3), THEN wp_fst] by blast
qed

definition demo_stored :: "rerr option \<times> redis" where
  "demo_stored = run_state (CreateSession demo_redis ''a'' ''s'' ''u'' ''t'' ''i'' ''b'' hour) empty_redis"

theorem store_well_typed_witness:
  "store_reach demo_redis (snd demo_stored) \<and> fst (run_state (DeleteAllUserSessions demo_redis ''a'' ''u'' []) (snd demo_stored)) = None"
proof -
  have "store_reach demo_redis empty_redis" unfolding empty_redis_def by (rule store_reach.empty)
  moreover have "store_step demo_redis empty_redis (snd demo_stored)"
    by (rule store_step.create[of "''a''"]) (simp_all add: demo_stored_def prod_eq_iff)
  ultimately have "store_reach demo_redis (snd demo_stored)" by (rule store_reach.step)
  with store_well_typed[OF ref.reliable_redis_axioms this, of "''a''"] show ?thesis by simp
qed

end
