(* ===== verification/Webhook.thy ===== *)
theory Webhook
  imports Models Http
begin

text \<open>
  \<open>internal/webhook\<close>: the endpoints applications register for events, the delivery of events to them with a
  signature, and the worker that tries failed deliveries again.  The goroutine of each delivery runs in place.
\<close>

section \<open>Tables\<close>

record WebhookEndpoint =
  we_ID :: string
  we_AppID :: string
  we_EventType :: string
  we_URL :: string
  we_Secret :: string
  we_IsActive :: bool
  we_CreatedAt :: instant
  we_UpdatedAt :: instant
  we_DeletedAt :: "instant option"

record WebhookDelivery =
  wd_ID :: string
  wd_EndpointID :: string
  wd_AppID :: string
  wd_EventType :: string
  wd_Payload :: string
  wd_Attempt :: int
  wd_StatusCode :: int
  wd_ResponseBody :: string
  wd_LatencyMs :: int
  wd_Success :: bool
  wd_ErrorMessage :: string
  wd_NextRetryAt :: "instant option"
  wd_CreatedAt :: instant

text \<open>The unique index on application and event also counts endpoints that are deleted.\<close>

definition endpoint_clash :: "WebhookEndpoint \<Rightarrow> WebhookEndpoint \<Rightarrow> bool" where
  "endpoint_clash x y \<longleftrightarrow> we_ID x = we_ID y \<or> we_AppID x = we_AppID y \<and> we_EventType x = we_EventType y"

definition delivery_clash :: "WebhookDelivery \<Rightarrow> WebhookDelivery \<Rightarrow> bool" where
  "delivery_clash x y \<longleftrightarrow> wd_ID x = wd_ID y"

definition ValidEventTypes :: "string list" where
  "ValidEventTypes = [''user.registered'', ''user.verified'', ''user.login'', ''user.password_changed'', ''2fa.enabled'',
     ''2fa.disabled'', ''social.linked'', ''social.unlinked'']"

text \<open>The process with these tables, and the requests it has posted: address, headers and body, newest first.\<close>

record hworld = world +
  w_endpoints :: "WebhookEndpoint list"
  w_deliveries :: "WebhookDelivery list"
  w_posts :: "(string \<times> (string \<times> string) list \<times> string) list"

definition eps_of :: "(WebhookEndpoint list, 'a) state \<Rightarrow> (hworld, 'a) state" where
  "eps_of m = State (\<lambda>w. case run_state m (w_endpoints w) of (a, t) \<Rightarrow> (a, w\<lparr>w_endpoints := t\<rparr>))"

definition dels_of :: "(WebhookDelivery list, 'a) state \<Rightarrow> (hworld, 'a) state" where
  "dels_of m = State (\<lambda>w. case run_state m (w_deliveries w) of (a, t) \<Rightarrow> (a, w\<lparr>w_deliveries := t\<rparr>))"

lemma run_hook_lifts [simp]:
  "run_state (eps_of m1) w = (case run_state m1 (w_endpoints w) of (a, t) \<Rightarrow> (a, w\<lparr>w_endpoints := t\<rparr>))"
  "run_state (dels_of m2) w = (case run_state m2 (w_deliveries w) of (a, t) \<Rightarrow> (a, w\<lparr>w_deliveries := t\<rparr>))"
  by (simp_all add: eps_of_def dels_of_def)

lemma wp_hook_lifts [wp_intro]:
  "wp m1 (\<lambda>a t. Q1 a (w\<lparr>w_endpoints := t\<rparr>)) (w_endpoints w) \<Longrightarrow> wp (eps_of m1) Q1 w"
  "wp m2 (\<lambda>a t. Q2 a (w\<lparr>w_deliveries := t\<rparr>)) (w_deliveries w) \<Longrightarrow> wp (dels_of m2) Q2 w"
  by (simp_all add: wp_def split: prod.splits)

text \<open>
  What a POST comes to: the request cannot be built; it goes out and there is no answer, after so many
  milliseconds; or an answer with status and body.
\<close>

datatype posted = NoRequest string | NoReply int string | Replied int int string

record Payload =
  pl_EventType :: string
  pl_AppID :: string
  pl_Timestamp :: string
  pl_Data :: string

record hook_env =
  hk_endpoints :: "WebhookEndpoint table_api"
  hk_deliveries :: "WebhookDelivery table_api"
  hk_uuid :: "nat \<Rightarrow> string"
  hk_parse :: "string \<Rightarrow> string option"
  hk_random_hex :: "nat \<Rightarrow> string + string"
  hk_hmac :: "string \<Rightarrow> string \<Rightarrow> string"
  hk_json :: "Payload \<Rightarrow> string"
  http_post :: "nat \<Rightarrow> string \<Rightarrow> (string \<times> string) list \<Rightarrow> string \<Rightarrow> posted"

section \<open>\<open>repository.go\<close>\<close>

definition CreateEndpoint :: "hook_env \<Rightarrow> WebhookEndpoint \<Rightarrow> (hworld, dberr + WebhookEndpoint) state" where
  "CreateEndpoint H ep = do {
     newID \<leftarrow> draw (hk_uuid H);
     now \<leftarrow> rds time_now;
     let row = ep\<lparr>we_ID := newID, we_CreatedAt := now, we_UpdatedAt := now\<rparr>;
     err \<leftarrow> eps_of (t_create (hk_endpoints H) row);
     ret (case err of Some e \<Rightarrow> Inl e | None \<Rightarrow> Inr row) }"

definition GetEndpointByID :: "hook_env \<Rightarrow> string \<Rightarrow> (hworld, dberr + WebhookEndpoint) state" where
  "GetEndpointByID H i = eps_of (t_first (hk_endpoints H) (\<lambda>e. we_ID e = i \<and> we_DeletedAt e = None))"

definition GetEndpointByAppAndEvent :: "hook_env \<Rightarrow> string \<Rightarrow> string \<Rightarrow> (hworld, dberr + WebhookEndpoint) state" where
  "GetEndpointByAppAndEvent H appID eventType =
     eps_of (t_first (hk_endpoints H) (\<lambda>e. we_AppID e = appID \<and> we_EventType e = eventType \<and> we_DeletedAt e = None))"

text \<open>\<open>Count\<close>, then \<open>Order\<close>, \<open>Offset\<close> and \<open>Limit\<close>, newest first.\<close>

definition paged :: "'row table_api \<Rightarrow> ('row \<Rightarrow> bool) \<Rightarrow> ('row \<Rightarrow> instant) \<Rightarrow> nat \<Rightarrow> nat \<Rightarrow> ('row list, dberr + 'row list \<times> nat) state" where
  "paged T p created page pageSize = do {
     res \<leftarrow> t_count T p;
     case res of Inl e \<Rightarrow> ret (Inl e) | Inr n \<Rightarrow> do {
     res \<leftarrow> t_find T p (\<lambda>x. - created x);
     ret (case res of Inl e \<Rightarrow> Inl e | Inr rows \<Rightarrow> Inr (take pageSize (drop ((page - 1) * pageSize) rows), n)) } }"

definition repo_ListEndpointsByApp :: "hook_env \<Rightarrow> string \<Rightarrow> nat \<Rightarrow> nat \<Rightarrow> (hworld, dberr + WebhookEndpoint list \<times> nat) state" where
  "repo_ListEndpointsByApp H appID page pageSize =
     eps_of (paged (hk_endpoints H) (\<lambda>e. we_AppID e = appID \<and> we_DeletedAt e = None) we_CreatedAt page pageSize)"

definition repo_ListAllEndpoints :: "hook_env \<Rightarrow> nat \<Rightarrow> nat \<Rightarrow> (hworld, dberr + WebhookEndpoint list \<times> nat) state" where
  "repo_ListAllEndpoints H page pageSize =
     eps_of (paged (hk_endpoints H) (\<lambda>e. we_DeletedAt e = None) we_CreatedAt page pageSize)"

definition GetActiveEndpointsForEvent :: "hook_env \<Rightarrow> string \<Rightarrow> string \<Rightarrow> (hworld, dberr + WebhookEndpoint list) state" where
  "GetActiveEndpointsForEvent H appID eventType = eps_of (t_find (hk_endpoints H)
     (\<lambda>e. we_AppID e = appID \<and> we_EventType e = eventType \<and> we_IsActive e \<and> we_DeletedAt e = None) (\<lambda>_. 0))"

definition UpdateEndpointActive :: "hook_env \<Rightarrow> string \<Rightarrow> bool \<Rightarrow> (hworld, dberr option) state" where
  "UpdateEndpointActive H i isActive = do {
     now \<leftarrow> rds time_now;
     eps_of (t_update (hk_endpoints H) (\<lambda>e. we_ID e = i) (\<lambda>e. e\<lparr>we_IsActive := isActive, we_UpdatedAt := now\<rparr>)) }"

definition SoftDeleteEndpoint :: "hook_env \<Rightarrow> string \<Rightarrow> (hworld, dberr option) state" where
  "SoftDeleteEndpoint H i = do {
     now \<leftarrow> rds time_now;
     eps_of (t_update (hk_endpoints H) (\<lambda>e. we_ID e = i) (\<lambda>e. e\<lparr>we_DeletedAt := Some now, we_UpdatedAt := now\<rparr>)) }"

definition CreateDelivery :: "hook_env \<Rightarrow> WebhookDelivery \<Rightarrow> (hworld, dberr option) state" where
  "CreateDelivery H d = do {
     now \<leftarrow> rds time_now;
     dels_of (t_create (hk_deliveries H) (d\<lparr>wd_CreatedAt := now\<rparr>)) }"

definition GetDeliveriesByEndpoint :: "hook_env \<Rightarrow> string \<Rightarrow> nat \<Rightarrow> nat \<Rightarrow> (hworld, dberr + WebhookDelivery list \<times> nat) state" where
  "GetDeliveriesByEndpoint H endpointID page pageSize =
     dels_of (paged (hk_deliveries H) (\<lambda>d. wd_EndpointID d = endpointID) wd_CreatedAt page pageSize)"

definition GetDeliveriesByApp :: "hook_env \<Rightarrow> string \<Rightarrow> nat \<Rightarrow> nat \<Rightarrow> (hworld, dberr + WebhookDelivery list \<times> nat) state" where
  "GetDeliveriesByApp H appID page pageSize =
     dels_of (paged (hk_deliveries H) (\<lambda>d. wd_AppID d = appID) wd_CreatedAt page pageSize)"

definition due :: "instant \<Rightarrow> WebhookDelivery \<Rightarrow> bool" where
  "due now d \<longleftrightarrow> \<not> wd_Success d \<and> (case wd_NextRetryAt d of None \<Rightarrow> False | Some t \<Rightarrow> t \<le> now)"

definition GetPendingRetries :: "hook_env \<Rightarrow> instant \<Rightarrow> nat \<Rightarrow> (hworld, dberr + WebhookDelivery list) state" where
  "GetPendingRetries H now n = do {
     res \<leftarrow> dels_of (t_find (hk_deliveries H) (due now) (\<lambda>d. case_option 0 id (wd_NextRetryAt d)));
     ret (case res of Inl e \<Rightarrow> Inl e | Inr ds \<Rightarrow> Inr (take n ds)) }"

definition ClearRetrySchedule :: "hook_env \<Rightarrow> string \<Rightarrow> (hworld, dberr option) state" where
  "ClearRetrySchedule H i = dels_of (t_update (hk_deliveries H) (\<lambda>d. wd_ID d = i) (\<lambda>d. d\<lparr>wd_NextRetryAt := None\<rparr>))"

end
