(* ===== verification/WebhookService.thy ===== *)
theory WebhookService
  imports Webhook
begin

text \<open>
  \<open>internal/webhook/service.go\<close> and \<open>handler.go\<close>: registration, dispatch, delivery, the retry worker, and
  the management endpoints of administrators and applications.
\<close>

section \<open>Endpoints\<close>

definition maxAttempts :: int where "maxAttempts = 5"
definition maxResponseBytes :: nat where "maxResponseBytes = 1024"
definition secretPrefix :: string where "secretPrefix = ''whsec_''"

definition db_text :: "dberr \<Rightarrow> string" where
  "db_text e = (case e of NotFound \<Rightarrow> ''record not found'' | DBFail m \<Rightarrow> m)"

definition isValidEventType :: "string \<Rightarrow> bool" where
  "isValidEventType eventType = list_ex (\<lambda>v. v = eventType) ValidEventTypes"

text \<open>The answer has the endpoint and the secret in plain text.\<close>

definition RegisterEndpoint ::
    "hook_env \<Rightarrow> string \<Rightarrow> string \<Rightarrow> string \<Rightarrow> (hworld, string + WebhookEndpoint \<times> string) state" where
  "RegisterEndpoint H appID eventType url = (if \<not> isValidEventType eventType
     then ret (Inl (''unsupported event type: '' @ eventType)) else do {
     res \<leftarrow> draw (hk_random_hex H);
     case res of Inl e \<Rightarrow> ret (Inl (''failed to generate webhook secret: '' @ e)) | Inr rawSecret \<Rightarrow> do {
     let plaintextSecret = secretPrefix @ rawSecret;
     res \<leftarrow> CreateEndpoint H \<lparr>we_ID = [], we_AppID = appID, we_EventType = eventType, we_URL = url, we_Secret = plaintextSecret,
       we_IsActive = True, we_CreatedAt = 0, we_UpdatedAt = 0, we_DeletedAt = None\<rparr>;
     ret (case res of Inl e \<Rightarrow> Inl (''failed to create webhook endpoint: '' @ db_text e) | Inr ep \<Rightarrow> Inr (ep, plaintextSecret)) } })"

definition GetEndpoint :: "hook_env \<Rightarrow> string \<Rightarrow> (hworld, dberr + WebhookEndpoint) state" where
  "GetEndpoint H i = GetEndpointByID H i"

definition page_bounds :: "int \<Rightarrow> int \<Rightarrow> nat \<times> nat" where
  "page_bounds page pageSize = (if page < 1 then 1 else nat page, if pageSize < 1 \<or> 100 < pageSize then 20 else nat pageSize)"

definition ListEndpointsByApp :: "hook_env \<Rightarrow> string \<Rightarrow> int \<Rightarrow> int \<Rightarrow> (hworld, dberr + WebhookEndpoint list \<times> nat) state" where
  "ListEndpointsByApp H appID page pageSize = (let (p, s) = page_bounds page pageSize in repo_ListEndpointsByApp H appID p s)"

definition ListAllEndpoints :: "hook_env \<Rightarrow> int \<Rightarrow> int \<Rightarrow> (hworld, dberr + WebhookEndpoint list \<times> nat) state" where
  "ListAllEndpoints H page pageSize = (let (p, s) = page_bounds page pageSize in repo_ListAllEndpoints H p s)"

definition SetEndpointActive :: "hook_env \<Rightarrow> string \<Rightarrow> bool \<Rightarrow> (hworld, dberr option) state" where
  "SetEndpointActive H i isActive = UpdateEndpointActive H i isActive"

definition DeleteEndpoint :: "hook_env \<Rightarrow> string \<Rightarrow> (hworld, dberr option) state" where
  "DeleteEndpoint H i = SoftDeleteEndpoint H i"

definition ListDeliveriesByEndpoint :: "hook_env \<Rightarrow> string \<Rightarrow> int \<Rightarrow> int \<Rightarrow> (hworld, dberr + WebhookDelivery list \<times> nat) state" where
  "ListDeliveriesByEndpoint H i page pageSize = (let (p, s) = page_bounds page pageSize in GetDeliveriesByEndpoint H i p s)"

definition ListDeliveriesByApp :: "hook_env \<Rightarrow> string \<Rightarrow> int \<Rightarrow> int \<Rightarrow> (hworld, dberr + WebhookDelivery list \<times> nat) state" where
  "ListDeliveriesByApp H appID page pageSize = (let (p, s) = page_bounds page pageSize in GetDeliveriesByApp H appID p s)"

section \<open>Delivery\<close>

definition signPayload :: "hook_env \<Rightarrow> string \<Rightarrow> string \<Rightarrow> string" where
  "signPayload H secret payload = hk_hmac H secret payload"

text \<open>\<open>math.Pow\<close> is exact for the attempts it is called with, 1 to 4.\<close>

definition retryAt :: "int \<Rightarrow> (redis, instant) state" where
  "retryAt attempt = do {
     let delay = 2 ^ nat attempt * second;
     now \<leftarrow> time_now;
     ret (now + (if hour < delay then hour else delay)) }"

definition next_try :: "WebhookDelivery \<Rightarrow> (hworld, WebhookDelivery) state" where
  "next_try d = (if wd_Attempt d < maxAttempts then do {
     t \<leftarrow> rds (retryAt (wd_Attempt d));
     ret (d\<lparr>wd_NextRetryAt := Some t\<rparr>) } else ret d)"

definition scheduleRetryOrSave :: "hook_env \<Rightarrow> WebhookDelivery \<Rightarrow> (hworld, unit) state" where
  "scheduleRetryOrSave H d = do {
     d \<leftarrow> next_try d;
     err \<leftarrow> CreateDelivery H d;
     ret () }"

definition request_headers :: "hook_env \<Rightarrow> WebhookEndpoint \<Rightarrow> string \<Rightarrow> (string \<times> string) list" where
  "request_headers H ep payload = [(''Content-Type'', ''application/json''),
     (''X-Webhook-Signature'', ''sha256='' @ signPayload H (we_Secret ep) payload),
     (''X-Webhook-Event'', we_EventType ep), (''X-Webhook-App-ID'', we_AppID ep)]"

definition post :: "hook_env \<Rightarrow> WebhookEndpoint \<Rightarrow> string \<Rightarrow> (hworld, posted) state" where
  "post H ep payload = do {
     answer \<leftarrow> draw (\<lambda>n. http_post H n (we_URL ep) (request_headers H ep payload) payload);
     w \<leftarrow> State_Monad.get;
     (case answer of NoRequest e \<Rightarrow> ret ()
      | _ \<Rightarrow> State_Monad.set (w\<lparr>w_posts := (we_URL ep, request_headers H ep payload, payload) # w_posts w\<rparr>));
     ret answer }"

definition deliver :: "hook_env \<Rightarrow> WebhookEndpoint \<Rightarrow> WebhookDelivery \<Rightarrow> string \<Rightarrow> (hworld, unit) state" where
  "deliver H ep d payload = do {
     answer \<leftarrow> post H ep payload;
     case answer of
       NoRequest e \<Rightarrow> scheduleRetryOrSave H (d\<lparr>wd_ErrorMessage := ''failed to build request: '' @ e\<rparr>)
     | NoReply ms e \<Rightarrow> scheduleRetryOrSave H (d\<lparr>wd_LatencyMs := ms, wd_ErrorMessage := ''delivery error: '' @ e\<rparr>)
     | Replied ms status body \<Rightarrow> do {
         let d = d\<lparr>wd_LatencyMs := ms, wd_StatusCode := status, wd_ResponseBody := take maxResponseBytes body,
           wd_Success := (200 \<le> status \<and> status < 300)\<rparr>;
         d \<leftarrow> (if \<not> wd_Success d then next_try d else ret d);
         err \<leftarrow> CreateDelivery H d;
         ret () } }"

definition attempt_of :: "hook_env \<Rightarrow> string \<Rightarrow> string \<Rightarrow> string \<Rightarrow> string \<Rightarrow> int \<Rightarrow> (hworld, WebhookDelivery) state" where
  "attempt_of H endpointID appID eventType payload n = do {
     newID \<leftarrow> draw (hk_uuid H);
     ret \<lparr>wd_ID = newID, wd_EndpointID = endpointID, wd_AppID = appID, wd_EventType = eventType, wd_Payload = payload,
       wd_Attempt = n, wd_StatusCode = 0, wd_ResponseBody = [], wd_LatencyMs = 0, wd_Success = False, wd_ErrorMessage = [],
       wd_NextRetryAt = None, wd_CreatedAt = 0\<rparr> }"

text \<open>The data of the event comes as JSON, or not at all if it has none.\<close>

definition hook_Dispatch :: "hook_env \<Rightarrow> string \<Rightarrow> string \<Rightarrow> string option \<Rightarrow> (hworld, unit) state" where
  "hook_Dispatch H appID eventType data = do {
     res \<leftarrow> GetActiveEndpointsForEvent H appID eventType;
     case res of Inl e \<Rightarrow> ret () | Inr endpoints \<Rightarrow>
     if endpoints = [] then ret () else
     case data of None \<Rightarrow> ret () | Some dataJSON \<Rightarrow> do {
     now \<leftarrow> rds time_now;
     let payload = hk_json H \<lparr>pl_EventType = eventType, pl_AppID = appID, pl_Timestamp = rfc3339 now, pl_Data = dataJSON\<rparr>;
     for_each endpoints (\<lambda>ep. do {
       d \<leftarrow> attempt_of H (we_ID ep) appID eventType payload 1;
       deliver H ep d payload }) } }"

section \<open>The retry worker\<close>

text \<open>A due delivery whose endpoint is gone or disabled is not tried again; the lookup leaves out deleted ones.\<close>

definition retry :: "hook_env \<Rightarrow> WebhookDelivery \<Rightarrow> (hworld, unit) state" where
  "retry H d = do {
     res \<leftarrow> GetEndpointByID H (wd_EndpointID d);
     case res of
       Inr ep \<Rightarrow> (if we_DeletedAt ep \<noteq> None \<or> \<not> we_IsActive ep
         then do { err \<leftarrow> ClearRetrySchedule H (wd_ID d); ret () }
         else do {
           err \<leftarrow> ClearRetrySchedule H (wd_ID d);
           again \<leftarrow> attempt_of H (wd_EndpointID d) (wd_AppID d) (wd_EventType d) (wd_Payload d) (wd_Attempt d + 1);
           deliver H ep again (wd_Payload d) })
     | Inl e \<Rightarrow> do { err \<leftarrow> ClearRetrySchedule H (wd_ID d); ret () } }"

definition processRetries :: "hook_env \<Rightarrow> (hworld, unit) state" where
  "processRetries H = do {
     now \<leftarrow> rds time_now;
     res \<leftarrow> GetPendingRetries H now 100;
     case res of Inl e \<Rightarrow> ret () | Inr pending \<Rightarrow> for_each pending (retry H) }"

text \<open>The worker: one run of \<open>processRetries\<close> at each of the times it ticks before it is stopped.\<close>

definition wait_until :: "instant \<Rightarrow> (redis, unit) state" where
  "wait_until t = State (\<lambda>r. ((), r\<lparr>rnow := max (rnow r) t\<rparr>))"

fun retryWorker :: "hook_env \<Rightarrow> instant list \<Rightarrow> (hworld, unit) state" where
  "retryWorker H [] = ret ()"
| "retryWorker H (t # ticks) = do { rds (wait_until t); processRetries H; retryWorker H ticks }"

section \<open>Handlers\<close>

record WebhookEndpointResponse =
  er_ID :: string
  er_AppID :: string
  er_EventType :: string
  er_URL :: string
  er_IsActive :: bool
  er_CreatedAt :: string
  er_UpdatedAt :: string

record WebhookDeliveryResponse =
  dr_ID :: string
  dr_EndpointID :: string
  dr_AppID :: string
  dr_EventType :: string
  dr_Attempt :: int
  dr_StatusCode :: int
  dr_ResponseBody :: string
  dr_LatencyMs :: int
  dr_Success :: bool
  dr_ErrorMessage :: string
  dr_NextRetryAt :: "string option"
  dr_CreatedAt :: string

text \<open>A page of rows, how many there are, and which page of which size it is.\<close>

record 'row list_response =
  lr_Rows :: "'row list"
  lr_Total :: nat
  lr_Page :: int
  lr_PageSize :: int

definition toEndpointResponse :: "WebhookEndpoint \<Rightarrow> WebhookEndpointResponse" where
  "toEndpointResponse ep = \<lparr>er_ID = we_ID ep, er_AppID = we_AppID ep, er_EventType = we_EventType ep, er_URL = we_URL ep,
     er_IsActive = we_IsActive ep, er_CreatedAt = rfc3339 (we_CreatedAt ep), er_UpdatedAt = rfc3339 (we_UpdatedAt ep)\<rparr>"

definition toDeliveryResponse :: "WebhookDelivery \<Rightarrow> WebhookDeliveryResponse" where
  "toDeliveryResponse d = \<lparr>dr_ID = wd_ID d, dr_EndpointID = wd_EndpointID d, dr_AppID = wd_AppID d, dr_EventType = wd_EventType d,
     dr_Attempt = wd_Attempt d, dr_StatusCode = wd_StatusCode d, dr_ResponseBody = wd_ResponseBody d, dr_LatencyMs = wd_LatencyMs d,
     dr_Success = wd_Success d, dr_ErrorMessage = wd_ErrorMessage d, dr_NextRetryAt = map_option rfc3339 (wd_NextRetryAt d),
     dr_CreatedAt = rfc3339 (wd_CreatedAt d)\<rparr>"

text \<open>A query parameter that is absent reads as empty, which is no number either: both give the default.\<close>

definition parsePage :: "http_ctx \<Rightarrow> int \<times> int" where
  "parsePage c = (let page = case_option 0 id (atoi (Query c ''page'')); pageSize = case_option 0 id (atoi (Query c ''page_size''))
     in (if page < 1 then 1 else page, if pageSize < 1 \<or> 100 < pageSize then 20 else pageSize))"

definition list_reply :: "string \<Rightarrow> ('r \<Rightarrow> 's) \<Rightarrow> http_ctx \<Rightarrow> dberr + 'r list \<times> nat \<Rightarrow> 's list_response reply" where
  "list_reply err f c res = (let (page, pageSize) = parsePage c in case res of Inl e \<Rightarrow> RError 500 err
     | Inr (rows, n) \<Rightarrow> RJson 200 \<lparr>lr_Rows = map f rows, lr_Total = n, lr_Page = page, lr_PageSize = pageSize\<rparr>)"

definition with_uuid_param ::
    "hook_env \<Rightarrow> http_ctx \<Rightarrow> string \<Rightarrow> string \<Rightarrow> (string \<Rightarrow> (hworld, 'a reply) state) \<Rightarrow> (hworld, 'a reply) state" where
  "with_uuid_param H c p err body = (case hk_parse H (Param c p) of None \<Rightarrow> ret (RError 400 err) | Some i \<Rightarrow> body i)"

definition isConflict :: "string \<Rightarrow> bool" where
  "isConflict msg \<longleftrightarrow> Contains msg ''duplicate'' \<or> Contains msg ''unique'' \<or> Contains msg ''23505''"

definition AdminListEndpoints :: "hook_env \<Rightarrow> http_ctx \<Rightarrow> (hworld, WebhookEndpointResponse list_response reply) state" where
  "AdminListEndpoints H c = (let (page, pageSize) = parsePage c in do {
     res \<leftarrow> ListAllEndpoints H page pageSize;
     ret (list_reply ''Failed to list webhook endpoints'' toEndpointResponse c res) })"

definition create_endpoint ::
    "hook_env \<Rightarrow> string \<Rightarrow> string + (string \<times> string) \<Rightarrow> (hworld, (WebhookEndpointResponse \<times> string) reply) state" where
  "create_endpoint H appID body = with_body body (\<lambda>(eventType, url). do {
     res \<leftarrow> RegisterEndpoint H appID eventType url;
     ret (case res of Inl e \<Rightarrow> RError (if isConflict e then 409 else 400) e
       | Inr (ep, secret) \<Rightarrow> RJson 201 (toEndpointResponse ep, secret)) })"

definition AdminCreateEndpoint ::
    "hook_env \<Rightarrow> string + (string \<times> string) \<Rightarrow> http_ctx \<Rightarrow> (hworld, (WebhookEndpointResponse \<times> string) reply) state" where
  "AdminCreateEndpoint H body c = with_uuid_param H c ''app_id'' ''Invalid app_id'' (\<lambda>appID. create_endpoint H appID body)"

definition list_endpoints :: "hook_env \<Rightarrow> string \<Rightarrow> http_ctx \<Rightarrow> (hworld, WebhookEndpointResponse list_response reply) state" where
  "list_endpoints H appID c = (let (page, pageSize) = parsePage c in do {
     res \<leftarrow> ListEndpointsByApp H appID page pageSize;
     ret (list_reply ''Failed to list webhook endpoints'' toEndpointResponse c res) })"

definition AdminListEndpointsByApp :: "hook_env \<Rightarrow> http_ctx \<Rightarrow> (hworld, WebhookEndpointResponse list_response reply) state" where
  "AdminListEndpointsByApp H c = with_uuid_param H c ''app_id'' ''Invalid app_id'' (\<lambda>appID. list_endpoints H appID c)"

definition toggle_endpoint :: "hook_env \<Rightarrow> string + bool \<Rightarrow> string \<Rightarrow> (hworld, string reply) state" where
  "toggle_endpoint H body i = with_body body (\<lambda>isActive. do {
     err \<leftarrow> SetEndpointActive H i isActive;
     ret (if err = None then RJson 200 ''Webhook endpoint updated'' else RError 500 ''Failed to update endpoint'') })"

definition AdminToggleEndpoint :: "hook_env \<Rightarrow> string + bool \<Rightarrow> http_ctx \<Rightarrow> (hworld, string reply) state" where
  "AdminToggleEndpoint H body c = with_uuid_param H c ''id'' ''Invalid endpoint ID'' (toggle_endpoint H body)"

definition delete_endpoint :: "hook_env \<Rightarrow> string \<Rightarrow> (hworld, string reply) state" where
  "delete_endpoint H i = do {
     err \<leftarrow> DeleteEndpoint H i;
     ret (if err = None then RJson 200 ''Webhook endpoint deleted'' else RError 500 ''Failed to delete endpoint'') }"

definition AdminDeleteEndpoint :: "hook_env \<Rightarrow> http_ctx \<Rightarrow> (hworld, string reply) state" where
  "AdminDeleteEndpoint H c = with_uuid_param H c ''id'' ''Invalid endpoint ID'' (delete_endpoint H)"

definition list_deliveries :: "hook_env \<Rightarrow> http_ctx \<Rightarrow> string \<Rightarrow> (hworld, WebhookDeliveryResponse list_response reply) state" where
  "list_deliveries H c i = (let (page, pageSize) = parsePage c in do {
     res \<leftarrow> ListDeliveriesByEndpoint H i page pageSize;
     ret (list_reply ''Failed to fetch delivery logs'' toDeliveryResponse c res) })"

definition AdminListDeliveriesByEndpoint :: "hook_env \<Rightarrow> http_ctx \<Rightarrow> (hworld, WebhookDeliveryResponse list_response reply) state" where
  "AdminListDeliveriesByEndpoint H c = with_uuid_param H c ''id'' ''Invalid endpoint ID'' (list_deliveries H c)"

definition AdminListDeliveriesByApp :: "hook_env \<Rightarrow> http_ctx \<Rightarrow> (hworld, WebhookDeliveryResponse list_response reply) state" where
  "AdminListDeliveriesByApp H c = with_uuid_param H c ''app_id'' ''Invalid app_id'' (\<lambda>appID. let (page, pageSize) = parsePage c in do {
     res \<leftarrow> ListDeliveriesByApp H appID page pageSize;
     ret (list_reply ''Failed to fetch delivery logs'' toDeliveryResponse c res) })"

definition AppCreateEndpoint ::
    "hook_env \<Rightarrow> string + (string \<times> string) \<Rightarrow> http_ctx \<Rightarrow> (hworld, (WebhookEndpointResponse \<times> string) reply) state" where
  "AppCreateEndpoint H body c = with_uuid_param H c ''id'' ''Invalid app ID'' (\<lambda>appID. create_endpoint H appID body)"

definition AppListEndpoints :: "hook_env \<Rightarrow> http_ctx \<Rightarrow> (hworld, WebhookEndpointResponse list_response reply) state" where
  "AppListEndpoints H c = with_uuid_param H c ''id'' ''Invalid app ID'' (\<lambda>appID. list_endpoints H appID c)"

text \<open>The application of the path is parsed, and not used any further, by the next three.\<close>

definition AppToggleEndpoint :: "hook_env \<Rightarrow> string + bool \<Rightarrow> http_ctx \<Rightarrow> (hworld, string reply) state" where
  "AppToggleEndpoint H body c = with_uuid_param H c ''id'' ''Invalid app ID'' (\<lambda>_.
     with_uuid_param H c ''endpoint_id'' ''Invalid endpoint ID'' (toggle_endpoint H body))"

definition AppDeleteEndpoint :: "hook_env \<Rightarrow> http_ctx \<Rightarrow> (hworld, string reply) state" where
  "AppDeleteEndpoint H c = with_uuid_param H c ''id'' ''Invalid app ID'' (\<lambda>_.
     with_uuid_param H c ''endpoint_id'' ''Invalid endpoint ID'' (delete_endpoint H))"

definition AppListDeliveries :: "hook_env \<Rightarrow> http_ctx \<Rightarrow> (hworld, WebhookDeliveryResponse list_response reply) state" where
  "AppListDeliveries H c = with_uuid_param H c ''id'' ''Invalid app ID'' (\<lambda>_.
     with_uuid_param H c ''endpoint_id'' ''Invalid endpoint ID'' (list_deliveries H c))"

end
