(* ===== verification/WebhookSpec.thy ===== *)
theory WebhookSpec
  imports WebhookService UserProofs Demo
begin

text \<open>
  Properties of webhooks: what is posted to whom and with which signature, and that the retries of a
  delivery run out.
\<close>

section \<open>Attempts that are left\<close>

text \<open>A delivery that will be tried again has failed and has attempts left.\<close>

definition good_delivery :: "WebhookDelivery \<Rightarrow> bool" where
  "good_delivery d \<longleftrightarrow> 1 \<le> wd_Attempt d \<and> wd_Attempt d \<le> maxAttempts \<and>
     (wd_NextRetryAt d \<noteq> None \<longrightarrow> \<not> wd_Success d \<and> wd_Attempt d < maxAttempts)"

definition attempts_left :: "WebhookDelivery \<Rightarrow> nat" where
  "attempts_left d = (if wd_NextRetryAt d = None then 0 else nat (maxAttempts - wd_Attempt d))"

definition good_deliveries :: "hworld \<Rightarrow> bool" where
  "good_deliveries w \<longleftrightarrow> no_clash delivery_clash (w_deliveries w) \<and> (\<forall>d\<in>set (w_deliveries w). good_delivery d)"

text \<open>Requests posted, and requests that can still come of what is scheduled.\<close>

definition potential :: "hworld \<Rightarrow> nat" where
  "potential w = length (w_posts w) + sum_list (map attempts_left (w_deliveries w))"

locale hook_stack =
  eps: table_server "hk_endpoints H" endpoint_clash + dels: table_server "hk_deliveries H" delivery_clash for H :: hook_env
begin

lemma wp_next_try:
  assumes "1 \<le> wd_Attempt d" and "wd_Attempt d \<le> maxAttempts" and "\<not> wd_Success d" and "wd_NextRetryAt d = None"
    and "\<And>d'. good_delivery d' \<Longrightarrow> attempts_left d' \<le> nat (maxAttempts - wd_Attempt d) \<Longrightarrow> Q d' w"
  shows "wp (next_try d) Q w"
  unfolding next_try_def retryAt_def
  by (intro wp_if wp_bind wp_rds wp_Let wp_time_now wp_return)
     (use assms in \<open>auto simp: good_delivery_def attempts_left_def\<close>)

lemma wp_CreateDelivery:
  assumes "good_deliveries w" and "good_delivery d"
    and "\<And>e w'. good_deliveries w' \<Longrightarrow> w_posts w' = w_posts w \<Longrightarrow> set (w_deliveries w) \<subseteq> set (w_deliveries w') \<Longrightarrow> potential w' \<le> potential w + attempts_left d \<Longrightarrow> Q e w'"
  shows "wp (CreateDelivery H d) Q w"
  unfolding CreateDelivery_def
proof (rule wp_bind, rule wp_rds, rule wp_time_now, rule wp_hook_lifts(2), rule wpI, goal_cases)
  case (1 e rows)
  let ?d = "d\<lparr>wd_CreatedAt := rnow (w_redis w)\<rparr>"
  have d: "good_delivery ?d" "attempts_left ?d = attempts_left d" using assms(2) by (simp_all add: good_delivery_def attempts_left_def)
  have "rows = w_deliveries w \<or> rows = w_deliveries w @ [?d]" using dels.create[OF 1] by (simp add: applied_post_def)
  moreover have "no_clash delivery_clash rows"
    using dels.create_unique[OF 1] assms(1) by (simp add: good_deliveries_def)
  ultimately show ?case
    using assms(1) d by (intro assms(3)) (auto simp: good_deliveries_def potential_def)
qed

text \<open>An attempt posts one request and schedules at most the attempts that are left after it.\<close>

lemma wp_deliver:
  assumes "good_deliveries w" and "1 \<le> wd_Attempt d" and "wd_Attempt d \<le> maxAttempts" and "\<not> wd_Success d" and "wd_NextRetryAt d = None"
    and "\<And>w'. good_deliveries w' \<Longrightarrow> set (w_deliveries w) \<subseteq> set (w_deliveries w') \<Longrightarrow>
      potential w' \<le> potential w + 1 + nat (maxAttempts - wd_Attempt d) \<Longrightarrow> Q () w'"
  shows "wp (deliver H ep d payload) Q w"
proof -
  have save: "wp (CreateDelivery H d' \<bind> (\<lambda>err. ret ())) Q w1"
    if "good_deliveries w1" "w_deliveries w1 = w_deliveries w" "length (w_posts w1) \<le> length (w_posts w) + 1" "good_delivery d'"
      "attempts_left d' \<le> nat (maxAttempts - wd_Attempt d)" for d' w1
    by (rule wp_bind, rule wp_CreateDelivery[OF that(1,4)], rule wp_return, rule assms(6)) (use that in \<open>auto simp: potential_def\<close>)
  have schedule: "wp (next_try d' \<bind> (\<lambda>d. CreateDelivery H d \<bind> (\<lambda>err. ret ()))) Q w1"
    if "good_deliveries w1" "w_deliveries w1 = w_deliveries w" "length (w_posts w1) \<le> length (w_posts w) + 1"
      "wd_Attempt d' = wd_Attempt d" "\<not> wd_Success d'" "wd_NextRetryAt d' = None" for d' w1
    by (rule wp_bind, rule wp_next_try) (use that assms(2,3) save in auto)
  have post: "wp (post H ep payload) (\<lambda>a w'. good_deliveries w' \<and> w_deliveries w' = w_deliveries w \<and>
      length (w_posts w') \<le> length (w_posts w) + 1) w"
    unfolding post_def
    by (rule wp_bind, rule wp_draw, rule wp_bind, rule wp_get, rule wp_bind)
       (use assms(1) in \<open>auto intro!: wp_return wp_set simp: good_deliveries_def split: posted.split\<close>)
  show ?thesis unfolding deliver_def
  proof (rule wp_bind, rule wp_mono[OF post], elim conjE, goal_cases)
    case (1 a w1)
    show ?case
    proof (cases a)
      case (Replied ms status body)
      have fin: "good_delivery (d\<lparr>wd_LatencyMs := ms, wd_StatusCode := status, wd_ResponseBody := b, wd_Success := ok\<rparr>)"
        "attempts_left (d\<lparr>wd_LatencyMs := ms, wd_StatusCode := status, wd_ResponseBody := b, wd_Success := ok\<rparr>) = 0" for b ok
        using assms by (simp_all add: good_delivery_def attempts_left_def)
      show ?thesis unfolding Replied posted.case
        using 1 assms fin
        by (auto intro!: schedule save simp: Let_def)
    qed (use 1 assms(4,5) in \<open>auto simp: scheduleRetryOrSave_def intro!: schedule\<close>)
  qed
qed

end

section \<open>Retries\<close>

locale live_hooks =
  eps: table_server "hk_endpoints H" endpoint_clash + dels: reliable_table "hk_deliveries H" delivery_clash for H :: hook_env

sublocale live_hooks \<subseteq> hook_stack
  by (simp add: hook_stack_def eps.table_server_axioms dels.table_server_axioms)

lemma sum_clear:
  assumes "no_clash delivery_clash rows" and "d \<in> set rows"
  shows "sum_list (map attempts_left (update_rows (\<lambda>x. wd_ID x = wd_ID d) (\<lambda>x. x\<lparr>wd_NextRetryAt := None\<rparr>) rows)) + attempts_left d =
    sum_list (map attempts_left rows)"
  using assms
proof (induction rows)
  case (Cons x rows)
  have none: "update_rows (\<lambda>x. wd_ID x = wd_ID d) (\<lambda>x. x\<lparr>wd_NextRetryAt := None\<rparr>) rows = rows" if "\<forall>y\<in>set rows. wd_ID y \<noteq> wd_ID d"
    using that by (auto simp: update_rows_def intro: map_idI)
  have "\<forall>y\<in>set rows. wd_ID y \<noteq> wd_ID x" using Cons.prems(1) by (auto simp: no_clash_def delivery_clash_def)
  with Cons none show ?case
    by (cases "d = x") (auto simp: update_rows_def no_clash_def attempts_left_def)
qed simp

definition cleared :: "string \<Rightarrow> hworld \<Rightarrow> hworld" where
  "cleared i w = w\<lparr>w_deliveries := update_rows (\<lambda>x. wd_ID x = i) (\<lambda>x. x\<lparr>wd_NextRetryAt := None\<rparr>) (w_deliveries w)\<rparr>"

lemma good_cleared: "good_deliveries w \<Longrightarrow> good_deliveries (cleared i w)"
proof -
  assume g: "good_deliveries w"
  have "no_clash delivery_clash (w_deliveries (cleared i w))"
    using g by (auto simp: good_deliveries_def cleared_def update_rows_def no_clash_def sorted_wrt_map delivery_clash_def
        elim!: sorted_wrt_mono_rel[rotated] split: if_splits)
  with g show ?thesis by (auto simp: good_deliveries_def cleared_def update_rows_def good_delivery_def)
qed

context live_hooks
begin

lemma wp_clear:
  "good_deliveries w \<Longrightarrow> Q None (cleared i w) \<Longrightarrow> wp (ClearRetrySchedule H i) Q w"
  unfolding ClearRetrySchedule_def cleared_def
  by (rule wp_hook_lifts(2), rule dels.wp_u_update)
     (use good_cleared[of w i] in \<open>simp_all add: good_deliveries_def cleared_def\<close>)

text \<open>A retry uses up one attempt, and touches no other delivery.\<close>

lemma wp_retry:
  assumes "good_deliveries w" and "d \<in> set (w_deliveries w)" and "wd_NextRetryAt d \<noteq> None"
  shows "wp (retry H d) (\<lambda>_ w'. good_deliveries w' \<and> {x \<in> set (w_deliveries w). wd_ID x \<noteq> wd_ID d} \<subseteq> set (w_deliveries w') \<and>
     potential w' \<le> potential w) w"
proof -
  have d: "good_delivery d" using assms(1,2) by (simp add: good_deliveries_def)
  let ?w = "cleared (wd_ID d) w"
  have p: "potential ?w + attempts_left d = potential w"
    using sum_clear[OF _ assms(2)] assms(1) by (simp add: potential_def cleared_def good_deliveries_def)
  have keep: "{x \<in> set (w_deliveries w). wd_ID x \<noteq> wd_ID d} \<subseteq> set (w_deliveries ?w)"
    by (force simp: cleared_def update_rows_def)
  have clear: "wp (ClearRetrySchedule H (wd_ID d) \<bind> (\<lambda>err. ret ())) (\<lambda>_ w'. good_deliveries w' \<and>
      {x \<in> set (w_deliveries w). wd_ID x \<noteq> wd_ID d} \<subseteq> set (w_deliveries w') \<and> potential w' \<le> potential w) w"
    by (rule wp_bind, rule wp_clear[OF assms(1)], rule wp_return) (use good_cleared[OF assms(1)] keep p in auto)
  have left: "1 + nat (maxAttempts - (wd_Attempt d + 1)) \<le> attempts_left d"
    using d assms(3) by (auto simp: good_delivery_def attempts_left_def)
  have again: "wp (ClearRetrySchedule H (wd_ID d) \<bind> (\<lambda>err. attempt_of H e a t b (wd_Attempt d + 1) \<bind> (\<lambda>again. deliver H ep again b)))
      (\<lambda>_ w'. good_deliveries w' \<and> {x \<in> set (w_deliveries w). wd_ID x \<noteq> wd_ID d} \<subseteq> set (w_deliveries w') \<and> potential w' \<le> potential w) w" for e a t b ep
    unfolding attempt_of_def
  proof (rule wp_bind, rule wp_clear[OF assms(1)], rule wp_bind, rule wp_bind, rule wp_draw, rule wp_return, rule wp_deliver, goal_cases)
    case 1 show ?case using good_cleared[OF assms(1)] by (simp add: good_deliveries_def)
  next
    case (6 w')
    then show ?case using keep p left by (auto simp: potential_def)
  qed (use d assms(3) in \<open>auto simp: good_delivery_def\<close>)
  have read: "wp (GetEndpointByID H i) (\<lambda>_ w'. w' = w) w" for i
    unfolding GetEndpointByID_def by (intro wp_hook_lifts eps.wp_t_first) simp
  show ?thesis unfolding retry_def
    by (rule wp_bind, rule wp_mono[OF read], hypsubst, rule wp_case_sum, rule clear, rule wp_if, rule clear, rule again)
qed

lemma wp_processRetries:
  assumes "good_deliveries w"
  shows "wp (processRetries H) (\<lambda>_ w'. good_deliveries w' \<and> potential w' \<le> potential w) w"
  unfolding processRetries_def GetPendingRetries_def
proof (rule wp_bind, rule wp_rds, rule wp_time_now, rule wp_bind, rule wp_bind, rule wp_hook_lifts(2), rule dels.wp_u_find, rule wp_return, goal_cases)
  case (1 xs)
  let ?P = "\<lambda>ys w'. good_deliveries w' \<and> set ys \<subseteq> set (w_deliveries w') \<and> distinct (map wd_ID ys) \<and>
    (\<forall>d\<in>set ys. wd_NextRetryAt d \<noteq> None) \<and> potential w' \<le> potential w"
  have u: "x = y" if "x \<in> set (w_deliveries w)" "y \<in> set (w_deliveries w)" "wd_ID x = wd_ID y" for x y
    using assms clash_unique[where clash = delivery_clash, OF _ that(1,2)] that(3) by (simp add: good_deliveries_def delivery_clash_def)
  have "distinct (w_deliveries w)"
    using assms by (auto simp: good_deliveries_def no_clash_def delivery_clash_def distinct_conv_nth sorted_wrt_iff_nth_less nat_neq_iff) metis+
  then have "distinct xs" using 1 card_distinct[of xs] distinct_card[of "filter (due (rnow (w_redis w))) (w_deliveries w)"] by simp
  moreover have "inj_on wd_ID (set xs)" using 1(1) u by (auto intro!: inj_onI)
  ultimately have "distinct (map wd_ID (take 100 xs))" by (simp add: distinct_map inj_on_subset set_take_subset)
  moreover have sub: "set (take 100 xs) \<subseteq> {d \<in> set (w_deliveries w). due (rnow (w_redis w)) d}" using 1(1) set_take_subset[of 100 xs] by simp
  ultimately have P: "?P (take 100 xs) w" using assms by (auto simp: due_def split: option.splits)
  have "wp (for_each (take 100 xs) (retry H)) (\<lambda>_. ?P []) w"
  proof (rule wp_for_each_step[where P = ?P])
    fix d ys w1 assume P: "?P (d # ys) w1"
    show "wp (retry H d) (\<lambda>_. ?P ys) w1"
      by (rule wp_mono[OF wp_retry]) (use P in \<open>auto simp: subset_iff image_iff\<close>)
  qed (fact P)
  then show ?case by (auto elim!: wp_mono)
qed

lemma wp_retryWorker:
  "good_deliveries w \<Longrightarrow> wp (retryWorker H ticks) (\<lambda>_ w'. good_deliveries w' \<and> potential w' \<le> potential w) w"
proof (induction ticks arbitrary: w)
  case Nil
  then show ?case by (simp add: wp_return)
next
  case (Cons t ticks)
  have wait: "wp (rds (wait_until t)) (\<lambda>_ w'. good_deliveries w' \<and> potential w' = potential w) w"
    using Cons.prems by (auto simp: wp_def wait_until_def good_deliveries_def potential_def)
  show ?case unfolding retryWorker.simps
  proof (rule wp_bind, rule wp_mono[OF wait], elim conjE, rule wp_bind, rule wp_mono[OF wp_processRetries], assumption, elim conjE, goal_cases)
    case (1 _ w1 _ w2)
    then show ?case using Cons.IH[of w2] by (auto elim!: wp_mono)
  qed
qed

end

definition active_for :: "string \<Rightarrow> string \<Rightarrow> WebhookEndpoint \<Rightarrow> bool" where
  "active_for appID eventType e \<longleftrightarrow> we_AppID e = appID \<and> we_EventType e = eventType \<and> we_IsActive e \<and> we_DeletedAt e = None"

context hook_stack
begin

lemma wp_active:
  "wp (GetActiveEndpointsForEvent H appID ev) (\<lambda>x w'. w' = w \<and> (\<forall>es. x = Inr es \<longrightarrow>
     set es = {e \<in> set (w_endpoints w). active_for appID ev e} \<and> length es = length (filter (active_for appID ev) (w_endpoints w)))) w"
  unfolding GetActiveEndpointsForEvent_def
proof (rule wp_hook_lifts(1), rule eps.wp_t_find, goal_cases)
  case (1 x)
  have "set es = {e \<in> set (w_endpoints w). active_for appID ev e} \<and> length es = length (filter (active_for appID ev) (w_endpoints w))"
    if "x = Inr es" for es
  proof -
    have c: "count_list es y = count_list (filter (active_for appID ev) (w_endpoints w)) y" for y
      using 1 that by (simp add: find_post_def active_for_def[abs_def])
    show ?thesis using set_count[of es, OF c] length_count[of es, OF c] by simp
  qed
  then show ?case by simp
qed

lemma wp_dispatch:
  assumes "good_deliveries w"
  shows "wp (hook_Dispatch H appID ev data) (\<lambda>_ w'. good_deliveries w' \<and>
     potential w' \<le> potential w + 5 * length (filter (active_for appID ev) (w_endpoints w))) w"
  unfolding hook_Dispatch_def
proof (rule wp_bind, rule wp_mono[OF wp_active], elim conjE, hypsubst, rule wp_case_sum, goal_cases)
  case (2 x w1 es)
  then have n: "length es = length (filter (active_for appID ev) (w_endpoints w))" by simp
  show ?case
  proof (rule wp_if, goal_cases)
    case 2
    show ?case
    proof (rule wp_case_option, goal_cases)
      case (2 dataJSON)
      define P where "P = (\<lambda>(ys :: WebhookEndpoint list) w'. good_deliveries w' \<and> potential w' + 5 * length ys \<le> potential w + 5 * length es)"
      have run: "wp (for_each es (\<lambda>ep. attempt_of H (we_ID ep) appID ev payload 1 \<bind> (\<lambda>d. deliver H ep d payload))) (\<lambda>_. P []) w" for payload
      proof (rule wp_for_each_step[where P = P])
        fix ep ys w1 assume P: "P (ep # ys) w1"
        show "wp (attempt_of H (we_ID ep) appID ev payload 1 \<bind> (\<lambda>d. deliver H ep d payload)) (\<lambda>_. P ys) w1"
          unfolding attempt_of_def
          by (rule wp_bind, rule wp_bind, rule wp_draw, rule wp_return, rule wp_deliver)
             (use P in \<open>auto simp: P_def good_deliveries_def potential_def maxAttempts_def\<close>)
      qed (use assms in \<open>simp add: P_def\<close>)
      show ?case unfolding Let_def
        by (intro wp_bind wp_rds wp_time_now, rule wp_mono) (simp, rule run, simp add: P_def n)
    qed (use assms in \<open>auto intro: wp_return\<close>)
  qed (use assms in \<open>auto intro: wp_return\<close>)
qed (use assms in \<open>auto intro: wp_return\<close>)

end

context live_hooks
begin

lemmas dispatch_bound = wp_dispatch

end

section \<open>What is posted\<close>

text \<open>Every request posted since \<open>w\<close> went to an endpoint with \<open>p\<close>, signed with that endpoint's secret.\<close>

definition posted_to :: "hook_env \<Rightarrow> (WebhookEndpoint \<Rightarrow> bool) \<Rightarrow> hworld \<Rightarrow> hworld \<Rightarrow> bool" where
  "posted_to H p w w' \<longleftrightarrow> w_endpoints w' = w_endpoints w \<and> (\<exists>new. w_posts w' = new @ w_posts w \<and>
     (\<forall>x\<in>set new. \<exists>ep\<in>set (w_endpoints w). \<exists>body. p ep \<and> x = (we_URL ep, request_headers H ep body, body)))"

lemma posted_same: "w_endpoints w' = w_endpoints w \<Longrightarrow> w_posts w' = w_posts w \<Longrightarrow> posted_to H p w w'"
  by (simp add: posted_to_def)

lemma posted_trans: "posted_to H p w w1 \<Longrightarrow> posted_to H p w1 w' \<Longrightarrow> posted_to H p w w'"
  by (fastforce simp: posted_to_def)

lemma posted_mono: "posted_to H p w w' \<Longrightarrow> (\<And>e. p e \<Longrightarrow> q e) \<Longrightarrow> posted_to H q w w'"
  unfolding posted_to_def by meson

definition open_for_posts :: "WebhookEndpoint \<Rightarrow> bool" where
  "open_for_posts e \<longleftrightarrow> we_IsActive e \<and> we_DeletedAt e = None"

lemma active_open: "active_for appID ev e \<Longrightarrow> open_for_posts e"
  by (simp add: active_for_def open_for_posts_def)

context hook_stack
begin

lemma wp_posted_bind:
  assumes "wp m (\<lambda>_. posted_to H p w) w" and "\<And>a w1. posted_to H p w w1 \<Longrightarrow> wp (f a) (\<lambda>_. posted_to H p w1) w1"
  shows "wp (m \<bind> f) (\<lambda>_. posted_to H p w) w"
  by (rule wp_bind, rule wp_mono[OF assms(1)], rule wp_mono[OF assms(2)]) (auto intro: posted_trans)

lemma posted_create: "wp (CreateDelivery H d) (\<lambda>_. posted_to H p w) w"
  unfolding CreateDelivery_def by (intro wp_bind wp_rds wp_time_now wp_hook_lifts(2) wp_any posted_same) simp_all

lemma posted_clear: "wp (ClearRetrySchedule H i) (\<lambda>_. posted_to H p w) w"
  unfolding ClearRetrySchedule_def by (intro wp_hook_lifts(2) wp_any posted_same) simp_all

lemma posted_next_try: "wp (next_try d) (\<lambda>_. posted_to H p w) w"
  unfolding next_try_def retryAt_def by (intro wp_if wp_bind wp_rds wp_Let wp_time_now wp_return posted_same) simp_all

lemma posted_return: "wp (ret a) (\<lambda>_. posted_to H p w) w"
  by (rule wp_return, rule posted_same) simp_all

lemma posted_attempt: "wp (attempt_of H e a t b n) (\<lambda>_. posted_to H p w) w"
  unfolding attempt_of_def by (intro wp_bind wp_draw wp_return posted_same) simp_all

lemma posted_deliver:
  assumes "ep \<in> set (w_endpoints w)" and "p ep"
  shows "wp (deliver H ep d payload) (\<lambda>_. posted_to H p w) w"
proof -
  have post: "wp (post H ep payload) (\<lambda>_. posted_to H p w) w"
    unfolding post_def
    by (rule wp_bind, rule wp_draw, rule wp_bind, rule wp_get, rule wp_bind)
       (use assms in \<open>auto intro!: wp_return wp_set simp: posted_to_def split: posted.split\<close>)
  note steps = posted_create posted_next_try posted_return
  show ?thesis unfolding deliver_def
  proof (rule wp_posted_bind[OF post])
    fix a w1
    have retry: "wp (scheduleRetryOrSave H d') (\<lambda>_. posted_to H p w1) w1" for d'
      unfolding scheduleRetryOrSave_def by (intro wp_posted_bind steps)
    show "wp (case a of NoRequest e \<Rightarrow> scheduleRetryOrSave H (d\<lparr>wd_ErrorMessage := ''failed to build request: '' @ e\<rparr>)
     | NoReply ms e \<Rightarrow> scheduleRetryOrSave H (d\<lparr>wd_LatencyMs := ms, wd_ErrorMessage := ''delivery error: '' @ e\<rparr>)
     | Replied ms status body \<Rightarrow> do {
         let d = d\<lparr>wd_LatencyMs := ms, wd_StatusCode := status, wd_ResponseBody := take maxResponseBytes body,
           wd_Success := (200 \<le> status \<and> status < 300)\<rparr>;
         d \<leftarrow> (if \<not> wd_Success d then next_try d else ret d);
         err \<leftarrow> CreateDelivery H d;
         ret () }) (\<lambda>_. posted_to H p w1) w1"
      by (cases a) (simp_all only: posted.case Let_def retry, intro wp_posted_bind wp_if steps)
  qed
qed

lemma posted_each:
  assumes "\<And>x w1. x \<in> set xs \<Longrightarrow> posted_to H p w w1 \<Longrightarrow> wp (f x) (\<lambda>_. posted_to H p w1) w1"
  shows "wp (for_each xs f) (\<lambda>_. posted_to H p w) w"
proof -
  have "wp (for_each xs f) (\<lambda>_ w'. set [] \<subseteq> set xs \<and> posted_to H p w w') w"
  proof (rule wp_for_each_step[where P = "\<lambda>ys w'. set ys \<subseteq> set xs \<and> posted_to H p w w'"])
    fix x ys w1 assume "set (x # ys) \<subseteq> set xs \<and> posted_to H p w w1"
    then show "wp (f x) (\<lambda>_ w'. set ys \<subseteq> set xs \<and> posted_to H p w w') w1"
      by (auto intro: wp_mono[OF assms] posted_trans)
  qed (simp add: posted_same)
  then show ?thesis by simp
qed

lemma posted_dispatch: "wp (hook_Dispatch H appID ev data) (\<lambda>_. posted_to H (active_for appID ev) w) w"
  unfolding hook_Dispatch_def
proof (rule wp_bind, rule wp_mono[OF wp_active], elim conjE, hypsubst, rule wp_case_sum, rule posted_return, goal_cases)
  case (1 x _ es)
  then have es: "set es = {e \<in> set (w_endpoints w). active_for appID ev e}" by simp
  have "wp (for_each es (\<lambda>ep. attempt_of H (we_ID ep) appID ev payload 1 \<bind> (\<lambda>d. deliver H ep d payload)))
      (\<lambda>_. posted_to H (active_for appID ev) w) w" for payload
    by (rule posted_each, rule wp_posted_bind[OF posted_attempt], rule posted_deliver) (auto simp: es posted_to_def)
  then show ?case
    by (auto simp: Let_def intro!: wp_if wp_case_option posted_return wp_bind wp_rds wp_time_now)
qed

lemma posted_retry: "wp (retry H d) (\<lambda>_. posted_to H open_for_posts w) w"
proof -
  have read: "wp (GetEndpointByID H i) (\<lambda>x w'. w' = w \<and> (\<forall>ep. x = Inr ep \<longrightarrow> ep \<in> set (w_endpoints w))) w" for i
    unfolding GetEndpointByID_def
    by (intro wp_hook_lifts eps.wp_t_first) (auto simp: first_post_def)
  have clear: "wp (ClearRetrySchedule H i \<bind> (\<lambda>err. ret ())) (\<lambda>_. posted_to H open_for_posts w1) w1" for i w1
    by (intro wp_posted_bind posted_clear posted_return)
  show ?thesis unfolding retry_def
  proof (rule wp_bind, rule wp_mono[OF read], elim conjE, hypsubst, rule wp_case_sum, rule clear, rule wp_if, rule clear, goal_cases)
    case (1 x w1 ep)
    then show ?case
      by (intro wp_posted_bind posted_clear posted_attempt posted_deliver) (auto simp: posted_to_def open_for_posts_def)
  qed
qed

lemma posted_processRetries: "wp (processRetries H) (\<lambda>_. posted_to H open_for_posts w) w"
proof -
  have due: "wp (GetPendingRetries H t n) (\<lambda>_. posted_to H open_for_posts w1) w1" for t n w1
    unfolding GetPendingRetries_def
    by (intro wp_bind wp_hook_lifts(2) wp_any wp_return posted_same) simp_all
  show ?thesis unfolding processRetries_def
    by (rule wp_bind, rule wp_rds, rule wp_time_now, rule wp_mono, rule wp_posted_bind[OF due], rule wp_case_sum)
       (auto intro: posted_return posted_each posted_retry)
qed

lemma posted_retryWorker: "wp (retryWorker H ticks) (\<lambda>_. posted_to H open_for_posts w) w"
proof (induction ticks arbitrary: w)
  case (Cons t ticks)
  have "wp (rds (wait_until t)) (\<lambda>_. posted_to H open_for_posts w) w"
    by (auto simp: wp_def wait_until_def intro: posted_same)
  then show ?case unfolding retryWorker.simps
    by (intro wp_posted_bind posted_processRetries Cons.IH)
qed (simp add: posted_return)

end

section \<open>Properties\<close>


text \<open>
  C39: whatever an event and the retries post goes to an endpoint that is active and not deleted, and carries
  the HMAC of the posted body under the secret of that endpoint.
\<close>

theorem posts_signed:
  assumes "hook_stack H"
    and "run_state (hook_Dispatch H appID ev data) w = (u, w1)" and "run_state (retryWorker H ticks) w1 = (v, w2)"
  shows "\<exists>new. w_posts w2 = new @ w_posts w \<and> (\<forall>(url, headers, body)\<in>set new. \<exists>ep\<in>set (w_endpoints w).
    we_IsActive ep \<and> we_DeletedAt ep = None \<and> url = we_URL ep \<and>
    (''X-Webhook-Signature'', ''sha256='' @ hk_hmac H (we_Secret ep) body) \<in> set headers)"
proof -
  have "posted_to H (active_for appID ev) w w1" and "posted_to H open_for_posts w1 w2"
    using hook_stack.posted_dispatch[OF assms(1), of appID ev data w] hook_stack.posted_retryWorker[OF assms(1), of ticks w1] assms(2,3)
    by (simp_all add: wp_def)
  then have "posted_to H open_for_posts w w2"
    by (blast intro: posted_trans posted_mono[where p = "active_for appID ev"] dest: active_open)
  then show ?thesis
    by (fastforce simp: posted_to_def open_for_posts_def request_headers_def signPayload_def)
qed

section \<open>A run\<close>

text \<open>One endpoint, which answers every request with an error; the worker ticks seven times.\<close>

definition demo_endpoint :: WebhookEndpoint where
  "demo_endpoint = \<lparr>we_ID = ''e'', we_AppID = ''a'', we_EventType = ''user.login'', we_URL = ''http://h'', we_Secret = ''s'',
     we_IsActive = True, we_CreatedAt = 0, we_UpdatedAt = 0, we_DeletedAt = None\<rparr>"

definition demo_hooks :: hook_env where
  "demo_hooks = \<lparr>hk_endpoints = ref_table endpoint_clash, hk_deliveries = ref_table delivery_clash, hk_uuid = demo_uuid,
     hk_parse = Some, hk_random_hex = Inr \<circ> demo_uuid, hk_hmac = (\<lambda>k m. k @ m), hk_json = (\<lambda>_. ''{}''),
     http_post = (\<lambda>_ _ _ _. Replied 1 500 [])\<rparr>"

definition demo_hook_world :: hworld where
  "demo_hook_world = \<lparr>w_redis = empty_redis, w_rand = 0, w_endpoints = [demo_endpoint], w_deliveries = [], w_posts = []\<rparr>"

definition demo_ticks :: "instant list" where
  "demo_ticks = map (\<lambda>k. k * minute) [1, 2, 3, 4, 5, 6, 7]"

definition demo_dispatched :: "unit \<times> hworld" where
  "demo_dispatched = run_state (hook_Dispatch demo_hooks ''a'' ''user.login'' (Some ''{}'')) demo_hook_world"

definition demo_retried :: "unit \<times> hworld" where
  "demo_retried = run_state (retryWorker demo_hooks demo_ticks) (snd demo_dispatched)"

interpretation demo_live_hooks: live_hooks demo_hooks
  by (simp add: live_hooks_def demo_hooks_def ref_table.table_server_axioms ref_up.reliable_table_axioms)

lemma demo_hook_posts: "length (w_posts (snd demo_retried)) = 5"
  by code_simp

lemma demo_hook_runs:
  "run_state (hook_Dispatch demo_hooks ''a'' ''user.login'' (Some ''{}'')) demo_hook_world = ((), snd demo_dispatched)"
  "run_state (retryWorker demo_hooks demo_ticks) (snd demo_dispatched) = ((), snd demo_retried)"
  by (simp_all add: demo_dispatched_def demo_retried_def prod_eq_iff)


theorem posts_signed_witness:
  "\<exists>headers body. (''http://h'', headers, body) \<in> set (w_posts (snd demo_retried)) \<and>
     (''X-Webhook-Signature'', ''sha256=s'' @ body) \<in> set headers"
proof -
  obtain url headers body where x: "(url, headers, body) \<in> set (w_posts (snd demo_retried))"
    using demo_hook_posts by (cases "w_posts (snd demo_retried)") auto
  with posts_signed[OF demo_live_hooks.hook_stack_axioms demo_hook_runs]
  show ?thesis by (fastforce simp: demo_hook_world_def demo_endpoint_def demo_hooks_def)
qed

end
