(* ===== verification/Spec2Isabelle.thy ===== *)
theory Spec2Isabelle
  imports SessionSpec TokenSpec RateLimitSpec GuardSpec AccountSpec LoginSpec MethodSpec SsoHandler OidcSpec RbacSpec SocialSpec GroupSpec StoreTypes WebhookSpec
begin

text \<open>
  A verification library of the authentication API.
\<close>

section \<open>Sessions\<close>

text \<open>
  C1: a login gives tokens the middleware accepts.  On a server that is up, \<open>CreateSession\<close>
  with a fresh session id returns a token pair, and until the access token or the session runs
  out a request with that token is authenticated as the user, in the new session, whatever
  other keys were written meanwhile; an earlier blacklisting of the user is lifted.
\<close>

theorem login_authenticates:
  assumes "live_stack R E"
    and "rdata (w_redis w) (SessionKey a (uuid (w_rand w))) = None"
    and "set_of (rdata (w_redis w) (UserSessionsKey a u)) \<noteq> None"
    and "uuid (w_rand w) \<noteq> []"
    and "ascii a" "ascii u" "ascii (uuid (w_rand w))" "\<forall>x\<in>set rs. ascii x"
    and "run_state (svc_CreateSession R E uuid a u ip ua rs attl rttl) w = (x, w1)"
    and "\<forall>y. expiry_of (rdata (w_redis w) (UserSessionsKey a u)) = Some y \<longrightarrow> rnow (w_redis w1) < y"
  shows "\<exists>at rt. x = Inr (at, rt, uuid (w_rand w)) \<and>
    (\<forall>K r2 c y r3. writes K (w_redis w1) r2 \<and> SessionKey a (uuid (w_rand w)) \<notin> K \<and> BlacklistUserKey a u \<notin> K \<and>
       rdata r2 (BlacklistTokenKey a at) = None \<and> GetHeader c ''Authorization'' = ''Bearer '' @ at \<and>
       run_state (AuthMiddleware (Some R) E c) r2 = (y, r3) \<and>
       rnow r2 < rnow (w_redis w) + access_ttl E attl - second \<and> rnow r3 < rnow (w_redis w) + refresh_ttl E rttl \<longrightarrow>
       authenticated_as y a u \<and> in_session y a (uuid (w_rand w)))"
  using assms by (rule live_stack.login_admits)

theorem login_authenticates_witness:
  "\<exists>at rt. fst demo_login = Inr (at, rt, demo_uuid (w_rand demo_world)) \<and>
    (\<forall>K r2 c y r3. writes K (w_redis (snd demo_login)) r2 \<and> SessionKey ''a'' (demo_uuid (w_rand demo_world)) \<notin> K \<and>
       BlacklistUserKey ''a'' ''u'' \<notin> K \<and> rdata r2 (BlacklistTokenKey ''a'' at) = None \<and>
       GetHeader c ''Authorization'' = ''Bearer '' @ at \<and> run_state (AuthMiddleware (Some demo_redis) ref_env c) r2 = (y, r3) \<and>
       rnow r2 < rnow (w_redis demo_world) + access_ttl ref_env 0 - second \<and>
       rnow r3 < rnow (w_redis demo_world) + refresh_ttl ref_env 0 \<longrightarrow>
       authenticated_as y ''a'' ''u'' \<and> in_session y ''a'' (demo_uuid (w_rand demo_world)))"
proof (rule login_authenticates[OF ref_live.live_stack_axioms])
  show "run_state (svc_CreateSession demo_redis ref_env demo_uuid ''a'' ''u'' ''10.0.0.1'' ''curl''
     [''user''] 0 0) demo_world = (fst demo_login, snd demo_login)" by (simp add: demo_login_def)
  show "\<forall>y. expiry_of (rdata (w_redis demo_world) (UserSessionsKey ''a'' ''u'')) = Some y \<longrightarrow> rnow (w_redis (snd demo_login)) < y"
    by (simp add: demo_world_def empty_redis_def expiry_of_def)
  show "rdata (w_redis demo_world) (SessionKey ''a'' (demo_uuid (w_rand demo_world))) = None"
    by (simp add: demo_world_def empty_redis_def)
  show "set_of (rdata (w_redis demo_world) (UserSessionsKey ''a'' ''u'')) \<noteq> None"
    by (simp add: demo_world_def empty_redis_def set_of_def)
  show "demo_uuid (w_rand demo_world) \<noteq> []" by (simp add: demo_uuid_def)
  show "ascii (demo_uuid (w_rand demo_world))" by code_simp
qed (simp_all add: ascii_def)

text \<open>
  C2: what it takes to pass the middleware.  A request goes on only with a token the library
  accepts at that moment, of type access (or of no type, from before types existed), that is not
  blacklisted, whose user is not blacklisted and whose session is still there; it goes on with
  the identity of the claims, and Redis is left as it was.
\<close>

theorem middleware_sound:
  assumes "redis_server R"
    and "run_state (AuthMiddleware (Some R) E c) r = (Next c', r')"
  shows "\<exists>cl. ParseWithClaims (je_api E) (token_key E) (rnow r) (bearer_token (GetHeader c ''Authorization'')) = Inr (cl, True) \<and>
     (TokenType cl = [] \<or> TokenType cl = TokenTypeAccess) \<and>
     admits r' (bearer_token (GetHeader c ''Authorization'')) cl \<and> c' = set_identity cl c \<and> reads r r'"
  using wpD[OF redis_server.wp_AuthMiddleware[OF assms(1)] assms(2)] by blast

theorem middleware_sound_witness:
  "\<exists>c' cl. fst demo_auth = Next c' \<and> admits (snd demo_auth) demo_access cl \<and> c' = set_identity cl (demo_ctx (''Bearer '' @ demo_access))"
proof -
  obtain c' where c': "fst demo_auth = Next c'" using demo_auth_ok by blast
  have b: "bearer_token (GetHeader (demo_ctx (''Bearer '' @ demo_access)) ''Authorization'') = demo_access"
    by code_simp
  show ?thesis
    using middleware_sound[OF ref0.redis_server_axioms run_eq[OF c'[unfolded demo_auth_def]]]
    unfolding b using c' by (auto simp: demo_auth_def)
qed

text \<open>
  C3: logout ends the session at once.  Once \<open>LogoutSession\<close> has answered without error, no
  request is ever authenticated in that session again, with whatever token, unless somebody
  writes the session key anew; also when the best-effort steps of the logout failed.
\<close>

theorem logout_ends_session:
  assumes "redis_server R"
    and "run_state (svc_LogoutSession R E a u s at) r = (Returned None, r1)"
    and "writes K r1 r2" and "SessionKey a s \<notin> K" and "ctx_keys c ''sessionID'' = None"
    and "run_state (AuthMiddleware (Some R) E c) r2 = (x, r3)"
  shows "\<not> in_session x a s"
proof -
  have "rdata r1 (SessionKey a s) = None"
    using wpD[OF redis_server.wp_svc_LogoutSession[OF assms(1)] assms(2)] by simp
  with assms(3,4) have "live r2 (SessionKey a s) = None" by (simp add: live_None writes_keep)
  then show ?thesis by (rule redis_server.dead_session_rejected[OF assms(1) _ assms(5,6)])
qed

theorem logout_ends_session_witness:
  "\<not> in_session (fst (run_state (AuthMiddleware (Some demo_redis) ref_env (demo_ctx (''Bearer '' @ demo_access)))
      (snd demo_logout))) ''a'' ''s0''"
  by (rule logout_ends_session[OF ref0.redis_server_axioms run_eq[OF demo_logout_ok[unfolded demo_logout_def]],
        where K = "{}", folded demo_logout_def])
     (simp_all add: demo_ctx_def prod_eq_iff)

text \<open>
  C4: revoking everything locks the user out.  Once \<open>RevokeAllUserSessions\<close> has answered without
  error, every request of that user is refused for thirty days, even with tokens of sessions
  whose deletion failed, as long as nobody lifts the blacklisting.
\<close>

theorem revocation_locks_out:
  assumes "redis_server R"
    and "run_state (svc_RevokeAllUserSessions R a u) r = (None, r1)"
    and "writes K r1 r2" and "BlacklistUserKey a u \<notin> K"
    and "run_state (AuthMiddleware (Some R) E c) r2 = (x, r3)"
    and "rnow r3 < rnow r1 + maxTokenLifetime"
  shows "\<not> authenticated_as x a u"
proof -
  have "rdata r1 (BlacklistUserKey a u) = Some (RStr ''all_tokens_revoked'', Some (rnow r1 + maxTokenLifetime))"
    using wpD[OF redis_server.wp_svc_RevokeAllUserSessions[OF assms(1)] assms(2)] by simp
  with assms(3,4) have "rdata r2 (BlacklistUserKey a u) = Some (RStr ''all_tokens_revoked'', Some (rnow r1 + maxTokenLifetime))"
    by (simp add: writes_keep)
  then show ?thesis by (rule redis_server.blacklisted_user_rejected[OF assms(1) _ assms(6,5)])
qed

theorem revocation_locks_out_witness:
  "\<not> authenticated_as (fst (run_state (AuthMiddleware (Some demo_redis) ref_env (demo_ctx (''Bearer '' @ demo_access)))
      (snd demo_revoke))) ''a'' ''u''"
proof (rule revocation_locks_out[OF ref0.redis_server_axioms run_eq[OF demo_revoke_ok[unfolded demo_revoke_def]],
        where K = "{}", folded demo_revoke_def])
  show "rnow (snd (run_state (AuthMiddleware (Some demo_redis) ref_env (demo_ctx (''Bearer '' @ demo_access)))
      (snd demo_revoke))) < rnow (snd demo_revoke) + maxTokenLifetime"
    by code_simp
qed (simp_all add: prod_eq_iff)

text \<open>
  C6: a refresh token is spent by its use.  After a refresh that returned a token different from
  the old one, the old token is refused, until somebody writes the session key.
\<close>

theorem refresh_rotates:
  assumes "session_stack R E"
    and "run_state (svc_RefreshSession R E old attl rttl) r = (Inr (at, rt, u), r1)" and "rt \<noteq> old"
    and "ParseWithClaims (je_api E) (token_key E) (rnow r) old = Inr (c, True)"
    and "writes K r1 r2" and "SessionKey (AppID c) (SessionID c) \<notin> K"
    and "run_state (svc_RefreshSession R E old attl2 rttl2) r2 = (x, r3)"
  shows "\<exists>e. x = Inl e"
proof -
  have R: "redis_server R" using assms(1) by (simp add: session_stack_def)
  from wpD[OF redis_server.wp_svc_RefreshSession[OF R] assms(2)] assms(4)
  have "holds_token r1 (AppID c) (SessionID c) rt" by fastforce
  then have "holds_token r2 (AppID c) (SessionID c) rt" using assms(5,6) by (rule holds_token_keep)
  then show ?thesis by (rule session_stack.stale_refresh[OF assms(1,4) _ assms(3)[symmetric] assms(7)])
qed

theorem refresh_rotates_witness:
  "\<exists>e. fst (run_state (svc_RefreshSession demo_redis ref_env demo_refresh 0 0) (snd demo_refreshed)) = Inl e"
proof -
  obtain at rt u where ok: "fst demo_refreshed = Inr (at, rt, u)" "rt \<noteq> demo_refresh"
    using demo_refreshed_ok by (auto split: sum.splits)
  have parse: "ParseWithClaims (je_api ref_env) (token_key ref_env) (rnow demo_state) demo_refresh =
      Inr (issue ref_env TokenTypeRefresh (720 * hour) ''a'' ''u'' ''s0'' [''user''] 0, True)"
    by code_simp
  show ?thesis
    by (rule refresh_rotates[OF ref_stack.session_stack_axioms run_eq[OF ok(1)[unfolded demo_refreshed_def]] ok(2) parse,
          where K = "{}", folded demo_refreshed_def]) (simp_all add: prod_eq_iff)
qed

end
